(* ===== verification/Rv_Prelude.thy ===== *)
theory Rv_Prelude
  imports Main
begin

text \<open>
  Shared vocabulary of the development: Go's strings, times and errors, the
  state-and-error shape of every fallible Go function, and the hint collections
  the component theories fill.

  A Go string is the list of its bytes, so \<open>length\<close> is Go's \<open>len\<close>.  A
  \<open>time.Time\<close> is the number of nanoseconds since the Unix epoch, a SQL timestamp
  column the number of whole seconds.  A Go function that returns
  \<open>(T, error)\<close> and changes a state \<open>'s\<close> is a function of type \<open>('s, 't) go\<close>.
\<close>

named_theorems keeps_intros \<open>state invariants that a statement or a sequence of statements keeps\<close>
named_theorems go_simps \<open>unfolding of the error monad on concrete outcomes\<close>

type_synonym go_string = string
type_synonym user_id = string
type_synonym key_id = string
type_synonym signature_text = string
type_synonym go_time = int

section \<open>Time\<close>

definition nanos_per_second :: int where
  "nanos_per_second = 1000000000"

definition unix_seconds :: "go_time \<Rightarrow> int" where
  "unix_seconds t = t div nanos_per_second"

definition from_unix :: "int \<Rightarrow> go_time" where
  "from_unix s = s * nanos_per_second"

definition seconds :: "int \<Rightarrow> go_time" where
  "seconds n = n * nanos_per_second"

abbreviation minutes :: "int \<Rightarrow> go_time" where
  "minutes n \<equiv> seconds (60 * n)"

abbreviation hours :: "int \<Rightarrow> go_time" where
  "hours n \<equiv> seconds (3600 * n)"

lemma unix_from_unix [simp]: "unix_seconds (from_unix s) = s"
  by (simp add: unix_seconds_def from_unix_def nanos_per_second_def)

lemma unix_add_seconds [simp]: "unix_seconds (t + seconds n) = unix_seconds t + n"
  by (simp add: unix_seconds_def seconds_def nanos_per_second_def)

lemma unix_diff_seconds [simp]: "unix_seconds (t - seconds n) = unix_seconds t - n"
  using unix_add_seconds [of t "- n"] by (simp add: seconds_def)

lemma unix_mono: "t \<le> u \<Longrightarrow> unix_seconds t \<le> unix_seconds u"
  by (simp add: unix_seconds_def nanos_per_second_def zdiv_mono1)

lemma from_unix_le: "from_unix (unix_seconds t) \<le> t"
proof -
  have "(t div 1000000000) * 1000000000 \<le> t" by presburger
  then show ?thesis by (simp add: from_unix_def unix_seconds_def nanos_per_second_def)
qed

lemma from_unix_less_mono [simp]: "from_unix a < from_unix b \<longleftrightarrow> a < b"
  by (simp add: from_unix_def nanos_per_second_def)

section \<open>Errors\<close>

text \<open>
  The errors of the server.  Sentinel errors of the stores have a constructor
  each; \<open>Err_Db\<close> is a failed statement (lost connection, timeout), \<open>Err_Unique\<close>
  and \<open>Err_Foreign_Key\<close> are the constraint errors of the two databases,
  \<open>Err_Panic\<close> a Go panic, \<open>Err_Response\<close> an error with an HTTP status code,
  \<open>Err_Msg\<close> any other \<open>errors.New\<close>.
\<close>

datatype go_error =
    Err_Db
  | Err_Unique
  | Err_Foreign_Key
  | Err_Json
  | Err_Random
  | Err_Msg string
  | Err_Panic string
  | Err_Response nat string
  | Err_Request_Not_Modifiable
  | Err_User_Already_Exists
  | Err_User_Not_Found
  | Err_Invalid_Login
  | Err_Invalid_Challenge
  | Err_Credential_Not_Found
  | Err_Last_Credential
  | Err_Display_Name_Too_Long
  | Err_Already_Finalized
  | Err_Invalid_IP string
  | Err_Invalid_CIDR string
  | Err_Signing_Key_Already_Exists
  | Err_Signing_Key_Not_Found
  | Err_Audit_Invalid_Event_Type
  | Err_Audit_Invalid_Outcome
  | Err_Audit_Invalid_Auth_Method
  | Err_Audit_Metadata_Too_Large
  | Err_Audit_Metadata_Invalid
  | Err_Audit_Client_IP_Too_Long
  | Err_Audit_Invalid_Cursor
  | Err_Audit_Filter_Conflict

type_synonym 'a go_result = "go_error + 'a"

definition is_ok :: "'a go_result \<Rightarrow> bool" where
  "is_ok r = (case r of Inl _ \<Rightarrow> False | Inr _ \<Rightarrow> True)"

lemma is_ok_simps [simp]: "is_ok (Inr x)" "\<not> is_ok (Inl e)"
  by (simp_all add: is_ok_def)

lemma is_ok_iff: "is_ok r \<longleftrightarrow> (\<exists>x. r = Inr x)"
  by (cases r) auto

text \<open>A chain of checks that came through: each check passed.\<close>

lemma checks_passed:
  "(if b then Inl e else k) = Inr x \<longleftrightarrow> \<not> b \<and> k = Inr x"
  "(case z of None \<Rightarrow> Inl e | Some y \<Rightarrow> f y) = Inr x \<longleftrightarrow> (\<exists>y. z = Some y \<and> f y = Inr x)"
  "(case r of Inl d \<Rightarrow> Inl (g d) | Inr v \<Rightarrow> h v) = Inr x \<longleftrightarrow> (\<exists>v. r = Inr v \<and> h v = Inr x)"
  by (auto split: option.splits sum.splits)

section \<open>Functions with state and errors\<close>

type_synonym ('s, 'a) go = "'s \<Rightarrow> 'a go_result \<times> 's"

definition go_return :: "'a \<Rightarrow> ('s, 'a) go" where
  "go_return x s = (Inr x, s)"

definition go_fail :: "go_error \<Rightarrow> ('s, 'a) go" where
  "go_fail e s = (Inl e, s)"

definition go_bind :: "('s, 'a) go \<Rightarrow> ('a \<Rightarrow> ('s, 'b) go) \<Rightarrow> ('s, 'b) go" where
  "go_bind m k s = (case m s of (Inl e, s1) \<Rightarrow> (Inl e, s1) | (Inr x, s1) \<Rightarrow> k x s1)"

definition go_lift :: "'a go_result \<Rightarrow> ('s, 'a) go" where
  "go_lift r s = (r, s)"

text \<open>A call whose error the caller inspects: it always succeeds, with the outcome as value.\<close>

definition go_try :: "('s, 'a) go \<Rightarrow> ('s, 'a go_result) go" where
  "go_try m s = (case m s of (r, s1) \<Rightarrow> (Inr r, s1))"

definition go_when :: "bool \<Rightarrow> ('s, unit) go \<Rightarrow> ('s, unit) go" where
  "go_when b m = (if b then m else go_return ())"

lemma go_return_apply [simp, go_simps]: "go_return x s = (Inr x, s)"
  by (simp add: go_return_def)

lemma go_fail_apply [simp, go_simps]: "go_fail e s = (Inl e, s)"
  by (simp add: go_fail_def)

lemma go_lift_apply [simp, go_simps]: "go_lift r s = (r, s)"
  by (simp add: go_lift_def)

lemma go_bind_Inr [go_simps]: "m s = (Inr x, s1) \<Longrightarrow> go_bind m k s = k x s1"
  by (simp add: go_bind_def)

lemma go_bind_Inl [go_simps]: "m s = (Inl e, s1) \<Longrightarrow> go_bind m k s = (Inl e, s1)"
  by (simp add: go_bind_def)

lemma go_try_apply: "go_try m s = (Inr (fst (m s)), snd (m s))"
  by (simp add: go_try_def case_prod_beta)

lemma go_bind_okE:
  assumes "go_bind m k s = (Inr y, s2)"
  obtains x s1 where "m s = (Inr x, s1)" "k x s1 = (Inr y, s2)"
  using assms by (auto simp: go_bind_def split: prod.splits sum.splits)

lemma go_bind_cases:
  obtains (err) e s1 where "m s = (Inl e, s1)" "go_bind m k s = (Inl e, s1)"
        | (ok) x s1 where "m s = (Inr x, s1)" "go_bind m k s = k x s1"
  by (cases "m s"; cases "fst (m s)") (auto simp: go_bind_def)

text \<open>A sequence of calls that came through, as equations.\<close>

lemma go_ok_iffs:
  "go_bind m k s = (Inr y, s2) \<longleftrightarrow> (\<exists>x s1. m s = (Inr x, s1) \<and> k x s1 = (Inr y, s2))"
  "(case z of None \<Rightarrow> go_fail e | Some v \<Rightarrow> f v) s = (Inr y, s2) \<longleftrightarrow> (\<exists>v. z = Some v \<and> f v s = (Inr y, s2))"
  by (auto simp: go_bind_def split: prod.splits sum.splits option.splits)

section \<open>Properties every call keeps\<close>

definition keeps :: "('s \<Rightarrow> bool) \<Rightarrow> ('s, 'a) go \<Rightarrow> bool" where
  "keeps I m \<longleftrightarrow> (\<forall>s. I s \<longrightarrow> I (snd (m s)))"

lemma keepsI: "(\<And>s. I s \<Longrightarrow> I (snd (m s))) \<Longrightarrow> keeps I m"
  by (simp add: keeps_def)

lemma keepsD: "keeps I m \<Longrightarrow> I s \<Longrightarrow> I (snd (m s))"
  by (simp add: keeps_def)

lemma keeps_stepD: "keeps I m \<Longrightarrow> I s \<Longrightarrow> m s = (r, s1) \<Longrightarrow> I s1"
  using keepsD by fastforce

lemma keeps_return [keeps_intros]: "keeps I (go_return x)"
  by (simp add: keeps_def)

lemma keeps_fail [keeps_intros]: "keeps I (go_fail e)"
  by (simp add: keeps_def)

lemma keeps_lift [keeps_intros]: "keeps I (go_lift r)"
  by (simp add: keeps_def)

lemma keeps_bind [keeps_intros]:
  assumes "keeps I m" and "\<And>x. keeps I (k x)"
  shows "keeps I (go_bind m k)"
proof (rule keepsI)
  fix s assume "I s"
  then show "I (snd (go_bind m k s))"
    using assms by (cases rule: go_bind_cases [of m s k]) (auto simp: keeps_def dest: keeps_stepD)
qed

lemma keeps_bind_lift: "(\<And>x. r = Inr x \<Longrightarrow> keeps I (k x)) \<Longrightarrow> keeps I (go_bind (go_lift r) k)"
  by (cases r) (simp_all add: keeps_def go_bind_def)

lemma keeps_try [keeps_intros]: "keeps I m \<Longrightarrow> keeps I (go_try m)"
  by (simp add: keeps_def go_try_apply)

lemma keeps_when [keeps_intros]: "keeps I m \<Longrightarrow> keeps I (go_when b m)"
  by (simp add: go_when_def keeps_return)

lemma keeps_if [keeps_intros]: "keeps I m \<Longrightarrow> keeps I n \<Longrightarrow> keeps I (if b then m else n)"
  by simp

lemma keeps_case_option [keeps_intros]:
  "keeps I n \<Longrightarrow> (\<And>x. keeps I (f x)) \<Longrightarrow> keeps I (case z of None \<Rightarrow> n | Some x \<Rightarrow> f x)"
  by (cases z) simp_all

lemma keeps_case_sum [keeps_intros]:
  "(\<And>e. keeps I (f e)) \<Longrightarrow> (\<And>x. keeps I (g x)) \<Longrightarrow> keeps I (case z of Inl e \<Rightarrow> f e | Inr x \<Rightarrow> g x)"
  by (cases z) simp_all

lemma keeps_case_list [keeps_intros]:
  "keeps I n \<Longrightarrow> (\<And>x xs. keeps I (f x xs)) \<Longrightarrow> keeps I (case z of [] \<Rightarrow> n | x # xs \<Rightarrow> f x xs)"
  by (cases z) simp_all

lemma keeps_case_prod [keeps_intros]:
  "(\<And>x y. keeps I (f x y)) \<Longrightarrow> keeps I (case z of (x, y) \<Rightarrow> f x y)"
  by (cases z) simp

section \<open>What a successful call establishes\<close>

text \<open>
  Partial correctness: if \<open>P\<close> holds before and the call returns no error, then \<open>Q\<close>
  holds of its value and the state after.  Inside a transaction that is all there is
  to know, since an error rolls the state back.
\<close>

definition yields :: "('s \<Rightarrow> bool) \<Rightarrow> ('s, 'a) go \<Rightarrow> ('a \<Rightarrow> 's \<Rightarrow> bool) \<Rightarrow> bool" where
  "yields P m Q \<longleftrightarrow> (\<forall>s x s1. P s \<longrightarrow> m s = (Inr x, s1) \<longrightarrow> Q x s1)"

lemma yieldsI: "(\<And>s x s1. P s \<Longrightarrow> m s = (Inr x, s1) \<Longrightarrow> Q x s1) \<Longrightarrow> yields P m Q"
  by (simp add: yields_def)

lemma yieldsD: "yields P m Q \<Longrightarrow> P s \<Longrightarrow> m s = (Inr x, s1) \<Longrightarrow> Q x s1"
  by (simp add: yields_def)

lemma yields_bind:
  assumes "yields P m Q" and "\<And>x. yields (Q x) (k x) R"
  shows "yields P (go_bind m k) R"
  using assms by (auto simp: yields_def elim!: go_bind_okE)

lemma yields_return: "(\<And>s. P s \<Longrightarrow> Q x s) \<Longrightarrow> yields P (go_return x) Q"
  by (simp add: yields_def)

lemma yields_fail: "yields P (go_fail e) Q"
  by (simp add: yields_def)

lemma yields_keeps: "keeps I m \<Longrightarrow> yields I m (\<lambda>_. I)"
  by (auto simp: yields_def dest: keeps_stepD)

lemma yields_weaken: "yields P m Q \<Longrightarrow> (\<And>x s. Q x s \<Longrightarrow> R x s) \<Longrightarrow> yields P m R"
  by (auto simp: yields_def)

lemma yields_option:
  "yields (\<lambda>s. case None of None \<Rightarrow> P s | Some x \<Rightarrow> Q x s) n R
     \<Longrightarrow> (\<And>x. yields (Q x) (f x) R)
     \<Longrightarrow> yields (\<lambda>s. case z of None \<Rightarrow> P s | Some x \<Rightarrow> Q x s) (case z of None \<Rightarrow> n | Some x \<Rightarrow> f x) R"
  by (cases z) simp_all

section \<open>Sequences of calls\<close>

text \<open>
  A component whose calls keep an invariant: what one call does to a state of the
  invariant carries over to every sequence of calls.
\<close>

locale call_system =
  fixes run :: "'c \<Rightarrow> 's \<Rightarrow> 's"
    and inv :: "'s \<Rightarrow> bool"
  assumes run_inv: "inv s \<Longrightarrow> inv (run c s)"
begin

lemma runs_inv: "inv s \<Longrightarrow> inv (fold run cs s)"
  by (induction cs arbitrary: s) (auto intro: run_inv)

lemma runs_stable:
  assumes "inv s" and "P s" and "list_all ok cs"
    and "\<And>c s. ok c \<Longrightarrow> inv s \<Longrightarrow> P s \<Longrightarrow> P (run c s)"
  shows "P (fold run cs s)"
  using assms(1-3) by (induction cs arbitrary: s) (auto intro: run_inv assms(4))

lemma runs_related:
  assumes "inv s" and "list_all ok cs" and "\<And>s. R s s"
    and "\<And>a b c. R a b \<Longrightarrow> R b c \<Longrightarrow> R a c"
    and "\<And>c s. ok c \<Longrightarrow> inv s \<Longrightarrow> R s (run c s)"
  shows "R s (fold run cs s)"
  using assms(1,2) by (induction cs arbitrary: s) (auto intro: run_inv assms(3-5))

text \<open>A fact that one of the calls established.\<close>

lemma runs_cause:
  assumes "inv s" and "\<not> Q s" and "Q (fold run cs s)"
  obtains as c bs where "cs = as @ c # bs" and "\<not> Q (fold run as s)" and "Q (run c (fold run as s))"
    and "inv (fold run as s)"
proof -
  have "\<exists>as c bs. cs = as @ c # bs \<and> \<not> Q (fold run as s) \<and> Q (run c (fold run as s))"
    using assms(2,3)
  proof (induction cs arbitrary: s)
    case (Cons c cs)
    show ?case
    proof (cases "Q (run c s)")
      case True
      with Cons.prems show ?thesis by (intro exI [of _ "[]"]) auto
    next
      case False
      with Cons obtain as d bs where "cs = as @ d # bs" "\<not> Q (fold run as (run c s))"
        "Q (run d (fold run as (run c s)))" by (metis fold_simps(2))
      then show ?thesis by (intro exI [of _ "c # as"]) auto
    qed
  qed simp
  with assms(1) show ?thesis using that runs_inv by blast
qed

end

end
