(* ===== verification/Sql_Table.thy ===== *)
theory Sql_Table
  imports Rv_Prelude
begin

text \<open>
  The SQL the stores use: a table is the list of its rows, and a statement is a
  function on the connection's state.  A connection carries a script of the
  statements that will fail (\<open>conn_faults\<close>; an exhausted script fails nothing),
  so that every theorem about a store or a handler is about every pattern of
  database failures, and the flag the stores read with \<open>IsTransaction\<close>.

  The locale \<open>sql_table\<close> is what the stores rely on: a table read and replaced
  inside the database, whose rows have a unique key.  It is interpreted once for
  each table of the schema.
\<close>

section \<open>Rows of a table\<close>

definition rows_where :: "('r \<Rightarrow> bool) \<Rightarrow> 'r list \<Rightarrow> 'r list" where
  "rows_where P t = filter P t"

definition update_rows :: "('r \<Rightarrow> bool) \<Rightarrow> ('r \<Rightarrow> 'r) \<Rightarrow> 'r list \<Rightarrow> 'r list" where
  "update_rows P f t = map (\<lambda>r. if P r then f r else r) t"

definition delete_rows :: "('r \<Rightarrow> bool) \<Rightarrow> 'r list \<Rightarrow> 'r list" where
  "delete_rows P t = filter (\<lambda>r. \<not> P r) t"

definition row_of :: "('r \<Rightarrow> 'k) \<Rightarrow> 'k \<Rightarrow> 'r list \<Rightarrow> 'r option" where
  "row_of key k t = List.find (\<lambda>r. key r = k) t"

lemma row_of_Nil [simp]: "row_of key k [] = None"
  by (simp add: row_of_def)

lemma row_of_Cons [simp]:
  "row_of key k (r # t) = (if key r = k then Some r else row_of key k t)"
  by (simp add: row_of_def)

lemma row_of_append:
  "row_of key k (t @ u) = (case row_of key k t of None \<Rightarrow> row_of key k u | Some r \<Rightarrow> Some r)"
  by (induction t) auto

lemma row_of_SomeD: "row_of key k t = Some r \<Longrightarrow> r \<in> set t \<and> key r = k"
  by (induction t) (auto split: if_splits)

lemma row_of_None_iff: "row_of key k t = None \<longleftrightarrow> k \<notin> key ` set t"
  by (induction t) auto

lemma row_of_in_set:
  "distinct (map key t) \<Longrightarrow> r \<in> set t \<Longrightarrow> row_of key (key r) t = Some r"
  by (induction t) auto

lemma row_of_iff:
  "distinct (map key t) \<Longrightarrow> row_of key k t = Some r \<longleftrightarrow> r \<in> set t \<and> key r = k"
  using row_of_SomeD row_of_in_set by fastforce

lemma row_of_update:
  assumes "\<And>r. r \<in> set t \<Longrightarrow> P r \<Longrightarrow> key (f r) = key r"
  shows "row_of key k (update_rows P f t) = map_option (\<lambda>r. if P r then f r else r) (row_of key k t)"
  using assms by (induction t) (auto simp: update_rows_def)

lemma row_of_delete:
  assumes "distinct (map key t)"
  shows "row_of key k (delete_rows P t)
       = (case row_of key k t of None \<Rightarrow> None | Some r \<Rightarrow> if P r then None else Some r)"
  using assms
proof (induction t)
  case (Cons r t)
  have "key r = k \<Longrightarrow> row_of key k t = None"
    using Cons.prems by (auto simp: row_of_None_iff)
  with Cons show ?case by (auto simp: delete_rows_def)
qed (simp add: delete_rows_def)

lemma distinct_update_rows:
  assumes "\<And>r. r \<in> set t \<Longrightarrow> P r \<Longrightarrow> key (f r) = key r"
  shows "map key (update_rows P f t) = map key t"
  using assms by (auto simp: update_rows_def)

lemma distinct_delete_rows:
  "distinct (map key t) \<Longrightarrow> distinct (map key (delete_rows P t))"
  by (simp add: delete_rows_def distinct_map_filter)

lemma rows_where_key:
  assumes "distinct (map key t)" and "\<And>r. P r \<Longrightarrow> key r = k"
  shows "rows_where P t = (case row_of key k t of None \<Rightarrow> [] | Some r \<Rightarrow> if P r then [r] else [])"
  using assms
proof (induction t)
  case (Cons r t)
  have "key r = k \<Longrightarrow> row_of key k t = None"
    using Cons.prems(1) by (auto simp: row_of_None_iff)
  with Cons show ?case by (auto simp: rows_where_def split: option.splits if_splits)
qed (simp add: rows_where_def)

text \<open>With a unique key, a condition that holds of the row of a key selects all rows of that key.\<close>

lemma update_rows_by_key:
  assumes "distinct (map key t)" and "row_of key k t = Some r" and "P r" and "\<And>q. P q \<Longrightarrow> key q = k"
  shows "update_rows P f t = update_rows (\<lambda>q. key q = k) f t"
proof -
  have "P q \<longleftrightarrow> key q = k" if "q \<in> set t" for q
  proof
    assume "key q = k"
    with row_of_in_set [OF assms(1) that] assms(2) have "q = r" by (simp only: option.inject)
    with assms(3) show "P q" by (simp only:)
  qed (rule assms(4))
  then show ?thesis by (simp add: update_rows_def)
qed

lemma set_update_rows: "set (update_rows P f t) = (\<lambda>r. if P r then f r else r) ` set t"
  by (simp add: update_rows_def)

lemma set_delete_rows [simp]: "set (delete_rows P t) = {r \<in> set t. \<not> P r}"
  by (simp add: delete_rows_def)

lemma set_rows_where [simp]: "set (rows_where P t) = {r \<in> set t. P r}"
  by (simp add: rows_where_def)

lemma update_rows_none: "(\<And>r. r \<in> set t \<Longrightarrow> \<not> P r) \<Longrightarrow> update_rows P f t = t"
  by (simp add: update_rows_def map_idI)

lemma delete_rows_none: "(\<And>r. r \<in> set t \<Longrightarrow> \<not> P r) \<Longrightarrow> delete_rows P t = t"
  by (simp add: delete_rows_def)

lemma delete_rows_empty_iff: "rows_where P t = [] \<longleftrightarrow> (\<forall>r\<in>set t. \<not> P r)"
  by (simp add: rows_where_def filter_empty_conv)

section \<open>The connection\<close>

record db_conn =
  conn_faults :: "bool list"
  conn_in_tx :: bool

definition db_stmt :: "('z db_conn_scheme, 'a) go \<Rightarrow> ('z db_conn_scheme, 'a) go" where
  "db_stmt m s = (case conn_faults s of
      [] \<Rightarrow> m s
    | b # bs \<Rightarrow> if b then (Inl Err_Db, s\<lparr>conn_faults := bs\<rparr>) else m (s\<lparr>conn_faults := bs\<rparr>))"

text \<open>
  \<open>ExecuteInTransaction\<close>: begin, run the function, then commit, or roll back when
  it returns an error.  Beginning and committing are statements that may fail too;
  whatever fails, the tables are those from before the call.
\<close>

definition db_transaction :: "('z db_conn_scheme, 'a) go \<Rightarrow> ('z db_conn_scheme, 'a) go" where
  "db_transaction m s = (case db_stmt (go_return ()) s of
      (Inl e, s1) \<Rightarrow> (Inl e, s1)
    | (Inr _, s1) \<Rightarrow>
        (case go_bind m (\<lambda>x. db_stmt (go_return x)) (s1\<lparr>conn_in_tx := True\<rparr>) of
           (Inl e, s2) \<Rightarrow> (Inl e, s1\<lparr>conn_faults := conn_faults s2\<rparr>)
         | (Inr x, s2) \<Rightarrow> (Inr x, s2\<lparr>conn_in_tx := conn_in_tx s1\<rparr>)))"

text \<open>The tables are the same in two states of a connection.\<close>

definition same_tables :: "'z db_conn_scheme \<Rightarrow> 'z db_conn_scheme \<Rightarrow> bool" where
  "same_tables s s' \<longleftrightarrow> db_conn.more s = db_conn.more s'"

lemma same_tables_refl [simp]: "same_tables s s"
  by (simp add: same_tables_def)

lemma same_tables_faults [simp]: "same_tables s (s\<lparr>conn_faults := fs\<rparr>)"
  by (simp add: same_tables_def)

lemma db_stmt_cases:
  obtains (fault) fs where "db_stmt m s = (Inl Err_Db, s\<lparr>conn_faults := fs\<rparr>)"
        | (run) fs where "db_stmt m s = m (s\<lparr>conn_faults := fs\<rparr>)"
proof (cases "conn_faults s")
  case Nil
  have "s\<lparr>conn_faults := []\<rparr> = s" using Nil by (cases s) simp
  moreover have "db_stmt m s = m s" using Nil by (simp add: db_stmt_def)
  ultimately have "db_stmt m s = m (s\<lparr>conn_faults := []\<rparr>)" by (simp only:)
  then show ?thesis by (rule run)
next
  case (Cons b bs)
  then show ?thesis using fault [of bs] run [of bs] by (cases b) (auto simp: db_stmt_def)
qed

lemma db_stmt_no_fault: "conn_faults s = [] \<Longrightarrow> db_stmt m s = m s"
  by (simp add: db_stmt_def)

lemma db_transaction_error:
  assumes "db_transaction m s = (Inl e, s')"
  shows "same_tables s s'"
proof (cases rule: db_stmt_cases [of "go_return ()" s])
  case (fault fs)
  with assms show ?thesis by (auto simp: db_transaction_def)
next
  case (run fs)
  with assms show ?thesis
    by (auto simp: db_transaction_def same_tables_def split: prod.splits sum.splits)
qed

lemma db_transaction_ok:
  assumes "db_transaction m s = (Inr x, s')"
  obtains fs s1 s2 where "m (s\<lparr>conn_faults := fs, conn_in_tx := True\<rparr>) = (Inr x, s1)"
    and "same_tables s1 s'"
proof (cases rule: db_stmt_cases [of "go_return ()" s])
  case (fault fs)
  with assms show ?thesis by (auto simp: db_transaction_def)
next
  case (run fs)
  with assms obtain s2 where s2: "go_bind m (\<lambda>x. db_stmt (go_return x)) (s\<lparr>conn_faults := fs, conn_in_tx := True\<rparr>) = (Inr x, s2)"
    and s': "s' = s2\<lparr>conn_in_tx := conn_in_tx s\<rparr>"
    by (auto simp: db_transaction_def split: prod.splits sum.splits)
  from s2 obtain y s1 where m: "m (s\<lparr>conn_faults := fs, conn_in_tx := True\<rparr>) = (Inr y, s1)"
    and c: "db_stmt (go_return y) s1 = (Inr x, s2)" by (rule go_bind_okE)
  from c have "y = x \<and> same_tables s1 s2"
    by (cases rule: db_stmt_cases [of "go_return y" s1]) auto
  with m s' show ?thesis using that by (auto simp: same_tables_def)
qed

text \<open>A property of the tables only: it does not look at the connection's own fields.\<close>

definition on_tables :: "('z db_conn_scheme \<Rightarrow> bool) \<Rightarrow> bool" where
  "on_tables I \<longleftrightarrow> (\<forall>s s'. same_tables s s' \<longrightarrow> I s \<longrightarrow> I s')"

lemma on_tablesD: "on_tables I \<Longrightarrow> I s \<Longrightarrow> same_tables s s' \<Longrightarrow> I s'"
  by (auto simp: on_tables_def)

lemma keeps_db_stmt [keeps_intros]:
  assumes "on_tables I" and "keeps I m"
  shows "keeps I (db_stmt m)"
proof (rule keepsI)
  fix s assume I: "I s"
  have F: "I (s\<lparr>conn_faults := fs\<rparr>)" for fs using on_tablesD [OF assms(1) I] by simp
  show "I (snd (db_stmt m s))"
    using F keepsD [OF assms(2)] by (cases rule: db_stmt_cases [of m s]) auto
qed

lemma keeps_transaction_yields:
  assumes "on_tables I" and "yields I m (\<lambda>_. I)"
  shows "keeps I (db_transaction m)"
proof (rule keepsI)
  fix s assume I: "I s"
  show "I (snd (db_transaction m s))"
  proof (cases "db_transaction m s")
    case (Pair r s')
    show ?thesis
    proof (cases r)
      case (Inl e)
      then show ?thesis using Pair db_transaction_error on_tablesD [OF assms(1) I] by fastforce
    next
      case (Inr x)
      with Pair obtain fs s1 where m: "m (s\<lparr>conn_faults := fs, conn_in_tx := True\<rparr>) = (Inr x, s1)"
        and st: "same_tables s1 s'" by (auto elim: db_transaction_ok)
      have "I (s\<lparr>conn_faults := fs, conn_in_tx := True\<rparr>)"
        using on_tablesD [OF assms(1) I] by (simp add: same_tables_def)
      with m have "I s1" using yieldsD [OF assms(2)] by blast
      with st Pair show ?thesis using on_tablesD [OF assms(1)] by auto
    qed
  qed
qed

lemma keeps_db_transaction [keeps_intros]:
  assumes "on_tables I" and "keeps I m"
  shows "keeps I (db_transaction m)"
  by (rule keeps_transaction_yields [OF assms(1) yields_keeps [OF assms(2)]])

section \<open>Statements on one table\<close>

definition sql_select :: "('s \<Rightarrow> 'r list) \<Rightarrow> ('r \<Rightarrow> bool) \<Rightarrow> ('s, 'r list) go" where
  "sql_select rows P s = (Inr (rows_where P (rows s)), s)"

definition sql_update ::
  "('s \<Rightarrow> 'r list) \<Rightarrow> ('r list \<Rightarrow> 's \<Rightarrow> 's) \<Rightarrow> ('r \<Rightarrow> bool) \<Rightarrow> ('r \<Rightarrow> 'r) \<Rightarrow> ('s, 'r list) go" where
  "sql_update rows put P f s =
     (Inr (map f (rows_where P (rows s))), put (update_rows P f (rows s)) s)"

definition sql_delete ::
  "('s \<Rightarrow> 'r list) \<Rightarrow> ('r list \<Rightarrow> 's \<Rightarrow> 's) \<Rightarrow> ('r \<Rightarrow> bool) \<Rightarrow> ('s, 'r list) go" where
  "sql_delete rows put P s = (Inr (rows_where P (rows s)), put (delete_rows P (rows s)) s)"

text \<open>An insert fails on a row that clashes with the new one in a unique column.\<close>

definition sql_insert ::
  "('s \<Rightarrow> 'r list) \<Rightarrow> ('r list \<Rightarrow> 's \<Rightarrow> 's) \<Rightarrow> ('r \<Rightarrow> 'r \<Rightarrow> bool) \<Rightarrow> 'r \<Rightarrow> ('s, unit) go" where
  "sql_insert rows put clash r s =
     (if \<exists>q \<in> set (rows s). clash q r then (Inl Err_Unique, s)
      else (Inr (), put (rows s @ [r]) s))"

text \<open>\<open>QueryRow(...).Scan\<close>: the first row of the result, or \<open>IsNoRowsError\<close>.\<close>

definition first_row :: "'r list \<Rightarrow> 'r option" where
  "first_row rs = (case rs of [] \<Rightarrow> None | r # _ \<Rightarrow> Some r)"

lemma first_row_simps [simp]: "first_row [] = None" "first_row (r # rs) = Some r"
  by (simp_all add: first_row_def)

locale sql_table =
  fixes rows :: "'s \<Rightarrow> 'r list"
    and put :: "'r list \<Rightarrow> 's \<Rightarrow> 's"
    and key :: "'r \<Rightarrow> 'k"
  assumes rows_put: "rows (put t s) = t"
    and put_rows: "put (rows s) s = s"
    and put_put: "put t (put u s) = put t s"
begin

definition keyed :: "'s \<Rightarrow> bool" where
  "keyed s \<longleftrightarrow> distinct (map key (rows s))"

lemma keyed_select: "keeps keyed (sql_select rows P)"
  by (simp add: keeps_def sql_select_def)

lemma keyed_delete: "keeps keyed (sql_delete rows put P)"
  by (simp add: keeps_def sql_delete_def keyed_def rows_put distinct_delete_rows)

lemma keyed_update:
  "(\<And>r. P r \<Longrightarrow> key (f r) = key r) \<Longrightarrow> keeps keyed (sql_update rows put P f)"
  by (simp add: keeps_def sql_update_def keyed_def rows_put distinct_update_rows)

lemma keyed_insert:
  assumes "\<And>q. key q = key r \<Longrightarrow> clash q r"
  shows "keeps keyed (sql_insert rows put clash r)"
  using assms by (fastforce simp: keeps_def sql_insert_def keyed_def rows_put)

lemma delete_by_key:
  assumes "keyed s" and "\<And>r. P r \<Longrightarrow> key r = k"
  shows "sql_delete rows put P s =
     (case row_of key k (rows s) of
        None \<Rightarrow> (Inr [], s)
      | Some r \<Rightarrow> if P r then (Inr [r], put (delete_rows P (rows s)) s) else (Inr [], s))"
proof -
  have none: "rows_where P (rows s) = [] \<Longrightarrow> put (delete_rows P (rows s)) s = s"
    by (metis delete_rows_empty_iff delete_rows_none put_rows)
  show ?thesis
    using none rows_where_key [OF assms(1) [unfolded keyed_def] assms(2)]
    by (auto simp: sql_delete_def split: option.splits)
qed

lemma update_by_key:
  assumes "keyed s" and "\<And>r. P r \<Longrightarrow> key r = k"
  shows "sql_update rows put P f s =
     (case row_of key k (rows s) of
        None \<Rightarrow> (Inr [], s)
      | Some r \<Rightarrow> if P r then (Inr [f r], put (update_rows P f (rows s)) s) else (Inr [], s))"
proof -
  have none: "rows_where P (rows s) = [] \<Longrightarrow> put (update_rows P f (rows s)) s = s"
    by (metis delete_rows_empty_iff update_rows_none put_rows)
  show ?thesis
    using none rows_where_key [OF assms(1) [unfolded keyed_def] assms(2)]
    by (auto simp: sql_update_def split: option.splits)
qed

lemma select_by_key:
  assumes "keyed s" and "\<And>r. P r \<Longrightarrow> key r = k"
  shows "sql_select rows P s =
     (Inr (case row_of key k (rows s) of None \<Rightarrow> [] | Some r \<Rightarrow> if P r then [r] else []), s)"
  using rows_where_key [OF assms(1) [unfolded keyed_def] assms(2)]
  by (simp add: sql_select_def)

end

end
