(* ===== verification/Go_Strings.thy ===== *)
theory Go_Strings
  imports Rv_Prelude "HOL-Library.Sublist" "HOL-Library.Word"
begin

text \<open>
  What the program uses of Go's \<open>strings\<close> and \<open>strconv\<close>: splitting, cutting,
  trimming, case folding, decimal integers of 64 bits.  Strings are byte lists.

  The case folding functions are exact wherever their result is an ASCII byte:
  the only runes outside ASCII that fold into ASCII are U+017F and U+0131 (upper
  case) and U+212A and U+0130 (lower case), each written out as its UTF-8 bytes;
  every other byte of 128 or more is left alone.  The program only compares the
  results with ASCII literals.
\<close>

section \<open>Lines and pairs\<close>

fun split_on :: "char \<Rightarrow> string \<Rightarrow> string list" where
  "split_on c [] = [[]]"
| "split_on c (x # xs) =
     (if x = c then [] # split_on c xs
      else (case split_on c xs of [] \<Rightarrow> [[x]] | w # ws \<Rightarrow> (x # w) # ws))"

fun join_with :: "string \<Rightarrow> string list \<Rightarrow> string" where
  "join_with sep [] = []"
| "join_with sep [w] = w"
| "join_with sep (w # ws) = w @ sep @ join_with sep ws"

text \<open>\<open>strings.Cut(s, sep)\<close> for a separator of one byte; \<open>None\<close> is \<open>found = false\<close>.\<close>

fun cut_on :: "char \<Rightarrow> string \<Rightarrow> (string \<times> string) option" where
  "cut_on c [] = None"
| "cut_on c (x # xs) =
     (if x = c then Some ([], xs)
      else (case cut_on c xs of None \<Rightarrow> None | Some (a, b) \<Rightarrow> Some (x # a, b)))"

lemma split_on_ne [simp]: "split_on c xs \<noteq> []"
  by (cases xs) (auto split: list.splits)

lemma split_on_no_sep: "c \<notin> set w \<Longrightarrow> split_on c w = [w]"
  by (induction w) auto

lemma split_on_append:
  "c \<notin> set w \<Longrightarrow> split_on c (w @ c # xs) = w # split_on c xs"
  by (induction w) auto

lemma split_join:
  "ws \<noteq> [] \<Longrightarrow> (\<And>w. w \<in> set ws \<Longrightarrow> c \<notin> set w) \<Longrightarrow> split_on c (join_with [c] ws) = ws"
proof (induction "[c]" ws rule: join_with.induct)
  case (3 w v ws)
  then show ?case using split_on_append [of c w] by simp
qed (auto simp: split_on_no_sep)

lemma join_split: "join_with [c] (split_on c xs) = xs"
proof (induction xs)
  case (Cons x xs)
  obtain w ws where s: "split_on c xs = w # ws" by (cases "split_on c xs") auto
  with Cons show ?case by (cases ws) auto
qed simp

lemma split_on_parts: "w \<in> set (split_on c xs) \<Longrightarrow> c \<notin> set w"
proof (induction xs arbitrary: w)
  case (Cons x xs)
  obtain v vs where s: "split_on c xs = v # vs" by (cases "split_on c xs") auto
  then have IH: "\<And>w. w = v \<or> w \<in> set vs \<Longrightarrow> c \<notin> set w" using Cons.IH by auto
  show ?case
  proof (cases "x = c")
    case True
    then show ?thesis using Cons.prems s IH by auto
  next
    case False
    then have "w = x # v \<or> w \<in> set vs" using Cons.prems s by auto
    then show ?thesis using False IH by auto
  qed
qed simp

lemma split_on_subset: "w \<in> set (split_on c xs) \<Longrightarrow> set w \<subseteq> set xs"
proof (induction xs arbitrary: w)
  case (Cons x xs)
  obtain v vs where "split_on c xs = v # vs" by (cases "split_on c xs") auto
  then show ?case using Cons by (auto split: if_splits) blast+
qed simp

lemma cut_on_append: "c \<notin> set a \<Longrightarrow> cut_on c (a @ c # b) = Some (a, b)"
  by (induction a) auto

lemma cut_on_SomeD: "cut_on c xs = Some (a, b) \<Longrightarrow> xs = a @ c # b \<and> c \<notin> set a"
  by (induction xs arbitrary: a) (auto split: if_splits option.splits)

lemma cut_on_None_iff: "cut_on c xs = None \<longleftrightarrow> c \<notin> set xs"
  by (induction xs) (auto split: option.splits)

lemma join_with_empty_iff:
  "join_with [c] ws = join_with [c] vs \<Longrightarrow> ws \<noteq> [] \<Longrightarrow> vs \<noteq> []
   \<Longrightarrow> (\<And>w. w \<in> set ws \<union> set vs \<Longrightarrow> c \<notin> set w) \<Longrightarrow> ws = vs"
  by (metis UnCI split_join)

section \<open>Bytes, case and white space\<close>

definition byte :: "char \<Rightarrow> nat" where
  "byte c = of_char c"

definition byte_in :: "char \<Rightarrow> char \<Rightarrow> char \<Rightarrow> bool" where
  "byte_in lo hi c \<longleftrightarrow> byte lo \<le> byte c \<and> byte c \<le> byte hi"

lemma byte_less [simp]: "byte c < 256"
  by (simp add: byte_def)

lemma char_of_byte [simp]: "char_of (byte c) = c"
  by (simp add: byte_def)

lemma byte_char_of: "n < 256 \<Longrightarrow> byte (char_of n) = n"
  by (simp add: byte_def)

lemma byte_eq_iff [simp]: "byte a = byte b \<longleftrightarrow> a = b"
  by (metis char_of_byte)

definition is_digit :: "char \<Rightarrow> bool" where "is_digit c = byte_in CHR ''0'' CHR ''9'' c"
definition is_upper :: "char \<Rightarrow> bool" where "is_upper c = byte_in CHR ''A'' CHR ''Z'' c"
definition is_lower :: "char \<Rightarrow> bool" where "is_lower c = byte_in CHR ''a'' CHR ''z'' c"

definition lower_byte :: "char \<Rightarrow> char" where
  "lower_byte c = (if is_upper c then char_of (byte c + 32) else c)"

definition upper_byte :: "char \<Rightarrow> char" where
  "upper_byte c = (if is_lower c then char_of (byte c - 32) else c)"

fun go_to_upper :: "string \<Rightarrow> string" where
  "go_to_upper (a # b # xs) =
     (if byte a = 0xC5 \<and> byte b = 0xBF then CHR ''S'' # go_to_upper xs
      else if byte a = 0xC4 \<and> byte b = 0xB1 then CHR ''I'' # go_to_upper xs
      else upper_byte a # go_to_upper (b # xs))"
| "go_to_upper [a] = [upper_byte a]"
| "go_to_upper [] = []"

fun go_to_lower :: "string \<Rightarrow> string" where
  "go_to_lower (a # b # c # xs) =
     (if byte a = 0xE2 \<and> byte b = 0x84 \<and> byte c = 0xAA then CHR ''k'' # go_to_lower xs
      else if byte a = 0xC4 \<and> byte b = 0xB0 then CHR ''i'' # go_to_lower (c # xs)
      else lower_byte a # go_to_lower (b # c # xs))"
| "go_to_lower [a, b] =
     (if byte a = 0xC4 \<and> byte b = 0xB0 then ''i'' else [lower_byte a, lower_byte b])"
| "go_to_lower [a] = [lower_byte a]"
| "go_to_lower [] = []"

definition go_spaces :: "string list" where
  "go_spaces = map (map char_of)
     ([[9], [10], [11], [12], [13], [32], [0xC2, 0x85], [0xC2, 0xA0], [0xE1, 0x9A, 0x80],
       [0xE2, 0x80, 0xA8], [0xE2, 0x80, 0xA9], [0xE2, 0x80, 0xAF], [0xE2, 0x81, 0x9F],
       [0xE3, 0x80, 0x80]] @ map (\<lambda>n. [0xE2, 0x80, n]) [0x80..<0x8B] :: nat list list)"

definition space_prefix :: "string \<Rightarrow> nat" where
  "space_prefix s = (case List.find (\<lambda>w. prefix w s) go_spaces of None \<Rightarrow> 0 | Some w \<Rightarrow> length w)"

definition space_suffix :: "string \<Rightarrow> nat" where
  "space_suffix s = (case List.find (\<lambda>w. suffix w s) go_spaces of None \<Rightarrow> 0 | Some w \<Rightarrow> length w)"

function trim_left :: "string \<Rightarrow> string" where
  "trim_left s = (if s = [] \<or> space_prefix s = 0 then s else trim_left (drop (space_prefix s) s))"
  by auto
termination by (relation "measure length") auto

function trim_right :: "string \<Rightarrow> string" where
  "trim_right s =
     (if s = [] \<or> space_suffix s = 0 then s else trim_right (take (length s - space_suffix s) s))"
  by auto
termination by (relation "measure length") auto

declare trim_left.simps [simp del] trim_right.simps [simp del]

definition trim_space :: "string \<Rightarrow> string" where
  "trim_space s = trim_right (trim_left s)"

lemma trim_left_length: "length (trim_left s) \<le> length s"
proof (induction s rule: trim_left.induct)
  case (1 s)
  then show ?case by (subst trim_left.simps) (auto intro: le_trans)
qed

lemma trim_right_length: "length (trim_right s) \<le> length s"
proof (induction s rule: trim_right.induct)
  case (1 s)
  then show ?case by (subst trim_right.simps) (auto intro: le_trans)
qed

lemma trim_space_length: "length (trim_space s) \<le> length s"
  unfolding trim_space_def using trim_left_length trim_right_length le_trans by blast

section \<open>Decimal integers\<close>

definition int64 :: "int \<Rightarrow> int" where
  "int64 n = sint (word_of_int n :: 64 word)"

definition in_int64 :: "int \<Rightarrow> bool" where
  "in_int64 n \<longleftrightarrow> - (2 ^ 63) \<le> n \<and> n < 2 ^ 63"

lemma int64_id: "in_int64 n \<Longrightarrow> int64 n = n"
  by (simp add: int64_def in_int64_def sint_sbintrunc' signed_take_bit_int_eq_self)

lemma in_int64_int64: "in_int64 (int64 n)"
  using sint_range_size [of "word_of_int n :: 64 word"] by (simp add: int64_def in_int64_def word_size)

definition digit_char :: "nat \<Rightarrow> char" where
  "digit_char d = char_of (48 + d)"

function decimal :: "nat \<Rightarrow> string" where
  "decimal n = (if n < 10 then [digit_char n] else decimal (n div 10) @ [digit_char (n mod 10)])"
  by auto
termination by (relation "measure id") auto

declare decimal.simps [simp del]

definition format_int :: "int \<Rightarrow> string" where
  "format_int n = (if n < 0 then CHR ''-'' # decimal (nat (- n)) else decimal (nat n))"

definition decimal_value :: "string \<Rightarrow> nat" where
  "decimal_value s = foldl (\<lambda>acc c. 10 * acc + (byte c - 48)) 0 s"

definition parse_uint :: "string \<Rightarrow> nat option" where
  "parse_uint s = (if s \<noteq> [] \<and> list_all is_digit s then Some (decimal_value s) else None)"

text \<open>\<open>strconv.ParseInt(s, 10, 64)\<close>: an optional sign, digits, and the range check.\<close>

definition parse_int :: "string \<Rightarrow> int option" where
  "parse_int s =
    (let (neg, ds) = (case s of [] \<Rightarrow> (False, [])
          | c # cs \<Rightarrow> if c = CHR ''-'' then (True, cs) else if c = CHR ''+'' then (False, cs) else (False, s))
     in case parse_uint ds of None \<Rightarrow> None
        | Some n \<Rightarrow> let v = (if neg then - int n else int n) in if in_int64 v then Some v else None)"

lemma byte_digit_char: "d < 10 \<Longrightarrow> byte (digit_char d) = 48 + d"
  by (simp add: digit_char_def byte_char_of)

lemma is_digit_digit_char: "d < 10 \<Longrightarrow> is_digit (digit_char d)"
  by (simp add: is_digit_def byte_in_def byte_digit_char) (simp add: byte_def)

lemma decimal_digits: "list_all is_digit (decimal n) \<and> decimal n \<noteq> []"
proof (induction n rule: decimal.induct)
  case (1 n)
  then show ?case by (cases "n < 10") (simp_all add: decimal.simps [of n] is_digit_digit_char)
qed

lemma decimal_value_decimal: "decimal_value (decimal n) = n"
proof (induction n rule: decimal.induct)
  case (1 n)
  show ?case
  proof (cases "n < 10")
    case True
    then show ?thesis by (subst decimal.simps) (simp add: decimal_value_def byte_digit_char)
  next
    case False
    then have "decimal_value (decimal n) = 10 * decimal_value (decimal (n div 10)) + n mod 10"
      by (subst decimal.simps) (simp add: decimal_value_def byte_digit_char)
    then show ?thesis using 1 False by simp
  qed
qed

lemma parse_uint_decimal [simp]: "parse_uint (decimal n) = Some n"
  by (simp add: parse_uint_def decimal_digits decimal_value_decimal)

lemma decimal_hd: "decimal n \<noteq> [] \<and> is_digit (hd (decimal n))"
  using decimal_digits [of n] by (cases "decimal n") auto

lemma not_is_digit_sign: "\<not> is_digit CHR ''-''" "\<not> is_digit CHR ''+''"
  by (simp_all add: is_digit_def byte_in_def byte_def)

lemma parse_format_int [simp]: "in_int64 n \<Longrightarrow> parse_int (format_int n) = Some n"
proof -
  assume n: "in_int64 n"
  obtain c cs where d: "decimal (nat n) = c # cs" "is_digit c"
    using decimal_hd [of "nat n"] by (cases "decimal (nat n)") auto
  then have "c \<noteq> CHR ''-''" "c \<noteq> CHR ''+''" using not_is_digit_sign by auto
  moreover from d have "parse_uint (c # cs) = Some (nat n)" by (metis parse_uint_decimal)
  ultimately show ?thesis using n d by (auto simp: parse_int_def format_int_def)
qed

lemma format_int_no_newline: "CHR 0x0A \<notin> set (format_int n)"
proof -
  have "CHR 0x0A \<notin> set (decimal m)" for m
    using decimal_digits [of m] by (auto simp: list_all_iff is_digit_def byte_in_def byte_def)
  then show ?thesis by (simp add: format_int_def)
qed

lemma format_int_inj: "in_int64 m \<Longrightarrow> in_int64 n \<Longrightarrow> format_int m = format_int n \<Longrightarrow> m = n"
  by (metis option.inject parse_format_int)

section \<open>Byte order\<close>

text \<open>\<open>strings.Compare\<close> and the ordering of text columns; sorting by insertion.\<close>

fun insert_by :: "('a \<Rightarrow> 'a \<Rightarrow> bool) \<Rightarrow> 'a \<Rightarrow> 'a list \<Rightarrow> 'a list" where
  "insert_by le x [] = [x]"
| "insert_by le x (y # ys) = (if le x y then x # y # ys else y # insert_by le x ys)"

fun string_le :: "string \<Rightarrow> string \<Rightarrow> bool" where
  "string_le [] _ = True"
| "string_le (_ # _) [] = False"
| "string_le (x # xs) (y # ys) = (byte x < byte y \<or> (x = y \<and> string_le xs ys))"

lemma set_insert_by [simp]: "set (insert_by le x xs) = insert x (set xs)"
  by (induction xs) auto

lemma set_sort_by [simp]: "set (foldr (insert_by le) xs []) = set xs"
  by (induction xs) auto

lemma string_le_linear: "string_le a b \<or> string_le b a"
proof (induction a b rule: string_le.induct)
  case (3 x xs y ys)
  then show ?case using byte_eq_iff [of x y] by auto
qed auto

lemma string_le_trans: "string_le a b \<Longrightarrow> string_le b c \<Longrightarrow> string_le a c"
proof (induction a b arbitrary: c rule: string_le.induct)
  case (3 x xs y ys)
  then show ?case by (cases c) auto
qed auto

lemma sorted_insert_by:
  assumes "\<And>a b. le a b \<or> le b a" and "\<And>a b c. le a b \<Longrightarrow> le b c \<Longrightarrow> le a c" and "sorted_wrt le xs"
  shows "sorted_wrt le (insert_by le x xs)"
  using assms(3) by (induction xs) (use assms(1,2) in \<open>auto\<close>)

lemma sorted_sort_by:
  assumes "\<And>a b. le a b \<or> le b a" and "\<And>a b c. le a b \<Longrightarrow> le b c \<Longrightarrow> le a c"
  shows "sorted_wrt le (foldr (insert_by le) xs [])"
  by (induction xs) (simp_all add: sorted_insert_by [of le] assms)

end
