(* ===== verification/Go_Base64.thy ===== *)
theory Go_Base64
  imports Go_Strings
begin

text \<open>
  Go's unpadded base64 (\<open>encoding/base64\<close>: \<open>RawURLEncoding\<close> and
  \<open>RawStdEncoding\<close>, not strict, so trailing bits are dropped and line breaks are
  skipped), and the program's own decoder \<open>DecodeBase64String\<close>
  (src/internal/utils/base64.go), which accepts both alphabets with or without
  padding.  A byte slice is a byte list; \<open>None\<close> inside the result is Go's nil slice.

  The locale \<open>text_codec\<close> is the contract of every encoding of the program that
  has a decoder: what was encoded decodes to itself.  Here it is interpreted on
  the two base64 alphabets, elsewhere on the canonical bodies and the manifest.
\<close>

locale text_codec =
  fixes enc :: "'a \<Rightarrow> string"
    and dec :: "string \<Rightarrow> 'a option"
    and ok :: "'a \<Rightarrow> bool"
  assumes dec_enc: "ok x \<Longrightarrow> dec (enc x) = Some x"
begin

lemma enc_inj: "ok x \<Longrightarrow> ok y \<Longrightarrow> enc x = enc y \<Longrightarrow> x = y"
  by (metis dec_enc option.inject)

lemma prefixed_inj: "ok x \<Longrightarrow> ok y \<Longrightarrow> pre @ enc x = pre @ enc y \<Longrightarrow> x = y"
  using enc_inj by simp

end

text \<open>A codec whose decoder accepts nothing but encodings.\<close>

locale canonical_codec = text_codec +
  assumes enc_dec: "dec s = Some x \<Longrightarrow> enc x = s"
    and dec_ok: "dec s = Some x \<Longrightarrow> ok x"
begin

lemma dec_inj: "dec s = Some x \<Longrightarrow> dec t = Some x \<Longrightarrow> s = t"
  using enc_dec by metis

lemma dec_iff: "dec s = Some x \<longleftrightarrow> ok x \<and> s = enc x"
  using dec_enc dec_ok enc_dec by metis

end

section \<open>The alphabet\<close>

definition b64_value :: "bool \<Rightarrow> char \<Rightarrow> nat option" where
  "b64_value url c =
    (if is_upper c then Some (byte c - 65)
     else if is_lower c then Some (byte c - 97 + 26)
     else if is_digit c then Some (byte c - 48 + 52)
     else if c = (if url then CHR ''-'' else CHR ''+'') then Some 62
     else if c = (if url then CHR ''_'' else CHR ''/'') then Some 63
     else None)"

definition b64_char :: "bool \<Rightarrow> nat \<Rightarrow> char" where
  "b64_char url n =
    (if n < 26 then char_of (n + 65)
     else if n < 52 then char_of (n - 26 + 97)
     else if n < 62 then char_of (n - 52 + 48)
     else if n = 62 then (if url then CHR ''-'' else CHR ''+'')
     else (if url then CHR ''_'' else CHR ''/''))"

lemma byte_literals:
  "byte CHR ''A'' = 65" "byte CHR ''Z'' = 90" "byte CHR ''a'' = 97" "byte CHR ''z'' = 122"
  "byte CHR ''0'' = 48" "byte CHR ''9'' = 57" "byte CHR ''-'' = 45" "byte CHR ''_'' = 95"
  "byte CHR ''+'' = 43" "byte CHR ''/'' = 47" "byte CHR ''.'' = 46" "byte CHR '' '' = 32"
  "byte CHR 0x0A = 10" "byte CHR 0x0D = 13" "byte CHR ''='' = 61"
  by (simp_all add: byte_def)

lemmas byte_kinds = is_upper_def is_lower_def is_digit_def byte_in_def byte_literals

lemma char_eq_byte: "c = d \<longleftrightarrow> byte c = byte d"
  by simp

lemma b64_value_char [simp]: "n < 64 \<Longrightarrow> b64_value url (b64_char url n) = Some n"
  unfolding b64_value_def b64_char_def
  by (auto simp: byte_kinds byte_char_of char_eq_byte simp del: byte_eq_iff)

lemma b64_value_bound: "b64_value url c = Some n \<Longrightarrow> n < 64"
  by (auto simp: b64_value_def byte_kinds split: if_splits)

lemma b64_char_value: "b64_value url c = Some n \<Longrightarrow> b64_char url n = c"
  by (auto simp: b64_value_def b64_char_def byte_kinds split: if_splits)

lemma b64_char_no_break: "b64_char url n \<noteq> CHR 0x0A" "b64_char url n \<noteq> CHR 0x0D"
  unfolding b64_char_def
  by (auto simp: byte_literals byte_char_of char_eq_byte simp del: byte_eq_iff)

section \<open>Groups of bits\<close>

fun bytes_sextets :: "string \<Rightarrow> nat list" where
  "bytes_sextets (x # y # z # r) =
     [byte x div 4, (byte x mod 4) * 16 + byte y div 16, (byte y mod 16) * 4 + byte z div 64, byte z mod 64]
     @ bytes_sextets r"
| "bytes_sextets [x, y] = [byte x div 4, (byte x mod 4) * 16 + byte y div 16, (byte y mod 16) * 4]"
| "bytes_sextets [x] = [byte x div 4, (byte x mod 4) * 16]"
| "bytes_sextets [] = []"

fun sextets_bytes :: "nat list \<Rightarrow> string option" where
  "sextets_bytes (a # b # c # d # r) =
     (case sextets_bytes r of None \<Rightarrow> None
      | Some bs \<Rightarrow> Some (char_of (a * 4 + b div 16) # char_of ((b mod 16) * 16 + c div 4)
                         # char_of ((c mod 4) * 64 + d) # bs))"
| "sextets_bytes [a, b, c] = Some [char_of (a * 4 + b div 16), char_of ((b mod 16) * 16 + c div 4)]"
| "sextets_bytes [a, b] = Some [char_of (a * 4 + b div 16)]"
| "sextets_bytes [a] = None"
| "sextets_bytes [] = Some []"

lemma sextets_arith:
  fixes x y :: nat
  assumes "y < 256"
  shows "x div 4 * 4 + (x mod 4 * 16 + y div 16) div 16 = x"
    and "(x mod 4 * 16 + y div 16) mod 16 * 16 + y mod 16 = y"
    and "(x mod 16 * 4 + y div 64) div 4 = x mod 16"
    and "(x mod 16 * 4 + y div 64) mod 4 * 64 + y mod 64 = y"
proof -
  have "y div 16 < 16" "y div 64 < 4" using assms by simp_all
  then show "x div 4 * 4 + (x mod 4 * 16 + y div 16) div 16 = x"
    "(x mod 4 * 16 + y div 16) mod 16 * 16 + y mod 16 = y"
    "(x mod 16 * 4 + y div 64) div 4 = x mod 16"
    "(x mod 16 * 4 + y div 64) mod 4 * 64 + y mod 64 = y"
    by simp_all
qed

lemma sextets_bound:
  fixes x y :: nat
  assumes "x < 256" and "y < 256"
  shows "x div 4 < 64" and "x mod 4 * 16 + y div 16 < 64" and "x mod 16 * 4 + y div 64 < 64"
    and "x mod 16 * 4 < 64" and "x mod 4 * 16 < 64" and "y mod 64 < 64"
proof -
  have "x div 4 < 64" "x mod 4 < 4" "x mod 16 < 16" "y div 16 < 16" "y div 64 < 4" "y mod 64 < 64"
    using assms by simp_all
  then show "x div 4 < 64" "x mod 4 * 16 + y div 16 < 64" "x mod 16 * 4 + y div 64 < 64"
    "x mod 16 * 4 < 64" "x mod 4 * 16 < 64" "y mod 64 < 64"
    by linarith+
qed

lemma sextets_bytes_sextets: "sextets_bytes (bytes_sextets s) = Some s"
proof (induction s rule: bytes_sextets.induct)
  case (1 x y z r)
  note g = sextets_arith [OF byte_less [of y], of "byte x"] sextets_arith [OF byte_less [of z], of "byte y"]
  have "(byte x mod 4 * 16 + byte y div 16) mod 16 * 16
      + (byte y mod 16 * 4 + byte z div 64) div 4 = byte y"
    using g by (simp only:)
  with 1 g show ?case
    unfolding bytes_sextets.simps append_Cons append_Nil sextets_bytes.simps
    by (simp only: char_of_byte option.case)
next
  case (2 x y)
  note g = sextets_arith [OF byte_less [of y], of "byte x"]
  have "byte y mod 16 * 4 div 4 = byte y mod 16" by simp
  with g show ?case
    unfolding bytes_sextets.simps append_Cons append_Nil sextets_bytes.simps
    by (simp only: char_of_byte)
qed simp_all

lemma bytes_sextets_bound: "n \<in> set (bytes_sextets s) \<Longrightarrow> n < 64"
proof (induction s rule: bytes_sextets.induct)
  case (1 x y z r)
  then show ?case
    using sextets_bound [OF byte_less [of x] byte_less [of y]]
      sextets_bound [OF byte_less [of y] byte_less [of z]] by auto
next
  case (2 x y)
  then show ?case
    using sextets_bound [OF byte_less [of x] byte_less [of y]]
      sextets_bound [OF byte_less [of y] byte_less [of y]] by auto
next
  case (3 x)
  then show ?case using sextets_bound [OF byte_less [of x] byte_less [of x]] by auto
qed simp

section \<open>Encoding and decoding\<close>

definition raw_encode :: "bool \<Rightarrow> string \<Rightarrow> string" where
  "raw_encode url s = map (b64_char url) (bytes_sextets s)"

fun all_values :: "bool \<Rightarrow> string \<Rightarrow> nat list option" where
  "all_values url [] = Some []"
| "all_values url (c # cs) =
     (case b64_value url c of None \<Rightarrow> None
      | Some n \<Rightarrow> (case all_values url cs of None \<Rightarrow> None | Some ns \<Rightarrow> Some (n # ns)))"

definition raw_decode :: "bool \<Rightarrow> string \<Rightarrow> string option" where
  "raw_decode url s =
    (case all_values url (filter (\<lambda>c. c \<noteq> CHR 0x0A \<and> c \<noteq> CHR 0x0D) s) of
       None \<Rightarrow> None | Some ns \<Rightarrow> sextets_bytes ns)"

abbreviation raw_url_encode :: "string \<Rightarrow> string" where
  "raw_url_encode \<equiv> raw_encode True"

abbreviation raw_url_decode :: "string \<Rightarrow> string option" where
  "raw_url_decode \<equiv> raw_decode True"

lemma all_values_chars:
  "(\<And>n. n \<in> set ns \<Longrightarrow> n < 64) \<Longrightarrow> all_values url (map (b64_char url) ns) = Some ns"
  by (induction ns) auto

lemma raw_decode_encode: "raw_decode url (raw_encode url s) = Some s"
proof -
  have "filter (\<lambda>c. c \<noteq> CHR 0x0A \<and> c \<noteq> CHR 0x0D) (raw_encode url s) = raw_encode url s"
    by (simp add: raw_encode_def filter_id_conv b64_char_no_break)
  moreover have "all_values url (raw_encode url s) = Some (bytes_sextets s)"
    unfolding raw_encode_def by (rule all_values_chars) (rule bytes_sextets_bound)
  ultimately show ?thesis by (simp add: raw_decode_def sextets_bytes_sextets)
qed

interpretation b64_url: text_codec "raw_encode True" "raw_decode True" "\<lambda>_. True"
  by unfold_locales (rule raw_decode_encode)

interpretation b64_std: text_codec "raw_encode False" "raw_decode False" "\<lambda>_. True"
  by unfold_locales (rule raw_decode_encode)

text \<open>Of unpadded url encodings only the empty string is encoded as the empty string.\<close>

lemma raw_encode_empty_iff: "raw_encode url s = [] \<longleftrightarrow> s = []"
  by (cases s rule: bytes_sextets.cases) (auto simp: raw_encode_def)

definition trim_padding :: "string \<Rightarrow> string" where
  "trim_padding s = rev (dropWhile (\<lambda>c. c = CHR ''='') (rev s))"

text \<open>\<open>DecodeBase64String\<close>: the outer \<open>None\<close> is an error, the inner one a nil slice.\<close>

definition decode_base64_string :: "string \<Rightarrow> string option option" where
  "decode_base64_string s =
    (if s = [] then Some None
     else let t = trim_padding s
          in case raw_decode True t of
               Some out \<Rightarrow> Some (Some out)
             | None \<Rightarrow> (case raw_decode False t of Some out \<Rightarrow> Some (Some out) | None \<Rightarrow> None))"

lemma no_padding_in_encoding: "CHR ''='' \<notin> set (raw_encode url s)"
proof
  assume "CHR ''='' \<in> set (raw_encode url s)"
  then obtain n where "CHR ''='' = b64_char url n" by (auto simp: raw_encode_def)
  then show False
    unfolding b64_char_def
    by (auto simp: byte_literals byte_char_of char_eq_byte simp del: byte_eq_iff split: if_splits)
qed

lemma trim_padding_id: "CHR ''='' \<notin> set s \<Longrightarrow> trim_padding s = s"
  by (cases "rev s") (auto simp: trim_padding_def dropWhile_eq_self_iff rev_swap)

lemma trim_padding_append: "trim_padding (s @ replicate n CHR ''='') = trim_padding s"
  by (induction n) (simp_all add: trim_padding_def replicate_append_same [symmetric] del: replicate.simps(2),
                    simp add: trim_padding_def)

end
