(* ===== verification/Protocol_Types.thy ===== *)
theory Protocol_Types
  imports Go_Base64
begin

text \<open>
  The wire types and validators of src/internal/protocolv2/types.go and jwk.go:
  operations and algorithms, the key label and note rules, the request timeout,
  the P-256 transport key and the response envelope.

  \<open>time.ParseDuration\<close> (which computes fractions in floating point) is the
  argument \<open>parse_duration\<close> of \<open>get_timeout\<close>.
\<close>

section \<open>Algorithms\<close>

definition transport_alg :: string where
  "transport_alg = ''ecdh-p256+mlkem768+a256gcm''"

definition normalize_signing_algorithm :: "string \<Rightarrow> string option" where
  "normalize_signing_algorithm alg =
    (let u = go_to_upper alg in
     if u = ''ES256'' then Some ''ES256''
     else if u = ''ED25519'' then Some ''Ed25519''
     else if u = ''ED25519PH'' then Some ''Ed25519ph''
     else None)"

definition is_supported_signing_algorithm :: "string \<Rightarrow> bool" where
  "is_supported_signing_algorithm alg = (normalize_signing_algorithm alg \<noteq> None)"

definition is_supported_encryption_algorithm :: "string \<Rightarrow> bool" where
  "is_supported_encryption_algorithm alg =
    (go_to_lower alg \<in> set [''a256gcm'', ''aes-256-gcm'', ''aes256gcm'',
                            ''c20p'', ''chacha20-poly1305'', ''chacha20poly1305''])"

lemma normalize_signing_algorithm_cases:
  "normalize_signing_algorithm alg = Some c \<Longrightarrow> c \<in> {''ES256'', ''Ed25519'', ''Ed25519ph''}"
  by (auto simp: normalize_signing_algorithm_def Let_def split: if_splits)

lemma normalize_signing_algorithm_fixed:
  assumes "c \<in> {''ES256'', ''Ed25519'', ''Ed25519ph''}"
  shows "normalize_signing_algorithm c = Some c"
proof -
  have "normalize_signing_algorithm ''ES256'' = Some ''ES256''"
    "normalize_signing_algorithm ''Ed25519'' = Some ''Ed25519''"
    "normalize_signing_algorithm ''Ed25519ph'' = Some ''Ed25519ph''"
    by code_simp+
  with assms show ?thesis by auto
qed

section \<open>Key labels and notes\<close>

definition max_note_length :: nat where "max_note_length = 80"
definition max_key_label_length :: nat where "max_key_label_length = 24"

definition note_char :: "char \<Rightarrow> bool" where
  "note_char c \<longleftrightarrow> is_upper c \<or> is_lower c \<or> is_digit c \<or> c \<in> set '' ./_-''"

definition validate_note :: "string \<Rightarrow> bool" where
  "validate_note note = list_all note_char note"

fun label_byte :: "char \<Rightarrow> char option" where
  "label_byte c =
    (if is_lower c then Some c
     else if is_upper c then Some (char_of (byte c + (byte CHR ''a'' - byte CHR ''A'')))
     else if is_digit c then Some c
     else if c = CHR ''_'' \<or> c = CHR ''-'' \<or> c = CHR ''.'' \<or> c = CHR ''+'' then Some c
     else None)"

fun label_bytes :: "string \<Rightarrow> string option" where
  "label_bytes [] = Some []"
| "label_bytes (c # cs) =
    (case label_byte c of None \<Rightarrow> None
     | Some d \<Rightarrow> (case label_bytes cs of None \<Rightarrow> None | Some ds \<Rightarrow> Some (d # ds)))"

definition normalize_and_validate_key_label :: "string \<Rightarrow> string option" where
  "normalize_and_validate_key_label label =
    (if label = [] \<or> length label > max_key_label_length then None else label_bytes label)"

definition canonical_label_char :: "char \<Rightarrow> bool" where
  "canonical_label_char c \<longleftrightarrow> is_lower c \<or> is_digit c \<or> c \<in> set ''_-.+''"

definition canonical_label :: "string \<Rightarrow> bool" where
  "canonical_label s \<longleftrightarrow> s \<noteq> [] \<and> length s \<le> max_key_label_length \<and> list_all canonical_label_char s"

lemma label_byte_canonical: "label_byte c = Some d \<Longrightarrow> canonical_label_char d"
  by (auto simp: canonical_label_char_def byte_kinds byte_char_of split: if_splits)

lemma label_byte_fixed: "canonical_label_char c \<Longrightarrow> label_byte c = Some c"
  by (auto simp: canonical_label_char_def byte_kinds)

lemma label_bytes_canonical:
  "label_bytes cs = Some ds \<Longrightarrow> length ds = length cs \<and> list_all canonical_label_char ds"
  by (induction cs arbitrary: ds)
    (auto simp del: label_byte.simps dest: label_byte_canonical split: option.splits)

lemma label_bytes_fixed: "list_all canonical_label_char cs \<Longrightarrow> label_bytes cs = Some cs"
  by (induction cs) (auto simp del: label_byte.simps simp: label_byte_fixed)

lemma normalize_label_canonical:
  "normalize_and_validate_key_label l = Some c \<Longrightarrow> canonical_label c"
  using label_bytes_canonical [of l c]
  by (auto simp: normalize_and_validate_key_label_def canonical_label_def split: if_splits)

lemma normalize_label_fixed: "canonical_label c \<Longrightarrow> normalize_and_validate_key_label c = Some c"
  by (simp add: normalize_and_validate_key_label_def canonical_label_def label_bytes_fixed)

text \<open>Labels that differ only in case have the same canonical form.\<close>

lemma label_byte_lower: "label_byte c = Some d \<Longrightarrow> d = lower_byte c"
  by (auto simp: lower_byte_def byte_kinds split: if_splits)

lemma label_bytes_lower: "label_bytes cs = Some ds \<Longrightarrow> ds = map lower_byte cs"
  by (induction cs arbitrary: ds)
    (auto simp del: label_byte.simps dest: label_byte_lower split: option.splits)

section \<open>P-256 transport keys\<close>

record ec_jwk =
  jwk_kty :: string
  jwk_crv :: string
  jwk_x :: string
  jwk_y :: string
  jwk_d :: string
  jwk_kid :: string
  jwk_alg :: string
  jwk_use :: string

definition decode_b64url_fixed :: "string \<Rightarrow> nat \<Rightarrow> string go_result" where
  "decode_b64url_fixed s sz =
    (case raw_url_decode s of
       None \<Rightarrow> Inl (Err_Msg ''illegal base64 data'')
     | Some b \<Rightarrow> if length b \<noteq> sz then Inl (Err_Msg ''unexpected length'') else Inr b)"

text \<open>\<open>ValidatePublic\<close> of the two JWK types, which differ in the curve and the coordinate size.\<close>

definition validate_public_jwk :: "string \<Rightarrow> nat \<Rightarrow> ec_jwk \<Rightarrow> unit go_result" where
  "validate_public_jwk crv sz j =
    (if jwk_kty j \<noteq> ''EC'' then Inl (Err_Msg ''invalid JWK kty'')
     else if jwk_crv j \<noteq> crv then Inl (Err_Msg ''invalid JWK crv'')
     else if jwk_x j = [] \<or> jwk_y j = [] then Inl (Err_Msg ''JWK is missing x or y'')
     else if jwk_d j \<noteq> [] then Inl (Err_Msg ''JWK must not include private member d'')
     else if jwk_kid j \<noteq> [] \<or> jwk_alg j \<noteq> [] \<or> jwk_use j \<noteq> []
       then Inl (Err_Msg ''JWK must not include kid, alg, or use fields'')
     else case decode_b64url_fixed (jwk_x j) sz of
            Inl _ \<Rightarrow> Inl (Err_Msg ''invalid JWK x'')
          | Inr _ \<Rightarrow> (case decode_b64url_fixed (jwk_y j) sz of
                        Inl _ \<Rightarrow> Inl (Err_Msg ''invalid JWK y'')
                      | Inr _ \<Rightarrow> Inr ()))"

definition validate_public_p256 :: "ec_jwk \<Rightarrow> unit go_result" where
  "validate_public_p256 j = validate_public_jwk ''P-256'' 32 j"

text \<open>
  \<open>ToECDHPublicKey\<close>: the SEC1 bytes handed to \<open>ecdh.P256().NewPublicKey\<close>, whose
  check that the point is on the curve is the argument \<open>new_public_key\<close>.
\<close>

definition to_ecdh_public_key :: "(string \<Rightarrow> 'k option) \<Rightarrow> ec_jwk \<Rightarrow> 'k go_result" where
  "to_ecdh_public_key new_public_key j =
    (case validate_public_p256 j of
       Inl e \<Rightarrow> Inl e
     | Inr _ \<Rightarrow>
        (case (decode_b64url_fixed (jwk_x j) 32, decode_b64url_fixed (jwk_y j) 32) of
           (Inr x, Inr y) \<Rightarrow>
             (case new_public_key (char_of (4::nat) # x @ y) of
                None \<Rightarrow> Inl (Err_Msg ''invalid P-256 public point'')
              | Some pk \<Rightarrow> Inr pk)
         | _ \<Rightarrow> Inl (Err_Msg ''invalid P-256 public point'')))"

definition ec_jwk_of_point :: "string \<Rightarrow> nat \<Rightarrow> string \<Rightarrow> ec_jwk go_result" where
  "ec_jwk_of_point crv sz raw =
    (if length raw \<noteq> 1 + 2 * sz \<or> hd raw \<noteq> char_of (4::nat) then Inl (Err_Msg ''unexpected key encoding'')
     else Inr \<lparr>jwk_kty = ''EC'', jwk_crv = crv,
               jwk_x = raw_url_encode (take sz (drop 1 raw)),
               jwk_y = raw_url_encode (drop (1 + sz) raw),
               jwk_d = [], jwk_kid = [], jwk_alg = [], jwk_use = []\<rparr>)"

definition p256_jwk_from_ecdh :: "string option \<Rightarrow> ec_jwk go_result" where
  "p256_jwk_from_ecdh pk =
    (case pk of None \<Rightarrow> Inl (Err_Msg ''public key is nil'') | Some raw \<Rightarrow> ec_jwk_of_point ''P-256'' 32 raw)"

lemma decode_b64url_fixed_encode [simp]:
  "decode_b64url_fixed (raw_url_encode b) n = (if length b = n then Inr b else Inl (Err_Msg ''unexpected length''))"
  by (simp add: decode_b64url_fixed_def raw_decode_encode)

lemma ec_jwk_of_point_valid:
  assumes "ec_jwk_of_point crv sz raw = Inr j" and "sz > 0"
  shows "validate_public_jwk crv sz j = Inr ()"
    and "decode_b64url_fixed (jwk_x j) sz = Inr (take sz (drop 1 raw))"
    and "decode_b64url_fixed (jwk_y j) sz = Inr (drop (1 + sz) raw)"
  using assms
  by (auto simp: ec_jwk_of_point_def validate_public_jwk_def raw_encode_empty_iff split: if_splits)

section \<open>The request body\<close>

record request_create_body =
  body_key_label :: string
  body_algorithm :: string
  body_timeout :: string
  body_note :: string
  body_request_enc_alg :: string
  body_cli_ephemeral_public_key :: ec_jwk
  body_mlkem_ciphertext :: string
  body_encrypted_payload_nonce :: string
  body_encrypted_payload :: string

text \<open>Durations are 64-bit nanosecond counts; the product in \<open>GetTimeout\<close> wraps.\<close>

definition get_timeout :: "(string \<Rightarrow> int option) \<Rightarrow> request_create_body \<Rightarrow> go_time" where
  "get_timeout parse_duration r =
    (let t = body_timeout r in
     if t = [] then 0
     else case (case parse_int t of Some n \<Rightarrow> if n > 0 then Some n else None | None \<Rightarrow> None) of
            Some n \<Rightarrow> int64 (n * nanos_per_second)
          | None \<Rightarrow> (case parse_duration t of
                       Some d \<Rightarrow> if d \<ge> seconds 1 then d else 0
                     | None \<Rightarrow> 0))"

section \<open>Envelopes\<close>

record request_enc_envelope =
  renv_cli_ephemeral_public_key :: ec_jwk
  renv_mlkem_ciphertext :: string
  renv_nonce :: string
  renv_ciphertext :: string

record response_envelope =
  env_transport_alg :: string
  env_browser_ephemeral_public_key :: ec_jwk
  env_mlkem_ciphertext :: string
  env_nonce :: string
  env_ciphertext :: string
  env_result_type :: string

definition validate_response_envelope :: "response_envelope \<Rightarrow> unit go_result" where
  "validate_response_envelope env =
    (if env_transport_alg env \<noteq> transport_alg then Inl (Err_Msg ''unsupported transportAlg'')
     else case validate_public_p256 (env_browser_ephemeral_public_key env) of
       Inl e \<Rightarrow> Inl e
     | Inr _ \<Rightarrow>
       if env_mlkem_ciphertext env = [] then Inl (Err_Msg ''missing mlkemCiphertext'')
       else if decode_base64_string (env_mlkem_ciphertext env) = None
         then Inl (Err_Msg ''invalid mlkemCiphertext format'')
       else if env_nonce env = [] \<or> env_ciphertext env = []
         then Inl (Err_Msg ''nonce and ciphertext are required'')
       else if decode_base64_string (env_nonce env) = None then Inl (Err_Msg ''invalid nonce format'')
       else if decode_base64_string (env_ciphertext env) = None
         then Inl (Err_Msg ''invalid ciphertext format'')
       else Inr ())"

record request_result_response =
  res_state :: string
  res_pending :: bool
  res_done :: bool
  res_failed :: bool
  res_response_envelope :: "response_envelope option"

end
