(* ===== verification/Database.thy ===== *)
theory Database
  imports Sql_Table Protocol_Types
begin

text \<open>
  The schema (src/internal/db/migrations): one record per table, the database
  that holds them all, and what a Go handle on it offers.  Every table is an
  instance of \<open>sql_table\<close>.  TEXT columns are byte strings, BIGINT columns
  integers, nullable columns options.  The status column of a request is the
  enumeration its only writers use.
\<close>

section \<open>Rows\<close>

record user_row =
  u_id :: string
  u_display_name :: string
  u_status :: string
  u_webauthn_user_id :: string
  u_request_key :: string
  u_request_enc_ecdh_pubkey :: string
  u_request_enc_mlkem_pubkey :: string
  u_anchor_es384_public_key :: string
  u_anchor_mldsa87_public_key :: string
  u_pubkey_bundle_signature_es384 :: string
  u_pubkey_bundle_signature_mldsa87 :: string
  u_pubkey_bundle_version :: int
  u_wrapped_key_epoch :: int
  u_allowed_ips :: string
  u_ready :: bool
  u_created_at :: int
  u_updated_at :: int

record credential_row =
  c_id :: string
  c_user_id :: string
  c_credential_id :: string
  c_display_name :: string
  c_public_key :: string
  c_sign_count :: int
  c_wrapped_primary_key :: string
  c_wrapped_anchor_key :: string
  c_attestation_payload :: string
  c_attestation_signature_es384 :: string
  c_attestation_signature_mldsa87 :: string
  c_wrapped_key_epoch :: int
  c_created_at :: int
  c_last_used_at :: int

record challenge_row =
  ch_id :: string
  ch_kind :: string
  ch_user_id :: string
  ch_challenge :: string
  ch_expires_at :: int
  ch_used_at :: "int option"

record challenge_payload_row =
  cp_challenge_id :: string
  cp_session_data :: string

datatype request_status =
  Status_Pending | Status_Completed | Status_Canceled | Status_Expired

definition status_name :: "request_status \<Rightarrow> string" where
  "status_name st = (case st of
      Status_Pending \<Rightarrow> ''pending''
    | Status_Completed \<Rightarrow> ''completed''
    | Status_Canceled \<Rightarrow> ''canceled''
    | Status_Expired \<Rightarrow> ''expired'')"

record request_row =
  rr_state :: string
  rr_status :: request_status
  rr_operation :: string
  rr_user_id :: string
  rr_key_label :: string
  rr_algorithm :: string
  rr_requestor_ip :: string
  rr_note :: string
  rr_created_at :: int
  rr_expires_at :: int
  rr_updated_at :: int
  rr_encrypted_request :: string
  rr_encrypted_result :: string

record signing_key_row =
  sk_id :: string
  sk_user_id :: string
  sk_algorithm :: string
  sk_key_label :: string
  sk_jwk :: string
  sk_pem :: string
  sk_published :: bool
  sk_publication_payload :: string
  sk_publication_signature_es384 :: string
  sk_publication_signature_mldsa87 :: string
  sk_created_at :: int
  sk_updated_at :: int

record audit_row =
  ae_id :: string
  ae_created_at :: int
  ae_event_type :: string
  ae_outcome :: string
  ae_auth_method :: string
  ae_actor_user_id :: "string option"
  ae_target_user_id :: "string option"
  ae_signing_key_id :: "string option"
  ae_credential_id :: "string option"
  ae_request_state :: "string option"
  ae_http_request_id :: "string option"
  ae_client_ip :: "string option"
  ae_user_agent :: "string option"
  ae_metadata :: string

section \<open>The database\<close>

record database = db_conn +
  db_users :: "user_row list"
  db_credentials :: "credential_row list"
  db_challenges :: "challenge_row list"
  db_challenge_payloads :: "challenge_payload_row list"
  db_requests :: "request_row list"
  db_signing_keys :: "signing_key_row list"
  db_audit_events :: "audit_row list"

type_synonym 'a db_op = "(database, 'a) go"

abbreviation put_users :: "user_row list \<Rightarrow> database \<Rightarrow> database" where
  "put_users t s \<equiv> s\<lparr>db_users := t\<rparr>"
abbreviation put_credentials :: "credential_row list \<Rightarrow> database \<Rightarrow> database" where
  "put_credentials t s \<equiv> s\<lparr>db_credentials := t\<rparr>"
abbreviation put_challenges :: "challenge_row list \<Rightarrow> database \<Rightarrow> database" where
  "put_challenges t s \<equiv> s\<lparr>db_challenges := t\<rparr>"
abbreviation put_challenge_payloads :: "challenge_payload_row list \<Rightarrow> database \<Rightarrow> database" where
  "put_challenge_payloads t s \<equiv> s\<lparr>db_challenge_payloads := t\<rparr>"
abbreviation put_requests :: "request_row list \<Rightarrow> database \<Rightarrow> database" where
  "put_requests t s \<equiv> s\<lparr>db_requests := t\<rparr>"
abbreviation put_signing_keys :: "signing_key_row list \<Rightarrow> database \<Rightarrow> database" where
  "put_signing_keys t s \<equiv> s\<lparr>db_signing_keys := t\<rparr>"
abbreviation put_audit_events :: "audit_row list \<Rightarrow> database \<Rightarrow> database" where
  "put_audit_events t s \<equiv> s\<lparr>db_audit_events := t\<rparr>"

interpretation users: sql_table db_users put_users u_id
  by unfold_locales auto
interpretation credentials: sql_table db_credentials put_credentials c_id
  by unfold_locales auto
interpretation challenges: sql_table db_challenges put_challenges ch_id
  by unfold_locales auto
interpretation challenge_payloads: sql_table db_challenge_payloads put_challenge_payloads cp_challenge_id
  by unfold_locales auto
interpretation requests: sql_table db_requests put_requests rr_state
  by unfold_locales auto
interpretation signing_keys: sql_table db_signing_keys put_signing_keys sk_id
  by unfold_locales auto
interpretation audit_events: sql_table db_audit_events put_audit_events ae_id
  by unfold_locales auto

definition empty_database :: database where
  "empty_database = \<lparr>conn_faults = [], conn_in_tx = False, db_users = [], db_credentials = [],
     db_challenges = [], db_challenge_payloads = [], db_requests = [], db_signing_keys = [],
     db_audit_events = []\<rparr>"

lemma same_tables_eqs:
  fixes s s' :: database
  assumes "same_tables s s'"
  shows "db_users s' = db_users s" "db_credentials s' = db_credentials s"
    "db_challenges s' = db_challenges s" "db_challenge_payloads s' = db_challenge_payloads s"
    "db_requests s' = db_requests s" "db_signing_keys s' = db_signing_keys s"
    "db_audit_events s' = db_audit_events s"
  using assms by (cases s; cases s'; simp add: same_tables_def)+

lemma on_tables_dbI:
  "(\<And>s s' :: database. \<lbrakk>db_users s' = db_users s; db_credentials s' = db_credentials s;
      db_challenges s' = db_challenges s; db_challenge_payloads s' = db_challenge_payloads s;
      db_requests s' = db_requests s; db_signing_keys s' = db_signing_keys s;
      db_audit_events s' = db_audit_events s; I s\<rbrakk> \<Longrightarrow> I s') \<Longrightarrow> on_tables I"
  unfolding on_tables_def using same_tables_eqs by blast

lemma on_tables_requests [keeps_intros]: "on_tables (\<lambda>s :: database. P (db_requests s))"
  by (rule on_tables_dbI) simp
lemma on_tables_users [keeps_intros]: "on_tables (\<lambda>s :: database. P (db_users s))"
  by (rule on_tables_dbI) simp
lemma on_tables_credentials [keeps_intros]: "on_tables (\<lambda>s :: database. P (db_credentials s))"
  by (rule on_tables_dbI) simp
lemma on_tables_challenges [keeps_intros]: "on_tables (\<lambda>s :: database. P (db_challenges s))"
  by (rule on_tables_dbI) simp
lemma on_tables_signing_keys [keeps_intros]: "on_tables (\<lambda>s :: database. P (db_signing_keys s))"
  by (rule on_tables_dbI) simp
lemma on_tables_audit_events [keeps_intros]: "on_tables (\<lambda>s :: database. P (db_audit_events s))"
  by (rule on_tables_dbI) simp

text \<open>The foreign key of a row whose \<open>user_id\<close> references \<open>v2_users\<close>.\<close>

definition require_user :: "string \<Rightarrow> unit db_op" where
  "require_user uid s =
    (if uid \<in> u_id ` set (db_users s) then Inr () else Inl Err_Foreign_Key, s)"

lemma require_user_state [simp]: "snd (require_user uid s) = s"
  by (simp add: require_user_def)

text \<open>Deleting users removes the rows that reference them (ON DELETE CASCADE).\<close>

definition delete_users :: "(user_row \<Rightarrow> bool) \<Rightarrow> int db_op" where
  "delete_users P s =
    (let gone = u_id ` set (rows_where P (db_users s)) in
     (Inr (int (length (rows_where P (db_users s)))),
      s\<lparr>db_users := delete_rows P (db_users s),
        db_credentials := delete_rows (\<lambda>c. c_user_id c \<in> gone) (db_credentials s),
        db_requests := delete_rows (\<lambda>r. rr_user_id r \<in> gone) (db_requests s),
        db_signing_keys := delete_rows (\<lambda>k. sk_user_id k \<in> gone) (db_signing_keys s)\<rparr>))"

text \<open>Likewise for challenges and their payloads.\<close>

definition delete_challenges :: "(challenge_row \<Rightarrow> bool) \<Rightarrow> int db_op" where
  "delete_challenges P s =
    (let gone = ch_id ` set (rows_where P (db_challenges s)) in
     (Inr (int (length (rows_where P (db_challenges s)))),
      s\<lparr>db_challenges := delete_rows P (db_challenges s),
        db_challenge_payloads := delete_rows (\<lambda>p. cp_challenge_id p \<in> gone) (db_challenge_payloads s)\<rparr>))"

text \<open>\<open>QueryRow(...).Scan(...)\<close>: no row, a row that does not scan, or the scanned value.\<close>

definition scan_first :: "('r \<Rightarrow> 'a go_result) \<Rightarrow> 'r list \<Rightarrow> 'a option go_result" where
  "scan_first scan rs = (case first_row rs of
      None \<Rightarrow> Inr None
    | Some r \<Rightarrow> (case scan r of Inl e \<Rightarrow> Inl e | Inr x \<Rightarrow> Inr (Some x)))"

definition affected :: "'r list \<Rightarrow> int" where
  "affected rs = int (length rs)"

lemma affected_zero_iff [simp]: "affected rs = 0 \<longleftrightarrow> rs = []"
  by (simp add: affected_def)

text \<open>What one statement does to the table it names: nothing, or all of its effect.\<close>

lemma db_stmt_effect:
  assumes "db_stmt m s = (r, s')"
  shows "(r = Inl Err_Db \<and> same_tables s s') \<or> (\<exists>fs. m (s\<lparr>conn_faults := fs\<rparr>) = (r, s'))"
  using assms by (cases rule: db_stmt_cases [of m s]) auto

end
