(* ===== verification/Auth_Store.thy ===== *)
theory Auth_Store
  imports Database
begin

text \<open>
  The auth store (src/internal/db/auth.go): users, their credentials and the
  one-time challenges, one definition per method, in the order of the file.
  Arguments stand for what a method draws from outside: clock readings, fresh
  UUIDs, the random part of a request key, the JSON codec of a challenge payload,
  and Go's \<open>net\<close> parsers (\<open>cidr_canonical\<close> is \<open>ParseCIDR\<close> followed by
  \<open>network.String()\<close>, \<open>ip_canonical\<close> is \<open>ParseIP\<close> followed by \<open>ip.String()\<close>).
\<close>

section \<open>Types\<close>

definition request_key_prefix :: string where "request_key_prefix = ''rvk_''"

definition new_request_key :: "string go_result \<Rightarrow> string go_result" where
  "new_request_key random = (case random of Inl e \<Rightarrow> Inl e | Inr r \<Rightarrow> Inr (request_key_prefix @ r))"

record user =
  usr_id :: string
  usr_display_name :: string
  usr_status :: string
  usr_webauthn_user_id :: string
  usr_request_key :: string
  usr_request_enc_ecdh_pubkey :: string
  usr_request_enc_mlkem_pubkey :: string
  usr_anchor_es384_public_key :: string
  usr_anchor_mldsa87_public_key :: string
  usr_pubkey_bundle_signature_es384 :: string
  usr_pubkey_bundle_signature_mldsa87 :: string
  usr_pubkey_bundle_version :: int
  usr_wrapped_key_epoch :: int
  usr_allowed_ips :: "string list"
  usr_ready :: bool

record auth_challenge =
  chal_id :: string
  chal_kind :: string
  chal_user_id :: string
  chal_challenge :: string
  chal_expires_at :: go_time

record register_user_input =
  ri_user_id :: string
  ri_display_name :: string
  ri_webauthn_user_id :: string
  ri_credential_id :: string
  ri_credential_display_name :: string
  ri_public_key :: string
  ri_sign_count :: int

record add_credential_input =
  ai_user_id :: string
  ai_credential_id :: string
  ai_display_name :: string
  ai_public_key :: string
  ai_sign_count :: int
  ai_wrapped_primary_key :: string
  ai_wrapped_anchor_key :: string
  ai_attestation_payload :: string
  ai_attestation_signature_es384 :: string
  ai_attestation_signature_mldsa87 :: string

record login_input =
  lo_user_id :: string
  lo_credential_id :: string
  lo_sign_count :: int

record finalize_signup_input =
  fi_user_id :: string
  fi_wrapped_primary_key :: string
  fi_wrapped_anchor_key :: string
  fi_request_enc_ecdh_pubkey :: string
  fi_request_enc_mlkem_pubkey :: string
  fi_anchor_es384_public_key :: string
  fi_anchor_mldsa87_public_key :: string
  fi_pubkey_bundle_signature_es384 :: string
  fi_pubkey_bundle_signature_mldsa87 :: string
  fi_pubkey_bundle_version :: int
  fi_attestation_payload :: string
  fi_attestation_signature_es384 :: string
  fi_attestation_signature_mldsa87 :: string

text \<open>A method that must run in a transaction panics outside one.\<close>

definition require_transaction :: "string \<Rightarrow> unit db_op" where
  "require_transaction name s =
    (if conn_in_tx s then Inr () else Inl (Err_Panic (name @ '' must be invoked in a transaction'')), s)"

definition is_integrity_violation :: "go_error \<Rightarrow> bool" where
  "is_integrity_violation e \<longleftrightarrow> e = Err_Unique \<or> e = Err_Foreign_Key"

definition map_integrity :: "go_error \<Rightarrow> 'a db_op \<Rightarrow> 'a db_op" where
  "map_integrity e m s = (case m s of
      (Inl e1, s1) \<Rightarrow> (Inl (if is_integrity_violation e1 then e else e1), s1)
    | (Inr x, s1) \<Rightarrow> (Inr x, s1))"

section \<open>Allowed IP lists\<close>

fun drop_blank :: "string list \<Rightarrow> string list" where
  "drop_blank [] = []"
| "drop_blank (p # ps) = (let t = trim_space p in if t \<noteq> [] then t # drop_blank ps else drop_blank ps)"

definition parse_allowed_ips_csv :: "string \<Rightarrow> string list" where
  "parse_allowed_ips_csv raw =
    (if trim_space raw = [] then [] else drop_blank (split_on CHR '','' raw))"

fun normalize_ips_from ::
  "(string \<Rightarrow> string option) \<Rightarrow> (string \<Rightarrow> string option) \<Rightarrow> string list \<Rightarrow> string list \<Rightarrow> string list go_result" where
  "normalize_ips_from cidr_canonical ip_canonical acc [] = Inr acc"
| "normalize_ips_from cidr_canonical ip_canonical acc (x # xs) =
    (let entry = trim_space x in
     if entry = [] then normalize_ips_from cidr_canonical ip_canonical acc xs
     else case (if CHR ''/'' \<in> set entry
                then (case cidr_canonical entry of None \<Rightarrow> Inl (Err_Invalid_CIDR entry) | Some n \<Rightarrow> Inr n)
                else (case ip_canonical entry of None \<Rightarrow> Inl (Err_Invalid_IP entry) | Some i \<Rightarrow> Inr i)) of
            Inl e \<Rightarrow> Inl e
          | Inr canonical \<Rightarrow>
              if canonical \<in> set acc then normalize_ips_from cidr_canonical ip_canonical acc xs
              else normalize_ips_from cidr_canonical ip_canonical (acc @ [canonical]) xs)"

definition normalize_allowed_ips ::
  "(string \<Rightarrow> string option) \<Rightarrow> (string \<Rightarrow> string option) \<Rightarrow> string list \<Rightarrow> string list go_result" where
  "normalize_allowed_ips cidr_canonical ip_canonical ips =
     normalize_ips_from cidr_canonical ip_canonical [] ips"

section \<open>Users and credentials\<close>

definition user_of_row :: "user_row \<Rightarrow> user" where
  "user_of_row r =
    \<lparr>usr_id = u_id r, usr_display_name = u_display_name r, usr_status = u_status r,
     usr_webauthn_user_id = u_webauthn_user_id r, usr_request_key = u_request_key r,
     usr_request_enc_ecdh_pubkey = u_request_enc_ecdh_pubkey r,
     usr_request_enc_mlkem_pubkey = u_request_enc_mlkem_pubkey r,
     usr_anchor_es384_public_key = u_anchor_es384_public_key r,
     usr_anchor_mldsa87_public_key = u_anchor_mldsa87_public_key r,
     usr_pubkey_bundle_signature_es384 = u_pubkey_bundle_signature_es384 r,
     usr_pubkey_bundle_signature_mldsa87 = u_pubkey_bundle_signature_mldsa87 r,
     usr_pubkey_bundle_version = u_pubkey_bundle_version r,
     usr_wrapped_key_epoch = u_wrapped_key_epoch r,
     usr_allowed_ips = parse_allowed_ips_csv (u_allowed_ips r),
     usr_ready = u_ready r\<rparr>"

definition count_users :: "int db_op" where
  "count_users = go_bind (db_stmt (sql_select db_users (\<lambda>_. True))) (\<lambda>rs. go_return (affected rs))"

definition user_column :: "string \<Rightarrow> (user_row \<Rightarrow> string) option" where
  "user_column column =
    (if column = ''id'' then Some u_id
     else if column = ''webauthn_user_id'' then Some u_webauthn_user_id
     else if column = ''request_key'' then Some u_request_key
     else None)"

definition get_user :: "string \<Rightarrow> string \<Rightarrow> user option db_op" where
  "get_user column value =
     (case user_column column of
        None \<Rightarrow> go_fail (Err_Msg (''invalid column requested: '' @ column))
      | Some col \<Rightarrow>
          go_bind (db_stmt (sql_select db_users (\<lambda>r. col r = value)))
            (\<lambda>rs. go_return (map_option user_of_row (first_row rs))))"

definition get_user_by_id :: "string \<Rightarrow> user option db_op" where
  "get_user_by_id uid = get_user ''id'' uid"

definition get_user_by_webauthn_user_id :: "string \<Rightarrow> user option db_op" where
  "get_user_by_webauthn_user_id wid = get_user ''webauthn_user_id'' wid"

definition get_user_by_request_key :: "string \<Rightarrow> user option db_op" where
  "get_user_by_request_key k = get_user ''request_key'' k"

text \<open>Credential records carry every column of the row but its owner.\<close>

definition list_credentials :: "string \<Rightarrow> credential_row list db_op" where
  "list_credentials uid =
     go_bind (db_stmt (sql_select db_credentials (\<lambda>c. c_user_id c = uid)))
       (\<lambda>rs. go_return (sort_key c_created_at rs))"

definition get_credential_for_user :: "string \<Rightarrow> string \<Rightarrow> credential_row option db_op" where
  "get_credential_for_user uid cid =
     go_bind (db_stmt (sql_select db_credentials (\<lambda>c. c_user_id c = uid \<and> c_credential_id c = cid)))
       (\<lambda>rs. go_return (first_row rs))"

definition get_credential_by_credential_id :: "string \<Rightarrow> string \<Rightarrow> credential_row option db_op" where
  "get_credential_by_credential_id cid uid =
     go_bind (db_stmt (sql_select db_credentials (\<lambda>c. c_credential_id c = cid \<and> c_user_id c = uid)))
       (\<lambda>rs. go_return (first_row rs))"

section \<open>Challenges\<close>

definition same_challenge :: "challenge_row \<Rightarrow> challenge_row \<Rightarrow> bool" where
  "same_challenge q r \<longleftrightarrow> ch_id q = ch_id r"

definition same_payload :: "challenge_payload_row \<Rightarrow> challenge_payload_row \<Rightarrow> bool" where
  "same_payload q r \<longleftrightarrow> cp_challenge_id q = cp_challenge_id r"

text \<open>\<open>expires_at = None\<close> is the zero time, \<open>payload\<close> the marshalled payload when there is one.\<close>

definition begin_challenge ::
  "go_time \<Rightarrow> string \<Rightarrow> string \<Rightarrow> string \<Rightarrow> string \<Rightarrow> go_time option \<Rightarrow> string go_result option \<Rightarrow> auth_challenge db_op" where
  "begin_challenge now new_id kind uid challenge expires_at payload =
     go_bind (require_transaction ''BeginChallenge'') (\<lambda>_.
     if challenge = [] then go_fail (Err_Msg ''challenge is empty'')
     else
       let expires = (case expires_at of None \<Rightarrow> now + minutes 5 | Some t \<Rightarrow> t);
           rec = \<lparr>chal_id = new_id, chal_kind = kind, chal_user_id = uid,
                  chal_challenge = challenge, chal_expires_at = expires\<rparr>
       in go_bind (go_lift (case payload of None \<Rightarrow> Inr [] | Some r \<Rightarrow> r)) (\<lambda>payload_bytes.
          go_bind (db_stmt (sql_insert db_challenges put_challenges same_challenge
             \<lparr>ch_id = new_id, ch_kind = kind, ch_user_id = uid, ch_challenge = challenge,
              ch_expires_at = unix_seconds expires, ch_used_at = None\<rparr>)) (\<lambda>_.
          go_bind (if payload_bytes \<noteq> [] then
               db_stmt (sql_insert db_challenge_payloads put_challenge_payloads same_payload
                 \<lparr>cp_challenge_id = new_id, cp_session_data = payload_bytes\<rparr>)
             else go_return ()) (\<lambda>_.
          go_return rec))))"

definition consumable :: "string \<Rightarrow> string \<Rightarrow> string \<Rightarrow> int \<Rightarrow> challenge_row \<Rightarrow> bool" where
  "consumable cid kind uid now c \<longleftrightarrow>
     ch_id c = cid \<and> ch_kind c = kind \<and> ch_used_at c = None \<and> ch_expires_at c \<ge> now
     \<and> (uid = [] \<or> ch_user_id c = uid)"

text \<open>
  The UPDATE that marks the challenge returns its payload from the payload table;
  \<open>unm\<close> is \<open>json.Unmarshal\<close> into the destination, \<open>None\<close> when there is none.
\<close>

definition payload_of :: "string \<Rightarrow> challenge_payload_row list \<Rightarrow> string option" where
  "payload_of cid ps = map_option cp_session_data (first_row (rows_where (\<lambda>p. cp_challenge_id p = cid) ps))"

definition consume_stmt :: "string \<Rightarrow> string \<Rightarrow> string \<Rightarrow> int \<Rightarrow> string option list db_op" where
  "consume_stmt cid kind uid now s =
     (case sql_update db_challenges put_challenges (consumable cid kind uid now) (\<lambda>c. c\<lparr>ch_used_at := Some now\<rparr>) s of
        (Inl e, s1) \<Rightarrow> (Inl e, s1)
      | (Inr rs, s1) \<Rightarrow> (Inr (map (\<lambda>c. payload_of (ch_id c) (db_challenge_payloads s)) rs), s1))"

definition consume_challenge ::
  "go_time \<Rightarrow> (string \<Rightarrow> 'p option) option \<Rightarrow> string \<Rightarrow> string \<Rightarrow> string \<Rightarrow> 'p option db_op" where
  "consume_challenge now unm cid kind uid =
     go_bind (db_stmt (consume_stmt cid kind uid (unix_seconds now))) (\<lambda>rs.
       case first_row rs of
         None \<Rightarrow> go_fail Err_Invalid_Challenge
       | Some payload \<Rightarrow>
           (case (unm, payload) of
              (Some f, Some p) \<Rightarrow> (case f p of None \<Rightarrow> go_fail Err_Json | Some x \<Rightarrow> go_return (Some x))
            | _ \<Rightarrow> go_return None))"

definition has_pending_challenge :: "go_time \<Rightarrow> string \<Rightarrow> string \<Rightarrow> bool db_op" where
  "has_pending_challenge now uid kind =
     go_bind (db_stmt (sql_select db_challenges (\<lambda>c. ch_user_id c = uid \<and> ch_kind c = kind
                \<and> ch_used_at c = None \<and> ch_expires_at c \<ge> unix_seconds now)))
       (\<lambda>rs. go_return (rs \<noteq> []))"

section \<open>Registration and login\<close>

definition same_user_key :: "user_row \<Rightarrow> user_row \<Rightarrow> bool" where
  "same_user_key q r \<longleftrightarrow> u_id q = u_id r \<or> u_webauthn_user_id q = u_webauthn_user_id r
     \<or> u_request_key q = u_request_key r"

definition same_credential_key :: "credential_row \<Rightarrow> credential_row \<Rightarrow> bool" where
  "same_credential_key q r \<longleftrightarrow> c_id q = c_id r \<or> c_credential_id q = c_credential_id r"

definition new_user_row :: "int \<Rightarrow> string \<Rightarrow> register_user_input \<Rightarrow> user_row" where
  "new_user_row n request_key inp =
    \<lparr>u_id = ri_user_id inp, u_display_name = trim_space (ri_display_name inp), u_status = ''active'',
     u_webauthn_user_id = ri_webauthn_user_id inp, u_request_key = request_key,
     u_request_enc_ecdh_pubkey = [], u_request_enc_mlkem_pubkey = [],
     u_anchor_es384_public_key = [], u_anchor_mldsa87_public_key = [],
     u_pubkey_bundle_signature_es384 = [], u_pubkey_bundle_signature_mldsa87 = [],
     u_pubkey_bundle_version = 1, u_wrapped_key_epoch = 1, u_allowed_ips = [], u_ready = False,
     u_created_at = n, u_updated_at = n\<rparr>"

definition insert_credential :: "credential_row \<Rightarrow> unit db_op" where
  "insert_credential r =
     go_bind (require_user (c_user_id r))
       (\<lambda>_. sql_insert db_credentials put_credentials same_credential_key r)"

definition register_user ::
  "go_time \<Rightarrow> string go_result \<Rightarrow> string \<Rightarrow> register_user_input \<Rightarrow> user db_op" where
  "register_user now random new_id inp =
     go_bind (require_transaction ''RegisterUser'') (\<lambda>_.
     go_bind (go_lift (new_request_key random)) (\<lambda>request_key.
     let n = unix_seconds now in
     go_bind (map_integrity Err_User_Already_Exists
        (db_stmt (sql_insert db_users put_users same_user_key (new_user_row n request_key inp)))) (\<lambda>_.
     go_bind (map_integrity Err_User_Already_Exists
        (db_stmt (insert_credential
          \<lparr>c_id = new_id, c_user_id = ri_user_id inp, c_credential_id = ri_credential_id inp,
           c_display_name = trim_space (ri_credential_display_name inp), c_public_key = ri_public_key inp,
           c_sign_count = ri_sign_count inp, c_wrapped_primary_key = [], c_wrapped_anchor_key = [],
           c_attestation_payload = [], c_attestation_signature_es384 = [],
           c_attestation_signature_mldsa87 = [], c_wrapped_key_epoch = 1,
           c_created_at = n, c_last_used_at = n\<rparr>))) (\<lambda>_.
     go_return
       \<lparr>usr_id = ri_user_id inp, usr_display_name = trim_space (ri_display_name inp),
        usr_status = ''active'', usr_webauthn_user_id = ri_webauthn_user_id inp,
        usr_request_key = request_key, usr_request_enc_ecdh_pubkey = [],
        usr_request_enc_mlkem_pubkey = [], usr_anchor_es384_public_key = [],
        usr_anchor_mldsa87_public_key = [], usr_pubkey_bundle_signature_es384 = [],
        usr_pubkey_bundle_signature_mldsa87 = [], usr_pubkey_bundle_version = 0,
        usr_wrapped_key_epoch = 1, usr_allowed_ips = [], usr_ready = False\<rparr>))))"

definition user_active :: "string \<Rightarrow> database \<Rightarrow> bool" where
  "user_active uid s \<longleftrightarrow> list_ex (\<lambda>u. u_id u = uid \<and> u_status u = ''active'') (db_users s)"

definition login_stmt :: "int \<Rightarrow> login_input \<Rightarrow> credential_row list db_op" where
  "login_stmt n inp s =
     sql_update db_credentials put_credentials
       (\<lambda>c. c_credential_id c = lo_credential_id inp \<and> c_user_id c = lo_user_id inp
            \<and> user_active (lo_user_id inp) s)
       (\<lambda>c. c\<lparr>c_sign_count := lo_sign_count inp, c_last_used_at := n\<rparr>) s"

definition auth_login :: "go_time \<Rightarrow> login_input \<Rightarrow> unit db_op" where
  "auth_login now inp =
     go_bind (db_stmt (login_stmt (unix_seconds now) inp))
       (\<lambda>rs. if rs = [] then go_fail Err_Invalid_Login else go_return ())"

definition finalized_row :: "int \<Rightarrow> finalize_signup_input \<Rightarrow> user_row \<Rightarrow> user_row" where
  "finalized_row n inp u =
     u\<lparr>u_request_enc_ecdh_pubkey := fi_request_enc_ecdh_pubkey inp,
       u_request_enc_mlkem_pubkey := fi_request_enc_mlkem_pubkey inp,
       u_anchor_es384_public_key := fi_anchor_es384_public_key inp,
       u_anchor_mldsa87_public_key := fi_anchor_mldsa87_public_key inp,
       u_pubkey_bundle_signature_es384 := fi_pubkey_bundle_signature_es384 inp,
       u_pubkey_bundle_signature_mldsa87 := fi_pubkey_bundle_signature_mldsa87 inp,
       u_pubkey_bundle_version := fi_pubkey_bundle_version inp,
       u_ready := True, u_updated_at := n\<rparr>"

definition finalized_credential :: "finalize_signup_input \<Rightarrow> credential_row \<Rightarrow> credential_row" where
  "finalized_credential inp c =
     c\<lparr>c_wrapped_primary_key := fi_wrapped_primary_key inp,
       c_wrapped_anchor_key := fi_wrapped_anchor_key inp,
       c_attestation_payload := fi_attestation_payload inp,
       c_attestation_signature_es384 := fi_attestation_signature_es384 inp,
       c_attestation_signature_mldsa87 := fi_attestation_signature_mldsa87 inp,
       c_wrapped_key_epoch := 1\<rparr>"

definition finalize_signup :: "go_time \<Rightarrow> finalize_signup_input \<Rightarrow> user db_op" where
  "finalize_signup now inp =
    (if length (fi_wrapped_primary_key inp) > 512 then go_fail (Err_Msg ''wrappedPrimaryKey is too large'')
     else if length (fi_wrapped_anchor_key inp) > 32768 then go_fail (Err_Msg ''wrappedAnchorKey is too large'')
     else if length (fi_attestation_payload inp) > 4096 then go_fail (Err_Msg ''attestationPayload is too large'')
     else
     go_bind (require_transaction ''FinalizeSignup'') (\<lambda>_.
     go_bind (db_stmt (sql_update db_users put_users (\<lambda>u. u_id u = fi_user_id inp \<and> \<not> u_ready u)
                (finalized_row (unix_seconds now) inp))) (\<lambda>rs.
     case first_row rs of
       None \<Rightarrow>
         go_bind (db_stmt (sql_select db_users (\<lambda>u. u_id u = fi_user_id inp))) (\<lambda>us.
           if us = [] then go_fail Err_User_Not_Found else go_fail Err_Already_Finalized)
     | Some row \<Rightarrow>
         go_bind (db_stmt (sql_update db_credentials put_credentials
                    (\<lambda>c. c_user_id c = fi_user_id inp) (finalized_credential inp))) (\<lambda>_.
           go_return (user_of_row row)))))"

section \<open>Changes to a ready user\<close>

definition mutable_user :: "string \<Rightarrow> user_row \<Rightarrow> bool" where
  "mutable_user uid u \<longleftrightarrow> u_id u = uid \<and> u_status u = ''active'' \<and> u_ready u"

definition update_allowed_ips ::
  "(string \<Rightarrow> string option) \<Rightarrow> (string \<Rightarrow> string option) \<Rightarrow> go_time \<Rightarrow> string \<Rightarrow> string list \<Rightarrow> string list db_op" where
  "update_allowed_ips cidr_canonical ip_canonical now uid ips =
     go_bind (go_lift (normalize_allowed_ips cidr_canonical ip_canonical ips)) (\<lambda>normalized.
     go_bind (db_stmt (sql_update db_users put_users (mutable_user uid)
        (\<lambda>u. u\<lparr>u_allowed_ips := join_with '','' normalized, u_updated_at := unix_seconds now\<rparr>)))
       (\<lambda>rs. if affected rs = 0 then go_fail Err_User_Not_Found else go_return normalized))"

text \<open>The new key must not be another user's (unique index on \<open>request_key\<close>).\<close>

definition set_request_key_stmt :: "string \<Rightarrow> string \<Rightarrow> int \<Rightarrow> user_row list db_op" where
  "set_request_key_stmt uid k n s =
     (if list_ex (mutable_user uid) (db_users s)
         \<and> list_ex (\<lambda>u. u_id u \<noteq> uid \<and> u_request_key u = k) (db_users s)
      then (Inl Err_Unique, s)
      else sql_update db_users put_users (mutable_user uid)
             (\<lambda>u. u\<lparr>u_request_key := k, u_updated_at := n\<rparr>) s)"

definition regenerate_request_key :: "go_time \<Rightarrow> string go_result \<Rightarrow> string \<Rightarrow> string db_op" where
  "regenerate_request_key now random uid =
     go_bind (go_lift (new_request_key random)) (\<lambda>request_key.
     go_bind (db_stmt (set_request_key_stmt uid request_key (unix_seconds now)))
       (\<lambda>rs. if affected rs = 0 then go_fail Err_User_Not_Found else go_return request_key))"

definition update_display_name :: "go_time \<Rightarrow> string \<Rightarrow> string \<Rightarrow> unit db_op" where
  "update_display_name now uid display_name =
     (if length display_name > 100 then go_fail Err_Display_Name_Too_Long
      else go_bind (db_stmt (sql_update db_users put_users (mutable_user uid)
             (\<lambda>u. u\<lparr>u_display_name := display_name, u_updated_at := unix_seconds now\<rparr>)))
           (\<lambda>rs. if affected rs = 0 then go_fail Err_User_Not_Found else go_return ()))"

text \<open>\<open>(SELECT wrapped_key_epoch FROM v2_users WHERE id = .. AND status = 'active')\<close>\<close>

definition active_epoch :: "string \<Rightarrow> database \<Rightarrow> int option" where
  "active_epoch uid s =
     map_option u_wrapped_key_epoch (List.find (\<lambda>u. u_id u = uid \<and> u_status u = ''active'') (db_users s))"

definition rewrap_stmt :: "string \<Rightarrow> string \<Rightarrow> string \<Rightarrow> string \<Rightarrow> credential_row list db_op" where
  "rewrap_stmt cid uid wpk wak s =
     (case active_epoch uid s of
        None \<Rightarrow> (Inr [], s)
      | Some epoch \<Rightarrow>
          sql_update db_credentials put_credentials (\<lambda>c. c_credential_id c = cid \<and> c_user_id c = uid)
            (\<lambda>c. c\<lparr>c_wrapped_primary_key := wpk, c_wrapped_anchor_key := wak, c_wrapped_key_epoch := epoch\<rparr>) s)"

definition update_credential_wrapped_key :: "string \<Rightarrow> string \<Rightarrow> string \<Rightarrow> string \<Rightarrow> unit db_op" where
  "update_credential_wrapped_key cid uid wpk wak =
     (if length wpk > 512 then go_fail (Err_Msg ''wrappedPrimaryKey is too large'')
      else if length wak > 32768 then go_fail (Err_Msg ''wrappedAnchorKey is too large'')
      else go_bind (db_stmt (rewrap_stmt cid uid wpk wak))
        (\<lambda>rs. if affected rs = 0 then go_fail Err_Credential_Not_Found else go_return ()))"

definition add_credential_stmt :: "string \<Rightarrow> int \<Rightarrow> add_credential_input \<Rightarrow> int db_op" where
  "add_credential_stmt new_id n inp s =
     (case active_epoch (ai_user_id inp) s of
        None \<Rightarrow> (Inr 0, s)
      | Some epoch \<Rightarrow>
          go_bind (insert_credential
            \<lparr>c_id = new_id, c_user_id = ai_user_id inp, c_credential_id = ai_credential_id inp,
             c_display_name = ai_display_name inp, c_public_key = ai_public_key inp,
             c_sign_count = ai_sign_count inp, c_wrapped_primary_key = ai_wrapped_primary_key inp,
             c_wrapped_anchor_key = ai_wrapped_anchor_key inp,
             c_attestation_payload = ai_attestation_payload inp,
             c_attestation_signature_es384 = ai_attestation_signature_es384 inp,
             c_attestation_signature_mldsa87 = ai_attestation_signature_mldsa87 inp,
             c_wrapped_key_epoch = epoch, c_created_at = n, c_last_used_at = n\<rparr>) (\<lambda>_. go_return 1) s)"

definition add_credential :: "go_time \<Rightarrow> string \<Rightarrow> add_credential_input \<Rightarrow> unit db_op" where
  "add_credential now new_id inp =
     (if length (ai_wrapped_primary_key inp) > 512 then go_fail (Err_Msg ''wrappedPrimaryKey is too large'')
      else if length (ai_wrapped_anchor_key inp) > 32768 then go_fail (Err_Msg ''wrappedAnchorKey is too large'')
      else if length (ai_attestation_payload inp) > 4096 then go_fail (Err_Msg ''attestationPayload is too large'')
      else go_bind (db_stmt (add_credential_stmt new_id (unix_seconds now) inp))
        (\<lambda>n. if n = 0 then go_fail Err_User_Not_Found else go_return ()))"

definition advance_wrapped_key_epoch :: "go_time \<Rightarrow> string \<Rightarrow> int db_op" where
  "advance_wrapped_key_epoch now uid =
     go_bind (db_stmt (sql_update db_users put_users (mutable_user uid)
        (\<lambda>u. u\<lparr>u_wrapped_key_epoch := u_wrapped_key_epoch u + 1, u_updated_at := unix_seconds now\<rparr>)))
       (\<lambda>rs. case first_row rs of None \<Rightarrow> go_fail Err_User_Not_Found
             | Some u \<Rightarrow> go_return (u_wrapped_key_epoch u))"

definition rename_credential :: "string \<Rightarrow> string \<Rightarrow> string \<Rightarrow> unit db_op" where
  "rename_credential rid uid name =
     (let display_name = trim_space name in
      if length display_name > 100 then go_fail Err_Display_Name_Too_Long
      else go_bind (db_stmt (sql_update db_credentials put_credentials
             (\<lambda>c. c_id c = rid \<and> c_user_id c = uid) (\<lambda>c. c\<lparr>c_display_name := display_name\<rparr>)))
           (\<lambda>rs. if affected rs = 0 then go_fail Err_Credential_Not_Found else go_return ()))"

section \<open>Deleting a credential\<close>

datatype backend_kind = Backend_SQLite | Backend_Postgres

definition credentials_of :: "string \<Rightarrow> database \<Rightarrow> credential_row list" where
  "credentials_of uid s = rows_where (\<lambda>c. c_user_id c = uid) (db_credentials s)"

definition credentials_with_id :: "string \<Rightarrow> credential_row list \<Rightarrow> credential_row list" where
  "credentials_with_id rid cs = rows_where (\<lambda>c. c_id c = rid) cs"

text \<open>The Postgres statement: locked rows, conditional delete, and the three counts.\<close>

definition delete_postgres_stmt :: "string \<Rightarrow> string \<Rightarrow> (nat \<times> nat \<times> nat) db_op" where
  "delete_postgres_stmt rid uid s =
     (let locked = credentials_of uid s;
          fire = length locked > 1 \<and> credentials_with_id rid locked \<noteq> [];
          del = (\<lambda>c. c_id c = rid \<and> c_user_id c = uid \<and> fire)
      in (Inr (length locked, length (credentials_with_id rid locked), length (rows_where del (db_credentials s))),
          put_credentials (delete_rows del (db_credentials s)) s))"

definition delete_credential_postgres :: "string \<Rightarrow> string \<Rightarrow> unit db_op" where
  "delete_credential_postgres rid uid =
     go_bind (db_stmt (delete_postgres_stmt rid uid)) (\<lambda>(total, tgt, deleted).
       if deleted = 1 then go_return ()
       else if tgt = 0 then go_fail Err_Credential_Not_Found
       else if total \<le> 1 then go_fail Err_Last_Credential
       else go_fail (Err_Msg ''delete credential: unexpected state''))"

definition delete_sqlite_stmt :: "string \<Rightarrow> string \<Rightarrow> credential_row list db_op" where
  "delete_sqlite_stmt rid uid s =
     (let total = length (credentials_of uid s) in
      sql_delete db_credentials put_credentials (\<lambda>c. c_id c = rid \<and> c_user_id c = uid \<and> total > 1) s)"

definition delete_credential_sqlite :: "string \<Rightarrow> string \<Rightarrow> unit db_op" where
  "delete_credential_sqlite rid uid =
     go_bind (db_stmt (delete_sqlite_stmt rid uid)) (\<lambda>rs.
       if rs \<noteq> [] then go_return ()
       else go_bind (db_stmt (sql_select db_credentials (\<lambda>c. c_user_id c = uid))) (\<lambda>cs.
         if length (credentials_with_id rid cs) = 0 then go_fail Err_Credential_Not_Found
         else go_fail Err_Last_Credential))"

definition delete_credential :: "backend_kind \<Rightarrow> string \<Rightarrow> string \<Rightarrow> unit db_op" where
  "delete_credential kind rid uid =
     (case kind of
        Backend_Postgres \<Rightarrow> delete_credential_postgres rid uid
      | Backend_SQLite \<Rightarrow> delete_credential_sqlite rid uid)"

section \<open>Garbage collection\<close>

definition cleanup_expired :: "go_time \<Rightarrow> unit db_op" where
  "cleanup_expired now =
     (let cutoff = unix_seconds (now - minutes 10) in
      go_bind (db_stmt (delete_challenges (\<lambda>c. ch_expires_at c < cutoff \<or> ch_used_at c \<noteq> None)))
        (\<lambda>_. go_return ()))"

definition delete_expired_auth_challenge :: "string \<Rightarrow> go_time \<Rightarrow> unit db_op" where
  "delete_expired_auth_challenge cid now =
     (let cutoff = unix_seconds (now - minutes 10) in
      go_bind (db_stmt (delete_challenges
                 (\<lambda>c. ch_id c = cid \<and> (ch_expires_at c < cutoff \<or> ch_used_at c \<noteq> None))))
        (\<lambda>_. go_return ()))"

definition delete_nonready_user :: "string \<Rightarrow> go_time \<Rightarrow> unit db_op" where
  "delete_nonready_user uid now =
     (let cutoff = unix_seconds (now - hours 24 - minutes 10) in
      go_bind (db_stmt (delete_users (\<lambda>u. u_id u = uid \<and> \<not> u_ready u \<and> u_created_at u < cutoff)))
        (\<lambda>_. go_return ()))"

end
