(* ===== verification/Canonical.thy ===== *)
theory Canonical
  imports Protocol_Types
begin

text \<open>
  The canonical bodies that the anchor signs (src/internal/protocolv2/anchor.go,
  signing-key-publication.go, jwk_p384.go): ordered \<open>key=value\<close> lines.  Go walks the
  tagged fields of a struct by reflection; here a struct is described by its list
  of tags and kinds (\<open>schema\<close>) and carried as its list of field values, with the
  records of the source on top.  The encoders and parsers of the four payloads are
  instances of the codec contracts of \<open>Go_Base64\<close>.
\<close>

section \<open>Tagged fields\<close>

datatype field_kind = Kind_String | Kind_Int64
datatype field_value = Val_String string | Val_Int int

type_synonym schema = "(string \<times> field_kind) list"

definition field_text :: "field_value \<Rightarrow> string" where
  "field_text v = (case v of Val_String s \<Rightarrow> s | Val_Int n \<Rightarrow> format_int n)"

definition field_line :: "string \<Rightarrow> field_value \<Rightarrow> string" where
  "field_line key v = key @ ''='' @ field_text v"

definition canonical_body_from_tagged_fields :: "schema \<Rightarrow> field_value list \<Rightarrow> string" where
  "canonical_body_from_tagged_fields sc vs =
     join_with [CHR 0x0A] (map (\<lambda>((key, _), v). field_line key v) (zip sc vs))"

definition parse_field :: "field_kind \<Rightarrow> string \<Rightarrow> field_value option" where
  "parse_field k content = (case k of
      Kind_String \<Rightarrow> Some (Val_String content)
    | Kind_Int64 \<Rightarrow> map_option Val_Int (parse_int content))"

fun parse_lines :: "schema \<Rightarrow> string list \<Rightarrow> field_value list option" where
  "parse_lines [] [] = Some []"
| "parse_lines ((expected, k) # sc) (line # lines) =
     (case cut_on CHR ''='' line of
        None \<Rightarrow> None
      | Some (key, content) \<Rightarrow>
          if key \<noteq> expected then None
          else (case parse_field k content of None \<Rightarrow> None
                | Some v \<Rightarrow> (case parse_lines sc lines of None \<Rightarrow> None | Some vs \<Rightarrow> Some (v # vs))))"
| "parse_lines _ _ = None"

definition parse_tagged_fields :: "schema \<Rightarrow> string \<Rightarrow> field_value list option" where
  "parse_tagged_fields sc body =
    (let lines = split_on CHR 0x0A body in
     if length lines \<noteq> length sc then None else parse_lines sc lines)"

text \<open>A struct of the schema: values of the right kinds, strings without a line break.\<close>

definition field_ok :: "field_kind \<Rightarrow> field_value \<Rightarrow> bool" where
  "field_ok k v = (case (k, v) of
      (Kind_String, Val_String s) \<Rightarrow> CHR 0x0A \<notin> set s
    | (Kind_Int64, Val_Int n) \<Rightarrow> in_int64 n
    | _ \<Rightarrow> False)"

definition fields_ok :: "schema \<Rightarrow> field_value list \<Rightarrow> bool" where
  "fields_ok sc vs \<longleftrightarrow> length vs = length sc \<and> list_all2 (\<lambda>(_, k) v. field_ok k v) sc vs"

definition schema_ok :: "schema \<Rightarrow> bool" where
  "schema_ok sc \<longleftrightarrow> sc \<noteq> [] \<and> list_all (\<lambda>(key, _). CHR 0x0A \<notin> set key \<and> CHR ''='' \<notin> set key) sc"

lemma parse_field_text: "field_ok k v \<Longrightarrow> parse_field k (field_text v) = Some v"
  by (auto simp: field_ok_def parse_field_def field_text_def split: field_kind.splits field_value.splits)

lemma field_text_no_newline: "field_ok k v \<Longrightarrow> CHR 0x0A \<notin> set (field_text v)"
  by (auto simp: field_ok_def field_text_def format_int_no_newline split: field_kind.splits field_value.splits)

lemma cut_field_line: "CHR ''='' \<notin> set key \<Longrightarrow> cut_on CHR ''='' (field_line key v) = Some (key, field_text v)"
  by (simp add: field_line_def cut_on_append)

lemma parse_lines_fields:
  assumes "list_all2 (\<lambda>(_, k) v. field_ok k v) sc vs"
    and "list_all (\<lambda>(key, _). CHR 0x0A \<notin> set key \<and> CHR ''='' \<notin> set key) sc"
  shows "parse_lines sc (map (\<lambda>((key, _), v). field_line key v) (zip sc vs)) = Some vs"
  using assms
  by (induction sc vs rule: list_all2_induct) (auto simp: cut_field_line parse_field_text)

lemma field_line_no_newline:
  "field_ok k v \<Longrightarrow> CHR 0x0A \<notin> set key \<Longrightarrow> CHR 0x0A \<notin> set (field_line key v)"
  by (simp add: field_line_def field_text_no_newline)

lemma field_lines_no_newline:
  assumes "list_all2 (\<lambda>(_, k) v. field_ok k v) sc vs"
    and "list_all (\<lambda>(key, _). CHR 0x0A \<notin> set key \<and> CHR ''='' \<notin> set key) sc"
  shows "list_all (\<lambda>w. CHR 0x0A \<notin> set w) (map (\<lambda>((key, _), v). field_line key v) (zip sc vs))"
  using assms
  by (induction sc vs rule: list_all2_induct) (auto simp: field_line_no_newline)

lemma split_canonical_body:
  assumes "schema_ok sc" and "fields_ok sc vs"
  shows "split_on CHR 0x0A (canonical_body_from_tagged_fields sc vs)
       = map (\<lambda>((key, _), v). field_line key v) (zip sc vs)"
  unfolding canonical_body_from_tagged_fields_def
  using assms field_lines_no_newline [of sc vs]
  by (intro split_join) (cases sc; cases vs; auto simp: schema_ok_def fields_ok_def list_all_iff)+

lemma parse_canonical_body:
  assumes "schema_ok sc" and "fields_ok sc vs"
  shows "parse_tagged_fields sc (canonical_body_from_tagged_fields sc vs) = Some vs"
  using split_canonical_body [OF assms] parse_lines_fields [of sc vs] assms
  by (simp add: parse_tagged_fields_def Let_def schema_ok_def fields_ok_def)

text \<open>What a parser accepts is a struct of the schema.\<close>

lemma parse_field_ok:
  assumes "parse_field k s = Some v" and "CHR 0x0A \<notin> set s"
  shows "field_ok k v"
  using assms
  by (auto simp: parse_field_def field_ok_def parse_int_def Let_def split: field_kind.splits option.splits
      prod.splits if_splits)

lemma parse_lines_ok:
  "parse_lines sc lines = Some vs \<Longrightarrow> (\<And>l. l \<in> set lines \<Longrightarrow> CHR 0x0A \<notin> set l) \<Longrightarrow> fields_ok sc vs"
proof (induction sc lines arbitrary: vs rule: parse_lines.induct)
  case (2 expected k sc line lines)
  then obtain key content v ws where "cut_on CHR ''='' line = Some (key, content)" "key = expected"
    "parse_field k content = Some v" "parse_lines sc lines = Some ws" "vs = v # ws"
    by (auto split: option.splits if_splits prod.splits)
  note d = this
  have "CHR 0x0A \<notin> set line" using "2.prems"(2) by simp
  then have "CHR 0x0A \<notin> set content" using cut_on_SomeD [OF d(1)] by simp
  then have "field_ok k v" using parse_field_ok [OF d(3)] by simp
  moreover have "fields_ok sc ws"
    using "2.IH" [OF d(1) refl _ d(3) d(4)] d(2) "2.prems"(2) by simp
  ultimately show ?case using d(5) by (simp add: fields_ok_def)
qed (auto simp: fields_ok_def)

lemma parse_tagged_fields_ok:
  assumes "parse_tagged_fields sc body = Some vs"
  shows "fields_ok sc vs"
  using assms parse_lines_ok [of sc "split_on CHR 0x0A body"] split_on_parts [of _ "CHR 0x0A" body]
  by (auto simp: parse_tagged_fields_def Let_def split: if_splits)

text \<open>The keys of a body are those of its schema.\<close>

lemma canonical_body_keys:
  assumes "schema_ok sc" and "fields_ok sc vs" and "schema_ok sc'" and "fields_ok sc' vs'"
    and "canonical_body_from_tagged_fields sc vs = canonical_body_from_tagged_fields sc' vs'"
  shows "map fst sc = map fst sc'"
proof -
  have cut: "map (\<lambda>l. map_option fst (cut_on CHR ''='' l)) (map (\<lambda>((key, _), v). field_line key v) (zip sc vs))
      = map (Some \<circ> fst) sc" if "schema_ok sc" "fields_ok sc vs" for sc vs
  proof -
    have "list_all2 (\<lambda>(_, k) v. field_ok k v) sc vs"
      "list_all (\<lambda>(key, _). CHR 0x0A \<notin> set key \<and> CHR ''='' \<notin> set key) sc"
      using that by (auto simp: schema_ok_def fields_ok_def)
    then show ?thesis by (induction sc vs rule: list_all2_induct) (auto simp: cut_field_line)
  qed
  have "map (Some \<circ> fst) sc = map (Some \<circ> fst) sc'"
    using cut [OF assms(1,2)] cut [OF assms(3,4)]
    unfolding split_canonical_body [OF assms(1,2), symmetric] split_canonical_body [OF assms(3,4), symmetric]
      assms(5) by (simp only:)
  then have "map Some (map fst sc) = map Some (map fst sc')" by simp
  then show ?thesis by (rule map_injective) (rule injI, simp)
qed

section \<open>The payloads\<close>

record attestation_payload =
  ap_user_id :: string
  ap_credential_id :: string
  ap_credential_public_key_hash :: string
  ap_wrapped_key_epoch :: int
  ap_created_at :: int

definition attestation_schema :: schema where
  "attestation_schema = [(''userId'', Kind_String), (''credentialId'', Kind_String),
     (''credentialPublicKeyHash'', Kind_String), (''wrappedKeyEpoch'', Kind_Int64), (''createdAt'', Kind_Int64)]"

definition attestation_fields :: "attestation_payload \<Rightarrow> field_value list" where
  "attestation_fields p = [Val_String (ap_user_id p), Val_String (ap_credential_id p),
     Val_String (ap_credential_public_key_hash p), Val_Int (ap_wrapped_key_epoch p), Val_Int (ap_created_at p)]"

definition attestation_body :: "attestation_payload \<Rightarrow> string" where
  "attestation_body p = canonical_body_from_tagged_fields attestation_schema (attestation_fields p)"

definition parse_attestation_payload :: "string \<Rightarrow> attestation_payload option" where
  "parse_attestation_payload body =
    (case parse_tagged_fields attestation_schema body of
       Some [Val_String a, Val_String b, Val_String c, Val_Int d, Val_Int e] \<Rightarrow>
         Some \<lparr>ap_user_id = a, ap_credential_id = b, ap_credential_public_key_hash = c,
               ap_wrapped_key_epoch = d, ap_created_at = e\<rparr>
     | _ \<Rightarrow> None)"

record pubkey_bundle_payload =
  bp_user_id :: string
  bp_request_enc_ecdh_pubkey :: string
  bp_request_enc_mlkem_pubkey :: string
  bp_anchor_es384_crv :: string
  bp_anchor_es384_kty :: string
  bp_anchor_es384_x :: string
  bp_anchor_es384_y :: string
  bp_anchor_mldsa87_public_key :: string
  bp_last :: int

text \<open>The last field is \<open>wrappedKeyEpoch\<close> in version 1 and \<open>v\<close> in version 2.\<close>

definition bundle_schema :: "string \<Rightarrow> schema" where
  "bundle_schema last_key = [(''userId'', Kind_String), (''requestEncEcdhPubkey'', Kind_String),
     (''requestEncMlkemPubkey'', Kind_String), (''anchorEs384Crv'', Kind_String),
     (''anchorEs384Kty'', Kind_String), (''anchorEs384X'', Kind_String), (''anchorEs384Y'', Kind_String),
     (''anchorMldsa87PublicKey'', Kind_String), (last_key, Kind_Int64)]"

definition bundle_fields :: "pubkey_bundle_payload \<Rightarrow> field_value list" where
  "bundle_fields p = [Val_String (bp_user_id p), Val_String (bp_request_enc_ecdh_pubkey p),
     Val_String (bp_request_enc_mlkem_pubkey p), Val_String (bp_anchor_es384_crv p),
     Val_String (bp_anchor_es384_kty p), Val_String (bp_anchor_es384_x p), Val_String (bp_anchor_es384_y p),
     Val_String (bp_anchor_mldsa87_public_key p), Val_Int (bp_last p)]"

definition bundle_body_v1 :: "pubkey_bundle_payload \<Rightarrow> string" where
  "bundle_body_v1 p = canonical_body_from_tagged_fields (bundle_schema ''wrappedKeyEpoch'') (bundle_fields p)"

definition bundle_body_v2 :: "pubkey_bundle_payload \<Rightarrow> string" where
  "bundle_body_v2 p = canonical_body_from_tagged_fields (bundle_schema ''v'') (bundle_fields p)"

definition bundle_of_fields :: "field_value list \<Rightarrow> pubkey_bundle_payload option" where
  "bundle_of_fields vs = (case vs of
      [Val_String a, Val_String b, Val_String c, Val_String d, Val_String e, Val_String f,
       Val_String g, Val_String h, Val_Int i] \<Rightarrow>
        Some \<lparr>bp_user_id = a, bp_request_enc_ecdh_pubkey = b, bp_request_enc_mlkem_pubkey = c,
              bp_anchor_es384_crv = d, bp_anchor_es384_kty = e, bp_anchor_es384_x = f,
              bp_anchor_es384_y = g, bp_anchor_mldsa87_public_key = h, bp_last = i\<rparr>
    | _ \<Rightarrow> None)"

definition parse_pubkey_bundle_payload :: "string \<Rightarrow> pubkey_bundle_payload option" where
  "parse_pubkey_bundle_payload body =
     Option.bind (parse_tagged_fields (bundle_schema ''wrappedKeyEpoch'') body) bundle_of_fields"

definition parse_pubkey_bundle_payload_v2 :: "string \<Rightarrow> pubkey_bundle_payload option" where
  "parse_pubkey_bundle_payload_v2 body =
     Option.bind (parse_tagged_fields (bundle_schema ''v'') body) bundle_of_fields"

record publication_payload =
  pp_user_id :: string
  pp_algorithm :: string
  pp_key_label :: string
  pp_key_id :: string
  pp_wrapped_key_epoch :: int
  pp_created_at :: int
  pp_v :: int

definition publication_schema :: schema where
  "publication_schema = [(''userId'', Kind_String), (''algorithm'', Kind_String), (''keyLabel'', Kind_String),
     (''keyId'', Kind_String), (''wrappedKeyEpoch'', Kind_Int64), (''createdAt'', Kind_Int64), (''v'', Kind_Int64)]"

definition publication_fields :: "publication_payload \<Rightarrow> field_value list" where
  "publication_fields p = [Val_String (pp_user_id p), Val_String (pp_algorithm p), Val_String (pp_key_label p),
     Val_String (pp_key_id p), Val_Int (pp_wrapped_key_epoch p), Val_Int (pp_created_at p), Val_Int (pp_v p)]"

definition publication_body :: "publication_payload \<Rightarrow> string" where
  "publication_body p = canonical_body_from_tagged_fields publication_schema (publication_fields p)"

definition parse_signing_key_publication_payload :: "string \<Rightarrow> publication_payload option" where
  "parse_signing_key_publication_payload body =
    (case parse_tagged_fields publication_schema body of
       Some [Val_String a, Val_String b, Val_String c, Val_String d, Val_Int e, Val_Int f, Val_Int g] \<Rightarrow>
         Some \<lparr>pp_user_id = a, pp_algorithm = b, pp_key_label = c, pp_key_id = d,
               pp_wrapped_key_epoch = e, pp_created_at = f, pp_v = g\<rparr>
     | _ \<Rightarrow> None)"

text \<open>\<open>ValidateCreatedAt\<close> of both payloads; \<open>now\<close> and \<open>skew\<close> in nanoseconds.\<close>

definition validate_created_at :: "int \<Rightarrow> go_time \<Rightarrow> go_time \<Rightarrow> unit go_result" where
  "validate_created_at created now skew =
    (if skew \<le> 0 then Inl (Err_Msg ''skew must be positive'')
     else if created \<le> 0 then Inl (Err_Msg ''createdAt is missing or non-positive'')
     else let delta = now - from_unix created in
       if delta < - skew \<or> delta > skew
       then Inl (Err_Msg ''createdAt is outside the acceptance window of server time'')
       else Inr ())"

section \<open>P-384 anchor keys\<close>

definition validate_public_p384 :: "ec_jwk \<Rightarrow> unit go_result" where
  "validate_public_p384 j = validate_public_jwk ''P-384'' 48 j"

definition p384_canonical_body :: "ec_jwk \<Rightarrow> string" where
  "p384_canonical_body j =
     ''crv='' @ jwk_crv j @ [CHR 0x0A] @ ''kty='' @ jwk_kty j @ [CHR 0x0A] @ ''x='' @ jwk_x j
     @ [CHR 0x0A] @ ''y='' @ jwk_y j"

fun keyed_values :: "string list \<Rightarrow> string list \<Rightarrow> string list option" where
  "keyed_values [] [] = Some []"
| "keyed_values (expected # ks) (line # lines) =
     (case cut_on CHR ''='' line of
        None \<Rightarrow> None
      | Some (key, v) \<Rightarrow>
          if key \<noteq> expected then None
          else (case keyed_values ks lines of None \<Rightarrow> None | Some vs \<Rightarrow> Some (v # vs)))"
| "keyed_values _ _ = None"

definition bare_p384_jwk :: "string \<Rightarrow> string \<Rightarrow> string \<Rightarrow> string \<Rightarrow> ec_jwk" where
  "bare_p384_jwk crv kty x y = \<lparr>jwk_kty = kty, jwk_crv = crv, jwk_x = x, jwk_y = y,
     jwk_d = [], jwk_kid = [], jwk_alg = [], jwk_use = []\<rparr>"

definition parse_p384_canonical_body :: "string \<Rightarrow> ec_jwk option" where
  "parse_p384_canonical_body body =
    (let lines = split_on CHR 0x0A body in
     if length lines \<noteq> 4 then None
     else case keyed_values [''crv'', ''kty'', ''x'', ''y''] lines of
            Some [crv, kty, x, y] \<Rightarrow> Some (bare_p384_jwk crv kty x y)
          | _ \<Rightarrow> None)"

text \<open>\<open>ToECDSAPublicKey\<close>; the on-curve check of \<open>ParseUncompressedPublicKey\<close> is an argument.\<close>

definition to_ecdsa_public_key :: "(string \<Rightarrow> 'k option) \<Rightarrow> ec_jwk \<Rightarrow> 'k go_result" where
  "to_ecdsa_public_key parse_uncompressed j =
    (case validate_public_p384 j of
       Inl e \<Rightarrow> Inl e
     | Inr _ \<Rightarrow>
        (case (decode_b64url_fixed (jwk_x j) 48, decode_b64url_fixed (jwk_y j) 48) of
           (Inr x, Inr y) \<Rightarrow>
             (case parse_uncompressed (char_of (4::nat) # x @ y) of
                None \<Rightarrow> Inl (Err_Msg ''invalid P-384 public point'')
              | Some pk \<Rightarrow> Inr pk)
         | _ \<Rightarrow> Inl (Err_Msg ''invalid P-384 public point'')))"

text \<open>The key as its uncompressed bytes on P-384; \<open>None\<close> is a nil key.\<close>

definition p384_jwk_from_ecdsa :: "string option \<Rightarrow> ec_jwk go_result" where
  "p384_jwk_from_ecdsa pk =
    (case pk of None \<Rightarrow> Inl (Err_Msg ''public key is nil'') | Some raw \<Rightarrow> ec_jwk_of_point ''P-384'' 48 raw)"

section \<open>Round trips\<close>

lemma attestation_schema_ok [simp]: "schema_ok attestation_schema"
  by (simp add: schema_ok_def attestation_schema_def)

lemma bundle_schema_ok [simp]:
  "schema_ok (bundle_schema ''wrappedKeyEpoch'')" "schema_ok (bundle_schema ''v'')"
  by (simp_all add: schema_ok_def bundle_schema_def)

lemma publication_schema_ok [simp]: "schema_ok publication_schema"
  by (simp add: schema_ok_def publication_schema_def)

text \<open>No line break in a string field, integers of 64 bits.\<close>

definition attestation_ok :: "attestation_payload \<Rightarrow> bool" where
  "attestation_ok p = fields_ok attestation_schema (attestation_fields p)"

definition bundle_ok :: "pubkey_bundle_payload \<Rightarrow> bool" where
  "bundle_ok p = fields_ok (bundle_schema ''v'') (bundle_fields p)"

definition publication_ok :: "publication_payload \<Rightarrow> bool" where
  "publication_ok p = fields_ok publication_schema (publication_fields p)"

lemma bundle_ok_v1: "fields_ok (bundle_schema ''wrappedKeyEpoch'') (bundle_fields p) = bundle_ok p"
  by (simp add: bundle_ok_def fields_ok_def bundle_schema_def bundle_fields_def)

interpretation attestation: text_codec attestation_body parse_attestation_payload attestation_ok
  by unfold_locales
    (simp add: attestation_body_def parse_attestation_payload_def parse_canonical_body attestation_ok_def,
     simp add: attestation_fields_def)

interpretation bundle_v1: text_codec bundle_body_v1 parse_pubkey_bundle_payload bundle_ok
  by unfold_locales
    (simp add: bundle_body_v1_def parse_pubkey_bundle_payload_def parse_canonical_body bundle_ok_v1,
     simp add: bundle_fields_def bundle_of_fields_def)

interpretation bundle_v2: text_codec bundle_body_v2 parse_pubkey_bundle_payload_v2 bundle_ok
  by unfold_locales
    (simp add: bundle_body_v2_def parse_pubkey_bundle_payload_v2_def parse_canonical_body bundle_ok_def,
     simp add: bundle_fields_def bundle_of_fields_def)

interpretation publication: text_codec publication_body parse_signing_key_publication_payload publication_ok
  by unfold_locales
    (simp add: publication_body_def parse_signing_key_publication_payload_def parse_canonical_body
       publication_ok_def, simp add: publication_fields_def)

text \<open>A bare P-384 JWK without line breaks; for these the parser is exact.\<close>

definition p384_body_ok :: "ec_jwk \<Rightarrow> bool" where
  "p384_body_ok j \<longleftrightarrow> jwk_d j = [] \<and> jwk_kid j = [] \<and> jwk_alg j = [] \<and> jwk_use j = []
     \<and> list_all (\<lambda>s. CHR 0x0A \<notin> set s) [jwk_crv j, jwk_kty j, jwk_x j, jwk_y j]"

lemma p384_body_join:
  "p384_canonical_body j =
     join_with [CHR 0x0A] [''crv='' @ jwk_crv j, ''kty='' @ jwk_kty j, ''x='' @ jwk_x j, ''y='' @ jwk_y j]"
  by (simp add: p384_canonical_body_def)

lemma keyed_values_lines:
  "keyed_values ks lines = Some vs \<Longrightarrow> lines = map2 (\<lambda>k v. k @ ''='' @ v) ks vs \<and> length vs = length ks"
  by (induction ks lines arbitrary: vs rule: keyed_values.induct)
    (auto split: option.splits if_splits prod.splits dest: cut_on_SomeD)

interpretation p384: canonical_codec p384_canonical_body parse_p384_canonical_body p384_body_ok
proof (unfold_locales, goal_cases)
  case (1 j)
  then have sp: "split_on CHR 0x0A (p384_canonical_body j)
      = [''crv='' @ jwk_crv j, ''kty='' @ jwk_kty j, ''x='' @ jwk_x j, ''y='' @ jwk_y j]"
    unfolding p384_body_join by (intro split_join) (auto simp: p384_body_ok_def)
  with 1 show ?case
    using cut_on_append [of "CHR ''=''" "''crv''" "jwk_crv j"] cut_on_append [of "CHR ''=''" "''kty''" "jwk_kty j"]
      cut_on_append [of "CHR ''=''" "''x''" "jwk_x j"] cut_on_append [of "CHR ''=''" "''y''" "jwk_y j"]
    by (simp add: parse_p384_canonical_body_def bare_p384_jwk_def p384_body_ok_def)
next
  case (2 body j)
  then obtain crv kty x y where "keyed_values [''crv'', ''kty'', ''x'', ''y''] (split_on CHR 0x0A body) = Some [crv, kty, x, y]"
    and j: "j = bare_p384_jwk crv kty x y"
    by (auto simp: parse_p384_canonical_body_def Let_def split: if_splits option.splits list.splits)
  then have "split_on CHR 0x0A body = [''crv='' @ crv, ''kty='' @ kty, ''x='' @ x, ''y='' @ y]"
    using keyed_values_lines by fastforce
  then have "join_with [CHR 0x0A] [''crv='' @ crv, ''kty='' @ kty, ''x='' @ x, ''y='' @ y] = body"
    using join_split [of "CHR 0x0A" body] by simp
  then show ?case by (simp only: p384_body_join j) (simp add: bare_p384_jwk_def)
next
  case (3 body j)
  then obtain crv kty x y where "keyed_values [''crv'', ''kty'', ''x'', ''y''] (split_on CHR 0x0A body) = Some [crv, kty, x, y]"
    and j: "j = bare_p384_jwk crv kty x y"
    by (auto simp: parse_p384_canonical_body_def Let_def split: if_splits option.splits list.splits)
  then have e: "split_on CHR 0x0A body = [''crv='' @ crv, ''kty='' @ kty, ''x='' @ x, ''y='' @ y]"
    using keyed_values_lines by fastforce
  have "\<forall>w \<in> set (split_on CHR 0x0A body). CHR 0x0A \<notin> set w" using split_on_parts by blast
  then show ?case by (simp add: e p384_body_ok_def j bare_p384_jwk_def)
qed

section \<open>Messages\<close>

definition cred_attest_prefix :: string where
  "cred_attest_prefix = ''revaulter/v2/cred-attest'' @ [CHR 0x0A]"

definition pubkey_bundle_prefix :: string where
  "pubkey_bundle_prefix = ''revaulter/v2/pubkey-bundle'' @ [CHR 0x0A]"

definition signing_key_publication_prefix :: string where
  "signing_key_publication_prefix = ''revaulter/v2/signing-key-publication'' @ [CHR 0x0A]"

definition canonical_attestation_message :: "attestation_payload \<Rightarrow> string" where
  "canonical_attestation_message p = cred_attest_prefix @ attestation_body p"

definition canonical_pubkey_bundle_message :: "pubkey_bundle_payload \<Rightarrow> string" where
  "canonical_pubkey_bundle_message p = pubkey_bundle_prefix @ bundle_body_v1 p"

definition canonical_pubkey_bundle_message_v2 :: "pubkey_bundle_payload \<Rightarrow> string" where
  "canonical_pubkey_bundle_message_v2 p = pubkey_bundle_prefix @ bundle_body_v2 p"

definition canonical_signing_key_publication_message :: "publication_payload \<Rightarrow> string" where
  "canonical_signing_key_publication_message p = signing_key_publication_prefix @ publication_body p"

text \<open>Everything the anchor signs.\<close>

datatype anchor_message =
    Msg_Attestation attestation_payload
  | Msg_Bundle pubkey_bundle_payload
  | Msg_Bundle_V2 pubkey_bundle_payload
  | Msg_Publication publication_payload

definition message_bytes :: "anchor_message \<Rightarrow> string" where
  "message_bytes m = (case m of
      Msg_Attestation p \<Rightarrow> canonical_attestation_message p
    | Msg_Bundle p \<Rightarrow> canonical_pubkey_bundle_message p
    | Msg_Bundle_V2 p \<Rightarrow> canonical_pubkey_bundle_message_v2 p
    | Msg_Publication p \<Rightarrow> canonical_signing_key_publication_message p)"

definition message_ok :: "anchor_message \<Rightarrow> bool" where
  "message_ok m = (case m of
      Msg_Attestation p \<Rightarrow> attestation_ok p
    | Msg_Bundle p \<Rightarrow> bundle_ok p
    | Msg_Bundle_V2 p \<Rightarrow> bundle_ok p
    | Msg_Publication p \<Rightarrow> publication_ok p)"

lemma prefixes_differ:
  "cred_attest_prefix @ a \<noteq> pubkey_bundle_prefix @ b"
  "cred_attest_prefix @ a \<noteq> signing_key_publication_prefix @ b"
  "pubkey_bundle_prefix @ a \<noteq> signing_key_publication_prefix @ b"
  by (simp_all add: cred_attest_prefix_def pubkey_bundle_prefix_def signing_key_publication_prefix_def)

lemma bundle_versions_differ: "bundle_ok p \<Longrightarrow> bundle_ok q \<Longrightarrow> bundle_body_v1 p \<noteq> bundle_body_v2 q"
proof
  assume "bundle_ok p" "bundle_ok q" "bundle_body_v1 p = bundle_body_v2 q"
  then have "map fst (bundle_schema ''wrappedKeyEpoch'') = map fst (bundle_schema ''v'')"
    using canonical_body_keys [of "bundle_schema ''wrappedKeyEpoch''" "bundle_fields p" "bundle_schema ''v''"
        "bundle_fields q"]
    by (simp add: bundle_body_v1_def bundle_body_v2_def bundle_ok_v1 bundle_ok_def)
  then show False by (simp add: bundle_schema_def)
qed

text \<open>C9: Domain separation: no two different things the anchor signs have the same bytes.  A signature
  over a credential attestation, a pubkey bundle of either version or a signing key publication is
  valid for that one payload of that one kind, when no string field contains a line break.\<close>

theorem anchor_messages_injective:
  assumes "message_ok m" and "message_ok n" and "message_bytes m = message_bytes n"
  shows "m = n"
  using assms
  by (cases m; cases n)
    (auto simp: message_ok_def message_bytes_def canonical_attestation_message_def
      canonical_pubkey_bundle_message_def canonical_pubkey_bundle_message_v2_def
      canonical_signing_key_publication_message_def prefixes_differ prefixes_differ [symmetric]
      bundle_versions_differ bundle_versions_differ [symmetric]
      dest: attestation.enc_inj bundle_v1.enc_inj bundle_v2.enc_inj publication.enc_inj)

definition sample_bundle :: pubkey_bundle_payload where
  "sample_bundle = \<lparr>bp_user_id = ''u'', bp_request_enc_ecdh_pubkey = ''e'', bp_request_enc_mlkem_pubkey = ''m'',
     bp_anchor_es384_crv = ''P-384'', bp_anchor_es384_kty = ''EC'', bp_anchor_es384_x = ''x'',
     bp_anchor_es384_y = ''y'', bp_anchor_mldsa87_public_key = ''k'', bp_last = 1\<rparr>"

lemma sample_bundle_ok [simp]: "bundle_ok sample_bundle"
  by (simp add: bundle_ok_def fields_ok_def bundle_schema_def bundle_fields_def sample_bundle_def
      field_ok_def in_int64_def)

theorem anchor_messages_injective_witness:
  "message_bytes (Msg_Bundle sample_bundle) \<noteq> message_bytes (Msg_Bundle_V2 sample_bundle)"
proof
  assume e: "message_bytes (Msg_Bundle sample_bundle) = message_bytes (Msg_Bundle_V2 sample_bundle)"
  have "Msg_Bundle sample_bundle = Msg_Bundle_V2 sample_bundle"
    by (rule anchor_messages_injective [OF _ _ e]) (simp_all add: message_ok_def)
  then show False by simp
qed

text \<open>The P-384 anchor JWK and its canonical body are in one-to-one correspondence: parsing accepts
  exactly the bodies that \<open>CanonicalBody\<close> produces of bare public keys without line breaks, and gives
  back the key, so a stored body has one meaning and a key one body.\<close>

lemma p384_body_exact:
  "parse_p384_canonical_body body = Some j \<longleftrightarrow> p384_body_ok j \<and> body = p384_canonical_body j"
  by (rule p384.dec_iff)

text \<open>Round trip of the anchor-signed payloads: parsing the canonical body of an attestation, a
  bundle of either version or a publication gives the payload back, when no string field has a line
  break and the integers fit 64 bits.\<close>

lemma canonical_payloads_roundtrip:
  assumes "attestation_ok a" and "bundle_ok b" and "publication_ok p"
  shows "parse_attestation_payload (attestation_body a) = Some a
     \<and> parse_pubkey_bundle_payload (bundle_body_v1 b) = Some b
     \<and> parse_pubkey_bundle_payload_v2 (bundle_body_v2 b) = Some b
     \<and> parse_signing_key_publication_payload (publication_body p) = Some p"
  using assms by (simp add: attestation.dec_enc bundle_v1.dec_enc bundle_v2.dec_enc publication.dec_enc)

definition sample_attestation :: attestation_payload where
  "sample_attestation = \<lparr>ap_user_id = ''u'', ap_credential_id = ''c'', ap_credential_public_key_hash = ''h'',
     ap_wrapped_key_epoch = 1, ap_created_at = 1700000000\<rparr>"

definition sample_publication :: publication_payload where
  "sample_publication = \<lparr>pp_user_id = ''alice'', pp_algorithm = ''ES256'', pp_key_label = ''disk'',
     pp_key_id = ''kid'', pp_wrapped_key_epoch = 1, pp_created_at = 1700000000, pp_v = 1\<rparr>"

lemma sample_payloads_ok [simp]: "attestation_ok sample_attestation" "publication_ok sample_publication"
  by (simp_all add: attestation_ok_def publication_ok_def fields_ok_def attestation_schema_def
      attestation_fields_def publication_schema_def publication_fields_def sample_attestation_def
      sample_publication_def field_ok_def in_int64_def)

theorem canonical_payloads_roundtrip_witness:
  "parse_attestation_payload (attestation_body sample_attestation) = Some sample_attestation
   \<and> parse_pubkey_bundle_payload (bundle_body_v1 sample_bundle) = Some sample_bundle
   \<and> parse_pubkey_bundle_payload_v2 (bundle_body_v2 sample_bundle) = Some sample_bundle
   \<and> parse_signing_key_publication_payload (publication_body sample_publication) = Some sample_publication"
  by (rule canonical_payloads_roundtrip) simp_all

end
