(* ===== verification/Hybrid_Signature.thy ===== *)
theory Hybrid_Signature
  imports Canonical
begin

text \<open>
  The hybrid anchor signatures (src/internal/protocolv2/anchor.go and
  signing-key-publication.go).  The primitives of Go's crypto packages are the
  fields of the record \<open>crypto\<close>, an argument of every definition here; \<open>'ek\<close> is an
  ECDSA P-384 public key, \<open>'mk\<close> an ML-DSA-87 public key.  Everything around the
  primitives is the source's: the size checks, the domain-separated messages, the
  conjunction of the two legs, the bindings of a publication proof.
\<close>

record ('ek, 'mk) crypto =
  cr_sha384 :: "string \<Rightarrow> string"
  cr_sha256 :: "string \<Rightarrow> string"
  cr_ecdsa_verify :: "'ek \<Rightarrow> string \<Rightarrow> nat \<Rightarrow> nat \<Rightarrow> bool"
  cr_ecdsa_parse :: "string \<Rightarrow> 'ek option"
  cr_ecdsa_bytes :: "'ek \<Rightarrow> string option"
  cr_mldsa_parse :: "string \<Rightarrow> 'mk option"
  cr_mldsa_verify :: "'mk \<Rightarrow> string \<Rightarrow> string \<Rightarrow> bool"

definition mldsa87_public_key_size :: nat where "mldsa87_public_key_size = 2592"
definition mldsa87_signature_size :: nat where "mldsa87_signature_size = 4627"
definition p384_coordinate_size :: nat where "p384_coordinate_size = 48"
definition es384_signature_size :: nat where "es384_signature_size = 2 * p384_coordinate_size"

text \<open>\<open>big.Int.SetBytes\<close>: big-endian.\<close>

definition big_int_of_bytes :: "string \<Rightarrow> nat" where
  "big_int_of_bytes bs = foldl (\<lambda>n c. 256 * n + byte c) 0 bs"

section \<open>The two legs\<close>

definition verify_es384 :: "('ek, 'mk) crypto \<Rightarrow> 'ek option \<Rightarrow> string \<Rightarrow> string \<Rightarrow> unit go_result" where
  "verify_es384 cr pub msg sig =
    (case pub of
       None \<Rightarrow> Inl (Err_Msg ''public key is nil'')
     | Some pk \<Rightarrow>
        if length sig \<noteq> es384_signature_size then Inl (Err_Msg ''signature has wrong length'')
        else
          let r = big_int_of_bytes (take p384_coordinate_size sig);
              s = big_int_of_bytes (drop p384_coordinate_size sig)
          in if \<not> cr_ecdsa_verify cr pk (cr_sha384 cr msg) r s
             then Inl (Err_Msg ''signature verification failed'') else Inr ())"

definition unmarshal_mldsa87_public_key :: "('ek, 'mk) crypto \<Rightarrow> string \<Rightarrow> 'mk go_result" where
  "unmarshal_mldsa87_public_key cr b =
    (if length b \<noteq> mldsa87_public_key_size then Inl (Err_Msg ''expected 2592 bytes'')
     else case cr_mldsa_parse cr b of None \<Rightarrow> Inl (Err_Msg ''unmarshal'') | Some pk \<Rightarrow> Inr pk)"

definition verify_mldsa87 :: "('ek, 'mk) crypto \<Rightarrow> string \<Rightarrow> string \<Rightarrow> string \<Rightarrow> unit go_result" where
  "verify_mldsa87 cr pub_bytes msg sig =
    (case unmarshal_mldsa87_public_key cr pub_bytes of
       Inl e \<Rightarrow> Inl (Err_Msg ''public key'')
     | Inr pk \<Rightarrow>
        if length sig \<noteq> mldsa87_signature_size then Inl (Err_Msg ''signature has wrong length'')
        else if \<not> cr_mldsa_verify cr pk msg sig then Inl (Err_Msg ''signature verification failed'')
        else Inr ())"

text \<open>Both legs are checked before the result is decided; the error says which ones failed.\<close>

definition verify_hybrid ::
  "('ek, 'mk) crypto \<Rightarrow> 'ek option \<Rightarrow> string \<Rightarrow> string \<Rightarrow> string \<Rightarrow> string \<Rightarrow> unit go_result" where
  "verify_hybrid cr es_pub ml_pub msg sig_es sig_ml =
    (let es = verify_es384 cr es_pub msg sig_es;
         ml = verify_mldsa87 cr ml_pub msg sig_ml
     in if is_ok es \<and> is_ok ml then Inr ()
        else Inl (Err_Msg ((if is_ok es then [] else ''ES384'') @ (if is_ok ml then [] else ''ML-DSA-87''))))"

definition verify_hybrid_attestation ::
  "('ek, 'mk) crypto \<Rightarrow> 'ek option \<Rightarrow> string \<Rightarrow> attestation_payload \<Rightarrow> string \<Rightarrow> string \<Rightarrow> unit go_result" where
  "verify_hybrid_attestation cr es_pub ml_pub p sig_es sig_ml =
     verify_hybrid cr es_pub ml_pub (canonical_attestation_message p) sig_es sig_ml"

definition verify_hybrid_bundle ::
  "('ek, 'mk) crypto \<Rightarrow> 'ek option \<Rightarrow> string \<Rightarrow> pubkey_bundle_payload \<Rightarrow> string \<Rightarrow> string \<Rightarrow> unit go_result" where
  "verify_hybrid_bundle cr es_pub ml_pub p sig_es sig_ml =
     verify_hybrid cr es_pub ml_pub (canonical_pubkey_bundle_message p) sig_es sig_ml"

definition verify_hybrid_bundle_v2 ::
  "('ek, 'mk) crypto \<Rightarrow> 'ek option \<Rightarrow> string \<Rightarrow> pubkey_bundle_payload \<Rightarrow> string \<Rightarrow> string \<Rightarrow> unit go_result" where
  "verify_hybrid_bundle_v2 cr es_pub ml_pub p sig_es sig_ml =
    (if bp_last p \<noteq> 2 then Inl (Err_Msg ''unsupported pubkey bundle version'')
     else verify_hybrid cr es_pub ml_pub (canonical_pubkey_bundle_message_v2 p) sig_es sig_ml)"

definition verify_hybrid_signing_key_publication ::
  "('ek, 'mk) crypto \<Rightarrow> 'ek option \<Rightarrow> string \<Rightarrow> publication_payload \<Rightarrow> string \<Rightarrow> string \<Rightarrow> unit go_result" where
  "verify_hybrid_signing_key_publication cr es_pub ml_pub p sig_es sig_ml =
     verify_hybrid cr es_pub ml_pub (canonical_signing_key_publication_message p) sig_es sig_ml"

section \<open>Fingerprint and wire signatures\<close>

definition hex_digit :: "nat \<Rightarrow> char" where
  "hex_digit n = (if n < 10 then char_of (48 + n) else char_of (87 + n))"

definition hex_encode :: "string \<Rightarrow> string" where
  "hex_encode bs = concat (map (\<lambda>c. [hex_digit (byte c div 16), hex_digit (byte c mod 16)]) bs)"

definition anchor_fingerprint :: "('ek, 'mk) crypto \<Rightarrow> 'ek option \<Rightarrow> string \<Rightarrow> string go_result" where
  "anchor_fingerprint cr es_pub ml_pub =
    (case es_pub of
       None \<Rightarrow> Inl (Err_Msg ''ES384 public key is nil'')
     | Some pk \<Rightarrow>
        if length ml_pub \<noteq> mldsa87_public_key_size then Inl (Err_Msg ''ML-DSA-87 public key must be 2592 bytes'')
        else (case cr_ecdsa_bytes cr pk of
                None \<Rightarrow> Inl (Err_Msg ''encode ES384 public key'')
              | Some b \<Rightarrow>
                  if length b \<noteq> 1 + 2 * p384_coordinate_size
                  then Inl (Err_Msg ''unexpected ES384 uncompressed point length'')
                  else Inr (hex_encode (cr_sha256 cr (b @ ml_pub)))))"

definition decode_base64_signature :: "string \<Rightarrow> nat \<Rightarrow> string go_result" where
  "decode_base64_signature s expected =
    (if s = [] then Inl (Err_Msg ''signature is empty'')
     else case raw_url_decode s of
            None \<Rightarrow> Inl (Err_Msg ''invalid base64'')
          | Some b \<Rightarrow> if expected > 0 \<and> length b \<noteq> expected then Inl (Err_Msg ''unexpected length'') else Inr b)"

section \<open>Public publication responses\<close>

record 'ek publication_verify_options =
  vo_es384_pub :: "'ek option"
  vo_mldsa87_pub_bytes :: string
  vo_expected_user_id :: string
  vo_expected_algorithm :: string
  vo_expected_key_label :: string
  vo_expected_key_id :: string

definition signing_key_publication_version :: int where "signing_key_publication_version = 1"

definition verify_signing_key_public_response ::
  "('ek, 'mk) crypto \<Rightarrow> string \<Rightarrow> string \<Rightarrow> string \<Rightarrow> 'ek publication_verify_options \<Rightarrow> publication_payload go_result" where
  "verify_signing_key_public_response cr payload_str sig_es_b64 sig_ml_b64 opts =
    (if payload_str = [] \<or> sig_es_b64 = [] \<or> sig_ml_b64 = []
       then Inl (Err_Msg ''response is missing the publication proof'')
     else if vo_es384_pub opts = None then Inl (Err_Msg ''pinned ES384 anchor public key is required'')
     else if length (vo_mldsa87_pub_bytes opts) \<noteq> mldsa87_public_key_size
       then Inl (Err_Msg ''pinned ML-DSA-87 anchor public key must be 2592 bytes'')
     else case parse_signing_key_publication_payload payload_str of
       None \<Rightarrow> Inl (Err_Msg ''invalid publication body'')
     | Some p \<Rightarrow>
       if pp_v p \<noteq> signing_key_publication_version then Inl (Err_Msg ''unsupported publication version'')
       else if vo_expected_user_id opts \<noteq> [] \<and> pp_user_id p \<noteq> vo_expected_user_id opts
         then Inl (Err_Msg ''publication userId does not match'')
       else if vo_expected_algorithm opts \<noteq> [] \<and> pp_algorithm p \<noteq> vo_expected_algorithm opts
         then Inl (Err_Msg ''publication algorithm does not match'')
       else if vo_expected_key_label opts \<noteq> [] \<and> pp_key_label p \<noteq> vo_expected_key_label opts
         then Inl (Err_Msg ''publication keyLabel does not match'')
       else if vo_expected_key_id opts \<noteq> [] \<and> pp_key_id p \<noteq> vo_expected_key_id opts
         then Inl (Err_Msg ''publication keyId does not match'')
       else case decode_base64_signature sig_es_b64 es384_signature_size of
         Inl e \<Rightarrow> Inl e
       | Inr sig_es \<Rightarrow>
         (case decode_base64_signature sig_ml_b64 mldsa87_signature_size of
            Inl e \<Rightarrow> Inl e
          | Inr sig_ml \<Rightarrow>
            (case verify_hybrid_signing_key_publication cr (vo_es384_pub opts) (vo_mldsa87_pub_bytes opts) p sig_es sig_ml of
               Inl e \<Rightarrow> Inl e
             | Inr _ \<Rightarrow> Inr p)))"

section \<open>What verification means\<close>

text \<open>The message carries a valid signature of each leg.\<close>

definition hybrid_signed :: "('ek, 'mk) crypto \<Rightarrow> 'ek \<Rightarrow> 'mk \<Rightarrow> string \<Rightarrow> string \<Rightarrow> string \<Rightarrow> bool" where
  "hybrid_signed cr ek mk msg sig_es sig_ml \<longleftrightarrow>
     cr_ecdsa_verify cr ek (cr_sha384 cr msg) (big_int_of_bytes (take 48 sig_es)) (big_int_of_bytes (drop 48 sig_es))
     \<and> cr_mldsa_verify cr mk msg sig_ml \<and> length sig_es = 96 \<and> length sig_ml = 4627"

lemma verify_es384_ok_iff:
  "is_ok (verify_es384 cr pub msg sig) \<longleftrightarrow> (\<exists>pk. pub = Some pk \<and> length sig = 96 \<and>
     cr_ecdsa_verify cr pk (cr_sha384 cr msg) (big_int_of_bytes (take 48 sig)) (big_int_of_bytes (drop 48 sig)))"
  by (auto simp: verify_es384_def es384_signature_size_def p384_coordinate_size_def Let_def split: option.splits)

lemma verify_mldsa87_ok_iff:
  "is_ok (verify_mldsa87 cr pub msg sig) \<longleftrightarrow> (\<exists>pk. length pub = 2592 \<and> cr_mldsa_parse cr pub = Some pk \<and>
     length sig = 4627 \<and> cr_mldsa_verify cr pk msg sig)"
  by (auto simp: verify_mldsa87_def unmarshal_mldsa87_public_key_def mldsa87_public_key_size_def
      mldsa87_signature_size_def split: option.splits sum.splits)

text \<open>A hybrid signature is accepted exactly when both legs are valid over the same message with
  keys and signatures of the right sizes; one valid leg is never enough.\<close>

lemma verify_hybrid_needs_both:
  "verify_hybrid cr es_pub ml_pub msg sig_es sig_ml = Inr () \<longleftrightarrow>
     (\<exists>ek mk. es_pub = Some ek \<and> length ml_pub = 2592 \<and> cr_mldsa_parse cr ml_pub = Some mk
        \<and> hybrid_signed cr ek mk msg sig_es sig_ml)"
  by (auto simp: verify_hybrid_def Let_def verify_es384_ok_iff verify_mldsa87_ok_iff hybrid_signed_def)

lemma public_response_facts:
  assumes "verify_signing_key_public_response cr payload_str es ml opts = Inr p"
  shows "parse_signing_key_publication_payload payload_str = Some p \<and> pp_v p = 1
     \<and> (vo_expected_user_id opts = [] \<or> pp_user_id p = vo_expected_user_id opts)
     \<and> (vo_expected_algorithm opts = [] \<or> pp_algorithm p = vo_expected_algorithm opts)
     \<and> (vo_expected_key_label opts = [] \<or> pp_key_label p = vo_expected_key_label opts)
     \<and> (vo_expected_key_id opts = [] \<or> pp_key_id p = vo_expected_key_id opts)
     \<and> (\<exists>ek mk sig_es sig_ml. vo_es384_pub opts = Some ek
          \<and> cr_mldsa_parse cr (vo_mldsa87_pub_bytes opts) = Some mk
          \<and> raw_url_decode es = Some sig_es \<and> raw_url_decode ml = Some sig_ml
          \<and> hybrid_signed cr ek mk (canonical_signing_key_publication_message p) sig_es sig_ml)"
proof -
  obtain sig_es sig_ml where "decode_base64_signature es es384_signature_size = Inr sig_es"
    "decode_base64_signature ml mldsa87_signature_size = Inr sig_ml"
    "verify_hybrid_signing_key_publication cr (vo_es384_pub opts) (vo_mldsa87_pub_bytes opts) p sig_es sig_ml = Inr ()"
    and p: "parse_signing_key_publication_payload payload_str = Some p" "pp_v p = 1"
      "vo_expected_user_id opts = [] \<or> pp_user_id p = vo_expected_user_id opts"
      "vo_expected_algorithm opts = [] \<or> pp_algorithm p = vo_expected_algorithm opts"
      "vo_expected_key_label opts = [] \<or> pp_key_label p = vo_expected_key_label opts"
      "vo_expected_key_id opts = [] \<or> pp_key_id p = vo_expected_key_id opts"
    using assms
    by (auto simp: verify_signing_key_public_response_def signing_key_publication_version_def
        split: if_splits option.splits sum.splits)
  then have "raw_url_decode es = Some sig_es" "raw_url_decode ml = Some sig_ml"
    "\<exists>ek mk. vo_es384_pub opts = Some ek \<and> cr_mldsa_parse cr (vo_mldsa87_pub_bytes opts) = Some mk
        \<and> hybrid_signed cr ek mk (canonical_signing_key_publication_message p) sig_es sig_ml"
    by (auto simp: decode_base64_signature_def verify_hybrid_signing_key_publication_def verify_hybrid_def
        Let_def verify_es384_ok_iff verify_mldsa87_ok_iff hybrid_signed_def split: if_splits option.splits)
  with p show ?thesis by blast
qed

text \<open>What a caller knows of an accepted publication response: the payload it gets back parses from
  the response, has version 1, matches every expectation the caller gave, and its domain-separated
  message carries valid signatures of both legs of the pinned anchor, decoded from the response.\<close>

lemma public_response_sound:
  assumes "verify_signing_key_public_response cr payload_str es ml opts = Inr p"
  shows "parse_signing_key_publication_payload payload_str = Some p \<and> pp_v p = 1
     \<and> (vo_expected_user_id opts = [] \<or> pp_user_id p = vo_expected_user_id opts)
     \<and> (vo_expected_algorithm opts = [] \<or> pp_algorithm p = vo_expected_algorithm opts)
     \<and> (vo_expected_key_label opts = [] \<or> pp_key_label p = vo_expected_key_label opts)
     \<and> (vo_expected_key_id opts = [] \<or> pp_key_id p = vo_expected_key_id opts)
     \<and> (\<exists>ek mk sig_es sig_ml. vo_es384_pub opts = Some ek
          \<and> cr_mldsa_parse cr (vo_mldsa87_pub_bytes opts) = Some mk
          \<and> raw_url_decode es = Some sig_es \<and> raw_url_decode ml = Some sig_ml
          \<and> hybrid_signed cr ek mk (canonical_signing_key_publication_message p) sig_es sig_ml)"
  by (rule public_response_facts [OF assms])

text \<open>A toy instance of the primitives for the witnesses: a key verifies what carries its bytes.\<close>

definition toy_crypto :: "(unit, unit) crypto" where
  "toy_crypto = \<lparr>cr_sha384 = (\<lambda>m. m), cr_sha256 = (\<lambda>m. take 32 m), cr_ecdsa_verify = (\<lambda>_ _ _ _. True),
     cr_ecdsa_parse = (\<lambda>_. Some ()), cr_ecdsa_bytes = (\<lambda>_. None), cr_mldsa_parse = (\<lambda>_. Some ()),
     cr_mldsa_verify = (\<lambda>_ _ _. True)\<rparr>"

definition toy_options :: "unit publication_verify_options" where
  "toy_options = \<lparr>vo_es384_pub = Some (), vo_mldsa87_pub_bytes = replicate 2592 CHR ''k'',
     vo_expected_user_id = ''alice'', vo_expected_algorithm = ''ES256'', vo_expected_key_label = [],
     vo_expected_key_id = ''kid''\<rparr>"

definition toy_signature :: "nat \<Rightarrow> string" where
  "toy_signature n = raw_url_encode (replicate n CHR ''s'')"

lemma toy_signature_decodes:
  "n > 0 \<Longrightarrow> decode_base64_signature (toy_signature n) n = Inr (replicate n CHR ''s'')"
  by (simp add: decode_base64_signature_def toy_signature_def raw_decode_encode raw_encode_empty_iff)

lemma toy_response_accepted:
  "verify_signing_key_public_response toy_crypto (publication_body sample_publication)
     (toy_signature 96) (toy_signature 4627) toy_options = Inr sample_publication"
proof -
  have ne: "publication_body sample_publication \<noteq> []"
    by (simp add: publication_body_def canonical_body_from_tagged_fields_def publication_schema_def
        publication_fields_def field_line_def)
  have v: "verify_hybrid_signing_key_publication toy_crypto (Some ()) (replicate 2592 CHR ''k'') sample_publication
      (replicate 96 CHR ''s'') (replicate 4627 CHR ''s'') = Inr ()"
    by (simp add: verify_hybrid_signing_key_publication_def verify_hybrid_def Let_def verify_es384_ok_iff
        verify_mldsa87_ok_iff toy_crypto_def)
  show ?thesis
    using ne v toy_signature_decodes [of 96] toy_signature_decodes [of 4627]
    by (simp add: verify_signing_key_public_response_def toy_options_def publication.dec_enc
        mldsa87_public_key_size_def es384_signature_size_def p384_coordinate_size_def
        mldsa87_signature_size_def toy_signature_def raw_encode_empty_iff)
      (simp add: sample_publication_def signing_key_publication_version_def)
qed

theorem public_response_sound_witness:
  "parse_signing_key_publication_payload (publication_body sample_publication) = Some sample_publication
   \<and> pp_v sample_publication = 1"
  using public_response_sound [OF toy_response_accepted] by simp

end
