(* ===== verification/Backup_Format.thy ===== *)
theory Backup_Format
  imports Auth_Store Hybrid_Signature "HOL-Library.Multiset"
begin

text \<open>
  What a backup holds (src/internal/db/backup/format.go, tables.go, tables_gen.go): the
  tables and the kinds of their columns, the conversion of a value scanned from either
  database into a portable one and back into an argument of an insert; and the two
  databases as a backup sees them: tables of the schema in src/internal/db/migrations,
  whose rows are read and written by column name.

  JSON values, the parsing of a text into a uuid or jsonb column, what an engine makes of an
  argument of another type than the column's, which texts are valid UTF-8, and the order in
  which a SELECT without ORDER BY delivers the rows of a table are arguments (\<open>value_lib\<close>).
\<close>

section \<open>Values\<close>

text \<open>Go's \<open>any\<close>, for what drivers and the CBOR decoder put in it; floats are their bits.\<close>

datatype 'j go_any =
    Any_Nil
  | Any_Bool bool
  | Any_Int64 int
  | Any_Int32 int
  | Any_Int16 int
  | Any_Float32 nat
  | Any_Float64 nat
  | Any_String string
  | Any_Bytes string
  | Any_Uuid string
  | Any_Json 'j
  | Any_Other 'j

text \<open>What a column stores.\<close>

datatype 'j stored =
    St_Null
  | St_Bool bool
  | St_Int int
  | St_Text string
  | St_Uuid string
  | St_Json 'j

datatype column_type = Type_Text | Type_Int | Type_Bool | Type_Uuid | Type_Json

record 'j value_lib =
  vl_marshal :: "'j \<Rightarrow> string option"
  vl_print :: "'j \<Rightarrow> string"
  vl_widen :: "nat \<Rightarrow> nat"
  vl_parse_json :: "string \<Rightarrow> 'j option"
  vl_parse_uuid :: "string \<Rightarrow> string option"
  vl_convert :: "backend_kind \<Rightarrow> column_type \<Rightarrow> 'j go_any \<Rightarrow> 'j stored option"
  vl_utf8 :: "string \<Rightarrow> bool"
  vl_scan_order :: "string \<Rightarrow> (string \<times> 'j stored) list list \<Rightarrow> (string \<times> 'j stored) list list"

text \<open>A SELECT delivers every row once, in an order of the engine's choice.\<close>

definition delivers_rows :: "'j value_lib \<Rightarrow> bool" where
  "delivers_rows lib \<longleftrightarrow> (\<forall>table rows. mset (vl_scan_order lib table rows) = mset rows)"

section \<open>Tables of a backup\<close>

datatype column_kind = Col_Text | Col_Bool | Col_Uuid | Col_Json

record column_spec =
  cs_name :: string
  cs_kind :: column_kind

record table_spec =
  ts_name :: string
  ts_columns :: "column_spec list"

definition column_names :: "table_spec \<Rightarrow> string list" where
  "column_names t = map cs_name (ts_columns t)"

definition spec_of :: "string \<Rightarrow> (string \<times> column_kind) list \<Rightarrow> table_spec" where
  "spec_of n cs = \<lparr>ts_name = n, ts_columns = map (\<lambda>(c, k). \<lparr>cs_name = c, cs_kind = k\<rparr>) cs\<rparr>"

definition audit_events_spec :: table_spec where
  "audit_events_spec = spec_of ''v2_audit_events''
     [(''id'', Col_Uuid), (''created_at'', Col_Text), (''event_type'', Col_Text),
      (''outcome'', Col_Text), (''auth_method'', Col_Text), (''actor_user_id'', Col_Text),
      (''target_user_id'', Col_Text), (''signing_key_id'', Col_Text), (''credential_id'', Col_Text),
      (''request_state'', Col_Text), (''http_request_id'', Col_Text), (''client_ip'', Col_Text),
      (''user_agent'', Col_Text), (''metadata'', Col_Json)]"

definition users_spec :: table_spec where
  "users_spec = spec_of ''v2_users''
     [(''id'', Col_Text), (''display_name'', Col_Text), (''status'', Col_Text),
      (''webauthn_user_id'', Col_Text), (''request_key'', Col_Text),
      (''request_enc_ecdh_pubkey'', Col_Text), (''request_enc_mlkem_pubkey'', Col_Text),
      (''anchor_es384_public_key'', Col_Text), (''anchor_mldsa87_public_key'', Col_Text),
      (''pubkey_bundle_signature_es384'', Col_Text), (''pubkey_bundle_signature_mldsa87'', Col_Text),
      (''wrapped_key_epoch'', Col_Text), (''allowed_ips'', Col_Text), (''ready'', Col_Bool),
      (''created_at'', Col_Text), (''updated_at'', Col_Text), (''pubkey_bundle_version'', Col_Text)]"

definition signing_keys_spec :: table_spec where
  "signing_keys_spec = spec_of ''v2_published_signing_keys''
     [(''id'', Col_Text), (''user_id'', Col_Text), (''algorithm'', Col_Text), (''key_label'', Col_Text),
      (''jwk'', Col_Text), (''pem'', Col_Text), (''published'', Col_Bool),
      (''publication_payload'', Col_Text), (''publication_signature_es384'', Col_Text),
      (''publication_signature_mldsa87'', Col_Text), (''created_at'', Col_Text), (''updated_at'', Col_Text)]"

definition requests_spec :: table_spec where
  "requests_spec = spec_of ''v2_requests''
     [(''state'', Col_Text), (''status'', Col_Text), (''operation'', Col_Text), (''user_id'', Col_Text),
      (''key_label'', Col_Text), (''algorithm'', Col_Text), (''requestor_ip'', Col_Text),
      (''note'', Col_Text), (''created_at'', Col_Text), (''expires_at'', Col_Text),
      (''updated_at'', Col_Text), (''encrypted_request'', Col_Text), (''encrypted_result'', Col_Text)]"

definition user_credentials_spec :: table_spec where
  "user_credentials_spec = spec_of ''v2_user_credentials''
     [(''id'', Col_Text), (''user_id'', Col_Text), (''credential_id'', Col_Text),
      (''display_name'', Col_Text), (''public_key'', Col_Text), (''sign_count'', Col_Text),
      (''wrapped_primary_key'', Col_Text), (''wrapped_anchor_key'', Col_Text),
      (''attestation_payload'', Col_Text), (''attestation_signature_es384'', Col_Text),
      (''attestation_signature_mldsa87'', Col_Text), (''wrapped_key_epoch'', Col_Text),
      (''created_at'', Col_Text), (''last_used_at'', Col_Text)]"

definition backup_tables :: "table_spec list" where
  "backup_tables =
     [audit_events_spec, users_spec, signing_keys_spec, requests_spec, user_credentials_spec]"

section \<open>normalizeValue\<close>

definition uuid_string :: "string \<Rightarrow> string" where
  "uuid_string u =
     hex_encode (take 4 u) @ ''-'' @ hex_encode (take 2 (drop 4 u)) @ ''-'' @
     hex_encode (take 2 (drop 6 u)) @ ''-'' @ hex_encode (take 2 (drop 8 u)) @ ''-'' @
     hex_encode (drop 10 u)"

fun normalize_value :: "'j value_lib \<Rightarrow> 'j go_any \<Rightarrow> column_kind \<Rightarrow> 'j go_any" where
  "normalize_value lib Any_Nil kind = Any_Nil"
| "normalize_value lib (Any_Bool b) kind = Any_Bool b"
| "normalize_value lib (Any_Int64 n) kind = (if kind = Col_Bool then Any_Bool (n \<noteq> 0) else Any_Int64 n)"
| "normalize_value lib (Any_Int32 n) kind = (if kind = Col_Bool then Any_Bool (n \<noteq> 0) else Any_Int64 n)"
| "normalize_value lib (Any_Int16 n) kind = Any_Int64 n"
| "normalize_value lib (Any_Float32 x) kind = Any_Float64 (vl_widen lib x)"
| "normalize_value lib (Any_Float64 x) kind = Any_Float64 x"
| "normalize_value lib (Any_String s) kind = Any_String s"
| "normalize_value lib (Any_Bytes s) kind = Any_String s"
| "normalize_value lib (Any_Uuid u) kind = Any_String (uuid_string u)"
| "normalize_value lib (Any_Json j) kind =
     (case vl_marshal lib j of Some s \<Rightarrow> Any_String s | None \<Rightarrow> Any_String (vl_print lib j))"
| "normalize_value lib (Any_Other j) kind = Any_String (vl_print lib j)"

text \<open>The types a backup stores.\<close>

fun portable :: "'j go_any \<Rightarrow> bool" where
  "portable Any_Nil = True"
| "portable (Any_Bool _) = True"
| "portable (Any_Int64 _) = True"
| "portable (Any_Float64 _) = True"
| "portable (Any_String _) = True"
| "portable _ = False"

lemma normalize_portable [simp]: "portable (normalize_value lib v kind)"
  by (cases v) (auto split: option.split)

section \<open>coerceForInsert\<close>

definition coerce_for_insert :: "'j go_any \<Rightarrow> column_kind \<Rightarrow> backend_kind \<Rightarrow> 'j go_any" where
  "coerce_for_insert v ck kind =
     (if v = Any_Nil then Any_Nil
      else case kind of
        Backend_SQLite \<Rightarrow>
          (if ck = Col_Bool
           then (case v of Any_Bool b \<Rightarrow> Any_Int64 (if b then 1 else 0) | _ \<Rightarrow> v)
           else v)
      | Backend_Postgres \<Rightarrow>
          (if ck = Col_Bool
           then (case v of Any_Bool b \<Rightarrow> Any_Bool b | Any_Int64 n \<Rightarrow> Any_Bool (n \<noteq> 0) | _ \<Rightarrow> v)
           else v))"

section \<open>The schema\<close>

record 'j column_def =
  cd_name :: string
  cd_type :: column_type
  cd_nullable :: bool
  cd_default :: "'j go_any option"

text \<open>A table: its columns, its unique column sets (the primary key first), its references
  to the \<open>id\<close> of another table.\<close>

record 'j table_def =
  td_columns :: "'j column_def list"
  td_unique :: "string list list"
  td_refs :: "(string \<times> string) list"

definition bool_type :: "backend_kind \<Rightarrow> column_type" where
  "bool_type k = (case k of Backend_SQLite \<Rightarrow> Type_Int | Backend_Postgres \<Rightarrow> Type_Bool)"
definition uuid_type :: "backend_kind \<Rightarrow> column_type" where
  "uuid_type k = (case k of Backend_SQLite \<Rightarrow> Type_Text | Backend_Postgres \<Rightarrow> Type_Uuid)"
definition json_type :: "backend_kind \<Rightarrow> column_type" where
  "json_type k = (case k of Backend_SQLite \<Rightarrow> Type_Text | Backend_Postgres \<Rightarrow> Type_Json)"
definition false_value :: "backend_kind \<Rightarrow> 'j go_any" where
  "false_value k = (case k of Backend_SQLite \<Rightarrow> Any_Int64 0 | Backend_Postgres \<Rightarrow> Any_Bool False)"

definition required_col :: "column_type \<Rightarrow> string \<Rightarrow> 'j column_def" where
  "required_col t n = \<lparr>cd_name = n, cd_type = t, cd_nullable = False, cd_default = None\<rparr>"
definition optional_col :: "column_type \<Rightarrow> string \<Rightarrow> 'j column_def" where
  "optional_col t n = \<lparr>cd_name = n, cd_type = t, cd_nullable = True, cd_default = None\<rparr>"
definition default_col :: "column_type \<Rightarrow> 'j go_any \<Rightarrow> string \<Rightarrow> 'j column_def" where
  "default_col t d n = \<lparr>cd_name = n, cd_type = t, cd_nullable = False, cd_default = Some d\<rparr>"

text \<open>A primary key of SQLite that is not an INTEGER may be null.\<close>

definition primary_col :: "backend_kind \<Rightarrow> column_type \<Rightarrow> string \<Rightarrow> 'j column_def" where
  "primary_col k t n = \<lparr>cd_name = n, cd_type = t, cd_nullable = (k = Backend_SQLite), cd_default = None\<rparr>"

definition users_def :: "backend_kind \<Rightarrow> 'j table_def" where
  "users_def k =
     \<lparr>td_columns = [primary_col k Type_Text ''id'', default_col Type_Text (Any_String []) ''display_name'',
        required_col Type_Text ''status'', required_col Type_Text ''webauthn_user_id'',
        required_col Type_Text ''request_key''] @
        map (default_col Type_Text (Any_String []))
          [''request_enc_ecdh_pubkey'', ''request_enc_mlkem_pubkey'', ''anchor_es384_public_key'',
           ''anchor_mldsa87_public_key'', ''pubkey_bundle_signature_es384'',
           ''pubkey_bundle_signature_mldsa87''] @
        [default_col Type_Int (Any_Int64 1) ''wrapped_key_epoch'',
         default_col Type_Text (Any_String []) ''allowed_ips'',
         default_col (bool_type k) (false_value k) ''ready'',
         required_col Type_Int ''created_at'', required_col Type_Int ''updated_at''],
      td_unique = [[''id''], [''webauthn_user_id''], [''request_key'']],
      td_refs = []\<rparr>"

definition user_credentials_def :: "backend_kind \<Rightarrow> 'j table_def" where
  "user_credentials_def k =
     \<lparr>td_columns = [primary_col k Type_Text ''id'', required_col Type_Text ''user_id'',
        required_col Type_Text ''credential_id'', default_col Type_Text (Any_String []) ''display_name'',
        required_col Type_Text ''public_key'', required_col Type_Int ''sign_count''] @
        map (default_col Type_Text (Any_String []))
          [''wrapped_primary_key'', ''wrapped_anchor_key'', ''attestation_payload'',
           ''attestation_signature_es384'', ''attestation_signature_mldsa87''] @
        [default_col Type_Int (Any_Int64 1) ''wrapped_key_epoch'',
         required_col Type_Int ''created_at'', required_col Type_Int ''last_used_at''],
      td_unique = [[''id''], [''credential_id'']],
      td_refs = [(''user_id'', ''v2_users'')]\<rparr>"

definition auth_challenges_def :: "backend_kind \<Rightarrow> 'j table_def" where
  "auth_challenges_def k =
     \<lparr>td_columns = [primary_col k Type_Text ''id'', required_col Type_Text ''kind'',
        required_col Type_Text ''user_id'', required_col Type_Text ''challenge'',
        required_col Type_Int ''expires_at'', optional_col Type_Int ''used_at''],
      td_unique = [[''id'']], td_refs = []\<rparr>"

definition auth_challenge_payloads_def :: "backend_kind \<Rightarrow> 'j table_def" where
  "auth_challenge_payloads_def k =
     \<lparr>td_columns = [primary_col k Type_Text ''challenge_id'', required_col Type_Text ''session_data''],
      td_unique = [[''challenge_id'']], td_refs = [(''challenge_id'', ''v2_auth_challenges'')]\<rparr>"

definition requests_def :: "backend_kind \<Rightarrow> 'j table_def" where
  "requests_def k =
     \<lparr>td_columns = [primary_col k Type_Text ''state''] @
        map (required_col Type_Text) [''status'', ''operation'', ''user_id'', ''key_label'', ''algorithm'',
          ''requestor_ip'', ''note''] @
        map (required_col Type_Int) [''created_at'', ''expires_at'', ''updated_at''] @
        map (default_col Type_Text (Any_String [])) [''encrypted_request'', ''encrypted_result''],
      td_unique = [[''state'']], td_refs = [(''user_id'', ''v2_users'')]\<rparr>"

definition signing_keys_def :: "backend_kind \<Rightarrow> 'j table_def" where
  "signing_keys_def k =
     \<lparr>td_columns = [primary_col k Type_Text ''id''] @
        map (required_col Type_Text) [''user_id'', ''algorithm'', ''key_label'', ''jwk'', ''pem''] @
        [default_col (bool_type k) (false_value k) ''published''] @
        map (default_col Type_Text (Any_String []))
          [''publication_payload'', ''publication_signature_es384'', ''publication_signature_mldsa87''] @
        map (required_col Type_Int) [''created_at'', ''updated_at''],
      td_unique = [[''id''], [''user_id'', ''algorithm'', ''key_label'']],
      td_refs = [(''user_id'', ''v2_users'')]\<rparr>"

definition audit_events_def :: "backend_kind \<Rightarrow> 'j table_def" where
  "audit_events_def k =
     \<lparr>td_columns = [primary_col k (uuid_type k) ''id'', required_col Type_Int ''created_at''] @
        map (required_col Type_Text) [''event_type'', ''outcome'', ''auth_method''] @
        map (optional_col Type_Text) [''actor_user_id'', ''target_user_id'', ''signing_key_id'',
          ''credential_id'', ''request_state'', ''http_request_id'', ''client_ip'', ''user_agent''] @
        [default_col (json_type k) (Any_String ''{}'') ''metadata''],
      td_unique = [[''id'']], td_refs = []\<rparr>"

end
