(* ===== verification/Backup_Reader.thy ===== *)
theory Backup_Reader
  imports Go_Strings
begin

text \<open>
  The checksum reader of a restore (src/internal/db/backup/restore.go).  A backup file ends
  with the SHA-256 of its body; the reader hands the body out and keeps the last 32 bytes
  back, without knowing where the file ends.

  The file is an \<open>io.Reader\<close>: the chunks its calls deliver, how it ends (end of file or an
  error), and whether the end is reported with the last chunk or by a call of its own.
\<close>

section \<open>The underlying reader\<close>

datatype read_end = At_Eof | Read_Failed

record source =
  src_chunks :: "string list"
  src_end :: read_end
  src_joined :: bool

definition source_bytes :: "source \<Rightarrow> string" where
  "source_bytes s = concat (src_chunks s)"

definition read_source :: "nat \<Rightarrow> source \<Rightarrow> (string \<times> read_end option) \<times> source" where
  "read_source n s = (case src_chunks s of
      [] \<Rightarrow> (([], Some (src_end s)), s)
    | c # cs \<Rightarrow>
        if length c \<le> n
        then ((c, if cs = [] \<and> src_joined s then Some (src_end s) else None), s\<lparr>src_chunks := cs\<rparr>)
        else ((take n c, None), s\<lparr>src_chunks := drop n c # cs\<rparr>))"

definition source_left :: "source \<Rightarrow> nat" where
  "source_left s = sum_list (map (\<lambda>c. Suc (length c)) (src_chunks s))"

lemma read_source_bytes:
  assumes "read_source n s = ((bs, e), s')"
  shows "source_bytes s = bs @ source_bytes s'" and "src_end s' = src_end s"
    and "e \<noteq> None \<Longrightarrow> source_bytes s' = [] \<and> e = Some (src_end s)"
  using assms by (auto simp: read_source_def source_bytes_def split: list.splits if_splits)

lemma read_source_left:
  assumes "read_source n s = ((bs, e), s')"
  shows "source_left s' + length bs \<le> source_left s"
    and "0 < n \<Longrightarrow> e = None \<Longrightarrow> source_left s' < source_left s"
  using assms by (auto simp: read_source_def source_left_def split: list.splits if_splits)

section \<open>backupChecksumReader\<close>

definition trailer_size :: nat where "trailer_size = 32"

record checksum_reader =
  cr_source :: source
  cr_hashed :: string
  cr_buf :: string

definition new_checksum_reader :: "source \<Rightarrow> checksum_reader" where
  "new_checksum_reader s = \<lparr>cr_source = s, cr_hashed = [], cr_buf = []\<rparr>"

text \<open>The loop of \<open>Read\<close>: fill the buffer until it holds more than a trailer or the file ends;
  the flag says that the file could not be read.\<close>

function fill_buffer :: "nat \<Rightarrow> checksum_reader \<Rightarrow> bool \<times> checksum_reader" where
  "fill_buffer n r =
     (if trailer_size < length (cr_buf r) then (False, r)
      else case read_source (max n (trailer_size + 1)) (cr_source r) of ((bs, e), s) \<Rightarrow>
        (case e of
           None \<Rightarrow> fill_buffer n (r\<lparr>cr_source := s, cr_buf := cr_buf r @ bs\<rparr>)
         | Some At_Eof \<Rightarrow> (False, r\<lparr>cr_source := s, cr_buf := cr_buf r @ bs\<rparr>)
         | Some Read_Failed \<Rightarrow> (True, r\<lparr>cr_source := s, cr_buf := cr_buf r @ bs\<rparr>)))"
  by pat_completeness auto

termination
  by (relation "measure (\<lambda>(n, r). source_left (cr_source r))")
    (auto dest!: read_source_left(2) [OF sym] simp: trailer_size_def)

declare fill_buffer.simps [simp del]

datatype read_outcome = Got string | Read_Eof | Read_Error

definition checksum_read :: "nat \<Rightarrow> checksum_reader \<Rightarrow> read_outcome \<times> checksum_reader" where
  "checksum_read n r = (case fill_buffer n r of (failed, r1) \<Rightarrow>
     if failed then (Read_Error, r1)
     else if length (cr_buf r1) \<le> trailer_size then (Read_Eof, r1)
     else let k = min (length (cr_buf r1) - trailer_size) n in
       (Got (take k (cr_buf r1)),
        r1\<lparr>cr_hashed := cr_hashed r1 @ take k (cr_buf r1), cr_buf := drop k (cr_buf r1)\<rparr>))"

text \<open>\<open>io.Copy\<close> into \<open>io.Discard\<close>, which reads with a buffer of 8192 bytes.\<close>

definition discard_size :: nat where "discard_size = 8192"

definition reader_left :: "checksum_reader \<Rightarrow> nat" where
  "reader_left r = source_left (cr_source r) + length (cr_buf r)"

lemma fill_buffer_left: "reader_left (snd (fill_buffer n r)) \<le> reader_left r"
proof (induction n r rule: fill_buffer.induct)
  case (1 n r)
  obtain bs e s where rs: "read_source (max n (trailer_size + 1)) (cr_source r) = ((bs, e), s)"
    by (metis surj_pair)
  have le: "source_left s + length bs \<le> source_left (cr_source r)" by (rule read_source_left(1) [OF rs])
  show ?case
  proof (cases "trailer_size < length (cr_buf r)")
    case True
    then show ?thesis by (simp add: fill_buffer.simps)
  next
    case False
    then show ?thesis using 1 [OF False rs [symmetric] refl] le rs
      by (auto simp: fill_buffer.simps [of n r] reader_left_def split: option.split read_end.split)
  qed
qed

lemma checksum_read_left:
  "checksum_read n r = (Got bs, r1) \<Longrightarrow> 0 < n \<Longrightarrow> reader_left r1 < reader_left r"
  using fill_buffer_left [of n r]
  by (auto simp: checksum_read_def reader_left_def Let_def split: prod.splits if_splits)

function drain :: "checksum_reader \<Rightarrow> bool \<times> checksum_reader" where
  "drain r = (case checksum_read discard_size r of
      (Got bs, r1) \<Rightarrow> drain r1
    | (Read_Eof, r1) \<Rightarrow> (False, r1)
    | (Read_Error, r1) \<Rightarrow> (True, r1))"
  by pat_completeness auto

termination
  by (relation "measure reader_left")
    (auto dest!: checksum_read_left [OF sym] simp: discard_size_def)

declare drain.simps [simp del]

definition verify_checksum :: "(string \<Rightarrow> string) \<Rightarrow> checksum_reader \<Rightarrow> unit go_result" where
  "verify_checksum sha256 r = (case drain r of (failed, r1) \<Rightarrow>
     if failed then Inl (Err_Msg ''reading backup checksum trailer'')
     else if length (cr_buf r1) \<noteq> trailer_size
     then Inl (Err_Msg ''backup body is missing checksum trailer'')
     else if cr_buf r1 \<noteq> sha256 (cr_hashed r1) then Inl (Err_Msg ''backup checksum mismatch'')
     else Inr ())"

text \<open>The calls a decoder makes, by the sizes of its buffers, and the bytes it receives.\<close>

fun read_calls :: "nat list \<Rightarrow> checksum_reader \<Rightarrow> string \<times> checksum_reader" where
  "read_calls [] r = ([], r)"
| "read_calls (n # ns) r = (case checksum_read n r of
      (Got bs, r1) \<Rightarrow> (case read_calls ns r1 of (out, r2) \<Rightarrow> (bs @ out, r2))
    | (_, r1) \<Rightarrow> read_calls ns r1)"

section \<open>What the reader guarantees\<close>

text \<open>The whole file, from the reader's state: handed out, buffered, still to come.\<close>

definition stream_of :: "checksum_reader \<Rightarrow> string" where
  "stream_of r = cr_hashed r @ cr_buf r @ source_bytes (cr_source r)"

definition reader_end :: "checksum_reader \<Rightarrow> read_end" where
  "reader_end r = src_end (cr_source r)"

text \<open>What has been handed out never reaches into the last 32 bytes.\<close>

definition trailer_held :: "checksum_reader \<Rightarrow> bool" where
  "trailer_held r \<longleftrightarrow> cr_hashed r = [] \<or> trailer_size \<le> length (cr_buf r)"

lemma fill_buffer_kept:
  "fill_buffer n r = (failed, r1) \<Longrightarrow>
     stream_of r1 = stream_of r \<and> reader_end r1 = reader_end r \<and> cr_hashed r1 = cr_hashed r \<and>
     length (cr_buf r) \<le> length (cr_buf r1) \<and>
     (failed \<longrightarrow> source_bytes (cr_source r1) = [] \<and> reader_end r = Read_Failed) \<and>
     (\<not> failed \<longrightarrow> trailer_size < length (cr_buf r1) \<or>
        source_bytes (cr_source r1) = [] \<and> reader_end r = At_Eof)"
proof (induction n r rule: fill_buffer.induct)
  case (1 n r)
  obtain bs e s where rs: "read_source (max n (trailer_size + 1)) (cr_source r) = ((bs, e), s)"
    by (metis surj_pair)
  note kept = read_source_bytes [OF rs]
  show ?case
  proof (cases "trailer_size < length (cr_buf r)")
    case True
    then show ?thesis using "1.prems" by (auto simp: fill_buffer.simps [of n r])
  next
    case False
    show ?thesis
    proof (cases e)
      case None
      with "1.prems" False rs
      have "fill_buffer n (r\<lparr>cr_source := s, cr_buf := cr_buf r @ bs\<rparr>) = (failed, r1)"
        by (simp add: fill_buffer.simps [of n r])
      from "1.IH" [OF False rs [symmetric] refl None this] kept show ?thesis
        by (auto simp: stream_of_def reader_end_def)
    next
      case (Some d)
      with "1.prems" False rs kept show ?thesis
        by (cases d) (auto simp: fill_buffer.simps [of n r] stream_of_def reader_end_def)
    qed
  qed
qed

lemma take_drop_rest: "take k xs @ drop k xs @ ys = xs @ ys"
  by (metis append_assoc append_take_drop_id)

lemma checksum_read_kept:
  assumes "checksum_read n r = (out, r1)"
  shows "stream_of r1 = stream_of r" and "reader_end r1 = reader_end r"
    and "trailer_held r \<Longrightarrow> trailer_held r1"
    and "cr_hashed r1 = cr_hashed r @ (case out of Got bs \<Rightarrow> bs | _ \<Rightarrow> [])"
    and "out = Read_Eof \<Longrightarrow> length (cr_buf r1) \<le> trailer_size \<and> source_bytes (cr_source r1) = [] \<and> reader_end r = At_Eof"
    and "out = Read_Error \<Longrightarrow> reader_end r = Read_Failed"
proof -
  obtain failed r0 where f: "fill_buffer n r = (failed, r0)" by fastforce
  note k = fill_buffer_kept [OF f]
  show "stream_of r1 = stream_of r" "reader_end r1 = reader_end r"
    "trailer_held r \<Longrightarrow> trailer_held r1"
    "cr_hashed r1 = cr_hashed r @ (case out of Got bs \<Rightarrow> bs | _ \<Rightarrow> [])"
    "out = Read_Eof \<Longrightarrow> length (cr_buf r1) \<le> trailer_size \<and> source_bytes (cr_source r1) = [] \<and> reader_end r = At_Eof"
    "out = Read_Error \<Longrightarrow> reader_end r = Read_Failed"
    using assms f k
    by (auto simp: checksum_read_def Let_def take_drop_rest stream_of_def reader_end_def trailer_held_def split: if_splits)
qed

lemma drain_kept:
  "drain r = (failed, r1) \<Longrightarrow> trailer_held r \<Longrightarrow>
     stream_of r1 = stream_of r \<and> trailer_held r1 \<and>
     (failed \<longleftrightarrow> reader_end r = Read_Failed) \<and>
     (\<not> failed \<longrightarrow> length (cr_buf r1) \<le> trailer_size \<and> source_bytes (cr_source r1) = [])"
proof (induction r rule: drain.induct)
  case (1 r)
  obtain out r0 where c: "checksum_read discard_size r = (out, r0)" by fastforce
  note k = checksum_read_kept [OF c]
  show ?case
  proof (cases out)
    case (Got bs)
    with "1.prems"(1) c have "drain r0 = (failed, r1)" by (simp add: drain.simps [of r])
    from "1.IH" [OF c [symmetric] Got this] k "1.prems"(2) show ?thesis by simp
  qed (use "1.prems" c k in \<open>auto simp: drain.simps [of r]\<close>)
qed

text \<open>The reference: the file is a body and its last 32 bytes, the checksum of the body.\<close>

definition file_body :: "string \<Rightarrow> string" where
  "file_body bytes = take (length bytes - trailer_size) bytes"

definition checksum_spec :: "(string \<Rightarrow> string) \<Rightarrow> string \<Rightarrow> read_end \<Rightarrow> unit go_result" where
  "checksum_spec sha256 bytes ending =
     (if ending = Read_Failed then Inl (Err_Msg ''reading backup checksum trailer'')
      else if length bytes < trailer_size then Inl (Err_Msg ''backup body is missing checksum trailer'')
      else if drop (length bytes - trailer_size) bytes \<noteq> sha256 (file_body bytes)
      then Inl (Err_Msg ''backup checksum mismatch'')
      else Inr ())"

lemma verify_checksum_spec:
  assumes "trailer_held r"
  shows "verify_checksum sha256 r = checksum_spec sha256 (stream_of r) (reader_end r)"
proof -
  obtain failed r1 where d: "drain r = (failed, r1)" by fastforce
  note k = drain_kept [OF d assms]
  show ?thesis
  proof (cases failed)
    case True
    then show ?thesis using d k by (simp add: verify_checksum_def checksum_spec_def)
  next
    case False
    then have s: "stream_of r = cr_hashed r1 @ cr_buf r1" and le: "length (cr_buf r1) \<le> trailer_size"
      and e: "reader_end r \<noteq> Read_Failed"
      using k by (auto simp: stream_of_def)
    show ?thesis
    proof (cases "length (cr_buf r1) = trailer_size")
      case True
      then show ?thesis using d False s e
        by (simp add: verify_checksum_def checksum_spec_def file_body_def)
    next
      case ne: False
      then have "cr_hashed r1 = []" using k le by (simp add: trailer_held_def)
      then show ?thesis using d False s e ne le
        by (simp add: verify_checksum_def checksum_spec_def)
    qed
  qed
qed

lemma read_calls_kept:
  "read_calls ns r = (out, r1) \<Longrightarrow> trailer_held r \<Longrightarrow>
     stream_of r1 = stream_of r \<and> reader_end r1 = reader_end r \<and> trailer_held r1 \<and>
     cr_hashed r1 = cr_hashed r @ out"
proof (induction ns arbitrary: r out r1)
  case Nil
  then show ?case by simp
next
  case (Cons n ns)
  obtain o1 r0 where c: "checksum_read n r = (o1, r0)" by fastforce
  note k = checksum_read_kept [OF c]
  obtain o2 r2 where rest: "read_calls ns r0 = (o2, r2)" by fastforce
  from Cons.IH [OF rest k(3) [OF Cons.prems(2)]] k Cons.prems(1) c rest show ?case
    by (auto split: read_outcome.splits)
qed

lemma trailer_held_new [simp]: "trailer_held (new_checksum_reader s)"
  by (simp add: trailer_held_def new_checksum_reader_def)

lemma stream_of_new [simp]: "stream_of (new_checksum_reader s) = source_bytes s"
  and reader_end_new [simp]: "reader_end (new_checksum_reader s) = src_end s"
  by (simp_all add: stream_of_def reader_end_def new_checksum_reader_def)

lemma checksum_reader_verified:
  "verify_checksum sha256 (snd (read_calls asked (new_checksum_reader src))) =
     checksum_spec sha256 (source_bytes src) (src_end src)"
proof -
  obtain out r where c: "read_calls asked (new_checksum_reader src) = (out, r)" by fastforce
  show ?thesis using verify_checksum_spec [of r sha256] read_calls_kept [OF c trailer_held_new] c by simp
qed

text \<open>C34: However the file is cut into chunks and whatever buffers the decoder reads with, the
  decoder only ever sees a prefix of the body, never a byte of the trailer, and the
  verification that follows has the outcome of comparing the file's last 32 bytes with the
  hash of all bytes before them: a reading error, a missing trailer, a mismatch, or success.\<close>

theorem checksum_reader_correct:
  "case read_calls asked (new_checksum_reader src) of (out, r) \<Rightarrow>
     (\<exists>rest. file_body (source_bytes src) = out @ rest) \<and>
     verify_checksum sha256 r = checksum_spec sha256 (source_bytes src) (src_end src)"
proof -
  obtain out r where c: "read_calls asked (new_checksum_reader src) = (out, r)" by fastforce
  note k = read_calls_kept [OF c trailer_held_new]
  have out: "cr_hashed r = out" using k by (simp add: new_checksum_reader_def)
  have s: "source_bytes src = out @ cr_buf r @ source_bytes (cr_source r)"
    using k out by (simp add: stream_of_def new_checksum_reader_def)
  have "out = [] \<or> trailer_size \<le> length (cr_buf r @ source_bytes (cr_source r))"
    using k out by (auto simp: trailer_held_def)
  then have "\<exists>rest. file_body (source_bytes src) = out @ rest"
    by (auto simp: file_body_def s take_append)
  then show ?thesis using checksum_reader_verified [of sha256 asked src] by (simp add: c)
qed

end
