(* ===== verification/Db_Backup.thy ===== *)
theory Db_Backup
  imports Backup_Format Backup_Reader
begin

text \<open>
  Backup and restore (src/internal/db/backup/backup.go, restore.go, format.go) and the
  migrations a restore runs (src/internal/db/migrate.go).

  The CBOR library is an argument (\<open>cbor\<close>).  Its decoder reads ahead as it likes; the
  model decodes from the bytes the checksum reader hands out, and \<open>asked\<close> is the list of
  buffer sizes the decoder has read with when the checksum is verified.  What a migration
  script does to a database is the argument \<open>perform\<close> of \<open>run_migrations_up_to\<close>.
\<close>

section \<open>The database as a backup sees it\<close>

text \<open>
  The metadata table may be missing, and may have no row for the migrations.  \<open>bk_sent\<close> is a
  trace, not a table: the text of the statements that a restore has executed for the rows of
  a file, in their order.
\<close>

record 'j raw_table =
  rt_def :: "'j table_def"
  rt_rows :: "(string \<times> 'j stored) list list"

record 'j backup_db = db_conn +
  bk_metadata :: "string option option"
  bk_tables :: "string \<rightharpoonup> 'j raw_table"
  bk_sent :: "string list"

type_synonym ('j, 'a) bk_op = "('j backup_db, 'a) go"

definition column_set :: "'j table_def \<Rightarrow> string set" where
  "column_set td = set (map cd_name (td_columns td))"

text \<open>What a driver makes of a stored value when it scans it into an \<open>any\<close>.\<close>

fun scan_value :: "'j stored \<Rightarrow> 'j go_any" where
  "scan_value St_Null = Any_Nil"
| "scan_value (St_Bool b) = Any_Bool b"
| "scan_value (St_Int n) = Any_Int64 n"
| "scan_value (St_Text s) = Any_String s"
| "scan_value (St_Uuid u) = Any_Uuid u"
| "scan_value (St_Json j) = Any_Json j"

text \<open>\<open>SELECT .. FROM ..\<close>, without an order: the rows come as the engine likes.\<close>

definition query_rows :: "'j value_lib \<Rightarrow> string \<Rightarrow> string list \<Rightarrow> ('j, 'j go_any list list) bk_op" where
  "query_rows lib table cols s = (case bk_tables s table of
      None \<Rightarrow> (Inl Err_Db, s)
    | Some t \<Rightarrow>
        if set cols \<subseteq> column_set (rt_def t)
        then (Inr (map (\<lambda>r. map (\<lambda>c. scan_value (the (map_of r c))) cols)
               (vl_scan_order lib table (rt_rows t))), s)
        else (Inl Err_Db, s))"

text \<open>SQLite keeps any text; a text of Postgres is valid UTF-8 and has no NUL.\<close>

definition portable_text :: "'j value_lib \<Rightarrow> string \<Rightarrow> bool" where
  "portable_text lib s \<longleftrightarrow> vl_utf8 lib s \<and> CHR 0x00 \<notin> set s"

text \<open>A parameter that carries a cast to uuid or jsonb is a text the engine parses; any other
  argument of another type than the column's is converted, or refused, as the engine does.\<close>

definition store_value ::
  "'j value_lib \<Rightarrow> backend_kind \<Rightarrow> column_type \<Rightarrow> string \<Rightarrow> 'j go_any \<Rightarrow> 'j stored option" where
  "store_value lib k ct cast v = (case (ct, v) of
      (_, Any_Nil) \<Rightarrow> Some St_Null
    | (Type_Text, Any_String s) \<Rightarrow>
        if k = Backend_SQLite \<or> portable_text lib s then Some (St_Text s) else None
    | (Type_Int, Any_Int64 n) \<Rightarrow> Some (St_Int n)
    | (Type_Bool, Any_Bool b) \<Rightarrow> Some (St_Bool b)
    | (Type_Uuid, Any_String s) \<Rightarrow>
        if cast = ''::uuid'' then map_option St_Uuid (vl_parse_uuid lib s) else vl_convert lib k ct v
    | (Type_Json, Any_String s) \<Rightarrow>
        if cast = ''::jsonb'' then map_option St_Json (vl_parse_json lib s) else vl_convert lib k ct v
    | _ \<Rightarrow> vl_convert lib k ct v)"

text \<open>The default of a column is a literal of its type.\<close>

definition type_cast :: "column_type \<Rightarrow> string" where
  "type_cast ct = (case ct of Type_Uuid \<Rightarrow> ''::uuid'' | Type_Json \<Rightarrow> ''::jsonb'' | _ \<Rightarrow> [])"

definition new_row ::
  "'j value_lib \<Rightarrow> backend_kind \<Rightarrow> 'j table_def \<Rightarrow> (string \<times> string \<times> 'j go_any) list \<Rightarrow>
     (string \<times> 'j stored) list option" where
  "new_row lib k td given = those (map (\<lambda>d. map_option (Pair (cd_name d))
     (case map_of given (cd_name d) of
        Some (cast, a) \<Rightarrow> store_value lib k (cd_type d) cast a
      | None \<Rightarrow> (case cd_default d of
           Some a \<Rightarrow> store_value lib k (cd_type d) (type_cast (cd_type d)) a
         | None \<Rightarrow> Some St_Null))) (td_columns td))"

definition nulls_allowed :: "'j table_def \<Rightarrow> (string \<times> 'j stored) list \<Rightarrow> bool" where
  "nulls_allowed td r \<longleftrightarrow>
     list_all (\<lambda>d. cd_nullable d \<or> map_of r (cd_name d) \<noteq> Some St_Null) (td_columns td)"

definition same_key :: "string list \<Rightarrow> (string \<times> 'j stored) list \<Rightarrow> (string \<times> 'j stored) list \<Rightarrow> bool" where
  "same_key u q r \<longleftrightarrow> list_all (\<lambda>c. map_of q c = map_of r c \<and> map_of r c \<noteq> Some St_Null) u"

definition has_parent ::
  "(string \<rightharpoonup> 'j raw_table) \<Rightarrow> (string \<times> 'j stored) list \<Rightarrow> string \<times> string \<Rightarrow> bool" where
  "has_parent tabs r ref = (case ref of (c, parent) \<Rightarrow>
     map_of r c = Some St_Null \<or>
     (case tabs parent of None \<Rightarrow> False
      | Some t \<Rightarrow> list_ex (\<lambda>q. map_of q ''id'' = map_of r c) (rt_rows t)))"

text \<open>An INSERT: columns with their parameters' casts, and one argument for each.\<close>

definition exec_insert ::
  "'j value_lib \<Rightarrow> backend_kind \<Rightarrow> string \<Rightarrow> (string \<times> string \<times> 'j go_any) list \<Rightarrow> ('j, unit) bk_op" where
  "exec_insert lib k table given s = (case bk_tables s table of
      None \<Rightarrow> (Inl Err_Db, s)
    | Some t \<Rightarrow>
        if given = [] \<or> \<not> fst ` set given \<subseteq> column_set (rt_def t)
           \<or> k = Backend_Postgres \<and> \<not> distinct (map fst given)
        then (Inl Err_Db, s)
        else case new_row lib k (rt_def t) given of
            None \<Rightarrow> (Inl Err_Db, s)
          | Some r \<Rightarrow>
              if \<not> nulls_allowed (rt_def t) r then (Inl Err_Db, s)
              else if list_ex (\<lambda>u. list_ex (\<lambda>q. same_key u q r) (rt_rows t)) (td_unique (rt_def t))
              then (Inl Err_Unique, s)
              else if \<not> list_all (has_parent (bk_tables s) r) (td_refs (rt_def t))
              then (Inl Err_Foreign_Key, s)
              else (Inr (), s\<lparr>bk_tables := (bk_tables s)(table \<mapsto> t\<lparr>rt_rows := rt_rows t @ [r]\<rparr>)\<rparr>))"

section \<open>readSchemaLevel\<close>

definition read_schema_level :: "('j, int) bk_op" where
  "read_schema_level = db_stmt (\<lambda>s. (case bk_metadata s of
      None \<Rightarrow> Inl (Err_Msg ''reading migration level from metadata'')
    | Some None \<Rightarrow> Inr 0
    | Some (Some raw) \<Rightarrow> (case parse_int raw of
         None \<Rightarrow> Inl (Err_Msg ''invalid migration level in metadata table'')
       | Some level \<Rightarrow>
           if level < 0 then Inl (Err_Msg ''invalid migration level in metadata table'')
           else Inr level), s))"

section \<open>The CBOR codec\<close>

record file_header =
  fh_version :: int
  fh_created_at :: int
  fh_schema_level :: int
  fh_table_count :: int

record table_header =
  th_name :: string
  th_columns :: "string list"

record 'j cbor =
  cb_enc_file :: "file_header \<Rightarrow> string option"
  cb_enc_table :: "table_header \<Rightarrow> string option"
  cb_enc_row :: "'j go_any list \<Rightarrow> string option"
  cb_enc_null :: "string option"
  cb_dec_file :: "string \<Rightarrow> (file_header \<times> string) option"
  cb_dec_table :: "string \<Rightarrow> (table_header \<times> string) option"
  cb_dec_row :: "string \<Rightarrow> ('j go_any list option \<times> string) option"

definition format_version :: int where "format_version = 1"
definition magic_header :: string where "magic_header = ''RVBK''"

section \<open>Backup\<close>

text \<open>The writer takes what it is given, or fails after a part of it.\<close>

record 'j backup_io =
  bio_db :: "'j backup_db"
  bio_out :: string
  bio_faults :: "nat option list"
  bio_hashed :: string

type_synonym ('j, 'a) bio_op = "('j backup_io, 'a) go"

definition on_db :: "('j, 'a) bk_op \<Rightarrow> ('j, 'a) bio_op" where
  "on_db m io = (case m (bio_db io) of (r, d) \<Rightarrow> (r, io\<lparr>bio_db := d\<rparr>))"

definition write_out :: "string \<Rightarrow> ('j, unit) bio_op" where
  "write_out bs io = (case bio_faults io of
      [] \<Rightarrow> (Inr (), io\<lparr>bio_out := bio_out io @ bs\<rparr>)
    | None # fs \<Rightarrow> (Inr (), io\<lparr>bio_out := bio_out io @ bs, bio_faults := fs\<rparr>)
    | Some n # fs \<Rightarrow>
        (Inl (Err_Msg ''write failed''), io\<lparr>bio_out := bio_out io @ take n bs, bio_faults := fs\<rparr>))"

text \<open>\<open>enc.Encode\<close> into the \<open>io.MultiWriter\<close> of the file and the hash.\<close>

definition encode_item :: "string option \<Rightarrow> ('j, unit) bio_op" where
  "encode_item item = (case item of
      None \<Rightarrow> go_fail (Err_Msg ''encoding'')
    | Some bs \<Rightarrow> go_bind (write_out bs) (\<lambda>_ io. (Inr (), io\<lparr>bio_hashed := bio_hashed io @ bs\<rparr>)))"

text \<open>\<open>rows.Next\<close> and \<open>rows.Scan\<close> may fail on every row, and \<open>rows.Err\<close> at the end.\<close>

fun dump_rows ::
  "'j value_lib \<Rightarrow> 'j cbor \<Rightarrow> column_spec list \<Rightarrow> 'j go_any list list \<Rightarrow> ('j, unit) bio_op" where
  "dump_rows lib cb cols [] = on_db (db_stmt (go_return ()))"
| "dump_rows lib cb cols (r # rs) =
     go_bind (on_db (db_stmt (go_return ()))) (\<lambda>_.
     go_bind (encode_item (cb_enc_row cb (map2 (\<lambda>v c. normalize_value lib v (cs_kind c)) r cols))) (\<lambda>_.
       dump_rows lib cb cols rs))"

definition dump_table :: "'j value_lib \<Rightarrow> 'j cbor \<Rightarrow> table_spec \<Rightarrow> ('j, unit) bio_op" where
  "dump_table lib cb spec =
     go_bind (encode_item (cb_enc_table cb \<lparr>th_name = ts_name spec, th_columns = column_names spec\<rparr>)) (\<lambda>_.
     go_bind (on_db (db_stmt (query_rows lib (ts_name spec) (column_names spec)))) (\<lambda>rows.
     go_bind (dump_rows lib cb (ts_columns spec) rows) (\<lambda>_.
       encode_item (cb_enc_null cb))))"

fun dump_tables :: "'j value_lib \<Rightarrow> 'j cbor \<Rightarrow> table_spec list \<Rightarrow> ('j, unit) bio_op" where
  "dump_tables lib cb [] = go_return ()"
| "dump_tables lib cb (spec # specs) =
     go_bind (dump_table lib cb spec) (\<lambda>_. dump_tables lib cb specs)"

definition run_backup ::
  "'j value_lib \<Rightarrow> 'j cbor \<Rightarrow> (string \<Rightarrow> string) \<Rightarrow> go_time \<Rightarrow> ('j, unit) bio_op" where
  "run_backup lib cb sha256 now =
     go_bind (on_db read_schema_level) (\<lambda>level.
     go_bind (write_out magic_header) (\<lambda>_.
     go_bind (\<lambda>io. (Inr (), io\<lparr>bio_hashed := []\<rparr>)) (\<lambda>_.
     go_bind (encode_item (cb_enc_file cb
        \<lparr>fh_version = format_version, fh_created_at = unix_seconds now, fh_schema_level = level,
         fh_table_count = int (length backup_tables)\<rparr>)) (\<lambda>_.
     go_bind (dump_tables lib cb backup_tables) (\<lambda>_ io.
       write_out (sha256 (bio_hashed io)) io)))))"

text \<open>\<open>Backup\<close>: begin, dump, commit.  The dump only reads, so a roll-back has nothing to undo.\<close>

definition backup ::
  "'j value_lib \<Rightarrow> 'j cbor \<Rightarrow> (string \<Rightarrow> string) \<Rightarrow> go_time \<Rightarrow> ('j, unit) bio_op" where
  "backup lib cb sha256 now =
     go_bind (on_db (db_stmt (go_return ()))) (\<lambda>_.
     go_bind (run_backup lib cb sha256 now) (\<lambda>_.
       on_db (db_stmt (go_return ()))))"

section \<open>Migrations\<close>

record migration_script =
  ms_name :: string
  ms_sql :: string

text \<open>The embedded directory: names, whether an entry is a directory, and the file's contents
  when it can be read.\<close>

record embedded_entry =
  ee_name :: string
  ee_is_dir :: bool
  ee_data :: "string option"

definition script_names :: "embedded_entry list \<Rightarrow> string list" where
  "script_names es = foldr (insert_by string_le)
     (map ee_name (filter (\<lambda>e. \<not> ee_is_dir e \<and> (\<exists>b. ee_name e = b @ ''.sql'')) es)) []"

definition read_entry :: "embedded_entry list \<Rightarrow> string \<Rightarrow> string option" where
  "read_entry es n = (case filter (\<lambda>e. ee_name e = n) es of [] \<Rightarrow> None | e # _ \<Rightarrow> ee_data e)"

fun read_scripts :: "embedded_entry list \<Rightarrow> string list \<Rightarrow> migration_script list go_result" where
  "read_scripts es [] = Inr []"
| "read_scripts es (n # ns) = (case read_entry es n of
      None \<Rightarrow> Inl (Err_Msg ''failed to read embedded migration'')
    | Some d \<Rightarrow> (case read_scripts es ns of
         Inl e \<Rightarrow> Inl e
       | Inr ss \<Rightarrow> Inr (\<lparr>ms_name = n, ms_sql = d\<rparr> # ss)))"

definition load_migration_scripts :: "embedded_entry list option \<Rightarrow> migration_script list go_result" where
  "load_migration_scripts dir = (case dir of
      None \<Rightarrow> Inl (Err_Msg ''failed to read embedded migrations'')
    | Some es \<Rightarrow> (case read_scripts es (script_names es) of
         Inl e \<Rightarrow> Inl e
       | Inr ss \<Rightarrow> if ss = [] then Inl (Err_Msg ''no embedded SQL migrations found'') else Inr ss))"

definition clamp_migrations :: "migration_script list \<Rightarrow> int \<Rightarrow> migration_script list go_result" where
  "clamp_migrations scripts max_level =
     (if max_level = 0 then Inr scripts
      else if max_level > int (length scripts)
      then Inl (Err_Msg ''requested migration level is not bundled in this binary'')
      else Inr (take (nat max_level) scripts))"

definition run_migrations_up_to ::
  "(migration_script list \<Rightarrow> ('j, unit) bk_op) \<Rightarrow> embedded_entry list option \<Rightarrow> int \<Rightarrow> ('j, unit) bk_op" where
  "run_migrations_up_to perform dir max_level =
     (if max_level < 0 then go_fail (Err_Msg ''invalid maxLevel'')
      else go_bind (go_lift (load_migration_scripts dir)) (\<lambda>scripts.
           go_bind (go_lift (clamp_migrations scripts max_level)) perform))"

definition run_migrations ::
  "(migration_script list \<Rightarrow> ('j, unit) bk_op) \<Rightarrow> embedded_entry list option \<Rightarrow> ('j, unit) bk_op" where
  "run_migrations perform dir = run_migrations_up_to perform dir 0"

section \<open>Restore\<close>

definition metadata_table_exists :: "('j, bool) bk_op" where
  "metadata_table_exists = db_stmt (\<lambda>s. (Inr (bk_metadata s \<noteq> None), s))"

definition target_has_migrations :: "('j, bool) bk_op" where
  "target_has_migrations =
     go_bind metadata_table_exists (\<lambda>exists.
       if \<not> exists then go_return False
       else go_bind read_schema_level (\<lambda>level. go_return (level > 0)))"

definition placeholder :: "nat \<Rightarrow> backend_kind \<Rightarrow> string" where
  "placeholder n kind = (case kind of
      Backend_Postgres \<Rightarrow> ''$'' @ decimal n | Backend_SQLite \<Rightarrow> ''?'')"

text \<open>The cast that \<open>buildInsert\<close> adds to a placeholder.\<close>

definition placeholder_cast :: "column_kind option \<Rightarrow> backend_kind \<Rightarrow> string" where
  "placeholder_cast ck kind =
     (if kind = Backend_Postgres
      then (case ck of Some Col_Uuid \<Rightarrow> ''::uuid'' | Some Col_Json \<Rightarrow> ''::jsonb'' | _ \<Rightarrow> [])
      else [])"

definition kind_of_column :: "table_spec \<Rightarrow> string \<Rightarrow> column_kind option" where
  "kind_of_column spec c = map_of (map (\<lambda>s. (cs_name s, cs_kind s)) (ts_columns spec)) c"

definition insert_placeholders :: "table_spec \<Rightarrow> string list \<Rightarrow> backend_kind \<Rightarrow> string list" where
  "insert_placeholders spec columns kind =
     map (\<lambda>i. placeholder (i + 1) kind @ placeholder_cast (kind_of_column spec (columns ! i)) kind)
       [0..<length columns]"

definition insert_query :: "table_spec \<Rightarrow> string list \<Rightarrow> backend_kind \<Rightarrow> string" where
  "insert_query spec columns kind =
     ''INSERT INTO '' @ ts_name spec @ '' ('' @ join_with '', '' columns @ '') VALUES ('' @
     join_with '', '' (insert_placeholders spec columns kind) @ '')''"

definition build_args ::
  "table_spec \<Rightarrow> string list \<Rightarrow> backend_kind \<Rightarrow> 'j go_any list \<Rightarrow> 'j go_any list go_result" where
  "build_args spec columns kind row =
     (if length row \<noteq> length columns then Inl (Err_Msg ''row has the wrong number of values'')
      else Inr (map2 (\<lambda>v c. coerce_for_insert v (case kind_of_column spec c of None \<Rightarrow> Col_Text | Some ck \<Rightarrow> ck) kind)
        row columns))"

text \<open>\<open>tx.Exec\<close> of a statement: its text goes into the trace.\<close>

definition exec_text :: "string \<Rightarrow> ('j, unit) bk_op \<Rightarrow> ('j, unit) bk_op" where
  "exec_text query run s = db_stmt run (s\<lparr>bk_sent := bk_sent s @ [query]\<rparr>)"

text \<open>The insert of one row, as the text of the query says: columns, casts, arguments.\<close>

definition insert_row ::
  "'j value_lib \<Rightarrow> backend_kind \<Rightarrow> table_spec \<Rightarrow> string list \<Rightarrow> 'j go_any list \<Rightarrow> ('j, unit) bk_op" where
  "insert_row lib kind spec columns args =
     exec_text (insert_query spec columns kind) (exec_insert lib kind (ts_name spec)
       (map2 (\<lambda>c a. (c, placeholder_cast (kind_of_column spec c) kind, a)) columns args))"

text \<open>Every CBOR item has at least one byte.\<close>

definition decode_row :: "'j cbor \<Rightarrow> string \<Rightarrow> ('j go_any list option \<times> string) option" where
  "decode_row cb body = (case cb_dec_row cb body of
      None \<Rightarrow> None
    | Some (row, rest) \<Rightarrow> if length rest < length body then Some (row, rest) else None)"

lemma decode_row_shorter: "decode_row cb body = Some (row, rest) \<Longrightarrow> length rest < length body"
  by (auto simp: decode_row_def split: option.splits if_splits)

function restore_rows ::
  "'j value_lib \<Rightarrow> 'j cbor \<Rightarrow> backend_kind \<Rightarrow> table_spec option \<Rightarrow> string list \<Rightarrow> string \<Rightarrow> ('j, string) bk_op" where
  "restore_rows lib cb kind spec columns body = (case decode_row cb body of
      None \<Rightarrow> go_fail (Err_Msg ''decoding row'')
    | Some (None, rest) \<Rightarrow> go_return rest
    | Some (Some row, rest) \<Rightarrow> (case spec of
         None \<Rightarrow> restore_rows lib cb kind spec columns rest
       | Some sp \<Rightarrow>
           go_bind (go_lift (build_args sp columns kind row)) (\<lambda>args.
           go_bind (insert_row lib kind sp columns args) (\<lambda>_.
             restore_rows lib cb kind spec columns rest))))"
  by pat_completeness auto

termination
  by (relation "measure (\<lambda>(lib, cb, kind, spec, columns, body). length body)")
    (auto dest: decode_row_shorter)

declare restore_rows.simps [simp del]

definition find_spec :: "string \<Rightarrow> table_spec option" where
  "find_spec n = map_of (map (\<lambda>t. (ts_name t, t)) backup_tables) n"

definition restore_table_block ::
  "'j value_lib \<Rightarrow> 'j cbor \<Rightarrow> backend_kind \<Rightarrow> string \<Rightarrow> ('j, string) bk_op" where
  "restore_table_block lib cb kind body = (case cb_dec_table cb body of
      None \<Rightarrow> go_fail (Err_Msg ''decoding table header'')
    | Some (h, rest) \<Rightarrow> (case find_spec (th_name h) of
         None \<Rightarrow> restore_rows lib cb kind None (th_columns h) rest
       | Some spec \<Rightarrow>
           if \<exists>c\<in>set (th_columns h). kind_of_column spec c = None
           then go_fail (Err_Msg ''backup column is not a recognized column'')
           else restore_rows lib cb kind (Some spec) (th_columns h) rest))"

fun restore_tables ::
  "'j value_lib \<Rightarrow> 'j cbor \<Rightarrow> backend_kind \<Rightarrow> nat \<Rightarrow> string \<Rightarrow> ('j, string) bk_op" where
  "restore_tables lib cb kind 0 body = go_return body"
| "restore_tables lib cb kind (Suc n) body =
     go_bind (restore_table_block lib cb kind body) (restore_tables lib cb kind n)"

text \<open>\<open>io.ReadFull\<close>: the next \<open>n\<close> bytes, or an error when the file ends before.\<close>

function read_exactly :: "nat \<Rightarrow> source \<Rightarrow> (string \<times> source) option" where
  "read_exactly n s =
     (if n = 0 then Some ([], s)
      else case read_source n s of ((bs, e), s1) \<Rightarrow>
        if n \<le> length bs then Some (bs, s1)
        else if e \<noteq> None then None
        else map_option (\<lambda>(out, s2). (bs @ out, s2)) (read_exactly (n - length bs) s1))"
  by pat_completeness auto

termination
  by (relation "measure (\<lambda>(n, s). source_left s)") (auto dest!: read_source_left(2) [OF sym])

declare read_exactly.simps [simp del]

definition handed_out :: "source \<Rightarrow> string" where
  "handed_out src = cr_hashed (snd (drain (new_checksum_reader src)))"

definition err_target_not_empty :: go_error where
  "err_target_not_empty = Err_Msg ''target database is not empty''"

record 'j restore_env =
  re_lib :: "'j value_lib"
  re_cbor :: "'j cbor"
  re_sha256 :: "string \<Rightarrow> string"
  re_perform :: "migration_script list \<Rightarrow> ('j, unit) bk_op"
  re_scripts :: "embedded_entry list option"

definition restore_data ::
  "'j restore_env \<Rightarrow> backend_kind \<Rightarrow> nat list \<Rightarrow> source \<Rightarrow> int \<Rightarrow> string \<Rightarrow> ('j, unit) bk_op" where
  "restore_data env kind asked src n_tables body =
     go_bind (restore_tables (re_lib env) (re_cbor env) kind (nat n_tables) body) (\<lambda>_.
       go_lift (verify_checksum (re_sha256 env)
         (snd (read_calls asked (new_checksum_reader src)))))"

definition restore :: "'j restore_env \<Rightarrow> backend_kind \<Rightarrow> nat list \<Rightarrow> source \<Rightarrow> ('j, unit) bk_op" where
  "restore env kind asked src0 = (case read_exactly 4 src0 of
      None \<Rightarrow> go_fail (Err_Msg ''reading backup magic header'')
    | Some (magic, src) \<Rightarrow>
        if magic \<noteq> magic_header then go_fail (Err_Msg ''not a valid backup file (bad magic header)'')
        else (case cb_dec_file (re_cbor env) (handed_out src) of
           None \<Rightarrow> go_fail (Err_Msg ''decoding file header'')
         | Some (hdr, body) \<Rightarrow>
             if fh_version hdr \<noteq> format_version then go_fail (Err_Msg ''unsupported backup format version'')
             else go_bind target_has_migrations (\<lambda>has_data.
               if has_data then go_fail err_target_not_empty
               else go_bind (run_migrations_up_to (re_perform env) (re_scripts env) (fh_schema_level hdr)) (\<lambda>_.
                 db_transaction (restore_data env kind asked src (fh_table_count hdr) body)))))"

end
