(* ===== verification/Backup_Schema.thy ===== *)
theory Backup_Schema
  imports Db_Backup
begin

text \<open>
  The tables of the application (the record \<open>database\<close>) as the two databases store them:
  the schema after each migration, the portable cells of every row, and the stored form of a
  cell in a column.  \<open>tables_of\<close> is what a database of either kind holds for an application
  state; the lemmas relate a stored row with what a backup makes of it and back.
\<close>

section \<open>The schema after each migration\<close>

definition initial_schema :: "backend_kind \<Rightarrow> string \<rightharpoonup> 'j table_def" where
  "initial_schema k = map_of
     [(''v2_users'', users_def k), (''v2_user_credentials'', user_credentials_def k),
      (''v2_auth_challenges'', auth_challenges_def k),
      (''v2_auth_challenge_payloads'', auth_challenge_payloads_def k),
      (''v2_requests'', requests_def k), (''v2_published_signing_keys'', signing_keys_def k),
      (''v2_audit_events'', audit_events_def k)]"

definition versioned_users_def :: "backend_kind \<Rightarrow> 'j table_def" where
  "versioned_users_def k = (users_def k)\<lparr>td_columns := td_columns (users_def k) @
     [default_col Type_Int (Any_Int64 1) ''pubkey_bundle_version'']\<rparr>"

definition schema_at :: "backend_kind \<Rightarrow> nat \<Rightarrow> string \<rightharpoonup> 'j table_def" where
  "schema_at k level =
     (if level = 0 then Map.empty
      else if level = 1 then initial_schema k
      else (initial_schema k)(''v2_users'' \<mapsto> versioned_users_def k))"

definition bundled_levels :: nat where "bundled_levels = 2"

definition empty_tables :: "backend_kind \<Rightarrow> nat \<Rightarrow> string \<rightharpoonup> 'j raw_table" where
  "empty_tables k level n = map_option (\<lambda>td. \<lparr>rt_def = td, rt_rows = []\<rparr>) (schema_at k level n)"

section \<open>Cells\<close>

fun optional_text :: "string option \<Rightarrow> 'j go_any" where
  "optional_text None = Any_Nil"
| "optional_text (Some s) = Any_String s"

fun optional_int :: "int option \<Rightarrow> 'j go_any" where
  "optional_int None = Any_Nil"
| "optional_int (Some n) = Any_Int64 n"

definition user_cells :: "user_row \<Rightarrow> 'j go_any list" where
  "user_cells u = map Any_String [u_id u, u_display_name u, u_status u, u_webauthn_user_id u,
       u_request_key u, u_request_enc_ecdh_pubkey u, u_request_enc_mlkem_pubkey u,
       u_anchor_es384_public_key u, u_anchor_mldsa87_public_key u,
       u_pubkey_bundle_signature_es384 u, u_pubkey_bundle_signature_mldsa87 u] @
     [Any_Int64 (u_wrapped_key_epoch u), Any_String (u_allowed_ips u), Any_Bool (u_ready u),
      Any_Int64 (u_created_at u), Any_Int64 (u_updated_at u), Any_Int64 (u_pubkey_bundle_version u)]"

definition credential_cells :: "credential_row \<Rightarrow> 'j go_any list" where
  "credential_cells c = map Any_String [c_id c, c_user_id c, c_credential_id c, c_display_name c,
       c_public_key c] @ [Any_Int64 (c_sign_count c)] @
     map Any_String [c_wrapped_primary_key c, c_wrapped_anchor_key c, c_attestation_payload c,
       c_attestation_signature_es384 c, c_attestation_signature_mldsa87 c] @
     map Any_Int64 [c_wrapped_key_epoch c, c_created_at c, c_last_used_at c]"

definition request_cells :: "request_row \<Rightarrow> 'j go_any list" where
  "request_cells r = map Any_String [rr_state r, status_name (rr_status r), rr_operation r, rr_user_id r,
       rr_key_label r, rr_algorithm r, rr_requestor_ip r, rr_note r] @
     map Any_Int64 [rr_created_at r, rr_expires_at r, rr_updated_at r] @
     map Any_String [rr_encrypted_request r, rr_encrypted_result r]"

definition signing_key_cells :: "signing_key_row \<Rightarrow> 'j go_any list" where
  "signing_key_cells k = map Any_String [sk_id k, sk_user_id k, sk_algorithm k, sk_key_label k,
       sk_jwk k, sk_pem k] @ [Any_Bool (sk_published k)] @
     map Any_String [sk_publication_payload k, sk_publication_signature_es384 k,
       sk_publication_signature_mldsa87 k] @
     map Any_Int64 [sk_created_at k, sk_updated_at k]"

definition audit_cells :: "audit_row \<Rightarrow> 'j go_any list" where
  "audit_cells a = [Any_String (ae_id a), Any_Int64 (ae_created_at a)] @
     map Any_String [ae_event_type a, ae_outcome a, ae_auth_method a] @
     map optional_text [ae_actor_user_id a, ae_target_user_id a, ae_signing_key_id a,
       ae_credential_id a, ae_request_state a, ae_http_request_id a, ae_client_ip a, ae_user_agent a] @
     [Any_String (ae_metadata a)]"

definition challenge_cells :: "challenge_row \<Rightarrow> 'j go_any list" where
  "challenge_cells c = map Any_String [ch_id c, ch_kind c, ch_user_id c, ch_challenge c] @
     [Any_Int64 (ch_expires_at c), optional_int (ch_used_at c)]"

definition challenge_payload_cells :: "challenge_payload_row \<Rightarrow> 'j go_any list" where
  "challenge_payload_cells p = map Any_String [cp_challenge_id p, cp_session_data p]"

definition table_cells :: "database \<Rightarrow> string \<Rightarrow> 'j go_any list list" where
  "table_cells s n =
     (if n = ''v2_users'' then map user_cells (db_users s)
      else if n = ''v2_user_credentials'' then map credential_cells (db_credentials s)
      else if n = ''v2_requests'' then map request_cells (db_requests s)
      else if n = ''v2_published_signing_keys'' then map signing_key_cells (db_signing_keys s)
      else if n = ''v2_audit_events'' then map audit_cells (db_audit_events s)
      else if n = ''v2_auth_challenges'' then map challenge_cells (db_challenges s)
      else if n = ''v2_auth_challenge_payloads'' then map challenge_payload_cells (db_challenge_payloads s)
      else [])"

section \<open>Stored rows\<close>

fun stored_cell :: "'j value_lib \<Rightarrow> column_type \<Rightarrow> 'j go_any \<Rightarrow> 'j stored" where
  "stored_cell lib ct (Any_String s) = (case ct of
      Type_Uuid \<Rightarrow> St_Uuid (the (vl_parse_uuid lib s))
    | Type_Json \<Rightarrow> St_Json (the (vl_parse_json lib s))
    | _ \<Rightarrow> St_Text s)"
| "stored_cell lib ct (Any_Int64 n) = St_Int n"
| "stored_cell lib ct (Any_Bool b) = (if ct = Type_Bool then St_Bool b else St_Int (if b then 1 else 0))"
| "stored_cell lib ct _ = St_Null"

definition stored_row ::
  "'j value_lib \<Rightarrow> 'j table_def \<Rightarrow> 'j go_any list \<Rightarrow> (string \<times> 'j stored) list" where
  "stored_row lib td cells =
     map2 (\<lambda>d v. (cd_name d, stored_cell lib (cd_type d) v)) (td_columns td) cells"

definition tables_of :: "'j value_lib \<Rightarrow> backend_kind \<Rightarrow> database \<Rightarrow> string \<rightharpoonup> 'j raw_table" where
  "tables_of lib k s n = map_option
     (\<lambda>td. \<lparr>rt_def = td, rt_rows = map (stored_row lib td) (table_cells s n)\<rparr>) (schema_at k bundled_levels n)"

section \<open>Cells that both databases can hold\<close>

definition canonical_uuid :: "'j value_lib \<Rightarrow> string \<Rightarrow> bool" where
  "canonical_uuid lib s = (case vl_parse_uuid lib s of None \<Rightarrow> False | Some u \<Rightarrow> uuid_string u = s)"

definition canonical_json :: "'j value_lib \<Rightarrow> string \<Rightarrow> bool" where
  "canonical_json lib s = (case vl_parse_json lib s of None \<Rightarrow> False | Some j \<Rightarrow> vl_marshal lib j = Some s)"

fun sound_cell :: "'j value_lib \<Rightarrow> 'j column_def \<Rightarrow> 'j go_any \<Rightarrow> bool" where
  "sound_cell lib d Any_Nil = cd_nullable d"
| "sound_cell lib d (Any_Int64 n) = (cd_type d = Type_Int)"
| "sound_cell lib d (Any_Bool b) = (cd_type d = Type_Bool)"
| "sound_cell lib d (Any_String s) = (case cd_type d of
      Type_Text \<Rightarrow> portable_text lib s
    | Type_Uuid \<Rightarrow> canonical_uuid lib s
    | Type_Json \<Rightarrow> canonical_json lib s
    | _ \<Rightarrow> False)"
| "sound_cell lib d _ = False"

definition backend_type :: "backend_kind \<Rightarrow> column_type \<Rightarrow> column_type" where
  "backend_type k ct = (case k of
      Backend_Postgres \<Rightarrow> ct
    | Backend_SQLite \<Rightarrow> (case ct of Type_Bool \<Rightarrow> Type_Int | Type_Uuid \<Rightarrow> Type_Text | Type_Json \<Rightarrow> Type_Text | _ \<Rightarrow> ct))"

definition kind_of_type :: "column_type \<Rightarrow> column_kind" where
  "kind_of_type ct = (case ct of
      Type_Bool \<Rightarrow> Col_Bool | Type_Uuid \<Rightarrow> Col_Uuid | Type_Json \<Rightarrow> Col_Json | _ \<Rightarrow> Col_Text)"

lemma sound_cell_transfer:
  assumes "sound_cell lib d v"
  shows "store_value lib k (backend_type k (cd_type d)) (placeholder_cast (Some (kind_of_type (cd_type d))) k)
           (coerce_for_insert v (kind_of_type (cd_type d)) k)
         = Some (stored_cell lib (backend_type k (cd_type d)) v)"
    and "normalize_value lib (scan_value (stored_cell lib (backend_type k (cd_type d)) v)) (kind_of_type (cd_type d)) = v"
    and "stored_cell lib (backend_type k (cd_type d)) v = St_Null \<longleftrightarrow> v = Any_Nil"
  using assms
  by (cases v; cases k; cases "cd_type d";
      auto simp: store_value_def coerce_for_insert_def backend_type_def kind_of_type_def
        placeholder_cast_def canonical_uuid_def canonical_json_def split: option.splits)+

text \<open>A table specification that fits the schema of a database of kind \<open>k\<close>: same columns in
  the same order, the kinds and types of the same logical type, the same constraints.\<close>

definition fits_schema :: "backend_kind \<Rightarrow> table_spec \<Rightarrow> 'j table_def \<Rightarrow> 'j table_def \<Rightarrow> bool" where
  "fits_schema k spec pg td \<longleftrightarrow>
     column_names spec = map cd_name (td_columns pg) \<and> column_names spec = map cd_name (td_columns td) \<and>
     map cs_kind (ts_columns spec) = map (kind_of_type \<circ> cd_type) (td_columns pg) \<and>
     map cd_type (td_columns td) = map (backend_type k \<circ> cd_type) (td_columns pg) \<and>
     list_all2 (\<lambda>d e. cd_nullable d \<longrightarrow> cd_nullable e) (td_columns pg) (td_columns td) \<and>
     distinct (column_names spec) \<and> column_names spec \<noteq> [] \<and>
     td_unique td = td_unique pg \<and> td_refs td = td_refs pg \<and>
     list_all (\<lambda>u. u \<noteq> [] \<and> set u \<subseteq> column_set pg) (td_unique pg) \<and>
     list_all (\<lambda>(c, p). c \<in> column_set pg) (td_refs pg)"

lemmas schema_simps = schema_at_def initial_schema_def versioned_users_def_def bundled_levels_def
  users_def_def user_credentials_def_def auth_challenges_def_def auth_challenge_payloads_def_def
  requests_def_def signing_keys_def_def audit_events_def_def
  required_col_def optional_col_def default_col_def primary_col_def
  bool_type_def uuid_type_def json_type_def

lemmas spec_simps = backup_tables_def audit_events_spec_def users_spec_def signing_keys_spec_def
  requests_spec_def user_credentials_spec_def spec_of_def column_names_def

lemma specs_fit:
  "fits_schema k users_spec (versioned_users_def Backend_Postgres) (versioned_users_def k)"
  "fits_schema k audit_events_spec (audit_events_def Backend_Postgres) (audit_events_def k)"
  "fits_schema k signing_keys_spec (signing_keys_def Backend_Postgres) (signing_keys_def k)"
  "fits_schema k requests_spec (requests_def Backend_Postgres) (requests_def k)"
  "fits_schema k user_credentials_spec (user_credentials_def Backend_Postgres) (user_credentials_def k)"
  by (cases k; simp add: fits_schema_def spec_simps schema_simps kind_of_type_def backend_type_def column_set_def)+

lemma table_names:
  "ts_name users_spec = ''v2_users''" "ts_name audit_events_spec = ''v2_audit_events''"
  "ts_name signing_keys_spec = ''v2_published_signing_keys''" "ts_name requests_spec = ''v2_requests''"
  "ts_name user_credentials_spec = ''v2_user_credentials''"
  by (simp_all add: users_spec_def audit_events_spec_def signing_keys_spec_def requests_spec_def
      user_credentials_spec_def spec_of_def)

end
