(* ===== verification/Backup_Transfer.thy ===== *)
theory Backup_Transfer
  imports Backup_Schema
begin

text \<open>
  From the rows of one database to the bytes of a backup and back to the rows of another:
  what the CBOR codec promises, what one insert does with a portable row, and what a block
  of rows does to its table.
\<close>

section \<open>The codec\<close>

text \<open>What the format relies on: an item that was encoded is decoded to what it was, whatever
  follows it.  \<open>valid\<close> holds of the strings CBOR can carry as text.\<close>

fun cbor_value :: "(string \<Rightarrow> bool) \<Rightarrow> 'j go_any \<Rightarrow> bool" where
  "cbor_value valid Any_Nil = True"
| "cbor_value valid (Any_Bool b) = True"
| "cbor_value valid (Any_Int64 n) = in_int64 n"
| "cbor_value valid (Any_String s) = valid s"
| "cbor_value valid _ = False"

definition file_header_ok :: "file_header \<Rightarrow> bool" where
  "file_header_ok h \<longleftrightarrow> 0 \<le> fh_version h \<and> fh_version h < 256 \<and> in_int64 (fh_created_at h) \<and>
     in_int64 (fh_schema_level h) \<and> in_int64 (fh_table_count h)"

definition table_header_ok :: "(string \<Rightarrow> bool) \<Rightarrow> table_header \<Rightarrow> bool" where
  "table_header_ok valid h \<longleftrightarrow> valid (th_name h) \<and> list_all valid (th_columns h)"

definition encodes :: "string option \<Rightarrow> (string \<Rightarrow> ('a \<times> string) option) \<Rightarrow> 'a \<Rightarrow> bool" where
  "encodes item dec x \<longleftrightarrow> (case item of None \<Rightarrow> False
     | Some bs \<Rightarrow> bs \<noteq> [] \<and> (\<forall>rest. dec (bs @ rest) = Some (x, rest)))"

definition cbor_laws :: "(string \<Rightarrow> bool) \<Rightarrow> 'j cbor \<Rightarrow> bool" where
  "cbor_laws valid cb \<longleftrightarrow>
     (\<forall>h. file_header_ok h \<longrightarrow> encodes (cb_enc_file cb h) (cb_dec_file cb) h) \<and>
     (\<forall>h. table_header_ok valid h \<longrightarrow> encodes (cb_enc_table cb h) (cb_dec_table cb) h) \<and>
     (\<forall>r. list_all (cbor_value valid) r \<longrightarrow> encodes (cb_enc_row cb r) (cb_dec_row cb) (Some r)) \<and>
     encodes (cb_enc_null cb) (cb_dec_row cb) None"

lemma encodesE:
  assumes "encodes item dec x"
  obtains bs where "item = Some bs" "bs \<noteq> []" "\<And>rest. dec (bs @ rest) = Some (x, rest)"
  using assms by (auto simp: encodes_def split: option.splits)

lemma cbor_lawsD:
  assumes "cbor_laws valid cb"
  shows "file_header_ok fh \<Longrightarrow> encodes (cb_enc_file cb fh) (cb_dec_file cb) fh"
    and "table_header_ok valid th \<Longrightarrow> encodes (cb_enc_table cb th) (cb_dec_table cb) th"
    and "list_all (cbor_value valid) r \<Longrightarrow> encodes (cb_enc_row cb r) (cb_dec_row cb) (Some r)"
    and "encodes (cb_enc_null cb) (cb_dec_row cb) None"
  using assms by (auto simp: cbor_laws_def)

section \<open>A stored row, by column\<close>

definition sound_row :: "'j value_lib \<Rightarrow> 'j table_def \<Rightarrow> 'j go_any list \<Rightarrow> bool" where
  "sound_row lib pg r \<longleftrightarrow> list_all2 (sound_cell lib) (td_columns pg) r"

definition cell_of :: "string list \<Rightarrow> 'j go_any list \<Rightarrow> string \<Rightarrow> 'j go_any" where
  "cell_of names r c = the (map_of (zip names r) c)"

lemma fits_names:
  assumes "fits_schema k spec pg td"
  shows "distinct (column_names spec)" "column_names spec \<noteq> []"
    "column_set pg = set (column_names spec)" "column_set td = set (column_names spec)"
  using assms unfolding fits_schema_def column_set_def by (blast, blast, metis list.set_map, metis list.set_map)

lemma fits_lengths:
  assumes "fits_schema k spec pg td" and "sound_row lib pg r"
  shows "length (td_columns td) = length r" "length (td_columns pg) = length r"
    "length (ts_columns spec) = length r" "length (column_names spec) = length r"
  using assms by (auto simp: fits_schema_def sound_row_def column_names_def dest!: list_all2_lengthD arg_cong [where f = length])

lemma fits_nth:
  assumes F: "fits_schema k spec pg td" and R: "sound_row lib pg r" and i: "i < length r"
  shows "cd_name (td_columns td ! i) = column_names spec ! i"
    and "cd_name (td_columns pg ! i) = column_names spec ! i"
    and "cs_kind (ts_columns spec ! i) = kind_of_type (cd_type (td_columns pg ! i))"
    and "cd_type (td_columns td ! i) = backend_type k (cd_type (td_columns pg ! i))"
    and "kind_of_column spec (column_names spec ! i) = Some (kind_of_type (cd_type (td_columns pg ! i)))"
    and "cd_nullable (td_columns pg ! i) \<Longrightarrow> cd_nullable (td_columns td ! i)"
    and "sound_cell lib (td_columns pg ! i) (r ! i)"
proof -
  note len = fits_lengths [OF F R]
  from F have eqs: "column_names spec = map cd_name (td_columns pg)"
    "column_names spec = map cd_name (td_columns td)"
    "map cs_kind (ts_columns spec) = map (kind_of_type \<circ> cd_type) (td_columns pg)"
    "map cd_type (td_columns td) = map (backend_type k \<circ> cd_type) (td_columns pg)"
    and d: "distinct (column_names spec)"
    and nulls: "list_all2 (\<lambda>d e. cd_nullable d \<longrightarrow> cd_nullable e) (td_columns pg) (td_columns td)"
    by (auto simp: fits_schema_def)
  show "cd_name (td_columns td ! i) = column_names spec ! i" using eqs(2) len i by simp
  show "cd_name (td_columns pg ! i) = column_names spec ! i" using eqs(1) len i by simp
  show kk: "cs_kind (ts_columns spec ! i) = kind_of_type (cd_type (td_columns pg ! i))"
    using arg_cong [OF eqs(3), of "\<lambda>l. l ! i"] len i by simp
  show "cd_type (td_columns td ! i) = backend_type k (cd_type (td_columns pg ! i))"
    using arg_cong [OF eqs(4), of "\<lambda>l. l ! i"] len i by simp
  show "kind_of_column spec (column_names spec ! i) = Some (kind_of_type (cd_type (td_columns pg ! i)))"
    unfolding kind_of_column_def
  proof (rule map_of_is_SomeI)
    show "distinct (map fst (map (\<lambda>s. (cs_name s, cs_kind s)) (ts_columns spec)))"
      using d by (simp add: column_names_def comp_def)
    show "(column_names spec ! i, kind_of_type (cd_type (td_columns pg ! i)))
        \<in> set (map (\<lambda>s. (cs_name s, cs_kind s)) (ts_columns spec))"
      using len i kk by (force simp: column_names_def)
  qed
  show "cd_nullable (td_columns pg ! i) \<Longrightarrow> cd_nullable (td_columns td ! i)"
    using list_all2_nthD [OF nulls] len i by simp
  show "sound_cell lib (td_columns pg ! i) (r ! i)"
    using R len i by (simp add: sound_row_def list_all2_conv_all_nth)
qed

lemma cell_of_nth:
  assumes "distinct names" and "length names = length r" and "i < length r"
  shows "cell_of names r (names ! i) = r ! i"
  using assms by (simp add: cell_of_def map_of_zip_nth)

lemma stored_row_names:
  assumes "fits_schema k spec pg td" and "sound_row lib pg r"
  shows "map fst (stored_row lib td r) = column_names spec"
  by (rule nth_equalityI)
    (use fits_lengths [OF assms] fits_nth(1) [OF assms] in \<open>auto simp: stored_row_def\<close>)

lemma stored_row_nth:
  assumes F: "fits_schema k spec pg td" and R: "sound_row lib pg r" and i: "i < length r"
  shows "map_of (stored_row lib td r) (column_names spec ! i) =
    Some (stored_cell lib (backend_type k (cd_type (td_columns pg ! i))) (r ! i))"
proof (rule map_of_is_SomeI)
  have d: "distinct (column_names spec)" by (rule fits_names(1) [OF F])
  then show "distinct (map fst (stored_row lib td r))" by (simp add: stored_row_names [OF F R])
  have "stored_row lib td r ! i \<in> set (stored_row lib td r)"
    using fits_lengths [OF F R] i by (intro nth_mem) (simp add: stored_row_def)
  then show "(column_names spec ! i, stored_cell lib (backend_type k (cd_type (td_columns pg ! i))) (r ! i))
      \<in> set (stored_row lib td r)"
    using fits_lengths [OF F R] fits_nth [OF F R i] i by (simp add: stored_row_def)
qed

lemma column_index:
  assumes "fits_schema k spec pg td" and "sound_row lib pg r" and "c \<in> column_set pg"
  obtains i where "i < length r" "c = column_names spec ! i"
proof -
  from assms have "c \<in> set (column_names spec)" using fits_names [OF assms(1)] by simp
  then show ?thesis using that fits_lengths(4) [OF assms(1,2)] by (metis in_set_conv_nth)
qed

text \<open>What a backup reads of a stored row is the portable row.\<close>

definition scanned :: "table_spec \<Rightarrow> (string \<times> 'j stored) list \<Rightarrow> 'j go_any list" where
  "scanned spec r = map (\<lambda>c. scan_value (the (map_of r c))) (column_names spec)"

lemma normalize_scanned:
  assumes F: "fits_schema k spec pg td" and R: "sound_row lib pg r"
  shows "map2 (\<lambda>v c. normalize_value lib v (cs_kind c)) (scanned spec (stored_row lib td r)) (ts_columns spec) = r"
proof (rule nth_equalityI)
  note len = fits_lengths [OF F R]
  show "length (map2 (\<lambda>v c. normalize_value lib v (cs_kind c)) (scanned spec (stored_row lib td r)) (ts_columns spec)) = length r"
    using len by (simp add: scanned_def)
  fix i assume "i < length (map2 (\<lambda>v c. normalize_value lib v (cs_kind c)) (scanned spec (stored_row lib td r)) (ts_columns spec))"
  then have i: "i < length r" using len by (simp add: scanned_def)
  show "map2 (\<lambda>v c. normalize_value lib v (cs_kind c)) (scanned spec (stored_row lib td r)) (ts_columns spec) ! i = r ! i"
    using i len fits_nth [OF F R i] stored_row_nth [OF F R i] sound_cell_transfer(2) [of lib _ "r ! i" k]
    by (simp add: scanned_def)
qed

section \<open>One insert\<close>

definition insert_args :: "table_spec \<Rightarrow> backend_kind \<Rightarrow> 'j go_any list \<Rightarrow> (string \<times> string \<times> 'j go_any) list" where
  "insert_args spec k r =
     map2 (\<lambda>c a. (c, placeholder_cast (kind_of_column spec c) k, a)) (column_names spec)
       (map2 (\<lambda>v c. coerce_for_insert v (case kind_of_column spec c of None \<Rightarrow> Col_Text | Some ck \<Rightarrow> ck) k) r (column_names spec))"

lemma those_map_Some: "(\<And>d. d \<in> set ds \<Longrightarrow> f d = Some (g d)) \<Longrightarrow> those (map f ds) = Some (map g ds)"
  by (induction ds) auto

lemma insert_args_nth:
  assumes F: "fits_schema k spec pg td" and R: "sound_row lib pg r" and i: "i < length r"
  shows "map_of (insert_args spec k r) (column_names spec ! i) =
    Some (placeholder_cast (Some (kind_of_type (cd_type (td_columns pg ! i)))) k,
          coerce_for_insert (r ! i) (kind_of_type (cd_type (td_columns pg ! i))) k)"
proof (rule map_of_is_SomeI)
  note len = fits_lengths [OF F R]
  have names: "map fst (insert_args spec k r) = column_names spec"
    by (rule nth_equalityI) (auto simp: insert_args_def len)
  then show "distinct (map fst (insert_args spec k r))" using fits_names [OF F] by simp
  have "insert_args spec k r ! i \<in> set (insert_args spec k r)"
    using len i by (intro nth_mem) (simp add: insert_args_def)
  then show "(column_names spec ! i, placeholder_cast (Some (kind_of_type (cd_type (td_columns pg ! i)))) k,
      coerce_for_insert (r ! i) (kind_of_type (cd_type (td_columns pg ! i))) k) \<in> set (insert_args spec k r)"
    using len i fits_nth(5) [OF F R i] by (simp add: insert_args_def)
qed

lemma new_row_stored:
  assumes F: "fits_schema k spec pg td" and R: "sound_row lib pg r"
  shows "new_row lib k td (insert_args spec k r) = Some (stored_row lib td r)"
proof -
  note len = fits_lengths [OF F R]
  let ?names = "column_names spec"
  have d: "distinct ?names" using fits_names [OF F] by simp
  let ?g = "\<lambda>e. (cd_name e, stored_cell lib (cd_type e) (cell_of ?names r (cd_name e)))"
  have "new_row lib k td (insert_args spec k r) = Some (map ?g (td_columns td))"
    unfolding new_row_def
  proof (rule those_map_Some)
    fix e assume "e \<in> set (td_columns td)"
    then obtain i where i: "i < length r" "e = td_columns td ! i" using len by (metis in_set_conv_nth)
    note n = fits_nth [OF F R i(1)]
    show "map_option (Pair (cd_name e))
       (case map_of (insert_args spec k r) (cd_name e) of
          Some (cast, a) \<Rightarrow> store_value lib k (cd_type e) cast a
        | None \<Rightarrow> (case cd_default e of
             Some a \<Rightarrow> store_value lib k (cd_type e) (type_cast (cd_type e)) a
           | None \<Rightarrow> Some St_Null)) = Some (?g e)"
      using n insert_args_nth [OF F R i(1)] sound_cell_transfer(1) [OF n(7)] i
        cell_of_nth [OF d len(4) i(1)] by simp
  qed
  also have "map ?g (td_columns td) = stored_row lib td r"
    by (rule nth_equalityI)
      (use len in \<open>auto simp: stored_row_def fits_nth(1) [OF F R] cell_of_nth [OF d]\<close>)
  finally show ?thesis .
qed

lemma nulls_allowed_stored:
  assumes F: "fits_schema k spec pg td" and R: "sound_row lib pg r"
  shows "nulls_allowed td (stored_row lib td r)"
  unfolding nulls_allowed_def list_all_iff
proof
  fix e assume "e \<in> set (td_columns td)"
  then obtain i where i: "i < length r" "e = td_columns td ! i"
    using fits_lengths [OF F R] by (metis in_set_conv_nth)
  note n = fits_nth [OF F R i(1)]
  show "cd_nullable e \<or> map_of (stored_row lib td r) (cd_name e) \<noteq> Some St_Null"
    using n(7) n(6) i stored_row_nth [OF F R i(1)] n(1) sound_cell_transfer(3) [OF n(7), of k]
    by (cases "r ! i") auto
qed

text \<open>Stored keys that agree come from portable keys that agree.\<close>

lemma same_key_cells:
  assumes F: "fits_schema k spec pg td" and Q: "sound_row lib pg q" and R: "sound_row lib pg r"
    and u: "set u \<subseteq> column_set pg" and same: "same_key u (stored_row lib td q) (stored_row lib td r)"
  shows "map (cell_of (column_names spec) q) u = map (cell_of (column_names spec) r) u"
proof (rule map_cong [OF refl])
  fix c assume c: "c \<in> set u"
  with u obtain i where i: "i < length r" "c = column_names spec ! i"
    using column_index [OF F R] by blast
  have iq: "i < length q" using i fits_lengths [OF F Q] fits_lengths [OF F R] by simp
  have d: "distinct (column_names spec)" using fits_names [OF F] by simp
  from same c have "map_of (stored_row lib td q) c = map_of (stored_row lib td r) c"
    by (auto simp: same_key_def list_all_iff)
  then have "stored_cell lib (backend_type k (cd_type (td_columns pg ! i))) (q ! i) =
      stored_cell lib (backend_type k (cd_type (td_columns pg ! i))) (r ! i)"
    using stored_row_nth [OF F Q iq] stored_row_nth [OF F R i(1)] i by simp
  then have "q ! i = r ! i"
    by (metis sound_cell_transfer(2) [OF fits_nth(7) [OF F Q iq]]
      sound_cell_transfer(2) [OF fits_nth(7) [OF F R i(1)]])
  then show "cell_of (column_names spec) q c = cell_of (column_names spec) r c"
    using cell_of_nth [OF d fits_lengths(4) [OF F Q] iq] cell_of_nth [OF d fits_lengths(4) [OF F R] i(1)] i
    by simp
qed

definition keys_apart :: "table_spec \<Rightarrow> 'j table_def \<Rightarrow> 'j go_any list list \<Rightarrow> bool" where
  "keys_apart spec pg rows \<longleftrightarrow>
     list_all (\<lambda>u. distinct (map (\<lambda>r. map (cell_of (column_names spec) r) u) rows)) (td_unique pg)"

definition filled :: "'j value_lib \<Rightarrow> 'j table_def \<Rightarrow> 'j go_any list list \<Rightarrow> 'j raw_table" where
  "filled lib td rows = \<lparr>rt_def = td, rt_rows = map (stored_row lib td) rows\<rparr>"

lemma exec_insert_sound:
  assumes F: "fits_schema k spec pg td"
    and P: "\<And>q. q \<in> set prev \<Longrightarrow> sound_row lib pg q" and R: "sound_row lib pg r"
    and keys: "keys_apart spec pg (prev @ [r])"
    and refs: "list_all (has_parent (bk_tables s) (stored_row lib td r)) (td_refs td)"
    and t: "bk_tables s (ts_name spec) = Some (filled lib td prev)"
  shows "exec_insert lib k (ts_name spec) (insert_args spec k r) s =
    (Inr (), s\<lparr>bk_tables := (bk_tables s)(ts_name spec \<mapsto> filled lib td (prev @ [r]))\<rparr>)"
proof -
  note len = fits_lengths [OF F R]
  have names: "map fst (insert_args spec k r) = column_names spec"
    by (rule nth_equalityI) (auto simp: insert_args_def len)
  have ne: "insert_args spec k r \<noteq> []" using names fits_names(2) [OF F] by auto
  have sub: "fst ` set (insert_args spec k r) \<subseteq> column_set td"
    using arg_cong [OF names, of set] fits_names(4) [OF F] by simp
  have dist: "distinct (map fst (insert_args spec k r))" using names fits_names(1) [OF F] by simp
  have nokey: "\<not> list_ex (\<lambda>u. list_ex (\<lambda>q. same_key u q (stored_row lib td r)) (map (stored_row lib td) prev)) (td_unique td)"
  proof
    assume "list_ex (\<lambda>u. list_ex (\<lambda>q. same_key u q (stored_row lib td r)) (map (stored_row lib td) prev)) (td_unique td)"
    then obtain u q where u: "u \<in> set (td_unique td)" and q: "q \<in> set prev"
      and same: "same_key u (stored_row lib td q) (stored_row lib td r)"
      by (auto simp: list_ex_iff)
    from u F have u': "u \<in> set (td_unique pg)" "set u \<subseteq> column_set pg"
      by (auto simp: fits_schema_def list_all_iff)
    from same_key_cells [OF F P [OF q] R u'(2) same]
    have "map (cell_of (column_names spec) r) u \<in> (\<lambda>r. map (cell_of (column_names spec) r) u) ` set prev"
      using q by (metis (no_types, lifting) image_eqI)
    with keys u'(1) show False by (simp add: keys_apart_def list_all_iff del: map_eq_conv)
  qed
  show ?thesis
    using t ne sub dist new_row_stored [OF F R] nulls_allowed_stored [OF F R] nokey refs
    by (simp add: exec_insert_def filled_def)
qed

section \<open>A block of rows\<close>

definition row_bytes :: "'j cbor \<Rightarrow> 'j go_any list list \<Rightarrow> string" where
  "row_bytes cb rows = concat (map (\<lambda>r. the (cb_enc_row cb r)) rows)"

lemma build_args_names:
  assumes "length r = length (column_names spec)"
  shows "build_args spec (column_names spec) k r = Inr (map2 (\<lambda>v c. coerce_for_insert v
    (case kind_of_column spec c of None \<Rightarrow> Col_Text | Some ck \<Rightarrow> ck) k) r (column_names spec))"
  using assms by (simp add: build_args_def)

text \<open>The statements a block of rows is restored with: one INSERT of the table's columns each.\<close>

definition block_statements :: "backend_kind \<Rightarrow> table_spec \<Rightarrow> 'j go_any list list \<Rightarrow> string list" where
  "block_statements k spec rows = map (\<lambda>_. insert_query spec (column_names spec) k) rows"

lemma restore_rows_sound:
  assumes L: "cbor_laws valid cb" and F: "fits_schema k spec pg td"
  shows "\<lbrakk>\<And>q. q \<in> set (prev @ todo) \<Longrightarrow> sound_row lib pg q \<and> list_all (cbor_value valid) q;
      keys_apart spec pg (prev @ todo);
      \<And>r ref. r \<in> set todo \<Longrightarrow> ref \<in> set (td_refs td) \<Longrightarrow>
        snd ref \<noteq> ts_name spec \<and> has_parent (bk_tables s) (stored_row lib td r) ref;
      bk_tables s (ts_name spec) = Some (filled lib td prev); conn_faults s = []\<rbrakk> \<Longrightarrow>
    restore_rows lib cb k (Some spec) (column_names spec) (row_bytes cb todo @ the (cb_enc_null cb) @ rest) s =
      (Inr rest, s\<lparr>bk_tables := (bk_tables s)(ts_name spec \<mapsto> filled lib td (prev @ todo)),
         bk_sent := bk_sent s @ block_statements k spec todo\<rparr>)"
proof (induction todo arbitrary: prev s)
  case Nil
  from cbor_lawsD(4) [OF L] obtain nb where nb: "cb_enc_null cb = Some nb" "nb \<noteq> []"
    "\<And>rest. cb_dec_row cb (nb @ rest) = Some (None, rest)" by (rule encodesE) blast
  have "(bk_tables s)(ts_name spec \<mapsto> filled lib td prev) = bk_tables s"
    using Nil.prems(4) by (simp add: map_upd_triv)
  then show ?case using nb by (simp add: restore_rows.simps [of lib cb k "Some spec"] row_bytes_def decode_row_def
      block_statements_def)
next
  case (Cons r todo)
  have R: "sound_row lib pg r" and V: "list_all (cbor_value valid) r" using Cons.prems(1) by auto
  from cbor_lawsD(3) [OF L V] obtain rb where rb: "cb_enc_row cb r = Some rb" "rb \<noteq> []"
    "\<And>rest. cb_dec_row cb (rb @ rest) = Some (Some r, rest)" by (rule encodesE) blast
  let ?tail = "row_bytes cb todo @ the (cb_enc_null cb) @ rest"
  let ?s0 = "s\<lparr>bk_sent := bk_sent s @ [insert_query spec (column_names spec) k]\<rparr>"
  let ?s1 = "?s0\<lparr>bk_tables := (bk_tables s)(ts_name spec \<mapsto> filled lib td (prev @ [r]))\<rparr>"
  have dec: "decode_row cb (rb @ ?tail) = Some (Some r, ?tail)" using rb by (simp add: decode_row_def)
  have "exec_insert lib k (ts_name spec) (insert_args spec k r) ?s0 =
      (Inr (), ?s0\<lparr>bk_tables := (bk_tables ?s0)(ts_name spec \<mapsto> filled lib td (prev @ [r]))\<rparr>)"
  proof (rule exec_insert_sound [OF F _ R])
    show "\<And>q. q \<in> set prev \<Longrightarrow> sound_row lib pg q" using Cons.prems(1) by auto
    show "keys_apart spec pg (prev @ [r])" using Cons.prems(2) by (auto simp: keys_apart_def list_all_iff)
    show "list_all (has_parent (bk_tables ?s0) (stored_row lib td r)) (td_refs td)"
      using Cons.prems(3) by (auto simp: list_all_iff)
    show "bk_tables ?s0 (ts_name spec) = Some (filled lib td prev)" using Cons.prems(4) by simp
  qed
  then have ins: "insert_row lib k spec (column_names spec)
      (map2 (\<lambda>v c. coerce_for_insert v (case kind_of_column spec c of None \<Rightarrow> Col_Text | Some ck \<Rightarrow> ck) k) r (column_names spec)) s = (Inr (), ?s1)"
    using Cons.prems(5) by (simp add: insert_row_def exec_text_def db_stmt_no_fault insert_args_def)
  have step: "restore_rows lib cb k (Some spec) (column_names spec) (rb @ ?tail) s =
      restore_rows lib cb k (Some spec) (column_names spec) ?tail ?s1"
    using dec ins build_args_names [of r spec k] fits_lengths [OF F R]
    by (simp add: restore_rows.simps [of lib cb k "Some spec" _ "rb @ ?tail"] go_bind_def)
  have "restore_rows lib cb k (Some spec) (column_names spec) ?tail ?s1 =
      (Inr rest, ?s1\<lparr>bk_tables := (bk_tables ?s1)(ts_name spec \<mapsto> filled lib td ((prev @ [r]) @ todo)),
         bk_sent := bk_sent ?s1 @ block_statements k spec todo\<rparr>)"
  proof (rule Cons.IH)
    fix x ref assume x: "x \<in> set todo" "ref \<in> set (td_refs td)"
    then have "snd ref \<noteq> ts_name spec \<and> has_parent (bk_tables s) (stored_row lib td x) ref"
      by (intro Cons.prems(3)) simp_all
    then show "snd ref \<noteq> ts_name spec \<and> has_parent (bk_tables ?s1) (stored_row lib td x) ref"
      by (auto simp: has_parent_def split: prod.splits)
  qed (use Cons.prems in auto)
  then show ?case using step rb by (simp add: row_bytes_def block_statements_def del: fun_upd_apply)
qed

end
