(* ===== verification/Backup_Properties.thy ===== *)
theory Backup_Properties
  imports Backup_Transfer
begin

text \<open>
  What backup and restore guarantee together: a restore into an empty database of either
  kind gives the tables of the application state that was backed up, without the pending
  login challenges; and what a restore does when something fails.
\<close>

section \<open>Application states that can be backed up\<close>

text \<open>The constraints of the schema, on the application's rows.\<close>

definition consistent_database :: "database \<Rightarrow> bool" where
  "consistent_database s \<longleftrightarrow>
     distinct (map u_id (db_users s)) \<and> distinct (map u_webauthn_user_id (db_users s)) \<and>
     distinct (map u_request_key (db_users s)) \<and>
     distinct (map c_id (db_credentials s)) \<and> distinct (map c_credential_id (db_credentials s)) \<and>
     distinct (map rr_state (db_requests s)) \<and>
     distinct (map sk_id (db_signing_keys s)) \<and>
     distinct (map (\<lambda>k. (sk_user_id k, sk_algorithm k, sk_key_label k)) (db_signing_keys s)) \<and>
     distinct (map ae_id (db_audit_events s)) \<and>
     list_all (\<lambda>c. c_user_id c \<in> u_id ` set (db_users s)) (db_credentials s) \<and>
     list_all (\<lambda>r. rr_user_id r \<in> u_id ` set (db_users s)) (db_requests s) \<and>
     list_all (\<lambda>k. sk_user_id k \<in> u_id ` set (db_users s)) (db_signing_keys s)"

text \<open>Values both databases and CBOR can hold: text that is valid UTF-8 and has no NUL, 64-bit
  integers, audit identifiers in the usual form of a UUID, audit metadata as Go's JSON encoder
  writes it.\<close>

fun text_cell :: "'j value_lib \<Rightarrow> 'j go_any \<Rightarrow> bool" where
  "text_cell lib (Any_String s) = portable_text lib s"
| "text_cell lib _ = True"

definition portable_database :: "'j value_lib \<Rightarrow> (string \<Rightarrow> bool) \<Rightarrow> database \<Rightarrow> bool" where
  "portable_database lib valid s \<longleftrightarrow>
     list_all (\<lambda>spec. list_all (list_all (\<lambda>v. cbor_value valid v \<and> text_cell lib v))
         (table_cells s (ts_name spec))) backup_tables \<and>
     list_all (\<lambda>a. canonical_uuid lib (ae_id a) \<and> canonical_json lib (ae_metadata a)) (db_audit_events s)"

definition schema_names_valid :: "(string \<Rightarrow> bool) \<Rightarrow> bool" where
  "schema_names_valid valid \<longleftrightarrow>
     list_all (\<lambda>spec. valid (ts_name spec) \<and> list_all valid (column_names spec)) backup_tables"

section \<open>The rows of every table are sound\<close>

definition table_def_at :: "backend_kind \<Rightarrow> string \<Rightarrow> 'j table_def" where
  "table_def_at k n = the (schema_at k bundled_levels n)"

lemma table_defs [simp]:
  "table_def_at k ''v2_users'' = versioned_users_def k"
  "table_def_at k ''v2_user_credentials'' = user_credentials_def k"
  "table_def_at k ''v2_requests'' = requests_def k"
  "table_def_at k ''v2_published_signing_keys'' = signing_keys_def k"
  "table_def_at k ''v2_audit_events'' = audit_events_def k"
  by (simp_all add: table_def_at_def schema_at_def initial_schema_def bundled_levels_def)

lemma table_def_at_fits:
  assumes "spec \<in> set backup_tables"
  shows "fits_schema k spec (table_def_at Backend_Postgres (ts_name spec)) (table_def_at k (ts_name spec))"
    and "schema_at k bundled_levels (ts_name spec) = Some (table_def_at k (ts_name spec))"
  using assms specs_fit [of k]
  by (auto simp: backup_tables_def table_names schema_at_def initial_schema_def bundled_levels_def)

lemma sound_user: "list_all (text_cell lib) (user_cells u) \<Longrightarrow> sound_row lib (versioned_users_def Backend_Postgres) (user_cells u)"
  by (simp add: sound_row_def user_cells_def schema_simps)

lemma sound_credential: "list_all (text_cell lib) (credential_cells c) \<Longrightarrow> sound_row lib (user_credentials_def Backend_Postgres) (credential_cells c)"
  by (simp add: sound_row_def credential_cells_def schema_simps)

lemma sound_request: "list_all (text_cell lib) (request_cells r) \<Longrightarrow> sound_row lib (requests_def Backend_Postgres) (request_cells r)"
  by (simp add: sound_row_def request_cells_def schema_simps)

lemma sound_signing_key: "list_all (text_cell lib) (signing_key_cells k) \<Longrightarrow> sound_row lib (signing_keys_def Backend_Postgres) (signing_key_cells k)"
  by (simp add: sound_row_def signing_key_cells_def schema_simps)

lemma sound_optional: "cd_nullable d \<Longrightarrow> cd_type d = Type_Text \<Longrightarrow> text_cell lib (optional_text v) \<Longrightarrow> sound_cell lib d (optional_text v)"
  by (cases v) simp_all

lemma sound_audit:
  "canonical_uuid lib (ae_id a) \<Longrightarrow> canonical_json lib (ae_metadata a) \<Longrightarrow>
     list_all (text_cell lib) (audit_cells a) \<Longrightarrow> sound_row lib (audit_events_def Backend_Postgres) (audit_cells a)"
  by (simp add: sound_row_def audit_cells_def schema_simps sound_optional)

lemma sound_rows:
  assumes "portable_database lib valid s" and "spec \<in> set backup_tables"
    and "r \<in> set (table_cells s (ts_name spec))"
  shows "sound_row lib (table_def_at Backend_Postgres (ts_name spec)) r" and "list_all (cbor_value valid) r"
proof -
  have r: "list_all (text_cell lib) r" and "list_all (cbor_value valid) r"
    using assms by (auto simp: portable_database_def list_all_iff)
  then show "list_all (cbor_value valid) r" by blast
  show "sound_row lib (table_def_at Backend_Postgres (ts_name spec)) r"
    using assms r
    by (auto simp: backup_tables_def table_names table_defs table_cells_def portable_database_def list_all_iff [of "\<lambda>a. _ a \<and> _ a"]
        intro!: sound_user sound_credential sound_request sound_signing_key sound_audit)
qed

lemma key_cells:
  "cell_of (column_names users_spec) (user_cells u) ''id'' = Any_String (u_id u)"
  "cell_of (column_names users_spec) (user_cells u) ''webauthn_user_id'' = Any_String (u_webauthn_user_id u)"
  "cell_of (column_names users_spec) (user_cells u) ''request_key'' = Any_String (u_request_key u)"
  "cell_of (column_names user_credentials_spec) (credential_cells c) ''id'' = Any_String (c_id c)"
  "cell_of (column_names user_credentials_spec) (credential_cells c) ''credential_id'' = Any_String (c_credential_id c)"
  "cell_of (column_names user_credentials_spec) (credential_cells c) ''user_id'' = Any_String (c_user_id c)"
  "cell_of (column_names requests_spec) (request_cells r) ''state'' = Any_String (rr_state r)"
  "cell_of (column_names requests_spec) (request_cells r) ''user_id'' = Any_String (rr_user_id r)"
  "cell_of (column_names signing_keys_spec) (signing_key_cells k) ''id'' = Any_String (sk_id k)"
  "cell_of (column_names signing_keys_spec) (signing_key_cells k) ''user_id'' = Any_String (sk_user_id k)"
  "cell_of (column_names signing_keys_spec) (signing_key_cells k) ''algorithm'' = Any_String (sk_algorithm k)"
  "cell_of (column_names signing_keys_spec) (signing_key_cells k) ''key_label'' = Any_String (sk_key_label k)"
  "cell_of (column_names audit_events_spec) (audit_cells a) ''id'' = Any_String (ae_id a)"
  by (simp_all add: cell_of_def spec_simps user_cells_def credential_cells_def request_cells_def
      signing_key_cells_def audit_cells_def)

lemma distinct_map_of: "distinct (map f xs) \<Longrightarrow> inj g \<Longrightarrow> distinct (map (\<lambda>x. g (f x)) xs)"
  by (auto simp: distinct_map inj_on_def inj_def)

lemma keys_apart_tables:
  assumes "consistent_database s"
  shows "keys_apart users_spec (versioned_users_def Backend_Postgres) (map user_cells (db_users s))"
    and "keys_apart user_credentials_spec (user_credentials_def Backend_Postgres) (map credential_cells (db_credentials s))"
    and "keys_apart requests_spec (requests_def Backend_Postgres) (map request_cells (db_requests s))"
    and "keys_apart signing_keys_spec (signing_keys_def Backend_Postgres) (map signing_key_cells (db_signing_keys s))"
    and "keys_apart audit_events_spec (audit_events_def Backend_Postgres) (map audit_cells (db_audit_events s))"
  using assms
  by (simp_all add: keys_apart_def consistent_database_def schema_simps key_cells comp_def
      distinct_map inj_on_def)

lemma keys_apart_backup:
  assumes "consistent_database s" and "spec \<in> set backup_tables"
  shows "keys_apart spec (table_def_at Backend_Postgres (ts_name spec)) (table_cells s (ts_name spec))"
  using assms keys_apart_tables [OF assms(1)]
  by (auto simp: backup_tables_def table_names table_defs table_cells_def)

section \<open>What is restored\<close>

definition table_bytes :: "'j cbor \<Rightarrow> table_spec \<Rightarrow> 'j go_any list list \<Rightarrow> string" where
  "table_bytes cb spec rows =
     the (cb_enc_table cb \<lparr>th_name = ts_name spec, th_columns = column_names spec\<rparr>) @
     row_bytes cb rows @ the (cb_enc_null cb)"

lemma find_spec_backup: "spec \<in> set backup_tables \<Longrightarrow> find_spec (ts_name spec) = Some spec"
  by (auto simp: find_spec_def backup_tables_def table_names)

lemma header_ok:
  assumes "schema_names_valid valid" and "spec \<in> set backup_tables"
  shows "table_header_ok valid \<lparr>th_name = ts_name spec, th_columns = column_names spec\<rparr>"
  using assms by (auto simp: schema_names_valid_def table_header_ok_def list_all_iff)

lemma known_columns: "c \<in> set (column_names spec) \<Longrightarrow> kind_of_column spec c \<noteq> None"
  by (auto simp: kind_of_column_def column_names_def map_of_eq_None_iff image_image)

lemma restore_block_sound:
  fixes lib :: "'j value_lib"
  assumes L: "cbor_laws valid cb" and N: "schema_names_valid valid" and spec: "spec \<in> set backup_tables"
    and C: "consistent_database s" and P: "portable_database lib valid s"
    and refs: "\<And>r ref. r \<in> set (table_cells s (ts_name spec)) \<Longrightarrow> ref \<in> set (td_refs (table_def_at k (ts_name spec) :: 'j table_def)) \<Longrightarrow>
        snd ref \<noteq> ts_name spec \<and> has_parent (bk_tables d) (stored_row lib (table_def_at k (ts_name spec)) r) ref"
    and t: "bk_tables d (ts_name spec) = Some (filled lib (table_def_at k (ts_name spec)) [])"
    and nf: "conn_faults d = []"
  shows "restore_table_block lib cb k (table_bytes cb spec (table_cells s (ts_name spec)) @ rest) d =
    (Inr rest, d\<lparr>bk_tables := (bk_tables d)(ts_name spec \<mapsto>
         filled lib (table_def_at k (ts_name spec)) (table_cells s (ts_name spec))),
       bk_sent := bk_sent d @ block_statements k spec (table_cells s (ts_name spec) :: 'j go_any list list)\<rparr>)"
proof -
  from cbor_lawsD(2) [OF L header_ok [OF N spec]] obtain hb where
    hb: "cb_enc_table cb \<lparr>th_name = ts_name spec, th_columns = column_names spec\<rparr> = Some hb"
    "\<And>rest. cb_dec_table cb (hb @ rest) = Some (\<lparr>th_name = ts_name spec, th_columns = column_names spec\<rparr>, rest)"
    by (rule encodesE) blast
  have rows: "restore_rows lib cb k (Some spec) (column_names spec)
      (row_bytes cb (table_cells s (ts_name spec)) @ the (cb_enc_null cb) @ rest) d =
      (Inr rest, d\<lparr>bk_tables := (bk_tables d)(ts_name spec \<mapsto>
         filled lib (table_def_at k (ts_name spec)) ([] @ table_cells s (ts_name spec))),
       bk_sent := bk_sent d @ block_statements k spec (table_cells s (ts_name spec) :: 'j go_any list list)\<rparr>)"
    by (rule restore_rows_sound [OF L table_def_at_fits(1) [OF spec]])
      (use sound_rows [OF P spec] keys_apart_backup [OF C spec] refs t nf in auto)
  show ?thesis using hb rows known_columns
    by (auto simp: restore_table_block_def table_bytes_def find_spec_backup [OF spec] simp del: fun_upd_apply)
qed

text \<open>The references of the backed-up tables: every row's user has been restored before.\<close>

lemma table_refs:
  assumes "spec \<in> set backup_tables"
  shows "td_refs (table_def_at k (ts_name spec) :: 'j table_def) =
    (if ts_name spec \<in> {''v2_users'', ''v2_audit_events''} then [] else [(''user_id'', ''v2_users'')])"
  using assms by (auto simp: backup_tables_def table_names schema_simps)

lemma stored_user_id:
  "map_of (stored_row lib (versioned_users_def k) (user_cells u)) ''id'' = Some (St_Text (u_id u))"
  by (simp add: stored_row_def user_cells_def schema_simps)

lemma stored_user_refs:
  "map_of (stored_row lib (user_credentials_def k) (credential_cells c)) ''user_id'' = Some (St_Text (c_user_id c))"
  "map_of (stored_row lib (requests_def k) (request_cells r)) ''user_id'' = Some (St_Text (rr_user_id r))"
  "map_of (stored_row lib (signing_keys_def k) (signing_key_cells g)) ''user_id'' = Some (St_Text (sk_user_id g))"
  by (simp_all add: stored_row_def credential_cells_def request_cells_def signing_key_cells_def schema_simps)

lemma refs_restored:
  fixes lib :: "'j value_lib" and tabs :: "string \<rightharpoonup> 'j raw_table"
  assumes C: "consistent_database s" and spec: "spec \<in> set backup_tables"
    and r: "r \<in> set (table_cells s (ts_name spec))" and ref: "ref \<in> set (td_refs (table_def_at k (ts_name spec) :: 'j table_def))"
    and users: "ts_name spec \<notin> {''v2_users'', ''v2_audit_events''} \<Longrightarrow>
      tabs ''v2_users'' = Some (filled lib (versioned_users_def k) (map user_cells (db_users s)))"
  shows "snd ref \<noteq> ts_name spec \<and> has_parent tabs (stored_row lib (table_def_at k (ts_name spec)) r) ref"
proof -
  have e: "ref = (''user_id'', ''v2_users'')" and ne: "ts_name spec \<notin> {''v2_users'', ''v2_audit_events''}"
    using ref [unfolded table_refs [OF spec]] by (auto split: if_splits)
  have "\<exists>u\<in>set (db_users s). map_of (stored_row lib (table_def_at k (ts_name spec)) r) ''user_id'' = Some (St_Text (u_id u))"
    using spec r ne C
    by (auto simp: backup_tables_def table_names table_cells_def stored_user_refs consistent_database_def list_all_iff image_iff)
  then have "has_parent tabs (stored_row lib (table_def_at k (ts_name spec)) r) (''user_id'', ''v2_users'')"
    using users [OF ne] by (auto simp: has_parent_def filled_def list_ex_iff stored_user_id)
  then show ?thesis using e ne by auto
qed

definition restored_tables ::
  "'j value_lib \<Rightarrow> backend_kind \<Rightarrow> database \<Rightarrow> table_spec list \<Rightarrow> (string \<rightharpoonup> 'j raw_table) \<Rightarrow> string \<rightharpoonup> 'j raw_table" where
  "restored_tables lib k s specs tabs =
     fold (\<lambda>spec m. m(ts_name spec \<mapsto> filled lib (table_def_at k (ts_name spec)) (table_cells s (ts_name spec)))) specs tabs"

text \<open>The statements that restore the rows of the given tables.\<close>

definition restored_statements :: "backend_kind \<Rightarrow> database \<Rightarrow> table_spec list \<Rightarrow> string list" where
  "restored_statements k s specs =
     concat (map (\<lambda>spec. block_statements k spec (table_cells s (ts_name spec) :: unit go_any list list)) specs)"

lemma block_statements_cells:
  "block_statements k spec (table_cells s n :: 'j go_any list list) =
   block_statements k spec (table_cells s n :: unit go_any list list)"
  by (simp add: block_statements_def map_replicate_const table_cells_def)

text \<open>Users come before every table that refers to them.\<close>

fun users_first :: "bool \<Rightarrow> table_spec list \<Rightarrow> bool" where
  "users_first seen [] = True"
| "users_first seen (spec # specs) =
     ((seen \<or> ts_name spec \<in> {''v2_users'', ''v2_audit_events''}) \<and>
      users_first (seen \<or> ts_name spec = ''v2_users'') specs)"

lemma restore_tables_sound:
  fixes lib :: "'j value_lib"
  assumes L: "cbor_laws valid cb" and N: "schema_names_valid valid"
    and C: "consistent_database s" and P: "portable_database lib valid s"
  shows "\<lbrakk>set specs \<subseteq> set backup_tables; distinct (map ts_name specs); users_first seen specs;
     seen \<Longrightarrow> bk_tables d ''v2_users'' = Some (filled lib (versioned_users_def k) (map user_cells (db_users s)))
        \<and> ''v2_users'' \<notin> ts_name ` set specs;
     \<And>spec. spec \<in> set specs \<Longrightarrow> bk_tables d (ts_name spec) = Some (filled lib (table_def_at k (ts_name spec)) []);
     conn_faults d = []\<rbrakk> \<Longrightarrow>
   restore_tables lib cb k (length specs)
     (concat (map (\<lambda>spec. table_bytes cb spec (table_cells s (ts_name spec))) specs) @ rest) d =
   (Inr rest, d\<lparr>bk_tables := restored_tables lib k s specs (bk_tables d),
      bk_sent := bk_sent d @ restored_statements k s specs\<rparr>)"
proof (induction specs arbitrary: seen d)
  case Nil
  then show ?case by (simp add: restored_tables_def restored_statements_def)
next
  case (Cons spec specs)
  let ?tail = "concat (map (\<lambda>spec. table_bytes cb spec (table_cells s (ts_name spec))) specs) @ rest"
  let ?d1 = "d\<lparr>bk_tables := (bk_tables d)(ts_name spec \<mapsto>
         filled lib (table_def_at k (ts_name spec)) (table_cells s (ts_name spec))),
       bk_sent := bk_sent d @ block_statements k spec (table_cells s (ts_name spec) :: 'j go_any list list)\<rparr>"
  have spec: "spec \<in> set backup_tables" using Cons.prems(1) by simp
  have "restore_table_block lib cb k (table_bytes cb spec (table_cells s (ts_name spec)) @ ?tail) d = (Inr ?tail, ?d1)"
  proof (rule restore_block_sound [OF L N spec C P])
    fix r :: "'j go_any list" and ref assume "r \<in> set (table_cells s (ts_name spec))" "ref \<in> set (td_refs (table_def_at k (ts_name spec) :: 'j table_def))"
    then show "snd ref \<noteq> ts_name spec \<and> has_parent (bk_tables d) (stored_row lib (table_def_at k (ts_name spec)) r) ref"
      by (rule refs_restored [OF C spec]) (use Cons.prems(3,4) in auto)
  qed (use Cons.prems(5,6) in auto)
  moreover have "restore_tables lib cb k (length specs) ?tail ?d1 =
      (Inr rest, ?d1\<lparr>bk_tables := restored_tables lib k s specs (bk_tables ?d1),
         bk_sent := bk_sent ?d1 @ restored_statements k s specs\<rparr>)"
  proof (rule Cons.IH [where seen = "seen \<or> ts_name spec = ''v2_users''"])
    assume "seen \<or> ts_name spec = ''v2_users''"
    then show "bk_tables ?d1 ''v2_users'' = Some (filled lib (versioned_users_def k) (map user_cells (db_users s)))
        \<and> ''v2_users'' \<notin> ts_name ` set specs"
    proof (cases seen)
      case True
      then show ?thesis using Cons.prems(4) by auto
    next
      case False
      with \<open>seen \<or> ts_name spec = ''v2_users''\<close> have "ts_name spec = ''v2_users''" by simp
      then show ?thesis using Cons.prems(2) by (auto simp: table_cells_def)
    qed
  next
    show "set specs \<subseteq> set backup_tables" using Cons.prems(1) by simp
    show "distinct (map ts_name specs)" using Cons.prems(2) by simp
    show "users_first (seen \<or> ts_name spec = ''v2_users'') specs" using Cons.prems(3) by simp
    show "conn_faults ?d1 = []" using Cons.prems(6) by simp
  next
    fix sp assume sp: "sp \<in> set specs"
    then have "ts_name sp \<noteq> ts_name spec" using Cons.prems(2) by (metis distinct.simps(2) image_eqI list.set_map list.simps(9))
    with sp show "bk_tables ?d1 (ts_name sp) = Some (filled lib (table_def_at k (ts_name sp)) [])"
      using Cons.prems(5) [of sp] by simp
  qed
  ultimately show ?case
    by (simp add: go_bind_def restored_tables_def restored_statements_def
        block_statements_cells [where 'j = 'j] del: fun_upd_apply)
qed

text \<open>All five tables, restored into an empty schema, are the tables of the application state
  without its login challenges.\<close>

definition without_challenges :: "database \<Rightarrow> database" where
  "without_challenges s = s\<lparr>db_challenges := [], db_challenge_payloads := []\<rparr>"

lemma restored_tables_all:
  "restored_tables lib k s backup_tables (empty_tables k bundled_levels) = tables_of lib k (without_challenges s)"
  by (rule ext) (simp add: restored_tables_def backup_tables_def table_names tables_of_def empty_tables_def
      filled_def table_cells_def without_challenges_def schema_at_def initial_schema_def bundled_levels_def)

section \<open>The order of the rows\<close>

text \<open>The same rows in every table, in any order.\<close>

definition same_rows :: "database \<Rightarrow> database \<Rightarrow> bool" where
  "same_rows s s' \<longleftrightarrow>
     mset (db_users s) = mset (db_users s') \<and> mset (db_credentials s) = mset (db_credentials s') \<and>
     mset (db_requests s) = mset (db_requests s') \<and> mset (db_signing_keys s) = mset (db_signing_keys s') \<and>
     mset (db_audit_events s) = mset (db_audit_events s') \<and> mset (db_challenges s) = mset (db_challenges s') \<and>
     mset (db_challenge_payloads s) = mset (db_challenge_payloads s')"

lemma mset_map_choice:
  "mset ys = mset (map f xs) \<Longrightarrow> \<exists>xs'. ys = map f xs' \<and> mset xs' = mset xs"
proof (induction ys arbitrary: xs)
  case (Cons y ys)
  have "y \<in> set (map f xs)" using mset_eq_setD [OF Cons.prems] by (metis list.set_intros(1))
  then obtain a b x where xs: "xs = a @ x # b" and y: "y = f x" by (auto dest: split_list)
  with Cons.prems have "mset ys = mset (map f (a @ b))" by simp
  from Cons.IH [OF this] obtain xs' where "ys = map f xs'" "mset xs' = mset (a @ b)" by blast
  then show ?case using xs y by (intro exI [of _ "x # xs'"]) simp
qed simp

lemma distinct_same_mset: "mset xs = mset ys \<Longrightarrow> distinct (map f xs) = distinct (map f ys)"
  by (metis mset_eq_imp_distinct_iff mset_map)

lemma consistent_same_rows:
  assumes "same_rows s' s" and "consistent_database s"
  shows "consistent_database s'"
proof -
  from assms(1) have m: "mset (db_users s') = mset (db_users s)" "mset (db_credentials s') = mset (db_credentials s)"
    "mset (db_requests s') = mset (db_requests s)" "mset (db_signing_keys s') = mset (db_signing_keys s)"
    "mset (db_audit_events s') = mset (db_audit_events s)"
    by (auto simp: same_rows_def)
  from assms(2) show ?thesis
    unfolding consistent_database_def list_all_iff
      distinct_same_mset [OF m(1)] distinct_same_mset [OF m(2)] distinct_same_mset [OF m(3)]
      distinct_same_mset [OF m(4)] distinct_same_mset [OF m(5)]
      mset_eq_setD [OF m(1)] mset_eq_setD [OF m(2)] mset_eq_setD [OF m(3)] mset_eq_setD [OF m(4)] .
qed

lemma same_rows_cells: "same_rows s' s \<Longrightarrow> set (table_cells s' n) = set (table_cells s n)"
  unfolding same_rows_def
  by (elim conjE, drule mset_eq_setD, drule mset_eq_setD, drule mset_eq_setD, drule mset_eq_setD, drule mset_eq_setD,
      drule mset_eq_setD, drule mset_eq_setD) (simp add: table_cells_def)

lemma portable_same_rows:
  assumes "same_rows s' s" and "portable_database lib valid s"
  shows "portable_database lib valid s'"
proof -
  from assms(1) have "set (db_audit_events s') = set (db_audit_events s)"
    unfolding same_rows_def by (blast dest: mset_eq_setD)
  with assms(2) show ?thesis
    by (simp add: portable_database_def list_all_iff same_rows_cells [OF assms(1)])
qed

text \<open>The state a backup sees: the same rows, as the engine delivers them.\<close>

definition scanned_state :: "'j value_lib \<Rightarrow> backend_kind \<Rightarrow> database \<Rightarrow> database \<Rightarrow> bool" where
  "scanned_state lib k s s' \<longleftrightarrow> (\<forall>spec\<in>set backup_tables.
     vl_scan_order lib (ts_name spec)
       (map (stored_row lib (table_def_at k (ts_name spec))) (table_cells s (ts_name spec))) =
     map (stored_row lib (table_def_at k (ts_name spec))) (table_cells s' (ts_name spec)))"

lemma scan_choice:
  assumes "delivers_rows lib"
  shows "\<exists>xs'. vl_scan_order lib n (map f (map g xs)) = map f (map g xs') \<and> mset xs' = mset xs"
proof -
  have "mset (vl_scan_order lib n (map f (map g xs))) = mset (map (f \<circ> g) xs)"
    using assms by (simp add: delivers_rows_def)
  from mset_map_choice [OF this] show ?thesis by simp
qed

lemma scanned_state_exists:
  fixes lib :: "'j value_lib"
  assumes D: "delivers_rows lib"
  shows "\<exists>s'. same_rows s' s \<and> scanned_state lib k s s'"
proof -
  obtain us where us: "vl_scan_order lib ''v2_users'' (map (stored_row lib (versioned_users_def k)) (map user_cells (db_users s)))
      = map (stored_row lib (versioned_users_def k)) (map user_cells us)" "mset us = mset (db_users s)"
    using scan_choice [OF D] by blast
  obtain cs where cs: "vl_scan_order lib ''v2_user_credentials'' (map (stored_row lib (user_credentials_def k)) (map credential_cells (db_credentials s)))
      = map (stored_row lib (user_credentials_def k)) (map credential_cells cs)" "mset cs = mset (db_credentials s)"
    using scan_choice [OF D] by blast
  obtain rs where rs: "vl_scan_order lib ''v2_requests'' (map (stored_row lib (requests_def k)) (map request_cells (db_requests s)))
      = map (stored_row lib (requests_def k)) (map request_cells rs)" "mset rs = mset (db_requests s)"
    using scan_choice [OF D] by blast
  obtain ks where ks: "vl_scan_order lib ''v2_published_signing_keys'' (map (stored_row lib (signing_keys_def k)) (map signing_key_cells (db_signing_keys s)))
      = map (stored_row lib (signing_keys_def k)) (map signing_key_cells ks)" "mset ks = mset (db_signing_keys s)"
    using scan_choice [OF D] by blast
  obtain es where es: "vl_scan_order lib ''v2_audit_events'' (map (stored_row lib (audit_events_def k)) (map audit_cells (db_audit_events s)))
      = map (stored_row lib (audit_events_def k)) (map audit_cells es)" "mset es = mset (db_audit_events s)"
    using scan_choice [OF D] by blast
  let ?s = "s\<lparr>db_users := us, db_credentials := cs, db_requests := rs, db_signing_keys := ks, db_audit_events := es\<rparr>"
  have "same_rows ?s s" using us(2) cs(2) rs(2) ks(2) es(2) by (simp add: same_rows_def)
  moreover have "scanned_state lib k s ?s"
    using us(1) cs(1) rs(1) ks(1) es(1)
    by (simp add: scanned_state_def backup_tables_def table_names table_cells_def del: map_map)
  ultimately show ?thesis by blast
qed

section \<open>What is backed up\<close>

definition no_faults :: "'j backup_io \<Rightarrow> bool" where
  "no_faults io \<longleftrightarrow> conn_faults (bio_db io) = [] \<and> bio_faults io = []"

definition wrote :: "string \<Rightarrow> 'j backup_io \<Rightarrow> 'j backup_io" where
  "wrote bs io = io\<lparr>bio_out := bio_out io @ bs, bio_hashed := bio_hashed io @ bs\<rparr>"

lemma wrote_simps [simp]:
  "wrote a (wrote b io) = wrote (b @ a) io" "no_faults (wrote a io) = no_faults io"
  "bio_db (wrote a io) = bio_db io" "wrote [] io = io"
  "(wrote a io)\<lparr>bio_db := bio_db io\<rparr> = wrote a io" "io\<lparr>bio_db := bio_db io\<rparr> = io"
  by (simp_all add: wrote_def no_faults_def)

lemma encode_item_ok: "no_faults io \<Longrightarrow> encode_item (Some bs) io = (Inr (), wrote bs io)"
  by (simp add: encode_item_def go_bind_def write_out_def no_faults_def wrote_def)

lemma on_db_ok: "no_faults io \<Longrightarrow> on_db (db_stmt m) io = (case m (bio_db io) of (r, d) \<Rightarrow> (r, io\<lparr>bio_db := d\<rparr>))"
  by (simp add: on_db_def db_stmt_no_fault no_faults_def)

lemma on_db_return: "no_faults io \<Longrightarrow> on_db (db_stmt (go_return x)) io = (Inr x, io)"
  by (simp add: on_db_ok)

lemma dump_rows_ok:
  assumes L: "cbor_laws valid cb" and F: "fits_schema k spec pg td"
  shows "\<lbrakk>no_faults io; \<And>r. r \<in> set rows \<Longrightarrow> sound_row lib pg r \<and> list_all (cbor_value valid) r\<rbrakk> \<Longrightarrow>
    dump_rows lib cb (ts_columns spec) (map (\<lambda>r. scanned spec (stored_row lib td r)) rows) io =
      (Inr (), wrote (row_bytes cb rows) io)"
proof (induction rows arbitrary: io)
  case Nil
  then show ?case by (simp add: on_db_return row_bytes_def)
next
  case (Cons r rows)
  then have R: "sound_row lib pg r" and V: "list_all (cbor_value valid) r" by auto
  from cbor_lawsD(3) [OF L V] obtain rb where rb: "cb_enc_row cb r = Some rb" by (rule encodesE) blast
  show ?case using Cons rb
    by (simp add: go_bind_def on_db_return normalize_scanned [OF F R] encode_item_ok row_bytes_def)
qed

lemma dump_table_ok:
  assumes L: "cbor_laws valid cb" and N: "schema_names_valid valid" and spec: "spec \<in> set backup_tables"
    and P: "portable_database lib valid s'" and S: "scanned_state lib k s s'" and nf: "no_faults io"
    and t: "bk_tables (bio_db io) = tables_of lib k s"
  shows "dump_table lib cb spec io = (Inr (), wrote (table_bytes cb spec (table_cells s' (ts_name spec))) io)"
proof -
  from cbor_lawsD(2) [OF L header_ok [OF N spec]] obtain hb where
    hb: "cb_enc_table cb \<lparr>th_name = ts_name spec, th_columns = column_names spec\<rparr> = Some hb" by (rule encodesE) blast
  from cbor_lawsD(4) [OF L] obtain nb where nb: "cb_enc_null cb = Some nb" by (rule encodesE) blast
  note F = table_def_at_fits(1) [OF spec, of k]
  have order: "vl_scan_order lib (ts_name spec)
      (map (stored_row lib (table_def_at k (ts_name spec))) (table_cells s (ts_name spec))) =
      map (stored_row lib (table_def_at k (ts_name spec))) (table_cells s' (ts_name spec))"
    using S spec by (simp add: scanned_state_def)
  have q: "query_rows lib (ts_name spec) (column_names spec) d =
      (Inr (map (\<lambda>r. scanned spec (stored_row lib (table_def_at k (ts_name spec)) r)) (table_cells s' (ts_name spec))), d)"
    if "bk_tables d = tables_of lib k s" for d
    using that
    by (simp add: query_rows_def tables_of_def scanned_def comp_def table_def_at_fits(2) [OF spec] fits_names(4) [OF F] order)
  show ?thesis
    using nf t q [of "bio_db io"] hb nb sound_rows [OF P spec]
    by (simp add: dump_table_def go_bind_def encode_item_ok on_db_ok table_bytes_def
        dump_rows_ok [OF L F])
qed

lemma dump_tables_ok:
  assumes L: "cbor_laws valid cb" and N: "schema_names_valid valid" and P: "portable_database lib valid s'"
    and S: "scanned_state lib k s s'"
  shows "\<lbrakk>set specs \<subseteq> set backup_tables; no_faults io; bk_tables (bio_db io) = tables_of lib k s\<rbrakk> \<Longrightarrow>
    dump_tables lib cb specs io =
      (Inr (), wrote (concat (map (\<lambda>spec. table_bytes cb spec (table_cells s' (ts_name spec))) specs)) io)"
proof (induction specs arbitrary: io)
  case Nil
  then show ?case by simp
next
  case (Cons spec specs)
  then show ?case using dump_table_ok [OF L N _ P S] by (simp add: go_bind_def)
qed

section \<open>The round trip\<close>

text \<open>What the format relies on of the migrations: run on a database without tables, the
  first scripts of the two bundled ones give the schema of their level and record it.\<close>

definition applies_migrations ::
  "(migration_script list \<Rightarrow> ('j, unit) bk_op) \<Rightarrow> embedded_entry list option \<Rightarrow> backend_kind \<Rightarrow> bool" where
  "applies_migrations perform dir k \<longleftrightarrow> (\<exists>scripts. load_migration_scripts dir = Inr scripts \<and>
     length scripts = bundled_levels \<and>
     (\<forall>s n. 1 \<le> n \<longrightarrow> n \<le> bundled_levels \<longrightarrow> bk_metadata s \<in> {None, Some None} \<longrightarrow> bk_tables s = Map.empty \<longrightarrow>
        conn_faults s = [] \<longrightarrow>
        perform (take n scripts) s =
          (Inr (), s\<lparr>bk_metadata := Some (Some (format_int (int n))), bk_tables := empty_tables k n\<rparr>)))"

definition fresh_target :: "'j backup_db \<Rightarrow> bool" where
  "fresh_target s \<longleftrightarrow> bk_metadata s \<in> {None, Some None} \<and> bk_tables s = Map.empty \<and> conn_faults s = []"

text \<open>A database of kind \<open>k\<close> that holds the application state \<open>s\<close>, fully migrated.\<close>

definition holds_state :: "'j value_lib \<Rightarrow> backend_kind \<Rightarrow> database \<Rightarrow> 'j backup_db \<Rightarrow> bool" where
  "holds_state lib k s d \<longleftrightarrow> bk_tables d = tables_of lib k s \<and>
     bk_metadata d = Some (Some (format_int (int bundled_levels)))"

definition backup_body :: "'j cbor \<Rightarrow> file_header \<Rightarrow> database \<Rightarrow> string" where
  "backup_body cb h s = the (cb_enc_file cb h) @
     concat (map (\<lambda>spec. table_bytes cb spec (table_cells s (ts_name spec))) backup_tables)"

definition backup_header :: "go_time \<Rightarrow> file_header" where
  "backup_header now = \<lparr>fh_version = format_version, fh_created_at = unix_seconds now,
     fh_schema_level = int bundled_levels, fh_table_count = int (length backup_tables)\<rparr>"

lemma backup_header_ok: "in_int64 (unix_seconds now) \<Longrightarrow> file_header_ok (backup_header now)"
  by (simp add: file_header_ok_def backup_header_def format_version_def in_int64_def bundled_levels_def backup_tables_def)

definition start_backup :: "'j backup_db \<Rightarrow> 'j backup_io" where
  "start_backup d = \<lparr>bio_db = d, bio_out = [], bio_faults = [], bio_hashed = []\<rparr>"

lemma parse_level: "parse_int (format_int (int bundled_levels)) = Some (int bundled_levels)"
  by (rule parse_format_int) (simp add: in_int64_def bundled_levels_def)

lemma backup_output:
  assumes L: "cbor_laws valid cb" and N: "schema_names_valid valid" and P: "portable_database lib valid s'"
    and S: "scanned_state lib k s s'" and H: "holds_state lib k s d" and nf: "conn_faults d = []" and now: "in_int64 (unix_seconds now)"
  shows "\<exists>io. backup lib cb sha256 now (start_backup d) = (Inr (), io) \<and>
    bio_out io = magic_header @ backup_body cb (backup_header now) s' @ sha256 (backup_body cb (backup_header now) s')"
proof -
  from cbor_lawsD(1) [OF L backup_header_ok [OF now]] obtain hb where
    hb: "cb_enc_file cb (backup_header now) = Some hb" by (rule encodesE) blast
  let ?tables = "concat (map (\<lambda>spec. table_bytes cb spec (table_cells s' (ts_name spec))) backup_tables)"
  let ?io1 = "(start_backup d)\<lparr>bio_out := magic_header\<rparr>"
  have nf0: "no_faults (start_backup d)" and nf1: "no_faults ?io1"
    using nf by (simp_all add: no_faults_def start_backup_def)
  have level: "on_db read_schema_level (start_backup d) = (Inr (int bundled_levels), start_backup d)"
    using H by (simp add: read_schema_level_def on_db_ok [OF nf0] holds_state_def)
      (simp add: start_backup_def parse_level)
  have tabs: "dump_tables lib cb backup_tables (wrote hb ?io1) = (Inr (), wrote (hb @ ?tables) ?io1)"
    using dump_tables_ok [OF L N P S subset_refl, of "wrote hb ?io1"] nf1 H
    by (simp add: holds_state_def) (simp add: start_backup_def)
  have hb': "cb_enc_file cb \<lparr>fh_version = format_version, fh_created_at = unix_seconds now,
      fh_schema_level = int bundled_levels, fh_table_count = int (length backup_tables)\<rparr> = Some hb"
    using hb by (simp add: backup_header_def)
  have e1: "encode_item (Some hb) ?io1 = (Inr (), wrote hb ?io1)" by (rule encode_item_ok [OF nf1])
  have run: "run_backup lib cb sha256 now (start_backup d) =
      (Inr (), (wrote (hb @ ?tables) ?io1)\<lparr>bio_out := magic_header @ (hb @ ?tables) @ sha256 (hb @ ?tables)\<rparr>)"
    using level hb' e1 tabs
    by (simp add: run_backup_def go_bind_def write_out_def start_backup_def wrote_def)
  show ?thesis
    using hb nf by (simp add: backup_def go_bind_def on_db_return [OF nf0] run)
      (simp add: on_db_def wrote_def start_backup_def db_stmt_no_fault backup_body_def)
qed

lemma read_exactly_bytes:
  assumes "n \<le> length (source_bytes s)"
  shows "\<exists>s1. read_exactly n s = Some (take n (source_bytes s), s1) \<and> source_bytes s1 = drop n (source_bytes s) \<and>
    src_end s1 = src_end s"
  using assms
proof (induction n s rule: read_exactly.induct)
  case (1 n s)
  show ?case
  proof (cases "n = 0")
    case True
    then show ?thesis by (simp add: read_exactly.simps [of 0 s])
  next
    case False
    obtain bs e s1 where rs: "read_source n s = ((bs, e), s1)" by (metis surj_pair)
    note kept = read_source_bytes [OF rs]
    have le: "length bs \<le> n" using rs by (auto simp: read_source_def split: list.splits if_splits)
    show ?thesis
    proof (cases "n \<le> length bs")
      case True
      then have "read_exactly n s = Some (bs, s1)" using False rs by (simp add: read_exactly.simps [of n s])
      then show ?thesis using True kept le by simp
    next
      case short: False
      then have none: "e = None" using kept "1.prems" by (cases e) auto
      have "\<exists>s2. read_exactly (n - length bs) s1 = Some (take (n - length bs) (source_bytes s1), s2) \<and>
          source_bytes s2 = drop (n - length bs) (source_bytes s1) \<and> src_end s2 = src_end s1"
        by (rule "1.IH" [OF False rs [symmetric] refl short]) (use none kept(1) "1.prems" in auto)
      then show ?thesis using False rs short none kept le by (auto simp: read_exactly.simps [of n s])
    qed
  qed
qed

lemma handed_out_body:
  assumes "src_end src = At_Eof" and "trailer_size \<le> length (source_bytes src)"
  shows "handed_out src = file_body (source_bytes src)"
proof -
  obtain failed r where d: "drain (new_checksum_reader src) = (failed, r)" by fastforce
  from drain_kept [OF d trailer_held_new] assms
  have "stream_of r = source_bytes src" "trailer_held r" "length (cr_buf r) \<le> trailer_size"
    "source_bytes (cr_source r) = []" by auto
  then have s: "source_bytes src = cr_hashed r @ cr_buf r" and b: "length (cr_buf r) = trailer_size"
    using assms(2) by (auto simp: stream_of_def trailer_held_def)
  then show ?thesis by (simp add: handed_out_def d file_body_def)
qed

lemma db_transaction_done:
  assumes "conn_faults s = []" and "m (s\<lparr>conn_in_tx := True\<rparr>) = (Inr x, s1)" and "conn_faults s1 = []"
  shows "db_transaction m s = (Inr x, s1\<lparr>conn_in_tx := conn_in_tx s\<rparr>)"
  using assms by (simp add: db_transaction_def db_stmt_no_fault go_bind_def)

lemma target_fresh:
  "fresh_target t \<Longrightarrow> target_has_migrations t = (Inr False, t)"
  by (auto simp: target_has_migrations_def fresh_target_def metadata_table_exists_def read_schema_level_def
      go_bind_def db_stmt_no_fault)

lemma migrated_target:
  assumes "applies_migrations perform dir k" and "fresh_target t"
  shows "run_migrations_up_to perform dir (int bundled_levels) t =
    (Inr (), t\<lparr>bk_metadata := Some (Some (format_int (int bundled_levels))), bk_tables := empty_tables k bundled_levels\<rparr>)"
proof -
  from assms(1) obtain scripts where "load_migration_scripts dir = Inr scripts" "length scripts = bundled_levels"
    and ap: "\<And>s n. \<lbrakk>1 \<le> n; n \<le> bundled_levels; bk_metadata s \<in> {None, Some None}; bk_tables s = Map.empty; conn_faults s = []\<rbrakk>
      \<Longrightarrow> perform (take n scripts) s =
        (Inr (), s\<lparr>bk_metadata := Some (Some (format_int (int n))), bk_tables := empty_tables k n\<rparr>)"
    unfolding applies_migrations_def by blast
  moreover have "perform (take bundled_levels scripts) t = (Inr (), t\<lparr>bk_metadata := Some (Some (format_int (int bundled_levels))), bk_tables := empty_tables k bundled_levels\<rparr>)"
    by (rule ap) (use assms(2) in \<open>auto simp: fresh_target_def bundled_levels_def\<close>)
  ultimately show ?thesis
    by (simp add: run_migrations_up_to_def clamp_migrations_def go_bind_def bundled_levels_def)
qed

lemma restored_level_tables:
  assumes L: "cbor_laws valid cb" and N: "schema_names_valid valid"
    and C: "consistent_database s" and P: "portable_database lib valid s"
    and t: "bk_tables d = empty_tables k bundled_levels" and nf: "conn_faults d = []"
  shows "restore_tables lib cb k (length backup_tables)
     (concat (map (\<lambda>spec. table_bytes cb spec (table_cells s (ts_name spec))) backup_tables)) d =
   (Inr [], d\<lparr>bk_tables := tables_of lib k (without_challenges s),
      bk_sent := bk_sent d @ restored_statements k s backup_tables\<rparr>)"
proof -
  have empty: "bk_tables d (ts_name spec) = Some (filled lib (table_def_at k (ts_name spec)) [])"
    if "spec \<in> set backup_tables" for spec
    using t by (simp add: empty_tables_def table_def_at_fits(2) [OF that] filled_def)
  have "restore_tables lib cb k (length backup_tables)
     (concat (map (\<lambda>spec. table_bytes cb spec (table_cells s (ts_name spec))) backup_tables) @ []) d =
    (Inr [], d\<lparr>bk_tables := restored_tables lib k s backup_tables (bk_tables d),
       bk_sent := bk_sent d @ restored_statements k s backup_tables\<rparr>)"
    by (rule restore_tables_sound [OF L N C P, where seen = False])
      (use empty nf in \<open>simp_all add: backup_tables_def table_names\<close>)
  then show ?thesis using restored_tables_all [of lib k s] t by simp
qed

text \<open>C31: Restoring a backup gives the application back, also across databases.  Take a
  database of either kind that holds a consistent application state with portable values: text
  is valid UTF-8 without a NUL (SQLite keeps a NUL, Postgres refuses it), audit identifiers
  and metadata are canonical.  Then Backup succeeds, in whatever order the engine delivers
  the rows, and restoring the file it wrote, however the file is cut into chunks and
  whatever the decoder's buffer sizes, into an empty database of either kind succeeds and
  leaves there the tables of that application state, with the same rows (in some order) in
  its own column types, without the pending login challenges, and at the same migration
  level; the statements it runs for the rows are one INSERT of the table's columns each.\<close>

theorem restore_of_backup:
  assumes "cbor_laws valid (re_cbor env)" and "schema_names_valid valid"
    and "\<And>x. length (re_sha256 env x) = trailer_size"
    and "delivers_rows (re_lib env)"
    and "consistent_database s" and "portable_database (re_lib env) valid s"
    and "holds_state (re_lib env) kf s d" and "conn_faults d = []" and "in_int64 (unix_seconds now)"
    and "backup (re_lib env) (re_cbor env) (re_sha256 env) now (start_backup d) = (r, io)"
    and "source_bytes src = bio_out io" and "src_end src = At_Eof"
    and "applies_migrations (re_perform env) (re_scripts env) kt" and "fresh_target t"
  shows "r = Inr () \<and> (\<exists>s'. same_rows s' (without_challenges s) \<and>
    restore env kt asked src t = (Inr (), t\<lparr>
      bk_metadata := Some (Some (format_int (int bundled_levels))),
      bk_tables := tables_of (re_lib env) kt s',
      bk_sent := bk_sent t @ restored_statements kt s' backup_tables\<rparr>))"
proof -
  obtain s' where order: "same_rows s' s" "scanned_state (re_lib env) kf s s'"
    using scanned_state_exists [OF assms(4)] by blast
  note C = consistent_same_rows [OF order(1) assms(5)] and P = portable_same_rows [OF order(1) assms(6)]
  let ?lib = "re_lib env" and ?cb = "re_cbor env" and ?body = "backup_body (re_cbor env) (backup_header now) s'"
  let ?tables = "concat (map (\<lambda>spec. table_bytes ?cb spec (table_cells s' (ts_name spec))) backup_tables)"
  let ?sent = "bk_sent t @ restored_statements kt s' backup_tables"
  from backup_output [OF assms(1,2) P order(2) assms(7,8,9), of "re_sha256 env"] assms(10,11)
  have r: "r = Inr ()" and bytes: "source_bytes src = magic_header @ ?body @ re_sha256 env ?body" by auto
  obtain src1 where magic: "read_exactly 4 src = Some (magic_header, src1)"
    and src1: "source_bytes src1 = ?body @ re_sha256 env ?body" "src_end src1 = At_Eof"
    using read_exactly_bytes [of 4 src] bytes assms(12) by (auto simp: magic_header_def)
  have body: "file_body (source_bytes src1) = ?body" using src1 assms(3) by (simp add: file_body_def)
  have out: "handed_out src1 = ?body"
    using handed_out_body [OF src1(2)] src1(1) assms(3) body by simp
  have verified: "verify_checksum (re_sha256 env) (snd (read_calls asked (new_checksum_reader src1))) = Inr ()"
    using checksum_reader_verified [of "re_sha256 env" asked src1] src1 assms(3)
    by (simp add: checksum_spec_def file_body_def)
  from cbor_lawsD(1) [OF assms(1) backup_header_ok [OF assms(9)]] obtain hb where
    hb: "cb_enc_file ?cb (backup_header now) = Some hb"
    "\<And>rest. cb_dec_file ?cb (hb @ rest) = Some (backup_header now, rest)" by (rule encodesE) blast
  let ?t1 = "t\<lparr>bk_metadata := Some (Some (format_int (int bundled_levels))), bk_tables := empty_tables kt bundled_levels\<rparr>"
  have nf: "conn_faults t = []" using assms(14) by (simp add: fresh_target_def)
  have "restore_data env kt asked src1 (int (length backup_tables)) ?tables (?t1\<lparr>conn_in_tx := True\<rparr>) =
      (Inr (), ?t1\<lparr>conn_in_tx := True, bk_tables := tables_of ?lib kt (without_challenges s'), bk_sent := ?sent\<rparr>)"
    using restored_level_tables [OF assms(1,2) C P, of "?t1\<lparr>conn_in_tx := True\<rparr>" kt] nf verified
    by (simp add: restore_data_def go_bind_def)
  from db_transaction_done [where s = ?t1 and m = "restore_data env kt asked src1 (int (length backup_tables)) ?tables", OF _ this] nf
  have "db_transaction (restore_data env kt asked src1 (int (length backup_tables)) ?tables) ?t1 =
      (Inr (), ?t1\<lparr>bk_tables := tables_of ?lib kt (without_challenges s'), bk_sent := ?sent\<rparr>)"
    by (cases t) simp
  then have "restore env kt asked src t =
      (Inr (), ?t1\<lparr>bk_tables := tables_of ?lib kt (without_challenges s'), bk_sent := ?sent\<rparr>)"
    using magic out hb target_fresh [OF assms(14)] migrated_target [OF assms(13,14)]
    by (simp add: restore_def backup_body_def go_bind_def backup_header_def)
  moreover have "same_rows (without_challenges s') (without_challenges s)"
    using order(1) by (simp add: same_rows_def without_challenges_def)
  moreover have "restored_statements kt (without_challenges s') backup_tables = restored_statements kt s' backup_tables"
    by (simp add: restored_statements_def backup_tables_def table_names table_cells_def without_challenges_def)
  ultimately show ?thesis using r by auto
qed

end
