(* ===== verification/Backup_Safety.thy ===== *)
theory Backup_Safety
  imports Backup_Properties
begin

text \<open>
  What a restore does with any file, also one that nobody's Backup wrote: when it is
  accepted, what a failure leaves behind, which SQL text a file can make the program run,
  and which values of SQLite a restore into Postgres cannot take.
\<close>

section \<open>What is accepted\<close>

lemma go_case_prod: "(case r of (x, s1) \<Rightarrow> f x s1) = f (fst r) (snd r)"
  by (cases r) simp

text \<open>A restore that succeeds has read the magic bytes and a header of this format
  version, has found no migrations in the target, and has found the file's last 32 bytes to
  be the hash of everything between the magic bytes and them.\<close>

lemma restore_accepts_verified_file:
  assumes "restore env kind asked src t = (Inr (), t')"
  shows "\<exists>src1 hdr body t1. read_exactly 4 src = Some (magic_header, src1) \<and>
    cb_dec_file (re_cbor env) (handed_out src1) = Some (hdr, body) \<and> fh_version hdr = format_version \<and>
    target_has_migrations t = (Inr False, t1) \<and>
    checksum_spec (re_sha256 env) (source_bytes src1) (src_end src1) = Inr ()"
proof -
  from assms obtain src1 hdr body t1 t2 where
    "read_exactly 4 src = Some (magic_header, src1)"
    "cb_dec_file (re_cbor env) (handed_out src1) = Some (hdr, body)" "fh_version hdr = format_version"
    "target_has_migrations t = (Inr False, t1)"
    and tx: "db_transaction (restore_data env kind asked src1 (fh_table_count hdr) body) t2 = (Inr (), t')"
    by (auto simp: restore_def go_bind_def split: option.splits prod.splits if_splits sum.splits)
  moreover from tx obtain s0 s1 where "restore_data env kind asked src1 (fh_table_count hdr) body s0 = (Inr (), s1)"
    by (auto elim: db_transaction_ok)
  then have "verify_checksum (re_sha256 env) (snd (read_calls asked (new_checksum_reader src1))) = Inr ()"
    by (auto simp: restore_data_def elim!: go_bind_okE)
  ultimately show ?thesis by (auto simp: checksum_reader_verified)
qed

section \<open>What a failure leaves behind\<close>

lemma same_tables_backup:
  fixes s s' :: "'j backup_db"
  shows "same_tables s s' \<Longrightarrow> bk_metadata s' = bk_metadata s \<and> bk_tables s' = bk_tables s \<and> bk_sent s' = bk_sent s"
  by (cases s; cases s') (simp add: same_tables_def)

lemma target_has_migrations_keeps: "same_tables t (snd (target_has_migrations t))"
proof -
  have "keeps (same_tables t) target_has_migrations"
    unfolding target_has_migrations_def metadata_table_exists_def read_schema_level_def
    by (intro keeps_bind keeps_if keeps_return keeps_db_stmt)
      (auto simp: keeps_def on_tables_def same_tables_def)
  then show ?thesis by (rule keepsD) simp
qed

text \<open>C35: A restore that fails has changed nothing, or has done exactly what the migrations
  did: no row of the file is left in any table.\<close>

theorem failed_restore_leaves_no_rows:
  assumes "restore env kind asked src t = (Inl e, t')"
  shows "same_tables t t' \<or>
    (\<exists>level t1. same_tables t t1 \<and>
       same_tables (snd (run_migrations_up_to (re_perform env) (re_scripts env) level t1)) t')"
proof (cases "\<exists>src1 hdr body t1. read_exactly 4 src = Some (magic_header, src1) \<and>
    cb_dec_file (re_cbor env) (handed_out src1) = Some (hdr, body) \<and> fh_version hdr = format_version \<and>
    target_has_migrations t = (Inr False, t1)")
  case True
  then obtain src1 hdr body t1 where pre: "read_exactly 4 src = Some (magic_header, src1)"
    "cb_dec_file (re_cbor env) (handed_out src1) = Some (hdr, body)" "fh_version hdr = format_version"
    "target_has_migrations t = (Inr False, t1)" by blast
  have t1: "same_tables t t1" using target_has_migrations_keeps [of t] pre(4) by simp
  obtain r t2 where m: "run_migrations_up_to (re_perform env) (re_scripts env) (fh_schema_level hdr) t1 = (r, t2)"
    by fastforce
  have "same_tables t2 t'"
  proof (cases r)
    case (Inl d)
    then show ?thesis using assms pre m by (simp add: restore_def go_bind_def)
  next
    case (Inr u)
    then have "db_transaction (restore_data env kind asked src1 (fh_table_count hdr) body) t2 = (Inl e, t')"
      using assms pre m by (simp add: restore_def go_bind_def)
    then show ?thesis by (rule db_transaction_error)
  qed
  then show ?thesis using t1 m by (metis snd_conv)
next
  case False
  then have "t' = t \<or> t' = snd (target_has_migrations t)"
    using assms by (auto simp: restore_def go_bind_def split: option.splits prod.splits if_splits sum.splits)
  then show ?thesis using target_has_migrations_keeps [of t] by auto
qed

lemma target_migrated:
  assumes "bk_metadata t = Some (Some (format_int n))" and "0 < n" and "in_int64 n" and "conn_faults t = []"
  shows "target_has_migrations t = (Inr True, t)"
  using assms by (simp add: target_has_migrations_def metadata_table_exists_def read_schema_level_def
      go_bind_def db_stmt_no_fault)

text \<open>C36: A restore into an empty database that fails after the migrations (a damaged row, a
  wrong checksum, a lost connection) makes the database unusable as a target: every later
  restore of a readable file, the undamaged one included, is refused because the target
  is not empty.\<close>

theorem failed_restore_blocks_retry:
  assumes "applies_migrations (re_perform env) (re_scripts env) kind" and "fresh_target t"
    and "read_exactly 4 src = Some (magic_header, src1)"
    and "cb_dec_file (re_cbor env) (handed_out src1) = Some (hdr, body)" and "fh_version hdr = format_version"
    and "fh_schema_level hdr \<in> {1, 2}"
    and "restore env kind asked src t = (Inl e, t')" and "conn_faults t' = []"
    and "read_exactly 4 src' = Some (magic_header, src1')"
    and "cb_dec_file (re_cbor env) (handed_out src1') = Some (hdr', body')" and "fh_version hdr' = format_version"
  shows "restore env kind asked' src' t' = (Inl err_target_not_empty, t')"
proof -
  let ?n = "nat (fh_schema_level hdr)"
  from assms(1) obtain scripts where sc: "load_migration_scripts (re_scripts env) = Inr scripts" "length scripts = bundled_levels"
    and ap: "\<And>s n. \<lbrakk>1 \<le> n; n \<le> bundled_levels; bk_metadata s \<in> {None, Some None}; bk_tables s = Map.empty; conn_faults s = []\<rbrakk>
      \<Longrightarrow> re_perform env (take n scripts) s =
        (Inr (), s\<lparr>bk_metadata := Some (Some (format_int (int n))), bk_tables := empty_tables kind n\<rparr>)"
    unfolding applies_migrations_def by blast
  have n: "1 \<le> ?n" "?n \<le> bundled_levels" "int ?n = fh_schema_level hdr" "fh_schema_level hdr \<noteq> 0"
    using assms(6) by (auto simp: bundled_levels_def)
  let ?t1 = "t\<lparr>bk_metadata := Some (Some (format_int (int ?n))), bk_tables := empty_tables kind ?n\<rparr>"
  have m: "run_migrations_up_to (re_perform env) (re_scripts env) (fh_schema_level hdr) t = (Inr (), ?t1)"
    using ap [OF n(1,2), of t] assms(2) sc n
    by (auto simp: run_migrations_up_to_def clamp_migrations_def go_bind_def fresh_target_def)
  have "db_transaction (restore_data env kind asked src1 (fh_table_count hdr) body) ?t1 = (Inl e, t')"
    using assms(3-5,7) target_fresh [OF assms(2)] m by (simp add: restore_def go_bind_def)
  then have "same_tables ?t1 t'" by (rule db_transaction_error)
  then have "bk_metadata t' = Some (Some (format_int (int ?n)))"
    by (auto dest: same_tables_backup)
  then have "target_has_migrations t' = (Inr True, t')"
    by (rule target_migrated) (use n assms(6,8) in \<open>auto simp: in_int64_def\<close>)
  then show ?thesis using assms(9-11) by (simp add: restore_def go_bind_def)
qed

section \<open>The statements a file can cause\<close>

text \<open>An INSERT into a table of the program, of columns of that table.\<close>

definition known_insert :: "backend_kind \<Rightarrow> string \<Rightarrow> bool" where
  "known_insert kind q \<longleftrightarrow> (\<exists>spec\<in>set backup_tables. \<exists>columns.
     set columns \<subseteq> set (column_names spec) \<and> q = insert_query spec columns kind)"

definition sent_known :: "backend_kind \<Rightarrow> string list \<Rightarrow> 'j backup_db \<Rightarrow> bool" where
  "sent_known kind before s \<longleftrightarrow> (\<exists>sent. bk_sent s = before @ sent \<and> list_all (known_insert kind) sent)"

lemma on_tables_sent [keeps_intros]: "on_tables (sent_known kind before)"
  by (auto simp: on_tables_def sent_known_def same_tables_backup)

lemma exec_insert_sent [simp]: "bk_sent (snd (exec_insert lib k table given s)) = bk_sent s"
  by (simp add: exec_insert_def split: option.split)

lemma keeps_insert_row:
  assumes "spec \<in> set backup_tables" and "set columns \<subseteq> set (column_names spec)"
  shows "keeps (sent_known kind before) (insert_row lib kind spec columns args)"
proof (rule keepsI)
  fix s :: "'a backup_db" assume "sent_known kind before s"
  then obtain sent where sent: "bk_sent s = before @ sent" "list_all (known_insert kind) sent"
    by (auto simp: sent_known_def)
  let ?q = "insert_query spec columns kind"
  let ?insert = "exec_insert lib kind (ts_name spec) (map2 (\<lambda>c a. (c, placeholder_cast (kind_of_column spec c) kind, a)) columns args)"
  have "known_insert kind ?q" using assms by (auto simp: known_insert_def)
  then have "sent_known kind before (s\<lparr>bk_sent := bk_sent s @ [?q]\<rparr>)"
    using sent by (auto simp: sent_known_def)
  moreover have "keeps (sent_known kind before) (db_stmt ?insert)"
    by (intro keeps_db_stmt on_tables_sent keepsI) (simp add: sent_known_def)
  ultimately show "sent_known kind before (snd (insert_row lib kind spec columns args s))"
    unfolding insert_row_def exec_text_def by (rule keepsD [rotated])
qed

lemma keeps_restore_rows:
  assumes "\<And>sp. spec = Some sp \<Longrightarrow> sp \<in> set backup_tables \<and> set columns \<subseteq> set (column_names sp)"
  shows "keeps (sent_known kind before) (restore_rows lib cb kind spec columns body)"
proof (induction "length body" arbitrary: body rule: less_induct)
  case less
  have rest: "keeps (sent_known kind before) (restore_rows lib cb kind spec columns rest)"
    if "decode_row cb body = Some (row, rest)" for row rest
    using decode_row_shorter [OF that] by (rule less)
  show ?case
    unfolding restore_rows.simps [of lib cb kind spec columns body]
    using assms rest
    by (auto intro!: keeps_intros keeps_insert_row split: option.split)
qed

lemma find_spec_in: "find_spec n = Some spec \<Longrightarrow> spec \<in> set backup_tables \<and> ts_name spec = n"
  by (auto simp: find_spec_def dest: map_of_SomeD)

lemma kind_of_column_in: "kind_of_column spec c \<noteq> None \<longleftrightarrow> c \<in> set (column_names spec)"
  by (auto simp: kind_of_column_def column_names_def map_of_eq_None_iff image_image)

lemma keeps_restore_block: "keeps (sent_known kind before) (restore_table_block lib cb kind body)"
proof -
  have "keeps (sent_known kind before) (restore_rows lib cb kind (Some spec) columns rest)"
    if "find_spec n = Some spec" "\<not> (\<exists>c\<in>set columns. kind_of_column spec c = None)" for n spec columns rest
    by (rule keeps_restore_rows) (use that find_spec_in kind_of_column_in in blast)
  moreover have "keeps (sent_known kind before) (restore_rows lib cb kind None columns rest)" for columns rest
    by (rule keeps_restore_rows) simp
  ultimately show ?thesis
    unfolding restore_table_block_def by (auto intro!: keeps_fail split: option.split)
qed

lemma keeps_restore_data: "keeps (sent_known kind before) (restore_data env kind asked src n_tables body)"
proof -
  have "keeps (sent_known kind before) (restore_tables lib cb kind n body)" for lib :: "'a value_lib" and cb n body
    by (induction n arbitrary: body) (auto intro!: keeps_return keeps_bind keeps_restore_block)
  then show ?thesis unfolding restore_data_def by (intro keeps_bind keeps_lift)
qed

lemma unknown_rows_skipped: "snd (restore_rows lib cb kind None columns body d) = d"
proof (induction "length body" arbitrary: body rule: less_induct)
  case less
  show ?case
    by (auto simp: restore_rows.simps [of lib cb kind None columns body] less [OF decode_row_shorter]
        split: option.split)
qed

text \<open>C33: No file can smuggle SQL into a restore.  Whatever the bytes of the file decode to, every
  statement that the data phase of a restore executes is the INSERT that the program builds
  for one of its own tables with columns of that table; names from the file get no further.  A block
  that names an unknown table, or a column that its table does not have, executes nothing and
  leaves the database as it is.\<close>

theorem restore_statements_safe:
  "(\<exists>sent. bk_sent (snd (restore_data env kind asked src n_tables body d)) = bk_sent d @ sent
      \<and> list_all (known_insert kind) sent)
   \<and> (cb_dec_table cb block = Some (h, rest)
        \<and> \<not> (\<exists>spec\<in>set backup_tables. ts_name spec = th_name h \<and> set (th_columns h) \<subseteq> set (column_names spec))
      \<longrightarrow> snd (restore_table_block lib cb kind block d) = d)"
proof (intro conjI impI)
  have "sent_known kind (bk_sent d) d" by (simp add: sent_known_def)
  from keepsD [OF keeps_restore_data this]
  show "\<exists>sent. bk_sent (snd (restore_data env kind asked src n_tables body d)) = bk_sent d @ sent
      \<and> list_all (known_insert kind) sent" by (simp add: sent_known_def)
next
  assume a: "cb_dec_table cb block = Some (h, rest)
    \<and> \<not> (\<exists>spec\<in>set backup_tables. ts_name spec = th_name h \<and> set (th_columns h) \<subseteq> set (column_names spec))"
  show "snd (restore_table_block lib cb kind block d) = d"
  proof (cases "find_spec (th_name h)")
    case None
    then show ?thesis using a by (simp add: restore_table_block_def unknown_rows_skipped)
  next
    case (Some spec)
    with a have "\<exists>c\<in>set (th_columns h). kind_of_column spec c = None"
      using find_spec_in [OF Some] kind_of_column_in by blast
    then show ?thesis using a Some by (simp add: restore_table_block_def)
  qed
qed

section \<open>What a backup cannot carry over\<close>

text \<open>A text with a NUL, which SQLite keeps and only the length of which is checked before it is
  stored as a display name, makes the INSERT of its row fail on Postgres.\<close>

lemma nul_name_stored:
  assumes "length name \<le> 100" and "conn_faults s = []" and "\<exists>u\<in>set (db_users s). mutable_user uid u"
  shows "fst (update_display_name now uid name s) = Inr ()"
  using assms by (auto simp: update_display_name_def go_bind_def db_stmt_no_fault sql_update_def affected_def delete_rows_empty_iff)

lemma those_None: "None \<in> set xs \<Longrightarrow> those xs = None"
  by (induction xs) (auto split: option.split)

lemma nul_name_not_restored:
  assumes "CHR 0x00 \<in> set (u_display_name u)"
    and "bk_tables d ''v2_users'' = Some (filled lib (versioned_users_def Backend_Postgres) rows)"
  shows "fst (exec_insert lib Backend_Postgres ''v2_users'' (insert_args users_spec Backend_Postgres (user_cells u)) d) = Inl Err_Db"
proof -
  let ?given = "insert_args users_spec Backend_Postgres (user_cells u)"
  have arg: "map_of ?given ''display_name'' = Some ([], Any_String (u_display_name u))"
    by (simp add: insert_args_def spec_simps user_cells_def coerce_for_insert_def kind_of_column_def placeholder_cast_def)
  have "default_col Type_Text (Any_String []) ''display_name'' \<in> set (td_columns (versioned_users_def Backend_Postgres))"
    by (simp add: versioned_users_def_def users_def_def)
  moreover have "store_value lib Backend_Postgres Type_Text [] (Any_String (u_display_name u)) = None"
    using assms(1) by (simp add: store_value_def portable_text_def)
  ultimately have "new_row lib Backend_Postgres (versioned_users_def Backend_Postgres) ?given = None"
    unfolding new_row_def
    by (intro those_None) (force simp: arg default_col_def image_iff)
  then show ?thesis using assms(2) by (simp add: exec_insert_def filled_def)
qed

end
