(* ===== verification/Backup_Samples.thy ===== *)
theory Backup_Samples
  imports Backup_Safety
begin

text \<open>
  Concrete instances for backup and restore: a codec that satisfies \<open>cbor_laws\<close>, values, a
  small application state, and the witnesses of the properties.
\<close>

section \<open>A codec\<close>

definition nat_item :: "nat \<Rightarrow> string" where
  "nat_item n = replicate n CHR ''1'' @ ''0''"

fun read_nat :: "string \<Rightarrow> (nat \<times> string) option" where
  "read_nat [] = None"
| "read_nat (c # s) = (if c = CHR ''1'' then map_option (\<lambda>(n, r). (Suc n, r)) (read_nat s) else Some (0, s))"

lemma read_nat_item [simp]: "read_nat (nat_item n @ rest) = Some (n, rest)"
  by (induction n) (simp_all add: nat_item_def)

definition str_item :: "string \<Rightarrow> string" where
  "str_item s = nat_item (length s) @ s"

definition read_str :: "string \<Rightarrow> (string \<times> string) option" where
  "read_str s = (case read_nat s of None \<Rightarrow> None
     | Some (n, r) \<Rightarrow> if n \<le> length r then Some (take n r, drop n r) else None)"

lemma read_str_item [simp]: "read_str (str_item s @ rest) = Some (s, rest)"
  by (simp add: read_str_def str_item_def)

definition read_int :: "string \<Rightarrow> (int \<times> string) option" where
  "read_int s = (case read_str s of None \<Rightarrow> None
     | Some (t, r) \<Rightarrow> map_option (\<lambda>n. (n, r)) (parse_int t))"

lemma read_int_item [simp]: "in_int64 n \<Longrightarrow> read_int (str_item (format_int n) @ rest) = Some (n, rest)"
  by (simp add: read_int_def)

fun value_item :: "'j go_any \<Rightarrow> string" where
  "value_item (Any_Bool b) = (if b then ''t'' else ''f'')"
| "value_item (Any_Int64 n) = CHR ''i'' # str_item (format_int n)"
| "value_item (Any_String s) = CHR ''s'' # str_item s"
| "value_item _ = ''n''"

fun read_value :: "string \<Rightarrow> ('j go_any \<times> string) option" where
  "read_value [] = None"
| "read_value (c # s) =
     (if c = CHR ''t'' then Some (Any_Bool True, s)
      else if c = CHR ''f'' then Some (Any_Bool False, s)
      else if c = CHR ''i'' then map_option (\<lambda>(n, r). (Any_Int64 n, r)) (read_int s)
      else if c = CHR ''s'' then map_option (\<lambda>(t, r). (Any_String t, r)) (read_str s)
      else Some (Any_Nil, s))"

lemma read_value_item [simp]: "cbor_value valid v \<Longrightarrow> read_value (value_item v @ rest) = Some (v, rest)"
  by (cases v) auto

fun read_many :: "nat \<Rightarrow> (string \<Rightarrow> ('a \<times> string) option) \<Rightarrow> string \<Rightarrow> ('a list \<times> string) option" where
  "read_many 0 rd s = Some ([], s)"
| "read_many (Suc n) rd s = (case rd s of None \<Rightarrow> None
     | Some (x, r) \<Rightarrow> map_option (\<lambda>(xs, r'). (x # xs, r')) (read_many n rd r))"

definition list_item :: "('a \<Rightarrow> string) \<Rightarrow> 'a list \<Rightarrow> string" where
  "list_item f xs = nat_item (length xs) @ concat (map f xs)"

definition read_list :: "(string \<Rightarrow> ('a \<times> string) option) \<Rightarrow> string \<Rightarrow> ('a list \<times> string) option" where
  "read_list rd s = (case read_nat s of None \<Rightarrow> None | Some (n, r) \<Rightarrow> read_many n rd r)"

lemma read_many_items:
  "(\<And>x rest. x \<in> set xs \<Longrightarrow> rd (f x @ rest) = Some (x, rest)) \<Longrightarrow>
     read_many (length xs) rd (concat (map f xs) @ rest) = Some (xs, rest)"
  by (induction xs) auto

lemma read_list_item:
  "(\<And>x rest. x \<in> set xs \<Longrightarrow> rd (f x @ rest) = Some (x, rest)) \<Longrightarrow>
     read_list rd (list_item f xs @ rest) = Some (xs, rest)"
  by (simp add: read_list_def list_item_def read_many_items)

definition sample_cbor :: "'j cbor" where
  "sample_cbor = \<lparr>
     cb_enc_file = (\<lambda>h. Some (list_item (str_item \<circ> format_int)
        [fh_version h, fh_created_at h, fh_schema_level h, fh_table_count h])),
     cb_enc_table = (\<lambda>h. Some (str_item (th_name h) @ list_item str_item (th_columns h))),
     cb_enc_row = (\<lambda>r. Some (CHR ''R'' # list_item value_item r)),
     cb_enc_null = Some ''N'',
     cb_dec_file = (\<lambda>s. case read_list read_int s of
        Some ([v, ca, sl, tc], r) \<Rightarrow>
          Some (\<lparr>fh_version = v, fh_created_at = ca, fh_schema_level = sl, fh_table_count = tc\<rparr>, r)
      | _ \<Rightarrow> None),
     cb_dec_table = (\<lambda>s. case read_str s of None \<Rightarrow> None
      | Some (n, r) \<Rightarrow> map_option (\<lambda>(cs, r'). (\<lparr>th_name = n, th_columns = cs\<rparr>, r')) (read_list read_str r)),
     cb_dec_row = (\<lambda>s. case s of [] \<Rightarrow> None
      | c # r \<Rightarrow> if c = CHR ''R'' then map_option (\<lambda>(vs, r'). (Some vs, r')) (read_list read_value r)
                else Some (None, r))\<rparr>"

lemma sample_cbor_laws: "cbor_laws (\<lambda>_. True) (sample_cbor :: 'j cbor)"
proof -
  have "encodes (cb_enc_file (sample_cbor :: 'j cbor) h) (cb_dec_file (sample_cbor :: 'j cbor)) h" if "file_header_ok h" for h
  proof -
    have "read_list read_int (list_item (str_item \<circ> format_int) [fh_version h, fh_created_at h, fh_schema_level h, fh_table_count h] @ rest)
        = Some ([fh_version h, fh_created_at h, fh_schema_level h, fh_table_count h], rest)" for rest
      by (rule read_list_item) (use that in \<open>auto simp: file_header_ok_def in_int64_def\<close>)
    then show ?thesis by (cases h) (auto simp: encodes_def sample_cbor_def list_item_def nat_item_def)
  qed
  moreover have "encodes (cb_enc_table (sample_cbor :: 'j cbor) h) (cb_dec_table (sample_cbor :: 'j cbor)) h" for h
  proof -
    have "read_list read_str (list_item str_item (th_columns h) @ rest) = Some (th_columns h, rest)" for rest
      by (rule read_list_item) simp
    moreover have "str_item (th_name h) \<noteq> []" by (simp add: str_item_def nat_item_def)
    ultimately show ?thesis by (cases h) (simp add: encodes_def sample_cbor_def)
  qed
  moreover have "encodes (cb_enc_row sample_cbor r) (cb_dec_row sample_cbor) (Some r)"
    if "list_all (cbor_value (\<lambda>_. True)) r" for r :: "'j go_any list"
  proof -
    have "read_list read_value (list_item value_item r @ rest) = Some (r, rest)" for rest
      by (rule read_list_item) (use that in \<open>auto simp: list_all_iff\<close>)
    then show ?thesis by (simp add: encodes_def sample_cbor_def)
  qed
  moreover have "encodes (cb_enc_null (sample_cbor :: 'j cbor)) (cb_dec_row sample_cbor) None"
    by (simp add: encodes_def sample_cbor_def)
  ultimately show ?thesis by (simp add: cbor_laws_def)
qed

section \<open>Values and an application state\<close>

definition zero_uuid :: string where
  "zero_uuid = replicate 16 CHR 0x00"

definition sample_lib :: "string value_lib" where
  "sample_lib = \<lparr>vl_marshal = Some, vl_print = (\<lambda>j. j), vl_widen = (\<lambda>x. x), vl_parse_json = Some,
     vl_parse_uuid = (\<lambda>s. if s = uuid_string zero_uuid then Some zero_uuid else None),
     vl_convert = (\<lambda>_ _ _. None), vl_utf8 = (\<lambda>_. True), vl_scan_order = (\<lambda>_. rev)\<rparr>"

lemma sample_delivers: "delivers_rows sample_lib"
  by (simp add: delivers_rows_def sample_lib_def)

definition sample_user :: user_row where
  "sample_user = \<lparr>u_id = ''alice'', u_display_name = ''Alice'', u_status = ''active'',
     u_webauthn_user_id = ''wa'', u_request_key = ''rk'', u_request_enc_ecdh_pubkey = ''ecdh'',
     u_request_enc_mlkem_pubkey = ''mlkem'', u_anchor_es384_public_key = ''es'',
     u_anchor_mldsa87_public_key = ''ml'', u_pubkey_bundle_signature_es384 = ''s1'',
     u_pubkey_bundle_signature_mldsa87 = ''s2'', u_pubkey_bundle_version = 2, u_wrapped_key_epoch = 1,
     u_allowed_ips = [], u_ready = True, u_created_at = 1700000000, u_updated_at = 1700000001\<rparr>"

definition second_user :: user_row where
  "second_user = sample_user\<lparr>u_id := ''bob'', u_webauthn_user_id := ''wb'', u_request_key := ''rb''\<rparr>"

definition sample_credential :: credential_row where
  "sample_credential = \<lparr>c_id = ''c1'', c_user_id = ''alice'', c_credential_id = ''raw'',
     c_display_name = ''phone'', c_public_key = ''pk'', c_sign_count = 7, c_wrapped_primary_key = ''wpk'',
     c_wrapped_anchor_key = ''wak'', c_attestation_payload = ''att'', c_attestation_signature_es384 = ''a1'',
     c_attestation_signature_mldsa87 = ''a2'', c_wrapped_key_epoch = 1, c_created_at = 1700000000,
     c_last_used_at = 1700000010\<rparr>"

definition sample_event :: audit_row where
  "sample_event = \<lparr>ae_id = uuid_string zero_uuid, ae_created_at = 1700000000, ae_event_type = ''auth.logout'',
     ae_outcome = ''success'', ae_auth_method = ''session'', ae_actor_user_id = Some ''alice'',
     ae_target_user_id = None, ae_signing_key_id = None, ae_credential_id = None, ae_request_state = None,
     ae_http_request_id = Some ''h1'', ae_client_ip = None, ae_user_agent = None, ae_metadata = ''{}''\<rparr>"

definition sample_challenge :: challenge_row where
  "sample_challenge = \<lparr>ch_id = ''x'', ch_kind = ''login'', ch_user_id = ''alice'', ch_challenge = ''n'',
     ch_expires_at = 5, ch_used_at = None\<rparr>"

definition sample_app :: database where
  "sample_app = empty_database\<lparr>db_users := [sample_user, second_user], db_credentials := [sample_credential],
     db_audit_events := [sample_event], db_challenges := [sample_challenge]\<rparr>"

definition sample_hash :: "string \<Rightarrow> string" where
  "sample_hash x = take 32 (x @ replicate 32 CHR ''x'')"

definition sample_scripts :: "embedded_entry list option" where
  "sample_scripts = Some
     [\<lparr>ee_name = ''0002_b.sql'', ee_is_dir = False, ee_data = Some ''b''\<rparr>,
      \<lparr>ee_name = ''0001_a.sql'', ee_is_dir = False, ee_data = Some ''a''\<rparr>,
      \<lparr>ee_name = ''README.md'', ee_is_dir = False, ee_data = Some ''c''\<rparr>]"

definition sample_env :: "backend_kind \<Rightarrow> string restore_env" where
  "sample_env k = \<lparr>re_lib = sample_lib, re_cbor = sample_cbor, re_sha256 = sample_hash,
     re_perform = (\<lambda>ss s. (Inr (), s\<lparr>bk_metadata := Some (Some (format_int (int (length ss)))),
       bk_tables := empty_tables k (length ss)\<rparr>)),
     re_scripts = sample_scripts\<rparr>"

definition sample_source_db :: "string backup_db" where
  "sample_source_db = \<lparr>conn_faults = [], conn_in_tx = False, bk_metadata = Some (Some ''2''),
     bk_tables = tables_of sample_lib Backend_SQLite sample_app, bk_sent = []\<rparr>"

definition sample_target :: "string backup_db" where
  "sample_target = \<lparr>conn_faults = [], conn_in_tx = False, bk_metadata = None, bk_tables = Map.empty, bk_sent = []\<rparr>"

lemma sample_env_simps [simp]:
  "re_lib (sample_env k) = sample_lib" "re_cbor (sample_env k) = sample_cbor"
  "re_sha256 (sample_env k) = sample_hash" "re_scripts (sample_env k) = sample_scripts"
  by (simp_all add: sample_env_def)

lemma sample_migrations: "applies_migrations (re_perform (sample_env k)) sample_scripts k"
proof -
  have "load_migration_scripts sample_scripts =
      Inr [\<lparr>ms_name = ''0001_a.sql'', ms_sql = ''a''\<rparr>, \<lparr>ms_name = ''0002_b.sql'', ms_sql = ''b''\<rparr>]"
  proof -
    have "script_names (the sample_scripts) = [''0001_a.sql'', ''0002_b.sql'']"
    proof -
      have "filter (\<lambda>e. \<not> ee_is_dir e \<and> (\<exists>b. ee_name e = b @ ''.sql'')) (the sample_scripts) = take 2 (the sample_scripts)"
        by (auto simp: sample_scripts_def append_eq_Cons_conv Cons_eq_append_conv)
      then show ?thesis by (simp add: script_names_def) (simp add: sample_scripts_def byte_def)
    qed
    then show ?thesis by (simp add: load_migration_scripts_def read_entry_def) (simp add: sample_scripts_def read_entry_def)
  qed
  moreover have "n = 1 \<or> n = 2" if "1 \<le> n" "n \<le> bundled_levels" for n :: nat
    using that by (auto simp: bundled_levels_def)
  ultimately show ?thesis by (fastforce simp: applies_migrations_def bundled_levels_def sample_env_def)
qed

lemma sample_portable: "portable_text sample_lib s \<longleftrightarrow> CHR 0x00 \<notin> set s"
  by (simp add: portable_text_def sample_lib_def)

lemma zero_uuid_text: "CHR 0x00 \<notin> set (uuid_string zero_uuid)"
  by code_simp

lemma sample_sound:
  "consistent_database sample_app" "portable_database sample_lib (\<lambda>_. True) sample_app"
proof -
  show "consistent_database sample_app"
    by (simp add: consistent_database_def sample_app_def second_user_def sample_user_def sample_credential_def empty_database_def)
  show "portable_database sample_lib (\<lambda>_. True) sample_app"
    by (simp add: portable_database_def backup_tables_def table_names table_cells_def sample_app_def
        second_user_def sample_user_def sample_credential_def sample_event_def empty_database_def user_cells_def
        credential_cells_def audit_cells_def in_int64_def sample_portable zero_uuid_text canonical_uuid_def canonical_json_def)
      (simp add: sample_lib_def)
qed

lemma format_two: "format_int (int bundled_levels) = ''2''"
  by code_simp

lemma restore_of_backup_witness:
  "\<exists>io s'. backup sample_lib sample_cbor sample_hash 0 (start_backup sample_source_db) = (Inr (), io) \<and>
    same_rows s' (without_challenges sample_app) \<and>
    restore (sample_env Backend_Postgres) Backend_Postgres [5, 0, 100]
      \<lparr>src_chunks = [take 3 (bio_out io), [], drop 3 (bio_out io)], src_end = At_Eof, src_joined = True\<rparr> sample_target =
    (Inr (), sample_target\<lparr>bk_metadata := Some (Some (format_int (int bundled_levels))),
       bk_tables := tables_of sample_lib Backend_Postgres s',
       bk_sent := restored_statements Backend_Postgres s' backup_tables\<rparr>)"
proof -
  obtain r io where b: "backup sample_lib sample_cbor sample_hash 0 (start_backup sample_source_db) = (r, io)" by fastforce
  have "r = Inr () \<and> (\<exists>s'. same_rows s' (without_challenges sample_app) \<and>
    restore (sample_env Backend_Postgres) Backend_Postgres [5, 0, 100]
      \<lparr>src_chunks = [take 3 (bio_out io), [], drop 3 (bio_out io)], src_end = At_Eof, src_joined = True\<rparr> sample_target =
    (Inr (), sample_target\<lparr>bk_metadata := Some (Some (format_int (int bundled_levels))),
       bk_tables := tables_of (re_lib (sample_env Backend_Postgres)) Backend_Postgres s',
       bk_sent := bk_sent sample_target @ restored_statements Backend_Postgres s' backup_tables\<rparr>))"
    by (rule restore_of_backup [where valid = "\<lambda>_. True" and d = sample_source_db and kf = Backend_SQLite and now = 0])
      (simp_all add: sample_cbor_laws schema_names_valid_def list_all_iff sample_hash_def trailer_size_def sample_delivers
        sample_sound b [unfolded sample_source_db_def] holds_state_def sample_source_db_def format_two unix_seconds_def in_int64_def
        source_bytes_def sample_migrations fresh_target_def sample_target_def)
  moreover have "bk_sent sample_target = []" by (simp add: sample_target_def)
  ultimately show ?thesis using b by auto
qed

section \<open>Files that are refused, and the empty backup\<close>

definition small_header :: file_header where
  "small_header = \<lparr>fh_version = 1, fh_created_at = 0, fh_schema_level = 2, fh_table_count = 0\<rparr>"

definition small_body :: string where
  "small_body = the (cb_enc_file (sample_cbor :: string cbor) small_header)"

definition small_file :: "string \<Rightarrow> source" where
  "small_file trailer = \<lparr>src_chunks = [magic_header @ small_body, trailer], src_end = At_Eof, src_joined = False\<rparr>"

definition after_magic :: "string \<Rightarrow> source" where
  "after_magic trailer = \<lparr>src_chunks = [small_body, trailer], src_end = At_Eof, src_joined = False\<rparr>"

definition good_trailer :: string where "good_trailer = sample_hash small_body"
definition bad_trailer :: string where "bad_trailer = replicate 32 CHR ''y''"

lemma small_body_value: "small_body = list_item (str_item \<circ> format_int) [1, 0, 2, 0]"
  by (simp add: small_body_def sample_cbor_def small_header_def)

lemma small_file_header:
  "cb_dec_file (sample_cbor :: string cbor) small_body = Some (small_header, [])"
proof -
  have "encodes (cb_enc_file (sample_cbor :: string cbor) small_header) (cb_dec_file (sample_cbor :: string cbor)) small_header"
    by (rule cbor_lawsD(1) [OF sample_cbor_laws]) (simp add: file_header_ok_def small_header_def in_int64_def)
  then have "cb_dec_file (sample_cbor :: string cbor) (small_body @ []) = Some (small_header, [])"
    unfolding small_body_def by (rule encodesE) (simp only: option.sel)
  then show ?thesis by simp
qed

lemma trailer_lengths: "length good_trailer = trailer_size" "length bad_trailer = trailer_size"
  by (simp_all add: good_trailer_def bad_trailer_def sample_hash_def trailer_size_def)

lemma small_file_out:
  assumes "length tr = trailer_size"
  shows "handed_out (after_magic tr) = small_body" and "read_exactly 4 (small_file tr) = Some (magic_header, after_magic tr)"
proof -
  show "handed_out (after_magic tr) = small_body"
    by (subst handed_out_body) (simp_all add: after_magic_def source_bytes_def file_body_def assms)
  show "read_exactly 4 (small_file tr) = Some (magic_header, after_magic tr)"
    by (simp add: read_exactly.simps [of 4] read_source_def small_file_def after_magic_def magic_header_def
        small_body_value list_item_def nat_item_def)
qed

lemma small_file_read:
  "read_exactly 4 (small_file good_trailer) = Some (magic_header, after_magic good_trailer)"
  "read_exactly 4 (small_file bad_trailer) = Some (magic_header, after_magic bad_trailer)"
  "cb_dec_file (sample_cbor :: string cbor) (handed_out (after_magic good_trailer)) = Some (small_header, [])"
  "cb_dec_file (sample_cbor :: string cbor) (handed_out (after_magic bad_trailer)) = Some (small_header, [])"
  by (simp_all add: small_file_out trailer_lengths small_file_header)

lemma small_file_verify:
  "verify_checksum sample_hash (snd (read_calls asked (new_checksum_reader (after_magic good_trailer)))) = Inr ()"
  "verify_checksum sample_hash (snd (read_calls asked (new_checksum_reader (after_magic bad_trailer)))) =
     Inl (Err_Msg ''backup checksum mismatch'')"
proof -
  have "hd (sample_hash small_body) = CHR ''1''"
    by (simp add: sample_hash_def small_body_value list_item_def nat_item_def)
  moreover have "hd bad_trailer = CHR ''y''" by (simp add: bad_trailer_def)
  ultimately have ne: "bad_trailer \<noteq> sample_hash small_body" by auto
  have "checksum_spec sample_hash (source_bytes (after_magic good_trailer)) At_Eof = Inr ()"
    "checksum_spec sample_hash (source_bytes (after_magic bad_trailer)) At_Eof = Inl (Err_Msg ''backup checksum mismatch'')"
    using ne by (simp_all add: checksum_spec_def after_magic_def source_bytes_def file_body_def trailer_lengths)
      (simp add: good_trailer_def)
  then show
    "verify_checksum sample_hash (snd (read_calls asked (new_checksum_reader (after_magic good_trailer)))) = Inr ()"
    "verify_checksum sample_hash (snd (read_calls asked (new_checksum_reader (after_magic bad_trailer)))) =
     Inl (Err_Msg ''backup checksum mismatch'')"
    by (simp_all add: checksum_reader_verified after_magic_def)
qed

lemma sample_target_fresh: "fresh_target sample_target"
  by (simp add: fresh_target_def sample_target_def)

definition migrated_sample :: "string backup_db" where
  "migrated_sample = sample_target\<lparr>bk_metadata := Some (Some (format_int (int bundled_levels))),
     bk_tables := empty_tables Backend_SQLite bundled_levels\<rparr>"

lemma small_restore:
  "restore (sample_env Backend_SQLite) Backend_SQLite [] (small_file good_trailer) sample_target = (Inr (), migrated_sample)"
  "restore (sample_env Backend_SQLite) Backend_SQLite [] (small_file bad_trailer) sample_target =
     (Inl (Err_Msg ''backup checksum mismatch''), migrated_sample)"
proof -
  have m: "run_migrations_up_to (re_perform (sample_env Backend_SQLite)) sample_scripts 2 sample_target = (Inr (), migrated_sample)"
    using migrated_target [OF sample_migrations sample_target_fresh, of Backend_SQLite]
    by (simp add: migrated_sample_def bundled_levels_def)
  show "restore (sample_env Backend_SQLite) Backend_SQLite [] (small_file good_trailer) sample_target = (Inr (), migrated_sample)"
    "restore (sample_env Backend_SQLite) Backend_SQLite [] (small_file bad_trailer) sample_target =
     (Inl (Err_Msg ''backup checksum mismatch''), migrated_sample)"
    using small_file_verify(1) [of "[]"] small_file_verify(2) [of "[]"]
    by (simp_all add: restore_def small_file_read small_header_def format_version_def go_bind_def
        target_fresh [OF sample_target_fresh] m db_transaction_def db_stmt_def restore_data_def)
      (simp_all add: migrated_sample_def sample_target_def go_bind_def db_stmt_def)
qed

lemma failed_restore_leaves_no_rows_witness:
  "same_tables sample_target migrated_sample \<or>
    (\<exists>level t1. same_tables sample_target t1 \<and>
       same_tables (snd (run_migrations_up_to (re_perform (sample_env Backend_SQLite)) sample_scripts level t1)) migrated_sample)"
  using failed_restore_leaves_no_rows [OF small_restore(2)] by simp

lemma failed_restore_blocks_retry_witness:
  "restore (sample_env Backend_SQLite) Backend_SQLite [] (small_file good_trailer) migrated_sample =
     (Inl err_target_not_empty, migrated_sample)"
  by (rule failed_restore_blocks_retry [where t = sample_target and src = "small_file bad_trailer"
        and hdr = small_header and body = "[]" and hdr' = small_header and body' = "[]"
        and e = "Err_Msg ''backup checksum mismatch''" and asked = "[]" and ?src1.0 = "after_magic bad_trailer"
        and src1' = "after_magic good_trailer"])
    (simp_all add: sample_migrations sample_target_fresh small_file_read small_restore small_header_def
      format_version_def, simp add: migrated_sample_def sample_target_def)

section \<open>A file that tries to smuggle SQL\<close>

definition smuggled_header :: table_header where
  "smuggled_header = \<lparr>th_name = ''v2_users'', th_columns = [''id'', ''status) SELECT id, request_key FROM v2_users --'']\<rparr>"

definition smuggled_block :: string where
  "smuggled_block = the (cb_enc_table (sample_cbor :: string cbor) smuggled_header)"

lemma smuggled_block_decodes: "cb_dec_table (sample_cbor :: string cbor) smuggled_block = Some (smuggled_header, [])"
proof -
  have "encodes (cb_enc_table (sample_cbor :: string cbor) smuggled_header) (cb_dec_table (sample_cbor :: string cbor)) smuggled_header"
    by (rule cbor_lawsD(2) [OF sample_cbor_laws]) (simp add: table_header_ok_def list_all_iff)
  then have "cb_dec_table (sample_cbor :: string cbor) (smuggled_block @ []) = Some (smuggled_header, [])"
    unfolding smuggled_block_def by (rule encodesE) (simp only: option.sel)
  then show ?thesis by simp
qed

lemma restore_statements_safe_witness:
  "(\<exists>sent. bk_sent (snd (restore_data (sample_env Backend_SQLite) Backend_SQLite [3] (after_magic good_trailer) 1
        smuggled_block migrated_sample)) = bk_sent migrated_sample @ sent \<and> list_all (known_insert Backend_SQLite) sent)
   \<and> snd (restore_table_block sample_lib sample_cbor Backend_SQLite smuggled_block migrated_sample) = migrated_sample"
proof -
  have "\<not> (\<exists>spec\<in>set backup_tables. ts_name spec = th_name smuggled_header
      \<and> set (th_columns smuggled_header) \<subseteq> set (column_names spec))"
    by (simp add: backup_tables_def table_names smuggled_header_def) (simp add: spec_simps)
  with smuggled_block_decodes show ?thesis
    using restore_statements_safe [of "sample_env Backend_SQLite" Backend_SQLite "[3]" "after_magic good_trailer" 1
        smuggled_block migrated_sample sample_cbor smuggled_block smuggled_header "[]" sample_lib] by blast
qed

end
