(* ===== verification/Go_Paths.thy ===== *)
theory Go_Paths
  imports Go_Strings
begin

text \<open>
  Slash-separated paths: Go's \<open>path.Clean\<close>, \<open>path.Join\<close> and \<open>path.Ext\<close>, which on Unix are
  also \<open>filepath.Clean\<close>, \<open>filepath.Join\<close> and \<open>filepath.Ext\<close>.
\<close>

section \<open>Cleaning and joining\<close>

definition clean_step :: "bool \<Rightarrow> string list \<Rightarrow> string \<Rightarrow> string list" where
  "clean_step rooted done p =
    (if p = [] \<or> p = ''.'' then done
     else if p \<noteq> ''..'' then done @ [p]
     else if done \<noteq> [] \<and> List.last done \<noteq> ''..'' then butlast done
     else if rooted then done
     else done @ [p])"

definition clean_parts :: "bool \<Rightarrow> string list \<Rightarrow> string list \<Rightarrow> string list" where
  "clean_parts rooted = foldl (clean_step rooted)"

definition path_clean :: "string \<Rightarrow> string" where
  "path_clean p =
    (let rooted = (p \<noteq> [] \<and> hd p = CHR ''/'');
         body = join_with ''/'' (clean_parts rooted [] (split_on CHR ''/'' p))
     in if rooted then CHR ''/'' # body else if body = [] then ''.'' else body)"

definition path_join :: "string list \<Rightarrow> string" where
  "path_join ps =
    (let qs = List.filter (\<lambda>p. p \<noteq> []) ps in if qs = [] then [] else path_clean (join_with ''/'' qs))"

text \<open>The last element of a split path, and the text from its last dot.\<close>

definition last_element :: "string \<Rightarrow> string" where
  "last_element p = List.last (split_on CHR ''/'' p)"

definition path_ext :: "string \<Rightarrow> string" where
  "path_ext p =
    (let parts = split_on CHR ''.'' (last_element p) in
     if length parts \<le> 1 then [] else CHR ''.'' # List.last parts)"

definition has_suffix :: "string \<Rightarrow> string \<Rightarrow> bool" where
  "has_suffix s t \<longleftrightarrow> length t \<le> length s \<and> drop (length s - length t) s = t"

definition has_prefix :: "string \<Rightarrow> string \<Rightarrow> bool" where
  "has_prefix s t \<longleftrightarrow> take (length t) s = t"

lemma has_prefix_append [simp]: "has_prefix (t @ u) t"
  by (simp add: has_prefix_def)

lemma has_prefix_iff: "has_prefix s t \<longleftrightarrow> (\<exists>u. s = t @ u)"
  unfolding has_prefix_def by (metis append_eq_conv_conj append_take_drop_id)

lemma has_suffix_iff: "has_suffix s t \<longleftrightarrow> (\<exists>u. s = u @ t)"
proof
  assume "has_suffix s t"
  then have "s = take (length s - length t) s @ t" by (metis append_take_drop_id has_suffix_def)
  then show "\<exists>u. s = u @ t" ..
qed (auto simp: has_suffix_def)

section \<open>Clean parts\<close>

text \<open>What a cleaned rooted path is made of: proper names, no separators, no dots.\<close>

definition plain_part :: "string \<Rightarrow> bool" where
  "plain_part p \<longleftrightarrow> p \<noteq> [] \<and> p \<noteq> ''.'' \<and> p \<noteq> ''..'' \<and> CHR ''/'' \<notin> set p"

lemma clean_parts_simps [simp]:
  "clean_parts r acc [] = acc" "clean_parts r acc (p # ps) = clean_parts r (clean_step r acc p) ps"
  by (simp_all add: clean_parts_def)

lemma clean_parts_append: "clean_parts r acc (ps @ qs) = clean_parts r (clean_parts r acc ps) qs"
  by (simp add: clean_parts_def)

lemma clean_step_set: "set (clean_step r acc p) \<subseteq> insert p (set acc)"
  by (auto simp: clean_step_def dest: in_set_butlastD)

lemma clean_parts_set: "set (clean_parts r acc ps) \<subseteq> set acc \<union> set ps"
proof (induction ps arbitrary: acc)
  case (Cons p ps)
  show ?case using Cons.IH [of "clean_step r acc p"] clean_step_set [of r acc p] by auto
qed simp

lemma clean_step_plain: "list_all plain_part acc \<Longrightarrow> CHR ''/'' \<notin> set p \<Longrightarrow> list_all plain_part (clean_step True acc p)"
  by (auto simp: clean_step_def list_all_iff plain_part_def dest: in_set_butlastD)

lemma clean_parts_plain:
  "list_all plain_part acc \<Longrightarrow> (\<And>p. p \<in> set ps \<Longrightarrow> CHR ''/'' \<notin> set p) \<Longrightarrow> list_all plain_part (clean_parts True acc ps)"
  by (induction ps arbitrary: acc) (simp_all add: clean_step_plain)

lemma clean_parts_id: "list_all plain_part ps \<Longrightarrow> clean_parts r acc ps = acc @ ps"
  by (induction ps arbitrary: acc) (simp_all add: clean_step_def, simp_all add: plain_part_def)

lemma plain_part_ends:
  assumes "plain_part w"
  shows "w \<noteq> []" "hd w \<noteq> CHR ''/''" "List.last w \<noteq> CHR ''/''"
  using assms hd_in_set [of w] last_in_set [of w] unfolding plain_part_def by metis+

lemma join_plain_ends:
  assumes "list_all plain_part ps" and "ps \<noteq> []"
  shows "join_with ''/'' ps \<noteq> [] \<and> hd (join_with ''/'' ps) \<noteq> CHR ''/'' \<and> List.last (join_with ''/'' ps) \<noteq> CHR ''/''"
  using assms
proof (induction "''/''" ps rule: join_with.induct)
  case (2 w)
  then show ?case using plain_part_ends by simp
next
  case (3 w v ws)
  then show ?case using plain_part_ends [of w] by simp
qed simp

lemma split_join_plain: "list_all plain_part ps \<Longrightarrow> ps \<noteq> [] \<Longrightarrow> split_on CHR ''/'' (join_with ''/'' ps) = ps"
  by (rule split_join) (auto simp: list_all_iff plain_part_def)

end
