(* ===== verification/Client_Trust.thy ===== *)
theory Client_Trust
  imports Hybrid_Signature Go_Paths
begin

text \<open>
  The anchor trust store of the client (src/internal/clientcore/truststore.go and
  anchor.go).  A pin is the pair of anchor public keys first seen for a (server, user)
  pair; the store is a JSON file.  The files of the machine and the faults of its
  operations are the record \<open>client_disk\<close>, which \<open>Client_Operations\<close> extends with the
  connection.  JSON is the argument \<open>trust_codec\<close>.  Error texts are shortened.
\<close>

section \<open>Entries and paths\<close>

record trust_store_entry =
  te_anchor_es384 :: string
  te_anchor_mldsa87 :: string
  te_fingerprint :: string
  te_first_seen :: go_time

type_synonym pins = "string \<rightharpoonup> trust_store_entry"

record trust_store =
  ts_entries :: pins
  ts_path :: string

definition trust_store_key :: "string \<Rightarrow> string \<Rightarrow> string" where
  "trust_store_key server user = server @ ''|'' @ user"

text \<open>The environment: the variable \<open>TRUST_STORE_PATH\<close>, and what \<open>os.UserConfigDir\<close> gives.\<close>

record os_env =
  os_trust_store_path :: string
  os_user_config_dir :: "string option"

definition default_trust_store_path :: "os_env \<Rightarrow> string go_result" where
  "default_trust_store_path env =
    (if os_trust_store_path env \<noteq> [] then Inr (os_trust_store_path env)
     else case os_user_config_dir env of
       None \<Rightarrow> Inl (Err_Msg ''failed to locate user config dir'')
     | Some base \<Rightarrow> Inr (path_join [base, ''revaulter-cli'', ''trust.json'']))"

definition resolve_trust_store_path :: "os_env \<Rightarrow> string \<Rightarrow> string go_result" where
  "resolve_trust_store_path env path = (if path \<noteq> [] then Inr path else default_trust_store_path env)"

section \<open>The file\<close>

datatype save_step =
  Save_Mkdir | Save_Chmod_Dir | Save_Create_Temp | Save_Chmod_Temp | Save_Write nat | Save_Close | Save_Rename

datatype io_fault = Io_Fine | Io_Read_Fails | Io_Save_Fails save_step

text \<open>
  The next load or save takes the head of \<open>dk_faults\<close>; with none left, nothing fails.
  \<open>Save_Write n\<close> fails after \<open>n\<close> bytes.  \<open>dk_temp_name\<close> is the name \<open>os.CreateTemp\<close> picks,
  which opens it exclusively.
\<close>

record client_disk =
  dk_files :: "string \<rightharpoonup> string"
  dk_faults :: "io_fault list"
  dk_temp_name :: string

type_synonym ('z, 'a) disk_op = "('z client_disk_scheme, 'a) go"

record trust_codec =
  tk_decode :: "string \<Rightarrow> pins option option"
  tk_encode :: "trust_store \<Rightarrow> string option"

definition next_fault :: "('z, io_fault) disk_op" where
  "next_fault d =
    (case dk_faults d of [] \<Rightarrow> (Inr Io_Fine, d) | f # fs \<Rightarrow> (Inr f, d\<lparr>dk_faults := fs\<rparr>))"

text \<open>A decoded \<open>null\<close> map (the inner \<open>None\<close>) is replaced by an empty one.\<close>

definition load_trust_store :: "trust_codec \<Rightarrow> string \<Rightarrow> ('z, trust_store) disk_op" where
  "load_trust_store tk path =
    go_bind next_fault (\<lambda>f. if f = Io_Read_Fails then go_fail (Err_Msg ''failed to read trust store'') else (\<lambda>d.
      case dk_files d path of
        None \<Rightarrow> (Inr \<lparr>ts_entries = Map.empty, ts_path = path\<rparr>, d)
      | Some b \<Rightarrow>
         (case tk_decode tk b of
            None \<Rightarrow> (Inl (Err_Msg ''failed to parse trust store''), d)
          | Some m \<Rightarrow>
              (Inr \<lparr>ts_entries = (case m of None \<Rightarrow> Map.empty | Some es \<Rightarrow> es), ts_path = path\<rparr>, d))))"

definition save_step_ok :: "io_fault \<Rightarrow> save_step \<Rightarrow> ('z, unit) disk_op" where
  "save_step_ok f s = (if f = Io_Save_Fails s then go_fail (Err_Msg ''failed to write trust store'') else go_return ())"

definition create_temp :: "io_fault \<Rightarrow> ('z, string) disk_op" where
  "create_temp f d =
    (let tmp = dk_temp_name d in
     if f = Io_Save_Fails Save_Create_Temp \<or> dk_files d tmp \<noteq> None
     then (Inl (Err_Msg ''failed to create temp file''), d)
     else (Inr tmp, d\<lparr>dk_files := (dk_files d)(tmp \<mapsto> [])\<rparr>))"

definition write_temp :: "io_fault \<Rightarrow> string \<Rightarrow> string \<Rightarrow> ('z, unit) disk_op" where
  "write_temp f tmp b d =
    (case f of
       Io_Save_Fails (Save_Write n) \<Rightarrow>
         (Inl (Err_Msg ''failed to write trust store''), d\<lparr>dk_files := (dk_files d)(tmp \<mapsto> take n b)\<rparr>)
     | _ \<Rightarrow> (Inr (), d\<lparr>dk_files := (dk_files d)(tmp \<mapsto> b)\<rparr>))"

definition rename_file :: "string \<Rightarrow> string \<Rightarrow> ('z, unit) disk_op" where
  "rename_file old new d =
    (case dk_files d old of
       None \<Rightarrow> (Inl (Err_Msg ''failed to rename trust store''), d)
     | Some b \<Rightarrow> (Inr (), d\<lparr>dk_files := (dk_files d)(old := None, new \<mapsto> b)\<rparr>))"

text \<open>A deferred removal runs whatever the outcome.\<close>

definition defer_remove :: "string \<Rightarrow> ('z, 'a) disk_op \<Rightarrow> ('z, 'a) disk_op" where
  "defer_remove tmp m d = (case m d of (r, d1) \<Rightarrow> (r, d1\<lparr>dk_files := (dk_files d1)(tmp := None)\<rparr>))"

definition save_trust_store :: "trust_codec \<Rightarrow> string \<Rightarrow> trust_store \<Rightarrow> ('z, unit) disk_op" where
  "save_trust_store tk path ts =
    go_bind next_fault (\<lambda>f.
    go_bind (save_step_ok f Save_Mkdir) (\<lambda>_.
    go_bind (save_step_ok f Save_Chmod_Dir) (\<lambda>_.
    case tk_encode tk ts of None \<Rightarrow> go_fail (Err_Msg ''failed to serialize trust store'') | Some b \<Rightarrow>
    go_bind (create_temp f) (\<lambda>tmp.
    defer_remove tmp (
      go_bind (save_step_ok f Save_Chmod_Temp) (\<lambda>_.
      go_bind (write_temp f tmp b) (\<lambda>_.
      go_bind (save_step_ok f Save_Close) (\<lambda>_.
      go_bind (save_step_ok f Save_Rename) (\<lambda>_.
      rename_file tmp path)))))))))"

section \<open>Checking and pinning\<close>

type_synonym confirm_anchor = "(string \<Rightarrow> string \<Rightarrow> string \<Rightarrow> bool go_result) option"

text \<open>Returns whether the anchor was newly pinned, and the store; a call that fails changes nothing.\<close>

definition check_or_pin_anchor ::
  "('ek, 'mk) crypto \<Rightarrow> go_time \<Rightarrow> confirm_anchor \<Rightarrow> trust_store \<Rightarrow> string \<Rightarrow> string
     \<Rightarrow> 'ek \<Rightarrow> string \<Rightarrow> string \<Rightarrow> string \<Rightarrow> (bool \<times> trust_store) go_result" where
  "check_or_pin_anchor cr now confirm ts server user es_pub es_canonical ml_b64 ml_bytes =
    (case anchor_fingerprint cr (Some es_pub) ml_bytes of
       Inl _ \<Rightarrow> Inl (Err_Msg ''compute anchor fingerprint'')
     | Inr fp \<Rightarrow>
       (case ts_entries ts (trust_store_key server user) of
          Some e \<Rightarrow>
            if te_fingerprint e \<noteq> fp then Inl (Err_Msg ''anchor fingerprint mismatch'')
            else if te_anchor_mldsa87 e \<noteq> ml_b64 then Inl (Err_Msg ''anchor ML-DSA-87 pubkey does not match pin'')
            else if te_anchor_es384 e \<noteq> es_canonical then Inl (Err_Msg ''anchor ES384 pubkey does not match pin'')
            else Inr (False, ts)
        | None \<Rightarrow>
            (case confirm of
               None \<Rightarrow> Inl (Err_Msg ''anchor is not pinned yet'')
             | Some ask \<Rightarrow>
                (case ask server user fp of
                   Inl e \<Rightarrow> Inl e
                 | Inr accepted \<Rightarrow>
                    if \<not> accepted then Inl (Err_Msg ''anchor pin declined by user'')
                    else Inr (True, ts\<lparr>ts_entries := (ts_entries ts)(trust_store_key server user \<mapsto>
                           \<lparr>te_anchor_es384 = es_canonical, te_anchor_mldsa87 = ml_b64,
                            te_fingerprint = fp, te_first_seen = now\<rparr>)\<rparr>)))))"

text \<open>\<open>FormatFingerprint\<close>, on the ASCII text a fingerprint is (byte and rune positions agree).\<close>

fun format_from :: "string \<Rightarrow> nat \<Rightarrow> string \<Rightarrow> string" where
  "format_from line_prefix i [] = []"
| "format_from line_prefix i (c # cs) =
    (if i > 0 \<and> i mod 4 = 0 then (if i mod 16 = 0 then CHR 0x0A # line_prefix else '' '') else [])
    @ c # format_from line_prefix (Suc i) cs"

definition format_fingerprint :: "string \<Rightarrow> nat \<Rightarrow> string" where
  "format_fingerprint fp prefix_spaces =
    (let line_prefix = replicate prefix_spaces CHR '' '' in line_prefix @ format_from line_prefix 0 (go_to_upper fp))"

section \<open>The anchor bundle\<close>

record pubkey_response =
  pk_user_id :: string
  pk_ecdh_p256 :: string
  pk_mlkem768 :: string
  pk_anchor_es384 :: string
  pk_anchor_mldsa87 :: string
  pk_sig_es384 :: string
  pk_sig_mldsa87 :: string
  pk_version :: int

record 'ek pinned_anchor =
  pa_user_id :: string
  pa_es384_pub :: 'ek
  pa_mldsa87_pub_bytes :: string

definition parse_anchor_pubkeys_from_wire :: "('ek, 'mk) crypto \<Rightarrow> string \<Rightarrow> string \<Rightarrow> ('ek \<times> string) go_result" where
  "parse_anchor_pubkeys_from_wire cr es384_jwk mldsa87_b64 =
    (case parse_p384_canonical_body es384_jwk of
       None \<Rightarrow> Inl (Err_Msg ''ES384 JWK'')
     | Some jwk \<Rightarrow>
       (case to_ecdsa_public_key (cr_ecdsa_parse cr) jwk of
          Inl _ \<Rightarrow> Inl (Err_Msg ''ES384 pubkey'')
        | Inr pub \<Rightarrow>
          (case raw_url_decode mldsa87_b64 of
             None \<Rightarrow> Inl (Err_Msg ''ML-DSA-87 pubkey base64'')
           | Some b \<Rightarrow> if length b \<noteq> mldsa87_public_key_size then Inl (Err_Msg ''ML-DSA-87 pubkey: expected 2592 bytes'')
                       else Inr (pub, b))))"

definition decode_hybrid_signatures :: "string \<Rightarrow> string \<Rightarrow> (string \<times> string) go_result" where
  "decode_hybrid_signatures es384_b64 mldsa87_b64 =
    (case decode_base64_signature es384_b64 es384_signature_size of
       Inl _ \<Rightarrow> Inl (Err_Msg ''ES384 sig'')
     | Inr es \<Rightarrow>
       (case decode_base64_signature mldsa87_b64 mldsa87_signature_size of
          Inl _ \<Rightarrow> Inl (Err_Msg ''ML-DSA-87 sig'')
        | Inr ml \<Rightarrow> Inr (es, ml)))"

text \<open>The two payloads differ in their last field: \<open>wrappedKeyEpoch\<close> of version 1, \<open>v\<close> of version 2.\<close>

definition client_bundle :: "pubkey_response \<Rightarrow> ec_jwk \<Rightarrow> int \<Rightarrow> pubkey_bundle_payload" where
  "client_bundle resp jwk last_value =
    \<lparr>bp_user_id = pk_user_id resp, bp_request_enc_ecdh_pubkey = pk_ecdh_p256 resp,
     bp_request_enc_mlkem_pubkey = pk_mlkem768 resp, bp_anchor_es384_crv = jwk_crv jwk,
     bp_anchor_es384_kty = jwk_kty jwk, bp_anchor_es384_x = jwk_x jwk, bp_anchor_es384_y = jwk_y jwk,
     bp_anchor_mldsa87_public_key = pk_anchor_mldsa87 resp, bp_last = last_value\<rparr>"

definition verify_served_bundle ::
  "('ek, 'mk) crypto \<Rightarrow> pubkey_response \<Rightarrow> ec_jwk \<Rightarrow> 'ek \<Rightarrow> string \<Rightarrow> string \<Rightarrow> string \<Rightarrow> unit go_result" where
  "verify_served_bundle cr resp jwk es_pub ml_bytes sig_es sig_ml =
    (let version = (if pk_version resp = 0 then 1 else pk_version resp) in
     if version = 1 then
       (case verify_hybrid_bundle cr (Some es_pub) ml_bytes (client_bundle resp jwk 1) sig_es sig_ml of
          Inl _ \<Rightarrow> Inl (Err_Msg ''pubkey bundle signature verification failed'') | Inr _ \<Rightarrow> Inr ())
     else if version = 2 then
       (case verify_hybrid_bundle_v2 cr (Some es_pub) ml_bytes (client_bundle resp jwk 2) sig_es sig_ml of
          Inl _ \<Rightarrow> Inl (Err_Msg ''pubkey bundle signature verification failed'') | Inr _ \<Rightarrow> Inr ())
     else Inl (Err_Msg ''server advertised unsupported pubkey bundle version''))"

definition verify_and_pin_anchor ::
  "('ek, 'mk) crypto \<Rightarrow> go_time \<Rightarrow> confirm_anchor \<Rightarrow> string \<Rightarrow> pubkey_response \<Rightarrow> trust_store
     \<Rightarrow> (bool \<times> trust_store) go_result" where
  "verify_and_pin_anchor cr now confirm server resp ts =
    (if pk_anchor_es384 resp = [] \<or> pk_anchor_mldsa87 resp = [] \<or> pk_sig_es384 resp = [] \<or> pk_sig_mldsa87 resp = []
       then Inl (Err_Msg ''server did not return a hybrid anchor bundle'')
     else if pk_user_id resp = [] then Inl (Err_Msg ''server did not return userId'')
     else case parse_anchor_pubkeys_from_wire cr (pk_anchor_es384 resp) (pk_anchor_mldsa87 resp) of
       Inl _ \<Rightarrow> Inl (Err_Msg ''invalid anchor public key'')
     | Inr (es_pub, ml_bytes) \<Rightarrow>
       (case parse_p384_canonical_body (pk_anchor_es384 resp) of
          None \<Rightarrow> Inl (Err_Msg ''invalid anchorEs384PublicKey'')
        | Some jwk \<Rightarrow>
          (case decode_hybrid_signatures (pk_sig_es384 resp) (pk_sig_mldsa87 resp) of
             Inl _ \<Rightarrow> Inl (Err_Msg ''invalid pubkey bundle signature'')
           | Inr (sig_es, sig_ml) \<Rightarrow>
             (case verify_served_bundle cr resp jwk es_pub ml_bytes sig_es sig_ml of
                Inl e \<Rightarrow> Inl e
              | Inr _ \<Rightarrow> check_or_pin_anchor cr now confirm ts server (pk_user_id resp) es_pub
                           (pk_anchor_es384 resp) (pk_anchor_mldsa87 resp) ml_bytes))))"

section \<open>The file is replaced whole or not at all\<close>

lemma next_fault_cases:
  obtains fs f where "next_fault d = (Inr f, d\<lparr>dk_faults := fs\<rparr>)"
  by (cases "dk_faults d") (auto simp: next_fault_def intro: that [of Io_Fine "dk_faults d"] that)

lemma save_outcome:
  assumes "save_trust_store tk path ts d = (r, d1)" and "dk_temp_name d \<noteq> path"
  shows "(\<exists>b. r = Inr () \<and> tk_encode tk ts = Some b \<and> dk_files d1 = (dk_files d)(path \<mapsto> b))
       \<or> (\<not> is_ok r \<and> dk_files d1 = dk_files d)"
proof -
  obtain fs f where f: "next_fault d = (Inr f, d\<lparr>dk_faults := fs\<rparr>)" by (rule next_fault_cases)
  note unfolded = assms(1) [unfolded save_trust_store_def go_bind_def f]
  show ?thesis
    using unfolded assms(2)
    by (auto simp: save_step_ok_def create_temp_def write_temp_def rename_file_def defer_remove_def go_bind_def Let_def
        fun_eq_iff split: if_splits option.splits io_fault.splits save_step.splits)
qed

lemma load_keeps_files: "dk_files (snd (load_trust_store tk path d)) = dk_files d"
  by (cases "next_fault d")
    (auto simp: load_trust_store_def go_bind_def next_fault_def split: list.splits option.splits sum.splits)

lemma disk_temp_name [simp]:
  "dk_temp_name (snd (load_trust_store tk path d)) = dk_temp_name d"
  "dk_temp_name (snd (save_trust_store tk path ts d)) = dk_temp_name d"
proof -
  obtain fs f where f: "next_fault d = (Inr f, d\<lparr>dk_faults := fs\<rparr>)" by (rule next_fault_cases)
  show "dk_temp_name (snd (load_trust_store tk path d)) = dk_temp_name d"
    by (simp add: load_trust_store_def go_bind_def f split: option.splits)
  show "dk_temp_name (snd (save_trust_store tk path ts d)) = dk_temp_name d"
    by (simp add: save_trust_store_def go_bind_def f save_step_ok_def create_temp_def write_temp_def rename_file_def
        defer_remove_def Let_def split: option.splits io_fault.splits save_step.splits)
qed

section \<open>What an accepted anchor means\<close>

lemma check_or_pin_accepted:
  assumes "check_or_pin_anchor cr now confirm ts server user es_pub es ml ml_bytes = Inr (pinned, ts1)"
  obtains fp where "anchor_fingerprint cr (Some es_pub) ml_bytes = Inr fp"
    and "\<not> pinned \<Longrightarrow> ts1 = ts \<and> (\<exists>t. ts_entries ts (trust_store_key server user) =
           Some \<lparr>te_anchor_es384 = es, te_anchor_mldsa87 = ml, te_fingerprint = fp, te_first_seen = t\<rparr>)"
    and "pinned \<Longrightarrow> ts_entries ts (trust_store_key server user) = None
           \<and> (\<exists>ask. confirm = Some ask \<and> ask server user fp = Inr True)
           \<and> ts1 = ts\<lparr>ts_entries := (ts_entries ts)(trust_store_key server user \<mapsto>
                \<lparr>te_anchor_es384 = es, te_anchor_mldsa87 = ml, te_fingerprint = fp, te_first_seen = now\<rparr>)\<rparr>"
proof -
  have entry: "\<exists>t. e = \<lparr>te_anchor_es384 = te_anchor_es384 e, te_anchor_mldsa87 = te_anchor_mldsa87 e,
      te_fingerprint = te_fingerprint e, te_first_seen = t\<rparr>" for e
    by (rule exI [of _ "te_first_seen e"]) simp
  obtain fp where fp: "anchor_fingerprint cr (Some es_pub) ml_bytes = Inr fp"
    using assms by (auto simp: check_or_pin_anchor_def split: sum.splits)
  show thesis
    using assms entry
    by (intro that [OF fp]) (auto simp: check_or_pin_anchor_def fp split: option.splits if_splits sum.splits)
qed

lemma verify_and_pin_steps:
  assumes "verify_and_pin_anchor cr now confirm server resp ts = Inr (pinned, ts1)"
  obtains es_pub ml_bytes jwk sig_es sig_ml
  where "parse_anchor_pubkeys_from_wire cr (pk_anchor_es384 resp) (pk_anchor_mldsa87 resp) = Inr (es_pub, ml_bytes)"
    and "parse_p384_canonical_body (pk_anchor_es384 resp) = Some jwk"
    and "decode_hybrid_signatures (pk_sig_es384 resp) (pk_sig_mldsa87 resp) = Inr (sig_es, sig_ml)"
    and "verify_served_bundle cr resp jwk es_pub ml_bytes sig_es sig_ml = Inr ()"
    and "check_or_pin_anchor cr now confirm ts server (pk_user_id resp) es_pub (pk_anchor_es384 resp)
           (pk_anchor_mldsa87 resp) ml_bytes = Inr (pinned, ts1)"
    and "pk_user_id resp \<noteq> []"
  using assms by (auto simp: verify_and_pin_anchor_def split: if_splits sum.splits option.splits)

text \<open>The entry that vouches for the served keys is in the store afterwards, and no other entry changed.\<close>

definition pinned_as :: "pins \<Rightarrow> string \<Rightarrow> pubkey_response \<Rightarrow> bool" where
  "pinned_as m server resp \<longleftrightarrow>
     (\<exists>e. m (trust_store_key server (pk_user_id resp)) = Some e
        \<and> te_anchor_es384 e = pk_anchor_es384 resp \<and> te_anchor_mldsa87 e = pk_anchor_mldsa87 resp)"

lemma verify_and_pin_pins:
  assumes "verify_and_pin_anchor cr now confirm server resp ts = Inr (pinned, ts1)"
  shows "ts_entries ts \<subseteq>\<^sub>m ts_entries ts1" and "pinned_as (ts_entries ts1) server resp"
    and "\<not> pinned \<Longrightarrow> ts1 = ts" and "confirm = None \<Longrightarrow> \<not> pinned"
proof -
  obtain es_pub ml_bytes where check: "check_or_pin_anchor cr now confirm ts server (pk_user_id resp) es_pub
      (pk_anchor_es384 resp) (pk_anchor_mldsa87 resp) ml_bytes = Inr (pinned, ts1)"
    using assms by (elim verify_and_pin_steps)
  obtain fp where old: "\<not> pinned \<Longrightarrow> ts1 = ts \<and> (\<exists>t. ts_entries ts (trust_store_key server (pk_user_id resp)) =
           Some \<lparr>te_anchor_es384 = pk_anchor_es384 resp, te_anchor_mldsa87 = pk_anchor_mldsa87 resp,
                 te_fingerprint = fp, te_first_seen = t\<rparr>)"
    and new: "pinned \<Longrightarrow> ts_entries ts (trust_store_key server (pk_user_id resp)) = None
           \<and> (\<exists>ask. confirm = Some ask \<and> ask server (pk_user_id resp) fp = Inr True)
           \<and> ts1 = ts\<lparr>ts_entries := (ts_entries ts)(trust_store_key server (pk_user_id resp) \<mapsto>
                \<lparr>te_anchor_es384 = pk_anchor_es384 resp, te_anchor_mldsa87 = pk_anchor_mldsa87 resp,
                 te_fingerprint = fp, te_first_seen = now\<rparr>)\<rparr>"
    using check by (rule check_or_pin_accepted) blast
  show "\<not> pinned \<Longrightarrow> ts1 = ts" using old by simp
  show "confirm = None \<Longrightarrow> \<not> pinned" using new by auto
  show "ts_entries ts \<subseteq>\<^sub>m ts_entries ts1" using old new by (cases pinned) (auto simp: map_le_def)
  show "pinned_as (ts_entries ts1) server resp" using old new by (cases pinned) (auto simp: pinned_as_def)
qed

section \<open>Fingerprints shown to the operator\<close>

lemma format_from_content:
  assumes "CHR '' '' \<notin> set s" "CHR 0x0A \<notin> set s"
  shows "List.filter (\<lambda>c. c \<noteq> CHR '' '' \<and> c \<noteq> CHR 0x0A) (format_from (replicate n CHR '' '') i s) = s"
  using assms by (induction s arbitrary: i) auto

text \<open>Two fingerprints that read the same on the screen are the same up to letter case.\<close>

lemma format_fingerprint_faithful:
  assumes "CHR '' '' \<notin> set (go_to_upper fp)" "CHR 0x0A \<notin> set (go_to_upper fp)"
  shows "List.filter (\<lambda>c. c \<noteq> CHR '' '' \<and> c \<noteq> CHR 0x0A) (format_fingerprint fp n) = go_to_upper fp"
  using format_from_content [OF assms] by (simp add: format_fingerprint_def Let_def)

end
