(* ===== verification/Client_Transport.thy ===== *)
theory Client_Transport
  imports Client_Trust
begin

text \<open>
  The end-to-end encrypted envelopes (src/internal/clientcore/transport.go), with the
  browser's side of both (src/client/web/src/lib/crypto.ts and crypto-ecdh.ts) that the
  round trips are stated against.  Keys are their byte encodings; the primitives of
  crypto/ecdh, crypto/mlkem, crypto/hkdf and AES-GCM are the fields of \<open>transport_crypto\<close>,
  an argument of every definition, and the laws the round trips rely on are \<open>transport_laws\<close>.
\<close>

record transport_crypto =
  tc_p256_generate :: "string \<Rightarrow> string"
  tc_p256_public :: "string \<Rightarrow> string"
  tc_new_p256 :: "string \<Rightarrow> string option"
  tc_ecdh :: "string \<Rightarrow> string \<Rightarrow> string option"
  tc_mlkem_generate :: "string \<Rightarrow> string"
  tc_mlkem_public :: "string \<Rightarrow> string"
  tc_new_mlkem768 :: "string \<Rightarrow> string option"
  tc_encapsulate :: "string \<Rightarrow> string \<Rightarrow> string \<times> string"
  tc_decapsulate :: "string \<Rightarrow> string \<Rightarrow> string option"
  tc_hkdf :: "string \<Rightarrow> string \<Rightarrow> nat \<Rightarrow> string option"
  tc_seal :: "string \<Rightarrow> string \<Rightarrow> string \<Rightarrow> string \<Rightarrow> string"
  tc_open :: "string \<Rightarrow> string \<Rightarrow> string \<Rightarrow> string \<Rightarrow> string option"

definition gcm_nonce_size :: nat where "gcm_nonce_size = 12"

section \<open>Randomness\<close>

text \<open>Every read of the system's random source takes the head of \<open>rd_draws\<close>.\<close>

record client_random = client_disk +
  rd_draws :: "string option list"

type_synonym ('z, 'a) random_op = "('z client_random_scheme, 'a) go"

definition draw_random :: "('z, string) random_op" where
  "draw_random d =
    (case rd_draws d of
       Some b # rest \<Rightarrow> (Inr b, d\<lparr>rd_draws := rest\<rparr>)
     | None # rest \<Rightarrow> (Inl Err_Random, d\<lparr>rd_draws := rest\<rparr>)
     | [] \<Rightarrow> (Inl Err_Random, d))"

text \<open>\<open>io.ReadFull(rand.Reader, nonce)\<close>\<close>

definition read_full :: "nat \<Rightarrow> ('z, string) random_op" where
  "read_full n = go_bind draw_random (\<lambda>b. if length b < n then go_fail Err_Random else go_return (take n b))"

section \<open>Transport key pairs\<close>

record transport_key_pair =
  kp_ecdh_private :: "string option"
  kp_ecdh_public :: ec_jwk
  kp_mlkem_private :: "string option"
  kp_mlkem_public :: string

definition new_transport_key_pair :: "transport_crypto \<Rightarrow> ('z, transport_key_pair) random_op" where
  "new_transport_key_pair tc =
    go_bind draw_random (\<lambda>r.
    let priv = tc_p256_generate tc r in
    go_bind (go_lift (p256_jwk_from_ecdh (Some (tc_p256_public tc priv)))) (\<lambda>pub.
    go_bind draw_random (\<lambda>seed.
    let dk = tc_mlkem_generate tc seed in
    go_return \<lparr>kp_ecdh_private = Some priv, kp_ecdh_public = pub, kp_mlkem_private = Some dk,
               kp_mlkem_public = raw_url_encode (tc_mlkem_public tc dk)\<rparr>)))"

section \<open>Additional data\<close>

definition build_transport_aad :: "string \<Rightarrow> string \<Rightarrow> string \<Rightarrow> string" where
  "build_transport_aad state operation algorithm =
     ''algorithm='' @ algorithm @ CHR 0x0A # ''operation='' @ operation @ CHR 0x0A # ''state='' @ state
     @ CHR 0x0A # ''v=1''"

definition build_request_enc_aad :: "string \<Rightarrow> string \<Rightarrow> string \<Rightarrow> string" where
  "build_request_enc_aad algorithm key_label operation =
     ''algorithm='' @ algorithm @ CHR 0x0A # ''keyLabel='' @ key_label @ CHR 0x0A # ''operation='' @ operation
     @ CHR 0x0A # ''v=1''"

section \<open>Decrypting the browser's response\<close>

definition client_validate_envelope :: "response_envelope \<Rightarrow> unit go_result" where
  "client_validate_envelope env =
    (if env_transport_alg env \<noteq> transport_alg then Inl (Err_Msg ''unsupported transportAlg'')
     else case validate_public_p256 (env_browser_ephemeral_public_key env) of
       Inl e \<Rightarrow> Inl e
     | Inr _ \<Rightarrow> if env_mlkem_ciphertext env = [] then Inl (Err_Msg ''missing mlkemCiphertext in response envelope'')
                else Inr ())"

definition derive_transport_key :: "transport_crypto \<Rightarrow> string \<Rightarrow> string \<Rightarrow> string go_result" where
  "derive_transport_key tc shared state =
    (case tc_hkdf tc shared (''revaulter/v2/transport/'' @ state) 32 of
       None \<Rightarrow> Inl (Err_Msg ''failed to derive transport key'') | Some k \<Rightarrow> Inr k)"

text \<open>\<open>aes.NewCipher\<close> takes keys of three sizes.\<close>

definition new_aes_cipher :: "string \<Rightarrow> string go_result" where
  "new_aes_cipher key = (if length key \<in> {16, 24, 32} then Inr key else Inl (Err_Msg ''invalid key size''))"

definition flexible_bytes :: "string \<Rightarrow> string \<Rightarrow> string go_result" where
  "flexible_bytes what s =
    (case decode_base64_string s of None \<Rightarrow> Inl (Err_Msg what)
     | Some b \<Rightarrow> Inr (case b of None \<Rightarrow> [] | Some bs \<Rightarrow> bs))"

definition envelope_key :: "transport_crypto \<Rightarrow> string \<Rightarrow> string \<Rightarrow> string \<Rightarrow> response_envelope \<Rightarrow> string go_result" where
  "envelope_key tc state priv dk env =
    (case to_ecdh_public_key (tc_new_p256 tc) (env_browser_ephemeral_public_key env) of
       Inl _ \<Rightarrow> Inl (Err_Msg ''invalid browserEphemeralPublicKey'')
     | Inr peer \<Rightarrow> (case tc_ecdh tc priv peer of
         None \<Rightarrow> Inl (Err_Msg ''failed ECDH'')
       | Some ecdh_shared \<Rightarrow> (case flexible_bytes ''invalid mlkemCiphertext'' (env_mlkem_ciphertext env) of
           Inl e \<Rightarrow> Inl e
         | Inr ct \<Rightarrow> (case tc_decapsulate tc dk ct of
             None \<Rightarrow> Inl (Err_Msg ''ML-KEM decapsulation failed'')
           | Some mlkem_shared \<Rightarrow> (case derive_transport_key tc (ecdh_shared @ mlkem_shared) state of
               Inl e \<Rightarrow> Inl e
             | Inr key \<Rightarrow> new_aes_cipher key)))))"

definition decrypt_response_envelope ::
  "transport_crypto \<Rightarrow> string \<Rightarrow> transport_key_pair option \<Rightarrow> response_envelope option \<Rightarrow> string \<Rightarrow> string go_result" where
  "decrypt_response_envelope tc state kp env aad =
    (case Option.bind kp (\<lambda>k. Option.bind (kp_ecdh_private k) (\<lambda>p. map_option (Pair p) (kp_mlkem_private k))) of
       None \<Rightarrow> Inl (Err_Msg ''missing client transport key pair'')
     | Some (priv, dk) \<Rightarrow>
       (case env of None \<Rightarrow> Inl (Err_Msg ''missing responseEnvelope'')
        | Some e \<Rightarrow> (case client_validate_envelope e of
            Inl err \<Rightarrow> Inl err
          | Inr _ \<Rightarrow> (case envelope_key tc state priv dk e of
              Inl err \<Rightarrow> Inl err
            | Inr key \<Rightarrow> (case flexible_bytes ''invalid nonce'' (env_nonce e) of
                Inl err \<Rightarrow> Inl err
              | Inr nonce \<Rightarrow>
                if length nonce \<noteq> gcm_nonce_size then Inl (Err_Msg ''invalid nonce: bad size'')
                else (case flexible_bytes ''invalid ciphertext'' (env_ciphertext e) of
                  Inl err \<Rightarrow> Inl err
                | Inr ciphertext \<Rightarrow> (case tc_open tc key nonce ciphertext aad of
                    None \<Rightarrow> Inl (Err_Msg ''failed to decrypt envelope'')
                  | Some plain \<Rightarrow> Inr plain)))))))"

section \<open>Encrypting the request\<close>

record request_payload_inner =
  rpi_value :: string
  rpi_nonce :: string
  rpi_tag :: string
  rpi_additional_data :: string
  rpi_client_transport_ecdh_key :: ec_jwk
  rpi_client_transport_mlkem_key :: string

record encrypted_request =
  er_cli_ephemeral_public_key :: ec_jwk
  er_mlkem_ciphertext :: string
  er_nonce :: string
  er_ciphertext :: string

text \<open>\<open>json.Marshal\<close> of the payload is the argument \<open>marshal\<close>.\<close>

definition encrypt_request_payload ::
  "transport_crypto \<Rightarrow> (request_payload_inner \<Rightarrow> string option) \<Rightarrow> string \<Rightarrow> string \<Rightarrow> request_payload_inner \<Rightarrow> string
     \<Rightarrow> ('z, encrypted_request) random_op" where
  "encrypt_request_payload tc marshal peer_ecdh peer_mlkem payload aad =
    go_bind draw_random (\<lambda>r.
    let eph = tc_p256_generate tc r in
    go_bind (go_lift (p256_jwk_from_ecdh (Some (tc_p256_public tc eph)))) (\<lambda>eph_pub.
    case tc_ecdh tc eph peer_ecdh of None \<Rightarrow> go_fail (Err_Msg ''failed ECDH'') | Some ecdh_shared \<Rightarrow>
    go_bind draw_random (\<lambda>coins.
    let (mlkem_shared, mlkem_ct) = tc_encapsulate tc peer_mlkem coins in
    case tc_hkdf tc (ecdh_shared @ mlkem_shared) ''revaulter/v2/request-enc'' 32 of
      None \<Rightarrow> go_fail (Err_Msg ''failed to derive request encryption key'')
    | Some key0 \<Rightarrow>
    go_bind (go_lift (new_aes_cipher key0)) (\<lambda>key.
    go_bind (read_full gcm_nonce_size) (\<lambda>nonce.
    case marshal payload of None \<Rightarrow> go_fail (Err_Msg ''failed to serialize payload'') | Some plain \<Rightarrow>
    go_return
      \<lparr>er_cli_ephemeral_public_key = eph_pub, er_mlkem_ciphertext = raw_url_encode mlkem_ct,
       er_nonce = raw_url_encode nonce, er_ciphertext = raw_url_encode (tc_seal tc key nonce plain aad)\<rparr>)))))"

section \<open>The browser's side\<close>

text \<open>
  \<open>base64UrlToBytes\<close> reads with a third-party decoder, the argument \<open>unb64\<close>; an
  exception is \<open>None\<close>.  The browser's libraries implement the same standards as Go's, so
  the primitives are the same argument.
\<close>

definition ec_p256_jwk_to_public_bytes :: "(string \<Rightarrow> string option) \<Rightarrow> ec_jwk \<Rightarrow> string option" where
  "ec_p256_jwk_to_public_bytes unb64 j =
    (case (unb64 (jwk_x j), unb64 (jwk_y j)) of
       (Some x, Some y) \<Rightarrow> if length x \<noteq> 32 \<or> length y \<noteq> 32 then None else Some (char_of (4::nat) # x @ y)
     | _ \<Rightarrow> None)"

definition derive_ecdh_shared_secret ::
  "transport_crypto \<Rightarrow> (string \<Rightarrow> string option) \<Rightarrow> string \<Rightarrow> ec_jwk \<Rightarrow> string option" where
  "derive_ecdh_shared_secret tc unb64 scalar peer =
    Option.bind (Option.bind (ec_p256_jwk_to_public_bytes unb64 peer) (tc_new_p256 tc)) (tc_ecdh tc scalar)"

definition derive_hybrid_aes_key :: "transport_crypto \<Rightarrow> string \<Rightarrow> string \<Rightarrow> string \<Rightarrow> string option" where
  "derive_hybrid_aes_key tc ecdh_shared mlkem_shared info = tc_hkdf tc (ecdh_shared @ mlkem_shared) info 32"

text \<open>The static keys the browser derives from the primary key are \<open>scalar\<close> and \<open>mlkem_sk\<close>.\<close>

definition browser_decrypt_request ::
  "transport_crypto \<Rightarrow> (string \<Rightarrow> string option) \<Rightarrow> (string \<Rightarrow> request_payload_inner option) \<Rightarrow> string \<Rightarrow> string
     \<Rightarrow> request_enc_envelope \<Rightarrow> string \<Rightarrow> request_payload_inner option" where
  "browser_decrypt_request tc unb64 json_parse scalar mlkem_sk env aad =
    Option.bind (derive_ecdh_shared_secret tc unb64 scalar (renv_cli_ephemeral_public_key env)) (\<lambda>ecdh_shared.
    Option.bind (unb64 (renv_mlkem_ciphertext env)) (\<lambda>mlkem_ct.
    Option.bind (tc_decapsulate tc mlkem_sk mlkem_ct) (\<lambda>mlkem_shared.
    Option.bind (derive_hybrid_aes_key tc ecdh_shared mlkem_shared ''revaulter/v2/request-enc'') (\<lambda>key.
    Option.bind (unb64 (renv_nonce env)) (\<lambda>nonce.
    Option.bind (unb64 (renv_ciphertext env)) (\<lambda>ct.
    Option.bind (tc_open tc key nonce ct aad) json_parse))))))"

definition ec_p256_scalar_to_public_jwk :: "transport_crypto \<Rightarrow> string \<Rightarrow> ec_jwk option" where
  "ec_p256_scalar_to_public_jwk tc scalar =
    (let pub = tc_p256_public tc scalar in
     if length pub \<noteq> 65 \<or> hd pub \<noteq> char_of (4::nat) then None
     else Some \<lparr>jwk_kty = ''EC'', jwk_crv = ''P-256'', jwk_x = raw_url_encode (take 32 (drop 1 pub)),
                jwk_y = raw_url_encode (take 32 (drop 33 pub)), jwk_d = [], jwk_kid = [], jwk_alg = [], jwk_use = []\<rparr>)"

text \<open>The random inputs: the ephemeral key, the encapsulation coins and the nonce.\<close>

definition encrypt_transport_envelope ::
  "transport_crypto \<Rightarrow> (string \<Rightarrow> string option) \<Rightarrow> string \<Rightarrow> string \<Rightarrow> string
     \<Rightarrow> string \<Rightarrow> ec_jwk \<Rightarrow> string \<Rightarrow> string \<Rightarrow> string \<Rightarrow> response_envelope option" where
  "encrypt_transport_envelope tc unb64 eph coins nonce state client_ecdh client_mlkem plaintext aad =
    Option.bind (ec_p256_scalar_to_public_jwk tc eph) (\<lambda>eph_pub.
    Option.bind (derive_ecdh_shared_secret tc unb64 eph client_ecdh) (\<lambda>ecdh_shared.
    Option.bind (Option.bind (unb64 client_mlkem) (tc_new_mlkem768 tc)) (\<lambda>mlkem_pub.
    let (mlkem_shared, mlkem_ct) = tc_encapsulate tc mlkem_pub coins in
    Option.bind (derive_hybrid_aes_key tc ecdh_shared mlkem_shared (''revaulter/v2/transport/'' @ state)) (\<lambda>key.
    Some \<lparr>env_transport_alg = ''ecdh-p256+mlkem768+a256gcm'', env_browser_ephemeral_public_key = eph_pub,
          env_mlkem_ciphertext = raw_url_encode mlkem_ct, env_nonce = raw_url_encode nonce,
          env_ciphertext = raw_url_encode (tc_seal tc key nonce plaintext aad), env_result_type = ''bytes''\<rparr>))))"

section \<open>The laws of the primitives\<close>

text \<open>
  Generated P-256 keys encode as uncompressed points and agree on a shared secret,
  encapsulation is undone by decapsulation, HKDF gives 32 bytes when asked for them,
  and AES-256-GCM opens what it sealed.
\<close>

definition transport_laws :: "transport_crypto \<Rightarrow> bool" where
  "transport_laws tc \<longleftrightarrow>
     (\<forall>r. length (tc_p256_public tc (tc_p256_generate tc r)) = 65
        \<and> hd (tc_p256_public tc (tc_p256_generate tc r)) = char_of (4::nat)
        \<and> tc_new_p256 tc (tc_p256_public tc (tc_p256_generate tc r)) = Some (tc_p256_public tc (tc_p256_generate tc r)))
   \<and> (\<forall>r s. \<exists>z. tc_ecdh tc (tc_p256_generate tc r) (tc_p256_public tc (tc_p256_generate tc s)) = Some z
        \<and> tc_ecdh tc (tc_p256_generate tc s) (tc_p256_public tc (tc_p256_generate tc r)) = Some z)
   \<and> (\<forall>seed coins. tc_new_mlkem768 tc (tc_mlkem_public tc (tc_mlkem_generate tc seed)) =
          Some (tc_mlkem_public tc (tc_mlkem_generate tc seed))
        \<and> snd (tc_encapsulate tc (tc_mlkem_public tc (tc_mlkem_generate tc seed)) coins) \<noteq> []
        \<and> tc_decapsulate tc (tc_mlkem_generate tc seed)
            (snd (tc_encapsulate tc (tc_mlkem_public tc (tc_mlkem_generate tc seed)) coins)) =
          Some (fst (tc_encapsulate tc (tc_mlkem_public tc (tc_mlkem_generate tc seed)) coins)))
   \<and> (\<forall>secret info. \<exists>k. tc_hkdf tc secret info 32 = Some k \<and> length k = 32)
   \<and> (\<forall>k n p a. length k = 32 \<longrightarrow> length n = 12 \<longrightarrow> tc_seal tc k n p a \<noteq> [] \<and> tc_open tc k n (tc_seal tc k n p a) a = Some p)"

definition reads_base64url :: "(string \<Rightarrow> string option) \<Rightarrow> bool" where
  "reads_base64url unb64 \<longleftrightarrow> (\<forall>b. unb64 (raw_url_encode b) = Some b)"

lemma point_split: "length raw = 65 \<Longrightarrow> hd raw = c \<Longrightarrow> c # take 32 (drop 1 raw) @ drop 33 raw = raw"
proof -
  assume len: "length raw = 65" and c: "hd raw = c"
  then obtain t where t: "raw = c # t" by (cases raw) auto
  then show ?thesis using append_take_drop_id [of 32 t] by simp
qed

text \<open>The JWK of a generated key, made by either side and read by either side.\<close>

definition point_jwk :: "string \<Rightarrow> ec_jwk" where
  "point_jwk raw = \<lparr>jwk_kty = ''EC'', jwk_crv = ''P-256'', jwk_x = raw_url_encode (take 32 (drop 1 raw)),
     jwk_y = raw_url_encode (drop 33 raw), jwk_d = [], jwk_kid = [], jwk_alg = [], jwk_use = []\<rparr>"

lemma point_jwk_made:
  assumes "length raw = 65" "hd raw = char_of (4::nat)"
  shows "p256_jwk_from_ecdh (Some raw) = Inr (point_jwk raw)"
    and "tc_p256_public tc k = raw \<Longrightarrow> ec_p256_scalar_to_public_jwk tc k = Some (point_jwk raw)"
  using assms
  by (simp_all add: p256_jwk_from_ecdh_def ec_jwk_of_point_def point_jwk_def ec_p256_scalar_to_public_jwk_def)

lemma point_jwk_valid: "length raw = 65 \<Longrightarrow> validate_public_p256 (point_jwk raw) = Inr ()"
  by (simp add: validate_public_p256_def validate_public_jwk_def point_jwk_def raw_encode_empty_iff)

lemma point_jwk_read:
  assumes "length raw = 65" "hd raw = char_of (4::nat)" "tc_new_p256 tc raw = Some raw"
  shows "to_ecdh_public_key (tc_new_p256 tc) (point_jwk raw) = Inr raw"
    and "reads_base64url unb64 \<Longrightarrow> derive_ecdh_shared_secret tc unb64 k (point_jwk raw) = tc_ecdh tc k raw"
proof -
  have whole: "char_of (4::nat) # take 32 (drop 1 raw) @ drop 33 raw = raw"
    using assms by (intro point_split) simp_all
  show "to_ecdh_public_key (tc_new_p256 tc) (point_jwk raw) = Inr raw"
    using whole assms by (simp add: to_ecdh_public_key_def point_jwk_valid) (simp add: point_jwk_def)
  show "reads_base64url unb64 \<Longrightarrow> derive_ecdh_shared_secret tc unb64 k (point_jwk raw) = tc_ecdh tc k raw"
    using whole assms
    by (simp add: reads_base64url_def derive_ecdh_shared_secret_def ec_p256_jwk_to_public_bytes_def point_jwk_def)
qed

lemma generated_point:
  assumes "transport_laws tc"
  shows "length (tc_p256_public tc (tc_p256_generate tc r)) = 65"
    and "hd (tc_p256_public tc (tc_p256_generate tc r)) = char_of (4::nat)"
    and "tc_new_p256 tc (tc_p256_public tc (tc_p256_generate tc r)) = Some (tc_p256_public tc (tc_p256_generate tc r))"
  using assms by (simp_all add: transport_laws_def)

lemma ecdh_agrees:
  assumes "transport_laws tc" and "tc_ecdh tc (tc_p256_generate tc r) (tc_p256_public tc (tc_p256_generate tc s)) = Some z"
  shows "tc_ecdh tc (tc_p256_generate tc s) (tc_p256_public tc (tc_p256_generate tc r)) = Some z"
  using assms unfolding transport_laws_def by (metis option.inject)

lemma hkdf_length:
  assumes "transport_laws tc" and "tc_hkdf tc secret info 32 = Some k"
  shows "length k = 32"
proof -
  have "\<exists>k. tc_hkdf tc secret info 32 = Some k \<and> length k = 32" using assms(1) by (simp add: transport_laws_def)
  then show ?thesis using assms(2) by simp
qed

lemma decode_base64_string_encode: "decode_base64_string (raw_url_encode b) = Some (if b = [] then None else Some b)"
  by (simp add: decode_base64_string_def raw_encode_empty_iff trim_padding_id no_padding_in_encoding raw_decode_encode)

lemma flexible_bytes_encode [simp]: "flexible_bytes what (raw_url_encode b) = Inr b"
  by (simp add: flexible_bytes_def decode_base64_string_encode)

lemma read_full_length: "read_full gcm_nonce_size s = (Inr b, s1) \<Longrightarrow> length b = 12"
  by (auto simp: read_full_def gcm_nonce_size_def go_ok_iffs split: if_splits)

section \<open>Round trips\<close>

text \<open>How an encrypted request is put together.\<close>

lemma encrypted_request_made:
  assumes laws: "transport_laws tc"
    and enc: "encrypt_request_payload tc marshal peer_ecdh peer_mlkem payload aad d = (Inr er, d1)"
  obtains r coins z k nonce plain
  where "tc_ecdh tc (tc_p256_generate tc r) peer_ecdh = Some z"
    and "tc_hkdf tc (z @ fst (tc_encapsulate tc peer_mlkem coins)) ''revaulter/v2/request-enc'' 32 = Some k"
    and "length nonce = 12" and "marshal payload = Some plain"
    and "er = \<lparr>er_cli_ephemeral_public_key = point_jwk (tc_p256_public tc (tc_p256_generate tc r)),
         er_mlkem_ciphertext = raw_url_encode (snd (tc_encapsulate tc peer_mlkem coins)),
         er_nonce = raw_url_encode nonce, er_ciphertext = raw_url_encode (tc_seal tc k nonce plain aad)\<rparr>"
proof -
  have "\<exists>r coins z k0 k nonce plain. tc_ecdh tc (tc_p256_generate tc r) peer_ecdh = Some z
      \<and> tc_hkdf tc (z @ fst (tc_encapsulate tc peer_mlkem coins)) ''revaulter/v2/request-enc'' 32 = Some k0
      \<and> new_aes_cipher k0 = Inr k \<and> length nonce = 12 \<and> marshal payload = Some plain
      \<and> er = \<lparr>er_cli_ephemeral_public_key = point_jwk (tc_p256_public tc (tc_p256_generate tc r)),
         er_mlkem_ciphertext = raw_url_encode (snd (tc_encapsulate tc peer_mlkem coins)), er_nonce = raw_url_encode nonce,
         er_ciphertext = raw_url_encode (tc_seal tc k nonce plain aad)\<rparr>"
    using enc
    by (simp only: encrypt_request_payload_def Let_def point_jwk_made [OF generated_point(1,2) [OF laws]] go_ok_iffs
        go_lift_apply go_return_apply prod.inject sum.inject case_prod_beta)
      (elim exE conjE, drule read_full_length, hypsubst, intro exI conjI, (assumption | rule refl)+)
  moreover have "k = k0" if "new_aes_cipher k0 = Inr k" for k k0
    using that by (simp add: new_aes_cipher_def split: if_splits)
  ultimately show thesis using that by blast
qed

lemma encrypted_request_decrypts:
  assumes laws: "transport_laws tc" and "reads_base64url unb64"
    and enc: "encrypt_request_payload tc marshal (tc_p256_public tc (tc_p256_generate tc a))
      (tc_mlkem_public tc (tc_mlkem_generate tc seed)) payload aad d = (Inr er, d1)"
    and json: "\<And>plain. marshal payload = Some plain \<Longrightarrow> json_parse plain = Some payload"
    and env: "renv_cli_ephemeral_public_key env = er_cli_ephemeral_public_key er"
      "renv_mlkem_ciphertext env = er_mlkem_ciphertext er"
      "renv_nonce env = er_nonce er" "renv_ciphertext env = er_ciphertext er"
  shows "browser_decrypt_request tc unb64 json_parse (tc_p256_generate tc a) (tc_mlkem_generate tc seed) env aad = Some payload"
proof -
  let ?kem = "\<lambda>coins. tc_encapsulate tc (tc_mlkem_public tc (tc_mlkem_generate tc seed)) coins"
  obtain r coins z k nonce plain
    where z: "tc_ecdh tc (tc_p256_generate tc r) (tc_p256_public tc (tc_p256_generate tc a)) = Some z"
      and k: "tc_hkdf tc (z @ fst (?kem coins)) ''revaulter/v2/request-enc'' 32 = Some k"
      and nonce: "length nonce = 12" and plain: "marshal payload = Some plain"
      and er: "er = \<lparr>er_cli_ephemeral_public_key = point_jwk (tc_p256_public tc (tc_p256_generate tc r)),
         er_mlkem_ciphertext = raw_url_encode (snd (?kem coins)), er_nonce = raw_url_encode nonce,
         er_ciphertext = raw_url_encode (tc_seal tc k nonce plain aad)\<rparr>"
    by (rule encrypted_request_made [OF laws enc])
  have "length k = 32" by (rule hkdf_length [OF laws k])
  then have aead: "tc_open tc k nonce (tc_seal tc k nonce plain aad) aad = Some plain"
    using laws nonce by (simp add: transport_laws_def)
  have kem: "tc_decapsulate tc (tc_mlkem_generate tc seed) (snd (?kem coins)) = Some (fst (?kem coins))"
    using laws by (simp add: transport_laws_def)
  have b64: "unb64 (raw_url_encode b) = Some b" for b using assms(2) by (simp add: reads_base64url_def)
  show ?thesis
    using point_jwk_read(2) [OF generated_point [OF laws] assms(2)] ecdh_agrees [OF laws z] json [OF plain] k aead kem
    by (simp add: browser_decrypt_request_def env er b64 derive_hybrid_aes_key_def)
qed

text \<open>What the server checks of it: a valid key and three non-empty encodings.\<close>

lemma encrypted_request_encodings:
  assumes laws: "transport_laws tc"
    and enc: "encrypt_request_payload tc marshal peer_ecdh (tc_mlkem_public tc (tc_mlkem_generate tc seed)) payload aad d = (Inr er, d1)"
  obtains ct nonce sealed where "validate_public_p256 (er_cli_ephemeral_public_key er) = Inr ()"
    and "er_mlkem_ciphertext er = raw_url_encode ct" "er_nonce er = raw_url_encode nonce"
      "er_ciphertext er = raw_url_encode sealed"
    and "ct \<noteq> []" "nonce \<noteq> []" "sealed \<noteq> []"
proof -
  let ?kem = "\<lambda>coins. tc_encapsulate tc (tc_mlkem_public tc (tc_mlkem_generate tc seed)) coins"
  obtain r coins z k nonce plain
    where k: "tc_hkdf tc (z @ fst (?kem coins)) ''revaulter/v2/request-enc'' 32 = Some k" and nonce: "length nonce = 12"
      and er: "er = \<lparr>er_cli_ephemeral_public_key = point_jwk (tc_p256_public tc (tc_p256_generate tc r)),
         er_mlkem_ciphertext = raw_url_encode (snd (?kem coins)), er_nonce = raw_url_encode nonce,
         er_ciphertext = raw_url_encode (tc_seal tc k nonce plain aad)\<rparr>"
    by (rule encrypted_request_made [OF laws enc])
  have "tc_seal tc k nonce plain aad \<noteq> []"
    using laws nonce hkdf_length [OF laws k] by (simp add: transport_laws_def)
  moreover have "snd (?kem coins) \<noteq> []" using laws by (simp add: transport_laws_def)
  ultimately show thesis
    using nonce point_jwk_valid [OF generated_point(1) [OF laws]]
    by (intro that [of "snd (?kem coins)" nonce "tc_seal tc k nonce plain aad"]) (auto simp: er)
qed

text \<open>The key pair the client made for the operation.\<close>

definition client_key_pair :: "transport_crypto \<Rightarrow> string \<Rightarrow> string \<Rightarrow> transport_key_pair" where
  "client_key_pair tc r seed =
    \<lparr>kp_ecdh_private = Some (tc_p256_generate tc r),
     kp_ecdh_public = point_jwk (tc_p256_public tc (tc_p256_generate tc r)),
     kp_mlkem_private = Some (tc_mlkem_generate tc seed),
     kp_mlkem_public = raw_url_encode (tc_mlkem_public tc (tc_mlkem_generate tc seed))\<rparr>"

lemma new_transport_key_pair_ok:
  assumes "transport_laws tc" and "new_transport_key_pair tc d = (Inr kp, d1)"
  obtains r seed where "kp = client_key_pair tc r seed"
  using assms(2) generated_point [OF assms(1)]
  by (auto simp: new_transport_key_pair_def Let_def point_jwk_made client_key_pair_def elim!: go_bind_okE)

lemma sealed_response_opens:
  assumes laws: "transport_laws tc" and "reads_base64url unb64" and "length nonce = 12"
    and env: "encrypt_transport_envelope tc unb64 (tc_p256_generate tc e) coins nonce state
      (kp_ecdh_public (client_key_pair tc r seed)) (kp_mlkem_public (client_key_pair tc r seed)) plain aad = Some env"
  shows "validate_response_envelope env = Inr ()"
    and "decrypt_response_envelope tc state (Some (client_key_pair tc r seed)) (Some env) aad = Inr plain"
proof -
  obtain z ss ct k
    where z: "tc_ecdh tc (tc_p256_generate tc e) (tc_p256_public tc (tc_p256_generate tc r)) = Some z"
      and ct: "tc_encapsulate tc (tc_mlkem_public tc (tc_mlkem_generate tc seed)) coins = (ss, ct)"
      and k: "tc_hkdf tc (z @ ss) (''revaulter/v2/transport/'' @ state) 32 = Some k"
      and made: "env = \<lparr>env_transport_alg = ''ecdh-p256+mlkem768+a256gcm'',
         env_browser_ephemeral_public_key = point_jwk (tc_p256_public tc (tc_p256_generate tc e)),
         env_mlkem_ciphertext = raw_url_encode ct, env_nonce = raw_url_encode nonce,
         env_ciphertext = raw_url_encode (tc_seal tc k nonce plain aad), env_result_type = ''bytes''\<rparr>"
  proof -
    have mlkem: "unb64 (raw_url_encode b) = Some b" for b using assms(2) by (simp add: reads_base64url_def)
    have new: "tc_new_mlkem768 tc (tc_mlkem_public tc (tc_mlkem_generate tc seed)) =
        Some (tc_mlkem_public tc (tc_mlkem_generate tc seed))" using laws by (simp add: transport_laws_def)
    obtain ss ct where ct: "tc_encapsulate tc (tc_mlkem_public tc (tc_mlkem_generate tc seed)) coins = (ss, ct)"
      by (cases "tc_encapsulate tc (tc_mlkem_public tc (tc_mlkem_generate tc seed)) coins")
    have jwk: "ec_p256_scalar_to_public_jwk tc (tc_p256_generate tc e) = Some (point_jwk (tc_p256_public tc (tc_p256_generate tc e)))"
      using generated_point [OF laws] by (intro point_jwk_made(2)) simp_all
    show thesis
      using env point_jwk_read(2) [OF generated_point [OF laws] assms(2)]
      by (simp add: encrypt_transport_envelope_def client_key_pair_def jwk mlkem new ct Option.bind_eq_Some_conv
          derive_hybrid_aes_key_def)
        (elim exE conjE, rule that [OF _ ct], assumption, simp, erule sym)
  qed
  have agreed: "tc_ecdh tc (tc_p256_generate tc r) (tc_p256_public tc (tc_p256_generate tc e)) = Some z"
    by (rule ecdh_agrees [OF laws z])
  have "length k = 32" by (rule hkdf_length [OF laws k])
  then have aead: "tc_seal tc k nonce plain aad \<noteq> []" "tc_open tc k nonce (tc_seal tc k nonce plain aad) aad = Some plain"
    using laws assms(3) by (simp_all add: transport_laws_def)
  have kem: "ct \<noteq> []" "tc_decapsulate tc (tc_mlkem_generate tc seed) ct = Some ss"
    using laws ct by (metis fst_conv snd_conv transport_laws_def)+
  show "validate_response_envelope env = Inr ()"
    using aead kem assms(3) generated_point [OF laws]
    by (auto simp: validate_response_envelope_def made transport_alg_def point_jwk_valid raw_encode_empty_iff
        decode_base64_string_encode)
  show "decrypt_response_envelope tc state (Some (client_key_pair tc r seed)) (Some env) aad = Inr plain"
    using aead kem assms(3) generated_point [OF laws] agreed k \<open>length k = 32\<close>
    by (simp add: decrypt_response_envelope_def client_key_pair_def client_validate_envelope_def made transport_alg_def
        point_jwk_valid point_jwk_read raw_encode_empty_iff envelope_key_def derive_transport_key_def new_aes_cipher_def gcm_nonce_size_def)
qed

section \<open>Additional data determines what it binds\<close>

lemma request_enc_aad_injective:
  assumes "build_request_enc_aad a k p = build_request_enc_aad b l q"
    and "CHR 0x0A \<notin> set a \<union> set k \<union> set p \<union> set b \<union> set l \<union> set q"
  shows "a = b \<and> k = l \<and> p = q"
proof -
  let ?parts = "\<lambda>x y z. [''algorithm='' @ x, ''keyLabel='' @ y, ''operation='' @ z, ''v=1'']"
  have joined: "build_request_enc_aad x y z = join_with [CHR 0x0A] (?parts x y z)" for x y z
    by (simp add: build_request_enc_aad_def)
  have "?parts a k p = ?parts b l q"
    using assms unfolding joined by (intro join_with_empty_iff [of "CHR 0x0A"]) auto
  then show ?thesis by simp
qed

end
