(* ===== verification/Signing_Jwk.thy ===== *)
theory Signing_Jwk
  imports Hybrid_Signature
begin

text \<open>
  Public signing keys (src/internal/protocolv2/signing_jwk.go) and the check that
  a JWK and a PEM are the same key (\<open>validateSigningJWKAndPEM\<close> of
  src/internal/server/routes-signing-keys.go).

  JSON decoding, PEM decoding, \<open>x509.ParsePKIXPublicKey\<close> and the curve check of
  \<open>ecdh.P256().NewPublicKey\<close> are the fields of the record \<open>key_codec\<close>.  An ECDH
  public key is represented by what its \<open>Bytes\<close> returns.
\<close>

record okp_jwk =
  okp_kty :: string
  okp_crv :: string
  okp_x :: string
  okp_alg :: string
  okp_use :: string
  okp_kid :: string
  okp_d :: string

datatype ecdh_curve = Curve_P256 | Curve_Other

text \<open>
  What \<open>x509.ParsePKIXPublicKey\<close> returns: a key with a method \<open>ECDH\<close> and the outcome of
  calling it, an Ed25519 key, or a key of another type.
\<close>

datatype pkix_key =
    Pkix_Ecdh "(ecdh_curve \<times> string) option"
  | Pkix_Ed25519 string
  | Pkix_Other

record key_codec =
  kc_unmarshal_p256 :: "string \<Rightarrow> ec_jwk option"
  kc_unmarshal_okp :: "string \<Rightarrow> okp_jwk option"
  kc_marshal_p256 :: "ec_jwk \<Rightarrow> string option"
  kc_marshal_okp :: "okp_jwk \<Rightarrow> string option"
  kc_pem_decode :: "string \<Rightarrow> (string \<times> string) option"
  kc_parse_pkix :: "string \<Rightarrow> pkix_key option"
  kc_new_p256 :: "string \<Rightarrow> string option"

section \<open>ES256 keys\<close>

definition validate_signing_key_p256 :: "ec_jwk \<Rightarrow> unit go_result" where
  "validate_signing_key_p256 j =
    (if jwk_kty j \<noteq> ''EC'' then Inl (Err_Msg ''invalid JWK kty'')
     else if jwk_crv j \<noteq> ''P-256'' then Inl (Err_Msg ''invalid JWK crv'')
     else if jwk_x j = [] \<or> jwk_y j = [] then Inl (Err_Msg ''JWK is missing x or y'')
     else if jwk_d j \<noteq> [] then Inl (Err_Msg ''JWK must not include private member d'')
     else if jwk_alg j \<noteq> [] \<and> jwk_alg j \<noteq> ''ES256'' then Inl (Err_Msg ''invalid JWK alg'')
     else if jwk_use j \<noteq> [] \<and> jwk_use j \<noteq> ''sig'' then Inl (Err_Msg ''invalid JWK use'')
     else case decode_b64url_fixed (jwk_x j) 32 of
            Inl _ \<Rightarrow> Inl (Err_Msg ''invalid JWK x'')
          | Inr _ \<Rightarrow> (case decode_b64url_fixed (jwk_y j) 32 of
                        Inl _ \<Rightarrow> Inl (Err_Msg ''invalid JWK y'')
                      | Inr _ \<Rightarrow> Inr ()))"

definition signing_to_ecdh_public_key :: "key_codec \<Rightarrow> ec_jwk \<Rightarrow> string go_result" where
  "signing_to_ecdh_public_key kc j =
    (case decode_b64url_fixed (jwk_x j) 32 of
       Inl _ \<Rightarrow> Inl (Err_Msg ''invalid JWK x'')
     | Inr x \<Rightarrow> (case decode_b64url_fixed (jwk_y j) 32 of
         Inl _ \<Rightarrow> Inl (Err_Msg ''invalid JWK y'')
       | Inr y \<Rightarrow> (case kc_new_p256 kc (char_of (4::nat) # x @ y) of
           None \<Rightarrow> Inl (Err_Msg ''invalid P-256 public point'')
         | Some pk \<Rightarrow> Inr pk)))"

definition p256_thumbprint_text :: "ec_jwk \<Rightarrow> string" where
  "p256_thumbprint_text j = ''{\"crv\":\"'' @ jwk_crv j @ ''\",\"kty\":\"'' @ jwk_kty j @ ''\",\"x\":\"'' @ jwk_x j
     @ ''\",\"y\":\"'' @ jwk_y j @ ''\"}''"

definition p256_thumbprint :: "(string \<Rightarrow> string) \<Rightarrow> ec_jwk \<Rightarrow> string go_result" where
  "p256_thumbprint sha256 j =
    (case validate_signing_key_p256 j of Inl e \<Rightarrow> Inl e
     | Inr _ \<Rightarrow> Inr (raw_url_encode (sha256 (p256_thumbprint_text j))))"

definition p256_signing_jwk_from_ecdh :: "string option \<Rightarrow> ec_jwk go_result" where
  "p256_signing_jwk_from_ecdh pk =
    (case pk of None \<Rightarrow> Inl (Err_Msg ''public key is nil'') | Some raw \<Rightarrow> ec_jwk_of_point ''P-256'' 32 raw)"

definition parse_p256_signing_jwk :: "key_codec \<Rightarrow> string \<Rightarrow> ec_jwk go_result" where
  "parse_p256_signing_jwk kc raw =
    (case kc_unmarshal_p256 kc raw of
       None \<Rightarrow> Inl (Err_Msg ''invalid JWK JSON'')
     | Some j \<Rightarrow> (case validate_signing_key_p256 j of Inl e \<Rightarrow> Inl e | Inr _ \<Rightarrow> Inr j))"

text \<open>The part the two PEM parsers have in common: one PKIX block.\<close>

definition parse_public_key_pem :: "key_codec \<Rightarrow> string \<Rightarrow> pkix_key go_result" where
  "parse_public_key_pem kc pem_bytes =
    (case kc_pem_decode kc pem_bytes of
       None \<Rightarrow> Inl (Err_Msg ''invalid PEM: no block found'')
     | Some (block_type, block) \<Rightarrow>
        if block_type \<noteq> ''PUBLIC KEY'' then Inl (Err_Msg ''invalid PEM block type'')
        else (case kc_parse_pkix kc block of
                None \<Rightarrow> Inl (Err_Msg ''invalid PKIX public key'')
              | Some pk \<Rightarrow> Inr pk))"

definition parse_p256_signing_pem :: "key_codec \<Rightarrow> string \<Rightarrow> string go_result" where
  "parse_p256_signing_pem kc pem_bytes =
    (case parse_public_key_pem kc pem_bytes of
       Inl e \<Rightarrow> Inl e
     | Inr (Pkix_Ecdh None) \<Rightarrow> Inl (Err_Msg ''public key is not on P-256'')
     | Inr (Pkix_Ecdh (Some (curve, b))) \<Rightarrow>
         if curve \<noteq> Curve_P256 then Inl (Err_Msg ''public key must be on P-256'') else Inr b
     | Inr _ \<Rightarrow> Inl (Err_Msg ''PEM public key is not an ECDSA key''))"

section \<open>Ed25519 keys\<close>

definition ed25519_public_key_size :: nat where "ed25519_public_key_size = 32"

definition validate_signing_key_ed25519 :: "okp_jwk \<Rightarrow> unit go_result" where
  "validate_signing_key_ed25519 j =
    (if okp_kty j \<noteq> ''OKP'' then Inl (Err_Msg ''invalid JWK kty'')
     else if okp_crv j \<noteq> ''Ed25519'' then Inl (Err_Msg ''invalid JWK crv'')
     else if okp_x j = [] then Inl (Err_Msg ''JWK is missing x'')
     else if okp_d j \<noteq> [] then Inl (Err_Msg ''JWK must not include private member d'')
     else if okp_alg j \<noteq> [] \<and> okp_alg j \<noteq> ''EdDSA'' then Inl (Err_Msg ''invalid JWK alg'')
     else if okp_use j \<noteq> [] \<and> okp_use j \<noteq> ''sig'' then Inl (Err_Msg ''invalid JWK use'')
     else case decode_b64url_fixed (okp_x j) ed25519_public_key_size of
            Inl _ \<Rightarrow> Inl (Err_Msg ''invalid JWK x'')
          | Inr _ \<Rightarrow> Inr ())"

definition ed25519_to_public_key :: "okp_jwk \<Rightarrow> string go_result" where
  "ed25519_to_public_key j =
    (case validate_signing_key_ed25519 j of
       Inl e \<Rightarrow> Inl e
     | Inr _ \<Rightarrow> (case decode_b64url_fixed (okp_x j) ed25519_public_key_size of
         Inl _ \<Rightarrow> Inl (Err_Msg ''invalid JWK x'')
       | Inr x \<Rightarrow> Inr x))"

definition ed25519_thumbprint_text :: "okp_jwk \<Rightarrow> string" where
  "ed25519_thumbprint_text j =
     ''{\"crv\":\"'' @ okp_crv j @ ''\",\"kty\":\"'' @ okp_kty j @ ''\",\"x\":\"'' @ okp_x j @ ''\"}''"

definition ed25519_thumbprint :: "(string \<Rightarrow> string) \<Rightarrow> okp_jwk \<Rightarrow> string go_result" where
  "ed25519_thumbprint sha256 j =
    (case validate_signing_key_ed25519 j of Inl e \<Rightarrow> Inl e
     | Inr _ \<Rightarrow> Inr (raw_url_encode (sha256 (ed25519_thumbprint_text j))))"

definition ed25519_signing_jwk_from_public_key :: "string \<Rightarrow> okp_jwk go_result" where
  "ed25519_signing_jwk_from_public_key pk =
    (if length pk \<noteq> ed25519_public_key_size then Inl (Err_Msg ''unexpected Ed25519 key encoding length'')
     else Inr \<lparr>okp_kty = ''OKP'', okp_crv = ''Ed25519'', okp_x = raw_url_encode pk, okp_alg = [],
               okp_use = [], okp_kid = [], okp_d = []\<rparr>)"

definition parse_ed25519_signing_jwk :: "key_codec \<Rightarrow> string \<Rightarrow> okp_jwk go_result" where
  "parse_ed25519_signing_jwk kc raw =
    (case kc_unmarshal_okp kc raw of
       None \<Rightarrow> Inl (Err_Msg ''invalid JWK JSON'')
     | Some j \<Rightarrow> (case validate_signing_key_ed25519 j of Inl e \<Rightarrow> Inl e | Inr _ \<Rightarrow> Inr j))"

definition parse_ed25519_signing_pem :: "key_codec \<Rightarrow> string \<Rightarrow> string go_result" where
  "parse_ed25519_signing_pem kc pem_bytes =
    (case parse_public_key_pem kc pem_bytes of
       Inl e \<Rightarrow> Inl e
     | Inr (Pkix_Ed25519 pk) \<Rightarrow>
         if length pk \<noteq> ed25519_public_key_size then Inl (Err_Msg ''public key must be 32 bytes'') else Inr pk
     | Inr _ \<Rightarrow> Inl (Err_Msg ''PEM public key is not an Ed25519 key''))"

section \<open>One key in two formats\<close>

text \<open>The steps of both branches of \<open>validateSigningJWKAndPEM\<close>, in the source's order.\<close>

definition match_jwk_and_pem ::
  "'j go_result \<Rightarrow> string go_result \<Rightarrow> ('j \<Rightarrow> string go_result) \<Rightarrow> ('j \<Rightarrow> string go_result)
     \<Rightarrow> ('j \<Rightarrow> string option) \<Rightarrow> (string \<times> string) go_result" where
  "match_jwk_and_pem parsed pem_raw public_key thumbprint marshal =
    (case parsed of Inl _ \<Rightarrow> Inl (Err_Msg ''invalid jwk'')
     | Inr j \<Rightarrow> (case pem_raw of Inl _ \<Rightarrow> Inl (Err_Msg ''invalid pem'')
       | Inr raw \<Rightarrow> (case public_key j of Inl _ \<Rightarrow> Inl (Err_Msg ''invalid jwk'')
         | Inr pk \<Rightarrow> if pk \<noteq> raw then Inl (Err_Msg ''jwk and pem do not match'')
             else (case thumbprint j of Inl _ \<Rightarrow> Inl (Err_Msg ''failed to compute thumbprint'')
               | Inr kid \<Rightarrow> (case marshal j of None \<Rightarrow> Inl (Err_Msg ''failed to canonicalize jwk'')
                 | Some canonical \<Rightarrow> Inr (kid, canonical))))))"

definition validate_signing_jwk_and_pem ::
  "key_codec \<Rightarrow> (string \<Rightarrow> string) \<Rightarrow> string \<Rightarrow> string \<Rightarrow> string \<Rightarrow> (string \<times> string) go_result" where
  "validate_signing_jwk_and_pem kc sha256 algorithm jwk_bytes pem_str =
    (if jwk_bytes = [] then Inl (Err_Msg ''missing jwk'')
     else if pem_str = [] then Inl (Err_Msg ''missing pem'')
     else if algorithm = ''ES256'' then
       match_jwk_and_pem (parse_p256_signing_jwk kc jwk_bytes) (parse_p256_signing_pem kc pem_str)
         (signing_to_ecdh_public_key kc) (p256_thumbprint sha256) (kc_marshal_p256 kc)
     else if algorithm = ''Ed25519'' \<or> algorithm = ''Ed25519ph'' then
       match_jwk_and_pem (parse_ed25519_signing_jwk kc jwk_bytes) (parse_ed25519_signing_pem kc pem_str)
         ed25519_to_public_key (ed25519_thumbprint sha256) (kc_marshal_okp kc)
     else Inl (Err_Msg ''unsupported signing algorithm''))"

lemma match_jwk_and_pem_ok:
  "match_jwk_and_pem parsed pem_raw public_key thumbprint marshal = Inr (kid, canonical) \<longleftrightarrow>
     (\<exists>j raw. parsed = Inr j \<and> pem_raw = Inr raw \<and> public_key j = Inr raw \<and> thumbprint j = Inr kid
        \<and> marshal j = Some canonical)"
  by (auto simp: match_jwk_and_pem_def split: sum.splits option.splits)

section \<open>Thumbprints\<close>

text \<open>A coordinate that passed validation has no double quote, so it cannot end its JSON member.\<close>

lemma raw_decode_chars:
  assumes "raw_decode url s = Some b"
  shows "CHR ''\"'' \<notin> set s"
proof
  assume "CHR ''\"'' \<in> set s"
  then have m: "CHR ''\"'' \<in> set (filter (\<lambda>c. c \<noteq> CHR 0x0A \<and> c \<noteq> CHR 0x0D) s)" by simp
  have none: "CHR ''\"'' \<in> set t \<Longrightarrow> all_values url t = None" for t
  proof (induction t)
    case (Cons c t)
    have "b64_value url CHR ''\"'' = None"
      by (simp add: b64_value_def byte_kinds) (simp add: byte_def)
    then show ?case using Cons by (auto split: option.splits)
  qed simp
  then show False using assms m by (simp add: raw_decode_def)
qed

lemma decode_fixed_no_quote: "decode_b64url_fixed s n = Inr b \<Longrightarrow> CHR ''\"'' \<notin> set s"
  by (auto simp: decode_b64url_fixed_def dest: raw_decode_chars split: option.splits if_splits)

lemma quoted_prefix_eq:
  assumes "q \<notin> set a" and "q \<notin> set b" and "a @ q # r = b @ q # t"
  shows "a = b \<and> r = t"
proof -
  have "takeWhile (\<lambda>c. c \<noteq> q) (a @ q # r) = a" "takeWhile (\<lambda>c. c \<noteq> q) (b @ q # t) = b"
    using assms(1,2) by (auto simp: takeWhile_append takeWhile_eq_all_conv)
  with assms(3) show ?thesis by auto
qed

lemma validate_signing_key_p256_ok:
  "validate_signing_key_p256 j = Inr () \<longleftrightarrow>
     jwk_kty j = ''EC'' \<and> jwk_crv j = ''P-256'' \<and> jwk_x j \<noteq> [] \<and> jwk_y j \<noteq> [] \<and> jwk_d j = []
     \<and> (jwk_alg j = [] \<or> jwk_alg j = ''ES256'') \<and> (jwk_use j = [] \<or> jwk_use j = ''sig'')
     \<and> is_ok (decode_b64url_fixed (jwk_x j) 32) \<and> is_ok (decode_b64url_fixed (jwk_y j) 32)"
  by (auto simp: validate_signing_key_p256_def is_ok_def split: sum.splits)

lemma validate_signing_key_ed25519_ok:
  "validate_signing_key_ed25519 j = Inr () \<longleftrightarrow>
     okp_kty j = ''OKP'' \<and> okp_crv j = ''Ed25519'' \<and> okp_x j \<noteq> [] \<and> okp_d j = []
     \<and> (okp_alg j = [] \<or> okp_alg j = ''EdDSA'') \<and> (okp_use j = [] \<or> okp_use j = ''sig'')
     \<and> is_ok (decode_b64url_fixed (okp_x j) 32)"
  by (auto simp: validate_signing_key_ed25519_def is_ok_def ed25519_public_key_size_def split: sum.splits)

lemma p256_text_inj:
  assumes "validate_signing_key_p256 a = Inr ()" and "validate_signing_key_p256 b = Inr ()"
    and "p256_thumbprint_text a = p256_thumbprint_text b"
  shows "jwk_x a = jwk_x b \<and> jwk_y a = jwk_y b"
proof -
  have q: "CHR ''\"'' \<notin> set (jwk_x a)" "CHR ''\"'' \<notin> set (jwk_x b)"
    "CHR ''\"'' \<notin> set (jwk_y a)" "CHR ''\"'' \<notin> set (jwk_y b)"
    using assms(1,2) by (auto simp: validate_signing_key_p256_ok is_ok_iff dest: decode_fixed_no_quote)
  have "jwk_x a @ CHR ''\"'' # '',\"y\":\"'' @ jwk_y a @ ''\"}'' = jwk_x b @ CHR ''\"'' # '',\"y\":\"'' @ jwk_y b @ ''\"}''"
    using assms by (simp add: p256_thumbprint_text_def validate_signing_key_p256_ok)
  from quoted_prefix_eq [OF q(1,2) this] show ?thesis by simp
qed

lemma ed25519_text_inj:
  assumes "validate_signing_key_ed25519 a = Inr ()" and "validate_signing_key_ed25519 b = Inr ()"
    and "ed25519_thumbprint_text a = ed25519_thumbprint_text b"
  shows "okp_x a = okp_x b"
  using assms by (simp add: ed25519_thumbprint_text_def validate_signing_key_ed25519_ok)

text \<open>The two key types side by side, with the bytes of the key.\<close>

datatype signing_jwk = Jwk_P256 ec_jwk | Jwk_Ed25519 okp_jwk

fun signing_thumbprint :: "(string \<Rightarrow> string) \<Rightarrow> signing_jwk \<Rightarrow> string go_result" where
  "signing_thumbprint sha256 (Jwk_P256 j) = p256_thumbprint sha256 j"
| "signing_thumbprint sha256 (Jwk_Ed25519 j) = ed25519_thumbprint sha256 j"

fun thumbprint_text :: "signing_jwk \<Rightarrow> string" where
  "thumbprint_text (Jwk_P256 j) = p256_thumbprint_text j"
| "thumbprint_text (Jwk_Ed25519 j) = ed25519_thumbprint_text j"

fun key_members :: "signing_jwk \<Rightarrow> string list" where
  "key_members (Jwk_P256 j) = [''P-256'', jwk_x j, jwk_y j]"
| "key_members (Jwk_Ed25519 j) = [''Ed25519'', okp_x j]"

lemma thumbprint_of_valid:
  "p256_thumbprint sha256 j = Inr k \<Longrightarrow>
     validate_signing_key_p256 j = Inr () \<and> k = raw_url_encode (sha256 (p256_thumbprint_text j))"
  "ed25519_thumbprint sha256 i = Inr k \<Longrightarrow>
     validate_signing_key_ed25519 i = Inr () \<and> k = raw_url_encode (sha256 (ed25519_thumbprint_text i))"
  by (auto simp: p256_thumbprint_def ed25519_thumbprint_def split: sum.splits)

lemma texts_of_types_differ:
  assumes "validate_signing_key_p256 a = Inr ()" and "validate_signing_key_ed25519 b = Inr ()"
  shows "p256_thumbprint_text a \<noteq> ed25519_thumbprint_text b"
  using assms
  by (simp add: p256_thumbprint_text_def ed25519_thumbprint_text_def validate_signing_key_p256_ok
      validate_signing_key_ed25519_ok)

lemma thumbprint_text_inj:
  assumes "signing_thumbprint sha256 a = Inr k" and "signing_thumbprint sha256 b = Inr l"
    and "thumbprint_text a = thumbprint_text b"
  shows "key_members a = key_members b"
  using assms texts_of_types_differ
  by (cases a; cases b)
    (auto dest!: thumbprint_of_valid dest: p256_text_inj ed25519_text_inj, metis+)

lemma signing_thumbprint_text:
  "signing_thumbprint sha256 a = Inr k \<Longrightarrow> k = raw_url_encode (sha256 (thumbprint_text a))"
  by (cases a) (auto dest: thumbprint_of_valid)

text \<open>A key id stands for one key: two validated keys, of whichever types, with the same thumbprint
  have the same curve and coordinate strings, or else their two canonical texts, which differ, are a
  collision of the hash.  No choice of member values can forge the text of another key.\<close>

lemma thumbprint_identifies_key:
  assumes "signing_thumbprint sha256 a = Inr kid" and "signing_thumbprint sha256 b = Inr kid"
  shows "key_members a = key_members b
    \<or> thumbprint_text a \<noteq> thumbprint_text b \<and> sha256 (thumbprint_text a) = sha256 (thumbprint_text b)"
proof -
  have "sha256 (thumbprint_text a) = sha256 (thumbprint_text b)"
    using assms b64_url.enc_inj signing_thumbprint_text by metis
  then show ?thesis using thumbprint_text_inj [OF assms] by blast
qed

definition sample_p256_jwk :: "char \<Rightarrow> ec_jwk" where
  "sample_p256_jwk c = \<lparr>jwk_kty = ''EC'', jwk_crv = ''P-256'', jwk_x = replicate 42 CHR ''A'' @ [c],
     jwk_y = replicate 43 CHR ''A'', jwk_d = [], jwk_kid = ''my key'', jwk_alg = ''ES256'', jwk_use = []\<rparr>"

definition sample_okp_jwk :: okp_jwk where
  "sample_okp_jwk = \<lparr>okp_kty = ''OKP'', okp_crv = ''Ed25519'', okp_x = replicate 43 CHR ''A'', okp_alg = ''EdDSA'',
     okp_use = ''sig'', okp_kid = [], okp_d = []\<rparr>"

lemma sample_p256_thumbprint:
  "signing_thumbprint sha256 (Jwk_P256 (sample_p256_jwk CHR ''A''))
     = Inr (raw_url_encode (sha256 (p256_thumbprint_text (sample_p256_jwk CHR ''A''))))"
proof -
  have "validate_signing_key_p256 (sample_p256_jwk CHR ''A'') = Inr ()" by code_simp
  then show ?thesis by (simp add: p256_thumbprint_def)
qed

theorem thumbprint_identifies_key_witness:
  "key_members (Jwk_P256 (sample_p256_jwk CHR ''A'')) = key_members (Jwk_P256 (sample_p256_jwk CHR ''A''))
   \<or> thumbprint_text (Jwk_P256 (sample_p256_jwk CHR ''A'')) \<noteq> thumbprint_text (Jwk_P256 (sample_p256_jwk CHR ''A''))
     \<and> (\<lambda>m. take 32 m) (thumbprint_text (Jwk_P256 (sample_p256_jwk CHR ''A'')))
       = (\<lambda>m. take 32 m) (thumbprint_text (Jwk_P256 (sample_p256_jwk CHR ''A'')))"
  by (rule thumbprint_identifies_key [OF sample_p256_thumbprint sample_p256_thumbprint])

text \<open>
  The converse fails: the decoder is not strict, so a coordinate has several
  spellings (unused trailing bits, line breaks) and one key several thumbprints.
\<close>

lemma thumbprint_not_canonical:
  "decode_b64url_fixed (jwk_x (sample_p256_jwk CHR ''A'')) 32 = decode_b64url_fixed (jwk_x (sample_p256_jwk CHR ''B'')) 32
   \<and> validate_signing_key_p256 (sample_p256_jwk CHR ''A'') = Inr ()
   \<and> validate_signing_key_p256 (sample_p256_jwk CHR ''B'') = Inr ()
   \<and> p256_thumbprint_text (sample_p256_jwk CHR ''A'') \<noteq> p256_thumbprint_text (sample_p256_jwk CHR ''B'')"
  by code_simp

section \<open>Accepted keys\<close>

lemma parse_p256_signing_jwk_ok:
  "parse_p256_signing_jwk kc raw = Inr j \<longleftrightarrow>
     kc_unmarshal_p256 kc raw = Some j \<and> validate_signing_key_p256 j = Inr ()"
  by (auto simp: parse_p256_signing_jwk_def split: option.splits sum.splits)

lemma parse_ed25519_signing_jwk_ok:
  "parse_ed25519_signing_jwk kc raw = Inr j \<longleftrightarrow>
     kc_unmarshal_okp kc raw = Some j \<and> validate_signing_key_ed25519 j = Inr ()"
  by (auto simp: parse_ed25519_signing_jwk_def split: option.splits sum.splits)

text \<open>What a PEM holds: one PKIX block with that key.\<close>

definition pem_holds :: "key_codec \<Rightarrow> string \<Rightarrow> pkix_key \<Rightarrow> bool" where
  "pem_holds kc pem_str pk \<longleftrightarrow>
     (\<exists>block. kc_pem_decode kc pem_str = Some (''PUBLIC KEY'', block) \<and> kc_parse_pkix kc block = Some pk)"

lemma parse_public_key_pem_ok: "parse_public_key_pem kc pem_str = Inr pk \<longleftrightarrow> pem_holds kc pem_str pk"
  by (auto simp: parse_public_key_pem_def pem_holds_def split: option.splits prod.splits if_splits)

lemma parse_p256_signing_pem_ok:
  "parse_p256_signing_pem kc pem_str = Inr raw \<longleftrightarrow> pem_holds kc pem_str (Pkix_Ecdh (Some (Curve_P256, raw)))"
  by (cases "parse_public_key_pem kc pem_str")
    (auto simp: parse_p256_signing_pem_def parse_public_key_pem_ok [symmetric]
      split: pkix_key.splits option.splits prod.splits if_splits)

lemma parse_ed25519_signing_pem_ok:
  "parse_ed25519_signing_pem kc pem_str = Inr pk \<longleftrightarrow> pem_holds kc pem_str (Pkix_Ed25519 pk) \<and> length pk = 32"
  by (cases "parse_public_key_pem kc pem_str")
    (auto simp: parse_ed25519_signing_pem_def parse_public_key_pem_ok [symmetric] ed25519_public_key_size_def
      split: pkix_key.splits option.splits prod.splits if_splits)

lemma decode_b64url_fixed_ok:
  "decode_b64url_fixed s n = Inr b \<longleftrightarrow> raw_url_decode s = Some b \<and> length b = n"
  by (auto simp: decode_b64url_fixed_def split: option.splits)

lemma signing_to_ecdh_ok:
  "signing_to_ecdh_public_key kc j = Inr raw \<longleftrightarrow>
     (\<exists>x y. raw_url_decode (jwk_x j) = Some x \<and> length x = 32 \<and> raw_url_decode (jwk_y j) = Some y \<and> length y = 32
        \<and> kc_new_p256 kc (char_of (4::nat) # x @ y) = Some raw)"
  by (auto simp: signing_to_ecdh_public_key_def decode_b64url_fixed_def split: option.splits if_splits)

lemma ed25519_to_public_key_ok:
  "ed25519_to_public_key j = Inr pk \<longleftrightarrow>
     validate_signing_key_ed25519 j = Inr () \<and> raw_url_decode (okp_x j) = Some pk \<and> length pk = 32"
  by (auto simp: ed25519_to_public_key_def ed25519_public_key_size_def decode_b64url_fixed_def
      split: sum.splits option.splits if_splits)

text \<open>A key pair of texts that is accepted is one public key: the JWK parses, has no private member and
  decodes to exactly the key in the PEM (for ES256 the uncompressed point of two 32-byte coordinates that
  the curve check accepted, for both Ed25519 algorithms the 32 bytes), and the returned id is the
  thumbprint of that JWK.\<close>

lemma signing_key_accepted:
  assumes "validate_signing_jwk_and_pem kc sha256 algorithm jwk_bytes pem_str = Inr (kid, canonical)"
  shows "(algorithm = ''ES256'' \<and> (\<exists>j x y raw. kc_unmarshal_p256 kc jwk_bytes = Some j \<and> jwk_d j = []
        \<and> raw_url_decode (jwk_x j) = Some x \<and> raw_url_decode (jwk_y j) = Some y \<and> length x = 32 \<and> length y = 32
        \<and> kc_new_p256 kc (char_of (4::nat) # x @ y) = Some raw
        \<and> pem_holds kc pem_str (Pkix_Ecdh (Some (Curve_P256, raw)))
        \<and> kid = raw_url_encode (sha256 (p256_thumbprint_text j)) \<and> kc_marshal_p256 kc j = Some canonical))
   \<or> (algorithm \<in> {''Ed25519'', ''Ed25519ph''} \<and> (\<exists>j pk. kc_unmarshal_okp kc jwk_bytes = Some j \<and> okp_d j = []
        \<and> raw_url_decode (okp_x j) = Some pk \<and> length pk = 32 \<and> pem_holds kc pem_str (Pkix_Ed25519 pk)
        \<and> kid = raw_url_encode (sha256 (ed25519_thumbprint_text j)) \<and> kc_marshal_okp kc j = Some canonical))"
proof (cases "algorithm = ''ES256''")
  case True
  with assms obtain j raw where "parse_p256_signing_jwk kc jwk_bytes = Inr j"
    "parse_p256_signing_pem kc pem_str = Inr raw" "signing_to_ecdh_public_key kc j = Inr raw"
    "p256_thumbprint sha256 j = Inr kid" "kc_marshal_p256 kc j = Some canonical"
    by (auto simp: validate_signing_jwk_and_pem_def match_jwk_and_pem_ok split: if_splits)
  then show ?thesis
    using True thumbprint_of_valid(1)
    by (auto simp: parse_p256_signing_jwk_ok parse_p256_signing_pem_ok signing_to_ecdh_ok
        validate_signing_key_p256_ok)
next
  case False
  with assms obtain j pk where alg: "algorithm \<in> {''Ed25519'', ''Ed25519ph''}"
    and "parse_ed25519_signing_jwk kc jwk_bytes = Inr j"
    "parse_ed25519_signing_pem kc pem_str = Inr pk" "ed25519_to_public_key j = Inr pk"
    "ed25519_thumbprint sha256 j = Inr kid" "kc_marshal_okp kc j = Some canonical"
    by (auto simp: validate_signing_jwk_and_pem_def match_jwk_and_pem_ok split: if_splits)
  then show ?thesis
    using thumbprint_of_valid(2)
    by (auto simp: parse_ed25519_signing_jwk_ok parse_ed25519_signing_pem_ok ed25519_to_public_key_ok
        validate_signing_key_ed25519_ok)
qed

text \<open>A toy codec that knows one key of each type, for the witnesses.\<close>

definition toy_codec :: key_codec where
  "toy_codec = \<lparr>kc_unmarshal_p256 = (\<lambda>_. Some (sample_p256_jwk CHR ''A'')), kc_unmarshal_okp = (\<lambda>_. Some sample_okp_jwk),
     kc_marshal_p256 = (\<lambda>_. Some ''{EC}''), kc_marshal_okp = (\<lambda>_. Some ''{OKP}''),
     kc_pem_decode = (\<lambda>p. Some (''PUBLIC KEY'', p)),
     kc_parse_pkix = (\<lambda>b. Some (if b = ''ec'' then Pkix_Ecdh (Some (Curve_P256, char_of (4::nat) # replicate 64 (char_of (0::nat))))
        else Pkix_Ed25519 (replicate 32 (char_of (0::nat))))),
     kc_new_p256 = (\<lambda>b. Some b)\<rparr>"

lemma toy_codec_accepts:
  "validate_signing_jwk_and_pem toy_codec (\<lambda>m. take 4 m) ''ES256'' ''jwk'' ''ec'' = Inr (''eyJjcg'', ''{EC}'')"
  by code_simp

theorem signing_key_accepted_witness:
  "\<exists>j x y raw. kc_unmarshal_p256 toy_codec ''jwk'' = Some j \<and> jwk_d j = []
        \<and> raw_url_decode (jwk_x j) = Some x \<and> raw_url_decode (jwk_y j) = Some y \<and> length x = 32 \<and> length y = 32
        \<and> kc_new_p256 toy_codec (char_of (4::nat) # x @ y) = Some raw
        \<and> pem_holds toy_codec ''ec'' (Pkix_Ecdh (Some (Curve_P256, raw)))"
  using signing_key_accepted [OF toy_codec_accepts] by auto

end
