(* ===== verification/Client_Operations.thy ===== *)
theory Client_Operations
  imports Client_Transport Signing_Jwk
begin

text \<open>
  The client of the protocol (src/internal/clientcore/client.go, operations.go, anchor.go
  and signingkey.go): requests over HTTP, the operations that use them and the polling
  loop.  The server is not trusted: what it answers is the function \<open>cw_remote\<close> of the
  requests sent so far, so a statement about every world is one about every server.
  JSON, URL escaping and the text of a duration are fields of \<open>client_lib\<close>.  Log messages
  are not modelled and error texts are shortened.
\<close>

section \<open>The connection\<close>

record http_request =
  hr_method :: string
  hr_url :: string
  hr_authorization :: string
  hr_content_type :: string
  hr_user_agent :: string
  hr_body :: string

text \<open>An answer takes some nanoseconds; the connection may break instead.\<close>

datatype server_reply = Reply_Broken nat | Reply_Http nat nat string

record client_world = client_random +
  cw_clock :: go_time
  cw_sent :: "http_request list"
  cw_submitted :: "string list"
  cw_remote :: "http_request list \<Rightarrow> http_request \<Rightarrow> server_reply"

type_synonym ('z, 'a) client_op = "('z client_world_scheme, 'a) go"

text \<open>A context is done from its deadline on (\<open>None\<close>: never); cancelling is the same at the time of the call.\<close>

type_synonym context_deadline = "go_time option"

definition context_error :: go_error where "context_error = Err_Msg ''context deadline exceeded''"

definition context_done :: "context_deadline \<Rightarrow> go_time \<Rightarrow> bool" where
  "context_done ctx t = (case ctx of None \<Rightarrow> False | Some d \<Rightarrow> d \<le> t)"

record operation_request_body =
  ob_key_label :: string
  ob_algorithm :: string
  ob_timeout :: string
  ob_note :: string
  ob_request_enc_alg :: string
  ob_cli_ephemeral_public_key :: ec_jwk
  ob_mlkem_ciphertext :: string
  ob_encrypted_payload_nonce :: string
  ob_encrypted_payload :: string

record signing_key_response =
  sr_id :: string
  sr_algorithm :: string
  sr_key_label :: string
  sr_jwk :: string
  sr_payload :: string
  sr_sig_es384 :: string
  sr_sig_mldsa87 :: string

record ('ek, 'mk) client_lib =
  lb_crypto :: "('ek, 'mk) crypto"
  lb_transport :: transport_crypto
  lb_keys :: key_codec
  lb_trust :: trust_codec
  lb_env :: os_env
  lb_valid_url :: "string \<Rightarrow> bool"
  lb_query :: "string \<Rightarrow> string \<Rightarrow> string"
  lb_duration :: "int \<Rightarrow> string"
  lb_decode_error :: "string \<Rightarrow> string"
  lb_decode_pubkeys :: "string \<Rightarrow> pubkey_response option"
  lb_decode_p256 :: "string \<Rightarrow> ec_jwk option"
  lb_decode_result :: "string \<Rightarrow> request_result_response option"
  lb_decode_signing :: "string \<Rightarrow> signing_key_response option"
  lb_marshal_payload :: "request_payload_inner \<Rightarrow> string option"
  lb_marshal_body :: "operation_request_body \<Rightarrow> string option"

section \<open>The client\<close>

record client_config =
  cf_server :: string
  cf_request_key :: string
  cf_has_http_client :: bool
  cf_user_agent :: string
  cf_trust_store_path :: string
  cf_no_trust_store :: bool
  cf_confirm_anchor :: confirm_anchor

record client =
  cl_server :: string
  cl_request_key :: string
  cl_user_agent :: string
  cl_trust_store_path :: string
  cl_no_trust_store :: bool
  cl_confirm_anchor :: confirm_anchor

text \<open>\<open>strings.TrimSuffix(server, "/")\<close> removes one slash.\<close>

definition trim_slash :: "string \<Rightarrow> string" where
  "trim_slash s = (if s \<noteq> [] \<and> List.last s = CHR ''/'' then butlast s else s)"

text \<open>\<open>DefaultUserAgent\<close> carries the version of the build.\<close>

definition effective_user_agent :: "string \<Rightarrow> string \<Rightarrow> string" where
  "effective_user_agent app_version user_agent = (if user_agent = [] then ''Revaulter/'' @ app_version else user_agent)"

text \<open>A client built here parses the server address; a caller's own HTTP client is taken as it is.\<close>

definition new_client :: "('ek, 'mk) client_lib \<Rightarrow> string \<Rightarrow> client_config \<Rightarrow> client go_result" where
  "new_client lib app_version cfg =
    (let server = trim_slash (cf_server cfg) in
     if server = [] then Inl (Err_Msg ''property Server is required'')
     else if cf_request_key cfg = [] then Inl (Err_Msg ''property RequestKey is required'')
     else if \<not> cf_has_http_client cfg \<and> \<not> lb_valid_url lib server then Inl (Err_Msg ''invalid server URL'')
     else Inr \<lparr>cl_server = server, cl_request_key = cf_request_key cfg,
               cl_user_agent = effective_user_agent app_version (cf_user_agent cfg),
               cl_trust_store_path = cf_trust_store_path cfg, cl_no_trust_store = cf_no_trust_store cfg,
               cl_confirm_anchor = cf_confirm_anchor cfg\<rparr>)"

definition new_request :: "('ek, 'mk) client_lib \<Rightarrow> client \<Rightarrow> string \<Rightarrow> string \<Rightarrow> string \<Rightarrow> http_request go_result" where
  "new_request lib cl method path_suffix body =
    (let url = cl_server cl @ ''/v2/request/'' @ path_suffix in
     if \<not> lb_valid_url lib url then Inl (Err_Msg ''invalid URL'')
     else Inr \<lparr>hr_method = method, hr_url = url, hr_authorization = ''Bearer '' @ cl_request_key cl,
               hr_content_type = [], hr_user_agent = [], hr_body = body\<rparr>)"

text \<open>\<open>RoundTrip\<close> of \<open>userAgentTransport\<close>: a copy of the request, with the header set.\<close>

definition round_trip :: "client \<Rightarrow> http_request \<Rightarrow> http_request" where
  "round_trip cl req = req\<lparr>hr_user_agent := cl_user_agent cl\<rparr>"

fun reply_time :: "server_reply \<Rightarrow> nat" where
  "reply_time (Reply_Broken n) = n"
| "reply_time (Reply_Http n _ _) = n"

text \<open>\<open>client.Do\<close>: a context that ends before the answer is there cuts the request off.\<close>

definition http_send :: "context_deadline \<Rightarrow> http_request \<Rightarrow> ('z, nat \<times> string) client_op" where
  "http_send ctx r w =
    (if context_done ctx (cw_clock w) then (Inl context_error, w)
     else let reply = cw_remote w (cw_sent w) r;
              t = cw_clock w + int (reply_time reply);
              w1 = w\<lparr>cw_sent := cw_sent w @ [r]\<rparr>
          in if context_done ctx t then (Inl context_error, w1\<lparr>cw_clock := the ctx\<rparr>)
             else case reply of
               Reply_Broken _ \<Rightarrow> (Inl (Err_Msg ''connection failed''), w1\<lparr>cw_clock := t\<rparr>)
             | Reply_Http _ status body \<Rightarrow> (Inr (status, body), w1\<lparr>cw_clock := t\<rparr>))"

definition http_do :: "client \<Rightarrow> context_deadline \<Rightarrow> http_request \<Rightarrow> ('z, nat \<times> string) client_op" where
  "http_do cl ctx req = http_send ctx (round_trip cl req)"

definition do_json ::
  "('ek, 'mk) client_lib \<Rightarrow> client \<Rightarrow> context_deadline \<Rightarrow> (string \<Rightarrow> 'a option) \<Rightarrow> http_request \<Rightarrow> ('z, 'a) client_op" where
  "do_json lib cl ctx decode req =
    go_bind (http_do cl ctx req) (\<lambda>(status, body).
    if status \<ge> 400 then
      (if lb_decode_error lib body \<noteq> [] then go_fail (Err_Response status (lb_decode_error lib body))
       else go_fail (Err_Response status ''response status code''))
    else case decode body of None \<Rightarrow> go_fail Err_Json | Some v \<Rightarrow> go_return v)"

section \<open>The anchor\<close>

definition fetch_pubkey_bundle :: "('ek, 'mk) client_lib \<Rightarrow> client \<Rightarrow> context_deadline \<Rightarrow> ('z, pubkey_response) client_op" where
  "fetch_pubkey_bundle lib cl ctx =
    go_bind (go_lift (new_request lib cl ''GET'' ''pubkey'' []))
      (do_json lib cl ctx (lb_decode_pubkeys lib))"

definition get_clock :: "('z, go_time) client_op" where "get_clock w = (Inr (cw_clock w), w)"

text \<open>\<open>None\<close>: pinning is switched off, and nothing is checked.\<close>

definition verify_and_pin_response ::
  "('ek, 'mk) client_lib \<Rightarrow> client \<Rightarrow> pubkey_response \<Rightarrow> ('z, 'ek pinned_anchor option) client_op" where
  "verify_and_pin_response lib cl resp =
    (if cl_no_trust_store cl then go_return None
     else go_bind (go_lift (resolve_trust_store_path (lb_env lib) (cl_trust_store_path cl))) (\<lambda>path.
       go_bind (load_trust_store (lb_trust lib) path) (\<lambda>ts.
       go_bind get_clock (\<lambda>now.
       go_bind (go_lift (verify_and_pin_anchor (lb_crypto lib) now (cl_confirm_anchor cl) (cl_server cl) resp ts)) (\<lambda>(pinned, ts1).
       go_bind (go_when pinned (save_trust_store (lb_trust lib) path ts1)) (\<lambda>_.
       go_bind (go_lift (parse_anchor_pubkeys_from_wire (lb_crypto lib) (pk_anchor_es384 resp) (pk_anchor_mldsa87 resp))) (\<lambda>(es_pub, ml_bytes).
       go_return (Some \<lparr>pa_user_id = pk_user_id resp, pa_es384_pub = es_pub, pa_mldsa87_pub_bytes = ml_bytes\<rparr>))))))))"

definition verify_anchor_trust ::
  "('ek, 'mk) client_lib \<Rightarrow> client \<Rightarrow> context_deadline \<Rightarrow> ('z, 'ek pinned_anchor option) client_op" where
  "verify_anchor_trust lib cl ctx =
    (if cl_no_trust_store cl then go_return None
     else go_bind (fetch_pubkey_bundle lib cl ctx) (verify_and_pin_response lib cl))"

record user_public_keys =
  up_user_id :: string
  up_ecdh :: string
  up_mlkem :: string

definition user_keys_of :: "('ek, 'mk) client_lib \<Rightarrow> pubkey_response \<Rightarrow> user_public_keys go_result" where
  "user_keys_of lib resp =
    (case lb_decode_p256 lib (pk_ecdh_p256 resp) of
       None \<Rightarrow> Inl (Err_Msg ''invalid ECDH public key'')
     | Some jwk \<Rightarrow> (case to_ecdh_public_key (tc_new_p256 (lb_transport lib)) jwk of
         Inl _ \<Rightarrow> Inl (Err_Msg ''invalid ECDH public key'')
       | Inr ecdh \<Rightarrow> (case raw_url_decode (pk_mlkem768 resp) of
           None \<Rightarrow> Inl (Err_Msg ''invalid ML-KEM public key encoding'')
         | Some b \<Rightarrow> (case tc_new_mlkem768 (lb_transport lib) b of
             None \<Rightarrow> Inl (Err_Msg ''invalid ML-KEM public key'')
           | Some mlkem \<Rightarrow> Inr \<lparr>up_user_id = pk_user_id resp, up_ecdh = ecdh, up_mlkem = mlkem\<rparr>))))"

definition fetch_and_verify_user_pubkeys ::
  "('ek, 'mk) client_lib \<Rightarrow> client \<Rightarrow> context_deadline \<Rightarrow> ('z, user_public_keys) client_op" where
  "fetch_and_verify_user_pubkeys lib cl ctx =
    go_bind (fetch_pubkey_bundle lib cl ctx) (\<lambda>resp.
    go_bind (go_lift (user_keys_of lib resp)) (\<lambda>keys.
    go_bind (verify_and_pin_response lib cl resp) (\<lambda>_.
    go_return keys)))"

section \<open>Creating a request\<close>

record client_request =
  rq_operation :: string
  rq_key_label :: string
  rq_algorithm :: string
  rq_timeout :: int
  rq_note :: string
  rq_value :: string
  rq_nonce :: string
  rq_tag :: string
  rq_additional_data :: string
  rq_on_submitted :: bool

text \<open>\<open>Duration.String\<close> is the argument \<open>lb_duration\<close>.\<close>

definition format_timeout :: "(int \<Rightarrow> string) \<Rightarrow> int \<Rightarrow> string" where
  "format_timeout duration_string d = (if d \<le> 0 then [] else duration_string d)"

definition inner_payload_of :: "client_request \<Rightarrow> transport_key_pair \<Rightarrow> request_payload_inner" where
  "inner_payload_of req kp =
    \<lparr>rpi_value = rq_value req, rpi_nonce = rq_nonce req, rpi_tag = rq_tag req,
     rpi_additional_data = rq_additional_data req, rpi_client_transport_ecdh_key = kp_ecdh_public kp,
     rpi_client_transport_mlkem_key = kp_mlkem_public kp\<rparr>"

definition outer_body_of :: "('ek, 'mk) client_lib \<Rightarrow> client_request \<Rightarrow> encrypted_request \<Rightarrow> operation_request_body" where
  "outer_body_of lib req er =
    \<lparr>ob_key_label = rq_key_label req, ob_algorithm = rq_algorithm req,
     ob_timeout = format_timeout (lb_duration lib) (rq_timeout req), ob_note = rq_note req,
     ob_request_enc_alg = transport_alg, ob_cli_ephemeral_public_key = er_cli_ephemeral_public_key er,
     ob_mlkem_ciphertext = er_mlkem_ciphertext er, ob_encrypted_payload_nonce = er_nonce er,
     ob_encrypted_payload = er_ciphertext er\<rparr>"

definition create_client_request ::
  "('ek, 'mk) client_lib \<Rightarrow> client \<Rightarrow> context_deadline \<Rightarrow> client_request \<Rightarrow> transport_key_pair option \<Rightarrow> ('z, string) client_op" where
  "create_client_request lib cl ctx req kp_opt =
    (case kp_opt of None \<Rightarrow> go_fail (Err_Msg ''missing transport key pair'') | Some kp \<Rightarrow>
    go_bind (fetch_and_verify_user_pubkeys lib cl ctx) (\<lambda>keys.
    let aad = build_request_enc_aad (rq_algorithm req) (rq_key_label req) (rq_operation req) in
    go_bind (encrypt_request_payload (lb_transport lib) (lb_marshal_payload lib) (up_ecdh keys) (up_mlkem keys)
               (inner_payload_of req kp) aad) (\<lambda>er.
    case lb_marshal_body lib (outer_body_of lib req er) of None \<Rightarrow> go_fail Err_Json | Some body \<Rightarrow>
    go_bind (go_lift (new_request lib cl ''POST'' (rq_operation req) body)) (\<lambda>hreq.
    go_bind (do_json lib cl ctx (lb_decode_result lib) (hreq\<lparr>hr_content_type := ''application/json''\<rparr>)) (\<lambda>res.
    if \<not> res_pending res \<or> res_state res = [] then go_fail (Err_Msg ''invalid create response'')
    else go_return (res_state res))))))"

section \<open>Waiting for the result\<close>

definition default_result_timeout :: int where "default_result_timeout = seconds (15 * 60)"
definition result_timeout_grace :: int where "result_timeout_grace = seconds 30"
definition min_backoff :: int where "min_backoff = 250000000"
definition max_backoff :: int where "max_backoff = 2000000000"

definition result_path :: "string \<Rightarrow> string" where "result_path state = ''result/'' @ state"

text \<open>One round of the loop; \<open>None\<close> when the server answered \<open>pending\<close>.\<close>

definition poll_once ::
  "('ek, 'mk) client_lib \<Rightarrow> client \<Rightarrow> context_deadline \<Rightarrow> string \<Rightarrow> transport_key_pair \<Rightarrow> string
     \<Rightarrow> 'z client_world_scheme \<Rightarrow> string go_result option \<times> 'z client_world_scheme" where
  "poll_once lib cl ctx state kp aad w =
    (if context_done ctx (cw_clock w) then (Some (Inl context_error), w)
     else case new_request lib cl ''GET'' (result_path state) [] of
       Inl e \<Rightarrow> (Some (Inl e), w)
     | Inr req \<Rightarrow>
       (case do_json lib cl ctx (lb_decode_result lib) req w of
          (Inl e, w1) \<Rightarrow> (Some (Inl e), w1)
        | (Inr res, w1) \<Rightarrow>
            if res_state res \<noteq> state then (Some (Inl (Err_Msg ''response state mismatch'')), w1)
            else if res_pending res then (None, w1)
            else if res_failed res then (Some (Inl (Err_Msg ''operation is canceled, denied, or failed'')), w1)
            else if \<not> res_done res \<or> res_response_envelope res = None
              then (Some (Inl (Err_Msg ''missing encrypted response envelope'')), w1)
            else (Some (decrypt_response_envelope (lb_transport lib) state (Some kp) (res_response_envelope res) aad), w1)))"

text \<open>The \<open>select\<close>: whether the timer fired before the context ended.  On a tie the context wins here.\<close>

definition wait_backoff :: "context_deadline \<Rightarrow> int \<Rightarrow> 'z client_world_scheme \<Rightarrow> bool \<times> 'z client_world_scheme" where
  "wait_backoff ctx backoff w =
    (let t = cw_clock w + max 0 backoff in
     if context_done ctx t then (False, w\<lparr>cw_clock := max (cw_clock w) (the ctx)\<rparr>) else (True, w\<lparr>cw_clock := t\<rparr>))"

definition next_backoff :: "int \<Rightarrow> int" where
  "next_backoff b = (if 2 * b > max_backoff then max_backoff else 2 * b)"

partial_function (option) poll_loop ::
  "('ek, 'mk) client_lib \<Rightarrow> client \<Rightarrow> context_deadline \<Rightarrow> string \<Rightarrow> transport_key_pair \<Rightarrow> string \<Rightarrow> int
     \<Rightarrow> 'z client_world_scheme \<Rightarrow> (string go_result \<times> 'z client_world_scheme) option" where
  "poll_loop lib cl ctx state kp aad backoff w =
    (let p = poll_once lib cl ctx state kp aad w in
     if fst p \<noteq> None then Some (the (fst p), snd p)
     else let q = wait_backoff ctx backoff (snd p) in
       if \<not> fst q then Some (Inl context_error, snd q)
       else poll_loop lib cl ctx state kp aad (next_backoff backoff) (snd q))"

text \<open>Durations are 64 bits wide, so a huge timeout wraps and the wait ends at once.\<close>

definition local_timeout :: "int \<Rightarrow> int" where
  "local_timeout timeout = (if timeout > 0 then int64 (timeout + result_timeout_grace) else default_result_timeout)"

definition result_deadline :: "context_deadline \<Rightarrow> go_time \<Rightarrow> int \<Rightarrow> go_time" where
  "result_deadline ctx now timeout =
    (let d = now + local_timeout timeout in case ctx of None \<Rightarrow> d | Some c \<Rightarrow> min c d)"

definition get_result ::
  "('ek, 'mk) client_lib \<Rightarrow> client \<Rightarrow> context_deadline \<Rightarrow> string \<Rightarrow> transport_key_pair option \<Rightarrow> string \<Rightarrow> int
     \<Rightarrow> 'z client_world_scheme \<Rightarrow> (string go_result \<times> 'z client_world_scheme) option" where
  "get_result lib cl ctx state kp_opt aad timeout w =
    (case kp_opt of
       None \<Rightarrow> Some (Inl (Err_Msg ''missing transport key pair''), w)
     | Some kp \<Rightarrow> poll_loop lib cl (Some (result_deadline ctx (cw_clock w) timeout)) state kp aad min_backoff w)"

record client_response =
  cp_state :: string
  cp_payload :: string

definition note_submitted :: "bool \<Rightarrow> string \<Rightarrow> ('z, unit) client_op" where
  "note_submitted b state w = (Inr (), if b then w\<lparr>cw_submitted := cw_submitted w @ [state]\<rparr> else w)"

text \<open>What runs before the wait: the key pair, the request, and the caller's callback.\<close>

definition submit_operation ::
  "('ek, 'mk) client_lib \<Rightarrow> client \<Rightarrow> context_deadline \<Rightarrow> client_request \<Rightarrow> ('z, transport_key_pair \<times> string) client_op" where
  "submit_operation lib cl ctx req =
    go_bind (new_transport_key_pair (lb_transport lib)) (\<lambda>kp.
    go_bind (create_client_request lib cl ctx req (Some kp)) (\<lambda>state.
    go_bind (note_submitted (rq_on_submitted req) state) (\<lambda>_.
    go_return (kp, state))))"

definition execute ::
  "('ek, 'mk) client_lib \<Rightarrow> client \<Rightarrow> context_deadline \<Rightarrow> client_request \<Rightarrow> 'z client_world_scheme
     \<Rightarrow> (client_response go_result \<times> 'z client_world_scheme) option" where
  "execute lib cl ctx req w =
    (case submit_operation lib cl ctx req w of
       (Inl e, w1) \<Rightarrow> Some (Inl e, w1)
     | (Inr (kp, state), w1) \<Rightarrow>
         (case get_result lib cl ctx state (Some kp) (build_transport_aad state (rq_operation req) (rq_algorithm req))
                 (rq_timeout req) w1 of
            None \<Rightarrow> None
          | Some (Inl e, w2) \<Rightarrow> Some (Inl e, w2)
          | Some (Inr payload, w2) \<Rightarrow> Some (Inr \<lparr>cp_state = state, cp_payload = payload\<rparr>, w2)))"

section \<open>Signing keys\<close>

text \<open>The public key is kept as its bytes: \<open>04 || x || y\<close> for ES256, 32 bytes for Ed25519.\<close>

record client_signing_key =
  csk_id :: string
  csk_key_label :: string
  csk_algorithm :: string
  csk_key_id :: string
  csk_public_key :: string
  csk_jwk :: string

definition signing_key_of :: "signing_key_response \<Rightarrow> string \<Rightarrow> string \<Rightarrow> client_signing_key" where
  "signing_key_of resp key_id public_key =
    \<lparr>csk_id = sr_id resp, csk_key_label = sr_key_label resp, csk_algorithm = sr_algorithm resp, csk_key_id = key_id,
     csk_public_key = public_key, csk_jwk = sr_jwk resp\<rparr>"

definition parse_signing_pubkey_response ::
  "('ek, 'mk) client_lib \<Rightarrow> signing_key_response \<Rightarrow> client_signing_key go_result" where
  "parse_signing_pubkey_response lib resp =
    (if sr_algorithm resp = ''ES256'' then
       (case parse_p256_signing_jwk (lb_keys lib) (sr_jwk resp) of
          Inl _ \<Rightarrow> Inl (Err_Msg ''parse signing key JWK'')
        | Inr jwk \<Rightarrow> (case signing_to_ecdh_public_key (lb_keys lib) jwk of
            Inl _ \<Rightarrow> Inl (Err_Msg ''invalid signing public key'')
          | Inr pub \<Rightarrow> (case p256_thumbprint (cr_sha256 (lb_crypto lib)) jwk of
              Inl _ \<Rightarrow> Inl (Err_Msg ''compute signing key thumbprint'')
            | Inr kid \<Rightarrow> Inr (signing_key_of resp kid pub))))
     else if sr_algorithm resp = ''Ed25519'' \<or> sr_algorithm resp = ''Ed25519ph'' then
       (case parse_ed25519_signing_jwk (lb_keys lib) (sr_jwk resp) of
          Inl _ \<Rightarrow> Inl (Err_Msg ''parse signing key JWK'')
        | Inr jwk \<Rightarrow> (case ed25519_to_public_key jwk of
            Inl _ \<Rightarrow> Inl (Err_Msg ''invalid signing public key'')
          | Inr pub \<Rightarrow> (case ed25519_thumbprint (cr_sha256 (lb_crypto lib)) jwk of
              Inl _ \<Rightarrow> Inl (Err_Msg ''compute signing key thumbprint'')
            | Inr kid \<Rightarrow> Inr (signing_key_of resp kid pub))))
     else Inl (Err_Msg ''unsupported signing algorithm''))"

definition verify_signing_key_publication ::
  "('ek, 'mk) client_lib \<Rightarrow> 'ek pinned_anchor option \<Rightarrow> signing_key_response \<Rightarrow> string \<Rightarrow> string \<Rightarrow> string \<Rightarrow> unit go_result" where
  "verify_signing_key_publication lib anchor resp kid label algorithm =
    (case anchor of
       None \<Rightarrow> Inr ()
     | Some a \<Rightarrow>
        if sr_payload resp = [] \<or> sr_sig_es384 resp = [] \<or> sr_sig_mldsa87 resp = []
          then Inl (Err_Msg ''the signing key has no publication proof'')
        else (case verify_signing_key_public_response (lb_crypto lib) (sr_payload resp) (sr_sig_es384 resp)
                     (sr_sig_mldsa87 resp)
                     \<lparr>vo_es384_pub = Some (pa_es384_pub a), vo_mldsa87_pub_bytes = pa_mldsa87_pub_bytes a,
                      vo_expected_user_id = pa_user_id a, vo_expected_algorithm = algorithm,
                      vo_expected_key_label = label, vo_expected_key_id = kid\<rparr> of
                Inl _ \<Rightarrow> Inl (Err_Msg ''publication proof for the advertised signing key is not valid'')
              | Inr _ \<Rightarrow> Inr ()))"

definition accept_signing_key ::
  "('ek, 'mk) client_lib \<Rightarrow> 'ek pinned_anchor option \<Rightarrow> string \<Rightarrow> string \<Rightarrow> signing_key_response \<Rightarrow> client_signing_key go_result" where
  "accept_signing_key lib anchor label algorithm resp =
    (if sr_algorithm resp \<noteq> algorithm then Inl (Err_Msg ''server returned a signing key for another algorithm'')
     else if sr_key_label resp \<noteq> label then Inl (Err_Msg ''server returned a signing key for another label'')
     else case parse_signing_pubkey_response lib resp of
       Inl e \<Rightarrow> Inl e
     | Inr key \<Rightarrow> (case verify_signing_key_publication lib anchor resp (csk_key_id key) label algorithm of
         Inl e \<Rightarrow> Inl e
       | Inr _ \<Rightarrow> Inr key))"

definition signing_public_key ::
  "('ek, 'mk) client_lib \<Rightarrow> client \<Rightarrow> context_deadline \<Rightarrow> string \<Rightarrow> string \<Rightarrow> ('z, client_signing_key) client_op" where
  "signing_public_key lib cl ctx label algorithm =
    go_bind (verify_anchor_trust lib cl ctx) (\<lambda>anchor.
    go_bind (go_lift (new_request lib cl ''GET'' (''signing-pubkey?'' @ lb_query lib label algorithm) [])) (\<lambda>req.
    go_bind (do_json lib cl ctx (lb_decode_signing lib) req) (\<lambda>resp.
    go_lift (accept_signing_key lib anchor label algorithm resp))))"

end
