(* ===== verification/Client_Polling.thy ===== *)
theory Client_Polling
  imports Client_Operations
begin

text \<open>
  The wait for a result (\<open>GetResult\<close> of src/internal/clientcore/operations.go): the loop
  returns whatever the server answers, after a number of polls bounded by the timeout, and
  gives out only what decrypts in an envelope the server sent for this very state.
\<close>

section \<open>One round\<close>

text \<open>Time does not run backwards and never past the deadline; a round sends at most one request.\<close>

lemma http_do_effects:
  assumes "http_do cl (Some d) req w = (r, w1)" and "cw_clock w \<le> d"
  shows "cw_clock w \<le> cw_clock w1" and "cw_clock w1 \<le> d"
    and "length (cw_sent w1) \<le> Suc (length (cw_sent w))" and "dk_files w1 = dk_files w"
    and "context_done (Some d) (cw_clock w) \<Longrightarrow> cw_sent w1 = cw_sent w"
  using assms by (auto simp: http_do_def http_send_def context_done_def Let_def split: if_splits server_reply.splits)

lemma do_json_world: "snd (do_json lib cl ctx decode req w) = snd (http_do cl ctx req w)"
  by (cases "http_do cl ctx req w") (auto simp: do_json_def go_bind_def split: sum.splits prod.splits option.splits)

lemma poll_once_effects:
  assumes "poll_once lib cl (Some d) state kp aad w = (r, w1)" and "cw_clock w \<le> d"
  shows "cw_clock w \<le> cw_clock w1" and "cw_clock w1 \<le> d"
    and "length (cw_sent w1) \<le> Suc (length (cw_sent w))" and "dk_files w1 = dk_files w"
    and "cw_clock w = d \<Longrightarrow> w1 = w \<and> r \<noteq> None"
proof -
  have "w1 = w \<or> (\<exists>req. w1 = snd (do_json lib cl (Some d) (lb_decode_result lib) req w))"
    using assms(1) by (auto simp: poll_once_def split: if_splits sum.splits prod.splits) (metis snd_conv)+
  then have "w1 = w \<or> (\<exists>req. w1 = snd (http_do cl (Some d) req w))" by (auto simp: do_json_world)
  then show "cw_clock w \<le> cw_clock w1" "cw_clock w1 \<le> d"
    "length (cw_sent w1) \<le> Suc (length (cw_sent w))" "dk_files w1 = dk_files w"
    using http_do_effects [OF prod.collapse [symmetric] assms(2)] assms(2) by auto
  show "cw_clock w = d \<Longrightarrow> w1 = w \<and> r \<noteq> None"
    using assms(1) by (auto simp: poll_once_def context_done_def)
qed

lemma wait_backoff_goes_on:
  assumes "wait_backoff (Some d) b w = (True, w1)"
  shows "cw_clock w1 = cw_clock w + max 0 b" and "cw_clock w1 < d" and "cw_sent w1 = cw_sent w"
    and "dk_files w1 = dk_files w"
  using assms by (auto simp: wait_backoff_def context_done_def Let_def split: if_splits)

lemma wait_backoff_stops:
  assumes "wait_backoff (Some d) b w = (False, w1)"
  shows "cw_sent w1 = cw_sent w" and "dk_files w1 = dk_files w" and "cw_clock w \<le> d \<Longrightarrow> cw_clock w1 \<le> d"
  using assms by (auto simp: wait_backoff_def context_done_def Let_def split: if_splits)

lemma poll_loop_unfold:
  assumes "poll_once lib cl ctx state kp aad w = (r, w1)"
  shows "r = Some x \<Longrightarrow> poll_loop lib cl ctx state kp aad b w = Some (x, w1)"
    and "r = None \<Longrightarrow> wait_backoff ctx b w1 = (False, w2) \<Longrightarrow> poll_loop lib cl ctx state kp aad b w = Some (Inl context_error, w2)"
    and "r = None \<Longrightarrow> wait_backoff ctx b w1 = (True, w2)
      \<Longrightarrow> poll_loop lib cl ctx state kp aad b w = poll_loop lib cl ctx state kp aad (next_backoff b) w2"
  using assms by (subst poll_loop.simps; simp)+

section \<open>The loop ends\<close>

text \<open>The rounds that come before the back-off has reached its two seconds.\<close>

definition ramp :: "int \<Rightarrow> int" where
  "ramp b = (if b = 250000000 then 3 else if b = 500000000 then 2 else if b = 1000000000 then 1 else 0)"

definition backoffs :: "int set" where
  "backoffs = {250000000, 500000000, 1000000000, 2000000000}"

lemma backoffs_next:
  assumes "b \<in> backoffs"
  shows "next_backoff b \<in> backoffs" and "0 < b"
    and "2000000000 * ramp (next_backoff b) \<le> 2000000000 * ramp b + b - 2000000000"
  using assms by (auto simp: backoffs_def next_backoff_def max_backoff_def ramp_def)

lemma poll_loop_returns:
  assumes "b \<in> backoffs" and "cw_clock w \<le> d"
  shows "\<exists>r w1. poll_loop lib cl (Some d) state kp aad b w = Some (r, w1)
     \<and> 2000000000 * (int (length (cw_sent w1)) - int (length (cw_sent w)) - 1 - ramp b) \<le> d - cw_clock w
     \<and> dk_files w1 = dk_files w \<and> cw_clock w1 \<le> d"
  using assms
proof (induction "nat (d - cw_clock w)" arbitrary: b w rule: less_induct)
  case less
  have ramp: "0 \<le> ramp b" by (simp add: ramp_def)
  obtain r w1 where p: "poll_once lib cl (Some d) state kp aad w = (r, w1)" by fastforce
  note eff = poll_once_effects [OF p less.prems(2)]
  have one: "2000000000 * (int (length (cw_sent w1)) - int (length (cw_sent w)) - 1 - ramp b) \<le> d - cw_clock w"
  proof -
    have "int (length (cw_sent w1)) - int (length (cw_sent w)) - 1 - ramp b \<le> 0"
      using eff(3) ramp by linarith
    then have "2000000000 * (int (length (cw_sent w1)) - int (length (cw_sent w)) - 1 - ramp b) \<le> 0"
      by (simp add: mult_le_0_iff)
    also have "0 \<le> d - cw_clock w" using less.prems(2) by simp
    finally show ?thesis .
  qed
  obtain go w2 where q: "wait_backoff (Some d) b w1 = (go, w2)" by fastforce
  show ?case
  proof (cases r)
    case (Some x)
    then show ?thesis using poll_loop_unfold(1) [OF p] one eff(2,4) by auto
  next
    case None
    show ?thesis
    proof (cases go)
      case False
      then show ?thesis using poll_loop_unfold(2) [OF p None] q wait_backoff_stops [of d b w1 w2] one eff(2,4) by auto
    next
      case True
      with q have waited: "wait_backoff (Some d) b w1 = (True, w2)" by simp
      note w2 = wait_backoff_goes_on [OF waited]
      note nb = backoffs_next [OF less.prems(1)]
      have "nat (d - cw_clock w2) < nat (d - cw_clock w)" using w2(1,2) eff(1) nb(2) by linarith
      from less.hyps [OF this nb(1)] w2(2)
      obtain r3 w3 where w3: "poll_loop lib cl (Some d) state kp aad (next_backoff b) w2 = Some (r3, w3)"
        and n: "2000000000 * (int (length (cw_sent w3)) - int (length (cw_sent w2)) - 1 - ramp (next_backoff b)) \<le> d - cw_clock w2"
        and f: "dk_files w3 = dk_files w2" and t: "cw_clock w3 \<le> d" by (meson order_less_imp_le)
      have "2000000000 * (int (length (cw_sent w3)) - int (length (cw_sent w)) - 1 - ramp b) \<le> d - cw_clock w"
        using n nb(2,3) w2(1,3) eff(1,3) by (simp add: algebra_simps)
      then show ?thesis using poll_loop_unfold(3) [OF p None waited] w3 f t w2(4) eff(4) by auto
    qed
  qed
qed

lemma polls_within:
  assumes "2000000000 * (n - 1 - 3) \<le> t" and "t \<le> (u::int)"
  shows "n \<le> 4 + max 0 u div 2000000000"
proof -
  have "(2000000000 * (n - 1 - 3)) div 2000000000 \<le> max 0 u div 2000000000"
    using assms by (intro zdiv_mono1) simp_all
  then show ?thesis by simp
qed

text \<open>The bounds on the polls and on the time, for any world.\<close>

lemma get_result_returns:
  "\<exists>r w1. get_result lib cl ctx state kp aad timeout w = Some (r, w1)
     \<and> int (length (cw_sent w1)) - int (length (cw_sent w)) \<le> 4 + max 0 (local_timeout timeout) div 2000000000
     \<and> cw_clock w1 \<le> max (cw_clock w) (result_deadline ctx (cw_clock w) timeout)"
proof (cases kp)
  case None
  then show ?thesis by (simp add: get_result_def)
next
  case (Some k)
  let ?d = "result_deadline ctx (cw_clock w) timeout"
  have get: "get_result lib cl ctx state kp aad timeout w = poll_loop lib cl (Some ?d) state k aad min_backoff w"
    by (simp add: get_result_def Some)
  have start: "min_backoff \<in> backoffs" "ramp min_backoff = 3"
    by (simp_all add: min_backoff_def backoffs_def ramp_def)
  show ?thesis
  proof (cases "cw_clock w \<le> ?d")
    case True
    have "?d - cw_clock w \<le> local_timeout timeout" by (auto simp: result_deadline_def Let_def split: option.splits)
    moreover from poll_loop_returns [OF start(1) True, of lib cl state k aad] obtain r w1
      where run: "poll_loop lib cl (Some ?d) state k aad min_backoff w = Some (r, w1)" and t: "cw_clock w1 \<le> ?d"
        and n: "2000000000 * (int (length (cw_sent w1)) - int (length (cw_sent w)) - 1 - 3) \<le> ?d - cw_clock w"
      unfolding start(2) by blast
    ultimately have "int (length (cw_sent w1)) - int (length (cw_sent w)) \<le> 4 + max 0 (local_timeout timeout) div 2000000000"
      by (intro polls_within [OF n])
    with run t show ?thesis unfolding get by (intro exI conjI) auto
  next
    case False
    then have p: "poll_once lib cl (Some ?d) state k aad w = (Some (Inl context_error), w)"
      by (simp add: poll_once_def context_done_def)
    show ?thesis using poll_loop_unfold(1) [OF p refl] unfolding get by simp
  qed
qed

lemma result_deadline_within: "result_deadline ctx now timeout \<le> now + local_timeout timeout"
  by (simp add: result_deadline_def Let_def split: option.split)

text \<open>C21: Waiting for a result always ends, whatever the server answers and however long it takes: the loop
  returns; when it does, the clock has not passed the deadline of the wait (the caller's deadline and the client's
  own timeout, whichever is first), if that was not over before the call, so it has not run for longer than the timeout;
  and the number of polls it sends is at most four plus the timeout divided by two seconds (the back-off
  reaches two seconds after three rounds).\<close>

theorem get_result_ends:
  "\<exists>r w1. get_result lib cl ctx state kp aad timeout w = Some (r, w1)
     \<and> int (length (cw_sent w1)) - int (length (cw_sent w)) \<le> 4 + max 0 (local_timeout timeout) div 2000000000
     \<and> cw_clock w1 \<le> max (cw_clock w) (result_deadline ctx (cw_clock w) timeout)
     \<and> cw_clock w1 - cw_clock w \<le> max 0 (local_timeout timeout)"
proof -
  obtain r w1 where "get_result lib cl ctx state kp aad timeout w = Some (r, w1)"
    "int (length (cw_sent w1)) - int (length (cw_sent w)) \<le> 4 + max 0 (local_timeout timeout) div 2000000000"
    "cw_clock w1 \<le> max (cw_clock w) (result_deadline ctx (cw_clock w) timeout)"
    using get_result_returns by blast
  then show ?thesis using result_deadline_within [of ctx "cw_clock w" timeout] by fastforce
qed

lemma get_result_files:
  assumes "get_result lib cl ctx state kp aad timeout w = Some (r, w1)"
  shows "dk_files w1 = dk_files w"
proof (cases kp)
  case None
  then show ?thesis using assms by (simp add: get_result_def)
next
  case (Some k)
  let ?d = "result_deadline ctx (cw_clock w) timeout"
  have loop: "poll_loop lib cl (Some ?d) state k aad min_backoff w = Some (r, w1)"
    using assms by (simp add: get_result_def Some)
  show ?thesis
  proof (cases "cw_clock w \<le> ?d")
    case True
    have "min_backoff \<in> backoffs" by (simp add: min_backoff_def backoffs_def)
    then show ?thesis using poll_loop_returns [OF _ True, of min_backoff lib cl state k aad] loop by auto
  next
    case False
    then have "poll_once lib cl (Some ?d) state k aad w = (Some (Inl context_error), w)"
      by (simp add: poll_once_def context_done_def)
    then show ?thesis using poll_loop_unfold(1) loop by fastforce
  qed
qed

section \<open>What comes out\<close>

text \<open>A payload is what decrypts in an envelope of a finished result for this state.\<close>

definition decrypted_result :: "('ek, 'mk) client_lib \<Rightarrow> string \<Rightarrow> transport_key_pair \<Rightarrow> string \<Rightarrow> string \<Rightarrow> bool" where
  "decrypted_result lib state kp aad payload \<longleftrightarrow>
    (\<exists>body res env. lb_decode_result lib body = Some res \<and> res_state res = state \<and> res_done res \<and> \<not> res_failed res
       \<and> \<not> res_pending res \<and> res_response_envelope res = Some env
       \<and> decrypt_response_envelope (lb_transport lib) state (Some kp) (Some env) aad = Inr payload)"

lemma do_json_decoded: "do_json lib cl ctx decode req w = (Inr v, w1) \<Longrightarrow> \<exists>body. decode body = Some v"
  by (auto simp: do_json_def go_ok_iffs split: if_splits)

lemma poll_answer_cases:
  assumes "(if a then (Some (Inl e1), w) else if b then (None, w) else if c then (Some (Inl e2), w)
      else if \<not> d \<or> env = None then (Some (Inl e3), w) else (Some z, w)) = (Some (Inr p), w1)"
  shows "\<not> a \<and> \<not> b \<and> \<not> c \<and> d \<and> env \<noteq> None \<and> z = Inr p"
  using assms by (simp split: if_split_asm)

lemma poll_once_payload:
  assumes "poll_once lib cl ctx state kp aad w = (Some (Inr payload), w1)"
  shows "decrypted_result lib state kp aad payload"
proof -
  have going: "\<not> context_done ctx (cw_clock w)" using assms by (auto simp: poll_once_def split: if_splits)
  obtain req where req: "new_request lib cl ''GET'' (result_path state) [] = Inr req"
    using assms going by (cases "new_request lib cl ''GET'' (result_path state) []") (simp_all add: poll_once_def)
  obtain r w2 where j: "do_json lib cl ctx (lb_decode_result lib) req w = (r, w2)" by fastforce
  obtain res where r: "r = Inr res" using assms going req j by (cases r) (simp_all add: poll_once_def)
  have once: "poll_once lib cl ctx state kp aad w =
     (if res_state res \<noteq> state then (Some (Inl (Err_Msg ''response state mismatch'')), w2)
      else if res_pending res then (None, w2)
      else if res_failed res then (Some (Inl (Err_Msg ''operation is canceled, denied, or failed'')), w2)
      else if \<not> res_done res \<or> res_response_envelope res = None
        then (Some (Inl (Err_Msg ''missing encrypted response envelope'')), w2)
      else (Some (decrypt_response_envelope (lb_transport lib) state (Some kp) (res_response_envelope res) aad), w2))"
    by (simp only: poll_once_def going req j [unfolded r] if_False sum.case prod.case)
  have answer: "\<not> res_state res \<noteq> state \<and> \<not> res_pending res \<and> \<not> res_failed res \<and> res_done res \<and>
      res_response_envelope res \<noteq> None \<and>
      decrypt_response_envelope (lb_transport lib) state (Some kp) (res_response_envelope res) aad = Inr payload"
    by (rule poll_answer_cases [OF assms [unfolded once]])
  obtain body where "lb_decode_result lib body = Some res" using do_json_decoded [OF j [unfolded r]] by (elim exE)
  moreover obtain env where "res_response_envelope res = Some env" using answer by blast
  ultimately show ?thesis using answer unfolding decrypted_result_def by metis
qed

lemma poll_loop_payload:
  fixes lib :: "('ek, 'mk) client_lib" and w :: "'z client_world_scheme"
  assumes "poll_loop lib cl ctx state kp aad b w = Some (Inr payload, w1)"
  shows "decrypted_result lib state kp aad payload"
proof -
  have "\<forall>p w2. (Inr payload :: string go_result, w1) = (Inr p, w2) \<longrightarrow> decrypted_result lib state kp aad p"
  proof (rule poll_loop.raw_induct [where P = "\<lambda>(lib :: ('ek, 'mk) client_lib) cl ctx state kp aad b (w :: 'z client_world_scheme) x.
      \<forall>p w2. x = (Inr p, w2) \<longrightarrow> decrypted_result lib state kp aad p", OF _ assms])
    fix f and lib :: "('ek, 'mk) client_lib" and cl ctx state kp aad b and w :: "'z client_world_scheme" and x
    assume IH: "\<And>lib cl ctx state kp aad b w x. f lib cl ctx state kp aad b w = Some x \<Longrightarrow>
        \<forall>p w2. x = (Inr p, w2) \<longrightarrow> decrypted_result lib state kp aad p"
      and eq: "(let p = poll_once lib cl ctx state kp aad w
        in if fst p \<noteq> None then Some (the (fst p), snd p)
           else let q = wait_backoff ctx b (snd p)
             in if \<not> fst q then Some (Inl context_error, snd q)
                else f lib cl ctx state kp aad (next_backoff b) (snd q)) = Some x"
    obtain r w1 where p: "poll_once lib cl ctx state kp aad w = (r, w1)" by fastforce
    show "\<forall>p w2. x = (Inr p, w2) \<longrightarrow> decrypted_result lib state kp aad p"
    proof (cases r)
      case (Some y)
      then have x: "x = (y, w1)" using eq p by simp
      show ?thesis
      proof (intro allI impI)
        fix pl w2 assume "x = (Inr pl, w2)"
        then show "decrypted_result lib state kp aad pl" using poll_once_payload [of lib cl ctx state kp aad w pl w1] p Some x by simp
      qed
    next
      case None
      then show ?thesis using eq p IH by (auto simp: Let_def split: if_splits)
    qed
  qed
  then show ?thesis by simp
qed

lemma get_result_payload:
  assumes "get_result lib cl ctx state (Some kp) aad timeout w = Some (Inr payload, w1)"
  shows "decrypted_result lib state kp aad payload"
  using assms poll_loop_payload by (auto simp: get_result_def)

end
