(* ===== verification/Audit_Store.thy ===== *)
theory Audit_Store
  imports Database "HOL-Library.List_Lexorder"
begin

text \<open>
  The audit log: the store of src/internal/db/audit.go (validation, insert,
  filtered listing with a cursor, pruning) and the helpers of
  src/internal/server/audit.go that build its rows.  Event types, outcomes and
  authentication methods are the strings of the source.  \<open>json_valid\<close> is
  \<open>json.Valid\<close>, \<open>json_object\<close> is \<open>json.Marshal\<close> of a map of scalars (given as
  its pairs in key order), \<open>uuid_parse\<close> is \<open>uuid.Parse\<close>; the new row's UUID is an
  argument.
\<close>

definition audit_event_types :: "string list" where
  "audit_event_types =
    [''auth.register_finish'', ''auth.finalize_signup'', ''auth.login_finish'', ''auth.logout'',
     ''auth.request_key_regenerate'', ''auth.allowed_ips_change'', ''auth.display_name_change'',
     ''auth.wrapped_key_update'', ''auth.credential_add_finish'', ''auth.credential_rename'',
     ''auth.credential_delete'', ''request.create'', ''request.confirm'', ''request.cancel'',
     ''request.expire'', ''signing_key.create'', ''signing_key.publish'', ''signing_key.unpublish'',
     ''signing_key.delete'', ''signing_key.auto_store'']"

definition valid_event_type :: "string \<Rightarrow> bool" where
  "valid_event_type e \<longleftrightarrow> e \<in> set audit_event_types"

definition valid_outcome :: "string \<Rightarrow> bool" where
  "valid_outcome o1 \<longleftrightarrow> o1 \<in> set [''success'', ''failure'', ''denied'']"

definition valid_auth_method :: "string \<Rightarrow> bool" where
  "valid_auth_method m \<longleftrightarrow> m \<in> set [''session'', ''request_key'', ''system'', ''none'']"

definition audit_max_metadata_bytes :: nat where "audit_max_metadata_bytes = 4096"
definition audit_max_user_agent_chars :: nat where "audit_max_user_agent_chars = 512"
definition audit_max_ip_chars :: nat where "audit_max_ip_chars = 64"

record audit_event_input =
  in_event_type :: string
  in_outcome :: string
  in_auth_method :: string
  in_actor_user_id :: "string option"
  in_target_user_id :: "string option"
  in_signing_key_id :: "string option"
  in_credential_id :: "string option"
  in_request_state :: "string option"
  in_http_request_id :: "string option"
  in_client_ip :: "string option"
  in_user_agent :: "string option"
  in_metadata :: string

text \<open>\<open>Validate\<close> trims an overlong user agent in place, so it returns the input it leaves.\<close>

definition validate_audit_input ::
  "(string \<Rightarrow> bool) \<Rightarrow> audit_event_input \<Rightarrow> audit_event_input go_result" where
  "validate_audit_input json_valid i =
    (if \<not> valid_event_type (in_event_type i) then Inl Err_Audit_Invalid_Event_Type
     else if \<not> valid_outcome (in_outcome i) then Inl Err_Audit_Invalid_Outcome
     else if \<not> valid_auth_method (in_auth_method i) then Inl Err_Audit_Invalid_Auth_Method
     else if length (in_metadata i) > audit_max_metadata_bytes then Inl Err_Audit_Metadata_Too_Large
     else if length (in_metadata i) > 0 \<and> \<not> json_valid (in_metadata i) then Inl Err_Audit_Metadata_Invalid
     else
       let trimmed = (case in_user_agent i of
             Some ua \<Rightarrow> if length ua > audit_max_user_agent_chars
                        then i\<lparr>in_user_agent := Some (take audit_max_user_agent_chars ua)\<rparr> else i
           | None \<Rightarrow> i)
       in (case in_client_ip i of
             Some ip \<Rightarrow> if length ip > audit_max_ip_chars then Inl Err_Audit_Client_IP_Too_Long
                        else Inr trimmed
           | None \<Rightarrow> Inr trimmed))"

definition audit_row_of :: "string \<Rightarrow> go_time \<Rightarrow> audit_event_input \<Rightarrow> audit_row" where
  "audit_row_of aid now i =
    \<lparr>ae_id = aid, ae_created_at = unix_seconds now, ae_event_type = in_event_type i,
     ae_outcome = in_outcome i, ae_auth_method = in_auth_method i,
     ae_actor_user_id = in_actor_user_id i, ae_target_user_id = in_target_user_id i,
     ae_signing_key_id = in_signing_key_id i, ae_credential_id = in_credential_id i,
     ae_request_state = in_request_state i, ae_http_request_id = in_http_request_id i,
     ae_client_ip = in_client_ip i, ae_user_agent = in_user_agent i,
     ae_metadata = (if in_metadata i = [] then ''{}'' else in_metadata i)\<rparr>"

definition same_audit_id :: "audit_row \<Rightarrow> audit_row \<Rightarrow> bool" where
  "same_audit_id q r \<longleftrightarrow> ae_id q = ae_id r"

text \<open>The returned \<open>AuditEvent\<close> has the columns of the row.\<close>

definition audit_insert ::
  "(string \<Rightarrow> bool) \<Rightarrow> string \<Rightarrow> go_time \<Rightarrow> audit_event_input \<Rightarrow> audit_row db_op" where
  "audit_insert json_valid aid now data =
     go_bind (go_lift (validate_audit_input json_valid data)) (\<lambda>d.
     go_bind (db_stmt (sql_insert db_audit_events put_audit_events same_audit_id (audit_row_of aid now d)))
       (\<lambda>_. go_return (audit_row_of aid now d)))"

section \<open>Listing\<close>

record audit_filter =
  af_user_id :: string
  af_system :: bool
  af_event_type :: string
  af_since_unix :: int
  af_until_unix :: int

definition validate_audit_cursor ::
  "(string \<Rightarrow> nat list option) \<Rightarrow> string \<Rightarrow> string go_result" where
  "validate_audit_cursor uuid_parse cursor =
    (if cursor = [] then Inr []
     else case uuid_parse cursor of
            None \<Rightarrow> Inl Err_Audit_Invalid_Cursor
          | Some u \<Rightarrow> if u ! 6 div 16 \<noteq> 7 then Inl Err_Audit_Invalid_Cursor else Inr cursor)"

definition id_order :: "string \<Rightarrow> nat list" where
  "id_order aid = map byte aid"

definition audit_matches :: "audit_filter \<Rightarrow> audit_row \<Rightarrow> bool" where
  "audit_matches f r \<longleftrightarrow>
     (af_user_id f \<noteq> [] \<longrightarrow> ae_actor_user_id r = Some (af_user_id f)) \<and>
     (af_system f \<longrightarrow> ae_auth_method r = ''system'') \<and>
     (af_event_type f \<noteq> [] \<longrightarrow> ae_event_type r = af_event_type f) \<and>
     (af_since_unix f > 0 \<longrightarrow> ae_created_at r \<ge> af_since_unix f) \<and>
     (af_until_unix f > 0 \<longrightarrow> ae_created_at r \<le> af_until_unix f)"

definition before_cursor :: "string \<Rightarrow> audit_row \<Rightarrow> bool" where
  "before_cursor cursor r \<longleftrightarrow> (cursor \<noteq> [] \<longrightarrow> id_order (ae_id r) < id_order cursor)"

definition effective_limit :: "int \<Rightarrow> nat" where
  "effective_limit limit = (let l = (if limit \<le> 0 then 50 else limit) in nat (if l > 500 then 500 else l))"

definition newest_first :: "audit_row list \<Rightarrow> audit_row list" where
  "newest_first rs = rev (sort_key (\<lambda>r. id_order (ae_id r)) rs)"

definition page_of :: "nat \<Rightarrow> audit_row list \<Rightarrow> audit_row list \<times> string" where
  "page_of limit out =
     (if length out > limit then (take limit out, ae_id (out ! (limit - 1))) else (out, []))"

definition audit_list ::
  "(string \<Rightarrow> nat list option) \<Rightarrow> audit_filter \<Rightarrow> int \<Rightarrow> string \<Rightarrow> (audit_row list \<times> string) db_op" where
  "audit_list uuid_parse f limit cursor =
     (if af_user_id f \<noteq> [] \<and> af_system f then go_fail Err_Audit_Filter_Conflict
      else if af_event_type f \<noteq> [] \<and> \<not> valid_event_type (af_event_type f)
        then go_fail Err_Audit_Invalid_Event_Type
      else go_bind (go_lift (validate_audit_cursor uuid_parse cursor)) (\<lambda>cursor_id.
        let l = effective_limit limit in
        go_bind (db_stmt (sql_select db_audit_events (\<lambda>r. audit_matches f r \<and> before_cursor cursor_id r)))
          (\<lambda>rs. go_return (page_of l (take (l + 1) (newest_first rs))))))"

definition prune_before :: "int \<Rightarrow> int db_op" where
  "prune_before before_unix =
     go_bind (db_stmt (sql_delete db_audit_events put_audit_events (\<lambda>r. ae_created_at r < before_unix)))
       (\<lambda>rs. go_return (affected rs))"

section \<open>Building the rows of the server\<close>

definition optional_string :: "string \<Rightarrow> string option" where
  "optional_string s = (if s = [] then None else Some s)"

definition audit_retention :: go_time where "audit_retention = hours (30 * 24)"
definition audit_prune_interval :: go_time where "audit_prune_interval = hours 24"

record audit_fields =
  fl_event_type :: string
  fl_outcome :: string
  fl_target_user_id :: string
  fl_signing_key_id :: string
  fl_credential_id :: string
  fl_request_state :: string
  fl_metadata :: string
  fl_auth_method :: string
  fl_actor_user_id :: string

definition no_fields :: audit_fields where
  "no_fields = \<lparr>fl_event_type = [], fl_outcome = [], fl_target_user_id = [], fl_signing_key_id = [],
     fl_credential_id = [], fl_request_state = [], fl_metadata = [], fl_auth_method = [],
     fl_actor_user_id = []\<rparr>"

text \<open>What the audit helpers read from a request's gin context: session user, request-key user.\<close>

record audit_context =
  ac_session_user_id :: string
  ac_request_user_id :: "string option"
  ac_request_id :: string
  ac_client_ip :: string
  ac_user_agent :: string

definition audit_input_from_context :: "audit_context \<Rightarrow> audit_fields \<Rightarrow> audit_event_input" where
  "audit_input_from_context c f =
    (let actor0 = fl_actor_user_id f; m0 = fl_auth_method f;
         (actor1, m1) = (if actor0 = [] then
             (let a = ac_session_user_id c in (a, if a \<noteq> [] \<and> m0 = [] then ''session'' else m0))
           else (actor0, m0));
         (actor, m2) = (if actor1 = [] then
             (case ac_request_user_id c of
                Some u \<Rightarrow> (u, if m1 = [] then ''request_key'' else m1)
              | None \<Rightarrow> (actor1, m1))
           else (actor1, m1));
         m3 = (if m2 = [] then ''none'' else m2)
     in \<lparr>in_event_type = fl_event_type f, in_outcome = fl_outcome f, in_auth_method = m3,
         in_actor_user_id = optional_string actor,
         in_target_user_id = optional_string (fl_target_user_id f),
         in_signing_key_id = optional_string (fl_signing_key_id f),
         in_credential_id = optional_string (fl_credential_id f),
         in_request_state = optional_string (fl_request_state f),
         in_http_request_id = optional_string (ac_request_id c),
         in_client_ip = optional_string (ac_client_ip c),
         in_user_agent = optional_string (ac_user_agent c),
         in_metadata = fl_metadata f\<rparr>)"

definition audit_event_tx ::
  "(string \<Rightarrow> bool) \<Rightarrow> string \<Rightarrow> go_time \<Rightarrow> audit_context \<Rightarrow> audit_fields \<Rightarrow> unit db_op" where
  "audit_event_tx json_valid aid now c f =
     go_bind (audit_insert json_valid aid now (audit_input_from_context c f)) (\<lambda>_. go_return ())"

text \<open>\<open>auditEvent\<close> and \<open>auditEventCtx\<close> log a failed insert and go on.\<close>

definition audit_event ::
  "(string \<Rightarrow> bool) \<Rightarrow> string \<Rightarrow> go_time \<Rightarrow> audit_context \<Rightarrow> audit_fields \<Rightarrow> unit db_op" where
  "audit_event json_valid aid now c f =
     go_bind (go_try (audit_insert json_valid aid now (audit_input_from_context c f))) (\<lambda>_. go_return ())"

definition audit_event_ctx ::
  "(string \<Rightarrow> bool) \<Rightarrow> string \<Rightarrow> go_time \<Rightarrow> audit_fields \<Rightarrow> unit db_op" where
  "audit_event_ctx json_valid aid now f =
     go_bind (go_try (audit_insert json_valid aid now
       \<lparr>in_event_type = fl_event_type f, in_outcome = fl_outcome f, in_auth_method = ''system'',
        in_actor_user_id = optional_string (fl_actor_user_id f),
        in_target_user_id = optional_string (fl_target_user_id f),
        in_signing_key_id = optional_string (fl_signing_key_id f),
        in_credential_id = optional_string (fl_credential_id f),
        in_request_state = optional_string (fl_request_state f),
        in_http_request_id = None, in_client_ip = None, in_user_agent = None,
        in_metadata = fl_metadata f\<rparr>)) (\<lambda>_. go_return ())"

text \<open>The scalars in a metadata map.\<close>

datatype json_scalar = Js_String string | Js_Bool bool | Js_Int int

definition request_audit_metadata ::
  "((string \<times> json_scalar) list \<Rightarrow> string) \<Rightarrow> string \<Rightarrow> string \<Rightarrow> string \<Rightarrow> string \<Rightarrow> string" where
  "request_audit_metadata json_object operation algorithm key_label note =
     json_object ([(''algorithm'', Js_String algorithm), (''keyLabel'', Js_String key_label)]
       @ (if note \<noteq> [] then [(''note'', Js_String note)] else [])
       @ [(''operation'', Js_String operation)])"

section \<open>What is in the log\<close>

definition audit_row_ok :: "(string \<Rightarrow> bool) \<Rightarrow> audit_row \<Rightarrow> bool" where
  "audit_row_ok json_valid r \<longleftrightarrow>
     valid_event_type (ae_event_type r) \<and> valid_outcome (ae_outcome r) \<and> valid_auth_method (ae_auth_method r) \<and>
     length (ae_metadata r) \<le> audit_max_metadata_bytes \<and> ae_metadata r \<noteq> [] \<and>
     (ae_metadata r = ''{}'' \<or> json_valid (ae_metadata r)) \<and>
     (case ae_user_agent r of None \<Rightarrow> True | Some ua \<Rightarrow> length ua \<le> audit_max_user_agent_chars) \<and>
     (case ae_client_ip r of None \<Rightarrow> True | Some ip \<Rightarrow> length ip \<le> audit_max_ip_chars)"

definition audit_log_ok :: "(string \<Rightarrow> bool) \<Rightarrow> audit_row list \<Rightarrow> bool" where
  "audit_log_ok json_valid t \<longleftrightarrow> list_all (audit_row_ok json_valid) t"

lemma validate_audit_input_ok:
  "validate_audit_input json_valid i = Inr d \<Longrightarrow> audit_row_ok json_valid (audit_row_of aid now d)"
  by (auto simp: validate_audit_input_def audit_row_ok_def audit_row_of_def Let_def
      audit_max_metadata_bytes_def audit_max_user_agent_chars_def split: if_splits option.splits)

lemma keeps_audit_insert [keeps_intros]:
  "keeps (\<lambda>s. audit_log_ok json_valid (db_audit_events s)) (audit_insert json_valid aid now data)"
proof -
  have "keeps (\<lambda>s. audit_log_ok json_valid (db_audit_events s))
     (sql_insert db_audit_events put_audit_events same_audit_id (audit_row_of aid now d))"
    if "validate_audit_input json_valid data = Inr d" for d
    using validate_audit_input_ok [OF that] by (auto simp: keeps_def sql_insert_def audit_log_ok_def)
  then show ?thesis
    unfolding audit_insert_def by (intro keeps_bind_lift keeps_bind keeps_intros)
qed

section \<open>Paging\<close>

lemma id_order_inj: "id_order a = id_order b \<longleftrightarrow> a = b"
proof -
  have "inj byte" by (rule injI) simp
  then show ?thesis by (simp add: id_order_def inj_map_eq_map)
qed

abbreviation descending :: "audit_row list \<Rightarrow> bool" where
  "descending rs \<equiv> sorted_wrt (\<lambda>p q. id_order (ae_id q) < id_order (ae_id p)) rs"

lemma newest_first_descending:
  assumes "distinct (map ae_id rs)"
  shows "descending (newest_first rs)"
proof -
  let ?k = "\<lambda>r. id_order (ae_id r)"
  have "distinct (map ?k rs)"
    using assms by (simp add: distinct_map inj_on_def id_order_inj)
  then have "distinct (map ?k (sort_key ?k rs))"
    by (simp add: distinct_map)
  then have "sorted_wrt (<) (map ?k (sort_key ?k rs))"
    by (simp add: strict_sorted_iff)
  then show ?thesis
    by (simp add: newest_first_def sorted_wrt_rev sorted_wrt_map)
qed

lemma newest_first_filter:
  "newest_first (filter P rs) = filter P (newest_first rs)"
  by (simp only: newest_first_def filter_sort [symmetric] rev_filter)

lemma descending_before_nth:
  assumes "descending rs" and "i < length rs"
  shows "filter (\<lambda>r. id_order (ae_id r) < id_order (ae_id (rs ! i))) rs = drop (Suc i) rs"
  using assms
proof (induction rs arbitrary: i)
  case (Cons r rs)
  show ?case
  proof (cases i)
    case 0
    then show ?thesis using Cons.prems by (auto simp: filter_id_conv)
  next
    case (Suc j)
    then have "id_order (ae_id (rs ! j)) < id_order (ae_id r)" using Cons.prems by simp
    then have "\<not> id_order (ae_id r) < id_order (ae_id (rs ! j))" by (rule order_less_not_sym)
    then show ?thesis using Cons Suc by simp
  qed
qed simp

text \<open>The cursor of a page whose predecessors hold the first \<open>i\<close> rows.\<close>

definition cursor_at :: "audit_row list \<Rightarrow> nat \<Rightarrow> string" where
  "cursor_at rows i = (if i = 0 then [] else ae_id (rows ! (i - 1)))"

lemma rows_before_cursor:
  assumes "descending rows" and "i \<le> length rows" and "\<And>r. r \<in> set rows \<Longrightarrow> ae_id r \<noteq> []"
  shows "filter (before_cursor (cursor_at rows i)) rows = drop i rows"
proof (cases i)
  case (Suc j)
  then have "ae_id (rows ! j) \<noteq> []" using assms by simp
  then have "before_cursor (cursor_at rows i) = (\<lambda>r. id_order (ae_id r) < id_order (ae_id (rows ! j)))"
    using Suc by (simp add: before_cursor_def cursor_at_def fun_eq_iff)
  then show ?thesis using descending_before_nth [OF assms(1), of j] Suc assms(2) by simp
qed (simp add: before_cursor_def cursor_at_def)

lemma page_of_drop:
  assumes "0 < l" and "i \<le> length rows"
  shows "page_of l (take (l + 1) (drop i rows))
       = (take l (drop i rows), if i + l < length rows then cursor_at rows (i + l) else [])"
  using assms by (auto simp: page_of_def cursor_at_def min_def)

lemma effective_limit_pos: "0 < effective_limit limit"
  by (simp add: effective_limit_def Let_def)

definition filter_ok :: "audit_filter \<Rightarrow> bool" where
  "filter_ok f \<longleftrightarrow> \<not> (af_user_id f \<noteq> [] \<and> af_system f)
     \<and> (af_event_type f = [] \<or> valid_event_type (af_event_type f))"

definition ids_ok :: "(string \<Rightarrow> nat list option) \<Rightarrow> audit_row list \<Rightarrow> bool" where
  "ids_ok uuid_parse t \<longleftrightarrow> distinct (map ae_id t) \<and>
     list_all (\<lambda>r. ae_id r \<noteq> [] \<and> validate_audit_cursor uuid_parse (ae_id r) = Inr (ae_id r)) t"

definition matching :: "audit_filter \<Rightarrow> database \<Rightarrow> audit_row list" where
  "matching f s = newest_first (rows_where (audit_matches f) (db_audit_events s))"

lemma set_matching: "set (matching f s) \<subseteq> set (db_audit_events s)"
  by (auto simp: matching_def newest_first_def)

lemma audit_list_at:
  assumes "conn_faults s = []" and "filter_ok f" and "ids_ok uuid_parse (db_audit_events s)"
    and "i \<le> length (matching f s)"
  shows "audit_list uuid_parse f limit (cursor_at (matching f s) i) s =
    (let l = effective_limit limit; rows = matching f s in
     (Inr (take l (drop i rows), if i + l < length rows then cursor_at rows (i + l) else []), s))"
proof -
  let ?rows = "matching f s" and ?l = "effective_limit limit"
  have d: "distinct (map ae_id (rows_where (audit_matches f) (db_audit_events s)))"
    using assms(3) by (simp add: ids_ok_def rows_where_def distinct_map_filter)
  have ne: "ae_id r \<noteq> [] \<and> validate_audit_cursor uuid_parse (ae_id r) = Inr (ae_id r)"
    if "r \<in> set ?rows" for r
    using that set_matching assms(3) by (fastforce simp: ids_ok_def list_all_iff)
  have v: "validate_audit_cursor uuid_parse (cursor_at ?rows i) = Inr (cursor_at ?rows i)"
  proof (cases i)
    case 0
    then show ?thesis by (simp add: cursor_at_def validate_audit_cursor_def)
  next
    case (Suc j)
    then show ?thesis using ne [of "?rows ! j"] assms(4) by (simp add: cursor_at_def)
  qed
  have "newest_first (rows_where (\<lambda>r. audit_matches f r \<and> before_cursor (cursor_at ?rows i) r) (db_audit_events s))
      = filter (before_cursor (cursor_at ?rows i)) ?rows"
    by (simp add: matching_def rows_where_def newest_first_filter [symmetric] conj_commute)
  also have "\<dots> = drop i ?rows"
    using rows_before_cursor [OF _ assms(4)] ne newest_first_descending [OF d] by (simp add: matching_def)
  finally have n: "newest_first (rows_where (\<lambda>r. audit_matches f r \<and> before_cursor (cursor_at ?rows i) r)
      (db_audit_events s)) = drop i ?rows" .
  have c: "\<not> (af_user_id f \<noteq> [] \<and> af_system f)" "\<not> (af_event_type f \<noteq> [] \<and> \<not> valid_event_type (af_event_type f))"
    using assms(2) by (auto simp: filter_ok_def)
  have "audit_list uuid_parse f limit (cursor_at ?rows i) s
      = (Inr (page_of ?l (take (?l + 1) (drop i ?rows))), s)"
    by (simp only: audit_list_def c if_False v go_bind_def go_lift_apply Let_def
        db_stmt_no_fault [OF assms(1)] sql_select_def n go_return_apply prod.case sum.case)
  then show ?thesis
    using page_of_drop [OF effective_limit_pos assms(4), of limit] by (simp add: Let_def)
qed

text \<open>Following the cursors from the first page to the last.\<close>

fun audit_walk ::
  "(string \<Rightarrow> nat list option) \<Rightarrow> audit_filter \<Rightarrow> int \<Rightarrow> database \<Rightarrow> nat \<Rightarrow> string \<Rightarrow> audit_row list" where
  "audit_walk uuid_parse f limit s 0 cursor = []"
| "audit_walk uuid_parse f limit s (Suc n) cursor =
     (case fst (audit_list uuid_parse f limit cursor s) of
        Inl _ \<Rightarrow> []
      | Inr (page, next_cursor) \<Rightarrow>
          page @ (if next_cursor = [] then [] else audit_walk uuid_parse f limit s n next_cursor))"

lemma audit_walk_from:
  assumes "conn_faults s = []" and "filter_ok f" and "ids_ok uuid_parse (db_audit_events s)"
  shows "i \<le> length (matching f s) \<Longrightarrow> length (matching f s) - i < n \<Longrightarrow>
    audit_walk uuid_parse f limit s n (cursor_at (matching f s) i) = drop i (matching f s)"
proof (induction n arbitrary: i)
  case (Suc n)
  let ?rows = "matching f s" and ?l = "effective_limit limit"
  note pos = effective_limit_pos [of limit]
  note at = audit_list_at [OF assms Suc.prems(1), of limit]
  show ?case
  proof (cases "i + ?l < length ?rows")
    case True
    have "?rows ! (i + ?l - 1) \<in> set ?rows" using True pos by simp
    then have "cursor_at ?rows (i + ?l) \<noteq> []"
      using True pos set_matching [of f s] assms(3)
      by (fastforce simp: cursor_at_def ids_ok_def list_all_iff)
    moreover have "audit_walk uuid_parse f limit s n (cursor_at ?rows (i + ?l)) = drop (i + ?l) ?rows"
      using True Suc.prems pos by (intro Suc.IH) auto
    ultimately show ?thesis using True
      by (simp add: at Let_def) (metis add.commute append_take_drop_id drop_drop)
  next
    case False
    then show ?thesis by (simp add: at Let_def)
  qed
qed simp

text \<open>Sample data for the witnesses.\<close>

definition sample_event :: "string \<Rightarrow> int \<Rightarrow> audit_row" where
  "sample_event aid t = \<lparr>ae_id = aid, ae_created_at = t, ae_event_type = ''auth.logout'',
     ae_outcome = ''success'', ae_auth_method = ''session'', ae_actor_user_id = Some ''alice'',
     ae_target_user_id = None, ae_signing_key_id = None, ae_credential_id = None, ae_request_state = None,
     ae_http_request_id = None, ae_client_ip = None, ae_user_agent = None, ae_metadata = ''{}''\<rparr>"

definition sample_uuid7 :: "string \<Rightarrow> nat list option" where
  "sample_uuid7 s = (if s = [] then None else Some (replicate 6 0 @ [112] @ replicate 9 0))"

definition no_filter :: audit_filter where
  "no_filter = \<lparr>af_user_id = [], af_system = False, af_event_type = [], af_since_unix = 0, af_until_unix = 0\<rparr>"

definition sample_audit_db :: database where
  "sample_audit_db = empty_database\<lparr>db_audit_events :=
     [sample_event ''b'' 2, sample_event ''a'' 1, sample_event ''c'' 3]\<rparr>"

text \<open>C8: Following the cursors from the first page, with any limit, lists every event that matches
  the filter exactly once and newest first, and then ends: no page repeats or skips an event.\<close>

theorem audit_pages_complete:
  assumes "conn_faults s = []" and "filter_ok f" and "ids_ok uuid_parse (db_audit_events s)"
  shows "audit_walk uuid_parse f limit s (length (matching f s) + 1) [] = matching f s
     \<and> descending (matching f s)
     \<and> set (matching f s) = {r \<in> set (db_audit_events s). audit_matches f r}"
proof (intro conjI)
  show "audit_walk uuid_parse f limit s (length (matching f s) + 1) [] = matching f s"
    using audit_walk_from [OF assms, of 0 "length (matching f s) + 1" limit] by (simp add: cursor_at_def)
  show "descending (matching f s)"
    unfolding matching_def using assms(3)
    by (intro newest_first_descending) (simp add: ids_ok_def rows_where_def distinct_map_filter)
  show "set (matching f s) = {r \<in> set (db_audit_events s). audit_matches f r}"
    by (simp add: matching_def newest_first_def)
qed

theorem audit_pages_complete_witness:
  "audit_walk sample_uuid7 no_filter 2 sample_audit_db (length (matching no_filter sample_audit_db) + 1) []
     = matching no_filter sample_audit_db
   \<and> descending (matching no_filter sample_audit_db)
   \<and> set (matching no_filter sample_audit_db)
     = {r \<in> set (db_audit_events sample_audit_db). audit_matches no_filter r}"
proof (rule audit_pages_complete)
  show "ids_ok sample_uuid7 (db_audit_events sample_audit_db)"
  proof -
    have "validate_audit_cursor sample_uuid7 aid = Inr aid" if "aid \<noteq> []" for aid
      using that by (simp add: validate_audit_cursor_def sample_uuid7_def nth_append)
    then show ?thesis by (simp add: ids_ok_def sample_audit_db_def sample_event_def)
  qed
qed (simp_all add: sample_audit_db_def empty_database_def filter_ok_def no_filter_def)

text \<open>Every row of the audit log is well formed: \<open>Insert\<close>, in whatever way it ends, adds at most a
  row with a declared event type, outcome and method, non-empty metadata of at most 4 KiB that is
  valid JSON, a user agent of at most 512 and an address of at most 64 bytes.\<close>

lemma audit_insert_wellformed:
  assumes "audit_log_ok json_valid (db_audit_events s)"
  shows "audit_log_ok json_valid (db_audit_events (snd (audit_insert json_valid aid now data s)))"
  using keepsD [OF keeps_audit_insert assms] by simp

theorem audit_insert_wellformed_witness:
  "audit_log_ok (\<lambda>_. True) (db_audit_events (snd (audit_insert (\<lambda>_. True) ''d'' (seconds 9)
      \<lparr>in_event_type = ''request.create'', in_outcome = ''success'', in_auth_method = ''session'',
       in_actor_user_id = None, in_target_user_id = None, in_signing_key_id = None, in_credential_id = None,
       in_request_state = None, in_http_request_id = None, in_client_ip = None,
       in_user_agent = Some (replicate 600 CHR ''x''), in_metadata = []\<rparr> sample_audit_db)))"
  by (rule audit_insert_wellformed)
    (simp add: audit_log_ok_def sample_audit_db_def sample_event_def audit_row_ok_def valid_event_type_def
      audit_event_types_def valid_outcome_def valid_auth_method_def audit_max_metadata_bytes_def)

end
