(* ===== verification/Server_Common.thy ===== *)
theory Server_Common
  imports Hybrid_Signature Auth_Store Audit_Store
begin

text \<open>
  What the HTTP handlers share (src/internal/server): error responses
  (util-errorresponse.go), the IP allowlist (util-ipallowlist.go), bearer tokens and
  the two authentication middlewares (middleware-auth.go), session info
  (session_jwt.go), the wrapped-anchor envelope (wrapped-anchor.go) and the anchor
  key parsers at the end of routes-auth.go.

  A handler is a state operation whose error, if any, goes through
  \<open>abort_with_error_json\<close>; an early \<open>AbortWithErrorJSON(c, err); return\<close> is
  \<open>go_fail err\<close>.  Texts of error messages are abbreviated.
\<close>

section \<open>Responses\<close>

definition internal_server_error_message :: string where
  "internal_server_error_message = ''An internal error occurred''"

datatype 'a http_reply = Reply_Json nat 'a | Reply_Error nat string

definition abort_with_error_json :: "go_error \<Rightarrow> 'a http_reply" where
  "abort_with_error_json err =
    (case err of
       Err_Response code message \<Rightarrow>
         Reply_Error code (if code \<ge> 500 then internal_server_error_message else message)
     | _ \<Rightarrow> Reply_Error 500 internal_server_error_message)"

definition respond :: "nat \<Rightarrow> ('s, 'a) go \<Rightarrow> 's \<Rightarrow> 'a http_reply \<times> 's" where
  "respond code handler s = (case handler s of
      (Inl e, s1) \<Rightarrow> (abort_with_error_json e, s1)
    | (Inr x, s1) \<Rightarrow> (Reply_Json code x, s1))"

definition no_session_response_error :: go_error where
  "no_session_response_error = Err_Response 401 ''No session''"

definition not_found :: go_error where "not_found = Err_Response 404 ''not found''"

definition bad_request :: "string \<Rightarrow> go_error" where "bad_request m = Err_Response 400 m"

text \<open>Fail unless a condition holds, then go on.\<close>

definition go_require :: "bool \<Rightarrow> go_error \<Rightarrow> ('s, unit) go" where
  "go_require b e = (if b then go_return () else go_fail e)"

lemma keeps_require [keeps_intros]: "keeps I (go_require b e)"
  by (simp add: go_require_def keeps_return keeps_fail)

text \<open>\<open>errors.Is(err, sentinel)\<close> replaced by a response error.\<close>

definition map_error :: "(go_error \<Rightarrow> go_error) \<Rightarrow> ('s, 'a) go \<Rightarrow> ('s, 'a) go" where
  "map_error f m s = (case m s of (Inl e, s1) \<Rightarrow> (Inl (f e), s1) | (Inr x, s1) \<Rightarrow> (Inr x, s1))"

lemma map_error_state [simp]: "snd (map_error f m s) = snd (m s)"
  by (auto simp: map_error_def split: prod.splits sum.splits)

lemma map_error_ok: "map_error f m s = (Inr x, s1) \<longleftrightarrow> m s = (Inr x, s1)"
  by (auto simp: map_error_def split: prod.splits sum.splits)

lemma keeps_map_error [keeps_intros]: "keeps I m \<Longrightarrow> keeps I (map_error f m)"
  by (simp add: keeps_def)

text \<open>Messages of server errors never reach the client.\<close>

lemma abort_hides_internal_errors:
  "abort_with_error_json err = Reply_Error code m \<Longrightarrow> code \<ge> 500 \<Longrightarrow> m = internal_server_error_message"
  by (auto simp: abort_with_error_json_def split: go_error.splits if_splits)

section \<open>The IP allowlist\<close>

text \<open>Go's \<open>net\<close> package: parsing and matching of addresses and networks.\<close>

record ('ip, 'net) net_lib =
  nl_parse_ip :: "string \<Rightarrow> 'ip option"
  nl_parse_cidr :: "string \<Rightarrow> 'net option"
  nl_contains :: "'net \<Rightarrow> 'ip \<Rightarrow> bool"
  nl_equal :: "'ip \<Rightarrow> 'ip \<Rightarrow> bool"

fun ip_in_entries :: "('ip, 'net) net_lib \<Rightarrow> 'ip \<Rightarrow> string list \<Rightarrow> bool" where
  "ip_in_entries nl ip [] = False"
| "ip_in_entries nl ip (entry # entries) =
    (case nl_parse_cidr nl entry of
       Some network \<Rightarrow> if nl_contains nl network ip then True else ip_in_entries nl ip entries
     | None \<Rightarrow> (case nl_parse_ip nl entry of
                  Some allowed \<Rightarrow> if nl_equal nl allowed ip then True else ip_in_entries nl ip entries
                | None \<Rightarrow> ip_in_entries nl ip entries))"

definition client_ip_allowed :: "('ip, 'net) net_lib \<Rightarrow> string \<Rightarrow> string list \<Rightarrow> bool" where
  "client_ip_allowed nl client_ip allowed_ips =
    (if length allowed_ips = 0 then True
     else case nl_parse_ip nl client_ip of
            None \<Rightarrow> False
          | Some ip \<Rightarrow> ip_in_entries nl ip allowed_ips)"

definition entry_admits :: "('ip, 'net) net_lib \<Rightarrow> 'ip \<Rightarrow> string \<Rightarrow> bool" where
  "entry_admits nl ip entry \<longleftrightarrow>
    (case nl_parse_cidr nl entry of
       Some network \<Rightarrow> nl_contains nl network ip
     | None \<Rightarrow> (case nl_parse_ip nl entry of Some a \<Rightarrow> nl_equal nl a ip | None \<Rightarrow> False))"

lemma ip_in_entries_iff: "ip_in_entries nl ip entries \<longleftrightarrow> (\<exists>e\<in>set entries. entry_admits nl ip e)"
  by (induction entries) (auto simp: entry_admits_def split: option.splits)

lemma client_ip_allowed_iff:
  "client_ip_allowed nl client_ip allowed_ips \<longleftrightarrow> allowed_ips = []
    \<or> (\<exists>ip. nl_parse_ip nl client_ip = Some ip \<and> (\<exists>e\<in>set allowed_ips. entry_admits nl ip e))"
  by (auto simp: client_ip_allowed_def ip_in_entries_iff split: option.splits)

section \<open>Authentication\<close>

definition bearer_prefix :: string where "bearer_prefix = ''bearer ''"

definition get_bearer_token :: "string \<Rightarrow> string" where
  "get_bearer_token h =
    (if length h > length bearer_prefix \<and> go_to_lower (take (length bearer_prefix) h) = bearer_prefix
     then drop (length bearer_prefix) h else [])"

text \<open>\<open>MiddlewareRequestKey\<close>: the user it puts in the context.\<close>

definition middleware_request_key ::
  "('ip, 'net) net_lib \<Rightarrow> string \<Rightarrow> string \<Rightarrow> user db_op" where
  "middleware_request_key nl authorization client_ip =
    (let request_key = get_bearer_token authorization in
     if request_key = [] then go_fail (Err_Response 401 ''Missing request key'')
     else go_bind (get_user_by_request_key request_key) (\<lambda>found.
       case found of
         None \<Rightarrow> go_fail (Err_Response 404 ''Request key not found'')
       | Some user \<Rightarrow>
          if usr_status user \<noteq> ''active'' then go_fail (Err_Response 404 ''Request key not found'')
          else if \<not> usr_ready user then go_fail (Err_Response 412 ''User account setup is not complete'')
          else if \<not> client_ip_allowed nl client_ip (usr_allowed_ips user)
            then go_fail (Err_Response 403 ''This client's IP is not allowed to perform this request'')
          else go_return user))"

record auth_session_token =
  tok_user_id :: string
  tok_display_name :: string
  tok_ready :: bool
  tok_expires_at :: go_time

text \<open>
  \<open>MiddlewareSession\<close>: the user id and the whole seconds left.  \<open>cookies\<close> looks a cookie
  up by name; \<open>parse_token\<close> is \<open>parseAuthSessionToken\<close>, which is the JWT library's
  verification under the signing key.
\<close>

definition session_cookie_for :: "bool \<Rightarrow> string \<times> string" where
  "session_cookie_for secure = (if secure then (''__Host-_s'', ''/'') else (''_s'', ''/v2''))"

definition secure_cookie :: "string \<Rightarrow> bool \<Rightarrow> bool" where
  "secure_cookie scheme force_secure_cookies \<longleftrightarrow> scheme = ''https'' \<or> force_secure_cookies"

definition middleware_session ::
  "(string \<Rightarrow> auth_session_token option) \<Rightarrow> go_time \<Rightarrow> bool \<Rightarrow> string \<Rightarrow> (string \<Rightarrow> string option) \<Rightarrow> bool
     \<Rightarrow> (string \<times> int) go_result" where
  "middleware_session parse_token now secure authorization cookies require_ready =
    (let bearer = get_bearer_token authorization;
         token = (if bearer \<noteq> [] then Some bearer
                  else case cookies (fst (session_cookie_for secure)) of
                         None \<Rightarrow> None
                       | Some t \<Rightarrow> if t = [] then None else Some t)
     in case token of
          None \<Rightarrow> Inl (Err_Response 401 ''User is not authenticated'')
        | Some t \<Rightarrow> (case parse_token t of
            None \<Rightarrow> Inl (Err_Response 401 ''User session is invalid or expired'')
          | Some sess \<Rightarrow>
              if require_ready \<and> \<not> tok_ready sess
              then Inl (Err_Response 403 ''User account setup is not complete'')
              else Inr (tok_user_id sess, max (tok_expires_at sess - now) 0 div nanos_per_second)))"

definition new_auth_session_token :: "go_time \<Rightarrow> user \<Rightarrow> go_time \<Rightarrow> auth_session_token" where
  "new_auth_session_token now user ttl =
    \<lparr>tok_user_id = usr_id user, tok_display_name = usr_display_name user, tok_ready = usr_ready user,
     tok_expires_at = now + (if ttl \<le> 0 then minutes 1 else ttl)\<rparr>"

section \<open>Anchor keys and signatures on the wire\<close>

definition parse_anchor_pubkeys :: "('ek, 'mk) crypto \<Rightarrow> string \<Rightarrow> string \<Rightarrow> ('ek \<times> string) go_result" where
  "parse_anchor_pubkeys cr es384_jwk mldsa87_b64 =
    (if es384_jwk = [] then Inl (Err_Msg ''anchorEs384PublicKey is required'')
     else if mldsa87_b64 = [] then Inl (Err_Msg ''anchorMldsa87PublicKey is required'')
     else case parse_p384_canonical_body es384_jwk of
       None \<Rightarrow> Inl (Err_Msg ''anchorEs384PublicKey'')
     | Some jwk \<Rightarrow> (case to_ecdsa_public_key (cr_ecdsa_parse cr) jwk of
         Inl _ \<Rightarrow> Inl (Err_Msg ''anchorEs384PublicKey'')
       | Inr es_pub \<Rightarrow> (case raw_url_decode mldsa87_b64 of
           None \<Rightarrow> Inl (Err_Msg ''anchorMldsa87PublicKey'')
         | Some ml_bytes \<Rightarrow>
             if length ml_bytes \<noteq> mldsa87_public_key_size then Inl (Err_Msg ''anchorMldsa87PublicKey: wrong length'')
             else Inr (es_pub, ml_bytes))))"

definition parse_hybrid_signatures :: "string \<Rightarrow> string \<Rightarrow> (string \<times> string) go_result" where
  "parse_hybrid_signatures es384_b64 mldsa87_b64 =
    (case decode_base64_signature es384_b64 es384_signature_size of
       Inl _ \<Rightarrow> Inl (Err_Msg ''ES384'')
     | Inr sig_es \<Rightarrow> (case decode_base64_signature mldsa87_b64 mldsa87_signature_size of
         Inl _ \<Rightarrow> Inl (Err_Msg ''ML-DSA-87'')
       | Inr sig_ml \<Rightarrow> Inr (sig_es, sig_ml)))"

definition compute_anchor_fingerprint :: "('ek, 'mk) crypto \<Rightarrow> user \<Rightarrow> string" where
  "compute_anchor_fingerprint cr user =
    (if usr_anchor_es384_public_key user = [] \<or> usr_anchor_mldsa87_public_key user = [] then []
     else case parse_p384_canonical_body (usr_anchor_es384_public_key user) of
       None \<Rightarrow> []
     | Some jwk \<Rightarrow> (case to_ecdsa_public_key (cr_ecdsa_parse cr) jwk of
         Inl _ \<Rightarrow> []
       | Inr pub \<Rightarrow> (case raw_url_decode (usr_anchor_mldsa87_public_key user) of
           None \<Rightarrow> []
         | Some b \<Rightarrow>
             if length b \<noteq> mldsa87_public_key_size then []
             else (case anchor_fingerprint cr (Some pub) b of Inl _ \<Rightarrow> [] | Inr fp \<Rightarrow> fp))))"

record session_info =
  si_user_id :: string
  si_display_name :: string
  si_request_key :: string
  si_anchor_fingerprint :: string
  si_wrapped_key_epoch :: int
  si_allowed_ips :: "string list"
  si_ttl :: int

definition session_info_from_user :: "('ek, 'mk) crypto \<Rightarrow> user \<Rightarrow> int \<Rightarrow> session_info" where
  "session_info_from_user cr user ttl =
    \<lparr>si_user_id = usr_id user, si_display_name = usr_display_name user, si_request_key = usr_request_key user,
     si_anchor_fingerprint = compute_anchor_fingerprint cr user, si_wrapped_key_epoch = usr_wrapped_key_epoch user,
     si_allowed_ips = usr_allowed_ips user, si_ttl = max ttl 0\<rparr>"

section \<open>The wrapped-anchor envelope\<close>

definition wrapped_anchor_nonce_size :: nat where "wrapped_anchor_nonce_size = 12"
definition wrapped_anchor_version :: string where "wrapped_anchor_version = ''1''"
definition wrapped_anchor_fields :: "string list" where
  "wrapped_anchor_fields = [''ciphertext'', ''nonce'', ''v'']"

fun read_anchor_lines ::
  "string list \<Rightarrow> string list \<Rightarrow> (string \<rightharpoonup> string) \<Rightarrow> (string \<rightharpoonup> string) go_result" where
  "read_anchor_lines (expected # rest) (line # lines) seen =
    (case cut_on CHR ''='' line of
       None \<Rightarrow> Inl (Err_Msg ''line missing ='')
     | Some (key, content) \<Rightarrow>
        if key = [] then Inl (Err_Msg ''line missing ='')
        else if key \<noteq> expected then Inl (Err_Msg ''unexpected key'')
        else if seen key \<noteq> None then Inl (Err_Msg ''duplicate key'')
        else read_anchor_lines rest lines (seen(key \<mapsto> content)))"
| "read_anchor_lines _ _ seen = Inr seen"

text \<open>Reading a Go map gives the zero value for a missing key.\<close>

definition map_get :: "(string \<rightharpoonup> string) \<Rightarrow> string \<Rightarrow> string" where
  "map_get m k = (case m k of None \<Rightarrow> [] | Some v \<Rightarrow> v)"

definition validate_wrapped_anchor_envelope :: "string \<Rightarrow> unit go_result" where
  "validate_wrapped_anchor_envelope wrapped =
    (if wrapped = [] then Inl (Err_Msg ''wrappedAnchorKey is empty'')
     else case raw_url_decode wrapped of
       None \<Rightarrow> Inl (Err_Msg ''wrappedAnchorKey is not valid base64url'')
     | Some body \<Rightarrow>
        let lines = split_on CHR 0x0A body in
        if length lines \<noteq> length wrapped_anchor_fields then Inl (Err_Msg ''unexpected number of lines'')
        else case read_anchor_lines wrapped_anchor_fields lines Map.empty of
          Inl e \<Rightarrow> Inl e
        | Inr seen \<Rightarrow>
            if map_get seen ''v'' \<noteq> wrapped_anchor_version then Inl (Err_Msg ''unsupported version'')
            else if map_get seen ''nonce'' = [] then Inl (Err_Msg ''empty nonce'')
            else if map_get seen ''ciphertext'' = [] then Inl (Err_Msg ''empty ciphertext'')
            else case raw_url_decode (map_get seen ''nonce'') of
              None \<Rightarrow> Inl (Err_Msg ''nonce is not valid base64url'')
            | Some nonce \<Rightarrow>
                if length nonce \<noteq> wrapped_anchor_nonce_size then Inl (Err_Msg ''nonce must be 12 bytes'')
                else (case raw_url_decode (map_get seen ''ciphertext'') of
                        None \<Rightarrow> Inl (Err_Msg ''ciphertext is not valid base64url'')
                      | Some _ \<Rightarrow> Inr ()))"

section \<open>What the checks mean\<close>

lemma get_bearer_token_nonempty:
  "get_bearer_token h = k \<Longrightarrow> k \<noteq> [] \<Longrightarrow>
     \<exists>pre. h = pre @ k \<and> go_to_lower pre = bearer_prefix"
  by (rule exI [of _ "take (length bearer_prefix) h"]) (auto simp: get_bearer_token_def split: if_splits)

lemma get_user_by_request_key_ok:
  assumes "get_user_by_request_key k s = (Inr found, s')"
  shows "same_tables s s' \<and> found = map_option user_of_row (first_row (rows_where (\<lambda>r. u_request_key r = k) (db_users s)))"
proof -
  have "get_user_by_request_key k =
     go_bind (db_stmt (sql_select db_users (\<lambda>r. u_request_key r = k)))
       (\<lambda>rs. go_return (map_option user_of_row (first_row rs)))"
    by (simp add: get_user_by_request_key_def get_user_def user_column_def)
  with assms show ?thesis
    by (cases rule: db_stmt_cases [of "sql_select db_users (\<lambda>r. u_request_key r = k)" s])
      (auto simp: go_bind_def sql_select_def)
qed

lemma first_row_where: "first_row (rows_where P t) = Some r \<Longrightarrow> r \<in> set t \<and> P r"
  by (cases "rows_where P t") (auto simp: rows_where_def filter_eq_Cons_iff)

text \<open>A request-key call is let through only as an existing user of the database: the header is a bearer
  token (the scheme in any case) that is exactly the row's request key, the account is active and ready,
  and the allowlist is empty or has an entry that admits the parsed client address; the call changes no
  table.\<close>

lemma request_key_admits:
  assumes "middleware_request_key nl authorization client_ip s = (Inr user, s')"
  shows "same_tables s s' \<and>
    (\<exists>u pre. u \<in> set (db_users s) \<and> user = user_of_row u \<and> authorization = pre @ u_request_key u
       \<and> u_request_key u \<noteq> [] \<and> go_to_lower pre = ''bearer '' \<and> u_status u = ''active'' \<and> u_ready u
       \<and> (parse_allowed_ips_csv (u_allowed_ips u) = []
          \<or> (\<exists>ip. nl_parse_ip nl client_ip = Some ip
                \<and> (\<exists>e\<in>set (parse_allowed_ips_csv (u_allowed_ips u)). entry_admits nl ip e))))"
proof -
  let ?k = "get_bearer_token authorization"
  obtain k: "?k \<noteq> []" and found: "get_user_by_request_key ?k s = (Inr (Some user), s')"
    and ok: "usr_status user = ''active''" "usr_ready user" "client_ip_allowed nl client_ip (usr_allowed_ips user)"
    using assms
    by (auto simp: middleware_request_key_def Let_def go_bind_def split: if_splits prod.splits sum.splits option.splits)
  from get_user_by_request_key_ok [OF found] obtain u where
    u: "first_row (rows_where (\<lambda>r. u_request_key r = ?k) (db_users s)) = Some u"
      "user = user_of_row u" and st: "same_tables s s'" by (auto dest: sym)
  from first_row_where [OF u(1)] have row: "u \<in> set (db_users s)" "u_request_key u = ?k" by auto
  obtain pre where "authorization = pre @ ?k" "go_to_lower pre = ''bearer ''"
    using get_bearer_token_nonempty [OF refl k] by (auto simp: bearer_prefix_def)
  with row u(2) k ok st show ?thesis
    by (auto simp: user_of_row_def client_ip_allowed_iff intro!: exI [of _ u])
qed

lemma read_anchor_lines_ok:
  "read_anchor_lines wrapped_anchor_fields lines Map.empty = Inr seen \<and> length lines = 3 \<longleftrightarrow>
    (\<exists>c n v. lines = [''ciphertext='' @ c, ''nonce='' @ n, ''v='' @ v]
       \<and> seen = [''ciphertext'' \<mapsto> c, ''nonce'' \<mapsto> n, ''v'' \<mapsto> v])"
proof
  assume l: "read_anchor_lines wrapped_anchor_fields lines Map.empty = Inr seen \<and> length lines = 3"
  then obtain l1 l2 l3 where lines: "lines = [l1, l2, l3]"
    by (auto simp: length_Suc_conv numeral_3_eq_3)
  from l[unfolded lines] show "\<exists>c n v. lines = [''ciphertext='' @ c, ''nonce='' @ n, ''v='' @ v]
       \<and> seen = [''ciphertext'' \<mapsto> c, ''nonce'' \<mapsto> n, ''v'' \<mapsto> v]"
    unfolding lines
    by (auto simp: wrapped_anchor_fields_def dest!: cut_on_SomeD split: option.splits prod.splits if_splits)
next
  assume "\<exists>c n v. lines = [''ciphertext='' @ c, ''nonce='' @ n, ''v='' @ v]
       \<and> seen = [''ciphertext'' \<mapsto> c, ''nonce'' \<mapsto> n, ''v'' \<mapsto> v]"
  then show "read_anchor_lines wrapped_anchor_fields lines Map.empty = Inr seen \<and> length lines = 3"
    by (auto simp: wrapped_anchor_fields_def)
qed

text \<open>The structural check of a wrapped anchor key accepts exactly the unpadded base64url encodings of
  the three lines \<open>ciphertext=\<close>, \<open>nonce=\<close>, \<open>v=1\<close> in this order, where nonce and ciphertext are
  non-empty base64url and the nonce is 12 bytes; nothing else can be stored as an envelope.\<close>

lemma wrapped_anchor_exact:
  "validate_wrapped_anchor_envelope wrapped = Inr () \<longleftrightarrow>
    (\<exists>c n nb. raw_url_decode wrapped = Some (''ciphertext='' @ c @ CHR 0x0A # ''nonce='' @ n @ CHR 0x0A # ''v=1'')
       \<and> CHR 0x0A \<notin> set c \<and> CHR 0x0A \<notin> set n \<and> c \<noteq> [] \<and> n \<noteq> []
       \<and> raw_url_decode n = Some nb \<and> length nb = 12 \<and> raw_url_decode c \<noteq> None)"
proof
  assume ok: "validate_wrapped_anchor_envelope wrapped = Inr ()"
  then obtain body seen where body: "raw_url_decode wrapped = Some body"
    and l: "length (split_on CHR 0x0A body) = 3"
    and seen: "read_anchor_lines wrapped_anchor_fields (split_on CHR 0x0A body) Map.empty = Inr seen"
    by (auto simp: validate_wrapped_anchor_envelope_def Let_def wrapped_anchor_fields_def
        split: if_splits option.splits sum.splits)
  from read_anchor_lines_ok l seen obtain c n v where
    lines: "split_on CHR 0x0A body = [''ciphertext='' @ c, ''nonce='' @ n, ''v='' @ v]"
    and s: "seen = [''ciphertext'' \<mapsto> c, ''nonce'' \<mapsto> n, ''v'' \<mapsto> v]" by blast
  have "body = join_with [CHR 0x0A] [''ciphertext='' @ c, ''nonce='' @ n, ''v='' @ v]"
    using join_split [of "CHR 0x0A" body] lines by simp
  moreover have "CHR 0x0A \<notin> set (''ciphertext='' @ c)" "CHR 0x0A \<notin> set (''nonce='' @ n)"
    by (rule split_on_parts [of _ "CHR 0x0A" body], simp add: lines)+
  ultimately show "\<exists>c n nb. raw_url_decode wrapped = Some (''ciphertext='' @ c @ CHR 0x0A # ''nonce='' @ n @ CHR 0x0A # ''v=1'')
       \<and> CHR 0x0A \<notin> set c \<and> CHR 0x0A \<notin> set n \<and> c \<noteq> [] \<and> n \<noteq> []
       \<and> raw_url_decode n = Some nb \<and> length nb = 12 \<and> raw_url_decode c \<noteq> None"
    using ok body l seen s
    by (auto simp: validate_wrapped_anchor_envelope_def Let_def wrapped_anchor_fields_def map_get_def
        wrapped_anchor_version_def wrapped_anchor_nonce_size_def split: if_splits option.splits)
next
  assume "\<exists>c n nb. raw_url_decode wrapped = Some (''ciphertext='' @ c @ CHR 0x0A # ''nonce='' @ n @ CHR 0x0A # ''v=1'')
       \<and> CHR 0x0A \<notin> set c \<and> CHR 0x0A \<notin> set n \<and> c \<noteq> [] \<and> n \<noteq> []
       \<and> raw_url_decode n = Some nb \<and> length nb = 12 \<and> raw_url_decode c \<noteq> None"
  then obtain c n nb where d: "raw_url_decode wrapped = Some (''ciphertext='' @ c @ CHR 0x0A # ''nonce='' @ n @ CHR 0x0A # ''v=1'')"
    and no: "CHR 0x0A \<notin> set c" "CHR 0x0A \<notin> set n" "c \<noteq> []" "n \<noteq> []"
    and dec: "raw_url_decode n = Some nb" "length nb = 12" "raw_url_decode c \<noteq> None" by blast
  have lines: "split_on CHR 0x0A (''ciphertext='' @ c @ CHR 0x0A # ''nonce='' @ n @ CHR 0x0A # ''v=1'')
      = [''ciphertext='' @ c, ''nonce='' @ n, ''v=1'']"
    using split_on_append [of "CHR 0x0A" "''ciphertext='' @ c"] split_on_append [of "CHR 0x0A" "''nonce='' @ n"] no
    by simp
  have "wrapped \<noteq> []" using d by (auto simp: raw_decode_def)
  with d lines no dec show "validate_wrapped_anchor_envelope wrapped = Inr ()"
    by (auto simp: validate_wrapped_anchor_envelope_def Let_def wrapped_anchor_fields_def map_get_def
        wrapped_anchor_version_def wrapped_anchor_nonce_size_def)
qed

text \<open>A request-key user in a database, and a \<open>net\<close> package that knows one address.\<close>

definition sample_net :: "(string, string) net_lib" where
  "sample_net = \<lparr>nl_parse_ip = (\<lambda>s. if s = ''::1'' then Some s else None), nl_parse_cidr = (\<lambda>_. None),
     nl_contains = (\<lambda>_ _. False), nl_equal = (=)\<rparr>"

definition sample_key_db :: database where
  "sample_key_db = empty_database\<lparr>db_users := [\<lparr>u_id = ''alice'', u_display_name = [], u_status = ''active'',
     u_webauthn_user_id = [], u_request_key = ''rvk_1'', u_request_enc_ecdh_pubkey = [],
     u_request_enc_mlkem_pubkey = [], u_anchor_es384_public_key = [], u_anchor_mldsa87_public_key = [],
     u_pubkey_bundle_signature_es384 = [], u_pubkey_bundle_signature_mldsa87 = [], u_pubkey_bundle_version = 2,
     u_wrapped_key_epoch = 1, u_allowed_ips = [], u_ready = True, u_created_at = 0,
     u_updated_at = 0\<rparr>]\<rparr>"

lemma request_key_sample:
  "middleware_request_key sample_net ''BeArEr rvk_1'' ''::1'' sample_key_db
     = (Inr (user_of_row (hd (db_users sample_key_db))), sample_key_db)"
proof -
  have "get_bearer_token ''BeArEr rvk_1'' = ''rvk_1''" by code_simp
  moreover have "parse_allowed_ips_csv [] = []"
    by (simp add: parse_allowed_ips_csv_def trim_space_def trim_left.simps trim_right.simps)
  moreover have "client_ip_allowed sample_net ''::1'' []" by (simp add: client_ip_allowed_def)
  ultimately show ?thesis
    by (simp add: middleware_request_key_def get_user_by_request_key_def get_user_def user_column_def
        db_stmt_no_fault sql_select_def go_bind_def rows_where_def sample_key_db_def empty_database_def user_of_row_def)
qed

theorem request_key_admits_witness:
  "\<exists>u pre. u \<in> set (db_users sample_key_db) \<and> ''BeArEr rvk_1'' = pre @ u_request_key u \<and> u_ready u"
  using request_key_admits [OF request_key_sample] by blast

end
