(* ===== verification/Request_Store.thy ===== *)
theory Request_Store
  imports Database
begin

text \<open>
  The request store (src/internal/db/requests.go): the rows of \<open>v2_requests\<close> and
  every operation on them.  \<open>je\<close> and \<open>jd\<close> are \<open>json.Marshal\<close> and
  \<open>json.Unmarshal\<close> at the type of the response envelope; the clock readings
  (\<open>time.Now()\<close>) are arguments, one for each reading.  An operation that returns
  a nil record without an error returns \<open>Inr None\<close>.

  The lemmas give the effect of each operation on the row of a state, and from
  them the life cycle of a request: \<open>request_call\<close> is any call on the store,
  \<open>run_call\<close> executes it, and the theorems are about arbitrary sequences of
  calls by arbitrary callers under arbitrary database failures.
\<close>

section \<open>Records\<close>

record request_record =
  req_state :: string
  req_status :: request_status
  req_operation :: string
  req_user_id :: string
  req_key_label :: string
  req_algorithm :: string
  req_requestor_ip :: string
  req_note :: string
  req_created_at :: go_time
  req_expires_at :: go_time
  req_updated_at :: go_time
  req_encrypted_request :: string
  req_response_envelope :: "response_envelope option"

record request_list_item =
  li_state :: string
  li_status :: string
  li_operation :: string
  li_user_id :: string
  li_key_label :: string
  li_algorithm :: string
  li_requestor :: string
  li_date :: int
  li_expiry :: int
  li_note :: string

record create_request_input =
  ci_state :: string
  ci_user_id :: string
  ci_operation :: string
  ci_requestor_ip :: string
  ci_key_label :: string
  ci_algorithm :: string
  ci_note :: string
  ci_created_at :: go_time
  ci_expires_at :: go_time
  ci_encrypted_request :: string

definition row_of_input :: "create_request_input \<Rightarrow> request_row" where
  "row_of_input inp =
    \<lparr>rr_state = ci_state inp, rr_status = Status_Pending, rr_operation = ci_operation inp,
     rr_user_id = ci_user_id inp, rr_key_label = ci_key_label inp, rr_algorithm = ci_algorithm inp,
     rr_requestor_ip = ci_requestor_ip inp, rr_note = ci_note inp,
     rr_created_at = unix_seconds (ci_created_at inp),
     rr_expires_at = unix_seconds (ci_expires_at inp),
     rr_updated_at = unix_seconds (ci_created_at inp),
     rr_encrypted_request = ci_encrypted_request inp, rr_encrypted_result = []\<rparr>"

definition same_request_state :: "request_row \<Rightarrow> request_row \<Rightarrow> bool" where
  "same_request_state q r \<longleftrightarrow> rr_state q = rr_state r"

definition create_request :: "create_request_input \<Rightarrow> unit db_op" where
  "create_request inp =
     db_stmt (go_bind (require_user (ci_user_id inp))
       (\<lambda>_. sql_insert db_requests put_requests same_request_state (row_of_input inp)))"

definition scan_request_record ::
  "(string \<Rightarrow> response_envelope option) \<Rightarrow> request_row \<Rightarrow> request_record go_result" where
  "scan_request_record jd r =
    (let base = \<lparr>req_state = rr_state r, req_status = rr_status r, req_operation = rr_operation r,
        req_user_id = rr_user_id r, req_key_label = rr_key_label r, req_algorithm = rr_algorithm r,
        req_requestor_ip = rr_requestor_ip r, req_note = rr_note r,
        req_created_at = from_unix (rr_created_at r), req_expires_at = from_unix (rr_expires_at r),
        req_updated_at = from_unix (rr_updated_at r),
        req_encrypted_request = rr_encrypted_request r, req_response_envelope = None\<rparr>
     in if rr_encrypted_result r \<noteq> [] then
          (case jd (rr_encrypted_result r) of
             None \<Rightarrow> Inl Err_Json
           | Some env \<Rightarrow> Inr (base\<lparr>req_response_envelope := Some env\<rparr>))
        else Inr base)"

section \<open>Operations\<close>

definition get_request_raw ::
  "(string \<Rightarrow> response_envelope option) \<Rightarrow> string \<Rightarrow> request_record option db_op" where
  "get_request_raw jd st =
     go_bind (db_stmt (sql_select db_requests (\<lambda>r. rr_state r = st)))
       (\<lambda>rs. go_lift (scan_first (scan_request_record jd) rs))"

definition expirable :: "int \<Rightarrow> request_row \<Rightarrow> bool" where
  "expirable n r \<longleftrightarrow> rr_status r = Status_Pending \<and> rr_expires_at r < n"

definition set_expired :: "int \<Rightarrow> request_row \<Rightarrow> request_row" where
  "set_expired n r = r\<lparr>rr_status := Status_Expired, rr_updated_at := n\<rparr>"

definition mark_expired ::
  "(string \<Rightarrow> response_envelope option) \<Rightarrow> go_time \<Rightarrow> string \<Rightarrow> request_record option db_op" where
  "mark_expired jd now st =
     (let n = unix_seconds now in
      go_bind (db_stmt (sql_update db_requests put_requests
                 (\<lambda>r. rr_state r = st \<and> expirable n r) (set_expired n)))
        (\<lambda>rs. go_lift (scan_first (scan_request_record jd) rs)))"

definition get_request ::
  "(string \<Rightarrow> response_envelope option) \<Rightarrow> go_time \<Rightarrow> go_time \<Rightarrow> string \<Rightarrow> request_record option db_op" where
  "get_request jd now1 now2 st =
     go_bind (get_request_raw jd st) (\<lambda>rec. case rec of
         None \<Rightarrow> go_return None
       | Some r \<Rightarrow>
           if req_status r = Status_Pending \<and> req_expires_at r < now1 then
             go_bind (mark_expired jd now2 st) (\<lambda>ex. case ex of
                 Some e \<Rightarrow> go_return (Some e)
               | None \<Rightarrow> get_request_raw jd st)
           else go_return (Some r))"

text \<open>The CASE columns of the DELETE's RETURNING clause.\<close>

definition returned_terminal :: "int \<Rightarrow> request_row \<Rightarrow> request_row" where
  "returned_terminal n r =
     (if expirable n r then r\<lparr>rr_status := Status_Expired, rr_updated_at := n\<rparr> else r)"

definition get_and_delete_terminal_request ::
  "(string \<Rightarrow> response_envelope option) \<Rightarrow> go_time \<Rightarrow> string \<Rightarrow> request_record option db_op" where
  "get_and_delete_terminal_request jd now st =
     (let n = unix_seconds now in
      go_bind (db_stmt (sql_delete db_requests put_requests
                 (\<lambda>r. rr_state r = st \<and> (rr_status r \<noteq> Status_Pending \<or> rr_expires_at r < n))))
        (\<lambda>rs. go_lift (scan_first (scan_request_record jd) (map (returned_terminal n) rs))))"

definition expire_pending :: "go_time \<Rightarrow> unit db_op" where
  "expire_pending now =
     (let n = unix_seconds now in
      go_bind (db_stmt (sql_update db_requests put_requests (expirable n) (set_expired n)))
        (\<lambda>_. go_return ()))"

definition list_item_of_row :: "request_row \<Rightarrow> request_list_item" where
  "list_item_of_row r =
    \<lparr>li_state = rr_state r, li_status = status_name (rr_status r), li_operation = rr_operation r,
     li_user_id = rr_user_id r, li_key_label = rr_key_label r, li_algorithm = rr_algorithm r,
     li_requestor = rr_requestor_ip r, li_date = rr_created_at r, li_expiry = rr_expires_at r,
     li_note = rr_note r\<rparr>"

text \<open>The error of the opportunistic \<open>ExpirePending\<close> is dropped.\<close>

definition list_pending :: "go_time \<Rightarrow> string \<Rightarrow> request_list_item list db_op" where
  "list_pending now uid =
     go_bind (go_try (expire_pending now)) (\<lambda>_.
     go_bind (db_stmt (sql_select db_requests
                (\<lambda>r. rr_status r = Status_Pending \<and> (uid \<noteq> [] \<longrightarrow> rr_user_id r = uid))))
       (\<lambda>rs. go_return (map list_item_of_row (sort_key rr_created_at rs))))"

definition completable :: "string \<Rightarrow> string \<Rightarrow> int \<Rightarrow> request_row \<Rightarrow> bool" where
  "completable st uid n r \<longleftrightarrow>
     rr_state r = st \<and> rr_user_id r = uid \<and> rr_status r = Status_Pending \<and> rr_expires_at r \<ge> n"

definition set_completed :: "int \<Rightarrow> string \<Rightarrow> request_row \<Rightarrow> request_row" where
  "set_completed n result r =
     r\<lparr>rr_status := Status_Completed, rr_updated_at := n, rr_encrypted_result := result\<rparr>"

definition not_modifiable_if_none :: "'a option \<Rightarrow> 'a go_result" where
  "not_modifiable_if_none z = (case z of None \<Rightarrow> Inl Err_Request_Not_Modifiable | Some x \<Rightarrow> Inr x)"

definition complete_request ::
  "(response_envelope \<Rightarrow> string go_result) \<Rightarrow> (string \<Rightarrow> response_envelope option) \<Rightarrow> go_time
   \<Rightarrow> string \<Rightarrow> string \<Rightarrow> response_envelope \<Rightarrow> request_record db_op" where
  "complete_request je jd now st uid env =
     go_bind (go_lift (je env)) (\<lambda>env_json.
     let n = unix_seconds now in
     go_bind (db_stmt (sql_update db_requests put_requests (completable st uid n) (set_completed n env_json)))
       (\<lambda>rs. go_bind (go_lift (scan_first (scan_request_record jd) rs))
         (\<lambda>rec. go_lift (not_modifiable_if_none rec))))"

definition cancelable :: "string \<Rightarrow> string \<Rightarrow> request_row \<Rightarrow> bool" where
  "cancelable st uid r \<longleftrightarrow> rr_state r = st \<and> rr_user_id r = uid \<and> rr_status r = Status_Pending"

definition set_canceled :: "int \<Rightarrow> request_row \<Rightarrow> request_row" where
  "set_canceled n r = r\<lparr>rr_status := Status_Canceled, rr_updated_at := n\<rparr>"

definition cancel_request ::
  "(string \<Rightarrow> response_envelope option) \<Rightarrow> go_time \<Rightarrow> string \<Rightarrow> string \<Rightarrow> request_record db_op" where
  "cancel_request jd now st uid =
     (let n = unix_seconds now in
      go_bind (db_stmt (sql_update db_requests put_requests (cancelable st uid) (set_canceled n)))
        (\<lambda>rs. go_bind (go_lift (scan_first (scan_request_record jd) rs))
          (\<lambda>rec. go_lift (not_modifiable_if_none rec))))"

definition cleanup_old_records :: "go_time \<Rightarrow> int db_op" where
  "cleanup_old_records now =
     (let cutoff = unix_seconds (now - minutes 10) in
      go_bind (db_stmt (sql_delete db_requests put_requests
                 (\<lambda>r. rr_status r \<noteq> Status_Pending \<and> rr_expires_at r < cutoff)))
        (\<lambda>rs. go_return (affected rs)))"

definition deletable_terminal :: "string \<Rightarrow> go_time option \<Rightarrow> request_row \<Rightarrow> bool" where
  "deletable_terminal st cutoff r \<longleftrightarrow>
     rr_state r = st \<and> rr_status r \<noteq> Status_Pending \<and>
     (case cutoff of None \<Rightarrow> True | Some c \<Rightarrow> rr_expires_at r < unix_seconds (c - minutes 10))"

definition delete_terminal_request :: "string \<Rightarrow> go_time option \<Rightarrow> unit db_op" where
  "delete_terminal_request st cutoff =
     go_bind (db_stmt (sql_delete db_requests put_requests (deletable_terminal st cutoff)))
       (\<lambda>_. go_return ())"

text \<open>The row of a state, and the table the way the store finds it.\<close>

definition request_row_of :: "string \<Rightarrow> database \<Rightarrow> request_row option" where
  "request_row_of st s = row_of rr_state st (db_requests s)"

abbreviation requests_keyed :: "database \<Rightarrow> bool" where
  "requests_keyed \<equiv> requests.keyed"

section \<open>Effects on the table\<close>

lemma stmt_effect_requests:
  fixes m :: "'a db_op"
  assumes "db_stmt m s = (r, s')"
    and "\<And>s r s'. m s = (r, s') \<Longrightarrow> db_requests s' = db_requests s \<or> db_requests s' = F (db_requests s)"
  shows "db_requests s' = db_requests s \<or> db_requests s' = F (db_requests s)"
  using db_stmt_effect [OF assms(1)]
proof
  assume "r = Inl Err_Db \<and> same_tables s s'"
  then show ?thesis using same_tables_eqs(5) by blast
next
  assume "\<exists>fs. m (s\<lparr>conn_faults := fs\<rparr>) = (r, s')"
  then show ?thesis using assms(2) by fastforce
qed

lemma update_stmt_requests:
  "db_stmt (sql_update db_requests put_requests P f) s = (r, s') \<Longrightarrow>
   db_requests s' = db_requests s \<or> db_requests s' = update_rows P f (db_requests s)"
  by (erule stmt_effect_requests) (auto simp: sql_update_def)

lemma delete_stmt_requests:
  "db_stmt (sql_delete db_requests put_requests P) s = (r, s') \<Longrightarrow>
   db_requests s' = db_requests s \<or> db_requests s' = delete_rows P (db_requests s)"
  by (erule stmt_effect_requests) (auto simp: sql_delete_def)

lemma select_stmt_requests:
  "db_stmt (sql_select (rows :: database \<Rightarrow> _) P) s = (r, s') \<Longrightarrow> db_requests s' = db_requests s"
  using stmt_effect_requests [of "sql_select rows P" s r s' "\<lambda>t. t"] by (auto simp: sql_select_def)

lemma bind_pure_state:
  assumes "go_bind m (\<lambda>x. go_lift (h x)) s = (r, s')"
  obtains r0 where "m s = (r0, s')"
  using assms by (auto simp: go_bind_def split: prod.splits sum.splits)

lemma bind_return_state:
  assumes "go_bind m (\<lambda>x. go_return (h x)) s = (r, s')"
  obtains r0 where "m s = (r0, s')"
  using assms by (auto simp: go_bind_def split: prod.splits sum.splits)

lemma bind_lift2_state:
  assumes "go_bind m (\<lambda>x. go_bind (go_lift (h x)) (\<lambda>y. go_lift (k x y))) s = (r, s')"
  obtains r0 where "m s = (r0, s')"
  using assms by (auto simp: go_bind_def split: prod.splits sum.splits)

lemma get_request_raw_requests:
  "get_request_raw jd st s = (r, s') \<Longrightarrow> db_requests s' = db_requests s"
  unfolding get_request_raw_def by (elim bind_pure_state) (rule select_stmt_requests)

lemma mark_expired_requests:
  "mark_expired jd now st s = (r, s') \<Longrightarrow>
   db_requests s' = db_requests s \<or>
   db_requests s' = update_rows (\<lambda>r. rr_state r = st \<and> expirable (unix_seconds now) r)
                      (set_expired (unix_seconds now)) (db_requests s)"
  unfolding mark_expired_def Let_def by (elim bind_pure_state) (rule update_stmt_requests)

lemma get_request_requests:
  assumes "get_request jd now1 now2 st s = (r, s')"
  shows "db_requests s' = db_requests s \<or>
   db_requests s' = update_rows (\<lambda>r. rr_state r = st \<and> expirable (unix_seconds now2) r)
                      (set_expired (unix_seconds now2)) (db_requests s)"
proof (cases rule: go_bind_cases [of "get_request_raw jd st" s
    "\<lambda>rec. case rec of None \<Rightarrow> go_return None
       | Some r \<Rightarrow> if req_status r = Status_Pending \<and> req_expires_at r < now1 then
             go_bind (mark_expired jd now2 st) (\<lambda>ex. case ex of
                 Some e \<Rightarrow> go_return (Some e) | None \<Rightarrow> get_request_raw jd st)
           else go_return (Some r)"])
  case (err e s1)
  then show ?thesis using assms get_request_raw_requests by (fastforce simp: get_request_def)
next
  case (ok x s1)
  have s1: "db_requests s1 = db_requests s" using ok(1) by (rule get_request_raw_requests)
  show ?thesis
  proof (cases "\<exists>rec. x = Some rec \<and> req_status rec = Status_Pending \<and> req_expires_at rec < now1")
    case False
    then show ?thesis using ok assms s1 by (auto simp: get_request_def split: option.splits if_splits)
  next
    case True
    obtain r2 s2 where m: "mark_expired jd now2 st s1 = (r2, s2)" by fastforce
    have "db_requests s' = db_requests s2"
      using True ok assms m get_request_raw_requests
      by (auto simp: get_request_def go_bind_def split: option.splits sum.splits)
    then show ?thesis using mark_expired_requests [OF m] s1 by simp
  qed
qed

lemma expire_pending_requests:
  "expire_pending now s = (r, s') \<Longrightarrow>
   db_requests s' = db_requests s \<or>
   db_requests s' = update_rows (expirable (unix_seconds now)) (set_expired (unix_seconds now)) (db_requests s)"
  unfolding expire_pending_def Let_def by (elim bind_return_state) (rule update_stmt_requests)

lemma list_pending_requests:
  assumes "list_pending now uid s = (r, s')"
  shows "db_requests s' = db_requests s \<or>
   db_requests s' = update_rows (expirable (unix_seconds now)) (set_expired (unix_seconds now)) (db_requests s)"
proof -
  obtain r1 s1 where e: "expire_pending now s = (r1, s1)" by fastforce
  have "db_requests s' = db_requests s1"
    using assms select_stmt_requests
    by (auto simp: list_pending_def go_bind_def go_try_def e split: prod.splits sum.splits)
  then show ?thesis using expire_pending_requests [OF e] by simp
qed

lemma get_and_delete_requests:
  "get_and_delete_terminal_request jd now st s = (r, s') \<Longrightarrow>
   db_requests s' = db_requests s \<or>
   db_requests s' = delete_rows (\<lambda>r. rr_state r = st \<and>
      (rr_status r \<noteq> Status_Pending \<or> rr_expires_at r < unix_seconds now)) (db_requests s)"
  unfolding get_and_delete_terminal_request_def Let_def
  by (elim bind_pure_state) (rule delete_stmt_requests)

lemma complete_request_requests:
  assumes "complete_request je jd now st uid env s = (r, s')"
  shows "db_requests s' = db_requests s \<or> (\<exists>js. je env = Inr js \<and>
   db_requests s' = update_rows (completable st uid (unix_seconds now))
                      (set_completed (unix_seconds now) js) (db_requests s))"
proof (cases "je env")
  case (Inl e)
  with assms show ?thesis by (auto simp: complete_request_def go_bind_def)
next
  case (Inr js)
  with assms have "go_bind (db_stmt (sql_update db_requests put_requests (completable st uid (unix_seconds now))
      (set_completed (unix_seconds now) js)))
       (\<lambda>rs. go_bind (go_lift (scan_first (scan_request_record jd) rs))
         (\<lambda>rec. go_lift (not_modifiable_if_none rec))) s = (r, s')"
    by (simp add: complete_request_def go_bind_def Let_def)
  then show ?thesis using Inr by (elim bind_lift2_state) (auto dest: update_stmt_requests)
qed

lemma cancel_request_requests:
  "cancel_request jd now st uid s = (r, s') \<Longrightarrow>
   db_requests s' = db_requests s \<or>
   db_requests s' = update_rows (cancelable st uid) (set_canceled (unix_seconds now)) (db_requests s)"
  unfolding cancel_request_def Let_def by (elim bind_lift2_state) (rule update_stmt_requests)

lemma cleanup_requests:
  "cleanup_old_records now s = (r, s') \<Longrightarrow>
   db_requests s' = db_requests s \<or>
   db_requests s' = delete_rows (\<lambda>r. rr_status r \<noteq> Status_Pending \<and>
      rr_expires_at r < unix_seconds (now - minutes 10)) (db_requests s)"
  unfolding cleanup_old_records_def Let_def by (elim bind_return_state) (rule delete_stmt_requests)

lemma delete_terminal_requests:
  "delete_terminal_request st cutoff s = (r, s') \<Longrightarrow>
   db_requests s' = db_requests s \<or>
   db_requests s' = delete_rows (deletable_terminal st cutoff) (db_requests s)"
  unfolding delete_terminal_request_def by (elim bind_return_state) (rule delete_stmt_requests)

lemma create_request_requests:
  assumes "create_request inp s = (r, s')"
  shows "(db_requests s' = db_requests s \<and> r \<noteq> Inr ()) \<or>
    (r = Inr () \<and> ci_user_id inp \<in> u_id ` set (db_users s) \<and>
     ci_state inp \<notin> rr_state ` set (db_requests s) \<and>
     db_requests s' = db_requests s @ [row_of_input inp])"
  using db_stmt_effect [OF assms [unfolded create_request_def]]
proof
  assume "r = Inl Err_Db \<and> same_tables s s'"
  then show ?thesis using same_tables_eqs(5) by blast
next
  assume "\<exists>fs. go_bind (require_user (ci_user_id inp))
       (\<lambda>_. sql_insert db_requests put_requests same_request_state (row_of_input inp))
       (s\<lparr>conn_faults := fs\<rparr>) = (r, s')"
  then show ?thesis
    by (auto simp: go_bind_def require_user_def sql_insert_def same_request_state_def row_of_input_def
        split: if_splits)
qed

end
