(* ===== verification/Request_Lifecycle.thy ===== *)
theory Request_Lifecycle
  imports Request_Store
begin

text \<open>
  The life of a request.  \<open>request_call\<close> is one call on the request store by
  anybody: the CLI behind a request key, a browser session, the expiry queue or
  the cleanup at startup.  \<open>request_transition\<close> says how the row of a state may
  change; \<open>run_call_transition\<close> shows that the store never changes it otherwise.
  The locale \<open>call_system\<close>, interpreted on \<open>run_call\<close>, turns a property of one
  call into a property of every sequence of calls.
\<close>

datatype request_call =
    Call_Create create_request_input
  | Call_Get go_time go_time string
  | Call_Get_And_Delete go_time string
  | Call_List go_time string
  | Call_Complete go_time string string response_envelope
  | Call_Cancel go_time string string
  | Call_Mark_Expired go_time string
  | Call_Expire_Pending go_time
  | Call_Cleanup go_time
  | Call_Delete_Terminal string "go_time option"

definition run_call ::
  "(response_envelope \<Rightarrow> string go_result) \<Rightarrow> (string \<Rightarrow> response_envelope option)
   \<Rightarrow> request_call \<Rightarrow> database \<Rightarrow> database" where
  "run_call je jd c s = (case c of
      Call_Create inp \<Rightarrow> snd (create_request inp s)
    | Call_Get now1 now2 st \<Rightarrow> snd (get_request jd now1 now2 st s)
    | Call_Get_And_Delete now st \<Rightarrow> snd (get_and_delete_terminal_request jd now st s)
    | Call_List now uid \<Rightarrow> snd (list_pending now uid s)
    | Call_Complete now st uid env \<Rightarrow> snd (complete_request je jd now st uid env s)
    | Call_Cancel now st uid \<Rightarrow> snd (cancel_request jd now st uid s)
    | Call_Mark_Expired now st \<Rightarrow> snd (mark_expired jd now st s)
    | Call_Expire_Pending now \<Rightarrow> snd (expire_pending now s)
    | Call_Cleanup now \<Rightarrow> snd (cleanup_old_records now s)
    | Call_Delete_Terminal st cutoff \<Rightarrow> snd (delete_terminal_request st cutoff s))"

definition run_calls ::
  "(response_envelope \<Rightarrow> string go_result) \<Rightarrow> (string \<Rightarrow> response_envelope option)
   \<Rightarrow> request_call list \<Rightarrow> database \<Rightarrow> database" where
  "run_calls je jd cs s = fold (run_call je jd) cs s"

inductive request_transition ::
  "(response_envelope \<Rightarrow> string go_result) \<Rightarrow> request_call \<Rightarrow> string
   \<Rightarrow> request_row option \<Rightarrow> request_row option \<Rightarrow> bool"
  for je :: "response_envelope \<Rightarrow> string go_result" and c :: request_call and st :: string where
  stay: "request_transition je c st z z"
| create: "c = Call_Create inp \<Longrightarrow> ci_state inp = st \<Longrightarrow>
    request_transition je c st None (Some (row_of_input inp))"
| complete: "c = Call_Complete now st uid env \<Longrightarrow> je env = Inr js \<Longrightarrow>
    completable st uid (unix_seconds now) r \<Longrightarrow>
    request_transition je c st (Some r) (Some (set_completed (unix_seconds now) js r))"
| cancel: "c = Call_Cancel now st uid \<Longrightarrow> cancelable st uid r \<Longrightarrow>
    request_transition je c st (Some r) (Some (set_canceled (unix_seconds now) r))"
| expire: "(\<forall>inp. c \<noteq> Call_Create inp) \<Longrightarrow> expirable n r \<Longrightarrow>
    request_transition je c st (Some r) (Some (set_expired n r))"
| drop: "(\<forall>inp. c \<noteq> Call_Create inp) \<Longrightarrow>
    rr_status r \<noteq> Status_Pending \<or> (\<exists>now. c = Call_Get_And_Delete now st \<and> rr_expires_at r < unix_seconds now) \<Longrightarrow>
    request_transition je c st (Some r) None"

inductive_cases transition_SomeE: "request_transition je c st (Some r) z"
inductive_cases transition_NoneE: "request_transition je c st None z"

lemma request_row_update:
  assumes "db_requests s' = update_rows P f (db_requests s)"
    and "\<And>r. rr_state (f r) = rr_state r"
  shows "request_row_of st s' = map_option (\<lambda>r. if P r then f r else r) (request_row_of st s)"
  using assms by (simp add: request_row_of_def row_of_update)

lemma request_row_delete:
  assumes "requests_keyed s" and "db_requests s' = delete_rows P (db_requests s)"
  shows "request_row_of st s'
       = (case request_row_of st s of None \<Rightarrow> None | Some r \<Rightarrow> if P r then None else Some r)"
  using assms by (simp add: request_row_of_def row_of_delete requests.keyed_def)

lemma request_row_same:
  "db_requests s' = db_requests s \<Longrightarrow> request_row_of st s' = request_row_of st s"
  by (simp add: request_row_of_def)

lemma request_row_state: "request_row_of st s = Some r \<Longrightarrow> rr_state r = st"
  using row_of_SomeD by (fastforce simp: request_row_of_def)

lemma set_status_state [simp]:
  "rr_state (set_completed n js r) = rr_state r"
  "rr_state (set_canceled n r) = rr_state r"
  "rr_state (set_expired n r) = rr_state r"
  by (simp_all add: set_completed_def set_canceled_def set_expired_def)

section \<open>Every call is a transition\<close>

lemma transition_update:
  assumes "db_requests s' = db_requests s \<or> db_requests s' = update_rows P f (db_requests s)"
    and "\<And>r. rr_state (f r) = rr_state r"
    and "\<And>r. request_row_of st s = Some r \<Longrightarrow> P r \<Longrightarrow> request_transition je c st (Some r) (Some (f r))"
  shows "request_transition je c st (request_row_of st s) (request_row_of st s')"
  using assms(1)
proof
  assume "db_requests s' = db_requests s"
  then show ?thesis by (metis request_row_same stay)
next
  assume "db_requests s' = update_rows P f (db_requests s)"
  then have e: "request_row_of st s' = map_option (\<lambda>r. if P r then f r else r) (request_row_of st s)"
    using assms(2) by (rule request_row_update)
  show ?thesis
  proof (cases "request_row_of st s")
    case None
    with e show ?thesis by (simp add: stay)
  next
    case (Some r)
    with e assms(3) show ?thesis by (cases "P r") (simp_all add: stay)
  qed
qed

lemma transition_delete:
  assumes "requests_keyed s"
    and "db_requests s' = db_requests s \<or> db_requests s' = delete_rows P (db_requests s)"
    and "\<And>r. request_row_of st s = Some r \<Longrightarrow> P r \<Longrightarrow> request_transition je c st (Some r) None"
  shows "request_transition je c st (request_row_of st s) (request_row_of st s')"
  using assms(2)
proof
  assume "db_requests s' = db_requests s"
  then show ?thesis by (metis request_row_same stay)
next
  assume "db_requests s' = delete_rows P (db_requests s)"
  note e = request_row_delete [OF assms(1) this, of st]
  show ?thesis
  proof (cases "request_row_of st s")
    case None
    with e show ?thesis by (simp add: stay)
  next
    case (Some r)
    with e assms(3) show ?thesis by (cases "P r") (simp_all add: stay)
  qed
qed

lemma transition_create:
  assumes "create_request inp s = (r, s')"
  shows "request_transition je (Call_Create inp) st (request_row_of st s) (request_row_of st s')"
  using create_request_requests [OF assms]
proof
  assume "db_requests s' = db_requests s \<and> r \<noteq> Inr ()"
  then show ?thesis by (metis request_row_same stay)
next
  assume a: "r = Inr () \<and> ci_user_id inp \<in> u_id ` set (db_users s) \<and>
     ci_state inp \<notin> rr_state ` set (db_requests s) \<and>
     db_requests s' = db_requests s @ [row_of_input inp]"
  show ?thesis
  proof (cases "request_row_of st s")
    case None
    then have "request_row_of st s' = (if ci_state inp = st then Some (row_of_input inp) else None)"
      using a by (simp add: request_row_of_def row_of_append) (simp add: row_of_input_def)
    with None show ?thesis by (simp add: stay create)
  next
    case (Some q)
    then have "request_row_of st s' = Some q"
      using a by (simp add: request_row_of_def row_of_append)
    with Some show ?thesis by (simp add: stay)
  qed
qed

lemma run_call_transition:
  assumes k: "requests_keyed s"
  shows "request_transition je c st (request_row_of st s) (request_row_of st (run_call je jd c s))"
proof (cases c)
  case (Call_Create inp)
  then show ?thesis using transition_create by (cases "create_request inp s") (simp add: run_call_def)
next
  case (Call_Get now1 now2 q)
  obtain r s' where e: "get_request jd now1 now2 q s = (r, s')" by fastforce
  have "request_transition je c st (request_row_of st s) (request_row_of st s')"
    by (rule transition_update [OF get_request_requests [OF e]]) (auto simp: Call_Get intro: expire)
  then show ?thesis by (simp add: run_call_def e Call_Get)
next
  case (Call_Get_And_Delete now q)
  obtain r s' where e: "get_and_delete_terminal_request jd now q s = (r, s')" by fastforce
  have "request_transition je c st (request_row_of st s) (request_row_of st s')"
    by (rule transition_delete [OF k get_and_delete_requests [OF e]]) (auto simp: Call_Get_And_Delete dest: request_row_state intro!: drop)
  then show ?thesis by (simp add: run_call_def e Call_Get_And_Delete)
next
  case (Call_List now uid)
  obtain r s' where e: "list_pending now uid s = (r, s')" by fastforce
  have "request_transition je c st (request_row_of st s) (request_row_of st s')"
    by (rule transition_update [OF list_pending_requests [OF e]]) (auto simp: Call_List intro: expire)
  then show ?thesis by (simp add: run_call_def e Call_List)
next
  case (Call_Complete now q uid env)
  obtain r s' where e: "complete_request je jd now q uid env s = (r, s')" by fastforce
  show ?thesis
  proof (cases "db_requests s' = db_requests s")
    case True
    then show ?thesis using Call_Complete by (simp add: run_call_def e request_row_same [OF True] stay)
  next
    case False
    with complete_request_requests [OF e] obtain js where js: "je env = Inr js"
      and u: "db_requests s' = update_rows (completable q uid (unix_seconds now))
                (set_completed (unix_seconds now) js) (db_requests s)" by auto
    have "request_transition je c st (request_row_of st s) (request_row_of st s')"
      by (rule transition_update [OF disjI2 [OF u]])
        (auto simp: Call_Complete completable_def dest: request_row_state intro!: complete js)
    then show ?thesis by (simp add: run_call_def e Call_Complete)
  qed
next
  case (Call_Cancel now q uid)
  obtain r s' where e: "cancel_request jd now q uid s = (r, s')" by fastforce
  have "request_transition je c st (request_row_of st s) (request_row_of st s')"
    by (rule transition_update [OF cancel_request_requests [OF e]]) (auto simp: Call_Cancel cancelable_def dest: request_row_state intro!: cancel)
  then show ?thesis by (simp add: run_call_def e Call_Cancel)
next
  case (Call_Mark_Expired now q)
  obtain r s' where e: "mark_expired jd now q s = (r, s')" by fastforce
  have "request_transition je c st (request_row_of st s) (request_row_of st s')"
    by (rule transition_update [OF mark_expired_requests [OF e]]) (auto simp: Call_Mark_Expired intro: expire)
  then show ?thesis by (simp add: run_call_def e Call_Mark_Expired)
next
  case (Call_Expire_Pending now)
  obtain r s' where e: "expire_pending now s = (r, s')" by fastforce
  have "request_transition je c st (request_row_of st s) (request_row_of st s')"
    by (rule transition_update [OF expire_pending_requests [OF e]]) (auto simp: Call_Expire_Pending intro: expire)
  then show ?thesis by (simp add: run_call_def e Call_Expire_Pending)
next
  case (Call_Cleanup now)
  obtain r s' where e: "cleanup_old_records now s = (r, s')" by fastforce
  have "request_transition je c st (request_row_of st s) (request_row_of st s')"
    by (rule transition_delete [OF k cleanup_requests [OF e]]) (auto simp: Call_Cleanup intro!: drop)
  then show ?thesis by (simp add: run_call_def e Call_Cleanup)
next
  case (Call_Delete_Terminal q cutoff)
  obtain r s' where e: "delete_terminal_request q cutoff s = (r, s')" by fastforce
  have "request_transition je c st (request_row_of st s) (request_row_of st s')"
    by (rule transition_delete [OF k delete_terminal_requests [OF e]]) (auto simp: Call_Delete_Terminal deletable_terminal_def intro!: drop)
  then show ?thesis by (simp add: run_call_def e Call_Delete_Terminal)
qed

section \<open>Sequences of calls\<close>

lemma keyed_update_status:
  "db_requests s' = update_rows P f (db_requests s) \<Longrightarrow> (\<And>r. rr_state (f r) = rr_state r) \<Longrightarrow>
   requests_keyed s \<Longrightarrow> requests_keyed s'"
  by (simp add: requests.keyed_def distinct_update_rows)

lemma keyed_delete_rows:
  "db_requests s' = delete_rows P (db_requests s) \<Longrightarrow> requests_keyed s \<Longrightarrow> requests_keyed s'"
  by (simp add: requests.keyed_def distinct_delete_rows)

lemma keyed_same:
  "db_requests s' = db_requests s \<Longrightarrow> requests_keyed s \<Longrightarrow> requests_keyed s'"
  by (simp add: requests.keyed_def)

lemma keyed_create:
  assumes "create_request inp s = (r, s')" and "requests_keyed s"
  shows "requests_keyed s'"
  using create_request_requests [OF assms(1)] assms(2)
  by (auto simp: requests.keyed_def row_of_input_def)

lemma run_call_keyed:
  assumes k: "requests_keyed s"
  shows "requests_keyed (run_call je jd c s)"
proof (cases c)
  case (Call_Create inp)
  then show ?thesis using keyed_create k by (cases "create_request inp s") (simp add: run_call_def)
next
  case (Call_Get now1 now2 q)
  obtain r s' where e: "get_request jd now1 now2 q s = (r, s')" by fastforce
  then show ?thesis using get_request_requests [OF e] k keyed_same keyed_update_status
    by (fastforce simp: run_call_def Call_Get)
next
  case (Call_Get_And_Delete now q)
  obtain r s' where e: "get_and_delete_terminal_request jd now q s = (r, s')" by fastforce
  then show ?thesis using get_and_delete_requests [OF e] k keyed_same keyed_delete_rows
    by (fastforce simp: run_call_def Call_Get_And_Delete)
next
  case (Call_List now uid)
  obtain r s' where e: "list_pending now uid s = (r, s')" by fastforce
  then show ?thesis using list_pending_requests [OF e] k keyed_same keyed_update_status
    by (fastforce simp: run_call_def Call_List)
next
  case (Call_Complete now q uid env)
  obtain r s' where e: "complete_request je jd now q uid env s = (r, s')" by fastforce
  then show ?thesis using complete_request_requests [OF e] k keyed_same keyed_update_status
    by (fastforce simp: run_call_def Call_Complete)
next
  case (Call_Cancel now q uid)
  obtain r s' where e: "cancel_request jd now q uid s = (r, s')" by fastforce
  then show ?thesis using cancel_request_requests [OF e] k keyed_same keyed_update_status
    by (fastforce simp: run_call_def Call_Cancel)
next
  case (Call_Mark_Expired now q)
  obtain r s' where e: "mark_expired jd now q s = (r, s')" by fastforce
  then show ?thesis using mark_expired_requests [OF e] k keyed_same keyed_update_status
    by (fastforce simp: run_call_def Call_Mark_Expired)
next
  case (Call_Expire_Pending now)
  obtain r s' where e: "expire_pending now s = (r, s')" by fastforce
  then show ?thesis using expire_pending_requests [OF e] k keyed_same keyed_update_status
    by (fastforce simp: run_call_def Call_Expire_Pending)
next
  case (Call_Cleanup now)
  obtain r s' where e: "cleanup_old_records now s = (r, s')" by fastforce
  then show ?thesis using cleanup_requests [OF e] k keyed_same keyed_delete_rows
    by (fastforce simp: run_call_def Call_Cleanup)
next
  case (Call_Delete_Terminal q cutoff)
  obtain r s' where e: "delete_terminal_request q cutoff s = (r, s')" by fastforce
  then show ?thesis using delete_terminal_requests [OF e] k keyed_same keyed_delete_rows
    by (fastforce simp: run_call_def Call_Delete_Terminal)
qed

interpretation request_calls: call_system "run_call je jd" requests_keyed
  for je :: "response_envelope \<Rightarrow> string go_result" and jd :: "string \<Rightarrow> response_envelope option"
  by unfold_locales (rule run_call_keyed)

text \<open>Calls that do not create the state again (states are fresh random UUIDs).\<close>

definition no_create :: "string \<Rightarrow> request_call \<Rightarrow> bool" where
  "no_create st c = (case c of Call_Create inp \<Rightarrow> ci_state inp \<noteq> st | _ \<Rightarrow> True)"

lemma transition_no_create_None:
  "request_transition je c st None z \<Longrightarrow> no_create st c \<Longrightarrow> z = None"
  by (erule transition_NoneE) (auto simp: no_create_def)

lemma transition_terminal:
  "request_transition je c st (Some r) z \<Longrightarrow> rr_status r \<noteq> Status_Pending \<Longrightarrow> z = Some r \<or> z = None"
  by (erule transition_SomeE) (auto simp: completable_def cancelable_def expirable_def)

text \<open>What of a row never changes.\<close>

definition same_request :: "request_row \<Rightarrow> request_row \<Rightarrow> bool" where
  "same_request q r \<longleftrightarrow>
     r\<lparr>rr_status := rr_status q, rr_updated_at := rr_updated_at q,
       rr_encrypted_result := rr_encrypted_result q\<rparr> = q"

lemma same_request_refl [simp]: "same_request r r"
  by (simp add: same_request_def)

lemma same_request_sets [simp]:
  "same_request r (set_completed n js r)" "same_request r (set_canceled n r)" "same_request r (set_expired n r)"
  by (simp_all add: same_request_def set_completed_def set_canceled_def set_expired_def)

lemma same_request_trans: "same_request p q \<Longrightarrow> same_request q r \<Longrightarrow> same_request p r"
  by (cases p; cases q; cases r) (auto simp: same_request_def)

lemma same_request_user:
  "same_request q r \<Longrightarrow> rr_user_id r = rr_user_id q \<and> rr_expires_at r = rr_expires_at q"
  by (cases q; cases r) (simp add: same_request_def)

lemma transition_same_request:
  "request_transition je c st (Some q) (Some r) \<Longrightarrow> same_request q r"
  by (erule transition_SomeE) auto

lemma run_calls_same_request:
  assumes "requests_keyed s" and "request_row_of st s = Some q" and "list_all (no_create st) cs"
    and "request_row_of st (run_calls je jd cs s) = Some r"
  shows "same_request q r"
proof -
  have "case request_row_of st (fold (run_call je jd) cs s) of None \<Rightarrow> True | Some r \<Rightarrow> same_request q r"
  proof (rule request_calls.runs_stable [where ok = "no_create st"
        and P = "\<lambda>s. case request_row_of st s of None \<Rightarrow> True | Some r \<Rightarrow> same_request q r"])
    fix c s
    assume c: "no_create st c" and k: "requests_keyed s"
      and p: "case request_row_of st s of None \<Rightarrow> True | Some r \<Rightarrow> same_request q r"
    note t = run_call_transition [OF k, of je c st jd]
    show "case request_row_of st (run_call je jd c s) of None \<Rightarrow> True | Some r \<Rightarrow> same_request q r"
      using t p c transition_no_create_None transition_same_request same_request_trans
      by (cases "request_row_of st s") (fastforce split: option.splits)+
  qed (use assms in auto)
  with assms(4) show ?thesis by (simp add: run_calls_def)
qed

section \<open>Terminal states, authority and delivery\<close>

lemma run_calls_terminal:
  assumes "requests_keyed s" and "request_row_of st s = Some r" and "rr_status r \<noteq> Status_Pending"
    and "list_all (no_create st) cs"
  shows "request_row_of st (run_calls je jd cs s) \<in> {Some r, None}"
proof -
  have "request_row_of st (fold (run_call je jd) cs s) \<in> {Some r, None}"
  proof (rule request_calls.runs_stable [where ok = "no_create st"
        and P = "\<lambda>s. request_row_of st s \<in> {Some r, None}"])
    fix c s
    assume "no_create st c" "requests_keyed s" "request_row_of st s \<in> {Some r, None}"
    then show "request_row_of st (run_call je jd c s) \<in> {Some r, None}"
      using run_call_transition [of s je c st jd] transition_no_create_None transition_terminal [OF _ assms(3)]
      by fastforce
  qed (use assms in auto)
  then show ?thesis by (simp add: run_calls_def)
qed

lemma run_calls_append: "run_calls je jd (as @ bs) s = run_calls je jd bs (run_calls je jd as s)"
  by (simp add: run_calls_def)

lemma run_calls_Cons: "run_calls je jd (c # cs) s = run_calls je jd cs (run_call je jd c s)"
  by (simp add: run_calls_def)

lemma run_calls_keyed: "requests_keyed s \<Longrightarrow> requests_keyed (run_calls je jd cs s)"
  by (simp add: run_calls_def request_calls.runs_inv)

definition has_status :: "string \<Rightarrow> request_status \<Rightarrow> database \<Rightarrow> bool" where
  "has_status st stat s = (case request_row_of st s of None \<Rightarrow> False | Some r \<Rightarrow> rr_status r = stat)"

lemma run_calls_row_before:
  assumes "requests_keyed s" and "request_row_of st s = Some q" and "list_all (no_create st) (as @ cs)"
    and "request_row_of st (run_calls je jd (as @ cs) s) = Some r"
  obtains p where "request_row_of st (run_calls je jd as s) = Some p" and "same_request q p"
proof (cases "request_row_of st (run_calls je jd as s)")
  case None
  let ?s = "run_calls je jd as s"
  have k: "requests_keyed ?s" using assms(1) by (rule run_calls_keyed)
  have "request_row_of st (fold (run_call je jd) cs ?s) = None"
  proof (rule request_calls.runs_stable [where ok = "no_create st" and P = "\<lambda>s. request_row_of st s = None"])
    fix c s assume "no_create st c" "requests_keyed s" "request_row_of st s = None"
    then show "request_row_of st (run_call je jd c s) = None"
      using run_call_transition [of s je c st jd] transition_no_create_None by fastforce
  qed (use None k assms(3) in auto)
  then show ?thesis using assms(4) by (simp add: run_calls_append) (simp add: run_calls_def)
next
  case (Some p)
  then show ?thesis using that run_calls_same_request [OF assms(1,2) _ Some] assms(3) by simp
qed

text \<open>The call that moved a pending request to a terminal status, and the row it left.\<close>

lemma run_calls_status_cause:
  assumes k: "requests_keyed s" and q: "request_row_of st s = Some q" "rr_status q = Status_Pending"
    and nc: "list_all (no_create st) cs"
    and r: "request_row_of st (run_calls je jd cs s) = Some r" "rr_status r = stat" "stat \<noteq> Status_Pending"
  obtains c p where "c \<in> set cs" and "same_request q p" and "rr_status p \<noteq> stat"
    and "request_transition je c st (Some p) (Some r)"
proof -
  have "\<not> has_status st stat s" "has_status st stat (fold (run_call je jd) cs s)"
    using q r by (auto simp: has_status_def run_calls_def)
  then obtain as c bs where cs: "cs = as @ c # bs" and a: "\<not> has_status st stat (run_calls je jd as s)"
    and b: "has_status st stat (run_call je jd c (run_calls je jd as s))"
    and k1: "requests_keyed (run_calls je jd as s)"
    using request_calls.runs_cause [OF k, of "has_status st stat"] by (metis run_calls_def)
  obtain p where p: "request_row_of st (run_calls je jd as s) = Some p" "same_request q p"
    using run_calls_row_before [OF k q(1), of as "c # bs"] nc r(1) cs by blast
  obtain r1 where r1: "request_row_of st (run_call je jd c (run_calls je jd as s)) = Some r1" "rr_status r1 = stat"
    using b by (auto simp: has_status_def split: option.splits)
  have k2: "requests_keyed (run_call je jd c (run_calls je jd as s))"
    using k1 by (rule run_call_keyed)
  have "request_row_of st (run_calls je jd bs (run_call je jd c (run_calls je jd as s))) \<in> {Some r1, None}"
    using run_calls_terminal [OF k2 r1(1)] r1(2) r(3) nc cs by simp
  then have "r1 = r" using r(1) cs by (simp add: run_calls_append run_calls_Cons)
  moreover have "request_transition je c st (Some p) (Some r1)"
    using run_call_transition [OF k1, of je c st jd] p(1) r1(1) by simp
  ultimately show ?thesis using that [of c p] cs p a r(2) by (auto simp: has_status_def)
qed

text \<open>How often the envelope of a state is handed out by a sequence of calls.\<close>

fun deliveries ::
  "(response_envelope \<Rightarrow> string go_result) \<Rightarrow> (string \<Rightarrow> response_envelope option)
   \<Rightarrow> string \<Rightarrow> request_call list \<Rightarrow> database \<Rightarrow> nat" where
  "deliveries je jd st [] s = 0"
| "deliveries je jd st (c # cs) s =
     (case c of Call_Get_And_Delete now q \<Rightarrow>
        (if q = st then (case fst (get_and_delete_terminal_request jd now q s) of
            Inr (Some _) \<Rightarrow> 1 | _ \<Rightarrow> 0) else 0) | _ \<Rightarrow> 0)
     + deliveries je jd st cs (run_call je jd c s)"

lemma scan_first_Some:
  "scan_first scan rs = Inr (Some x) \<Longrightarrow> \<exists>r rest. rs = r # rest \<and> scan r = Inr x"
  by (cases rs) (auto simp: scan_first_def split: sum.splits)

lemma get_and_delete_some:
  assumes k: "requests_keyed s" and g: "get_and_delete_terminal_request jd now st s = (Inr (Some rec), s')"
  obtains r where "request_row_of st s = Some r" "request_row_of st s' = None"
    "rr_status r \<noteq> Status_Pending \<or> rr_expires_at r < unix_seconds now"
    "scan_request_record jd (returned_terminal (unix_seconds now) r) = Inr rec"
proof -
  let ?P = "\<lambda>r. rr_state r = st \<and> (rr_status r \<noteq> Status_Pending \<or> rr_expires_at r < unix_seconds now)"
  obtain rs s1 where d: "db_stmt (sql_delete db_requests put_requests ?P) s = (Inr rs, s1)"
    and sc: "scan_first (scan_request_record jd) (map (returned_terminal (unix_seconds now)) rs) = Inr (Some rec)"
    and s1: "s1 = s'"
    using g unfolding get_and_delete_terminal_request_def Let_def by (elim go_bind_okE) auto
  obtain fs where e: "sql_delete db_requests put_requests ?P (s\<lparr>conn_faults := fs\<rparr>) = (Inr rs, s1)"
    using db_stmt_effect [OF d] by auto
  have k': "requests_keyed (s\<lparr>conn_faults := fs\<rparr>)" using k by (simp add: requests.keyed_def)
  have row: "row_of rr_state st (db_requests s) = request_row_of st s" by (simp add: request_row_of_def)
  from e requests.delete_by_key [OF k', of ?P st] sc s1 row
  obtain r where r: "request_row_of st s = Some r" "?P r" "rs = [r]"
    and s': "s' = (s\<lparr>conn_faults := fs\<rparr>)\<lparr>db_requests := delete_rows ?P (db_requests s)\<rparr>"
    by (auto simp: scan_first_def split: option.splits if_splits)
  have "request_row_of st s' = None"
    using request_row_delete [OF k, of s' ?P st] r s' by simp
  with r sc show ?thesis using that [of r] scan_first_Some by fastforce
qed

lemma deliveries_none:
  assumes "requests_keyed s" and "request_row_of st s = None" and "list_all (no_create st) cs"
  shows "deliveries je jd st cs s = 0"
  using assms
proof (induction cs arbitrary: s)
  case (Cons c cs)
  have "request_row_of st (run_call je jd c s) = None"
    using run_call_transition [OF Cons.prems(1), of je c st jd] Cons.prems transition_no_create_None by fastforce
  then have IH: "deliveries je jd st cs (run_call je jd c s) = 0"
    using Cons run_call_keyed by simp
  have "fst (get_and_delete_terminal_request jd now st s) \<noteq> Inr (Some rec)" for now rec
  proof
    assume "fst (get_and_delete_terminal_request jd now st s) = Inr (Some rec)"
    then obtain s' where "get_and_delete_terminal_request jd now st s = (Inr (Some rec), s')"
      by (metis prod.collapse)
    then show False using get_and_delete_some [OF Cons.prems(1)] Cons.prems(2) by fastforce
  qed
  then show ?case using IH by (auto split: request_call.splits sum.splits option.splits)
qed simp

lemma scan_completed:
  assumes "jd js = Some env" and "js \<noteq> []"
  shows "scan_request_record jd (set_completed n js r) = Inr
    \<lparr>req_state = rr_state r, req_status = Status_Completed, req_operation = rr_operation r,
     req_user_id = rr_user_id r, req_key_label = rr_key_label r, req_algorithm = rr_algorithm r,
     req_requestor_ip = rr_requestor_ip r, req_note = rr_note r,
     req_created_at = from_unix (rr_created_at r), req_expires_at = from_unix (rr_expires_at r),
     req_updated_at = from_unix n, req_encrypted_request = rr_encrypted_request r,
     req_response_envelope = Some env\<rparr>"
  using assms by (simp add: scan_request_record_def set_completed_def)

text \<open>Sample data for the witnesses: a user with one pending request.\<close>

definition sample_jwk :: ec_jwk where
  "sample_jwk = \<lparr>jwk_kty = ''EC'', jwk_crv = ''P-256'', jwk_x = replicate 43 CHR ''A'', jwk_y = replicate 43 CHR ''A'',
     jwk_d = [], jwk_kid = [], jwk_alg = [], jwk_use = []\<rparr>"

definition sample_envelope :: response_envelope where
  "sample_envelope = \<lparr>env_transport_alg = transport_alg, env_browser_ephemeral_public_key = sample_jwk,
     env_mlkem_ciphertext = ''QQ'', env_nonce = ''QQ'', env_ciphertext = ''QQ'', env_result_type = []\<rparr>"

definition sample_row :: request_row where
  "sample_row = \<lparr>rr_state = ''s1'', rr_status = Status_Pending, rr_operation = ''sign'',
     rr_user_id = ''alice'', rr_key_label = ''disk'', rr_algorithm = ''ES256'', rr_requestor_ip = ''10.0.0.1'',
     rr_note = [], rr_created_at = 100, rr_expires_at = 400, rr_updated_at = 100,
     rr_encrypted_request = ''{}'', rr_encrypted_result = []\<rparr>"

definition sample_db :: database where
  "sample_db = empty_database\<lparr>db_requests := [sample_row]\<rparr>"

definition sample_marshal :: "response_envelope \<Rightarrow> string go_result" where
  "sample_marshal env = Inr (CHR ''e'' # env_ciphertext env)"

definition sample_unmarshal :: "string \<Rightarrow> response_envelope option" where
  "sample_unmarshal js = (if js = [] then None else Some (sample_envelope\<lparr>env_ciphertext := tl js\<rparr>))"

lemma sample_keyed [simp]: "requests_keyed sample_db"
  by (simp add: requests.keyed_def sample_db_def)

lemma sample_row_of [simp]: "request_row_of ''s1'' sample_db = Some sample_row"
  by (simp add: request_row_of_def sample_db_def sample_row_def)

lemma sample_row_fields [simp]:
  "rr_status sample_row = Status_Pending" "rr_user_id sample_row = ''alice''"
  "rr_state sample_row = ''s1''" "rr_expires_at sample_row = 400"
  by (simp_all add: sample_row_def)

text \<open>C1: For one call on the request store, whichever it is and whichever statements fail,
  the row of every state changes only along the life cycle: it is created pending, a pending row
  becomes completed (by the owner, not after its expiry), canceled (by the owner) or expired (when
  past its expiry), and only a terminal or expired row is deleted.\<close>

theorem request_lifecycle:
  assumes "requests_keyed s"
  shows "request_transition je c st (request_row_of st s) (request_row_of st (run_call je jd c s))"
  using assms by (rule run_call_transition)

theorem request_lifecycle_witness:
  "request_transition sample_marshal (Call_Cancel (seconds 300) ''s1'' ''alice'') ''s1''
     (Some sample_row)
     (request_row_of ''s1'' (run_call sample_marshal sample_unmarshal
        (Call_Cancel (seconds 300) ''s1'' ''alice'') sample_db))"
  using request_lifecycle [of sample_db sample_marshal "Call_Cancel (seconds 300) ''s1'' ''alice''" "''s1''"
      sample_unmarshal] by simp

text \<open>C3: A terminal status is final.  Whatever sequence of calls follows, by whomever, at whatever
  times and with whatever failures, a completed, canceled or expired row stays exactly as it is
  until it is deleted, as long as its state is not created again (states are random UUIDs).\<close>

theorem terminal_status_final:
  assumes "requests_keyed s" and "request_row_of st s = Some r" and "rr_status r \<noteq> Status_Pending"
    and "list_all (no_create st) cs"
  shows "request_row_of st (run_calls je jd cs s) \<in> {Some r, None}"
  using assms by (rule run_calls_terminal)

theorem terminal_status_final_witness:
  "request_row_of ''s1'' (run_calls sample_marshal sample_unmarshal
      [Call_Complete (seconds 200) ''s1'' ''alice'' sample_envelope, Call_Expire_Pending (seconds 900)]
      (sample_db\<lparr>db_requests := [set_canceled 150 sample_row]\<rparr>))
   \<in> {Some (set_canceled 150 sample_row), None}"
  by (rule terminal_status_final)
    (simp_all add: requests.keyed_def request_row_of_def set_canceled_def no_create_def)

text \<open>C2: Only its owner completes a request, and only in time: if a pending request ends up
  completed after a sequence of calls, one of them is a completion by the user the request was
  created for, made not after the expiry, and the stored result is the envelope of that call.\<close>

theorem completed_only_by_owner:
  assumes "requests_keyed s" and "request_row_of st s = Some q" and "rr_status q = Status_Pending"
    and "list_all (no_create st) cs"
    and "request_row_of st (run_calls je jd cs s) = Some r" and "rr_status r = Status_Completed"
  shows "\<exists>now env. Call_Complete now st (rr_user_id q) env \<in> set cs \<and> unix_seconds now \<le> rr_expires_at q
     \<and> rr_updated_at r = unix_seconds now \<and> je env = Inr (rr_encrypted_result r)"
proof -
  obtain c p where c: "c \<in> set cs" "same_request q p" "rr_status p \<noteq> Status_Completed"
    and t: "request_transition je c st (Some p) (Some r)"
    using run_calls_status_cause [OF assms(1-5) assms(6)] by blast
  note u = same_request_user [OF c(2)]
  from t show ?thesis
    by (rule transition_SomeE)
      (use c(1,3) u assms(6) in \<open>auto simp: completable_def set_completed_def set_canceled_def set_expired_def\<close>)
qed

theorem completed_only_by_owner_witness:
  "\<exists>now env. Call_Complete now ''s1'' ''alice'' env
        \<in> set [Call_Complete (seconds 300) ''s1'' ''bob'' sample_envelope,
               Call_Complete (seconds 300) ''s1'' ''alice'' sample_envelope]
     \<and> unix_seconds now \<le> 400
     \<and> rr_updated_at (set_completed 300 ''eQQ'' sample_row) = unix_seconds now
     \<and> sample_marshal env = Inr (rr_encrypted_result (set_completed 300 ''eQQ'' sample_row))"
proof -
  have "request_row_of ''s1'' (run_calls sample_marshal sample_unmarshal
     [Call_Complete (seconds 300) ''s1'' ''bob'' sample_envelope,
      Call_Complete (seconds 300) ''s1'' ''alice'' sample_envelope] sample_db)
     = Some (set_completed 300 ''eQQ'' sample_row)"
    by code_simp
  from completed_only_by_owner [OF sample_keyed sample_row_of _ _ this] show ?thesis
    by (simp add: no_create_def set_completed_def)
qed

text \<open>C4: The result of a request is handed out at most once: in any sequence of calls,
  at most one \<open>GetAndDeleteTerminalRequest\<close> of a state returns a record.\<close>

theorem delivered_at_most_once:
  assumes "requests_keyed s" and "list_all (no_create st) cs"
  shows "deliveries je jd st cs s \<le> 1"
  using assms
proof (induction cs arbitrary: s)
  case (Cons c cs)
  have k: "requests_keyed (run_call je jd c s)" using Cons.prems(1) by (rule run_call_keyed)
  have IH: "deliveries je jd st cs (run_call je jd c s) \<le> 1"
    using Cons.IH [OF k] Cons.prems(2) by simp
  show ?case
  proof (cases "\<exists>now rec s'. c = Call_Get_And_Delete now st \<and>
      get_and_delete_terminal_request jd now st s = (Inr (Some rec), s')")
    case True
    then obtain now rec s' where c: "c = Call_Get_And_Delete now st"
      and g: "get_and_delete_terminal_request jd now st s = (Inr (Some rec), s')" by blast
    have "request_row_of st (run_call je jd c s) = None"
      using get_and_delete_some [OF Cons.prems(1) g] by (simp add: c run_call_def g) blast
    then have "deliveries je jd st cs (run_call je jd c s) = 0"
      using deliveries_none [OF k] Cons.prems(2) by simp
    then show ?thesis by (simp add: c g)
  next
    case False
    then show ?thesis using IH
      by (auto split: request_call.splits sum.splits option.splits) (metis prod.collapse)
  qed
qed simp

theorem delivered_at_most_once_witness:
  "deliveries sample_marshal sample_unmarshal ''s1''
     [Call_Complete (seconds 300) ''s1'' ''alice'' sample_envelope,
      Call_Get_And_Delete (seconds 301) ''s1'', Call_Get_And_Delete (seconds 302) ''s1''] sample_db \<le> 1
   \<and> deliveries sample_marshal sample_unmarshal ''s1''
     [Call_Complete (seconds 300) ''s1'' ''alice'' sample_envelope,
      Call_Get_And_Delete (seconds 301) ''s1'', Call_Get_And_Delete (seconds 302) ''s1''] sample_db = 1"
  by (rule conjI, rule delivered_at_most_once) (simp_all add: no_create_def, code_simp)

text \<open>\<open>CompleteRequest\<close> on every branch, when no statement fails: a pending request of this
  user whose expiry is not past is completed and returned with the envelope; a missing request, a
  request of another user, a terminal one and an expired one all give the same error and change
  nothing, so a caller cannot tell them apart.\<close>

lemma complete_request_result:
  assumes "requests_keyed s" and "conn_faults s = []"
    and "je env = Inr js" and "jd js = Some env" and "js \<noteq> []"
  shows "complete_request je jd now st uid env s =
    (let n = unix_seconds now in
     case request_row_of st s of
       None \<Rightarrow> (Inl Err_Request_Not_Modifiable, s)
     | Some r \<Rightarrow>
         if rr_user_id r = uid \<and> rr_status r = Status_Pending \<and> n \<le> rr_expires_at r then
           (Inr \<lparr>req_state = st, req_status = Status_Completed, req_operation = rr_operation r,
              req_user_id = uid, req_key_label = rr_key_label r, req_algorithm = rr_algorithm r,
              req_requestor_ip = rr_requestor_ip r, req_note = rr_note r,
              req_created_at = from_unix (rr_created_at r), req_expires_at = from_unix (rr_expires_at r),
              req_updated_at = from_unix n, req_encrypted_request = rr_encrypted_request r,
              req_response_envelope = Some env\<rparr>,
            s\<lparr>db_requests := update_rows (\<lambda>q. rr_state q = st) (set_completed n js) (db_requests s)\<rparr>)
         else (Inl Err_Request_Not_Modifiable, s))"
proof -
  let ?n = "unix_seconds now"
  have row: "row_of rr_state st (db_requests s) = request_row_of st s" by (simp add: request_row_of_def)
  let ?upd = "sql_update db_requests put_requests (completable st uid ?n) (set_completed ?n js) s"
  have run: "complete_request je jd now st uid env s =
      (case ?upd of (Inl e, s1) \<Rightarrow> (Inl e, s1)
       | (Inr rs, s1) \<Rightarrow> (case scan_first (scan_request_record jd) rs of
            Inl e \<Rightarrow> (Inl e, s1) | Inr rec \<Rightarrow> (not_modifiable_if_none rec, s1)))"
    by (simp add: complete_request_def go_bind_def Let_def db_stmt_no_fault assms(2,3) split: sum.splits prod.splits)
  have u: "?upd = (case request_row_of st s of None \<Rightarrow> (Inr [], s)
      | Some r \<Rightarrow> if completable st uid ?n r
          then (Inr [set_completed ?n js r],
                put_requests (update_rows (completable st uid ?n) (set_completed ?n js) (db_requests s)) s)
          else (Inr [], s))"
    using requests.update_by_key [OF assms(1), of "completable st uid ?n" st "set_completed ?n js"] row
    by (simp add: completable_def)
  show ?thesis
  proof (cases "request_row_of st s")
    case None
    then show ?thesis by (simp add: run u scan_first_def not_modifiable_if_none_def Let_def)
  next
    case (Some r)
    have st: "rr_state r = st" using Some by (rule request_row_state)
    show ?thesis
    proof (cases "completable st uid ?n r")
      case False
      then have g: "\<not> (rr_user_id r = uid \<and> rr_status r = Status_Pending \<and> ?n \<le> rr_expires_at r)"
        using st by (simp add: completable_def)
      show ?thesis using False
        by (simp only: run u Some option.case if_False g Let_def scan_first_def first_row_simps
            prod.case sum.case not_modifiable_if_none_def)
    next
      case True
      then have g: "rr_user_id r = uid" "rr_status r = Status_Pending" "?n \<le> rr_expires_at r"
        by (simp_all add: completable_def)
      have "update_rows (completable st uid ?n) (set_completed ?n js) (db_requests s)
          = update_rows (\<lambda>q. rr_state q = st) (set_completed ?n js) (db_requests s)"
        by (rule update_rows_by_key [of rr_state])
          (use assms(1) Some True in \<open>auto simp: requests.keyed_def request_row_of_def completable_def\<close>)
      with True g show ?thesis
        by (simp add: run u Some scan_first_def scan_completed [where jd = jd, OF assms(4,5)] not_modifiable_if_none_def
            st Let_def)
    qed
  qed
qed

theorem complete_request_result_witness:
  "fst (complete_request sample_marshal sample_unmarshal (seconds 300) ''s1'' ''bob'' sample_envelope sample_db)
     = Inl Err_Request_Not_Modifiable
   \<and> fst (complete_request sample_marshal sample_unmarshal (seconds 300) ''zz'' ''bob'' sample_envelope sample_db)
     = Inl Err_Request_Not_Modifiable"
proof -
  have h: "conn_faults sample_db = []" "sample_marshal sample_envelope = Inr ''eQQ''"
    "sample_unmarshal ''eQQ'' = Some sample_envelope" "''eQQ'' \<noteq> []" "request_row_of ''zz'' sample_db = None"
    by (simp_all add: sample_db_def empty_database_def sample_marshal_def sample_unmarshal_def
        sample_envelope_def request_row_of_def sample_row_def)
  show ?thesis
    using complete_request_result [where je = sample_marshal and jd = sample_unmarshal and now = "seconds 300"
        and st = "''s1''" and uid = "''bob''", OF sample_keyed h(1-4)]
      complete_request_result [where je = sample_marshal and jd = sample_unmarshal and now = "seconds 300"
        and st = "''zz''" and uid = "''bob''", OF sample_keyed h(1-4)]
    by (simp add: h Let_def)
qed

end
