(* ===== verification/Signing_Key_Store.thy ===== *)
theory Signing_Key_Store
  imports Database
begin

text \<open>
  The signing key store (src/internal/db/signing_keys.go).  The Go record
  \<open>PublishedSigningKey\<close> has the columns of the row (its times are whole seconds).
  An \<open>ON CONFLICT (user_id, algorithm, key_label)\<close> clause is tried before the
  other unique columns: the primary key \<open>id\<close> is global and still raises an error.
\<close>

definition has_publication_proof :: "signing_key_row \<Rightarrow> bool" where
  "has_publication_proof k \<longleftrightarrow> sk_publication_payload k \<noteq> [] \<and> sk_publication_signature_es384 k \<noteq> []
     \<and> sk_publication_signature_mldsa87 k \<noteq> []"

record signing_key_list_item =
  ski_id :: string
  ski_algorithm :: string
  ski_key_label :: string
  ski_published :: bool
  ski_has_proof :: bool
  ski_created_at :: int
  ski_updated_at :: int

record insert_signing_key_input =
  ki_id :: string
  ki_user_id :: string
  ki_algorithm :: string
  ki_key_label :: string
  ki_jwk :: string
  ki_pem :: string
  ki_published :: bool
  ki_publication_payload :: string
  ki_publication_signature_es384 :: string
  ki_publication_signature_mldsa87 :: string

definition slot_of :: "signing_key_row \<Rightarrow> string \<times> string \<times> string" where
  "slot_of k = (sk_user_id k, sk_algorithm k, sk_key_label k)"

definition input_slot :: "insert_signing_key_input \<Rightarrow> string \<times> string \<times> string" where
  "input_slot i = (ki_user_id i, ki_algorithm i, ki_key_label i)"

definition signing_key_row_of :: "int \<Rightarrow> insert_signing_key_input \<Rightarrow> signing_key_row" where
  "signing_key_row_of n i =
    \<lparr>sk_id = ki_id i, sk_user_id = ki_user_id i, sk_algorithm = ki_algorithm i, sk_key_label = ki_key_label i,
     sk_jwk = ki_jwk i, sk_pem = ki_pem i, sk_published = ki_published i,
     sk_publication_payload = ki_publication_payload i,
     sk_publication_signature_es384 = ki_publication_signature_es384 i,
     sk_publication_signature_mldsa87 = ki_publication_signature_mldsa87 i,
     sk_created_at = n, sk_updated_at = n\<rparr>"

definition same_key_id :: "signing_key_row \<Rightarrow> signing_key_row \<Rightarrow> bool" where
  "same_key_id q r \<longleftrightarrow> sk_id q = sk_id r"

definition insert_key_row :: "signing_key_row \<Rightarrow> signing_key_row list db_op" where
  "insert_key_row r =
     go_bind (require_user (sk_user_id r)) (\<lambda>_.
     go_bind (sql_insert db_signing_keys put_signing_keys same_key_id r) (\<lambda>_. go_return [r]))"

definition create_stmt :: "signing_key_row \<Rightarrow> signing_key_row list db_op" where
  "create_stmt r s =
     (if list_ex (\<lambda>q. slot_of q = slot_of r) (db_signing_keys s) then (Inr [], s) else insert_key_row r s)"

definition already_exists_if_none :: "'a list \<Rightarrow> 'a go_result" where
  "already_exists_if_none rs = (case rs of [] \<Rightarrow> Inl Err_Signing_Key_Already_Exists | r # _ \<Rightarrow> Inr r)"

definition not_found_if_none :: "'a list \<Rightarrow> 'a go_result" where
  "not_found_if_none rs = (case rs of [] \<Rightarrow> Inl Err_Signing_Key_Not_Found | r # _ \<Rightarrow> Inr r)"

definition create_signing_key :: "go_time \<Rightarrow> insert_signing_key_input \<Rightarrow> signing_key_row db_op" where
  "create_signing_key now i =
     go_bind (db_stmt (create_stmt (signing_key_row_of (unix_seconds now) i)))
       (\<lambda>rs. go_lift (already_exists_if_none rs))"

text \<open>The DO UPDATE branch of \<open>AutoStoreUnpublished\<close>: only an unpublished row without a payload.\<close>

definition replaceable :: "string \<times> string \<times> string \<Rightarrow> signing_key_row \<Rightarrow> bool" where
  "replaceable slot k \<longleftrightarrow> slot_of k = slot \<and> \<not> sk_published k \<and> sk_publication_payload k = []"

definition auto_store_stmt :: "int \<Rightarrow> insert_signing_key_input \<Rightarrow> signing_key_row list db_op" where
  "auto_store_stmt n i s =
    (if list_ex (\<lambda>q. slot_of q = input_slot i) (db_signing_keys s) then
       (if list_ex (replaceable (input_slot i)) (db_signing_keys s)
           \<and> list_ex (\<lambda>q. slot_of q \<noteq> input_slot i \<and> sk_id q = ki_id i) (db_signing_keys s)
        then (Inl Err_Unique, s)
        else sql_update db_signing_keys put_signing_keys (replaceable (input_slot i))
               (\<lambda>k. k\<lparr>sk_id := ki_id i, sk_jwk := ki_jwk i, sk_pem := ki_pem i, sk_updated_at := n\<rparr>) s)
     else insert_key_row (signing_key_row_of n
            (i\<lparr>ki_published := False, ki_publication_payload := [], ki_publication_signature_es384 := [],
               ki_publication_signature_mldsa87 := []\<rparr>)) s)"

definition auto_store_unpublished :: "go_time \<Rightarrow> insert_signing_key_input \<Rightarrow> signing_key_row db_op" where
  "auto_store_unpublished now i =
     (if ki_published i then go_fail (Err_Msg ''auto-stored keys must not be marked published'')
      else if ki_publication_payload i \<noteq> [] \<or> ki_publication_signature_es384 i \<noteq> []
           \<or> ki_publication_signature_mldsa87 i \<noteq> []
        then go_fail (Err_Msg ''auto-stored keys must not carry a publication proof'')
      else go_bind (db_stmt (auto_store_stmt (unix_seconds now) i))
        (\<lambda>rs. go_lift (already_exists_if_none rs)))"

definition get_key_by_user_and_label :: "string \<Rightarrow> string \<Rightarrow> string \<Rightarrow> signing_key_row option db_op" where
  "get_key_by_user_and_label uid alg label =
     go_bind (db_stmt (sql_select db_signing_keys
                (\<lambda>k. sk_user_id k = uid \<and> sk_algorithm k = alg \<and> sk_key_label k = label)))
       (\<lambda>rs. go_return (first_row rs))"

definition get_key_by_id :: "string \<Rightarrow> signing_key_row option db_op" where
  "get_key_by_id kid =
     go_bind (db_stmt (sql_select db_signing_keys (\<lambda>k. sk_id k = kid))) (\<lambda>rs. go_return (first_row rs))"

definition get_published_by_id :: "string \<Rightarrow> signing_key_row option db_op" where
  "get_published_by_id kid =
     go_bind (get_key_by_id kid) (\<lambda>rec. case rec of
         None \<Rightarrow> go_return None
       | Some k \<Rightarrow> if \<not> sk_published k \<or> \<not> has_publication_proof k then go_return None else go_return (Some k))"

definition get_key_for_user :: "string \<Rightarrow> string \<Rightarrow> signing_key_row option db_op" where
  "get_key_for_user uid kid =
     go_bind (get_key_by_id kid) (\<lambda>rec. case rec of
         None \<Rightarrow> go_return None
       | Some k \<Rightarrow> if sk_user_id k \<noteq> uid then go_return None else go_return (Some k))"

definition key_list_item :: "signing_key_row \<Rightarrow> signing_key_list_item" where
  "key_list_item k =
    \<lparr>ski_id = sk_id k, ski_algorithm = sk_algorithm k, ski_key_label = sk_key_label k,
     ski_published = sk_published k,
     ski_has_proof = (sk_publication_payload k \<noteq> [] \<and> sk_publication_signature_es384 k \<noteq> []
        \<and> sk_publication_signature_mldsa87 k \<noteq> []),
     ski_created_at = sk_created_at k, ski_updated_at = sk_updated_at k\<rparr>"

text \<open>\<open>ORDER BY algorithm ASC, key_label ASC\<close>, in byte order.\<close>

definition key_order :: "signing_key_row \<Rightarrow> signing_key_row \<Rightarrow> bool" where
  "key_order a b \<longleftrightarrow> (if sk_algorithm a = sk_algorithm b then string_le (sk_key_label a) (sk_key_label b)
     else string_le (sk_algorithm a) (sk_algorithm b))"

definition list_keys_for_user :: "string \<Rightarrow> signing_key_list_item list db_op" where
  "list_keys_for_user uid =
     go_bind (db_stmt (sql_select db_signing_keys (\<lambda>k. sk_user_id k = uid)))
       (\<lambda>rs. go_return (map key_list_item (foldr (insert_by key_order) rs [])))"

definition delete_signing_key :: "string \<Rightarrow> string \<Rightarrow> signing_key_row db_op" where
  "delete_signing_key uid kid =
     go_bind (db_stmt (sql_delete db_signing_keys put_signing_keys (\<lambda>k. sk_user_id k = uid \<and> sk_id k = kid)))
       (\<lambda>rs. go_lift (not_found_if_none rs))"

definition set_published :: "go_time \<Rightarrow> string \<Rightarrow> string \<Rightarrow> bool \<Rightarrow> signing_key_row db_op" where
  "set_published now uid kid published =
     go_bind (db_stmt (sql_update db_signing_keys put_signing_keys (\<lambda>k. sk_user_id k = uid \<and> sk_id k = kid)
                (\<lambda>k. k\<lparr>sk_published := published, sk_updated_at := unix_seconds now\<rparr>)))
       (\<lambda>rs. go_lift (not_found_if_none rs))"

definition store_publication_proof ::
  "go_time \<Rightarrow> string \<Rightarrow> string \<Rightarrow> string \<Rightarrow> string \<Rightarrow> string \<Rightarrow> signing_key_row db_op" where
  "store_publication_proof now uid kid payload sig_es sig_ml =
     (if payload = [] \<or> sig_es = [] \<or> sig_ml = []
      then go_fail (Err_Msg ''publication proof fields must all be non-empty'')
      else go_bind (db_stmt (sql_update db_signing_keys put_signing_keys
             (\<lambda>k. sk_user_id k = uid \<and> sk_id k = kid)
             (\<lambda>k. k\<lparr>sk_publication_payload := payload, sk_publication_signature_es384 := sig_es,
                    sk_publication_signature_mldsa87 := sig_ml, sk_updated_at := unix_seconds now\<rparr>)))
           (\<lambda>rs. go_lift (not_found_if_none rs)))"

section \<open>The table of keys\<close>

text \<open>Ids and slots are unique.\<close>

definition keys_ok :: "signing_key_row list \<Rightarrow> bool" where
  "keys_ok t \<longleftrightarrow> distinct (map sk_id t) \<and> distinct (map slot_of t)"

text \<open>A slot that is published or has a payload is left as it is by the automatic path.\<close>

definition locked_key :: "signing_key_row \<Rightarrow> bool" where
  "locked_key k \<longleftrightarrow> sk_published k \<or> sk_publication_payload k \<noteq> []"

lemma auto_store_keeps_locked:
  assumes "k \<in> set (db_signing_keys s)" and "locked_key k"
  shows "k \<in> set (db_signing_keys (snd (auto_store_unpublished now i s)))"
proof -
  have stmt: "keeps (\<lambda>s. k \<in> set (db_signing_keys s)) (auto_store_stmt n i)" for n
    using assms(2)
    by (auto simp: keeps_def auto_store_stmt_def sql_update_def insert_key_row_def go_bind_def require_user_def
        sql_insert_def set_update_rows replaceable_def locked_key_def intro!: image_eqI [of k _ k])
  have "on_tables (\<lambda>s :: database. k \<in> set (db_signing_keys s))"
    by (rule on_tables_signing_keys [of "\<lambda>t. k \<in> set t"])
  then have "keeps (\<lambda>s. k \<in> set (db_signing_keys s)) (auto_store_unpublished now i)"
    unfolding auto_store_unpublished_def by (intro keeps_intros stmt)
  then show ?thesis using assms(1) by (rule keepsD)
qed

end
