(* ===== verification/Broker.thy ===== *)
theory Broker
  imports Rv_Prelude
begin

text \<open>
  Channels: the fan-out broker of src/internal/utils/broker/broker.go and the one-shot
  subscriptions of src/internal/server/util-notifications.go.  Channels are numbered in
  the order they are made; closing a closed channel and sending on one are Go panics.
\<close>

section \<open>The broker\<close>

record 'm chan =
  chan_cap :: nat
  chan_buf :: "'m list"
  chan_closed :: bool

definition make_chan :: "nat \<Rightarrow> 'm chan" where
  "make_chan n = \<lparr>chan_cap = n, chan_buf = [], chan_closed = False\<rparr>"

text \<open>\<open>close(ch)\<close>, and a send in a \<open>select\<close> with a default branch: the buffer takes the message or drops it.\<close>

definition close_chan :: "'m chan \<Rightarrow> 'm chan go_result" where
  "close_chan ch = (if chan_closed ch then Inl (Err_Panic ''close of closed channel'')
     else Inr (ch\<lparr>chan_closed := True\<rparr>))"

definition try_send :: "'m \<Rightarrow> 'm chan \<Rightarrow> 'm chan go_result" where
  "try_send m ch =
    (if chan_closed ch then Inl (Err_Panic ''send on closed channel'')
     else if length (chan_buf ch) < chan_cap ch then Inr (ch\<lparr>chan_buf := chan_buf ch @ [m]\<rparr>)
     else Inr ch)"

text \<open>A receive: a buffered message, \<open>None\<close> for the zero value of a closed channel, or blocked.\<close>

definition receive :: "'m chan \<Rightarrow> ('m option \<times> 'm chan) option" where
  "receive ch = (case chan_buf ch of
      m # ms \<Rightarrow> Some (Some m, ch\<lparr>chan_buf := ms\<rparr>)
    | [] \<Rightarrow> if chan_closed ch then Some (None, ch) else None)"

record 'm broker =
  br_subscribers :: "nat list"
  br_stopped :: bool
  br_chans :: "'m chan list"

definition new_broker :: "'m broker" where
  "new_broker = \<lparr>br_subscribers = [], br_stopped = False, br_chans = []\<rparr>"

text \<open>A panicking channel operation inside a broker or hub.\<close>

definition on_chan :: "('m chan \<Rightarrow> 'm chan go_result) \<Rightarrow> nat \<Rightarrow> 'm chan list \<Rightarrow> 'm chan list go_result" where
  "on_chan f ch cs = (case f (cs ! ch) of Inl e \<Rightarrow> Inl e | Inr c \<Rightarrow> Inr (cs[ch := c]))"

definition broker_subscribe :: "('m broker, nat) go" where
  "broker_subscribe b =
    (if br_stopped b then (Inl (Err_Msg ''broker is stopped''), b)
     else (Inr (length (br_chans b)),
           b\<lparr>br_chans := br_chans b @ [make_chan 8], br_subscribers := br_subscribers b @ [length (br_chans b)]\<rparr>))"

definition broker_unsubscribe :: "nat \<Rightarrow> ('m broker, unit) go" where
  "broker_unsubscribe ch b =
    (if ch \<in> set (br_subscribers b) then
       (case on_chan close_chan ch (br_chans b) of
          Inl e \<Rightarrow> (Inl e, b\<lparr>br_subscribers := removeAll ch (br_subscribers b)\<rparr>)
        | Inr cs \<Rightarrow> (Inr (), b\<lparr>br_subscribers := removeAll ch (br_subscribers b), br_chans := cs\<rparr>))
     else (Inr (), b))"

text \<open>Ranging over the subscriber set: the order is arbitrary in Go; here it is the list's.\<close>

fun close_all :: "nat list \<Rightarrow> 'm chan list \<Rightarrow> 'm chan list go_result" where
  "close_all [] cs = Inr cs"
| "close_all (ch # chs) cs = (case on_chan close_chan ch cs of Inl e \<Rightarrow> Inl e | Inr cs1 \<Rightarrow> close_all chs cs1)"

fun send_all :: "'m \<Rightarrow> nat list \<Rightarrow> 'm chan list \<Rightarrow> 'm chan list go_result" where
  "send_all m [] cs = Inr cs"
| "send_all m (ch # chs) cs = (case on_chan (try_send m) ch cs of Inl e \<Rightarrow> Inl e | Inr cs1 \<Rightarrow> send_all m chs cs1)"

definition broker_shutdown :: "('m broker, unit) go" where
  "broker_shutdown b =
    (case close_all (br_subscribers b) (br_chans b) of
       Inl e \<Rightarrow> (Inl e, b)
     | Inr cs \<Rightarrow> (Inr (), b\<lparr>br_subscribers := [], br_chans := cs, br_stopped := True\<rparr>))"

definition broker_publish :: "'m \<Rightarrow> ('m broker, unit) go" where
  "broker_publish m b =
    (if br_stopped b then (Inr (), b)
     else case send_all m (br_subscribers b) (br_chans b) of
            Inl e \<Rightarrow> (Inl e, b)
          | Inr cs \<Rightarrow> (Inr (), b\<lparr>br_chans := cs\<rparr>))"

text \<open>A subscriber takes a message from its channel.\<close>

definition broker_receive :: "nat \<Rightarrow> 'm broker \<Rightarrow> ('m option \<times> 'm broker) option" where
  "broker_receive ch b = (case receive (br_chans b ! ch) of
      None \<Rightarrow> None
    | Some (m, c) \<Rightarrow> Some (m, b\<lparr>br_chans := (br_chans b)[ch := c]\<rparr>))"

text \<open>Subscribed channels exist once each and are open.\<close>

definition broker_ok :: "'m broker \<Rightarrow> bool" where
  "broker_ok b \<longleftrightarrow> distinct (br_subscribers b)
     \<and> (\<forall>ch\<in>set (br_subscribers b). ch < length (br_chans b) \<and> \<not> chan_closed (br_chans b ! ch) \<and> chan_cap (br_chans b ! ch) = 8)
     \<and> (br_stopped b \<longrightarrow> br_subscribers b = [])"

definition open_chans :: "nat list \<Rightarrow> 'm chan list \<Rightarrow> bool" where
  "open_chans chs cs \<longleftrightarrow> distinct chs \<and> (\<forall>ch\<in>set chs. ch < length cs \<and> \<not> chan_closed (cs ! ch))"

lemma on_chan_ok: "on_chan f ch cs = Inr ds \<Longrightarrow> length ds = length cs \<and> (\<forall>i. i \<noteq> ch \<longrightarrow> ds ! i = cs ! i)"
  by (auto simp: on_chan_def split: sum.splits)

lemma close_all_ok:
  assumes "open_chans chs cs"
  shows "\<exists>ds. close_all chs cs = Inr ds \<and> length ds = length cs
    \<and> (\<forall>i<length cs. ds ! i = (if i \<in> set chs then (cs ! i)\<lparr>chan_closed := True\<rparr> else cs ! i))"
  using assms
proof (induction chs arbitrary: cs)
  case (Cons ch chs)
  let ?c = "(cs ! ch)\<lparr>chan_closed := True\<rparr>"
  have s: "on_chan close_chan ch cs = Inr (cs[ch := ?c])" and o: "open_chans chs (cs[ch := ?c])"
    using Cons.prems by (auto simp: on_chan_def close_chan_def open_chans_def nth_list_update)
  from Cons.IH [OF o] s Cons.prems show ?case
    by (auto simp: open_chans_def nth_list_update)
qed simp

definition buffered :: "'m \<Rightarrow> 'm chan \<Rightarrow> 'm chan" where
  "buffered m c = (if length (chan_buf c) < chan_cap c then c\<lparr>chan_buf := chan_buf c @ [m]\<rparr> else c)"

lemma try_send_open: "\<not> chan_closed c \<Longrightarrow> try_send m c = Inr (buffered m c)"
  by (simp add: try_send_def buffered_def)

lemma buffered_closed [simp]: "chan_closed (buffered m c) = chan_closed c" "chan_cap (buffered m c) = chan_cap c"
  by (simp_all add: buffered_def)

lemma send_all_ok:
  assumes "open_chans chs cs"
  shows "\<exists>ds. send_all m chs cs = Inr ds \<and> length ds = length cs
    \<and> (\<forall>i<length cs. ds ! i = (if i \<in> set chs then buffered m (cs ! i) else cs ! i))"
  using assms
proof (induction chs arbitrary: cs)
  case (Cons ch chs)
  let ?c = "buffered m (cs ! ch)"
  have s: "on_chan (try_send m) ch cs = Inr (cs[ch := ?c])" and o: "open_chans chs (cs[ch := ?c])"
    using Cons.prems by (auto simp: on_chan_def try_send_open open_chans_def nth_list_update)
  from Cons.IH [OF o] s Cons.prems show ?case
    by (auto simp: open_chans_def nth_list_update)
qed simp

lemma broker_ok_open: "broker_ok b \<Longrightarrow> open_chans (br_subscribers b) (br_chans b)"
  by (simp add: broker_ok_def open_chans_def)

section \<open>Sequences of broker calls\<close>

datatype 'm broker_call =
    Br_Subscribe
  | Br_Unsubscribe nat
  | Br_Publish 'm
  | Br_Receive nat
  | Br_Shutdown

fun run_broker_call :: "'m broker_call \<Rightarrow> 'm broker \<Rightarrow> unit go_result \<times> 'm broker" where
  "run_broker_call Br_Subscribe b = (case broker_subscribe b of (r, b1) \<Rightarrow> (case r of Inl e \<Rightarrow> Inl e | Inr _ \<Rightarrow> Inr (), b1))"
| "run_broker_call (Br_Unsubscribe ch) b = broker_unsubscribe ch b"
| "run_broker_call (Br_Publish m) b = broker_publish m b"
| "run_broker_call (Br_Receive ch) b =
     (case broker_receive ch b of None \<Rightarrow> (Inr (), b) | Some (_, b1) \<Rightarrow> (Inr (), b1))"
| "run_broker_call Br_Shutdown b = broker_shutdown b"

lemma nth_grow: "i < length cs \<Longrightarrow> (cs @ [c]) ! i = cs ! i"
  by (simp add: nth_append)

lemma nth_rebuffer [simp]:
  "i < length cs \<Longrightarrow> chan_closed (cs[ch := (cs ! ch)\<lparr>chan_buf := x\<rparr>] ! i) = chan_closed (cs ! i)"
  "i < length cs \<Longrightarrow> chan_cap (cs[ch := (cs ! ch)\<lparr>chan_buf := x\<rparr>] ! i) = chan_cap (cs ! i)"
  by (cases "i = ch", simp_all)+

lemma broker_call_ok:
  assumes ok: "broker_ok b"
  shows "broker_ok (snd (run_broker_call call b)) \<and> (\<forall>p. fst (run_broker_call call b) \<noteq> Inl (Err_Panic p))"
proof (cases call)
  case Br_Subscribe
  then show ?thesis
    using ok by (auto simp: broker_subscribe_def broker_ok_def make_chan_def nth_append)
next
  case (Br_Unsubscribe ch)
  then show ?thesis
    using ok
    by (auto simp: broker_unsubscribe_def broker_ok_def on_chan_def close_chan_def distinct_removeAll nth_list_update)
next
  case (Br_Publish m)
  from send_all_ok [OF broker_ok_open [OF ok], of m] obtain ds where
    "send_all m (br_subscribers b) (br_chans b) = Inr ds" "length ds = length (br_chans b)"
    "\<forall>i<length (br_chans b). ds ! i = (if i \<in> set (br_subscribers b) then buffered m (br_chans b ! i) else br_chans b ! i)"
    by blast
  then show ?thesis
    using ok Br_Publish by (auto simp: broker_publish_def broker_ok_def)
next
  case (Br_Receive ch)
  then show ?thesis
    using ok
    by (auto simp: broker_receive_def receive_def broker_ok_def nth_list_update split: option.splits list.splits if_splits)
next
  case Br_Shutdown
  from close_all_ok [OF broker_ok_open [OF ok]] obtain ds where "close_all (br_subscribers b) (br_chans b) = Inr ds"
    by blast
  then show ?thesis
    using ok Br_Shutdown by (auto simp: broker_shutdown_def broker_ok_def)
qed

interpretation broker: call_system "\<lambda>call b. snd (run_broker_call call b)" "broker_ok :: 'm broker \<Rightarrow> bool"
  by unfold_locales (simp add: broker_call_ok)

lemma new_broker_ok: "broker_ok new_broker"
  by (simp add: broker_ok_def new_broker_def)

abbreviation run_broker :: "'m broker_call list \<Rightarrow> 'm broker" where
  "run_broker cs \<equiv> fold (\<lambda>call b. snd (run_broker_call call b)) cs new_broker"

text \<open>The broker never panics, in whatever order subscriptions, cancellations, publications, receives and
  shutdowns run: no call sends on or closes a closed channel, and a publication reaches every current
  subscriber (appended to its buffer, dropped only when its 8 places are full) and changes no other channel.\<close>

lemma broker_delivers:
  "(\<forall>p. fst (run_broker_call call (run_broker cs)) \<noteq> Inl (Err_Panic p))
   \<and> (let b = run_broker cs; b1 = snd (broker_publish m b) in
        br_subscribers b1 = br_subscribers b \<and> length (br_chans b1) = length (br_chans b)
        \<and> (\<forall>i<length (br_chans b). chan_buf (br_chans b1 ! i)
             = chan_buf (br_chans b ! i) @ (if i \<in> set (br_subscribers b) \<and> length (chan_buf (br_chans b ! i)) < 8
                 then [m] else [])))"
proof -
  let ?b = "run_broker cs"
  have ok: "broker_ok ?b" by (rule broker.runs_inv [OF new_broker_ok])
  from send_all_ok [OF broker_ok_open [OF ok], of m] obtain ds where
    "send_all m (br_subscribers ?b) (br_chans ?b) = Inr ds" "length ds = length (br_chans ?b)"
    "\<forall>i<length (br_chans ?b). ds ! i = (if i \<in> set (br_subscribers ?b) then buffered m (br_chans ?b ! i) else br_chans ?b ! i)"
    by blast
  then have "let b = ?b; b1 = snd (broker_publish m b) in
        br_subscribers b1 = br_subscribers b \<and> length (br_chans b1) = length (br_chans b)
        \<and> (\<forall>i<length (br_chans b). chan_buf (br_chans b1 ! i)
             = chan_buf (br_chans b ! i) @ (if i \<in> set (br_subscribers b) \<and> length (chan_buf (br_chans b ! i)) < 8
                 then [m] else []))"
    using ok by (auto simp: broker_publish_def broker_ok_def buffered_def Let_def)
  with broker_call_ok [OF ok] show ?thesis by blast
qed

theorem broker_delivers_witness:
  "chan_buf (br_chans (snd (broker_publish (2::nat) (run_broker [Br_Subscribe, Br_Publish 1]))) ! 0) = [1, 2]"
proof -
  have "br_subscribers (run_broker [Br_Subscribe, Br_Publish (1::nat)]) = [0]"
    "length (br_chans (run_broker [Br_Subscribe, Br_Publish (1::nat)])) = 1"
    "chan_buf (br_chans (run_broker [Br_Subscribe, Br_Publish (1::nat)]) ! 0) = [1]"
    by (simp_all add: broker_subscribe_def broker_publish_def new_broker_def make_chan_def on_chan_def try_send_def)
  with broker_delivers [of Br_Shutdown "[Br_Subscribe, Br_Publish (1::nat)]" 2] show ?thesis
    by (simp add: Let_def del: fold_simps run_broker_call.simps)
qed

end
