(* ===== verification/Server_State.thy ===== *)
theory Server_State
  imports Server_Common Request_Lifecycle Signing_Key_Store Signing_Jwk Broker
begin

text \<open>
  The state of the server (the struct \<open>Server\<close> of src/internal/server/server.go) as far as the
  request flow uses it: the database, the subscriptions by request state, the broker for
  list streams and the delayed-work queues; the subscription helpers of
  util-notifications.go; the executors of due events of util-eventqueue.go.

  The queues are a library (github.com/italypaleale/go-kit/eventqueue): the model records
  the calls made to them in order, and \<open>sv_queue\<close> scripts what the calls return (success
  once the script is empty).  A due event is run by calling the executor.  Work done under
  \<open>s.lock\<close> is one operation of the model.
\<close>

record request_expiry_event =
  xe_state :: string
  xe_user_id :: string
  xe_ttl :: go_time

record delete_event =
  de_key_name :: string
  de_kind :: string
  de_id :: string
  de_ttl :: go_time

definition expiry_event_key :: "request_expiry_event \<Rightarrow> string" where
  "expiry_event_key e = ''request-expiry:'' @ xe_state e"

datatype queue_call =
    Enqueue_Expiry request_expiry_event
  | Dequeue_Expiry string
  | Enqueue_Delete delete_event
  | Dequeue_Delete string

datatype queue_outcome = Queue_Ok | Queue_Stopped | Queue_Error

record server =
  sv_db :: database
  sv_subs :: "string \<Rightarrow> nat option"
  sv_chans :: "unit chan list"
  sv_pubsub :: "request_list_item broker"
  sv_queue :: "queue_outcome list"
  sv_queue_calls :: "queue_call list"

type_synonym 'a sv_op = "(server, 'a) go"

definition on_db :: "'a db_op \<Rightarrow> 'a sv_op" where
  "on_db m s = (case m (sv_db s) of (r, d) \<Rightarrow> (r, s\<lparr>sv_db := d\<rparr>))"

definition new_server :: "database \<Rightarrow> server" where
  "new_server d = \<lparr>sv_db = d, sv_subs = (\<lambda>_. None), sv_chans = [], sv_pubsub = new_broker, sv_queue = [],
     sv_queue_calls = []\<rparr>"

section \<open>Queues\<close>

definition queue_call :: "queue_call \<Rightarrow> queue_outcome sv_op" where
  "queue_call c s =
    (case sv_queue s of
       [] \<Rightarrow> (Inr Queue_Ok, s\<lparr>sv_queue_calls := sv_queue_calls s @ [c]\<rparr>)
     | q # qs \<Rightarrow> (Inr q, s\<lparr>sv_queue := qs, sv_queue_calls := sv_queue_calls s @ [c]\<rparr>))"

definition queue_error :: "queue_outcome \<Rightarrow> unit go_result" where
  "queue_error q = (case q of
      Queue_Ok \<Rightarrow> Inr ()
    | Queue_Stopped \<Rightarrow> Inl (Err_Msg ''processor is stopped'')
    | Queue_Error \<Rightarrow> Inl (Err_Msg ''queue error''))"

definition enqueue_expiry :: "request_expiry_event \<Rightarrow> unit sv_op" where
  "enqueue_expiry e = go_bind (queue_call (Enqueue_Expiry e)) (\<lambda>q. go_lift (queue_error q))"

definition enqueue_delete :: "delete_event \<Rightarrow> unit sv_op" where
  "enqueue_delete e = go_bind (queue_call (Enqueue_Delete e)) (\<lambda>q. go_lift (queue_error q))"

text \<open>\<open>Dequeue\<close> as its callers use it: a stopped processor is not an error.\<close>

definition dequeue_expiry :: "string \<Rightarrow> unit sv_op" where
  "dequeue_expiry st = go_bind (queue_call (Dequeue_Expiry (''request-expiry:'' @ st)))
     (\<lambda>q. if q = Queue_Stopped then go_return () else go_lift (queue_error q))"

definition dequeue_delete :: "string \<Rightarrow> unit sv_op" where
  "dequeue_delete key = go_bind (queue_call (Dequeue_Delete key))
     (\<lambda>q. if q = Queue_Stopped then go_return () else go_lift (queue_error q))"

section \<open>Subscriptions\<close>

definition chan_step :: "(unit chan \<Rightarrow> unit chan go_result) \<Rightarrow> nat \<Rightarrow> unit sv_op" where
  "chan_step f ch s = (case on_chan f ch (sv_chans s) of
      Inl e \<Rightarrow> (Inl e, s)
    | Inr cs \<Rightarrow> (Inr (), s\<lparr>sv_chans := cs\<rparr>))"

text \<open>The new channel of \<open>subscribeState\<close>.\<close>

definition new_subscription :: "string \<Rightarrow> nat sv_op" where
  "new_subscription st s =
     (Inr (length (sv_chans s)),
      s\<lparr>sv_chans := sv_chans s @ [make_chan 1], sv_subs := (sv_subs s)(st \<mapsto> length (sv_chans s))\<rparr>)"

definition subscribe_state :: "string \<Rightarrow> nat sv_op" where
  "subscribe_state st s =
     (case sv_subs s st of
        Some ch \<Rightarrow> go_bind (chan_step close_chan ch) (\<lambda>_. new_subscription st) s
      | None \<Rightarrow> new_subscription st s)"

definition remove_subscription :: "string \<Rightarrow> unit sv_op" where
  "remove_subscription st s = (Inr (), s\<lparr>sv_subs := (sv_subs s)(st := None)\<rparr>)"

definition unsubscribe_state :: "string \<Rightarrow> nat \<Rightarrow> unit sv_op" where
  "unsubscribe_state st watch s =
     (case sv_subs s st of
        Some ch \<Rightarrow> if ch = watch then go_bind (chan_step close_chan ch) (\<lambda>_. remove_subscription st) s
                   else (Inr (), s)
      | None \<Rightarrow> (Inr (), s))"

definition notify_subscriber :: "string \<Rightarrow> unit sv_op" where
  "notify_subscriber st s =
     (case sv_subs s st of
        None \<Rightarrow> (Inr (), s)
      | Some ch \<Rightarrow> go_bind (chan_step (try_send ()) ch) (\<lambda>_.
          go_bind (chan_step close_chan ch) (\<lambda>_. remove_subscription st)) s)"

definition publish_list_item :: "request_list_item \<Rightarrow> unit sv_op" where
  "publish_list_item item s = (case broker_publish item (sv_pubsub s) of (r, b) \<Rightarrow> (r, s\<lparr>sv_pubsub := b\<rparr>))"

definition removed_item :: "string \<Rightarrow> string \<Rightarrow> request_list_item" where
  "removed_item st uid =
    \<lparr>li_state = st, li_status = ''removed'', li_operation = [], li_user_id = uid, li_key_label = [], li_algorithm = [],
     li_requestor = [], li_date = 0, li_expiry = 0, li_note = []\<rparr>"

section \<open>Due events\<close>

text \<open>What the executors and handlers of the request flow call outside the repository.\<close>

record ('ek, 'mk) server_env =
  se_marshal :: "response_envelope \<Rightarrow> string go_result"
  se_unmarshal :: "string \<Rightarrow> response_envelope option"
  se_marshal_request :: "request_enc_envelope \<Rightarrow> string go_result"
  se_crypto :: "('ek, 'mk) crypto"
  se_codec :: key_codec
  se_json_valid :: "string \<Rightarrow> bool"
  se_json_object :: "(string \<times> json_scalar) list \<Rightarrow> string"
  se_parse_duration :: "string \<Rightarrow> int option"
  se_request_timeout :: go_time

text \<open>
  \<open>executeRequestExpiryEvent\<close>: \<open>clock\<close> gives the readings in the order taken, \<open>aid\<close> is
  the id drawn for the audit row.  Its errors are logged, so it returns nothing.
\<close>

definition execute_request_expiry_event ::
  "('ek, 'mk) server_env \<Rightarrow> (nat \<Rightarrow> go_time) \<Rightarrow> string \<Rightarrow> request_expiry_event \<Rightarrow> unit sv_op" where
  "execute_request_expiry_event env clock aid ev =
    go_bind (go_try (on_db (mark_expired (se_unmarshal env) (clock 0) (xe_state ev)))) (\<lambda>r.
    case r of
      Inl _ \<Rightarrow> go_return ()
    | Inr None \<Rightarrow> go_return ()
    | Inr (Some rec) \<Rightarrow>
        go_bind (on_db (audit_event_ctx (se_json_valid env) aid (clock 1)
          (no_fields\<lparr>fl_event_type := ''request.expire'', fl_outcome := ''success'', fl_actor_user_id := req_user_id rec,
             fl_target_user_id := req_user_id rec, fl_request_state := xe_state ev,
             fl_metadata := request_audit_metadata (se_json_object env) (req_operation rec) (req_algorithm rec)
               (req_key_label rec) (req_note rec)\<rparr>))) (\<lambda>_.
        go_bind (notify_subscriber (xe_state ev)) (\<lambda>_.
        go_bind (publish_list_item (removed_item (xe_state ev) (req_user_id rec))) (\<lambda>_.
        go_bind (go_try (enqueue_delete
          \<lparr>de_key_name = ''request-delete:'' @ xe_state ev, de_kind = ''request'', de_id = xe_state ev,
           de_ttl = xe_ttl ev + minutes 10\<rparr>)) (\<lambda>_. go_return ())))))"

definition enqueue_audit_prune :: "go_time \<Rightarrow> unit sv_op" where
  "enqueue_audit_prune at =
     enqueue_delete \<lparr>de_key_name = ''audit-prune:'' @ format_int at, de_kind = ''audit-prune'', de_id = [], de_ttl = at\<rparr>"

definition execute_delete_event :: "(nat \<Rightarrow> go_time) \<Rightarrow> delete_event \<Rightarrow> unit sv_op" where
  "execute_delete_event clock ev =
    (if de_kind ev = ''request'' then
       go_bind (go_try (on_db (delete_terminal_request (de_id ev) (Some (de_ttl ev))))) (\<lambda>_. go_return ())
     else if de_kind ev = ''challenge'' then
       go_bind (go_try (on_db (delete_expired_auth_challenge (de_id ev) (de_ttl ev)))) (\<lambda>_. go_return ())
     else if de_kind ev = ''nonready-user'' then
       go_bind (go_try (on_db (delete_nonready_user (de_id ev) (de_ttl ev)))) (\<lambda>_. go_return ())
     else if de_kind ev = ''audit-prune'' then
       go_bind (go_try (on_db (prune_before (unix_seconds (clock 0 - audit_retention))))) (\<lambda>_.
       go_bind (go_try (enqueue_audit_prune (clock 1 + audit_prune_interval))) (\<lambda>_. go_return ()))
     else go_return ())"

text \<open>The requests of a database at start-up (the last part of \<open>startAppServer\<close>).\<close>

fun enqueue_pending :: "request_list_item list \<Rightarrow> unit sv_op" where
  "enqueue_pending [] = go_return ()"
| "enqueue_pending (item # items) =
     go_bind (enqueue_expiry \<lparr>xe_state = li_state item, xe_user_id = li_user_id item, xe_ttl = from_unix (li_expiry item)\<rparr>)
       (\<lambda>_. enqueue_pending items)"

definition startup_cleanup :: "(nat \<Rightarrow> go_time) \<Rightarrow> unit sv_op" where
  "startup_cleanup clock =
    go_bind (on_db (expire_pending (clock 0))) (\<lambda>_.
    go_bind (on_db (cleanup_old_records (clock 0))) (\<lambda>_.
    go_bind (on_db (list_pending (clock 1) [])) (\<lambda>items.
    go_bind (enqueue_pending items) (\<lambda>_.
    go_bind (on_db (cleanup_expired (clock 2))) (\<lambda>_.
    enqueue_audit_prune (clock 3))))))"

section \<open>Subscriptions are sound\<close>

text \<open>A registered channel is open, empty, and registered for one state only.\<close>

definition subs_ok :: "server \<Rightarrow> bool" where
  "subs_ok s \<longleftrightarrow>
     (\<forall>st ch. sv_subs s st = Some ch \<longrightarrow> ch < length (sv_chans s) \<and> \<not> chan_closed (sv_chans s ! ch)
        \<and> chan_buf (sv_chans s ! ch) = [] \<and> chan_cap (sv_chans s ! ch) = 1)
     \<and> (\<forall>st1 st2 ch. sv_subs s st1 = Some ch \<longrightarrow> sv_subs s st2 = Some ch \<longrightarrow> st1 = st2)"

definition panics :: "'a go_result \<Rightarrow> bool" where
  "panics r \<longleftrightarrow> (case r of Inl (Err_Panic _) \<Rightarrow> True | _ \<Rightarrow> False)"

lemma panics_simps [simp]: "\<not> panics (Inr x)" "panics (Inl e) \<longleftrightarrow> (\<exists>p. e = Err_Panic p)"
  by (auto simp: panics_def split: go_error.splits)

lemma subs_okD:
  assumes "subs_ok s" and "sv_subs s st = Some ch"
  shows "ch < length (sv_chans s)" "\<not> chan_closed (sv_chans s ! ch)" "chan_buf (sv_chans s ! ch) = []"
    "chan_cap (sv_chans s ! ch) = 1" "sv_subs s st2 = Some ch \<Longrightarrow> st2 = st"
  using assms unfolding subs_ok_def by blast+

definition closed_chan :: "unit chan \<Rightarrow> unit chan" where "closed_chan c = c\<lparr>chan_closed := True\<rparr>"
definition notified_chan :: "unit chan \<Rightarrow> unit chan" where "notified_chan c = c\<lparr>chan_buf := [()], chan_closed := True\<rparr>"

lemma subscribe_state_eq:
  assumes "subs_ok s"
  shows "subscribe_state st s = (Inr (length (sv_chans s)),
     s\<lparr>sv_chans := (case sv_subs s st of None \<Rightarrow> sv_chans s | Some ch \<Rightarrow> (sv_chans s)[ch := closed_chan (sv_chans s ! ch)])
           @ [make_chan 1],
       sv_subs := (sv_subs s)(st \<mapsto> length (sv_chans s))\<rparr>)"
  using subs_okD [OF assms, of st]
  by (auto simp: subscribe_state_def new_subscription_def chan_step_def on_chan_def close_chan_def closed_chan_def
      go_bind_def split: option.splits)

lemma unsubscribe_state_eq:
  assumes "subs_ok s"
  shows "unsubscribe_state st watch s = (Inr (), if sv_subs s st = Some watch
      then s\<lparr>sv_chans := (sv_chans s)[watch := closed_chan (sv_chans s ! watch)], sv_subs := (sv_subs s)(st := None)\<rparr> else s)"
  using subs_okD [OF assms, of st]
  by (auto simp: unsubscribe_state_def remove_subscription_def chan_step_def on_chan_def close_chan_def closed_chan_def
      go_bind_def split: option.splits)

lemma notify_subscriber_eq:
  assumes "subs_ok s"
  shows "notify_subscriber st s = (Inr (), case sv_subs s st of None \<Rightarrow> s
      | Some ch \<Rightarrow> s\<lparr>sv_chans := (sv_chans s)[ch := notified_chan (sv_chans s ! ch)], sv_subs := (sv_subs s)(st := None)\<rparr>)"
  using subs_okD [OF assms, of st]
  by (auto simp: notify_subscriber_def remove_subscription_def chan_step_def on_chan_def close_chan_def try_send_def
      notified_chan_def go_bind_def split: option.splits)

lemma subs_ok_subscribe: "subs_ok s \<Longrightarrow> subs_ok (snd (subscribe_state st s))"
  by (simp add: subscribe_state_eq)
    (auto simp: subs_ok_def nth_append nth_list_update make_chan_def split: option.splits if_splits)

lemma subs_ok_unsubscribe: "subs_ok s \<Longrightarrow> subs_ok (snd (unsubscribe_state st watch s))"
  by (simp add: unsubscribe_state_eq) (auto simp: subs_ok_def nth_list_update split: if_splits)

lemma subs_ok_notify: "subs_ok s \<Longrightarrow> subs_ok (snd (notify_subscriber st s))"
  by (simp add: notify_subscriber_eq split: option.splits) (auto simp: subs_ok_def nth_list_update split: if_splits)

end
