(* ===== verification/Webauthn_Data.thy ===== *)
theory Webauthn_Data
  imports Go_Base64 "HOL-Library.AList" Complex_Main
begin

text \<open>
  What the server does itself around WebAuthn ceremonies: the normalization of PRF results in
  a credential (\<open>normalizeWebAuthnPRFResults\<close> in src/internal/server/routes-auth.go) and the
  list of relying-party origins (src/internal/server/webauthn.go).

  A decoded JSON value (Go's \<open>any\<close>): numbers are float64, so rational; an object is a map,
  its members in any order with distinct names.
\<close>

datatype json =
    J_Null
  | J_Bool bool
  | J_Number rat
  | J_String string
  | J_Array "json list"
  | J_Object "(string \<times> json) list"

section \<open>PRF results\<close>

definition number_byte :: "json \<Rightarrow> char option" where
  "number_byte v = (case v of
      J_Number q \<Rightarrow> if q < 0 \<or> q > 255 \<or> q \<noteq> of_int \<lfloor>q\<rfloor> then None else Some (char_of (nat \<lfloor>q\<rfloor>))
    | _ \<Rightarrow> None)"

fun array_bytes :: "json list \<Rightarrow> string option" where
  "array_bytes [] = Some []"
| "array_bytes (v # vs) =
    (case number_byte v of None \<Rightarrow> None
     | Some b \<Rightarrow> (case array_bytes vs of None \<Rightarrow> None | Some bs \<Rightarrow> Some (b # bs)))"

type_synonym members = "(string \<times> json) list"

text \<open>The last part of the path names the field, the parts before it the objects on the way.\<close>

fun normalize_byte_array_at_path :: "string list \<Rightarrow> members \<Rightarrow> members go_result" where
  "normalize_byte_array_at_path [] current = Inr current"
| "normalize_byte_array_at_path [field] current =
    (case map_of current field of
       None \<Rightarrow> Inr current
     | Some (J_String _) \<Rightarrow> Inr current
     | Some (J_Array values) \<Rightarrow>
         (case array_bytes values of
            None \<Rightarrow> Inl (Err_Msg ''contains an invalid byte'')
          | Some bs \<Rightarrow> Inr (AList.update field (J_String (raw_url_encode bs)) current))
     | Some _ \<Rightarrow> Inl (Err_Msg ''must be a base64url string or byte array''))"
| "normalize_byte_array_at_path (part # parts) current =
    (case map_of current part of
       None \<Rightarrow> Inr current
     | Some (J_Object next) \<Rightarrow>
         (case normalize_byte_array_at_path parts next of
            Inl e \<Rightarrow> Inl e
          | Inr next1 \<Rightarrow> Inr (AList.update part (J_Object next1) current))
     | Some _ \<Rightarrow> Inl (Err_Msg ''must be an object''))"

definition prf_path :: "string \<Rightarrow> string list" where
  "prf_path field = [''clientExtensionResults'', ''prf'', ''results'', field]"

text \<open>Decoding \<open>null\<close> into a Go map gives a nil map, which is encoded as \<open>null\<close> again.\<close>

definition normalize_prf_results :: "json \<Rightarrow> json go_result" where
  "normalize_prf_results v = (case v of
      J_Null \<Rightarrow> Inr J_Null
    | J_Object current \<Rightarrow>
        (case normalize_byte_array_at_path (prf_path ''first'') current of
           Inl e \<Rightarrow> Inl e
         | Inr current1 \<Rightarrow> (case normalize_byte_array_at_path (prf_path ''second'') current1 of
             Inl e \<Rightarrow> Inl e
           | Inr current2 \<Rightarrow> Inr (J_Object current2)))
    | _ \<Rightarrow> Inl Err_Json)"

text \<open>The value at a path of member names.\<close>

fun json_at :: "string list \<Rightarrow> json \<Rightarrow> json option" where
  "json_at [] v = Some v"
| "json_at (p # ps) v = (case v of J_Object ms \<Rightarrow> (case map_of ms p of None \<Rightarrow> None | Some w \<Rightarrow> json_at ps w) | _ \<Rightarrow> None)"

definition normal_field :: "json option \<Rightarrow> json option" where
  "normal_field z = (case z of
      Some (J_Array vs) \<Rightarrow> (case array_bytes vs of None \<Rightarrow> z | Some bs \<Rightarrow> Some (J_String (raw_url_encode bs)))
    | _ \<Rightarrow> z)"

lemma normalize_stepE:
  assumes "normalize_byte_array_at_path (part # q # parts) ms = Inr ns"
  obtains "map_of ms part = None" "ns = ms"
  | inner inner1 where "map_of ms part = Some (J_Object inner)"
      "normalize_byte_array_at_path (q # parts) inner = Inr inner1" "ns = AList.update part (J_Object inner1) ms"
  using assms by (simp split: option.splits json.splits sum.splits)

lemma json_at_object: "json_at (p # ps) (J_Object ms) = Option.bind (map_of ms p) (json_at ps)"
  by (simp split: option.splits)

lemma json_at_update:
  "json_at (p # ps) (J_Object (AList.update k v ms)) = (if p = k then json_at ps v else json_at (p # ps) (J_Object ms))"
  by (simp add: update_conv)

declare json_at.simps(2) [simp del] normalize_byte_array_at_path.simps(3) [simp del]

lemma normalize_at_path_field:
  "normalize_byte_array_at_path ps ms = Inr ns \<Longrightarrow> ps \<noteq> []
     \<Longrightarrow> json_at ps (J_Object ns) = normal_field (json_at ps (J_Object ms))"
proof (induction ps ms arbitrary: ns rule: normalize_byte_array_at_path.induct)
  case (2 field current)
  then show ?case by (auto simp: normal_field_def json_at_object update_conv split: option.splits json.splits)
next
  case (3 part q parts current)
  from 3(2) show ?case
  proof (cases rule: normalize_stepE)
    case 1
    then show ?thesis by (simp add: json_at_object normal_field_def)
  next
    case (2 ms1 ns1)
    from 3(1) [OF 2(1) refl 2(2)] show ?thesis by (simp add: 2 json_at_update) (simp add: 2 json_at_object)
  qed
qed simp

text \<open>Only the one field changes.\<close>

lemma normalize_at_path_other:
  "normalize_byte_array_at_path ps ms = Inr ns \<Longrightarrow> length qs = length ps \<Longrightarrow> qs \<noteq> ps
     \<Longrightarrow> json_at qs (J_Object ns) = json_at qs (J_Object ms)"
proof (induction ps ms arbitrary: ns qs rule: normalize_byte_array_at_path.induct)
  case (2 field current)
  then obtain r where "qs = [r]" "r \<noteq> field" by (cases qs) auto
  with 2(1) show ?case by (auto simp: json_at_object update_conv split: option.splits json.splits)
next
  case (3 part q parts current)
  obtain r rs where qs: "qs = r # rs" "length rs = length (q # parts)" using 3(3) by (cases qs) auto
  from 3(2) show ?case
  proof (cases rule: normalize_stepE)
    case (2 ms1 ns1)
    show ?thesis
    proof (cases "r = part")
      case True
      then have "json_at rs (J_Object ns1) = json_at rs (J_Object ms1)"
        using 3(1) [OF 2(1) refl 2(2)] qs 3(4) by auto
      with True show ?thesis by (simp add: qs 2 json_at_update) (simp add: 2 json_at_object)
    qed (simp add: qs 2 json_at_update)
  qed simp
qed simp

lemma normalize_at_path_string:
  "normalize_byte_array_at_path ps ms = Inr ns \<Longrightarrow> ps \<noteq> []
     \<Longrightarrow> json_at ps (J_Object ns) = None \<or> (\<exists>s. json_at ps (J_Object ns) = Some (J_String s))"
proof (induction ps ms arbitrary: ns rule: normalize_byte_array_at_path.induct)
  case (2 field current)
  then show ?case by (auto simp: json_at_object update_conv split: option.splits json.splits)
next
  case (3 part q parts current)
  from 3(2) show ?case
  proof (cases rule: normalize_stepE)
    case 1
    then show ?thesis by (simp add: json_at_object)
  next
    case (2 ms1 ns1)
    from 3(1) [OF 2(1) refl 2(2)] show ?thesis by (simp add: 2 json_at_update)
  qed
qed simp

text \<open>PRF results reach the WebAuthn library in one form and nothing else is touched: after normalization each
  of the two PRF fields is missing or a string; a field that was missing or a string is as it was, a byte
  array has become the base64url string that decodes to those bytes, and the value at any other path of the
  same depth is unchanged.\<close>

lemma prf_results_normalized:
  assumes "normalize_prf_results v = Inr w" and "field = ''first'' \<or> field = ''second''"
  shows "(json_at (prf_path field) w = None \<or> (\<exists>s. json_at (prf_path field) w = Some (J_String s)))
    \<and> (\<forall>s. json_at (prf_path field) v = Some (J_String s) \<longrightarrow> json_at (prf_path field) w = Some (J_String s))
    \<and> (\<forall>vs. json_at (prf_path field) v = Some (J_Array vs) \<longrightarrow> (\<exists>s bs. array_bytes vs = Some bs
         \<and> json_at (prf_path field) w = Some (J_String s) \<and> raw_url_decode s = Some bs))
    \<and> (length qs = 4 \<and> qs \<noteq> prf_path ''first'' \<and> qs \<noteq> prf_path ''second'' \<longrightarrow> json_at qs w = json_at qs v)"
proof (cases v)
  case J_Null
  then have "w = J_Null" using assms(1) by (simp add: normalize_prf_results_def)
  with J_Null show ?thesis by (simp add: prf_path_def json_at.simps)
next
  case (J_Object ms)
  then obtain ms1 ms2 where n1: "normalize_byte_array_at_path (prf_path ''first'') ms = Inr ms1"
    and n2: "normalize_byte_array_at_path (prf_path ''second'') ms1 = Inr ms2" and w: "w = J_Object ms2"
    using assms(1) by (auto simp: normalize_prf_results_def split: sum.splits)
  have ne: "prf_path f \<noteq> []" "length (prf_path f) = 4" "prf_path ''first'' \<noteq> prf_path ''second''" for f
    by (simp_all add: prf_path_def)
  have "json_at (prf_path field) w = normal_field (json_at (prf_path field) v)
      \<and> (json_at (prf_path field) w = None \<or> (\<exists>s. json_at (prf_path field) w = Some (J_String s)))"
    using assms(2)
  proof
    assume f: "field = ''first''"
    have "json_at (prf_path ''first'') w = json_at (prf_path ''first'') (J_Object ms1)"
      unfolding w by (rule normalize_at_path_other [OF n2]) (simp_all add: ne)
    then show ?thesis
      using f J_Object normalize_at_path_field [OF n1 ne(1)] normalize_at_path_string [OF n1 ne(1)] by simp
  next
    assume f: "field = ''second''"
    have "json_at (prf_path ''second'') (J_Object ms1) = json_at (prf_path ''second'') v"
      unfolding J_Object by (rule normalize_at_path_other [OF n1]) (simp_all add: ne(2) ne(3) [symmetric])
    then show ?thesis
      using f w normalize_at_path_field [OF n2 ne(1)] normalize_at_path_string [OF n2 ne(1)] by simp
  qed
  moreover have "json_at qs w = json_at qs v"
    if "length qs = 4" "qs \<noteq> prf_path ''first''" "qs \<noteq> prf_path ''second''"
    using normalize_at_path_other [OF n1, of qs] normalize_at_path_other [OF n2, of qs] that
    by (simp add: w J_Object ne(2))
  ultimately show ?thesis
    by (auto simp: normal_field_def raw_decode_encode split: option.splits)
qed (use assms(1) in \<open>simp_all add: normalize_prf_results_def\<close>)

definition sample_prf :: json where
  "sample_prf = J_Object [(''id'', J_String ''c1''), (''clientExtensionResults'', J_Object [(''prf'', J_Object
     [(''results'', J_Object [(''first'', J_Array [J_Number 1, J_Number 255])])])])]"

theorem prf_results_normalized_witness:
  "\<exists>w s. normalize_prf_results sample_prf = Inr w \<and> json_at (prf_path ''first'') w = Some (J_String s)
    \<and> raw_url_decode s = Some [CHR 0x01, CHR 0xFF]"
proof -
  have "array_bytes [J_Number 1, J_Number 255] = Some [CHR 0x01, CHR 0xFF]"
    by (simp add: number_byte_def) code_simp
  moreover have "is_ok (normalize_prf_results sample_prf)" by code_simp
  then obtain w where w: "normalize_prf_results sample_prf = Inr w" by (auto simp: is_ok_iff)
  moreover have "json_at (prf_path ''first'') sample_prf = Some (J_Array [J_Number 1, J_Number 255])"
    by (simp add: sample_prf_def prf_path_def json_at.simps)
  ultimately show ?thesis using prf_results_normalized [OF w, of "''first''"] by auto
qed

section \<open>Relying-party origins\<close>

fun trim_right_slashes :: "string \<Rightarrow> string" where
  "trim_right_slashes s = rev (dropWhile (\<lambda>c. c = CHR ''/'') (rev s))"

fun dedupe_from :: "string list \<Rightarrow> string list \<Rightarrow> string list" where
  "dedupe_from seen [] = []"
| "dedupe_from seen (origin # origins) =
    (if origin \<in> set seen then dedupe_from seen origins else origin # dedupe_from (origin # seen) origins)"

definition dedupe_origins :: "string list \<Rightarrow> string list" where
  "dedupe_origins origins = dedupe_from [] origins"

fun extra_origins :: "string list \<Rightarrow> string list" where
  "extra_origins [] = []"
| "extra_origins (o0 # os) =
    (let origin = trim_space o0 in
     if origin = [] \<or> origin = ''*'' then extra_origins os else trim_right_slashes origin # extra_origins os)"

text \<open>
  The relying-party id, the origins and the top-level origins of \<open>initWebAuthn\<close>; \<open>hostname\<close> is
  \<open>url.Parse\<close> followed by \<open>Hostname\<close>.
\<close>

definition init_webauthn ::
  "(string \<Rightarrow> string option) \<Rightarrow> string \<Rightarrow> string \<Rightarrow> string list \<Rightarrow> (string \<times> string list \<times> string list) go_result" where
  "init_webauthn hostname rp_id_config base_url webauthn_origins =
    (let rp_id0 = go_to_lower (trim_space rp_id_config) in
     case (if rp_id0 = [] then map_option go_to_lower (hostname base_url) else Some rp_id0) of
       None \<Rightarrow> Inl (Err_Msg ''invalid baseUrl for WebAuthn RP'')
     | Some rp_id \<Rightarrow>
        if rp_id = [] then Inl (Err_Msg ''cannot determine WebAuthn RP ID'')
        else
          let extra = extra_origins webauthn_origins;
              origins = (if trim_space base_url \<noteq> [] then [trim_right_slashes base_url] else []) @ extra;
              filtered = dedupe_origins origins
          in if filtered = [] then Inl (Err_Msg ''no valid WebAuthn origins configured'')
             else Inr (rp_id, filtered, dedupe_origins extra))"

lemma dedupe_from_spec:
  "set (dedupe_from seen xs) = set xs - set seen \<and> distinct (dedupe_from seen xs)"
  by (induction seen xs rule: dedupe_from.induct) auto

lemma dedupe_origins_spec: "set (dedupe_origins xs) = set xs \<and> distinct (dedupe_origins xs)"
  using dedupe_from_spec [of "[]" xs] by (simp add: dedupe_origins_def)

text \<open>The extra origins are entries of the configuration other than the wildcard, without trailing slashes.\<close>

lemma extra_origins_proper: "x \<in> set (extra_origins os) \<Longrightarrow> \<exists>y\<in>set os. x = trim_right_slashes (trim_space y) \<and> trim_space y \<noteq> ''*''"
  by (induction os) (auto simp: Let_def split: if_splits)

end
