(* ===== verification/Auth_Routes.thy ===== *)
theory Auth_Routes
  imports Server_State Webauthn_Data
begin

text \<open>
  Registration and login (src/internal/server/routes-auth.go): the four ceremony handlers, the
  transactions behind them, and the WebAuthn user record.

  The WebAuthn library is an argument: what it returns for a registration, and for a login
  the sequence its documentation gives, a call back with the raw credential id and the user
  handle, then the verification against the returned user (\<open>login_ceremony\<close>).  A credential
  and a session of the library are records of the members the code reads; the rest of them is
  one opaque string.  JSON coding of payloads and credentials, the sealing of session tokens,
  the rate limiter and the random source are arguments too.  Of a response only the members that
  vary are modelled.
\<close>

section \<open>Data\<close>

record wa_session =
  ws_challenge :: string
  ws_user_id :: string
  ws_expires :: "go_time option"
  ws_rest :: string

record wa_credential =
  wc_id :: string
  wc_public_key :: string
  wc_sign_count :: "32 word"
  wc_rest :: string

record wa_user =
  wu_id :: string
  wu_user_id :: string
  wu_display_name :: string
  wu_credentials :: "wa_credential list"

record register_payload =
  rp_user_id :: string
  rp_display_name :: string
  rp_webauthn_user_id :: string
  rp_session :: "wa_session option"

record login_payload =
  lp_challenge :: string
  lp_session :: "wa_session option"

record add_credential_payload =
  acp_user_id :: string
  acp_webauthn_user_id :: string
  acp_display_name :: string
  acp_session :: "wa_session option"

text \<open>The creation options of the library, of which the code changes the exclusion list; the algorithms offered.\<close>

record wa_creation =
  cc_exclude_list :: "string list"
  cc_rest :: string

datatype cose_algorithm = Alg_MLDSA44 | Alg_MLDSA65 | Alg_MLDSA87 | Alg_Classical int

text \<open>\<open>FinishDiscoverableLogin\<close>: it fails, succeeds without the call back, or makes it and verifies.\<close>

datatype login_ceremony =
    Ceremony_Fails
  | Ceremony_Skips wa_credential
  | Ceremony_Asks string string "wa_user \<Rightarrow> wa_credential option"

record ('ek, 'mk) auth_env =
  ae_disable_signup :: bool
  ae_session_timeout :: go_time
  ae_backend :: backend_kind
  ae_crypto :: "('ek, 'mk) crypto"
  ae_json_valid :: "string \<Rightarrow> bool"
  ae_json_object :: "(string \<times> json_scalar) list \<Rightarrow> string"
  ae_parse_json :: "string \<Rightarrow> json option"
  ae_render_json :: "json \<Rightarrow> string"
  ae_parse_jwk :: "string \<Rightarrow> ec_jwk option"
  ae_cidr_canonical :: "string \<Rightarrow> string option"
  ae_ip_canonical :: "string \<Rightarrow> string option"
  ae_marshal_register :: "register_payload \<Rightarrow> string go_result"
  ae_unmarshal_register :: "string \<Rightarrow> register_payload option"
  ae_marshal_login :: "login_payload \<Rightarrow> string go_result"
  ae_unmarshal_login :: "string \<Rightarrow> login_payload option"
  ae_marshal_add :: "add_credential_payload \<Rightarrow> string go_result"
  ae_unmarshal_add :: "string \<Rightarrow> add_credential_payload option"
  ae_marshal_credential :: "wa_credential \<Rightarrow> string go_result"
  ae_unmarshal_credential :: "string \<Rightarrow> wa_credential option"
  ae_stored_public_key :: "string \<Rightarrow> string option"
  ae_default_parameters :: "cose_algorithm list"
  ae_begin_registration :: "cose_algorithm list \<Rightarrow> wa_user \<Rightarrow> (wa_creation \<times> wa_session) go_result"
  ae_begin_login :: "(string \<times> wa_session) go_result"
  ae_finish_registration :: "wa_user \<Rightarrow> wa_session \<Rightarrow> string \<Rightarrow> wa_credential option"
  ae_login_ceremony :: "wa_session \<Rightarrow> string \<Rightarrow> login_ceremony"

text \<open>One call: the session, the clock readings in the order taken, what is drawn at random, and what the
  cookie signing and the rate limiter answer.\<close>

record auth_call_context =
  au_user_id :: string
  au_session_ttl :: int
  au_clock :: "nat \<Rightarrow> go_time"
  au_uuid :: string
  au_new_id :: string
  au_webauthn_id :: "string go_result"
  au_random :: "string go_result"
  au_audit_id :: string
  au_context :: audit_context
  au_cookie :: "unit go_result"
  au_over_limit :: bool

definition require_user_session :: "auth_call_context \<Rightarrow> ('s, unit) go" where
  "require_user_session c = go_require (au_user_id c \<noteq> []) no_session_response_error"

definition invalid_body :: go_error where "invalid_body = bad_request ''Invalid request body''"

definition replace_error :: "go_error \<Rightarrow> go_error \<Rightarrow> go_error \<Rightarrow> go_error" where
  "replace_error sentinel response e = (if e = sentinel then response else e)"

text \<open>The audit row of a success, about the acting user.\<close>

definition auth_audit ::
  "('ek, 'mk) auth_env \<Rightarrow> auth_call_context \<Rightarrow> go_time \<Rightarrow> string \<Rightarrow> string \<Rightarrow> string \<Rightarrow> string \<Rightarrow> unit db_op" where
  "auth_audit env c now event uid cid metadata =
    audit_event_tx (ae_json_valid env) (au_audit_id c) now (au_context c)
      (no_fields\<lparr>fl_event_type := event, fl_outcome := ''success'', fl_auth_method := ''session'',
         fl_actor_user_id := uid, fl_target_user_id := uid, fl_credential_id := cid, fl_metadata := metadata\<rparr>)"

definition failure_audit :: "('ek, 'mk) auth_env \<Rightarrow> auth_call_context \<Rightarrow> go_time \<Rightarrow> string \<Rightarrow> unit db_op" where
  "failure_audit env c now event =
    audit_event (ae_json_valid env) (au_audit_id c) now (au_context c)
      (no_fields\<lparr>fl_event_type := event, fl_outcome := ''failure'', fl_auth_method := ''none''\<rparr>)"

text \<open>A failed transaction is audited outside it, then its error is returned.\<close>

definition audited_transaction ::
  "('ek, 'mk) auth_env \<Rightarrow> auth_call_context \<Rightarrow> go_time \<Rightarrow> string \<Rightarrow> 'a db_op \<Rightarrow> 'a sv_op" where
  "audited_transaction env c now event m =
    go_bind (go_try (on_db (db_transaction m))) (\<lambda>r. case r of
      Inl e \<Rightarrow> go_bind (on_db (failure_audit env c now event)) (\<lambda>_. go_fail e)
    | Inr x \<Rightarrow> go_return x)"

definition enqueue_challenge_delete :: "auth_challenge \<Rightarrow> unit sv_op" where
  "enqueue_challenge_delete ch =
    enqueue_delete \<lparr>de_key_name = ''challenge-delete:'' @ chal_id ch, de_kind = ''challenge'', de_id = chal_id ch,
      de_ttl = chal_expires_at ch + minutes 10\<rparr>"

definition seconds_until :: "go_time \<Rightarrow> go_time \<Rightarrow> int" where
  "seconds_until now t = max (t - now) 0 div nanos_per_second"

section \<open>The WebAuthn user\<close>

definition new_webauthn_user_for_registration :: "string go_result \<Rightarrow> string \<Rightarrow> string \<Rightarrow> wa_user go_result" where
  "new_webauthn_user_for_registration random uid display_name =
    (case random of Inl e \<Rightarrow> Inl e
     | Inr i \<Rightarrow> Inr \<lparr>wu_id = i, wu_user_id = uid, wu_display_name = (if display_name = [] then uid else display_name),
                   wu_credentials = []\<rparr>)"

text \<open>Credentials that do not decode, or whose stored count does not fit 32 bits, are skipped.\<close>

fun usable_credentials :: "('ek, 'mk) auth_env \<Rightarrow> credential_row list \<Rightarrow> wa_credential list" where
  "usable_credentials env [] = []"
| "usable_credentials env (r # rs) =
    (case ae_unmarshal_credential env (c_public_key r) of
       None \<Rightarrow> usable_credentials env rs
     | Some cred \<Rightarrow>
         if c_sign_count r < 0 \<or> c_sign_count r > 4294967295 then usable_credentials env rs
         else cred\<lparr>wc_sign_count := word_of_int (c_sign_count r)\<rparr> # usable_credentials env rs)"

definition load_webauthn_user :: "('ek, 'mk) auth_env \<Rightarrow> user \<Rightarrow> wa_user option db_op" where
  "load_webauthn_user env user =
    (if usr_status user \<noteq> ''active'' then go_return None
     else go_bind (list_credentials (usr_id user)) (\<lambda>records.
       let creds = usable_credentials env records in
       if creds = [] then go_return None
       else go_return (Some
         \<lparr>wu_id = (if usr_webauthn_user_id user \<noteq> []
                   then (case raw_url_decode (usr_webauthn_user_id user) of Some d \<Rightarrow> d | None \<Rightarrow> usr_id user)
                   else usr_id user),
          wu_user_id = usr_id user,
          wu_display_name = (if usr_display_name user = [] then usr_id user else usr_display_name user),
          wu_credentials = creds\<rparr>)))"

text \<open>The first stored credential with the id of the assertion decides.\<close>

definition validate_authenticator_sign_count :: "wa_user \<Rightarrow> wa_credential \<Rightarrow> unit go_result" where
  "validate_authenticator_sign_count user cred =
    (case List.find (\<lambda>stored. raw_url_encode (wc_id stored) = raw_url_encode (wc_id cred)) (wu_credentials user) of
       None \<Rightarrow> Inl (Err_Response 403 ''Authenticator credential not recognized'')
     | Some stored \<Rightarrow>
         if wc_sign_count cred = 0 then Inr ()
         else if wc_sign_count stored > 0 \<and> wc_sign_count cred \<le> wc_sign_count stored
           then Inl (Err_Response 403 ''Authenticator sign count anomaly detected'')
         else Inr ())"

definition new_json_http_request :: "('ek, 'mk) auth_env \<Rightarrow> string \<Rightarrow> string go_result" where
  "new_json_http_request env raw =
    (if raw = [] \<or> \<not> ae_json_valid env raw then Inl (bad_request ''credential payload must be valid JSON'') else Inr raw)"

definition finish_webauthn_registration ::
  "('ek, 'mk) auth_env \<Rightarrow> wa_user \<Rightarrow> string \<Rightarrow> wa_session \<Rightarrow> (wa_credential \<times> string) go_result" where
  "finish_webauthn_registration env user msg sess =
    (case new_json_http_request env msg of Inl e \<Rightarrow> Inl e
     | Inr body \<Rightarrow> (case ae_finish_registration env user sess body of
         None \<Rightarrow> Inl (Err_Response 401 ''WebAuthn registration verification failed'')
       | Some cred \<Rightarrow> (case ae_marshal_credential env cred of Inl e \<Rightarrow> Inl e | Inr js \<Rightarrow> Inr (cred, js))))"

section \<open>Registration\<close>

record 'o begin_response =
  br_challenge_id :: string
  br_challenge :: string
  br_expires_at :: int
  br_options :: 'o

definition begin_response_of :: "auth_challenge \<Rightarrow> wa_session \<Rightarrow> 'o \<Rightarrow> 'o begin_response" where
  "begin_response_of ch session options =
    \<lparr>br_challenge_id = chal_id ch, br_challenge = ws_challenge session, br_expires_at = unix_seconds (chal_expires_at ch),
     br_options = options\<rparr>"

definition credential_parameters :: "cose_algorithm list \<Rightarrow> cose_algorithm list" where
  "credential_parameters defaults = [Alg_MLDSA44, Alg_MLDSA65, Alg_MLDSA87] @ defaults"

definition begin_webauthn_session :: "('ek, 'mk) auth_env \<Rightarrow> wa_user \<Rightarrow> (wa_creation \<times> wa_session) go_result" where
  "begin_webauthn_session env user = ae_begin_registration env (credential_parameters (ae_default_parameters env)) user"

definition route_register_begin ::
  "('ek, 'mk) auth_env \<Rightarrow> auth_call_context \<Rightarrow> string option \<Rightarrow> wa_creation begin_response sv_op" where
  "route_register_begin env c display_name =
    go_bind (go_require (\<not> ae_disable_signup env) (Err_Response 403 ''Account creation is disabled'')) (\<lambda>_.
    case display_name of None \<Rightarrow> go_fail invalid_body | Some raw_name \<Rightarrow>
    let name = trim_space raw_name; uid = au_uuid c in
    go_bind (go_lift (new_webauthn_user_for_registration (au_webauthn_id c) uid name)) (\<lambda>user.
    go_bind (go_lift (begin_webauthn_session env user)) (\<lambda>(creation, session).
    go_bind (on_db (db_transaction (begin_challenge (au_clock c 0) (au_new_id c) ''register'' uid (ws_challenge session)
        (ws_expires session) (Some (ae_marshal_register env
          \<lparr>rp_user_id = uid, rp_display_name = name, rp_webauthn_user_id = raw_url_encode (wu_id user),
           rp_session = Some session\<rparr>))))) (\<lambda>ch.
    go_bind (enqueue_challenge_delete ch) (\<lambda>_.
    go_return (begin_response_of ch session creation))))))"

definition conflict :: "string \<Rightarrow> go_error" where "conflict m = Err_Response 409 m"

definition register_finish ::
  "('ek, 'mk) auth_env \<Rightarrow> auth_call_context \<Rightarrow> string \<Rightarrow> string \<Rightarrow> (user \<times> auth_session_token) db_op" where
  "register_finish env c challenge_id credential =
    go_bind (map_error (replace_error Err_Invalid_Challenge (conflict ''Registration challenge is invalid or expired''))
      (consume_challenge (au_clock c 0) (Some (ae_unmarshal_register env)) challenge_id ''register'' [])) (\<lambda>payload.
    case Option.bind payload (\<lambda>p. map_option (Pair p) (rp_session p)) of
      None \<Rightarrow> go_fail (conflict ''Registration challenge is missing WebAuthn session data'')
    | Some (p, session) \<Rightarrow>
      let wu = \<lparr>wu_id = ws_user_id session, wu_user_id = rp_user_id p,
                wu_display_name = (if rp_display_name p = [] then rp_user_id p else rp_display_name p), wu_credentials = []\<rparr> in
      go_bind (go_lift (finish_webauthn_registration env wu credential session)) (\<lambda>(cred, cred_json).
      go_bind (map_error (replace_error Err_User_Already_Exists (conflict ''User already exists''))
        (register_user (au_clock c 1) (au_random c) (au_new_id c)
          \<lparr>ri_user_id = rp_user_id p, ri_display_name = rp_display_name p, ri_webauthn_user_id = rp_webauthn_user_id p,
           ri_credential_id = raw_url_encode (wc_id cred), ri_credential_display_name = [], ri_public_key = cred_json,
           ri_sign_count = uint (wc_sign_count cred)\<rparr>)) (\<lambda>user.
      let sess = new_auth_session_token (au_clock c 2) user (ae_session_timeout env) in
      go_bind (auth_audit env c (au_clock c 3) ''auth.register_finish'' (usr_id user) [] []) (\<lambda>_.
      go_return (user, sess)))))"

definition route_register_finish ::
  "('ek, 'mk) auth_env \<Rightarrow> auth_call_context \<Rightarrow> (string \<times> string) option \<Rightarrow> session_info sv_op" where
  "route_register_finish env c body =
    go_bind (go_require (\<not> ae_disable_signup env) (Err_Response 403 ''Account creation is disabled'')) (\<lambda>_.
    case body of None \<Rightarrow> go_fail invalid_body | Some (challenge_id, credential) \<Rightarrow>
    go_bind (go_require (challenge_id \<noteq> [] \<and> credential \<noteq> []) (bad_request ''Missing required registration fields'')) (\<lambda>_.
    go_bind (audited_transaction env c (au_clock c 4) ''auth.register_finish''
        (register_finish env c challenge_id credential)) (\<lambda>(user, sess).
    go_bind (enqueue_delete \<lparr>de_key_name = ''user-delete:'' @ usr_id user, de_kind = ''nonready-user'', de_id = usr_id user,
        de_ttl = au_clock c 4 + hours 24 + minutes 1\<rparr>) (\<lambda>_.
    go_bind (go_lift (au_cookie c)) (\<lambda>_.
    go_return (session_info_from_user (ae_crypto env) user (seconds_until (au_clock c 5) (tok_expires_at sess))))))))"

section \<open>Login\<close>

definition route_login_begin :: "('ek, 'mk) auth_env \<Rightarrow> auth_call_context \<Rightarrow> string begin_response sv_op" where
  "route_login_begin env c =
    go_bind (go_lift (ae_begin_login env)) (\<lambda>(assertion, session).
    go_bind (on_db (db_transaction (begin_challenge (au_clock c 0) (au_new_id c) ''login'' [] (ws_challenge session)
        (ws_expires session) (Some (ae_marshal_login env
          \<lparr>lp_challenge = ws_challenge session, lp_session = Some session\<rparr>))))) (\<lambda>ch.
    go_bind (enqueue_challenge_delete ch) (\<lambda>_.
    go_return (begin_response_of ch session assertion))))"

definition invalid_login :: go_error where "invalid_login = Err_Response 401 ''Invalid login''"

text \<open>The call back of the library: the active user of a handle and the WebAuthn record.\<close>

definition discover_user :: "('ek, 'mk) auth_env \<Rightarrow> string \<Rightarrow> (user \<times> wa_user) db_op" where
  "discover_user env user_handle =
    go_bind (get_user_by_webauthn_user_id (raw_url_encode user_handle)) (\<lambda>found. case found of
      None \<Rightarrow> go_fail invalid_login
    | Some user \<Rightarrow>
       if usr_status user \<noteq> ''active'' then go_fail invalid_login
       else go_bind (load_webauthn_user env user) (\<lambda>rec. case rec of
         None \<Rightarrow> go_fail invalid_login
       | Some wu \<Rightarrow> go_return (user, wu)))"

definition login_verification_failed :: go_error where
  "login_verification_failed = Err_Response 401 ''WebAuthn login verification failed''"

definition finish_discoverable_login ::
  "('ek, 'mk) auth_env \<Rightarrow> wa_session \<Rightarrow> string \<Rightarrow> (user \<times> wa_user \<times> wa_credential) db_op" where
  "finish_discoverable_login env session body =
    (case ae_login_ceremony env session body of
       Ceremony_Fails \<Rightarrow> go_fail login_verification_failed
     | Ceremony_Skips _ \<Rightarrow> go_fail invalid_login
     | Ceremony_Asks raw_id user_handle verify \<Rightarrow>
        go_bind (map_error (\<lambda>_. login_verification_failed) (discover_user env user_handle)) (\<lambda>(user, wu).
        case verify wu of None \<Rightarrow> go_fail login_verification_failed | Some cred \<Rightarrow> go_return (user, wu, cred)))"

definition normalized_credential :: "('ek, 'mk) auth_env \<Rightarrow> string \<Rightarrow> string go_result" where
  "normalized_credential env credential =
    (case ae_parse_json env credential of
       None \<Rightarrow> Inl (bad_request ''Invalid WebAuthn PRF result'')
     | Some v \<Rightarrow> (case normalize_prf_results v of
         Inl _ \<Rightarrow> Inl (bad_request ''Invalid WebAuthn PRF result'')
       | Inr w \<Rightarrow> Inr (ae_render_json env w)))"

definition login_finish ::
  "('ek, 'mk) auth_env \<Rightarrow> auth_call_context \<Rightarrow> string \<Rightarrow> string
     \<Rightarrow> (user \<times> auth_session_token \<times> credential_row option) db_op" where
  "login_finish env c challenge_id credential =
    go_bind (map_error (replace_error Err_Invalid_Challenge (conflict ''Login challenge is invalid or expired''))
      (consume_challenge (au_clock c 0) (Some (ae_unmarshal_login env)) challenge_id ''login'' [])) (\<lambda>payload.
    case Option.bind payload lp_session of
      None \<Rightarrow> go_fail (conflict ''Login challenge is missing WebAuthn session data'')
    | Some session \<Rightarrow>
      go_bind (go_lift (normalized_credential env credential)) (\<lambda>normalized.
      go_bind (go_lift (new_json_http_request env normalized)) (\<lambda>body.
      go_bind (finish_discoverable_login env session body) (\<lambda>(user, wu, cred).
      go_bind (go_lift (validate_authenticator_sign_count wu cred)) (\<lambda>_.
      let credential_id = raw_url_encode (wc_id cred) in
      go_bind (map_error (replace_error Err_Invalid_Login invalid_login)
        (auth_login (au_clock c 1) \<lparr>lo_user_id = usr_id user, lo_credential_id = credential_id,
           lo_sign_count = uint (wc_sign_count cred)\<rparr>)) (\<lambda>_.
      go_bind (get_credential_for_user (usr_id user) credential_id) (\<lambda>cred_rec.
      let sess = new_auth_session_token (au_clock c 2) user (ae_session_timeout env) in
      go_bind (auth_audit env c (au_clock c 3) ''auth.login_finish'' (usr_id user) credential_id []) (\<lambda>_.
      go_return (user, sess, cred_rec)))))))))"

record login_response =
  lr_session :: session_info
  lr_wrapped_primary_key :: string
  lr_wrapped_anchor_key :: string
  lr_credential_wrapped_key_epoch :: int
  lr_wrapped_key_stale :: bool

definition wrapped_key_stale :: "user \<Rightarrow> credential_row \<Rightarrow> bool" where
  "wrapped_key_stale user rec \<longleftrightarrow> c_wrapped_key_epoch rec > 0 \<and> c_wrapped_key_epoch rec < usr_wrapped_key_epoch user"

text \<open>The wrapped keys go out only below the rate limit; a refused client gets no session cookie either.\<close>

definition wrapped_key_part ::
  "auth_call_context \<Rightarrow> user \<Rightarrow> credential_row option \<Rightarrow> session_info \<Rightarrow> login_response go_result" where
  "wrapped_key_part c user rec info =
    (let plain = \<lparr>lr_session = info, lr_wrapped_primary_key = [], lr_wrapped_anchor_key = [],
                  lr_credential_wrapped_key_epoch = 0, lr_wrapped_key_stale = False\<rparr> in
     case rec of None \<Rightarrow> Inr plain
     | Some r \<Rightarrow>
        if c_wrapped_primary_key r = [] then Inr plain
        else if au_over_limit c then Inl (Err_Response 429 ''Too many login attempts'')
        else Inr (plain\<lparr>lr_wrapped_primary_key := c_wrapped_primary_key r, lr_wrapped_anchor_key := c_wrapped_anchor_key r,
               lr_credential_wrapped_key_epoch := c_wrapped_key_epoch r, lr_wrapped_key_stale := wrapped_key_stale user r\<rparr>))"

definition route_login_finish ::
  "('ek, 'mk) auth_env \<Rightarrow> auth_call_context \<Rightarrow> (string \<times> string) option \<Rightarrow> login_response sv_op" where
  "route_login_finish env c body =
    (case body of None \<Rightarrow> go_fail invalid_body | Some (challenge_id, credential) \<Rightarrow>
    go_bind (go_require (challenge_id \<noteq> [] \<and> credential \<noteq> []) (bad_request ''Missing required login fields'')) (\<lambda>_.
    go_bind (audited_transaction env c (au_clock c 4) ''auth.login_finish''
        (login_finish env c challenge_id credential)) (\<lambda>(user, sess, rec).
    go_bind (dequeue_delete (''challenge-delete:'' @ challenge_id)) (\<lambda>_.
    let info = session_info_from_user (ae_crypto env) user (seconds_until (au_clock c 4) (tok_expires_at sess)) in
    go_bind (go_lift (wrapped_key_part c user rec info)) (\<lambda>resp.
    go_bind (go_lift (au_cookie c)) (\<lambda>_.
    go_return resp))))))"

end
