(* ===== verification/Auth_Account_Routes.thy ===== *)
theory Auth_Account_Routes
  imports Auth_Routes
begin

text \<open>
  The account handlers (src/internal/server/routes-auth.go): the end of the sign-up with the
  verification of the anchor material, the settings of a ready account, and the life of its
  credentials; and the credential hashes of internal/protocolv2/credential_pubkey.go.
\<close>

section \<open>Credential hashes\<close>

definition credential_public_key_hash :: "(string \<Rightarrow> string) \<Rightarrow> string \<Rightarrow> string go_result" where
  "credential_public_key_hash sha256 cose =
    (if cose = [] then Inl (Err_Msg ''COSE public key is empty'') else Inr (raw_url_encode (sha256 cose)))"

definition extract_stored_credential_cose :: "('ek, 'mk) auth_env \<Rightarrow> string \<Rightarrow> string go_result" where
  "extract_stored_credential_cose env cred_json =
    (if cred_json = [] then Inl (Err_Msg ''stored credJSON is empty'')
     else case ae_stored_public_key env cred_json of
       None \<Rightarrow> Inl (Err_Msg ''parse stored credJSON'')
     | Some cose \<Rightarrow> if cose = [] then Inl (Err_Msg ''stored credJSON is missing publicKey'') else Inr cose)"

definition credential_public_key_hash_from_stored :: "('ek, 'mk) auth_env \<Rightarrow> string \<Rightarrow> string go_result" where
  "credential_public_key_hash_from_stored env cred_json =
    (case extract_stored_credential_cose env cred_json of Inl e \<Rightarrow> Inl e
     | Inr cose \<Rightarrow> credential_public_key_hash (cr_sha256 (ae_crypto env)) cose)"

section \<open>The end of the sign-up\<close>

record finalize_signup_request =
  fq_request_enc_ecdh_pubkey :: string
  fq_request_enc_mlkem_pubkey :: string
  fq_wrapped_primary_key :: string
  fq_anchor_es384_public_key :: string
  fq_anchor_mldsa87_public_key :: string
  fq_pubkey_bundle_signature_es384 :: string
  fq_pubkey_bundle_signature_mldsa87 :: string
  fq_pubkey_bundle_version :: int
  fq_wrapped_anchor_key :: string
  fq_attestation_payload :: string
  fq_attestation_signature_es384 :: string
  fq_attestation_signature_mldsa87 :: string

definition mlkem768_encapsulation_key_size :: nat where "mlkem768_encapsulation_key_size = 1184"

definition valid_mlkem_key :: "string \<Rightarrow> bool" where
  "valid_mlkem_key k \<longleftrightarrow> (case decode_base64_string k of
      None \<Rightarrow> False
    | Some b \<Rightarrow> length (case b of None \<Rightarrow> [] | Some bs \<Rightarrow> bs) = mlkem768_encapsulation_key_size)"

definition valid_wrapped_primary_key :: "string \<Rightarrow> bool" where
  "valid_wrapped_primary_key k \<longleftrightarrow> k \<noteq> [] \<and> length k \<le> 512"

definition validate_finalize_signup_request :: "('ek, 'mk) auth_env \<Rightarrow> finalize_signup_request \<Rightarrow> unit go_result" where
  "validate_finalize_signup_request env req =
    (if fq_request_enc_ecdh_pubkey req = [] then Inl (bad_request ''requestEncEcdhPubkey is required'')
     else if fq_request_enc_mlkem_pubkey req = [] then Inl (bad_request ''requestEncMlkemPubkey is required'')
     else case ae_parse_jwk env (fq_request_enc_ecdh_pubkey req) of
       None \<Rightarrow> Inl (bad_request ''invalid requestEncEcdhPubkey'')
     | Some jwk \<Rightarrow> (case validate_public_p256 jwk of
         Inl _ \<Rightarrow> Inl (bad_request ''invalid requestEncEcdhPubkey'')
       | Inr _ \<Rightarrow>
         if \<not> valid_mlkem_key (fq_request_enc_mlkem_pubkey req) then Inl (bad_request ''invalid requestEncMlkemPubkey'')
         else if \<not> valid_wrapped_primary_key (fq_wrapped_primary_key req) then Inl (bad_request ''invalid wrappedPrimaryKey'')
         else (case validate_wrapped_anchor_envelope (fq_wrapped_anchor_key req) of
                 Inl _ \<Rightarrow> Inl (bad_request ''invalid wrappedAnchorKey'')
               | Inr _ \<Rightarrow> Inr ())))"

record 'ek finalize_setup_vals =
  fv_user_id :: string
  fv_req :: finalize_signup_request
  fv_anchor_es384_pub :: 'ek
  fv_mldsa87_pub_bytes :: string
  fv_bundle_sig_es :: string
  fv_bundle_sig_ml :: string
  fv_attest_sig_es :: string
  fv_attest_sig_ml :: string
  fv_attest_payload :: attestation_payload

text \<open>The bundle the anchor must have signed; its last field is the epoch in version 1, the version in version 2.\<close>

definition signup_bundle :: "string \<Rightarrow> finalize_signup_request \<Rightarrow> ec_jwk \<Rightarrow> int \<Rightarrow> pubkey_bundle_payload" where
  "signup_bundle uid req jwk tail =
    \<lparr>bp_user_id = uid, bp_request_enc_ecdh_pubkey = fq_request_enc_ecdh_pubkey req,
     bp_request_enc_mlkem_pubkey = fq_request_enc_mlkem_pubkey req, bp_anchor_es384_crv = jwk_crv jwk,
     bp_anchor_es384_kty = jwk_kty jwk, bp_anchor_es384_x = jwk_x jwk, bp_anchor_es384_y = jwk_y jwk,
     bp_anchor_mldsa87_public_key = fq_anchor_mldsa87_public_key req, bp_last = tail\<rparr>"

definition verify_signup_pubkey_bundle :: "('ek, 'mk) crypto \<Rightarrow> 'ek finalize_setup_vals \<Rightarrow> int go_result" where
  "verify_signup_pubkey_bundle cr vals =
    (case parse_p384_canonical_body (fq_anchor_es384_public_key (fv_req vals)) of
       None \<Rightarrow> Inl (bad_request ''invalid anchorEs384PublicKey'')
     | Some jwk \<Rightarrow>
        let asked = fq_pubkey_bundle_version (fv_req vals);
            version = (if asked = 0 then 1 else asked);
            failed = bad_request ''pubkey bundle signature verification failed''
        in if version = 1 then
             (case verify_hybrid_bundle cr (Some (fv_anchor_es384_pub vals)) (fv_mldsa87_pub_bytes vals)
                (signup_bundle (fv_user_id vals) (fv_req vals) jwk 1) (fv_bundle_sig_es vals) (fv_bundle_sig_ml vals) of
                Inl _ \<Rightarrow> Inl failed | Inr _ \<Rightarrow> Inr version)
           else if version = 2 then
             (case verify_hybrid_bundle_v2 cr (Some (fv_anchor_es384_pub vals)) (fv_mldsa87_pub_bytes vals)
                (signup_bundle (fv_user_id vals) (fv_req vals) jwk 2) (fv_bundle_sig_es vals) (fv_bundle_sig_ml vals) of
                Inl _ \<Rightarrow> Inl failed | Inr _ \<Rightarrow> Inr version)
           else Inl (bad_request ''unsupported pubkeyBundleVersion''))"

definition attestation_created_at_skew :: go_time where
  "attestation_created_at_skew = minutes 2"

text \<open>The checks of an attestation against the anchor and against what the server derived itself.\<close>

definition check_attestation ::
  "('ek, 'mk) crypto \<Rightarrow> go_time \<Rightarrow> 'ek \<Rightarrow> string \<Rightarrow> attestation_payload \<Rightarrow> signature_text \<Rightarrow> signature_text
     \<Rightarrow> user_id \<Rightarrow> key_id \<Rightarrow> string \<Rightarrow> int \<Rightarrow> unit go_result" where
  "check_attestation cr now es_pub ml_pub p sig_es sig_ml uid credential_id hash epoch =
    (case verify_hybrid_attestation cr (Some es_pub) ml_pub p sig_es sig_ml of
       Inl _ \<Rightarrow> Inl (bad_request ''attestation signature verification failed'')
     | Inr _ \<Rightarrow> (case validate_created_at (ap_created_at p) now attestation_created_at_skew of
         Inl _ \<Rightarrow> Inl (bad_request ''attestationPayload createdAt'')
       | Inr _ \<Rightarrow>
         if ap_user_id p \<noteq> uid then Inl (bad_request ''attestationPayload userId does not match session'')
         else if ap_credential_id p \<noteq> credential_id then Inl (bad_request ''attestationPayload credentialId does not match'')
         else if ap_credential_public_key_hash p \<noteq> hash
           then Inl (bad_request ''attestationPayload credentialPublicKeyHash does not match'')
         else if ap_wrapped_key_epoch p \<noteq> epoch then Inl (bad_request ''attestationPayload wrappedKeyEpoch does not match'')
         else Inr ()))"

definition auth_event ::
  "('ek, 'mk) auth_env \<Rightarrow> auth_call_context \<Rightarrow> go_time \<Rightarrow> string \<Rightarrow> string \<Rightarrow> string \<Rightarrow> unit db_op" where
  "auth_event env c now event cid metadata = auth_audit env c now event (au_user_id c) cid metadata"

definition finalize_errors :: "go_error \<Rightarrow> go_error" where
  "finalize_errors e =
    (if e = Err_Already_Finalized then conflict ''Account is already finalized''
     else if e = Err_User_Not_Found then Err_Response 404 ''User not found'' else e)"

definition finalize_input :: "'ek finalize_setup_vals \<Rightarrow> int \<Rightarrow> finalize_signup_input" where
  "finalize_input vals version = (let req = fv_req vals in
    \<lparr>fi_user_id = fv_user_id vals, fi_wrapped_primary_key = fq_wrapped_primary_key req,
     fi_wrapped_anchor_key = fq_wrapped_anchor_key req, fi_request_enc_ecdh_pubkey = fq_request_enc_ecdh_pubkey req,
     fi_request_enc_mlkem_pubkey = fq_request_enc_mlkem_pubkey req,
     fi_anchor_es384_public_key = fq_anchor_es384_public_key req,
     fi_anchor_mldsa87_public_key = fq_anchor_mldsa87_public_key req,
     fi_pubkey_bundle_signature_es384 = fq_pubkey_bundle_signature_es384 req,
     fi_pubkey_bundle_signature_mldsa87 = fq_pubkey_bundle_signature_mldsa87 req,
     fi_pubkey_bundle_version = version, fi_attestation_payload = fq_attestation_payload req,
     fi_attestation_signature_es384 = fq_attestation_signature_es384 req,
     fi_attestation_signature_mldsa87 = fq_attestation_signature_mldsa87 req\<rparr>)"

definition finalize_setup :: "('ek, 'mk) auth_env \<Rightarrow> auth_call_context \<Rightarrow> 'ek finalize_setup_vals \<Rightarrow> user db_op" where
  "finalize_setup env c vals =
    go_bind (list_credentials (fv_user_id vals)) (\<lambda>creds. case creds of
      [cred] \<Rightarrow>
        go_bind (go_lift (case credential_public_key_hash_from_stored env (c_public_key cred) of
            Inl _ \<Rightarrow> Inl (Err_Response 500 ''failed to derive credential public key hash'') | Inr h \<Rightarrow> Inr h)) (\<lambda>hash.
        go_bind (go_lift (verify_signup_pubkey_bundle (ae_crypto env) vals)) (\<lambda>version.
        go_bind (go_lift (check_attestation (ae_crypto env) (au_clock c 0) (fv_anchor_es384_pub vals)
            (fv_mldsa87_pub_bytes vals) (fv_attest_payload vals) (fv_attest_sig_es vals) (fv_attest_sig_ml vals)
            (fv_user_id vals) (c_credential_id cred) hash 1)) (\<lambda>_.
        go_bind (map_error finalize_errors (finalize_signup (au_clock c 1) (finalize_input vals version))) (\<lambda>user.
        if usr_status user \<noteq> ''active'' \<or> \<not> usr_ready user then go_fail no_session_response_error
        else go_bind (auth_audit env c (au_clock c 2) ''auth.finalize_signup'' (usr_id user) [] []) (\<lambda>_.
             go_return user)))))
    | _ \<Rightarrow> go_fail (conflict ''expected exactly one credential for user at finalize-signup''))"

definition or_bad_request :: "string \<Rightarrow> 'a go_result \<Rightarrow> 'a go_result" where
  "or_bad_request m r = (case r of Inl _ \<Rightarrow> Inl (bad_request m) | Inr x \<Rightarrow> Inr x)"

definition parse_attestation :: "string \<Rightarrow> attestation_payload go_result" where
  "parse_attestation body =
    (case parse_attestation_payload body of None \<Rightarrow> Inl (bad_request ''invalid attestationPayload'') | Some p \<Rightarrow> Inr p)"

definition route_finalize_signup ::
  "('ek, 'mk) auth_env \<Rightarrow> auth_call_context \<Rightarrow> finalize_signup_request option \<Rightarrow> session_info sv_op" where
  "route_finalize_signup env c body =
    go_bind (go_require (\<not> ae_disable_signup env) (Err_Response 403 ''Account creation is disabled'')) (\<lambda>_.
    go_bind (require_user_session c) (\<lambda>_.
    case body of None \<Rightarrow> go_fail invalid_body | Some req \<Rightarrow>
    go_bind (go_lift (validate_finalize_signup_request env req)) (\<lambda>_.
    go_bind (go_lift (or_bad_request ''invalid anchor public key'' (parse_anchor_pubkeys (ae_crypto env)
       (fq_anchor_es384_public_key req) (fq_anchor_mldsa87_public_key req)))) (\<lambda>(es_pub, ml_bytes).
    go_bind (go_lift (or_bad_request ''invalid pubkeyBundleSignature'' (parse_hybrid_signatures
       (fq_pubkey_bundle_signature_es384 req) (fq_pubkey_bundle_signature_mldsa87 req)))) (\<lambda>(b_es, b_ml).
    go_bind (go_lift (or_bad_request ''invalid attestationSignature'' (parse_hybrid_signatures
       (fq_attestation_signature_es384 req) (fq_attestation_signature_mldsa87 req)))) (\<lambda>(a_es, a_ml).
    go_bind (go_lift (parse_attestation (fq_attestation_payload req))) (\<lambda>payload.
    go_bind (on_db (db_transaction (finalize_setup env c
       \<lparr>fv_user_id = au_user_id c, fv_req = req, fv_anchor_es384_pub = es_pub, fv_mldsa87_pub_bytes = ml_bytes,
        fv_bundle_sig_es = b_es, fv_bundle_sig_ml = b_ml, fv_attest_sig_es = a_es, fv_attest_sig_ml = a_ml,
        fv_attest_payload = payload\<rparr>))) (\<lambda>user.
    go_bind (dequeue_delete (''user-delete:'' @ au_user_id c)) (\<lambda>_.
    let sess = new_auth_session_token (au_clock c 3) user (ae_session_timeout env) in
    go_bind (go_lift (au_cookie c)) (\<lambda>_.
    go_return (session_info_from_user (ae_crypto env) user (seconds_until (au_clock c 4) (tok_expires_at sess)))))))))))))"

section \<open>Account settings\<close>

definition route_allowed_ips ::
  "('ek, 'mk) auth_env \<Rightarrow> auth_call_context \<Rightarrow> string list option \<Rightarrow> string list sv_op" where
  "route_allowed_ips env c body =
    go_bind (require_user_session c) (\<lambda>_.
    case body of None \<Rightarrow> go_fail invalid_body | Some asked \<Rightarrow>
    map_error (\<lambda>e. case e of Err_Invalid_IP i \<Rightarrow> bad_request ''invalid IP'' | Err_Invalid_CIDR i \<Rightarrow> bad_request ''invalid CIDR'' | _ \<Rightarrow> e)
      (on_db (db_transaction (
        go_bind (update_allowed_ips (ae_cidr_canonical env) (ae_ip_canonical env) (au_clock c 0) (au_user_id c) asked) (\<lambda>ips.
        go_bind (auth_event env c (au_clock c 1) ''auth.allowed_ips_change'' []
          (ae_json_object env [(''newCount'', Js_Int (int (length ips))), (''oldCount'', Js_Int (int (length asked)))])) (\<lambda>_.
        go_return ips))))))"

definition route_request_key_regenerate :: "('ek, 'mk) auth_env \<Rightarrow> auth_call_context \<Rightarrow> string sv_op" where
  "route_request_key_regenerate env c =
    go_bind (require_user_session c) (\<lambda>_.
    on_db (db_transaction (
      go_bind (regenerate_request_key (au_clock c 0) (au_random c) (au_user_id c)) (\<lambda>key.
      go_bind (auth_event env c (au_clock c 1) ''auth.request_key_regenerate'' [] []) (\<lambda>_.
      go_return key)))))"

definition route_session :: "('ek, 'mk) auth_env \<Rightarrow> auth_call_context \<Rightarrow> session_info sv_op" where
  "route_session env c =
    go_bind (require_user_session c) (\<lambda>_.
    go_bind (on_db (get_user_by_id (au_user_id c))) (\<lambda>found. case found of
      None \<Rightarrow> go_fail no_session_response_error
    | Some user \<Rightarrow>
        if usr_status user \<noteq> ''active'' then go_fail no_session_response_error
        else go_return (session_info_from_user (ae_crypto env) user (max (au_session_ttl c) 0))))"

text \<open>The cookies are cleared, nothing is revoked; there is no session check.\<close>

definition route_logout :: "('ek, 'mk) auth_env \<Rightarrow> auth_call_context \<Rightarrow> unit sv_op" where
  "route_logout env c =
    on_db (audit_event (ae_json_valid env) (au_audit_id c) (au_clock c 0) (au_context c)
      (no_fields\<lparr>fl_event_type := ''auth.logout'', fl_outcome := ''success'', fl_auth_method := ''session'',
         fl_actor_user_id := au_user_id c, fl_target_user_id := au_user_id c\<rparr>))"

definition name_errors :: "go_error \<Rightarrow> go_error \<Rightarrow> go_error \<Rightarrow> go_error" where
  "name_errors sentinel missing e =
    (if e = Err_Display_Name_Too_Long then bad_request ''Display name is too long''
     else if e = sentinel then missing else e)"

definition user_missing :: go_error where "user_missing = Err_Response 404 ''User not found''"
definition credential_missing :: go_error where "credential_missing = Err_Response 404 ''Credential not found''"

definition route_update_display_name ::
  "('ek, 'mk) auth_env \<Rightarrow> auth_call_context \<Rightarrow> string option \<Rightarrow> string sv_op" where
  "route_update_display_name env c body =
    go_bind (require_user_session c) (\<lambda>_.
    case body of None \<Rightarrow> go_fail invalid_body | Some raw \<Rightarrow>
    let name = trim_space raw in
    go_bind (map_error (name_errors Err_User_Not_Found user_missing)
      (on_db (db_transaction (
        go_bind (update_display_name (au_clock c 0) (au_user_id c) name) (\<lambda>_.
        auth_event env c (au_clock c 1) ''auth.display_name_change'' [] []))))) (\<lambda>_.
    go_return name))"

section \<open>Changing the password\<close>

record update_wrapped_key_request =
  wq_credential_id :: string
  wq_wrapped_primary_key :: string
  wq_wrapped_anchor_key :: string
  wq_advance_epoch :: bool

definition update_wrapped_key ::
  "('ek, 'mk) auth_env \<Rightarrow> auth_call_context \<Rightarrow> update_wrapped_key_request \<Rightarrow> unit db_op" where
  "update_wrapped_key env c req =
    go_bind (map_error (\<lambda>_. Err_Response 500 ''Failed to check pending challenges'')
      (has_pending_challenge (au_clock c 0) (au_user_id c) ''add-credential'')) (\<lambda>pending.
    if pending then go_fail (conflict ''Cannot change password while a passkey registration is in progress'')
    else
    go_bind (if wq_advance_epoch req
        then map_error (\<lambda>e. if e = Err_User_Not_Found then user_missing
                            else Err_Response 500 ''Failed to update password state'')
          (go_bind (advance_wrapped_key_epoch (au_clock c 1) (au_user_id c)) (\<lambda>_. go_return ()))
        else go_return ()) (\<lambda>_.
    go_bind (map_error (\<lambda>e. if e = Err_Credential_Not_Found then credential_missing else bad_request ''update failed'')
      (update_credential_wrapped_key (wq_credential_id req) (au_user_id c) (wq_wrapped_primary_key req)
        (wq_wrapped_anchor_key req))) (\<lambda>_.
    auth_event env c (au_clock c 2) ''auth.wrapped_key_update'' (wq_credential_id req)
      (ae_json_object env [(''advanceEpoch'', Js_Bool (wq_advance_epoch req))]))))"

definition route_update_wrapped_key ::
  "('ek, 'mk) auth_env \<Rightarrow> auth_call_context \<Rightarrow> update_wrapped_key_request option \<Rightarrow> unit sv_op" where
  "route_update_wrapped_key env c body =
    go_bind (require_user_session c) (\<lambda>_.
    case body of None \<Rightarrow> go_fail invalid_body | Some req \<Rightarrow>
    go_bind (go_require (wq_credential_id req \<noteq> []) (bad_request ''credentialId is required'')) (\<lambda>_.
    go_bind (if wq_wrapped_anchor_key req \<noteq> []
        then go_lift (or_bad_request ''invalid wrappedAnchorKey'' (validate_wrapped_anchor_envelope (wq_wrapped_anchor_key req)))
        else go_return ()) (\<lambda>_.
    on_db (db_transaction (update_wrapped_key env c req)))))"

section \<open>Credentials\<close>

record credential_item =
  it_id :: string
  it_display_name :: string
  it_wrapped_key_epoch :: int
  it_wrapped_key_stale :: bool
  it_created_at :: int
  it_last_used_at :: int

definition credential_item_of :: "user \<Rightarrow> credential_row \<Rightarrow> credential_item" where
  "credential_item_of user r =
    \<lparr>it_id = c_id r, it_display_name = c_display_name r, it_wrapped_key_epoch = c_wrapped_key_epoch r,
     it_wrapped_key_stale = wrapped_key_stale user r, it_created_at = c_created_at r, it_last_used_at = c_last_used_at r\<rparr>"

definition route_list_credentials :: "('ek, 'mk) auth_env \<Rightarrow> auth_call_context \<Rightarrow> credential_item list sv_op" where
  "route_list_credentials env c =
    go_bind (require_user_session c) (\<lambda>_.
    go_bind (on_db (get_user_by_id (au_user_id c))) (\<lambda>found. case found of
      None \<Rightarrow> go_fail no_session_response_error
    | Some user \<Rightarrow>
        if usr_status user \<noteq> ''active'' then go_fail no_session_response_error
        else go_bind (on_db (list_credentials (au_user_id c))) (\<lambda>records.
             go_return (map (credential_item_of user) records))))"

definition credential_creation_without_exclusions :: "wa_creation \<Rightarrow> wa_creation" where
  "credential_creation_without_exclusions creation = creation\<lparr>cc_exclude_list := []\<rparr>"

definition account_not_active :: go_error where
  "account_not_active = Err_Response 403 ''User account is not active''"

definition load_ready_user :: "('ek, 'mk) auth_env \<Rightarrow> user \<Rightarrow> wa_user db_op" where
  "load_ready_user env user =
    (if usr_status user \<noteq> ''active'' \<or> \<not> usr_ready user then go_fail account_not_active
     else go_bind (load_webauthn_user env user) (\<lambda>rec. case rec of
       None \<Rightarrow> go_fail user_missing | Some wu \<Rightarrow> go_return wu))"

definition add_credential_begin ::
  "('ek, 'mk) auth_env \<Rightarrow> auth_call_context \<Rightarrow> string \<Rightarrow> (wa_creation \<times> wa_session \<times> auth_challenge) db_op" where
  "add_credential_begin env c name =
    go_bind (get_user_by_id (au_user_id c)) (\<lambda>found. case found of
      None \<Rightarrow> go_fail account_not_active
    | Some user \<Rightarrow>
      go_bind (load_ready_user env user) (\<lambda>wu.
      go_bind (go_lift (begin_webauthn_session env wu)) (\<lambda>(creation, session).
      go_bind (begin_challenge (au_clock c 0) (au_new_id c) ''add-credential'' (au_user_id c) (ws_challenge session)
         (ws_expires session) (Some (ae_marshal_add env
           \<lparr>acp_user_id = au_user_id c, acp_webauthn_user_id = raw_url_encode (wu_id wu),
            acp_display_name = trim_space name, acp_session = Some session\<rparr>))) (\<lambda>ch.
      go_return (creation, session, ch)))))"

definition route_add_credential_begin ::
  "('ek, 'mk) auth_env \<Rightarrow> auth_call_context \<Rightarrow> string option \<Rightarrow> wa_creation begin_response sv_op" where
  "route_add_credential_begin env c body =
    go_bind (require_user_session c) (\<lambda>_.
    case body of None \<Rightarrow> go_fail invalid_body | Some name \<Rightarrow>
    go_bind (on_db (db_transaction (add_credential_begin env c name))) (\<lambda>(creation, session, ch).
    go_bind (enqueue_challenge_delete ch) (\<lambda>_.
    go_return (begin_response_of ch session (credential_creation_without_exclusions creation)))))"

record add_credential_request =
  aq_challenge_id :: string
  aq_credential :: string
  aq_credential_name :: string
  aq_wrapped_primary_key :: string
  aq_wrapped_anchor_key :: string
  aq_attestation_payload :: string
  aq_attestation_signature_es384 :: string
  aq_attestation_signature_mldsa87 :: string

record add_credential_vals =
  av_req :: add_credential_request
  av_attest_sig_es :: string
  av_attest_sig_ml :: string
  av_attest_payload :: attestation_payload

definition add_input :: "auth_call_context \<Rightarrow> add_credential_request \<Rightarrow> string \<Rightarrow> wa_credential \<Rightarrow> string \<Rightarrow> add_credential_input" where
  "add_input c req begun_name cred cred_json =
    \<lparr>ai_user_id = au_user_id c, ai_credential_id = raw_url_encode (wc_id cred),
     ai_display_name = (let name = trim_space (aq_credential_name req) in if name = [] then begun_name else name),
     ai_public_key = cred_json, ai_sign_count = uint (wc_sign_count cred),
     ai_wrapped_primary_key = aq_wrapped_primary_key req, ai_wrapped_anchor_key = aq_wrapped_anchor_key req,
     ai_attestation_payload = aq_attestation_payload req,
     ai_attestation_signature_es384 = aq_attestation_signature_es384 req,
     ai_attestation_signature_mldsa87 = aq_attestation_signature_mldsa87 req\<rparr>"

text \<open>The checks that bind a new credential to the stored anchor.\<close>

definition check_new_credential ::
  "('ek, 'mk) auth_env \<Rightarrow> auth_call_context \<Rightarrow> add_credential_vals \<Rightarrow> user \<Rightarrow> wa_credential \<Rightarrow> unit go_result" where
  "check_new_credential env c vals user cred =
    (case parse_anchor_pubkeys (ae_crypto env) (usr_anchor_es384_public_key user) (usr_anchor_mldsa87_public_key user) of
       Inl _ \<Rightarrow> Inl (Err_Response 500 ''stored anchor public key is invalid'')
     | Inr (es_pub, ml_bytes) \<Rightarrow>
        (case credential_public_key_hash (cr_sha256 (ae_crypto env)) (wc_public_key cred) of
           Inl _ \<Rightarrow> Inl (bad_request ''failed to derive credential public key hash'')
         | Inr hash \<Rightarrow> check_attestation (ae_crypto env) (au_clock c 1) es_pub ml_bytes (av_attest_payload vals)
             (av_attest_sig_es vals) (av_attest_sig_ml vals) (au_user_id c) (raw_url_encode (wc_id cred)) hash
             (usr_wrapped_key_epoch user)))"

text \<open>\<open>addCredentialFinish\<close> in two parts: from the loaded user on, and the challenge before it.\<close>

definition register_credential ::
  "('ek, 'mk) auth_env \<Rightarrow> auth_call_context \<Rightarrow> add_credential_vals \<Rightarrow> string \<Rightarrow> wa_session \<Rightarrow> user \<Rightarrow> unit db_op" where
  "register_credential env c vals begun_name session user =
    go_bind (load_ready_user env user) (\<lambda>wu.
    go_bind (go_lift (finish_webauthn_registration env wu (aq_credential (av_req vals)) session)) (\<lambda>(cred, cred_json).
    go_bind (get_credential_by_credential_id (raw_url_encode (wc_id cred)) (au_user_id c)) (\<lambda>existing.
    go_bind (go_require (existing = None) (conflict ''Credential is already registered'')) (\<lambda>_.
    go_bind (go_lift (check_new_credential env c vals user cred)) (\<lambda>_.
    go_bind (add_credential (au_clock c 2) (au_new_id c) (add_input c (av_req vals) begun_name cred cred_json)) (\<lambda>_.
    auth_event env c (au_clock c 3) ''auth.credential_add_finish'' (raw_url_encode (wc_id cred)) []))))))"

definition own_challenge_session :: "auth_call_context \<Rightarrow> add_credential_payload option \<Rightarrow> (string \<times> wa_session) go_result" where
  "own_challenge_session c consumed =
    (let uid = (case consumed of None \<Rightarrow> [] | Some p \<Rightarrow> acp_user_id p) in
     if uid \<noteq> au_user_id c then Inl (Err_Response 403 ''Challenge does not belong to this user'')
     else case Option.bind consumed (\<lambda>p. map_option (Pair (acp_display_name p)) (acp_session p)) of
       None \<Rightarrow> Inl (conflict ''Challenge is missing WebAuthn session data'')
     | Some r \<Rightarrow> Inr r)"

definition add_credential_finish ::
  "('ek, 'mk) auth_env \<Rightarrow> auth_call_context \<Rightarrow> add_credential_vals \<Rightarrow> unit db_op" where
  "add_credential_finish env c vals =
    go_bind (map_error (replace_error Err_Invalid_Challenge (conflict ''Challenge is invalid or expired''))
      (consume_challenge (au_clock c 0) (Some (ae_unmarshal_add env)) (aq_challenge_id (av_req vals)) ''add-credential''
         (au_user_id c))) (\<lambda>consumed.
    go_bind (go_lift (own_challenge_session c consumed)) (\<lambda>(begun_name, session).
    go_bind (get_user_by_id (au_user_id c)) (\<lambda>found. case found of
      None \<Rightarrow> go_fail user_missing
    | Some user \<Rightarrow> register_credential env c vals begun_name session user)))"

definition route_add_credential_finish ::
  "('ek, 'mk) auth_env \<Rightarrow> auth_call_context \<Rightarrow> add_credential_request option \<Rightarrow> unit sv_op" where
  "route_add_credential_finish env c body =
    go_bind (require_user_session c) (\<lambda>_.
    case body of None \<Rightarrow> go_fail invalid_body | Some req \<Rightarrow>
    go_bind (go_require (aq_challenge_id req \<noteq> [] \<and> aq_credential req \<noteq> []) (bad_request ''Missing required fields'')) (\<lambda>_.
    go_bind (go_lift (or_bad_request ''invalid attestationSignature'' (parse_hybrid_signatures
       (aq_attestation_signature_es384 req) (aq_attestation_signature_mldsa87 req)))) (\<lambda>(a_es, a_ml).
    go_bind (go_lift (parse_attestation (aq_attestation_payload req))) (\<lambda>payload.
    go_bind (go_require (valid_wrapped_primary_key (aq_wrapped_primary_key req)) (bad_request ''invalid wrappedPrimaryKey'')) (\<lambda>_.
    go_bind (go_lift (or_bad_request ''invalid wrappedAnchorKey'' (validate_wrapped_anchor_envelope (aq_wrapped_anchor_key req)))) (\<lambda>_.
    go_bind (on_db (db_transaction (add_credential_finish env c
       \<lparr>av_req = req, av_attest_sig_es = a_es, av_attest_sig_ml = a_ml, av_attest_payload = payload\<rparr>))) (\<lambda>_.
    dequeue_delete (''challenge-delete:'' @ aq_challenge_id req))))))))"

definition route_rename_credential ::
  "('ek, 'mk) auth_env \<Rightarrow> auth_call_context \<Rightarrow> (string \<times> string) option \<Rightarrow> unit sv_op" where
  "route_rename_credential env c body =
    go_bind (require_user_session c) (\<lambda>_.
    case body of None \<Rightarrow> go_fail invalid_body | Some (rid, name) \<Rightarrow>
    go_bind (go_require (rid \<noteq> []) (bad_request ''id is required'')) (\<lambda>_.
    map_error (name_errors Err_Credential_Not_Found credential_missing)
      (on_db (db_transaction (
        go_bind (rename_credential rid (au_user_id c) name) (\<lambda>_.
        auth_event env c (au_clock c 0) ''auth.credential_rename'' rid []))))))"

definition delete_errors :: "go_error \<Rightarrow> go_error" where
  "delete_errors e =
    (if e = Err_Last_Credential then conflict ''Cannot delete the last credential''
     else if e = Err_Credential_Not_Found then credential_missing else e)"

definition route_delete_credential ::
  "('ek, 'mk) auth_env \<Rightarrow> auth_call_context \<Rightarrow> string option \<Rightarrow> unit sv_op" where
  "route_delete_credential env c body =
    go_bind (require_user_session c) (\<lambda>_.
    case body of None \<Rightarrow> go_fail invalid_body | Some rid \<Rightarrow>
    go_bind (go_require (rid \<noteq> []) (bad_request ''id is required'')) (\<lambda>_.
    map_error delete_errors
      (on_db (db_transaction (
        go_bind (delete_credential (ae_backend env) rid (au_user_id c)) (\<lambda>_.
        auth_event env c (au_clock c 0) ''auth.credential_delete'' rid []))))))"

end
