(* ===== verification/Signing_Key_Routes.thy ===== *)
theory Signing_Key_Routes
  imports Server_Common Signing_Key_Store Signing_Jwk
begin

text \<open>
  The signing-key handlers of src/internal/server/routes-signing-keys.go.  A request
  body that does not parse is \<open>None\<close>.  \<open>api_env\<close> holds the libraries the handlers
  call; \<open>api_call\<close> what varies between calls: the session user (empty when there is
  none), the readings of the clock in the order the handler takes them, the id drawn for
  the audit row, and what the audit helpers read from the request.
\<close>

record ('ek, 'mk) api_env =
  env_crypto :: "('ek, 'mk) crypto"
  env_codec :: key_codec
  env_json_valid :: "string \<Rightarrow> bool"
  env_json_object :: "(string \<times> json_scalar) list \<Rightarrow> string"

record api_call =
  call_user_id :: string
  call_clock :: "nat \<Rightarrow> go_time"
  call_audit_id :: string
  call_audit_context :: audit_context

definition signing_key_publication_created_at_skew :: go_time where
  "signing_key_publication_created_at_skew = minutes 2"

section \<open>Wire types\<close>

record signing_key_create_request =
  kreq_algorithm :: string
  kreq_key_label :: string
  kreq_jwk :: string
  kreq_pem :: string
  kreq_published :: bool
  kreq_payload :: string
  kreq_sig_es384 :: string
  kreq_sig_mldsa87 :: string

definition create_has_proof :: "signing_key_create_request \<Rightarrow> bool" where
  "create_has_proof req \<longleftrightarrow> kreq_payload req \<noteq> [] \<and> kreq_sig_es384 req \<noteq> [] \<and> kreq_sig_mldsa87 req \<noteq> []"

text \<open>\<open>Validate\<close> rewrites the algorithm and the label of the request: it returns the new request, the id and the JWK.\<close>

definition validate_create_request ::
  "key_codec \<Rightarrow> (string \<Rightarrow> string) \<Rightarrow> signing_key_create_request
     \<Rightarrow> (signing_key_create_request \<times> string \<times> string) go_result" where
  "validate_create_request kc sha256 req =
    (if kreq_algorithm req = [] then Inl (Err_Msg ''missing algorithm'')
     else case normalize_signing_algorithm (kreq_algorithm req) of
       None \<Rightarrow> Inl (Err_Msg ''unsupported signing algorithm'')
     | Some alg \<Rightarrow>
       if kreq_key_label req = [] then Inl (Err_Msg ''missing keyLabel'')
       else case normalize_and_validate_key_label (kreq_key_label req) of
         None \<Rightarrow> Inl (Err_Msg ''invalid keyLabel'')
       | Some label \<Rightarrow>
         (case validate_signing_jwk_and_pem kc sha256 alg (kreq_jwk req) (kreq_pem req) of
            Inl e \<Rightarrow> Inl e
          | Inr (kid, canonical) \<Rightarrow>
              Inr (req\<lparr>kreq_algorithm := alg, kreq_key_label := label\<rparr>, kid, canonical)))"

record signing_key_item_response =
  kresp_id :: string
  kresp_algorithm :: string
  kresp_key_label :: string
  kresp_published :: bool
  kresp_has_proof :: bool
  kresp_created_at :: int
  kresp_updated_at :: int

definition new_signing_key_item_response :: "signing_key_row \<Rightarrow> signing_key_item_response" where
  "new_signing_key_item_response rec =
    \<lparr>kresp_id = sk_id rec, kresp_algorithm = sk_algorithm rec, kresp_key_label = sk_key_label rec,
     kresp_published = sk_published rec, kresp_has_proof = has_publication_proof rec,
     kresp_created_at = sk_created_at rec, kresp_updated_at = sk_updated_at rec\<rparr>"

record set_published_request =
  preq_published :: bool
  preq_payload :: string
  preq_sig_es384 :: string
  preq_sig_mldsa87 :: string

definition publish_has_proof :: "set_published_request \<Rightarrow> bool" where
  "publish_has_proof req \<longleftrightarrow> preq_payload req \<noteq> [] \<and> preq_sig_es384 req \<noteq> [] \<and> preq_sig_mldsa87 req \<noteq> []"

record signing_key_detail_response = signing_key_item_response +
  dresp_jwk :: string
  dresp_pem :: string
  dresp_payload :: string
  dresp_sig_es384 :: string
  dresp_sig_mldsa87 :: string

record signing_key_public_response =
  pubr_id :: string
  pubr_algorithm :: string
  pubr_key_label :: string
  pubr_created_at :: int
  pubr_jwk :: string
  pubr_payload :: string
  pubr_sig_es384 :: string
  pubr_sig_mldsa87 :: string
  pubr_anchor_es384 :: string
  pubr_anchor_mldsa87 :: string

datatype public_reply = Public_Pem string | Public_Jwk signing_key_public_response

section \<open>The publication proof\<close>

definition verify_signing_key_publication_proof ::
  "('ek, 'mk) crypto \<Rightarrow> go_time \<Rightarrow> user_id \<Rightarrow> string \<Rightarrow> string \<Rightarrow> key_id \<Rightarrow> string \<Rightarrow> signature_text \<Rightarrow> signature_text \<Rightarrow> unit db_op" where
  "verify_signing_key_publication_proof cr now uid algorithm label kid payload_str sig_es_b64 sig_ml_b64 =
    (if payload_str = [] \<or> sig_es_b64 = [] \<or> sig_ml_b64 = [] then go_fail (Err_Msg ''all three are required'')
     else case parse_signing_key_publication_payload payload_str of
       None \<Rightarrow> go_fail (Err_Msg ''invalid canonical body'')
     | Some p \<Rightarrow>
       if pp_v p \<noteq> signing_key_publication_version then go_fail (Err_Msg ''unsupported v'')
       else if pp_user_id p \<noteq> uid then go_fail (Err_Msg ''userId does not match session'')
       else if pp_algorithm p \<noteq> algorithm then go_fail (Err_Msg ''algorithm does not match'')
       else if pp_key_label p \<noteq> label then go_fail (Err_Msg ''keyLabel does not match'')
       else if pp_key_id p \<noteq> kid then go_fail (Err_Msg ''keyId does not match'')
       else go_bind (go_lift (validate_created_at (pp_created_at p) now signing_key_publication_created_at_skew)) (\<lambda>_.
         go_bind (get_user_by_id uid) (\<lambda>found. case found of
           None \<Rightarrow> go_fail (Err_Msg ''user not found'')
         | Some owner \<Rightarrow>
           if pp_wrapped_key_epoch p \<noteq> usr_wrapped_key_epoch owner
           then go_fail (Err_Msg ''wrappedKeyEpoch does not match current user epoch'')
           else go_bind (go_lift (parse_anchor_pubkeys cr (usr_anchor_es384_public_key owner)
                    (usr_anchor_mldsa87_public_key owner))) (\<lambda>(es_pub, ml_bytes).
             go_bind (go_lift (parse_hybrid_signatures sig_es_b64 sig_ml_b64)) (\<lambda>(sig_es, sig_ml).
               go_lift (verify_hybrid_signing_key_publication cr (Some es_pub) ml_bytes p sig_es sig_ml))))))"

section \<open>Handlers\<close>

definition proof_rejected :: "go_error \<Rightarrow> go_error" where
  "proof_rejected e = bad_request ''publication proof rejected''"

definition route_signing_key_list :: "api_call \<Rightarrow> signing_key_list_item list db_op" where
  "route_signing_key_list c =
    go_bind (go_require (call_user_id c \<noteq> []) no_session_response_error) (\<lambda>_. list_keys_for_user (call_user_id c))"

definition insert_input_of ::
  "string \<Rightarrow> string \<Rightarrow> string \<Rightarrow> signing_key_create_request \<Rightarrow> insert_signing_key_input" where
  "insert_input_of uid kid canonical req =
    \<lparr>ki_id = kid, ki_user_id = uid, ki_algorithm = kreq_algorithm req, ki_key_label = kreq_key_label req,
     ki_jwk = canonical, ki_pem = kreq_pem req, ki_published = kreq_published req,
     ki_publication_payload = kreq_payload req, ki_publication_signature_es384 = kreq_sig_es384 req,
     ki_publication_signature_mldsa87 = kreq_sig_mldsa87 req\<rparr>"

definition key_audit ::
  "('ek, 'mk) api_env \<Rightarrow> api_call \<Rightarrow> go_time \<Rightarrow> string \<Rightarrow> signing_key_row \<Rightarrow> (string \<times> json_scalar) list \<Rightarrow> unit db_op" where
  "key_audit env c now event rec metadata =
    audit_event_tx (env_json_valid env) (call_audit_id c) now (call_audit_context c)
      (no_fields\<lparr>fl_event_type := event, fl_outcome := ''success'', fl_auth_method := ''session'',
         fl_actor_user_id := call_user_id c, fl_signing_key_id := sk_id rec,
         fl_metadata := env_json_object env metadata\<rparr>)"

definition conflict_if_exists :: "go_error \<Rightarrow> go_error" where
  "conflict_if_exists e = (if e = Err_Signing_Key_Already_Exists then Err_Response 409 ''signing key already exists'' else e)"

definition create_in_transaction ::
  "('ek, 'mk) api_env \<Rightarrow> api_call \<Rightarrow> signing_key_create_request \<Rightarrow> string \<Rightarrow> string \<Rightarrow> signing_key_row db_op" where
  "create_in_transaction env c req kid canonical =
    go_bind (go_when (create_has_proof req)
        (map_error proof_rejected (verify_signing_key_publication_proof (env_crypto env) (call_clock c 0)
           (call_user_id c) (kreq_algorithm req) (kreq_key_label req) kid
           (kreq_payload req) (kreq_sig_es384 req) (kreq_sig_mldsa87 req)))) (\<lambda>_.
    go_bind (map_error conflict_if_exists
        (create_signing_key (call_clock c 1) (insert_input_of (call_user_id c) kid canonical req))) (\<lambda>rec.
    go_bind (key_audit env c (call_clock c 2) ''signing_key.create'' rec
        [(''algorithm'', Js_String (sk_algorithm rec)), (''hasProof'', Js_Bool (has_publication_proof rec)),
         (''keyLabel'', Js_String (sk_key_label rec)), (''published'', Js_Bool (sk_published rec))]) (\<lambda>_.
    go_return rec)))"

definition route_signing_key_create ::
  "('ek, 'mk) api_env \<Rightarrow> api_call \<Rightarrow> signing_key_create_request option \<Rightarrow> signing_key_item_response db_op" where
  "route_signing_key_create env c body =
    go_bind (go_require (call_user_id c \<noteq> []) no_session_response_error) (\<lambda>_.
    case body of
      None \<Rightarrow> go_fail (bad_request ''Invalid request body'')
    | Some req0 \<Rightarrow>
       (case validate_create_request (env_codec env) (cr_sha256 (env_crypto env)) req0 of
          Inl e \<Rightarrow> go_fail (bad_request ''invalid signing key'')
        | Inr (req, kid, canonical) \<Rightarrow>
            if kreq_published req \<and> \<not> create_has_proof req
            then go_fail (bad_request ''publication proof is required when published is true'')
            else go_bind (db_transaction (create_in_transaction env c req kid canonical))
                   (\<lambda>rec. go_return (new_signing_key_item_response rec))))"

definition update_in_transaction ::
  "('ek, 'mk) api_env \<Rightarrow> api_call \<Rightarrow> string \<Rightarrow> set_published_request \<Rightarrow> signing_key_row db_op" where
  "update_in_transaction env c kid req =
    go_bind (get_key_for_user (call_user_id c) kid) (\<lambda>found. case found of
      None \<Rightarrow> go_fail not_found
    | Some existing \<Rightarrow>
       go_bind
         (if publish_has_proof req then
            go_bind (map_error proof_rejected (verify_signing_key_publication_proof (env_crypto env) (call_clock c 0)
                (call_user_id c) (sk_algorithm existing) (sk_key_label existing) (sk_id existing)
                (preq_payload req) (preq_sig_es384 req) (preq_sig_mldsa87 req))) (\<lambda>_.
            go_bind (store_publication_proof (call_clock c 1) (call_user_id c) kid
                (preq_payload req) (preq_sig_es384 req) (preq_sig_mldsa87 req)) (\<lambda>_. go_return ()))
          else if preq_published req \<and> \<not> has_publication_proof existing
            then go_fail (bad_request ''publication proof is required to publish this key'')
          else go_return ()) (\<lambda>_.
       go_bind (set_published (call_clock c 2) (call_user_id c) kid (preq_published req)) (\<lambda>updated.
       go_bind (key_audit env c (call_clock c 3)
           (if preq_published req then ''signing_key.publish'' else ''signing_key.unpublish'') updated
           [(''algorithm'', Js_String (sk_algorithm updated)), (''keyLabel'', Js_String (sk_key_label updated)),
            (''published'', Js_Bool (sk_published updated))]) (\<lambda>_.
       go_return updated))))"

definition not_found_if_missing :: "go_error \<Rightarrow> go_error" where
  "not_found_if_missing e = (if e = Err_Signing_Key_Not_Found then not_found else e)"

definition route_signing_key_update ::
  "('ek, 'mk) api_env \<Rightarrow> api_call \<Rightarrow> string \<Rightarrow> set_published_request option \<Rightarrow> signing_key_item_response db_op" where
  "route_signing_key_update env c kid body =
    go_bind (go_require (call_user_id c \<noteq> []) no_session_response_error) (\<lambda>_.
    go_bind (go_require (kid \<noteq> []) (bad_request ''missing id'')) (\<lambda>_.
    case body of
      None \<Rightarrow> go_fail (bad_request ''Invalid request body'')
    | Some req \<Rightarrow>
       go_bind (map_error not_found_if_missing (db_transaction (update_in_transaction env c kid req)))
         (\<lambda>rec. go_return (new_signing_key_item_response rec))))"

definition detail_response_of :: "signing_key_row \<Rightarrow> signing_key_detail_response" where
  "detail_response_of rec =
    \<lparr>kresp_id = sk_id rec, kresp_algorithm = sk_algorithm rec, kresp_key_label = sk_key_label rec,
     kresp_published = sk_published rec, kresp_has_proof = has_publication_proof rec,
     kresp_created_at = sk_created_at rec, kresp_updated_at = sk_updated_at rec,
     dresp_jwk = sk_jwk rec, dresp_pem = sk_pem rec, dresp_payload = sk_publication_payload rec,
     dresp_sig_es384 = sk_publication_signature_es384 rec, dresp_sig_mldsa87 = sk_publication_signature_mldsa87 rec\<rparr>"

definition route_signing_key_get :: "api_call \<Rightarrow> string \<Rightarrow> signing_key_detail_response db_op" where
  "route_signing_key_get c kid =
    go_bind (go_require (call_user_id c \<noteq> []) no_session_response_error) (\<lambda>_.
    go_bind (go_require (kid \<noteq> []) (bad_request ''missing id'')) (\<lambda>_.
    go_bind (get_key_for_user (call_user_id c) kid) (\<lambda>found. case found of
      None \<Rightarrow> go_fail not_found
    | Some rec \<Rightarrow> go_return (detail_response_of rec))))"

definition route_signing_key_delete :: "('ek, 'mk) api_env \<Rightarrow> api_call \<Rightarrow> string \<Rightarrow> bool db_op" where
  "route_signing_key_delete env c kid =
    go_bind (go_require (call_user_id c \<noteq> []) no_session_response_error) (\<lambda>_.
    go_bind (go_require (kid \<noteq> []) (bad_request ''missing id'')) (\<lambda>_.
    go_bind (map_error not_found_if_missing (db_transaction (
      go_bind (delete_signing_key (call_user_id c) kid) (\<lambda>deleted.
      go_bind (key_audit env c (call_clock c 0) ''signing_key.delete'' deleted
        [(''algorithm'', Js_String (sk_algorithm deleted)), (''keyLabel'', Js_String (sk_key_label deleted)),
         (''published'', Js_Bool (sk_published deleted))]) (\<lambda>_.
      go_return deleted))))) (\<lambda>_. go_return True)))"

text \<open>\<open>strings.LastIndexByte\<close>, and the id and extension in front of and behind the last dot.\<close>

fun last_index_byte :: "char \<Rightarrow> string \<Rightarrow> int" where
  "last_index_byte c [] = -1"
| "last_index_byte c (x # xs) =
    (let i = last_index_byte c xs in if i \<ge> 0 then i + 1 else if x = c then 0 else -1)"

definition split_filename :: "string \<Rightarrow> (string \<times> string) option" where
  "split_filename filename =
    (let dot = last_index_byte CHR ''.'' filename in
     if dot \<le> 0 \<or> dot = int (length filename) - 1 then None
     else Some (take (nat dot) filename, drop (nat dot + 1) filename))"

definition public_response_of :: "signing_key_row \<Rightarrow> user \<Rightarrow> signing_key_public_response" where
  "public_response_of rec owner =
    \<lparr>pubr_id = sk_id rec, pubr_algorithm = sk_algorithm rec, pubr_key_label = sk_key_label rec,
     pubr_created_at = sk_created_at rec, pubr_jwk = sk_jwk rec, pubr_payload = sk_publication_payload rec,
     pubr_sig_es384 = sk_publication_signature_es384 rec, pubr_sig_mldsa87 = sk_publication_signature_mldsa87 rec,
     pubr_anchor_es384 = usr_anchor_es384_public_key owner, pubr_anchor_mldsa87 = usr_anchor_mldsa87_public_key owner\<rparr>"

definition read_public_data :: "string \<Rightarrow> (signing_key_row \<times> user) db_op" where
  "read_public_data kid =
    go_bind (get_published_by_id kid) (\<lambda>found. case found of
      None \<Rightarrow> go_fail not_found
    | Some rec \<Rightarrow> go_bind (get_user_by_id (sk_user_id rec)) (\<lambda>owner. case owner of
        None \<Rightarrow> go_fail not_found
      | Some u \<Rightarrow> go_return (rec, u)))"

definition route_signing_key_public :: "string \<Rightarrow> public_reply db_op" where
  "route_signing_key_public filename =
    (case split_filename filename of
       None \<Rightarrow> go_fail not_found
     | Some (kid, ext) \<Rightarrow>
        if ext \<in> set [''jwk'', ''json''] then
          go_bind (db_transaction (read_public_data kid)) (\<lambda>(rec, owner).
            go_return (Public_Jwk (public_response_of rec owner)))
        else if ext \<in> set [''pem'', ''pub''] then
          go_bind (get_published_by_id kid) (\<lambda>found. case found of
            None \<Rightarrow> go_fail not_found
          | Some rec \<Rightarrow> go_return (Public_Pem (sk_pem rec)))
        else go_fail not_found)"

end
