(* ===== verification/Auth_Invariants.thy ===== *)
theory Auth_Invariants
  imports Auth_Store
begin

text \<open>
  What the auth store keeps, whatever is called on it in whatever order.
  \<open>auth_call\<close> is any call that changes the store, with the values it draws from
  outside; \<open>auth_op\<close> is the method it runs.  Each invariant is proved for the
  statements on its tables and lifted to every method by the \<open>keeps\<close> calculus,
  then to sequences of calls by \<open>call_system\<close>.
\<close>

datatype auth_call =
    Auth_Begin_Challenge go_time string string string string "go_time option" "string go_result option"
  | Auth_Consume_Challenge go_time string string string
  | Auth_Register go_time "string go_result" string register_user_input
  | Auth_Login go_time login_input
  | Auth_Finalize go_time finalize_signup_input
  | Auth_Allowed_IPs go_time string "string list"
  | Auth_Regenerate_Key go_time "string go_result" string
  | Auth_Display_Name go_time string string
  | Auth_Rewrap string string string string
  | Auth_Add_Credential go_time string add_credential_input
  | Auth_Advance_Epoch go_time string
  | Auth_Rename string string string
  | Auth_Delete_Credential backend_kind string string
  | Auth_Cleanup go_time
  | Auth_Delete_Challenge string go_time
  | Auth_Delete_Nonready string go_time

definition ignore_result :: "'a db_op \<Rightarrow> unit db_op" where
  "ignore_result m = go_bind m (\<lambda>_. go_return ())"

text \<open>The IP parsers are the two function arguments; the challenge payload is not decoded here.\<close>

definition auth_op ::
  "(string \<Rightarrow> string option) \<Rightarrow> (string \<Rightarrow> string option) \<Rightarrow> auth_call \<Rightarrow> unit db_op" where
  "auth_op cidr ip c = (case c of
      Auth_Begin_Challenge now nid kind uid ch ex pl \<Rightarrow> ignore_result (begin_challenge now nid kind uid ch ex pl)
    | Auth_Consume_Challenge now cid kind uid \<Rightarrow>
        ignore_result (consume_challenge now (None :: (string \<Rightarrow> unit option) option) cid kind uid)
    | Auth_Register now random nid inp \<Rightarrow> ignore_result (register_user now random nid inp)
    | Auth_Login now inp \<Rightarrow> auth_login now inp
    | Auth_Finalize now inp \<Rightarrow> ignore_result (finalize_signup now inp)
    | Auth_Allowed_IPs now uid ips \<Rightarrow> ignore_result (update_allowed_ips cidr ip now uid ips)
    | Auth_Regenerate_Key now random uid \<Rightarrow> ignore_result (regenerate_request_key now random uid)
    | Auth_Display_Name now uid name \<Rightarrow> update_display_name now uid name
    | Auth_Rewrap cid uid wpk wak \<Rightarrow> update_credential_wrapped_key cid uid wpk wak
    | Auth_Add_Credential now nid inp \<Rightarrow> add_credential now nid inp
    | Auth_Advance_Epoch now uid \<Rightarrow> ignore_result (advance_wrapped_key_epoch now uid)
    | Auth_Rename rid uid name \<Rightarrow> rename_credential rid uid name
    | Auth_Delete_Credential kind rid uid \<Rightarrow> delete_credential kind rid uid
    | Auth_Cleanup now \<Rightarrow> cleanup_expired now
    | Auth_Delete_Challenge cid now \<Rightarrow> delete_expired_auth_challenge cid now
    | Auth_Delete_Nonready uid now \<Rightarrow> delete_nonready_user uid now)"

text \<open>A call runs in a transaction of its own, as the handlers run it.\<close>

definition run_auth_call ::
  "(string \<Rightarrow> string option) \<Rightarrow> (string \<Rightarrow> string option) \<Rightarrow> auth_call \<Rightarrow> database \<Rightarrow> database" where
  "run_auth_call cidr ip c s = snd (db_transaction (auth_op cidr ip c) s)"

definition run_auth_calls ::
  "(string \<Rightarrow> string option) \<Rightarrow> (string \<Rightarrow> string option) \<Rightarrow> auth_call list \<Rightarrow> database \<Rightarrow> database" where
  "run_auth_calls cidr ip cs s = fold (run_auth_call cidr ip) cs s"

text \<open>A new challenge does not take one of these ids (ids are fresh random UUIDs).\<close>

definition begins_outside :: "string set \<Rightarrow> auth_call \<Rightarrow> bool" where
  "begins_outside ids c = (case c of Auth_Begin_Challenge now nid kind uid ch ex pl \<Rightarrow> nid \<notin> ids | _ \<Rightarrow> True)"

lemma keeps_map_integrity [keeps_intros]: "keeps I m \<Longrightarrow> keeps I (map_integrity e m)"
  by (auto simp: keeps_def map_integrity_def split: prod.splits sum.splits)

lemma keeps_case_backend [keeps_intros]:
  "keeps I m \<Longrightarrow> keeps I n \<Longrightarrow>
   keeps I (case k of Backend_SQLite \<Rightarrow> m | Backend_Postgres \<Rightarrow> n)"
  by (cases k) simp_all

lemma keeps_require_user [keeps_intros]: "keeps I (require_user uid)"
  by (simp add: keeps_def)

lemma keeps_require_transaction [keeps_intros]: "keeps I (require_transaction name)"
  by (simp add: keeps_def require_transaction_def)

lemma keeps_select [keeps_intros]: "keeps I (sql_select rows P)"
  by (simp add: keeps_def sql_select_def)

lemma keeps_ignore_result [keeps_intros]: "keeps I m \<Longrightarrow> keeps I (ignore_result m)"
  by (simp add: ignore_result_def keeps_bind keeps_return)

lemma keeps_insert:
  "(\<And>s. I s \<Longrightarrow> \<not> list_ex (\<lambda>q. clash q r) (rows s) \<Longrightarrow> I (put (rows s @ [r]) s)) \<Longrightarrow>
   keeps I (sql_insert rows put clash r)"
  by (auto simp: keeps_def sql_insert_def list_ex_iff)

lemma keeps_update:
  "(\<And>s. I s \<Longrightarrow> I (put (update_rows P f (rows s)) s)) \<Longrightarrow> keeps I (sql_update rows put P f)"
  by (simp add: keeps_def sql_update_def)

lemma keeps_delete:
  "(\<And>s. I s \<Longrightarrow> I (put (delete_rows P (rows s)) s)) \<Longrightarrow> keeps I (sql_delete rows put P)"
  by (simp add: keeps_def sql_delete_def)

lemmas auth_op_defs =
  auth_op_def begin_challenge_def consume_challenge_def register_user_def auth_login_def
  finalize_signup_def update_allowed_ips_def regenerate_request_key_def update_display_name_def
  update_credential_wrapped_key_def add_credential_def advance_wrapped_key_epoch_def
  rename_credential_def delete_credential_def delete_credential_postgres_def
  delete_credential_sqlite_def cleanup_expired_def delete_expired_auth_challenge_def
  delete_nonready_user_def Let_def

section \<open>The statements of the auth store\<close>

text \<open>
  An invariant of the auth store, given for the statements the methods are made
  of; the law of the locale is one line for each kind of statement, its lemma
  covers every call.
\<close>

locale auth_invariant =
  fixes I :: "database \<Rightarrow> bool"
    and taken :: "string set"
  assumes tables: "on_tables I"
    and insert_user: "keeps I (sql_insert db_users put_users same_user_key (new_user_row n k ri))"
    and finalize_user: "keeps I (sql_update db_users put_users
          (\<lambda>u. u_id u = fi_user_id fi \<and> \<not> u_ready u) (finalized_row n fi))"
    and set_allowed_ips: "keeps I (sql_update db_users put_users (mutable_user uid)
          (\<lambda>u. u\<lparr>u_allowed_ips := ips, u_updated_at := n\<rparr>))"
    and set_request_key: "keeps I (set_request_key_stmt uid k n)"
    and set_display_name: "keeps I (sql_update db_users put_users (mutable_user uid)
          (\<lambda>u. u\<lparr>u_display_name := name, u_updated_at := n\<rparr>))"
    and advance_epoch: "keeps I (sql_update db_users put_users (mutable_user uid)
          (\<lambda>u. u\<lparr>u_wrapped_key_epoch := u_wrapped_key_epoch u + 1, u_updated_at := n\<rparr>))"
    and remove_nonready: "keeps I (delete_users (\<lambda>u. u_id u = uid \<and> \<not> u_ready u \<and> u_created_at u < n))"
    and insert_first_credential: "c_wrapped_key_epoch cr = 1 \<Longrightarrow> keeps I (insert_credential cr)"
    and add_stmt: "keeps I (add_credential_stmt nid n ai)"
    and login_cred: "keeps I (login_stmt n lo)"
    and finalize_cred: "keeps I (sql_update db_credentials put_credentials
          (\<lambda>c. c_user_id c = uid) (finalized_credential fi))"
    and rewrap: "keeps I (rewrap_stmt cid uid wpk wak)"
    and rename: "keeps I (sql_update db_credentials put_credentials
          (\<lambda>c. c_id c = rid \<and> c_user_id c = uid) (\<lambda>c. c\<lparr>c_display_name := name\<rparr>))"
    and delete_pg: "keeps I (delete_postgres_stmt rid uid)"
    and delete_sqlite: "keeps I (delete_sqlite_stmt rid uid)"
    and insert_challenge: "ch_id ch \<notin> taken \<Longrightarrow> ch_used_at ch = None \<Longrightarrow>
          keeps I (sql_insert db_challenges put_challenges same_challenge ch)"
    and insert_payload: "keeps I (sql_insert db_challenge_payloads put_challenge_payloads same_payload cp)"
    and consume: "keeps I (consume_stmt cid kind uid n)"
    and remove_challenges: "keeps I (delete_challenges P)"
begin

lemmas stmts = insert_user finalize_user set_allowed_ips set_request_key set_display_name advance_epoch
  remove_nonready add_stmt login_cred finalize_cred rewrap rename delete_pg delete_sqlite insert_payload
  consume remove_challenges

lemma auth_op_keeps: "begins_outside taken c \<Longrightarrow> keeps I (auth_op cidr ip c)"
  by (cases c)
    (simp_all only: auth_op_defs auth_call.case begins_outside_def,
     (intro keeps_intros tables stmts insert_first_credential insert_challenge | simp)+)

lemma run_auth_call_keeps: "begins_outside taken c \<Longrightarrow> I s \<Longrightarrow> I (run_auth_call cidr ip c s)"
  using keepsD [OF keeps_db_transaction [OF tables auth_op_keeps]] by (simp add: run_auth_call_def)

lemma run_auth_calls_keep:
  "list_all (begins_outside taken) cs \<Longrightarrow> I s \<Longrightarrow> I (run_auth_calls cidr ip cs s)"
  by (induction cs arbitrary: s) (simp_all add: run_auth_calls_def run_auth_call_keeps)

end

lemmas stmt_defs = keeps_def sql_insert_def sql_update_def sql_delete_def set_request_key_stmt_def
  login_stmt_def rewrap_stmt_def add_credential_stmt_def insert_credential_def delete_postgres_stmt_def
  delete_sqlite_stmt_def consume_stmt_def delete_challenges_def delete_users_def require_user_def
  go_bind_def Let_def

section \<open>Anchors are fixed once a user is ready\<close>

definition anchor_fields :: "user_row \<Rightarrow> string list \<times> int" where
  "anchor_fields u = ([u_anchor_es384_public_key u, u_anchor_mldsa87_public_key u,
     u_request_enc_ecdh_pubkey u, u_request_enc_mlkem_pubkey u,
     u_pubkey_bundle_signature_es384 u, u_pubkey_bundle_signature_mldsa87 u], u_pubkey_bundle_version u)"

definition ready_in :: "string \<Rightarrow> string list \<times> int \<Rightarrow> user_row list \<Rightarrow> bool" where
  "ready_in uid A t \<longleftrightarrow> distinct (map u_id t) \<and>
     (\<exists>u \<in> set t. u_id u = uid \<and> u_ready u \<and> anchor_fields u = A)"

lemma ready_in_update:
  assumes "ready_in uid A t"
    and "\<And>u. P u \<Longrightarrow> u_id (f u) = u_id u \<and> (u_ready u \<longrightarrow> u_ready (f u) \<and> anchor_fields (f u) = anchor_fields u)"
  shows "ready_in uid A (update_rows P f t)"
proof -
  obtain u where u: "u \<in> set t" "u_id u = uid" "u_ready u" "anchor_fields u = A"
    using assms(1) by (auto simp: ready_in_def)
  have "(if P u then f u else u) \<in> set (update_rows P f t)"
    using u(1) by (auto simp: set_update_rows)
  moreover have "map u_id (update_rows P f t) = map u_id t"
    by (rule distinct_update_rows) (use assms(2) in auto)
  ultimately show ?thesis
    using u assms by (auto simp: ready_in_def split: if_splits intro!: bexI [of _ "if P u then f u else u"])
qed

lemma ready_in_append:
  "ready_in uid A t \<Longrightarrow> u_id r \<notin> u_id ` set t \<Longrightarrow> ready_in uid A (t @ [r])"
  by (auto simp: ready_in_def)

lemma ready_in_delete:
  "ready_in uid A t \<Longrightarrow> (\<And>u. P u \<Longrightarrow> \<not> u_ready u) \<Longrightarrow> ready_in uid A (delete_rows P t)"
  by (auto simp: ready_in_def distinct_delete_rows)

interpretation anchors: auth_invariant "\<lambda>s. ready_in uid A (db_users s)" "{}"
  for uid :: string and A :: "string list \<times> int"
proof (unfold_locales, goal_cases)
  case 1 show ?case by (rule on_tables_users)
next
  case (2 n k ri)
  show ?case by (rule keeps_insert) (auto simp: list_ex_iff same_user_key_def intro!: ready_in_append)
next
  case (3 fi n)
  show ?case by (rule keeps_update) (auto simp: finalized_row_def intro: ready_in_update)
next
  case (4 uid' ips n)
  show ?case by (rule keeps_update) (auto simp: anchor_fields_def intro: ready_in_update)
next
  case (5 uid' k n)
  show ?case
    by (auto simp: set_request_key_stmt_def keeps_def sql_update_def anchor_fields_def intro: ready_in_update)
next
  case (6 uid' name n)
  show ?case by (rule keeps_update) (auto simp: anchor_fields_def intro: ready_in_update)
next
  case (7 uid' n)
  show ?case by (rule keeps_update) (auto simp: anchor_fields_def intro: ready_in_update)
next
  case (8 uid' n)
  show ?case by (auto simp: keeps_def delete_users_def Let_def intro: ready_in_delete)
qed (auto simp: stmt_defs split: option.splits sum.splits prod.splits)

section \<open>A consumed challenge stays consumed\<close>

definition spent_in :: "string \<Rightarrow> challenge_row list \<Rightarrow> bool" where
  "spent_in cid t \<longleftrightarrow> list_all (\<lambda>c. ch_id c = cid \<longrightarrow> ch_used_at c \<noteq> None) t"

interpretation spent: auth_invariant "\<lambda>s. spent_in cid (db_challenges s)" "{cid}"
  for cid :: string
proof (unfold_locales, goal_cases)
  case 1 show ?case by (rule on_tables_challenges)
next
  case (17 ch)
  then show ?case by (auto simp: keeps_def sql_insert_def spent_in_def)
next
  case (19 cid' kind uid n)
  then show ?case
    by (auto simp: keeps_def consume_stmt_def sql_update_def spent_in_def set_update_rows list_all_iff)
next
  case (20 P)
  then show ?case by (auto simp: keeps_def delete_challenges_def Let_def spent_in_def list_all_iff)
qed (auto simp: stmt_defs split: option.splits sum.splits prod.splits)

section \<open>The last credential of a ready user\<close>

definition has_credential :: "string \<Rightarrow> database \<Rightarrow> bool" where
  "has_credential uid s \<longleftrightarrow>
     list_ex (\<lambda>u. u_id u = uid \<and> u_ready u) (db_users s) \<and> distinct (map u_id (db_users s))
     \<and> distinct (map c_id (db_credentials s)) \<and> credentials_of uid s \<noteq> []"

lemma on_tables_has_credential: "on_tables (has_credential uid)"
  by (rule on_tables_dbI) (simp add: has_credential_def credentials_of_def)

lemma has_credential_users:
  assumes "has_credential uid s" and "distinct (map u_id t)"
    and "\<And>u. u \<in> set (db_users s) \<Longrightarrow> u_ready u \<Longrightarrow> \<exists>v \<in> set t. u_id v = u_id u \<and> u_ready v"
  shows "has_credential uid (put_users t s)"
proof -
  obtain u where "u \<in> set (db_users s)" "u_id u = uid" "u_ready u"
    using assms(1) by (auto simp: has_credential_def list_ex_iff)
  then show ?thesis using assms by (fastforce simp: has_credential_def credentials_of_def list_ex_iff)
qed

lemma has_credential_update_users:
  assumes "has_credential uid s" and "\<And>u. P u \<Longrightarrow> u_id (f u) = u_id u \<and> (u_ready u \<longrightarrow> u_ready (f u))"
  shows "has_credential uid (put_users (update_rows P f (db_users s)) s)"
proof (rule has_credential_users [OF assms(1)])
  have "map u_id (update_rows P f (db_users s)) = map u_id (db_users s)"
    by (rule distinct_update_rows) (use assms(2) in auto)
  then show "distinct (map u_id (update_rows P f (db_users s)))"
    using assms(1) by (simp add: has_credential_def)
next
  fix u assume "u \<in> set (db_users s)" "u_ready u"
  then show "\<exists>v \<in> set (update_rows P f (db_users s)). u_id v = u_id u \<and> u_ready v"
    using assms(2) by (intro bexI [of _ "if P u then f u else u"]) (auto simp: set_update_rows)
qed

lemma rows_where_update:
  assumes "\<And>r. Q (if P r then f r else r) = Q r"
  shows "rows_where Q (update_rows P f t) = update_rows P f (rows_where Q t)"
  using assms by (induction t) (auto simp: rows_where_def update_rows_def)

lemma update_rows_Nil_iff [simp]: "update_rows P f t = [] \<longleftrightarrow> t = []"
  by (simp add: update_rows_def)

lemma has_credential_update_credentials:
  assumes "has_credential uid s"
    and "\<And>c. P c \<Longrightarrow> c_id (f c) = c_id c \<and> c_user_id (f c) = c_user_id c"
  shows "has_credential uid (put_credentials (update_rows P f (db_credentials s)) s)"
proof -
  have "map c_id (update_rows P f (db_credentials s)) = map c_id (db_credentials s)"
    by (rule distinct_update_rows) (use assms(2) in auto)
  moreover have "rows_where (\<lambda>c. c_user_id c = uid) (update_rows P f (db_credentials s))
      = update_rows P f (rows_where (\<lambda>c. c_user_id c = uid) (db_credentials s))"
    by (rule rows_where_update) (use assms(2) in auto)
  ultimately show ?thesis using assms(1) by (simp add: has_credential_def credentials_of_def)
qed

lemma rows_where_append [simp]: "rows_where Q (t @ u) = rows_where Q t @ rows_where Q u"
  by (simp add: rows_where_def)

lemma keeps_insert_credential: "keeps (has_credential uid) (insert_credential r)"
  unfolding insert_credential_def
  by (intro keeps_bind keeps_require_user keeps_insert)
    (auto simp: has_credential_def credentials_of_def list_ex_iff same_credential_key_def)

lemma rows_where_rows_where: "rows_where P (rows_where Q t) = rows_where (\<lambda>r. Q r \<and> P r) t"
  by (simp add: rows_where_def conj_commute)

lemma rows_where_delete: "rows_where Q (delete_rows P t) = delete_rows P (rows_where Q t)"
  by (simp add: rows_where_def delete_rows_def conj_commute)

lemma length_delete_rows: "length (delete_rows P t) = length t - length (rows_where P t)"
proof -
  have "length (rows_where P t) + length (delete_rows P t) = length t"
    unfolding rows_where_def delete_rows_def by (rule sum_length_filter_compl)
  then show ?thesis by simp
qed

text \<open>Deleting one row by id out of several of a user leaves the user some.\<close>

lemma has_credential_delete:
  assumes h: "has_credential uid s"
    and P: "\<And>c. P c \<longleftrightarrow> c_id c = rid \<and> c_user_id c = uid' \<and> length (credentials_of uid' s) > 1 \<and> extra"
  shows "has_credential uid (put_credentials (delete_rows P (db_credentials s)) s)"
proof -
  have "rows_where (\<lambda>c. c_user_id c = uid) (delete_rows P (db_credentials s)) \<noteq> []"
  proof (cases "uid' = uid \<and> length (credentials_of uid s) > 1")
    case False
    then have "delete_rows P (rows_where (\<lambda>c. c_user_id c = uid) (db_credentials s))
        = rows_where (\<lambda>c. c_user_id c = uid) (db_credentials s)"
      by (intro delete_rows_none) (auto simp: P)
    then show ?thesis using h by (simp add: rows_where_delete has_credential_def credentials_of_def)
  next
    case True
    have "distinct (map c_id (credentials_of uid s))"
      using h by (simp add: has_credential_def credentials_of_def rows_where_def distinct_map_filter)
    then have "length (rows_where P (credentials_of uid s)) \<le> 1"
      using rows_where_key [of c_id "credentials_of uid s" P rid] P
      by (auto split: option.splits)
    then have "length (delete_rows P (credentials_of uid s)) > 0"
      using True by (simp add: length_delete_rows)
    then show ?thesis by (simp add: rows_where_delete credentials_of_def)
  qed
  then show ?thesis
    using h by (simp add: has_credential_def credentials_of_def distinct_delete_rows)
qed

interpretation last_credential: auth_invariant "has_credential uid" "{}"
  for uid :: string
proof (unfold_locales, goal_cases)
  case 1 show ?case by (rule on_tables_has_credential)
next
  case (2 n k ri)
  show ?case
    by (rule keeps_insert, rule has_credential_users)
      (auto simp: has_credential_def list_ex_iff same_user_key_def)
next
  case (3 fi n)
  show ?case by (rule keeps_update, rule has_credential_update_users) (auto simp: finalized_row_def)
next
  case (4 uid' ips n)
  show ?case by (rule keeps_update, rule has_credential_update_users) auto
next
  case (5 uid' k n)
  show ?case
    by (auto simp: set_request_key_stmt_def keeps_def sql_update_def intro: has_credential_update_users)
next
  case (6 uid' name n)
  show ?case by (rule keeps_update, rule has_credential_update_users) auto
next
  case (7 uid' n)
  show ?case by (rule keeps_update, rule has_credential_update_users) auto
next
  case (8 uid' n)
  show ?case
  proof (rule keepsI)
    fix s assume h: "has_credential uid s"
    let ?P = "\<lambda>u. u_id u = uid' \<and> \<not> u_ready u \<and> u_created_at u < n"
    let ?gone = "u_id ` set (rows_where ?P (db_users s))"
    obtain u where u: "u \<in> set (db_users s)" "u_id u = uid" "u_ready u" and d: "distinct (map u_id (db_users s))"
      using h by (auto simp: has_credential_def list_ex_iff)
    have "uid \<notin> ?gone"
    proof
      assume "uid \<in> ?gone"
      then obtain v where "v \<in> set (db_users s)" "u_id v = uid" "\<not> u_ready v" by auto
      then show False using u d row_of_iff [OF d, of uid] by (metis option.inject)
    qed
    then have "rows_where (\<lambda>c. c_user_id c = uid) (delete_rows (\<lambda>c. c_user_id c \<in> ?gone) (db_credentials s))
        = rows_where (\<lambda>c. c_user_id c = uid) (db_credentials s)"
      unfolding rows_where_delete by (intro delete_rows_none) auto
    then show "has_credential uid (snd (delete_users ?P s))"
      using h u by (auto simp: has_credential_def delete_users_def Let_def credentials_of_def list_ex_iff
          distinct_delete_rows)
  qed
next
  case (9 cr)
  show ?case by (rule keeps_insert_credential)
next
  case (10 nid n ai)
  show ?case
  proof (rule keepsI)
    fix s assume "has_credential uid s"
    then show "has_credential uid (snd (add_credential_stmt nid n ai s))"
      using keepsD [OF keeps_bind [OF keeps_insert_credential keeps_return]]
      by (auto simp: add_credential_stmt_def split: option.splits)
  qed
next
  case (11 n lo)
  show ?case
    by (auto simp: login_stmt_def keeps_def sql_update_def intro: has_credential_update_credentials)
next
  case (12 uid' fi)
  show ?case
    by (rule keeps_update, rule has_credential_update_credentials) (auto simp: finalized_credential_def)
next
  case (13 cid uid' wpk wak)
  show ?case
    by (auto simp: rewrap_stmt_def keeps_def sql_update_def intro: has_credential_update_credentials
        split: option.splits)
next
  case (14 rid uid' name)
  show ?case by (rule keeps_update, rule has_credential_update_credentials) auto
next
  case (15 rid uid')
  show ?case
  proof (rule keepsI)
    fix s assume "has_credential uid s"
    then show "has_credential uid (snd (delete_postgres_stmt rid uid' s))"
      unfolding delete_postgres_stmt_def Let_def snd_conv
      by (rule has_credential_delete [where rid = rid and uid' = uid'
            and extra = "credentials_with_id rid (credentials_of uid' s) \<noteq> []"]) auto
  qed
next
  case (16 rid uid')
  show ?case
    by (auto simp: keeps_def delete_sqlite_stmt_def sql_delete_def Let_def
        intro!: has_credential_delete [where rid = rid and uid' = uid' and extra = True])
qed (auto simp: stmt_defs has_credential_def credentials_of_def split: option.splits sum.splits prod.splits)

section \<open>No credential is ahead of its user's epoch\<close>

definition epoch_bounded :: "user_row list \<Rightarrow> credential_row \<Rightarrow> bool" where
  "epoch_bounded us c \<longleftrightarrow>
     (\<exists>u \<in> set us. u_id u = c_user_id c \<and> 1 \<le> c_wrapped_key_epoch c \<and> c_wrapped_key_epoch c \<le> u_wrapped_key_epoch u)"

definition epochs_ok :: "database \<Rightarrow> bool" where
  "epochs_ok s \<longleftrightarrow> distinct (map u_id (db_users s))
     \<and> (\<forall>u \<in> set (db_users s). 1 \<le> u_wrapped_key_epoch u)
     \<and> (\<forall>c \<in> set (db_credentials s). epoch_bounded (db_users s) c)"

lemma on_tables_epochs_ok: "on_tables epochs_ok"
  by (rule on_tables_dbI) (simp add: epochs_ok_def)

lemma epochs_ok_users:
  assumes "epochs_ok s"
    and "\<And>u. P u \<Longrightarrow> u_id (f u) = u_id u \<and> u_wrapped_key_epoch u \<le> u_wrapped_key_epoch (f u)"
  shows "epochs_ok (put_users (update_rows P f (db_users s)) s)"
proof -
  let ?g = "\<lambda>u. if P u then f u else u"
  have g: "u_id (?g u) = u_id u \<and> u_wrapped_key_epoch u \<le> u_wrapped_key_epoch (?g u)" for u
    using assms(2) by simp
  have "map u_id (update_rows P f (db_users s)) = map u_id (db_users s)"
    by (rule distinct_update_rows) (use assms(2) in auto)
  moreover have "epoch_bounded (update_rows P f (db_users s)) c" if c: "c \<in> set (db_credentials s)" for c
  proof -
    obtain u where "u \<in> set (db_users s)" "u_id u = c_user_id c" "1 \<le> c_wrapped_key_epoch c"
      "c_wrapped_key_epoch c \<le> u_wrapped_key_epoch u"
      using assms(1) c by (auto simp: epochs_ok_def epoch_bounded_def)
    then show ?thesis
      unfolding epoch_bounded_def set_update_rows
      using g [of u] by (intro bexI [of _ "?g u"] imageI) auto
  qed
  moreover have "1 \<le> u_wrapped_key_epoch v" if "v \<in> set (update_rows P f (db_users s))" for v
  proof -
    obtain u where "u \<in> set (db_users s)" "v = ?g u" using \<open>v \<in> _\<close> by (auto simp: set_update_rows)
    moreover from this have "1 \<le> u_wrapped_key_epoch u" using assms(1) by (simp add: epochs_ok_def)
    ultimately show ?thesis using g [of u] by simp
  qed
  ultimately show ?thesis using assms(1) by (simp add: epochs_ok_def)
qed

lemma epochs_ok_credentials:
  assumes "epochs_ok s"
    and "\<And>c. c \<in> set (db_credentials s) \<Longrightarrow> P c \<Longrightarrow> epoch_bounded (db_users s) (f c)"
  shows "epochs_ok (put_credentials (update_rows P f (db_credentials s)) s)"
  using assms by (auto simp: epochs_ok_def set_update_rows)

lemma epochs_ok_insert:
  assumes "epochs_ok s" and "epoch_bounded (db_users s) r"
  shows "epochs_ok (put_credentials (db_credentials s @ [r]) s)"
  using assms by (auto simp: epochs_ok_def)

lemma epochs_ok_delete:
  "epochs_ok s \<Longrightarrow> epochs_ok (put_credentials (delete_rows P (db_credentials s)) s)"
  by (simp add: epochs_ok_def)

lemma active_epoch_SomeD:
  "active_epoch uid s = Some e \<Longrightarrow> \<exists>u \<in> set (db_users s). u_id u = uid \<and> u_wrapped_key_epoch u = e"
  by (auto simp: active_epoch_def find_Some_iff)

lemma epoch_bounded_active:
  "epochs_ok s \<Longrightarrow> active_epoch (c_user_id c) s = Some (c_wrapped_key_epoch c) \<Longrightarrow> epoch_bounded (db_users s) c"
  using active_epoch_SomeD by (fastforce simp: epoch_bounded_def epochs_ok_def)

lemma insert_credential_state:
  "snd (insert_credential r s) = s \<or> (c_user_id r \<in> u_id ` set (db_users s) \<and>
     snd (insert_credential r s) = put_credentials (db_credentials s @ [r]) s)"
  by (cases "c_user_id r \<in> u_id ` set (db_users s)")
    (simp_all add: insert_credential_def go_bind_def require_user_def sql_insert_def)

lemma epochs_ok_insert_credential:
  assumes "epochs_ok s" and "c_user_id r \<in> u_id ` set (db_users s) \<Longrightarrow> epoch_bounded (db_users s) r"
  shows "epochs_ok (snd (insert_credential r s))"
  using insert_credential_state [of r s] assms epochs_ok_insert by (elim disjE conjE) simp_all

lemma epochs_ok_same_epoch:
  assumes "epochs_ok s"
    and "\<And>c. c_user_id (f c) = c_user_id c \<and> c_wrapped_key_epoch (f c) = c_wrapped_key_epoch c"
  shows "epochs_ok (put_credentials (update_rows P f (db_credentials s)) s)"
proof (rule epochs_ok_credentials [OF assms(1)])
  fix c assume "c \<in> set (db_credentials s)"
  then have "epoch_bounded (db_users s) c" using assms(1) by (simp add: epochs_ok_def)
  then show "epoch_bounded (db_users s) (f c)" using assms(2) by (simp add: epoch_bounded_def)
qed

lemma epochs_ok_epoch_one:
  assumes "epochs_ok s"
    and "\<And>c. c_user_id (f c) = c_user_id c \<and> c_wrapped_key_epoch (f c) = 1"
  shows "epochs_ok (put_credentials (update_rows P f (db_credentials s)) s)"
proof (rule epochs_ok_credentials [OF assms(1)])
  fix c assume "c \<in> set (db_credentials s)"
  then have "epoch_bounded (db_users s) c" using assms(1) by (simp add: epochs_ok_def)
  then obtain u where "u \<in> set (db_users s)" "u_id u = c_user_id c" by (auto simp: epoch_bounded_def)
  then show "epoch_bounded (db_users s) (f c)"
    using assms by (intro bexI [of _ u] | simp add: epoch_bounded_def epochs_ok_def)+
qed

interpretation epochs: auth_invariant epochs_ok "{}"
proof (unfold_locales, goal_cases)
  case 1 show ?case by (rule on_tables_epochs_ok)
next
  case (2 n k ri)
  show ?case
    by (rule keeps_insert) (auto simp: epochs_ok_def epoch_bounded_def list_ex_iff same_user_key_def new_user_row_def)
next
  case (3 fi n)
  show ?case by (rule keeps_update, rule epochs_ok_users) (auto simp: finalized_row_def)
next
  case (4 uid' ips n)
  show ?case by (rule keeps_update, rule epochs_ok_users) auto
next
  case (5 uid' k n)
  show ?case by (auto simp: set_request_key_stmt_def keeps_def sql_update_def intro: epochs_ok_users)
next
  case (6 uid' name n)
  show ?case by (rule keeps_update, rule epochs_ok_users) auto
next
  case (7 uid' n)
  show ?case by (rule keeps_update, rule epochs_ok_users) auto
next
  case (8 uid' n)
  show ?case
  proof (rule keepsI)
    fix s assume "epochs_ok s"
    then show "epochs_ok (snd (delete_users (\<lambda>u. u_id u = uid' \<and> \<not> u_ready u \<and> u_created_at u < n) s))"
      by (fastforce simp: delete_users_def Let_def epochs_ok_def epoch_bounded_def distinct_delete_rows)
  qed
next
  case (9 cr)
  show ?case
    by (rule keepsI, rule epochs_ok_insert_credential)
      (use 9 in \<open>auto simp: epoch_bounded_def epochs_ok_def\<close>)
next
  case (10 nid n ai)
  show ?case
  proof (rule keepsI)
    fix s assume e: "epochs_ok s"
    show "epochs_ok (snd (add_credential_stmt nid n ai s))"
    proof (cases "active_epoch (ai_user_id ai) s")
      case (Some ep)
      define r where "r = \<lparr>c_id = nid, c_user_id = ai_user_id ai, c_credential_id = ai_credential_id ai,
             c_display_name = ai_display_name ai, c_public_key = ai_public_key ai,
             c_sign_count = ai_sign_count ai, c_wrapped_primary_key = ai_wrapped_primary_key ai,
             c_wrapped_anchor_key = ai_wrapped_anchor_key ai,
             c_attestation_payload = ai_attestation_payload ai,
             c_attestation_signature_es384 = ai_attestation_signature_es384 ai,
             c_attestation_signature_mldsa87 = ai_attestation_signature_mldsa87 ai,
             c_wrapped_key_epoch = ep, c_created_at = n, c_last_used_at = n\<rparr>"
      have b: "epoch_bounded (db_users s) r"
        by (rule epoch_bounded_active [OF e]) (simp add: r_def Some)
      have "snd (add_credential_stmt nid n ai s) = snd (insert_credential r s)"
        by (simp add: add_credential_stmt_def Some go_bind_def r_def split: prod.splits sum.splits)
      then show ?thesis using epochs_ok_insert_credential [OF e, of r] b by simp
    qed (simp add: add_credential_stmt_def e)
  qed
next
  case (11 n lo)
  show ?case
    by (rule keepsI) (simp add: login_stmt_def sql_update_def epochs_ok_same_epoch)
next
  case (12 uid' fi)
  show ?case by (rule keeps_update, erule epochs_ok_epoch_one) (simp add: finalized_credential_def)
next
  case (13 cid uid' wpk wak)
  show ?case
    by (auto simp: rewrap_stmt_def keeps_def sql_update_def intro!: epochs_ok_credentials epoch_bounded_active
        split: option.splits)
next
  case (14 rid uid' name)
  show ?case
    by (rule keeps_update, erule epochs_ok_same_epoch) simp
next
  case (15 rid uid')
  show ?case by (auto simp: keeps_def delete_postgres_stmt_def Let_def intro!: epochs_ok_delete)
next
  case (16 rid uid')
  show ?case by (auto simp: keeps_def delete_sqlite_stmt_def sql_delete_def Let_def intro!: epochs_ok_delete)
qed (auto simp: stmt_defs epochs_ok_def split: option.splits sum.splits prod.splits)

end
