(* ===== verification/Signing_Key_Properties.thy ===== *)
theory Signing_Key_Properties
  imports Signing_Key_Routes Auth_Invariants
begin

text \<open>
  What the signing-key handlers and the automatic store keep of the tables: every full
  publication proof in the table verifies under the anchor keys of its owner, rows of
  other users stay as they are, and what the public endpoint serves passes the check a
  client runs on it.
\<close>

section \<open>Proofs that verify\<close>

definition proof_checks ::
  "('ek, 'mk) crypto \<Rightarrow> string \<Rightarrow> string \<Rightarrow> user_id \<Rightarrow> string \<Rightarrow> string \<Rightarrow> key_id \<Rightarrow> string \<Rightarrow> signature_text \<Rightarrow> signature_text \<Rightarrow> bool" where
  "proof_checks cr anchor_es anchor_ml uid alg label kid payload sig_es sig_ml \<longleftrightarrow>
    (\<exists>p ek mlb se sm. parse_signing_key_publication_payload payload = Some p \<and> pp_v p = 1
       \<and> pp_user_id p = uid \<and> pp_algorithm p = alg \<and> pp_key_label p = label \<and> pp_key_id p = kid
       \<and> parse_anchor_pubkeys cr anchor_es anchor_ml = Inr (ek, mlb)
       \<and> parse_hybrid_signatures sig_es sig_ml = Inr (se, sm)
       \<and> verify_hybrid_signing_key_publication cr (Some ek) mlb p se sm = Inr ())"

definition owner_vouches ::
  "('ek, 'mk) crypto \<Rightarrow> user_row list \<Rightarrow> user_id \<Rightarrow> string \<Rightarrow> string \<Rightarrow> key_id \<Rightarrow> string \<Rightarrow> signature_text \<Rightarrow> signature_text \<Rightarrow> bool" where
  "owner_vouches cr us uid alg label kid payload sig_es sig_ml \<longleftrightarrow>
    (\<exists>u\<in>set us. u_id u = uid \<and> proof_checks cr (u_anchor_es384_public_key u) (u_anchor_mldsa87_public_key u)
       uid alg label kid payload sig_es sig_ml)"

definition key_proven :: "('ek, 'mk) crypto \<Rightarrow> user_row list \<Rightarrow> signing_key_row \<Rightarrow> bool" where
  "key_proven cr us k \<longleftrightarrow> (has_publication_proof k \<longrightarrow>
     owner_vouches cr us (sk_user_id k) (sk_algorithm k) (sk_key_label k) (sk_id k) (sk_publication_payload k)
       (sk_publication_signature_es384 k) (sk_publication_signature_mldsa87 k))"

definition keys_inv :: "('ek, 'mk) crypto \<Rightarrow> user_row list \<Rightarrow> signing_key_row list \<Rightarrow> bool" where
  "keys_inv cr us t \<longleftrightarrow> distinct (map u_id us) \<and> keys_ok t \<and> list_all (key_proven cr us) t"

definition signing_inv :: "('ek, 'mk) crypto \<Rightarrow> database \<Rightarrow> bool" where
  "signing_inv cr s \<longleftrightarrow> keys_inv cr (db_users s) (db_signing_keys s)"

lemma on_tables_signing_inv [keeps_intros]: "on_tables (signing_inv cr)"
  unfolding signing_inv_def by (rule on_tables_dbI) simp

section \<open>What each statement does\<close>

lemma db_stmt_okE:
  assumes "db_stmt m s = (Inr x, s1)"
  obtains fs where "m (s\<lparr>conn_faults := fs\<rparr>) = (Inr x, s1)"
  using assms by (cases rule: db_stmt_cases [of m s]) auto

lemma get_user_by_id_ok:
  assumes "get_user_by_id uid s = (Inr found, s')"
  shows "same_tables s s' \<and> found = map_option user_of_row (first_row (rows_where (\<lambda>r. u_id r = uid) (db_users s)))"
proof -
  have "get_user_by_id uid = go_bind (db_stmt (sql_select db_users (\<lambda>r. u_id r = uid)))
       (\<lambda>rs. go_return (map_option user_of_row (first_row rs)))"
    by (simp add: get_user_by_id_def get_user_def user_column_def)
  with assms show ?thesis
    by (cases rule: db_stmt_cases [of "sql_select db_users (\<lambda>r. u_id r = uid)" s])
      (auto simp: go_bind_def sql_select_def)
qed

lemma verify_proof_ok:
  assumes "verify_signing_key_publication_proof cr now uid alg label kid payload se sm s = (Inr (), s')"
  shows "db_users s' = db_users s \<and> db_signing_keys s' = db_signing_keys s
    \<and> owner_vouches cr (db_users s) uid alg label kid payload se sm"
proof -
  obtain p owner es_pub mlb a b where p: "parse_signing_key_publication_payload payload = Some p"
    "pp_v p = 1" "pp_user_id p = uid" "pp_algorithm p = alg" "pp_key_label p = label" "pp_key_id p = kid"
    and u: "get_user_by_id uid s = (Inr (Some owner), s')"
    and k: "parse_anchor_pubkeys cr (usr_anchor_es384_public_key owner) (usr_anchor_mldsa87_public_key owner)
        = Inr (es_pub, mlb)"
    and h: "parse_hybrid_signatures se sm = Inr (a, b)"
      "verify_hybrid_signing_key_publication cr (Some es_pub) mlb p a b = Inr ()"
    using assms
    by (auto simp: verify_signing_key_publication_proof_def signing_key_publication_version_def
        elim!: go_bind_okE split: if_splits option.splits)
  from get_user_by_id_ok [OF u] obtain r where st: "same_tables s s'"
    and r: "first_row (rows_where (\<lambda>r. u_id r = uid) (db_users s)) = Some r" "owner = user_of_row r"
    by (auto dest: sym)
  from first_row_where [OF r(1)] p k h r(2) same_tables_eqs [OF st] show ?thesis
    by (auto simp: owner_vouches_def proof_checks_def user_of_row_def)
qed

lemma create_signing_key_ok:
  assumes "create_signing_key now i s = (Inr r, s')"
  shows "r = signing_key_row_of (unix_seconds now) i \<and> db_users s' = db_users s
    \<and> db_signing_keys s' = db_signing_keys s @ [r]
    \<and> (\<forall>q\<in>set (db_signing_keys s). sk_id q \<noteq> sk_id r \<and> slot_of q \<noteq> slot_of r)"
  using assms
  by (auto simp: create_signing_key_def create_stmt_def insert_key_row_def require_user_def sql_insert_def
      already_exists_if_none_def list_ex_iff same_key_id_def
      elim!: go_bind_okE db_stmt_okE split: if_splits list.splits)

definition with_proof :: "int \<Rightarrow> string \<Rightarrow> string \<Rightarrow> string \<Rightarrow> signing_key_row \<Rightarrow> signing_key_row" where
  "with_proof n payload se sm k = k\<lparr>sk_publication_payload := payload, sk_publication_signature_es384 := se,
     sk_publication_signature_mldsa87 := sm, sk_updated_at := n\<rparr>"

lemma store_proof_ok:
  assumes "store_publication_proof now uid kid payload se sm s = (Inr r, s')"
  shows "db_users s' = db_users s
    \<and> db_signing_keys s' = update_rows (\<lambda>k. sk_user_id k = uid \<and> sk_id k = kid)
         (with_proof (unix_seconds now) payload se sm) (db_signing_keys s)"
  using assms
  by (auto simp: store_publication_proof_def sql_update_def with_proof_def [abs_def]
      elim!: go_bind_okE db_stmt_okE split: if_splits)

lemma set_published_ok:
  assumes "set_published now uid kid b s = (Inr r, s')"
  shows "db_users s' = db_users s
    \<and> db_signing_keys s' = update_rows (\<lambda>k. sk_user_id k = uid \<and> sk_id k = kid)
         (\<lambda>k. k\<lparr>sk_published := b, sk_updated_at := unix_seconds now\<rparr>) (db_signing_keys s)"
  using assms
  by (auto simp: set_published_def sql_update_def elim!: go_bind_okE db_stmt_okE)

lemma delete_signing_key_ok:
  assumes "delete_signing_key uid kid s = (Inr r, s')"
  shows "db_users s' = db_users s
    \<and> db_signing_keys s' = delete_rows (\<lambda>k. sk_user_id k = uid \<and> sk_id k = kid) (db_signing_keys s)"
  using assms
  by (auto simp: delete_signing_key_def sql_delete_def elim!: go_bind_okE db_stmt_okE)

lemma get_key_by_id_ok:
  assumes "get_key_by_id kid s = (Inr found, s')"
  shows "same_tables s s' \<and> found = first_row (rows_where (\<lambda>k. sk_id k = kid) (db_signing_keys s))"
  using assms
  by (cases rule: db_stmt_cases [of "sql_select db_signing_keys (\<lambda>k. sk_id k = kid)" s])
    (auto simp: get_key_by_id_def go_bind_def sql_select_def)

lemma get_key_for_user_ok:
  assumes "get_key_for_user uid kid s = (Inr (Some k), s')"
  shows "db_users s' = db_users s \<and> db_signing_keys s' = db_signing_keys s
    \<and> k \<in> set (db_signing_keys s) \<and> sk_id k = kid \<and> sk_user_id k = uid"
proof -
  have "get_key_by_id kid s = (Inr (Some k), s')" and uid: "sk_user_id k = uid"
    using assms by (auto simp: get_key_for_user_def elim!: go_bind_okE split: option.splits if_splits)
  from get_key_by_id_ok [OF this(1)] have "same_tables s s'"
    and "first_row (rows_where (\<lambda>k. sk_id k = kid) (db_signing_keys s)) = Some k" by auto
  then show ?thesis using same_tables_eqs first_row_where uid by fastforce
qed

text \<open>The audit log is the only table an audit call touches.\<close>

lemma keeps_audit_event_tx [keeps_intros]:
  "keeps (\<lambda>s. P (db_users s) (db_signing_keys s)) (audit_event_tx jv aid now c f)"
proof -
  have "on_tables (\<lambda>s :: database. P (db_users s) (db_signing_keys s))" by (rule on_tables_dbI) simp
  moreover have "keeps (\<lambda>s. P (db_users s) (db_signing_keys s)) (sql_insert db_audit_events put_audit_events cl r)"
    for cl r by (simp add: keeps_def sql_insert_def)
  ultimately show ?thesis
    unfolding audit_event_tx_def audit_insert_def by (intro keeps_intros)
qed

lemma keeps_key_audit: "keeps (\<lambda>s. P (db_users s) (db_signing_keys s)) (key_audit env c now ev rec md)"
  unfolding key_audit_def by (rule keeps_audit_event_tx)

section \<open>The table of keys under each change\<close>

lemma keys_inv_append:
  assumes "keys_inv cr us t" and "\<forall>q\<in>set t. sk_id q \<noteq> sk_id r \<and> slot_of q \<noteq> slot_of r" and "key_proven cr us r"
  shows "keys_inv cr us (t @ [r])"
  using assms by (auto simp: keys_inv_def keys_ok_def)

lemma keys_inv_update:
  assumes "keys_inv cr us t"
    and "\<And>k. k \<in> set t \<Longrightarrow> P k \<Longrightarrow> sk_id (f k) = sk_id k \<and> slot_of (f k) = slot_of k \<and> key_proven cr us (f k)"
  shows "keys_inv cr us (update_rows P f t)"
proof -
  have "map sk_id (update_rows P f t) = map sk_id t" "map slot_of (update_rows P f t) = map slot_of t"
    using assms(2) by (auto simp: update_rows_def)
  then show ?thesis
    using assms by (auto simp: keys_inv_def keys_ok_def list_all_iff set_update_rows)
qed

lemma keys_inv_delete: "keys_inv cr us t \<Longrightarrow> keys_inv cr us (delete_rows P t)"
  by (auto simp: keys_inv_def keys_ok_def distinct_delete_rows list_all_iff set_delete_rows)

text \<open>The automatic store may give the one row of its slot a new id that no other row has.\<close>

lemma keys_inv_replace:
  assumes inv: "keys_inv cr us t"
    and P: "\<And>k. k \<in> set t \<Longrightarrow> P k \<Longrightarrow> slot_of k = slot \<and> slot_of (f k) = slot \<and> sk_id (f k) = kid
        \<and> key_proven cr us (f k)"
    and free: "\<And>q. q \<in> set t \<Longrightarrow> slot_of q \<noteq> slot \<Longrightarrow> sk_id q \<noteq> kid"
  shows "keys_inv cr us (update_rows P f t)"
proof -
  let ?h = "\<lambda>k. if P k then f k else k"
  have slots: "map slot_of (update_rows P f t) = map slot_of t"
    using P by (auto simp: update_rows_def)
  have d: "distinct t" "inj_on slot_of (set t)" "inj_on sk_id (set t)"
    using inv by (auto simp: keys_inv_def keys_ok_def distinct_map)
  have "inj_on (\<lambda>k. sk_id (?h k)) (set t)"
  proof (rule inj_onI)
    fix x y assume xy: "x \<in> set t" "y \<in> set t" and e: "sk_id (?h x) = sk_id (?h y)"
    have same: "z \<in> set t \<Longrightarrow> w \<in> set t \<Longrightarrow> slot_of z = slot_of w \<Longrightarrow> z = w" for z w
      using d(2) by (auto dest: inj_onD)
    show "x = y"
      using xy e same [of x y] P [of x] P [of y] free [of x] free [of y] inj_onD [OF d(3), of x y]
      by (cases "P x"; cases "P y") (simp_all, metis+)
  qed
  then have "distinct (map sk_id (update_rows P f t))"
    using d(1) by (simp add: update_rows_def distinct_map comp_def)
  then show ?thesis
    using inv slots P by (auto simp: keys_inv_def keys_ok_def list_all_iff set_update_rows)
qed

lemma keeps_auto_store: "keeps (signing_inv cr) (auto_store_unpublished now i)"
proof -
  have "keeps (signing_inv cr) (auto_store_stmt n i)" for n
  proof (rule keepsI)
    fix s assume I: "signing_inv cr s"
    have unproven: "key_proven cr us k" if "sk_publication_payload k = []" for us k
      using that by (simp add: key_proven_def has_publication_proof_def)
    have slots: "slot_of (signing_key_row_of n (i\<lparr>ki_published := False, ki_publication_payload := [],
        ki_publication_signature_es384 := [], ki_publication_signature_mldsa87 := []\<rparr>)) = input_slot i"
      by (simp add: slot_of_def input_slot_def signing_key_row_of_def)
    let ?same = "list_ex (\<lambda>q. slot_of q = input_slot i) (db_signing_keys s)"
    let ?open = "list_ex (replaceable (input_slot i)) (db_signing_keys s)"
    let ?taken = "list_ex (\<lambda>q. slot_of q \<noteq> input_slot i \<and> sk_id q = ki_id i) (db_signing_keys s)"
    show "signing_inv cr (snd (auto_store_stmt n i s))"
    proof (cases ?same)
      case False
      then show ?thesis
        using I slots
        by (auto simp: auto_store_stmt_def list_ex_iff insert_key_row_def go_bind_def require_user_def
            sql_insert_def same_key_id_def signing_inv_def intro!: keys_inv_append unproven)
          (simp add: signing_key_row_of_def)
    next
      case same: True
      show ?thesis
      proof (cases "?open \<and> ?taken")
        case True
        with same I show ?thesis by (simp add: auto_store_stmt_def)
      next
        case False
        with same have stmt: "auto_store_stmt n i s = sql_update db_signing_keys put_signing_keys (replaceable (input_slot i))
          (\<lambda>k. k\<lparr>sk_id := ki_id i, sk_jwk := ki_jwk i, sk_pem := ki_pem i, sk_updated_at := n\<rparr>) s"
          by (simp only: auto_store_stmt_def if_True if_False)
        show ?thesis
        proof (cases ?open)
          case True
          then show ?thesis
            using I False unfolding signing_inv_def stmt
            by (auto simp: sql_update_def list_ex_iff replaceable_def slot_of_def
                intro!: keys_inv_replace [where slot = "input_slot i" and kid = "ki_id i"] unproven)
        next
          case False
          then have "update_rows (replaceable (input_slot i)) f (db_signing_keys s) = db_signing_keys s" for f
            by (intro update_rows_none) (auto simp: list_ex_iff)
          then show ?thesis using I stmt by (simp add: sql_update_def signing_inv_def)
        qed
      qed
    qed
  qed
  then show ?thesis unfolding auto_store_unpublished_def by (intro keeps_intros)
qed

section \<open>The handlers\<close>

lemma yields_audit:
  "yields (signing_inv cr) (go_bind (key_audit env c now ev rec md) (\<lambda>_. go_return x)) (\<lambda>_. signing_inv cr)"
  unfolding signing_inv_def by (intro yields_keeps keeps_bind keeps_key_audit keeps_return)

lemma yields_create:
  "yields (signing_inv (env_crypto env)) (create_in_transaction env c req kid canonical)
     (\<lambda>_. signing_inv (env_crypto env))"
  (is "yields ?I _ _")
proof -
  let ?vouched = "\<lambda>s. owner_vouches (env_crypto env) (db_users s) (call_user_id c) (kreq_algorithm req)
      (kreq_key_label req) kid (kreq_payload req) (kreq_sig_es384 req) (kreq_sig_mldsa87 req)"
  have verify: "yields ?I (go_when (create_has_proof req)
        (map_error proof_rejected (verify_signing_key_publication_proof (env_crypto env) now (call_user_id c)
           (kreq_algorithm req) (kreq_key_label req) kid (kreq_payload req) (kreq_sig_es384 req) (kreq_sig_mldsa87 req))))
      (\<lambda>_ s. ?I s \<and> (create_has_proof req \<longrightarrow> ?vouched s))" for now
    by (auto simp: yields_def go_when_def map_error_ok signing_inv_def dest!: verify_proof_ok)
  have create: "yields (\<lambda>s. ?I s \<and> (create_has_proof req \<longrightarrow> ?vouched s))
      (map_error conflict_if_exists (create_signing_key now (insert_input_of (call_user_id c) kid canonical req)))
      (\<lambda>_. ?I)" for now
    by (auto simp: yields_def map_error_ok signing_inv_def dest!: create_signing_key_ok
        intro!: keys_inv_append)
      (auto simp: key_proven_def has_publication_proof_def create_has_proof_def signing_key_row_of_def insert_input_of_def)
  show ?thesis
    unfolding create_in_transaction_def by (intro yields_bind [OF verify] yields_bind [OF create] yields_audit)
qed

lemma yields_update:
  "yields (signing_inv (env_crypto env)) (update_in_transaction env c kid req)
     (\<lambda>_. signing_inv (env_crypto env))"
  (is "yields ?I _ _")
proof -
  let ?uid = "call_user_id c"
  let ?mine = "\<lambda>k s. ?I s \<and> k \<in> set (db_signing_keys s) \<and> sk_id k = kid \<and> sk_user_id k = ?uid"
  have get: "yields ?I (get_key_for_user ?uid kid) (\<lambda>found s. case found of None \<Rightarrow> ?I s | Some k \<Rightarrow> ?mine k s)"
  proof (rule yieldsI)
    fix s x s1 assume I: "?I s" and g: "get_key_for_user ?uid kid s = (Inr x, s1)"
    have "keeps ?I (get_key_for_user ?uid kid)"
      unfolding get_key_for_user_def get_key_by_id_def by (intro keeps_intros)
    then have "?I s1" using I g by (rule keeps_stepD)
    then show "case x of None \<Rightarrow> ?I s1 | Some k \<Rightarrow> ?mine k s1"
      using g get_key_for_user_ok by (fastforce split: option.splits)
  qed
  have vouched: "yields (?mine k)
      (map_error proof_rejected (verify_signing_key_publication_proof (env_crypto env) now ?uid
          (sk_algorithm k) (sk_key_label k) (sk_id k) (preq_payload req) (preq_sig_es384 req) (preq_sig_mldsa87 req)))
      (\<lambda>_ s. ?mine k s \<and> owner_vouches (env_crypto env) (db_users s) ?uid (sk_algorithm k) (sk_key_label k) (sk_id k)
          (preq_payload req) (preq_sig_es384 req) (preq_sig_mldsa87 req))" for k now
    by (auto simp: yields_def map_error_ok signing_inv_def dest!: verify_proof_ok)
  have store: "yields (\<lambda>s. ?mine k s \<and> owner_vouches (env_crypto env) (db_users s) ?uid (sk_algorithm k)
          (sk_key_label k) (sk_id k) (preq_payload req) (preq_sig_es384 req) (preq_sig_mldsa87 req))
      (store_publication_proof now ?uid kid (preq_payload req) (preq_sig_es384 req) (preq_sig_mldsa87 req))
      (\<lambda>_. ?I)" for k now
  proof (rule yieldsI)
    fix s x s1
    assume pre: "?mine k s \<and> owner_vouches (env_crypto env) (db_users s) ?uid (sk_algorithm k)
          (sk_key_label k) (sk_id k) (preq_payload req) (preq_sig_es384 req) (preq_sig_mldsa87 req)"
      and st: "store_publication_proof now ?uid kid (preq_payload req) (preq_sig_es384 req) (preq_sig_mldsa87 req) s
          = (Inr x, s1)"
    have "inj_on sk_id (set (db_signing_keys s))"
      using pre by (auto simp: signing_inv_def keys_inv_def keys_ok_def distinct_map)
    then have one: "q = k" if "q \<in> set (db_signing_keys s)" "sk_id q = kid" for q
      using pre that by (auto dest: inj_onD)
    have "keys_inv (env_crypto env) (db_users s) (update_rows (\<lambda>k. sk_user_id k = ?uid \<and> sk_id k = kid)
        (with_proof (unix_seconds now) (preq_payload req) (preq_sig_es384 req) (preq_sig_mldsa87 req)) (db_signing_keys s))"
    proof (rule keys_inv_update)
      show "keys_inv (env_crypto env) (db_users s) (db_signing_keys s)" using pre by (simp add: signing_inv_def)
      fix q assume "q \<in> set (db_signing_keys s)" "sk_user_id q = ?uid \<and> sk_id q = kid"
      with one have "q = k" by blast
      with pre show "sk_id (with_proof (unix_seconds now) (preq_payload req) (preq_sig_es384 req) (preq_sig_mldsa87 req) q)
           = sk_id q \<and> slot_of (with_proof (unix_seconds now) (preq_payload req) (preq_sig_es384 req) (preq_sig_mldsa87 req) q)
           = slot_of q \<and> key_proven (env_crypto env) (db_users s)
           (with_proof (unix_seconds now) (preq_payload req) (preq_sig_es384 req) (preq_sig_mldsa87 req) q)"
        by (auto simp: with_proof_def key_proven_def slot_of_def)
    qed
    with store_proof_ok [OF st] show "?I s1" by (simp add: signing_inv_def)
  qed
  have publish: "yields ?I (set_published now ?uid kid b) (\<lambda>_. ?I)" for now b
    by (auto simp: yields_def signing_inv_def dest!: set_published_ok intro!: keys_inv_update)
      (auto simp: key_proven_def has_publication_proof_def slot_of_def keys_inv_def list_all_iff)
  have attach: "yields (?mine k)
      (if publish_has_proof req then
         go_bind (map_error proof_rejected (verify_signing_key_publication_proof (env_crypto env) t1 ?uid
             (sk_algorithm k) (sk_key_label k) (sk_id k) (preq_payload req) (preq_sig_es384 req) (preq_sig_mldsa87 req))) (\<lambda>_.
         go_bind (store_publication_proof t2 ?uid kid (preq_payload req) (preq_sig_es384 req) (preq_sig_mldsa87 req))
           (\<lambda>_. go_return ()))
       else if b then go_fail e else go_return ()) (\<lambda>_. ?I)" for k t1 t2 b e
  proof (cases "publish_has_proof req")
    case True
    then show ?thesis
      by (simp only: if_True) (intro yields_bind [OF vouched] yields_bind [OF store] yields_return)
  next
    case False
    then show ?thesis by (cases b) (simp_all add: yields_def)
  qed
  have rest: "yields ?I (go_bind (set_published t1 ?uid kid b) (\<lambda>updated.
       go_bind (key_audit env c t2 ev updated (md updated)) (\<lambda>_. go_return updated))) (\<lambda>_. ?I)" for t1 t2 b ev md
    by (intro yields_bind [OF publish] yields_audit)
  show ?thesis
    unfolding update_in_transaction_def
    by (rule yields_bind [OF get], rule yields_option, rule yields_fail, rule yields_bind [OF attach rest])
qed

section \<open>Sequences of calls\<close>

text \<open>A call of a handler, of the public endpoint, or of the automatic store after a sign operation.\<close>

datatype signing_key_call =
    Key_List api_call
  | Key_Create api_call "signing_key_create_request option"
  | Key_Update api_call string "set_published_request option"
  | Key_Get api_call string
  | Key_Delete api_call string
  | Key_Public string
  | Key_Auto_Store go_time insert_signing_key_input

fun run_key_call :: "('ek, 'mk) api_env \<Rightarrow> signing_key_call \<Rightarrow> database \<Rightarrow> database" where
  "run_key_call env (Key_List c) s = snd (route_signing_key_list c s)"
| "run_key_call env (Key_Create c body) s = snd (route_signing_key_create env c body s)"
| "run_key_call env (Key_Update c kid body) s = snd (route_signing_key_update env c kid body s)"
| "run_key_call env (Key_Get c kid) s = snd (route_signing_key_get c kid s)"
| "run_key_call env (Key_Delete c kid) s = snd (route_signing_key_delete env c kid s)"
| "run_key_call env (Key_Public filename) s = snd (route_signing_key_public filename s)"
| "run_key_call env (Key_Auto_Store now i) s = snd (auto_store_unpublished now i s)"

text \<open>Calls that only read keep every property of the tables.\<close>

lemma keeps_key_reads:
  assumes "on_tables I"
  shows "keeps I (route_signing_key_list c)" and "keeps I (route_signing_key_get c kid)"
    and "keeps I (route_signing_key_public filename)"
proof -
  note reads = list_keys_for_user_def get_key_for_user_def get_published_by_id_def get_key_by_id_def
    read_public_data_def get_user_by_id_def get_user_def
  show "keeps I (route_signing_key_list c)"
    unfolding route_signing_key_list_def reads by (intro keeps_intros assms)
  show "keeps I (route_signing_key_get c kid)"
    unfolding route_signing_key_get_def reads by (intro keeps_intros assms)
  show "keeps I (route_signing_key_public filename)"
    unfolding route_signing_key_public_def reads by (intro keeps_intros assms)
qed

lemma keeps_delete_route:
  assumes "on_tables I" and "\<And>c now ev rec md. keeps I (key_audit env c now ev rec md)"
    and "keeps I (delete_signing_key (call_user_id c) kid)"
  shows "keeps I (route_signing_key_delete env c kid)"
  unfolding route_signing_key_delete_def by (intro keeps_intros assms)

lemma keeps_create_route:
  assumes "on_tables I" and "\<And>req kid canonical. yields I (create_in_transaction env c req kid canonical) (\<lambda>_. I)"
  shows "keeps I (route_signing_key_create env c body)"
  unfolding route_signing_key_create_def by (intro keeps_intros keeps_transaction_yields assms)

lemma keeps_update_route:
  assumes "on_tables I" and "\<And>req. yields I (update_in_transaction env c kid req) (\<lambda>_. I)"
  shows "keeps I (route_signing_key_update env c kid body)"
  unfolding route_signing_key_update_def by (intro keeps_intros keeps_transaction_yields assms)

lemma keeps_run_key_call:
  "signing_inv (env_crypto env) s \<Longrightarrow> signing_inv (env_crypto env) (run_key_call env call s)"
proof -
  note on = on_tables_signing_inv [of "env_crypto env"]
  have del: "keeps (signing_inv (env_crypto env)) (delete_signing_key uid kid)" for uid kid
    unfolding delete_signing_key_def
    by (intro keeps_intros on) (auto simp: keeps_def sql_delete_def signing_inv_def keys_inv_delete)
  have aud: "keeps (signing_inv (env_crypto env)) (key_audit env c now ev rec md)" for c now ev rec md
    unfolding signing_inv_def by (rule keeps_key_audit)
  assume I: "signing_inv (env_crypto env) s"
  show ?thesis
    by (cases call)
      (auto intro!: keepsD [where I = "signing_inv (env_crypto env)", OF _ I] keeps_key_reads on keeps_create_route yields_create keeps_update_route
        yields_update keeps_delete_route del keeps_auto_store aud)
qed

interpretation key_calls: call_system "run_key_call env" "signing_inv (env_crypto env)" for env
  by unfold_locales (rule keeps_run_key_call)

abbreviation run_key_calls :: "('ek, 'mk) api_env \<Rightarrow> signing_key_call list \<Rightarrow> database \<Rightarrow> database" where
  "run_key_calls env cs s \<equiv> fold (run_key_call env) cs s"

text \<open>C10: From a database in which it holds (an empty key table, say), whatever calls of the signing-key
  handlers and the automatic store run, with statements failing at any point: ids and slots stay unique, and
  every row with a full publication proof has one that verifies, under the anchor keys of the row's own
  owner, for exactly this user, algorithm, label and key id.\<close>

theorem stored_proofs_verify:
  assumes "signing_inv (env_crypto env) s" and "k \<in> set (db_signing_keys (run_key_calls env cs s))"
    and "has_publication_proof k"
  shows "owner_vouches (env_crypto env) (db_users (run_key_calls env cs s)) (sk_user_id k) (sk_algorithm k)
      (sk_key_label k) (sk_id k) (sk_publication_payload k) (sk_publication_signature_es384 k)
      (sk_publication_signature_mldsa87 k)"
  using key_calls.runs_inv [OF assms(1), of cs] assms(2,3)
  by (auto simp: signing_inv_def keys_inv_def list_all_iff key_proven_def)

section \<open>What the public endpoint serves\<close>

lemma parse_hybrid_signatures_ok:
  "parse_hybrid_signatures es ml = Inr (a, b) \<longleftrightarrow>
     decode_base64_signature es es384_signature_size = Inr a \<and> decode_base64_signature ml mldsa87_signature_size = Inr b"
  by (auto simp: parse_hybrid_signatures_def split: sum.splits)

lemma parse_anchor_pubkeys_size: "parse_anchor_pubkeys cr es ml = Inr (ek, mlb) \<Longrightarrow> length mlb = mldsa87_public_key_size"
  by (auto simp: parse_anchor_pubkeys_def split: if_splits option.splits sum.splits)

text \<open>The options of a client that pins the given anchor and expects the given key.\<close>

definition client_options :: "'ek \<Rightarrow> string \<Rightarrow> string \<Rightarrow> string \<Rightarrow> string \<Rightarrow> string \<Rightarrow> 'ek publication_verify_options" where
  "client_options ek mlb uid alg label kid =
    \<lparr>vo_es384_pub = Some ek, vo_mldsa87_pub_bytes = mlb, vo_expected_user_id = uid, vo_expected_algorithm = alg,
     vo_expected_key_label = label, vo_expected_key_id = kid\<rparr>"

lemma client_accepts:
  assumes "proof_checks cr anchor_es anchor_ml uid alg label kid payload es ml"
    and "payload \<noteq> []" "es \<noteq> []" "ml \<noteq> []"
  shows "\<exists>ek mlb p. parse_anchor_pubkeys cr anchor_es anchor_ml = Inr (ek, mlb)
    \<and> verify_signing_key_public_response cr payload es ml (client_options ek mlb uid alg label kid) = Inr p"
  using assms
  by (fastforce simp: proof_checks_def verify_signing_key_public_response_def client_options_def
      signing_key_publication_version_def parse_hybrid_signatures_ok dest: parse_anchor_pubkeys_size)

lemma last_index_byte_split:
  "last_index_byte c xs = int i \<Longrightarrow> xs = take i xs @ c # drop (Suc i) xs"
proof (induction xs arbitrary: i)
  case (Cons x xs)
  show ?case
  proof (cases "last_index_byte c xs \<ge> 0")
    case True
    then obtain j where j: "last_index_byte c xs = int j" using nonneg_int_cases by blast
    then have "i = Suc j" using Cons.prems by simp
    then show ?thesis using Cons.IH [OF j] by simp
  next
    case False
    then have "x = c" "i = 0" using Cons.prems by (auto simp: Let_def split: if_splits)
    then show ?thesis by simp
  qed
qed simp

lemma last_index_byte_less: "last_index_byte c xs < int (length xs)"
  by (induction xs) (auto simp: Let_def)

lemma split_filename_ok:
  assumes "split_filename filename = Some (kid, ext)"
  shows "filename = kid @ CHR ''.'' # ext \<and> kid \<noteq> [] \<and> ext \<noteq> []"
proof -
  let ?d = "last_index_byte CHR ''.'' filename"
  have d: "?d > 0" "?d \<noteq> int (length filename) - 1" "kid = take (nat ?d) filename" "ext = drop (nat ?d + 1) filename"
    using assms by (auto simp: split_filename_def Let_def split: if_splits)
  then have f: "filename = take (nat ?d) filename @ CHR ''.'' # drop (nat ?d + 1) filename"
    by (intro last_index_byte_split [unfolded Suc_eq_plus1]) simp
  have "filename = kid @ CHR ''.'' # ext" unfolding d(3,4) by (rule f)
  moreover have "kid \<noteq> [] \<and> ext \<noteq> []"
    using d last_index_byte_less [of "CHR ''.''" filename] by auto
  ultimately show ?thesis by blast
qed

lemma read_public_data_ok:
  assumes "read_public_data kid s = (Inr (k, owner), s')"
  shows "k \<in> set (db_signing_keys s) \<and> sk_id k = kid \<and> sk_published k \<and> has_publication_proof k
    \<and> (\<exists>u\<in>set (db_users s). u_id u = sk_user_id k \<and> owner = user_of_row u)"
proof -
  obtain s1 where k: "get_key_by_id kid s = (Inr (Some k), s1)" "sk_published k" "has_publication_proof k"
    and u: "get_user_by_id (sk_user_id k) s1 = (Inr (Some owner), s')"
    using assms
    by (auto simp: read_public_data_def get_published_by_id_def elim!: go_bind_okE
        split: option.splits if_splits)
  from get_key_by_id_ok [OF k(1)] have eq: "db_users s1 = db_users s"
    and row: "first_row (rows_where (\<lambda>k. sk_id k = kid) (db_signing_keys s)) = Some k"
    by (auto dest: same_tables_eqs(1))
  from get_user_by_id_ok [OF u] eq obtain r where "owner = user_of_row r"
    "first_row (rows_where (\<lambda>r. u_id r = sk_user_id k) (db_users s)) = Some r" by (auto dest: sym)
  then show ?thesis using first_row_where [OF row] first_row_where k(2,3) by fastforce
qed

lemma public_jwk_served:
  assumes "route_signing_key_public filename s = (Inr (Public_Jwk r), s')"
  shows "\<exists>k ext u. filename = sk_id k @ CHR ''.'' # ext \<and> k \<in> set (db_signing_keys s) \<and> sk_published k
    \<and> has_publication_proof k \<and> u \<in> set (db_users s) \<and> u_id u = sk_user_id k
    \<and> r = public_response_of k (user_of_row u)"
proof -
  obtain kid ext k owner s1 where f: "split_filename filename = Some (kid, ext)"
    and t: "db_transaction (read_public_data kid) s = (Inr (k, owner), s1)" and r: "r = public_response_of k owner"
    using assms
    by (auto simp: route_signing_key_public_def elim!: go_bind_okE split: option.splits if_splits)
  from t obtain fs s2 where "read_public_data kid (s\<lparr>conn_faults := fs, conn_in_tx := True\<rparr>) = (Inr (k, owner), s2)"
    by (rule db_transaction_ok)
  from read_public_data_ok [OF this] split_filename_ok [OF f] r show ?thesis by auto
qed

text \<open>C11: The server and its clients agree on what a proof is: what the public endpoint returns for a JWK
  request, after any sequence of calls, is the published key whose id is the file name up to its last dot,
  and a client that pins the anchor keys in the response and runs \<open>VerifySigningKeyPublicResponse\<close> on it, with
  the response's own id, label and algorithm as expectations, accepts it.\<close>

theorem served_key_verifies:
  assumes "signing_inv (env_crypto env) s"
    and "route_signing_key_public filename (run_key_calls env cs s) = (Inr (Public_Jwk r), s')"
  shows "\<exists>k ext ek mlb p. k \<in> set (db_signing_keys (run_key_calls env cs s)) \<and> sk_published k
    \<and> filename = sk_id k @ CHR ''.'' # ext \<and> pubr_id r = sk_id k
    \<and> parse_anchor_pubkeys (env_crypto env) (pubr_anchor_es384 r) (pubr_anchor_mldsa87 r) = Inr (ek, mlb)
    \<and> verify_signing_key_public_response (env_crypto env) (pubr_payload r) (pubr_sig_es384 r) (pubr_sig_mldsa87 r)
        (client_options ek mlb (sk_user_id k) (pubr_algorithm r) (pubr_key_label r) (pubr_id r)) = Inr p"
proof -
  let ?s = "run_key_calls env cs s"
  have inv: "signing_inv (env_crypto env) ?s" using assms(1) by (rule key_calls.runs_inv)
  from public_jwk_served [OF assms(2)] obtain k ext u where
    k: "filename = sk_id k @ CHR ''.'' # ext" "k \<in> set (db_signing_keys ?s)" "has_publication_proof k"
      "u \<in> set (db_users ?s)" "u_id u = sk_user_id k" "r = public_response_of k (user_of_row u)" "sk_published k" by blast
  obtain v where v: "v \<in> set (db_users ?s)" "u_id v = sk_user_id k"
    and checks: "proof_checks (env_crypto env) (u_anchor_es384_public_key v) (u_anchor_mldsa87_public_key v)
       (sk_user_id k) (sk_algorithm k) (sk_key_label k) (sk_id k) (sk_publication_payload k)
       (sk_publication_signature_es384 k) (sk_publication_signature_mldsa87 k)"
    using inv k(2,3) by (auto simp: signing_inv_def keys_inv_def list_all_iff key_proven_def owner_vouches_def)
  have "inj_on u_id (set (db_users ?s))"
    using inv by (auto simp: signing_inv_def keys_inv_def distinct_map)
  then have "v = u" using v k(4,5) by (metis inj_onD)
  with client_accepts [OF checks] k(3) obtain ek mlb p where
    a: "parse_anchor_pubkeys (env_crypto env) (u_anchor_es384_public_key u) (u_anchor_mldsa87_public_key u) = Inr (ek, mlb)"
    and ok: "verify_signing_key_public_response (env_crypto env) (sk_publication_payload k)
      (sk_publication_signature_es384 k) (sk_publication_signature_mldsa87 k)
      (client_options ek mlb (sk_user_id k) (sk_algorithm k) (sk_key_label k) (sk_id k)) = Inr p"
    by (auto simp: has_publication_proof_def)
  with k(1,2,6,7) show ?thesis by (auto simp: public_response_of_def user_of_row_def)
qed

section \<open>Rows of other users\<close>

fun call_owner :: "signing_key_call \<Rightarrow> string option" where
  "call_owner (Key_List c) = Some (call_user_id c)"
| "call_owner (Key_Create c _) = Some (call_user_id c)"
| "call_owner (Key_Update c _ _) = Some (call_user_id c)"
| "call_owner (Key_Get c _) = Some (call_user_id c)"
| "call_owner (Key_Delete c _) = Some (call_user_id c)"
| "call_owner (Key_Public _) = None"
| "call_owner (Key_Auto_Store _ i) = Some (ki_user_id i)"

definition keys_of :: "string \<Rightarrow> database \<Rightarrow> signing_key_row list" where
  "keys_of uid s = rows_where (\<lambda>k. sk_user_id k = uid) (db_signing_keys s)"

lemma rows_where_update_other:
  "(\<And>k. P k \<Longrightarrow> \<not> Q k \<and> \<not> Q (f k)) \<Longrightarrow> rows_where Q (update_rows P f t) = rows_where Q t"
  by (induction t) (auto simp: rows_where_def update_rows_def)

lemma rows_where_delete_other: "(\<And>k. P k \<Longrightarrow> \<not> Q k) \<Longrightarrow> rows_where Q (delete_rows P t) = rows_where Q t"
  by (induction t) (auto simp: rows_where_def delete_rows_def)

lemma rows_where_append_other: "\<not> Q r \<Longrightarrow> rows_where Q (t @ [r]) = rows_where Q t"
  by (simp add: rows_where_def)

lemma on_tables_keys_of: "on_tables (\<lambda>s. keys_of uid s = K)"
  unfolding keys_of_def by (rule on_tables_signing_keys)

lemma keeps_keys_of:
  assumes "call_owner call \<noteq> Some uid"
  shows "keys_of uid (run_key_call env call s) = keys_of uid s"
proof -
  let ?I = "\<lambda>t. keys_of uid t = keys_of uid s"
  note on = on_tables_keys_of [of uid "keys_of uid s"]
  have aud: "keeps ?I (key_audit env c now ev rec md)" for c now ev rec md
    unfolding keys_of_def by (rule keeps_key_audit)
  have ins: "keeps ?I (insert_key_row r)" if "sk_user_id r \<noteq> uid" for r
    using that by (auto simp: keeps_def insert_key_row_def go_bind_def require_user_def sql_insert_def keys_of_def
        rows_where_def)
  have upd: "keeps ?I (sql_update db_signing_keys put_signing_keys P f)"
    if "\<And>k. P k \<Longrightarrow> sk_user_id k \<noteq> uid \<and> sk_user_id (f k) \<noteq> uid" for P f
    using rows_where_update_other [of P "\<lambda>k. sk_user_id k = uid" f] that
    by (simp add: keeps_def sql_update_def keys_of_def)
  have del: "keeps ?I (delete_signing_key v kid)" if "v \<noteq> uid" for v kid
    unfolding delete_signing_key_def
  proof (intro keeps_intros on)
    have "rows_where (\<lambda>k. sk_user_id k = uid) (delete_rows (\<lambda>k. sk_user_id k = v \<and> sk_id k = kid) t)
        = rows_where (\<lambda>k. sk_user_id k = uid) t" for t :: "signing_key_row list"
      by (rule rows_where_delete_other) (use that in auto)
    then show "keeps ?I (sql_delete db_signing_keys put_signing_keys (\<lambda>k. sk_user_id k = v \<and> sk_id k = kid))"
      by (simp add: keeps_def sql_delete_def keys_of_def)
  qed
  have create: "keeps ?I (create_signing_key now i)" if "ki_user_id i \<noteq> uid" for now i
  proof -
    have "keeps ?I (create_stmt (signing_key_row_of n i))" for n
      using keepsD [OF ins] that by (auto simp: keeps_def create_stmt_def signing_key_row_of_def)
    then show ?thesis unfolding create_signing_key_def by (intro keeps_intros on)
  qed
  have verify: "keeps ?I (verify_signing_key_publication_proof cr now v alg label kid payload es ml)"
    for cr :: "('x, 'y) crypto" and now v alg label kid payload es ml
    unfolding verify_signing_key_publication_proof_def get_user_by_id_def get_user_def
    by (intro keeps_intros on)
  have made: "keeps ?I (create_in_transaction env c req kid canonical)" if "call_user_id c \<noteq> uid" for c req kid canonical
    unfolding create_in_transaction_def using that
    by (intro keeps_intros verify create aud) (simp add: insert_input_of_def)
  have updated: "keeps ?I (update_in_transaction env c kid req)" if "call_user_id c \<noteq> uid" for c kid req
    unfolding update_in_transaction_def get_key_for_user_def get_key_by_id_def store_publication_proof_def
      set_published_def using that
    by (intro keeps_intros verify aud on upd) auto
  have stored: "keeps ?I (auto_store_unpublished now i)" if "ki_user_id i \<noteq> uid" for now i
  proof -
    have row: "keeps ?I (insert_key_row (signing_key_row_of n (i\<lparr>ki_published := False, ki_publication_payload := [],
        ki_publication_signature_es384 := [], ki_publication_signature_mldsa87 := []\<rparr>)))" for n
      using that by (intro ins) (simp add: signing_key_row_of_def)
    have repl: "keeps ?I (sql_update db_signing_keys put_signing_keys (replaceable (input_slot i))
        (\<lambda>k. k\<lparr>sk_id := ki_id i, sk_jwk := ki_jwk i, sk_pem := ki_pem i, sk_updated_at := n\<rparr>))" for n
      using that by (intro upd) (auto simp: replaceable_def slot_of_def input_slot_def)
    have "keeps ?I (auto_store_stmt n i)" for n
      using keepsD [OF row] keepsD [OF repl] by (auto simp: keeps_def auto_store_stmt_def)
    then show ?thesis unfolding auto_store_unpublished_def by (intro keeps_intros on)
  qed
  show ?thesis
    using assms
    by (cases call)
      (auto intro!: keepsD [where I = ?I] keeps_key_reads on keeps_create_route yields_keeps made
        keeps_update_route updated keeps_delete_route del stored aud)
qed

text \<open>Nobody touches another user's signing keys: whatever calls other users make (creating keys under any id,
  publishing, deleting, automatic stores for their requests) and whatever the public endpoint serves, the rows
  of a user are the same afterwards, in the same order.\<close>

lemma foreign_keys_untouched:
  assumes "list_all (\<lambda>call. call_owner call \<noteq> Some uid) cs"
  shows "keys_of uid (run_key_calls env cs s) = keys_of uid s"
  using assms by (induction cs arbitrary: s) (simp_all add: keeps_keys_of)

text \<open>An id that is not the caller's is answered like an id that does not exist, whether or not another user
  has a key with it: reading, updating with any body that parses and deleting all say 404, and nothing changes.\<close>

lemma foreign_key_ids_hidden:
  assumes "conn_faults s = []" and "call_user_id c \<noteq> []" and "kid \<noteq> []"
    and "\<not> list_ex (\<lambda>k. sk_id k = kid \<and> sk_user_id k = call_user_id c) (db_signing_keys s)"
  shows "route_signing_key_get c kid s = (Inl not_found, s)
    \<and> route_signing_key_update env c kid (Some req) s = (Inl not_found, s)
    \<and> route_signing_key_delete env c kid s = (Inl not_found, s)"
proof -
  have get: "get_key_for_user (call_user_id c) kid t = (Inr None, t)"
    if "conn_faults t = []" "db_signing_keys t = db_signing_keys s" for t
  proof (cases "first_row (rows_where (\<lambda>k. sk_id k = kid) (db_signing_keys s))")
    case None
    with that show ?thesis
      by (simp add: get_key_for_user_def get_key_by_id_def go_bind_def db_stmt_no_fault sql_select_def)
  next
    case (Some k)
    with first_row_where [OF Some] assms(4) have "sk_user_id k \<noteq> call_user_id c" by (auto simp: list_ex_iff)
    with Some that show ?thesis
      by (simp add: get_key_for_user_def get_key_by_id_def go_bind_def db_stmt_no_fault sql_select_def)
  qed
  have del: "delete_signing_key (call_user_id c) kid t = (Inl Err_Signing_Key_Not_Found, t)"
    if "conn_faults t = []" "db_signing_keys t = db_signing_keys s" for t
  proof -
    have "rows_where (\<lambda>k. sk_user_id k = call_user_id c \<and> sk_id k = kid) (db_signing_keys t) = []"
      using assms(4) that by (auto simp: rows_where_def filter_empty_conv list_ex_iff)
    moreover from this have "delete_rows (\<lambda>k. sk_user_id k = call_user_id c \<and> sk_id k = kid) (db_signing_keys t)
        = db_signing_keys t"
      by (auto simp: delete_rows_empty_iff intro!: delete_rows_none)
    ultimately show ?thesis
      using that by (simp add: delete_signing_key_def go_bind_def db_stmt_no_fault sql_delete_def not_found_if_none_def)
  qed
  let ?t = "s\<lparr>conn_in_tx := True\<rparr>"
  have tx: "db_transaction m s = (Inl e, s)" if "m ?t = (Inl e, ?t)" for m :: "'z db_op" and e
  proof -
    have "s\<lparr>conn_faults := conn_faults ?t\<rparr> = s" by simp
    with that assms(1) show ?thesis by (simp add: db_transaction_def db_stmt_no_fault go_bind_def)
  qed
  have "update_in_transaction env c kid req ?t = (Inl not_found, ?t)"
    using get [of ?t] assms(1) by (simp add: update_in_transaction_def go_bind_def)
  then have "route_signing_key_update env c kid (Some req) s = (Inl not_found, s)"
    using assms(2,3)
    by (simp add: route_signing_key_update_def go_require_def go_bind_def map_error_def tx not_found_if_missing_def
        not_found_def)
  moreover have "route_signing_key_get c kid s = (Inl not_found, s)"
    using get [of s] assms(1-3) by (simp add: route_signing_key_get_def go_require_def go_bind_def)
  moreover have "route_signing_key_delete env c kid s = (Inl not_found, s)"
  proof -
    have "(go_bind (delete_signing_key (call_user_id c) kid) k) ?t = (Inl Err_Signing_Key_Not_Found, ?t)"
      for k :: "signing_key_row \<Rightarrow> signing_key_row db_op"
      using del [of ?t] assms(1) by (simp add: go_bind_def)
    then have "db_transaction (go_bind (delete_signing_key (call_user_id c) kid) k) s = (Inl Err_Signing_Key_Not_Found, s)"
      for k :: "signing_key_row \<Rightarrow> signing_key_row db_op"
      by (rule tx)
    then show ?thesis
      using assms(2,3)
      by (simp add: route_signing_key_delete_def go_require_def map_error_def not_found_if_missing_def
          go_bind_def [of _ "\<lambda>_. go_return True"] go_bind_def [of "go_return ()"])
  qed
  ultimately show ?thesis by blast
qed

text \<open>A slot that is published, or holds any publication payload, is never overwritten by the automatic store
  after a sign operation: no sequence of such stores, for whatever keys and users, changes the row.\<close>

lemma locked_slot_kept:
  assumes "k \<in> set (db_signing_keys s)" and "locked_key k"
  shows "k \<in> set (db_signing_keys (fold (\<lambda>(now, i) s. snd (auto_store_unpublished now i s)) stores s))"
  using assms(1)
proof (induction stores arbitrary: s)
  case (Cons store stores)
  then show ?case
    using auto_store_keeps_locked [OF Cons.prems assms(2)] by (cases store) simp
qed simp

text \<open>
  A proof with fields missing is neither verified nor dropped: a create call that carries a
  payload but not both signatures stores it as it came, and the payload alone locks the slot.
\<close>

lemma partial_proof_stored:
  assumes "create_in_transaction env c req kid canonical s = (Inr r, s')"
    and "kreq_payload req \<noteq> []" and "\<not> create_has_proof req"
  shows "r \<in> set (db_signing_keys s') \<and> locked_key r \<and> \<not> has_publication_proof r
    \<and> sk_publication_payload r = kreq_payload req"
proof -
  obtain s1 where c: "create_signing_key (call_clock c 1) (insert_input_of (call_user_id c) kid canonical req) s = (Inr r, s1)"
    and a: "key_audit env c (call_clock c 2) ''signing_key.create'' r
        [(''algorithm'', Js_String (sk_algorithm r)), (''hasProof'', Js_Bool (has_publication_proof r)),
         (''keyLabel'', Js_String (sk_key_label r)), (''published'', Js_Bool (sk_published r))] s1 = (Inr (), s')"
    using assms(1,3)
    by (auto simp: create_in_transaction_def go_when_def map_error_ok elim!: go_bind_okE)
  have r: "r = signing_key_row_of (unix_seconds (call_clock c 1)) (insert_input_of (call_user_id c) kid canonical req)"
    "r \<in> set (db_signing_keys s1)"
    using create_signing_key_ok [OF c] by auto
  have "r \<in> set (db_signing_keys s')"
    using keeps_stepD [OF keeps_key_audit [where P = "\<lambda>_ t. r \<in> set t"] r(2) a] .
  with r(1) assms(2,3) show ?thesis
    by (auto simp: locked_key_def has_publication_proof_def create_has_proof_def signing_key_row_of_def insert_input_of_def)
qed

section \<open>A database with a published key\<close>

definition sample_anchor_jwk :: ec_jwk where
  "sample_anchor_jwk = bare_p384_jwk ''P-384'' ''EC'' (raw_url_encode (replicate 48 CHR ''x''))
     (raw_url_encode (replicate 48 CHR ''y''))"

definition sample_owner :: user_row where
  "sample_owner = (hd (db_users sample_key_db))\<lparr>u_anchor_es384_public_key := p384_canonical_body sample_anchor_jwk,
     u_anchor_mldsa87_public_key := raw_url_encode (replicate 2592 CHR ''k'')\<rparr>"

definition sample_published_key :: signing_key_row where
  "sample_published_key = \<lparr>sk_id = ''kid'', sk_user_id = ''alice'', sk_algorithm = ''ES256'', sk_key_label = ''disk'',
     sk_jwk = ''{}'', sk_pem = ''pem'', sk_published = True, sk_publication_payload = publication_body sample_publication,
     sk_publication_signature_es384 = toy_signature 96, sk_publication_signature_mldsa87 = toy_signature 4627,
     sk_created_at = 5, sk_updated_at = 5\<rparr>"

definition sample_signing_db :: database where
  "sample_signing_db = empty_database\<lparr>db_users := [sample_owner], db_signing_keys := [sample_published_key]\<rparr>"

definition sample_env :: "(unit, unit) api_env" where
  "sample_env = \<lparr>env_crypto = toy_crypto, env_codec = toy_codec, env_json_valid = (\<lambda>_. True), env_json_object = (\<lambda>_. ''{}'')\<rparr>"

definition call_by :: "string \<Rightarrow> api_call" where
  "call_by uid = \<lparr>call_user_id = uid, call_clock = (\<lambda>_. seconds 100), call_audit_id = ''a1'',
     call_audit_context = \<lparr>ac_session_user_id = uid, ac_request_user_id = None, ac_request_id = [], ac_client_ip = [],
       ac_user_agent = []\<rparr>\<rparr>"

lemma sample_anchor_body: "parse_p384_canonical_body (p384_canonical_body sample_anchor_jwk) = Some sample_anchor_jwk"
proof -
  have "CHR 0x0A \<notin> set (raw_url_encode b)" for b
    using b64_char_no_break(1) by (force simp: raw_encode_def)
  then show ?thesis
    by (intro p384.dec_enc) (simp add: p384_body_ok_def sample_anchor_jwk_def bare_p384_jwk_def)
qed

lemma sample_anchor_parses_with:
  assumes "cr_ecdsa_parse cr (char_of (4::nat) # replicate 48 CHR ''x'' @ replicate 48 CHR ''y'') = Some k"
  shows "parse_anchor_pubkeys cr (p384_canonical_body sample_anchor_jwk) (raw_url_encode (replicate 2592 CHR ''k''))
     = Inr (k, replicate 2592 CHR ''k'')"
proof -
  have "to_ecdsa_public_key (cr_ecdsa_parse cr) sample_anchor_jwk = Inr k"
    using assms
    by (simp add: to_ecdsa_public_key_def validate_public_p384_def validate_public_jwk_def sample_anchor_jwk_def
        bare_p384_jwk_def raw_encode_empty_iff)
  moreover have "p384_canonical_body sample_anchor_jwk \<noteq> []" by (simp add: p384_canonical_body_def)
  ultimately show ?thesis
    by (simp add: parse_anchor_pubkeys_def sample_anchor_body raw_decode_encode raw_encode_empty_iff mldsa87_public_key_size_def)
qed

lemma sample_anchor_parses:
  "parse_anchor_pubkeys toy_crypto (p384_canonical_body sample_anchor_jwk) (raw_url_encode (replicate 2592 CHR ''k''))
     = Inr ((), replicate 2592 CHR ''k'')"
  by (rule sample_anchor_parses_with) (simp add: toy_crypto_def)

lemma sample_signing_inv: "signing_inv toy_crypto sample_signing_db"
proof -
  have v: "verify_hybrid_signing_key_publication toy_crypto (Some ()) (replicate 2592 CHR ''k'') sample_publication
      (replicate 96 CHR ''s'') (replicate 4627 CHR ''s'') = Inr ()"
    by (simp add: verify_hybrid_signing_key_publication_def verify_hybrid_def Let_def verify_es384_ok_iff
        verify_mldsa87_ok_iff toy_crypto_def)
  have h: "parse_hybrid_signatures (toy_signature 96) (toy_signature 4627)
      = Inr (replicate 96 CHR ''s'', replicate 4627 CHR ''s'')"
    using toy_signature_decodes [of 96] toy_signature_decodes [of 4627]
    by (simp add: parse_hybrid_signatures_ok es384_signature_size_def p384_coordinate_size_def mldsa87_signature_size_def)
  have p: "pp_v sample_publication = 1" "pp_user_id sample_publication = ''alice''"
    "pp_algorithm sample_publication = ''ES256''" "pp_key_label sample_publication = ''disk''"
    "pp_key_id sample_publication = ''kid''"
    by (simp_all add: sample_publication_def)
  have "proof_checks toy_crypto (p384_canonical_body sample_anchor_jwk) (raw_url_encode (replicate 2592 CHR ''k''))
      ''alice'' ''ES256'' ''disk'' ''kid'' (publication_body sample_publication) (toy_signature 96) (toy_signature 4627)"
    unfolding proof_checks_def using v h p sample_anchor_parses publication.dec_enc [of sample_publication] by auto
  then show ?thesis
    by (auto simp: signing_inv_def keys_inv_def keys_ok_def key_proven_def owner_vouches_def sample_signing_db_def
        sample_published_key_def sample_owner_def sample_key_db_def empty_database_def)
qed

lemma sample_run:
  "run_key_calls sample_env [Key_Get (call_by ''alice'') ''kid''] sample_signing_db = sample_signing_db"
  by (simp add: route_signing_key_get_def call_by_def go_require_def go_bind_def get_key_for_user_def get_key_by_id_def
      db_stmt_no_fault sql_select_def sample_signing_db_def empty_database_def rows_where_def sample_published_key_def)

lemma sample_key_has_proof: "has_publication_proof sample_published_key"
  by (simp add: has_publication_proof_def sample_published_key_def toy_signature_def raw_encode_empty_iff
      publication_body_def canonical_body_from_tagged_fields_def publication_schema_def publication_fields_def
      field_line_def)

theorem stored_proofs_verify_witness:
  "owner_vouches toy_crypto (db_users sample_signing_db) ''alice'' ''ES256'' ''disk'' ''kid''
     (publication_body sample_publication) (toy_signature 96) (toy_signature 4627)"
proof -
  have "signing_inv (env_crypto sample_env) sample_signing_db"
    by (simp add: sample_env_def sample_signing_inv)
  moreover have "sample_published_key \<in> set (db_signing_keys (run_key_calls sample_env [Key_Get (call_by ''alice'') ''kid'']
      sample_signing_db))"
    by (simp only: sample_run) (simp add: sample_signing_db_def)
  ultimately have "owner_vouches (env_crypto sample_env)
      (db_users (run_key_calls sample_env [Key_Get (call_by ''alice'') ''kid''] sample_signing_db))
      (sk_user_id sample_published_key) (sk_algorithm sample_published_key) (sk_key_label sample_published_key)
      (sk_id sample_published_key) (sk_publication_payload sample_published_key)
      (sk_publication_signature_es384 sample_published_key) (sk_publication_signature_mldsa87 sample_published_key)"
    using sample_key_has_proof by (rule stored_proofs_verify)
  then show ?thesis by (simp only: sample_run) (simp add: sample_env_def sample_published_key_def)
qed

lemma sample_served:
  "route_signing_key_public ''kid.jwk'' sample_signing_db
     = (Inr (Public_Jwk (public_response_of sample_published_key (user_of_row sample_owner))), sample_signing_db)"
proof -
  have "split_filename ''kid.jwk'' = Some (''kid'', ''jwk'')" by code_simp
  then show ?thesis
    using sample_key_has_proof
    by (simp add: route_signing_key_public_def go_bind_def db_transaction_def db_stmt_no_fault read_public_data_def
        get_published_by_id_def get_key_by_id_def sql_select_def get_user_by_id_def get_user_def user_column_def
        sample_signing_db_def empty_database_def rows_where_def)
      (simp add: sample_published_key_def sample_owner_def sample_key_db_def)
qed

theorem served_key_verifies_witness:
  "\<exists>k ext. k \<in> set (db_signing_keys sample_signing_db) \<and> sk_published k \<and> ''kid.jwk'' = sk_id k @ CHR ''.'' # ext"
proof -
  have "signing_inv (env_crypto sample_env) sample_signing_db"
    by (simp add: sample_env_def sample_signing_inv)
  moreover have "route_signing_key_public ''kid.jwk''
      (run_key_calls sample_env [Key_Get (call_by ''alice'') ''kid''] sample_signing_db)
     = (Inr (Public_Jwk (public_response_of sample_published_key (user_of_row sample_owner))), sample_signing_db)"
    by (simp only: sample_run sample_served)
  ultimately show ?thesis using served_key_verifies sample_run by metis
qed

theorem foreign_keys_untouched_witness:
  "keys_of ''alice'' (run_key_calls sample_env [Key_Delete (call_by ''bob'') ''kid'', Key_Public ''kid.pem'']
     sample_signing_db) = keys_of ''alice'' sample_signing_db"
  by (rule foreign_keys_untouched) (simp add: call_by_def)

theorem foreign_key_ids_hidden_witness:
  "route_signing_key_get (call_by ''bob'') ''kid'' sample_signing_db = (Inl not_found, sample_signing_db)"
proof -
  have "conn_faults sample_signing_db = []" "call_user_id (call_by ''bob'') \<noteq> []" "''kid'' \<noteq> []"
    "\<not> list_ex (\<lambda>k. sk_id k = ''kid'' \<and> sk_user_id k = call_user_id (call_by ''bob'')) (db_signing_keys sample_signing_db)"
    by (simp_all add: sample_signing_db_def empty_database_def call_by_def sample_published_key_def)
  from foreign_key_ids_hidden [OF this, where env = sample_env] show ?thesis by blast
qed

theorem locked_slot_kept_witness:
  "sample_published_key \<in> set (db_signing_keys (fold (\<lambda>(now, i) s. snd (auto_store_unpublished now i s))
     [(seconds 9, \<lparr>ki_id = ''new'', ki_user_id = ''alice'', ki_algorithm = ''ES256'', ki_key_label = ''disk'', ki_jwk = ''{}'',
        ki_pem = ''p'', ki_published = False, ki_publication_payload = [], ki_publication_signature_es384 = [],
        ki_publication_signature_mldsa87 = []\<rparr>)] sample_signing_db))"
  by (rule locked_slot_kept)
    (simp_all add: sample_signing_db_def locked_key_def sample_published_key_def)

end
