(* ===== verification/Auth_Route_Properties.thy ===== *)
theory Auth_Route_Properties
  imports Auth_Account_Routes Signing_Key_Properties
begin

text \<open>
  What the registration, login and account handlers guarantee together: the anchor of every
  ready account vouches for its key bundle and for each of its credentials, a session is given
  only after a verified assertion on a fresh challenge, and a password change settles the epochs.
\<close>

section \<open>Accounts the anchor vouches for\<close>

definition stored_bundle :: "user_row \<Rightarrow> ec_jwk \<Rightarrow> int \<Rightarrow> pubkey_bundle_payload" where
  "stored_bundle u jwk tail =
    \<lparr>bp_user_id = u_id u, bp_request_enc_ecdh_pubkey = u_request_enc_ecdh_pubkey u,
     bp_request_enc_mlkem_pubkey = u_request_enc_mlkem_pubkey u, bp_anchor_es384_crv = jwk_crv jwk,
     bp_anchor_es384_kty = jwk_kty jwk, bp_anchor_es384_x = jwk_x jwk, bp_anchor_es384_y = jwk_y jwk,
     bp_anchor_mldsa87_public_key = u_anchor_mldsa87_public_key u, bp_last = tail\<rparr>"

definition bundle_vouched :: "('ek, 'mk) crypto \<Rightarrow> user_row \<Rightarrow> bool" where
  "bundle_vouched cr u \<longleftrightarrow>
    (\<exists>ek mlb jwk be bm. parse_anchor_pubkeys cr (u_anchor_es384_public_key u) (u_anchor_mldsa87_public_key u) = Inr (ek, mlb)
       \<and> parse_p384_canonical_body (u_anchor_es384_public_key u) = Some jwk
       \<and> parse_hybrid_signatures (u_pubkey_bundle_signature_es384 u) (u_pubkey_bundle_signature_mldsa87 u) = Inr (be, bm)
       \<and> (u_pubkey_bundle_version u = 1 \<and> verify_hybrid_bundle cr (Some ek) mlb (stored_bundle u jwk 1) be bm = Inr ()
          \<or> u_pubkey_bundle_version u = 2 \<and> verify_hybrid_bundle_v2 cr (Some ek) mlb (stored_bundle u jwk 2) be bm = Inr ()))"

definition attested :: "('ek, 'mk) auth_env \<Rightarrow> user_row \<Rightarrow> credential_row \<Rightarrow> bool" where
  "attested env u c \<longleftrightarrow>
    (\<exists>p ek mlb a b. parse_attestation_payload (c_attestation_payload c) = Some p
       \<and> ap_user_id p = u_id u \<and> ap_credential_id p = c_credential_id c
       \<and> credential_public_key_hash_from_stored env (c_public_key c) = Inr (ap_credential_public_key_hash p)
       \<and> parse_anchor_pubkeys (ae_crypto env) (u_anchor_es384_public_key u) (u_anchor_mldsa87_public_key u) = Inr (ek, mlb)
       \<and> parse_hybrid_signatures (c_attestation_signature_es384 c) (c_attestation_signature_mldsa87 c) = Inr (a, b)
       \<and> verify_hybrid_attestation (ae_crypto env) (Some ek) mlb p a b = Inr ())"

definition accounts_vouched :: "('ek, 'mk) auth_env \<Rightarrow> user_row list \<Rightarrow> credential_row list \<Rightarrow> bool" where
  "accounts_vouched env us cs \<longleftrightarrow> distinct (map u_id us) \<and>
    (\<forall>u\<in>set us. u_ready u \<longrightarrow> bundle_vouched (ae_crypto env) u \<and> (\<forall>c\<in>set cs. c_user_id c = u_id u \<longrightarrow> attested env u c))"

definition vouched :: "('ek, 'mk) auth_env \<Rightarrow> database \<Rightarrow> bool" where
  "vouched env s \<longleftrightarrow> accounts_vouched env (db_users s) (db_credentials s)"

lemma on_tables_vouched [keeps_intros]: "on_tables (vouched env)"
  unfolding vouched_def by (rule on_tables_dbI) simp

section \<open>The two tables under each change\<close>

text \<open>Updates that leave the anchor material and the attestations alone.\<close>

definition same_account :: "user_row \<Rightarrow> user_row \<Rightarrow> bool" where
  "same_account u v \<longleftrightarrow> u_id v = u_id u \<and> u_ready v = u_ready u \<and> anchor_fields v = anchor_fields u"

definition same_attestation :: "credential_row \<Rightarrow> credential_row \<Rightarrow> bool" where
  "same_attestation c d \<longleftrightarrow> c_user_id d = c_user_id c \<and> c_credential_id d = c_credential_id c \<and> c_public_key d = c_public_key c
     \<and> c_attestation_payload d = c_attestation_payload c
     \<and> c_attestation_signature_es384 d = c_attestation_signature_es384 c
     \<and> c_attestation_signature_mldsa87 d = c_attestation_signature_mldsa87 c"

lemma bundle_vouched_cong: "same_account u v \<Longrightarrow> bundle_vouched cr v = bundle_vouched cr u"
  by (simp add: bundle_vouched_def stored_bundle_def same_account_def anchor_fields_def)

lemma attested_cong: "same_account u v \<Longrightarrow> same_attestation c d \<Longrightarrow> attested env v d = attested env u c"
  by (simp add: attested_def same_account_def same_attestation_def anchor_fields_def)

lemma same_account_refl [simp]: "same_account u u" by (simp add: same_account_def)
lemma same_attestation_refl [simp]: "same_attestation c c" by (simp add: same_attestation_def)

lemma vouched_update_users:
  assumes "accounts_vouched env us cs" and "\<And>u. P u \<Longrightarrow> same_account u (f u)"
  shows "accounts_vouched env (update_rows P f us) cs"
proof -
  have f: "u_id (f u) = u_id u" "u_ready (f u) = u_ready u" "bundle_vouched cr (f u) = bundle_vouched cr u"
      "attested env (f u) c = attested env u c" if "P u" for u c and cr :: "('a, 'b) crypto"
    using assms(2) [OF that, unfolded same_account_def] bundle_vouched_cong [OF assms(2) [OF that]]
      attested_cong [OF assms(2) [OF that] same_attestation_refl] by blast+
  have "map u_id (update_rows P f us) = map u_id us"
    by (rule distinct_update_rows) (simp add: f)
  then show ?thesis using assms(1) by (auto simp: accounts_vouched_def set_update_rows f)
qed

lemma vouched_update_credentials:
  assumes "accounts_vouched env us cs" and "\<And>c. P c \<Longrightarrow> same_attestation c (f c)"
  shows "accounts_vouched env us (update_rows P f cs)"
proof -
  have "c_user_id (f c) = c_user_id c" "attested env u (f c) = attested env u c" if "P c" for u c
    using assms(2) [OF that, unfolded same_attestation_def] attested_cong [OF same_account_refl assms(2) [OF that]]
    by blast+
  then show ?thesis using assms(1) by (auto simp: accounts_vouched_def set_update_rows)
qed

lemma vouched_subset:
  "accounts_vouched env us cs \<Longrightarrow> set cs' \<subseteq> set cs \<Longrightarrow> set us' \<subseteq> set us \<Longrightarrow> distinct (map u_id us')
     \<Longrightarrow> accounts_vouched env us' cs'"
  unfolding accounts_vouched_def by blast

lemma vouched_new_user:
  "accounts_vouched env us cs \<Longrightarrow> u_id u \<notin> u_id ` set us \<Longrightarrow> \<not> u_ready u \<Longrightarrow> accounts_vouched env (us @ [u]) cs"
  by (auto simp: accounts_vouched_def)

lemma vouched_new_credential:
  assumes "accounts_vouched env us cs" and "\<And>u. u \<in> set us \<Longrightarrow> u_ready u \<Longrightarrow> u_id u = c_user_id c \<Longrightarrow> attested env u c"
  shows "accounts_vouched env us (cs @ [c])"
  using assms unfolding accounts_vouched_def by auto

lemma keeps_vouched_users:
  "(\<And>u. P u \<Longrightarrow> same_account u (f u)) \<Longrightarrow> keeps (vouched env) (sql_update db_users put_users P f)"
  by (auto simp: keeps_def sql_update_def vouched_def intro: vouched_update_users)

lemma keeps_vouched_credentials:
  "(\<And>c. P c \<Longrightarrow> same_attestation c (f c)) \<Longrightarrow> keeps (vouched env) (sql_update db_credentials put_credentials P f)"
  by (auto simp: keeps_def sql_update_def vouched_def intro: vouched_update_credentials)

lemma keeps_vouched_other:
  assumes "\<And>s. db_users (snd (m s)) = db_users s \<and> db_credentials (snd (m s)) = db_credentials s"
  shows "keeps (vouched env) m"
  using assms by (simp add: keeps_def vouched_def)

section \<open>The operations of the stores\<close>

named_theorems vouched_ops

lemma vouched_audit_insert [vouched_ops]: "keeps (vouched env) (audit_insert jv aid now d)"
  unfolding audit_insert_def
  by (intro keeps_bind keeps_lift keeps_return keeps_db_stmt on_tables_vouched keeps_vouched_other)
    (simp add: sql_insert_def)

lemma vouched_audits [vouched_ops]:
  "keeps (vouched env) (audit_event_tx jv aid now ac f)" "keeps (vouched env) (audit_event jv aid now ac f)"
  by (simp_all add: audit_event_tx_def audit_event_def keeps_bind keeps_return keeps_try vouched_audit_insert)

lemma vouched_auth_audit [vouched_ops]:
  "keeps (vouched env) (auth_audit e c now ev uid cid md)" "keeps (vouched env) (failure_audit e c now ev)"
  by (simp_all add: auth_audit_def failure_audit_def vouched_audits)

lemma vouched_auth_event [vouched_ops]: "keeps (vouched env) (auth_event e c now ev cid md)"
  by (simp add: auth_event_def vouched_auth_audit)

lemma select_keeps: "on_tables I \<Longrightarrow> keeps I (db_stmt (sql_select rows P))"
  by (intro keeps_intros keeps_select)

lemma reads_keep:
  assumes "on_tables I"
  shows "keeps I (get_user_by_id uid)" "keeps I (get_user_by_webauthn_user_id uid)"
    "keeps I (list_credentials uid)" "keeps I (get_credential_for_user uid cid)"
    "keeps I (get_credential_by_credential_id cid uid)" "keeps I (has_pending_challenge now uid kind)"
  unfolding get_user_by_id_def get_user_by_webauthn_user_id_def get_user_def list_credentials_def
    get_credential_for_user_def get_credential_by_credential_id_def has_pending_challenge_def
  by (intro keeps_bind keeps_case_option keeps_fail keeps_return select_keeps assms)+

lemma load_keeps:
  assumes "on_tables I"
  shows "keeps I (load_webauthn_user e user)" "keeps I (load_ready_user e user)"
  unfolding load_ready_user_def load_webauthn_user_def Let_def
  by (intro keeps_if keeps_bind keeps_return keeps_fail keeps_case_option reads_keep assms)+

lemmas vouched_reads [vouched_ops] =
  reads_keep [OF on_tables_vouched] load_keeps [OF on_tables_vouched] select_keeps [OF on_tables_vouched]

lemma vouched_begin_challenge [vouched_ops]: "keeps (vouched env) (begin_challenge now nid kind uid ch ex pl)"
  unfolding begin_challenge_def Let_def
  by (intro keeps_bind keeps_if keeps_fail keeps_lift keeps_return keeps_require_transaction keeps_db_stmt
      on_tables_vouched keeps_vouched_other) (simp_all add: sql_insert_def)

lemma vouched_consume_challenge [vouched_ops]: "keeps (vouched env) (consume_challenge now unm cid kind uid)"
proof -
  have "keeps (vouched env) (consume_stmt cid kind uid n)" for n
    by (rule keeps_vouched_other) (simp add: consume_stmt_def sql_update_def)
  then show ?thesis
    unfolding consume_challenge_def
    by (intro keeps_bind keeps_case_option keeps_fail keeps_db_stmt on_tables_vouched)
      (auto intro!: keeps_intros split: option.split)
qed

lemma vouched_login [vouched_ops]: "keeps (vouched env) (auth_login now inp)"
proof -
  have "keeps (vouched env) (login_stmt n inp)" for n
    by (auto simp: login_stmt_def keeps_def sql_update_def vouched_def same_attestation_def
        intro!: vouched_update_credentials)
  then show ?thesis
    unfolding auth_login_def by (intro keeps_bind keeps_if keeps_fail keeps_return keeps_db_stmt on_tables_vouched)
qed

lemma vouched_settings [vouched_ops]:
  "keeps (vouched env) (update_allowed_ips cidr ip now uid ips)" "keeps (vouched env) (update_display_name now uid name)"
  "keeps (vouched env) (advance_wrapped_key_epoch now uid)"
  unfolding update_allowed_ips_def update_display_name_def advance_wrapped_key_epoch_def
  by (intro keeps_bind keeps_if keeps_fail keeps_return keeps_lift keeps_case_option keeps_db_stmt on_tables_vouched
      keeps_vouched_users; simp add: same_account_def anchor_fields_def)+

lemma vouched_regenerate [vouched_ops]: "keeps (vouched env) (regenerate_request_key now random uid)"
proof -
  have "keeps (vouched env) (set_request_key_stmt uid k n)" for k n
    by (auto simp: set_request_key_stmt_def keeps_def sql_update_def vouched_def same_account_def anchor_fields_def
        intro!: vouched_update_users)
  then show ?thesis
    unfolding regenerate_request_key_def
    by (intro keeps_bind keeps_if keeps_fail keeps_return keeps_lift keeps_db_stmt on_tables_vouched)
qed

lemma vouched_rewrap [vouched_ops]: "keeps (vouched env) (update_credential_wrapped_key cid uid wpk wak)"
proof -
  have "keeps (vouched env) (rewrap_stmt cid uid wpk wak)"
    by (auto simp: rewrap_stmt_def keeps_def sql_update_def vouched_def same_attestation_def
        intro!: vouched_update_credentials split: option.splits)
  then show ?thesis
    unfolding update_credential_wrapped_key_def
    by (intro keeps_bind keeps_if keeps_fail keeps_return keeps_db_stmt on_tables_vouched)
qed

lemma vouched_rename [vouched_ops]: "keeps (vouched env) (rename_credential rid uid name)"
  unfolding rename_credential_def Let_def
  by (intro keeps_bind keeps_if keeps_fail keeps_return keeps_db_stmt on_tables_vouched keeps_vouched_credentials)
    (simp add: same_attestation_def)

lemma vouched_delete [vouched_ops]: "keeps (vouched env) (delete_credential kind rid uid)"
proof -
  have "keeps (vouched env) (delete_postgres_stmt rid uid)" "keeps (vouched env) (delete_sqlite_stmt rid uid)"
    by (auto simp: keeps_def delete_postgres_stmt_def delete_sqlite_stmt_def sql_delete_def vouched_def
        accounts_vouched_def Let_def)
  then show ?thesis
    unfolding delete_credential_def delete_credential_postgres_def delete_credential_sqlite_def
    by (intro keeps_case_backend keeps_bind keeps_if keeps_fail keeps_return keeps_case_prod keeps_db_stmt
        on_tables_vouched vouched_reads)
qed

section \<open>The three transactions that create what is vouched for\<close>

lemma on_tables_conj: "on_tables I \<Longrightarrow> on_tables J \<Longrightarrow> on_tables (\<lambda>s. I s \<and> J s)"
  by (auto simp: on_tables_def)

lemma yields_db_stmt:
  assumes "on_tables P" and "yields P m Q"
  shows "yields P (db_stmt m) Q"
proof (rule yieldsI)
  fix s x s1 assume P: "P s" and m: "db_stmt m s = (Inr x, s1)"
  from m obtain fs where "m (s\<lparr>conn_faults := fs\<rparr>) = (Inr x, s1)" by (rule db_stmt_okE)
  moreover have "P (s\<lparr>conn_faults := fs\<rparr>)" using on_tablesD [OF assms(1) P] by simp
  ultimately show "Q x s1" using yieldsD [OF assms(2)] by blast
qed

lemma yields_map_error: "yields P m Q \<Longrightarrow> yields P (map_error f m) Q"
  by (auto simp: yields_def map_error_ok)

lemma yields_map_integrity: "yields P m Q \<Longrightarrow> yields P (map_integrity e m) Q"
  by (auto simp: yields_def map_integrity_def split: prod.splits sum.splits)

lemma yields_lift: "(\<And>x s. r = Inr x \<Longrightarrow> P s \<Longrightarrow> Q x s) \<Longrightarrow> yields P (go_lift r) Q"
  by (simp add: yields_def)

lemma yields_require: "(\<And>s. b \<Longrightarrow> P s \<Longrightarrow> Q () s) \<Longrightarrow> yields P (go_require b e) Q"
  by (auto simp: yields_def go_require_def)

text \<open>A user who is not ready, so that a credential of that user needs no attestation.\<close>

definition unready :: "string \<Rightarrow> database \<Rightarrow> bool" where
  "unready uid s \<longleftrightarrow> (\<forall>u\<in>set (db_users s). u_id u = uid \<longrightarrow> \<not> u_ready u)"

lemma on_tables_unready: "on_tables (unready uid)"
  unfolding unready_def by (rule on_tables_users)

lemma vouched_register_user:
  "yields (vouched env) (register_user now random nid inp) (\<lambda>_. vouched env)"
proof -
  let ?J = "\<lambda>s. vouched env s \<and> unready (ri_user_id inp) s"
  have user: "yields (vouched env) (map_integrity e (db_stmt (sql_insert db_users put_users same_user_key (new_user_row n k inp))))
      (\<lambda>_. ?J)" for e n k
    by (intro yields_map_integrity yields_db_stmt on_tables_vouched)
      (auto simp: yields_def sql_insert_def list_ex_iff same_user_key_def vouched_def unready_def new_user_row_def
        intro!: vouched_new_user split: if_splits)
  have cred: "yields ?J (map_integrity e (db_stmt (insert_credential c))) (\<lambda>_. vouched env)"
    if "c_user_id c = ri_user_id inp" for e c
    using that
    by (intro yields_map_integrity yields_db_stmt on_tables_conj on_tables_vouched on_tables_unready)
      (auto simp: yields_def insert_credential_def require_user_def sql_insert_def vouched_def unready_def
        elim!: go_bind_okE intro!: vouched_new_credential split: if_splits)
  show ?thesis
    unfolding register_user_def Let_def
    by (rule yields_bind [OF yields_keeps [OF keeps_require_transaction]], rule yields_bind [OF yields_lift, of _ _ "\<lambda>_. vouched env"],
        assumption, rule yields_bind [OF user], rule yields_bind [OF cred], simp, rule yields_return, assumption)
qed

lemma vouched_register_finish:
  "yields (vouched env) (register_finish env c challenge_id credential) (\<lambda>_. vouched env)"
  unfolding register_finish_def Let_def
  by (rule yields_bind [OF yields_keeps [OF keeps_map_error [OF vouched_consume_challenge]]])
    (auto intro!: yields_fail yields_bind [OF yields_lift, of _ _ "\<lambda>_. vouched env"]
      yields_bind [OF yields_map_error [OF vouched_register_user]]
      yields_bind [OF yields_keeps [OF vouched_auth_audit(1)]] yields_return split: option.split)

text \<open>Finalizing a sign-up: before it, the one credential of the user is the one that was looked at.\<close>

definition only_credential :: "string \<Rightarrow> credential_row \<Rightarrow> database \<Rightarrow> bool" where
  "only_credential uid cred s \<longleftrightarrow> (\<forall>c\<in>set (db_credentials s). c_user_id c = uid \<longrightarrow> c = cred)"

lemma on_tables_only_credential: "on_tables (only_credential uid cred)"
  unfolding only_credential_def by (rule on_tables_credentials)

lemma list_one_credential:
  "yields (vouched env) (list_credentials uid)
     (\<lambda>creds s. vouched env s \<and> (\<forall>cred. creds = [cred] \<longrightarrow> only_credential uid cred s))"
proof (rule yieldsI)
  fix s creds s1
  assume I: "vouched env s" and l: "list_credentials uid s = (Inr creds, s1)"
  from l obtain fs where creds: "creds = sort_key c_created_at (rows_where (\<lambda>c. c_user_id c = uid) (db_credentials s1))"
    and s1: "s1 = s\<lparr>conn_faults := fs\<rparr>"
    by (auto simp: list_credentials_def sql_select_def elim!: go_bind_okE db_stmt_okE)
  have "set creds = {c \<in> set (db_credentials s1). c_user_id c = uid}" by (simp add: creds)
  then show "vouched env s1 \<and> (\<forall>cred. creds = [cred] \<longrightarrow> only_credential uid cred s1)"
    using I s1 by (auto simp: vouched_def only_credential_def)
qed

text \<open>After the first statement of \<open>FinalizeSignup\<close>: the user is ready, the credential still unattested.\<close>

definition half_finalized :: "('ek, 'mk) auth_env \<Rightarrow> finalize_signup_input \<Rightarrow> credential_row \<Rightarrow> database \<Rightarrow> bool" where
  "half_finalized env fi cred s \<longleftrightarrow> distinct (map u_id (db_users s)) \<and> only_credential (fi_user_id fi) cred s \<and>
    (\<forall>u\<in>set (db_users s). u_ready u \<longrightarrow> (if u_id u = fi_user_id fi then (\<exists>n v. u = finalized_row n fi v)
       else bundle_vouched (ae_crypto env) u \<and> (\<forall>c\<in>set (db_credentials s). c_user_id c = u_id u \<longrightarrow> attested env u c)))"

lemma on_tables_half_finalized: "on_tables (half_finalized env fi cred)"
  unfolding half_finalized_def only_credential_def by (rule on_tables_dbI) simp

lemma finalize_user_half:
  "yields (\<lambda>s. vouched env s \<and> only_credential (fi_user_id fi) cred s)
     (sql_update db_users put_users (\<lambda>u. u_id u = fi_user_id fi \<and> \<not> u_ready u) (finalized_row n fi))
     (\<lambda>rs s. rs \<noteq> [] \<longrightarrow> half_finalized env fi cred s)"
proof (rule yieldsI)
  let ?P = "\<lambda>u. u_id u = fi_user_id fi \<and> \<not> u_ready u"
  fix s rs s1
  assume I: "vouched env s \<and> only_credential (fi_user_id fi) cred s"
    and u: "sql_update db_users put_users ?P (finalized_row n fi) s = (Inr rs, s1)"
  from u have s1: "s1 = put_users (update_rows ?P (finalized_row n fi) (db_users s)) s"
    and rs: "rs = map (finalized_row n fi) (rows_where ?P (db_users s))" by (auto simp: sql_update_def)
  have d: "distinct (map u_id (db_users s))" using I by (simp add: vouched_def accounts_vouched_def)
  have ids: "map u_id (update_rows ?P (finalized_row n fi) (db_users s)) = map u_id (db_users s)"
    by (rule distinct_update_rows) (simp add: finalized_row_def)
  show "rs \<noteq> [] \<longrightarrow> half_finalized env fi cred s1"
  proof
    assume "rs \<noteq> []"
    then obtain v where v: "v \<in> set (db_users s)" "?P v" using rs by (auto simp: rows_where_def filter_empty_conv)
    have "?P w" if "w \<in> set (db_users s)" "u_id w = fi_user_id fi" for w
      using d v that by (metis (mono_tags, lifting) row_of_iff option.inject)
    then show "half_finalized env fi cred s1"
      using I d ids unfolding half_finalized_def s1
      by (auto simp: vouched_def accounts_vouched_def set_update_rows only_credential_def)
        (auto simp: finalized_row_def)
  qed
qed

lemma finalize_credential_whole:
  assumes b: "\<And>n v. u_id v = fi_user_id fi \<Longrightarrow> bundle_vouched (ae_crypto env) (finalized_row n fi v)"
    and a: "\<And>n v. u_id v = fi_user_id fi \<Longrightarrow> attested env (finalized_row n fi v) (finalized_credential fi cred)"
  shows "yields (half_finalized env fi cred)
     (sql_update db_credentials put_credentials (\<lambda>c. c_user_id c = fi_user_id fi) (finalized_credential fi))
     (\<lambda>_. vouched env)"
proof (rule yieldsI)
  let ?Q = "\<lambda>c. c_user_id c = fi_user_id fi"
  fix s rs s1
  assume h: "half_finalized env fi cred s"
    and u: "sql_update db_credentials put_credentials ?Q (finalized_credential fi) s = (Inr rs, s1)"
  from u have s1: "s1 = put_credentials (update_rows ?Q (finalized_credential fi) (db_credentials s)) s"
    by (auto simp: sql_update_def)
  have "bundle_vouched (ae_crypto env) w \<and>
      (\<forall>c\<in>set (update_rows ?Q (finalized_credential fi) (db_credentials s)). c_user_id c = u_id w \<longrightarrow> attested env w c)"
    if w: "w \<in> set (db_users s)" "u_ready w" for w
  proof (cases "u_id w = fi_user_id fi")
    case True
    then obtain n v where v1: "w = finalized_row n fi v" using h w by (force simp: half_finalized_def)
    then have v: "w = finalized_row n fi v" "u_id v = fi_user_id fi" using True by (simp_all add: finalized_row_def)
    have "c = finalized_credential fi cred"
      if "c \<in> set (update_rows ?Q (finalized_credential fi) (db_credentials s))" "c_user_id c = fi_user_id fi" for c
      using that h by (auto simp: set_update_rows half_finalized_def only_credential_def finalized_credential_def)
    then show ?thesis using a [OF v(2), of n] b [OF v(2), of n] v(1) True by auto
  next
    case False
    then show ?thesis
      using h w by (fastforce simp: half_finalized_def set_update_rows finalized_credential_def)
  qed
  then show "vouched env s1"
    using h by (auto simp: s1 vouched_def accounts_vouched_def half_finalized_def)
qed

lemma finalize_signup_vouched:
  assumes b: "\<And>n v. u_id v = fi_user_id fi \<Longrightarrow> bundle_vouched (ae_crypto env) (finalized_row n fi v)"
    and a: "\<And>n v. u_id v = fi_user_id fi \<Longrightarrow> attested env (finalized_row n fi v) (finalized_credential fi cred)"
  shows "yields (\<lambda>s. vouched env s \<and> only_credential (fi_user_id fi) cred s) (finalize_signup now fi) (\<lambda>_. vouched env)"
proof -
  let ?A = "\<lambda>s. vouched env s \<and> only_credential (fi_user_id fi) cred s"
  have A: "on_tables ?A" by (intro on_tables_conj on_tables_vouched on_tables_only_credential)
  have whole: "vouched env s1" if "half_finalized env fi cred s"
      "db_stmt (sql_update db_credentials put_credentials (\<lambda>c. c_user_id c = fi_user_id fi) (finalized_credential fi)) s = (Inr x, s1)"
    for s x s1
    using yieldsD [OF yields_db_stmt [OF on_tables_half_finalized finalize_credential_whole [OF b a]] that] by blast
  show ?thesis
    unfolding finalize_signup_def
    by (auto intro!: yields_fail yields_bind [OF yields_keeps, of ?A] keeps_require_transaction
        yields_bind [OF yields_db_stmt [OF A finalize_user_half]] split: option.split)
      (auto simp: yields_def elim!: go_bind_okE split: if_splits intro: whole)
qed

lemma verify_signup_pubkey_bundle_ok:
  assumes v: "verify_signup_pubkey_bundle (ae_crypto env) vals = Inr version"
    and k: "parse_anchor_pubkeys (ae_crypto env) (fq_anchor_es384_public_key (fv_req vals)) (fq_anchor_mldsa87_public_key (fv_req vals))
        = Inr (fv_anchor_es384_pub vals, fv_mldsa87_pub_bytes vals)"
    and b: "parse_hybrid_signatures (fq_pubkey_bundle_signature_es384 (fv_req vals)) (fq_pubkey_bundle_signature_mldsa87 (fv_req vals))
        = Inr (fv_bundle_sig_es vals, fv_bundle_sig_ml vals)"
    and u: "u_id u = fv_user_id vals"
  shows "bundle_vouched (ae_crypto env) (finalized_row n (finalize_input vals version) u)"
proof -
  from v obtain jwk where j: "parse_p384_canonical_body (fq_anchor_es384_public_key (fv_req vals)) = Some jwk"
    by (auto simp: verify_signup_pubkey_bundle_def split: option.splits)
  have "stored_bundle (finalized_row n (finalize_input vals version) u) jwk tail = signup_bundle (fv_user_id vals) (fv_req vals) jwk tail"
    for tail by (simp add: stored_bundle_def signup_bundle_def finalized_row_def finalize_input_def Let_def u)
  then show ?thesis
    using v k b j
    by (auto simp: bundle_vouched_def verify_signup_pubkey_bundle_def finalized_row_def finalize_input_def Let_def
        split: if_splits sum.splits)
qed

lemma check_attestation_ok:
  "check_attestation cr now es_pub ml_pub p a b uid cid hash epoch = Inr () \<Longrightarrow>
     verify_hybrid_attestation cr (Some es_pub) ml_pub p a b = Inr () \<and> ap_user_id p = uid \<and> ap_credential_id p = cid
     \<and> ap_credential_public_key_hash p = hash \<and> ap_wrapped_key_epoch p = epoch
     \<and> validate_created_at (ap_created_at p) now attestation_created_at_skew = Inr ()"
  by (auto simp: check_attestation_def split: sum.splits if_splits)

lemma vouched_finalize_setup:
  assumes k: "parse_anchor_pubkeys (ae_crypto env) (fq_anchor_es384_public_key (fv_req vals)) (fq_anchor_mldsa87_public_key (fv_req vals))
        = Inr (fv_anchor_es384_pub vals, fv_mldsa87_pub_bytes vals)"
    and b: "parse_hybrid_signatures (fq_pubkey_bundle_signature_es384 (fv_req vals)) (fq_pubkey_bundle_signature_mldsa87 (fv_req vals))
        = Inr (fv_bundle_sig_es vals, fv_bundle_sig_ml vals)"
    and a: "parse_hybrid_signatures (fq_attestation_signature_es384 (fv_req vals)) (fq_attestation_signature_mldsa87 (fv_req vals))
        = Inr (fv_attest_sig_es vals, fv_attest_sig_ml vals)"
    and p: "parse_attestation_payload (fq_attestation_payload (fv_req vals)) = Some (fv_attest_payload vals)"
  shows "yields (vouched env) (finalize_setup env c vals) (\<lambda>_. vouched env)"
proof (rule yieldsI)
  fix s user s1
  assume I: "vouched env s" and f: "finalize_setup env c vals s = (Inr user, s1)"
  obtain cred hash version user' s2 s3 where l: "list_credentials (fv_user_id vals) s = (Inr [cred], s2)"
    and h: "credential_public_key_hash_from_stored env (c_public_key cred) = Inr hash"
    and v: "verify_signup_pubkey_bundle (ae_crypto env) vals = Inr version"
    and ca: "check_attestation (ae_crypto env) (au_clock c 0) (fv_anchor_es384_pub vals) (fv_mldsa87_pub_bytes vals)
        (fv_attest_payload vals) (fv_attest_sig_es vals) (fv_attest_sig_ml vals) (fv_user_id vals) (c_credential_id cred) hash 1 = Inr ()"
    and fs: "finalize_signup (au_clock c 1) (finalize_input vals version) s2 = (Inr user', s3)"
    and au: "auth_audit env c (au_clock c 2) ''auth.finalize_signup'' (usr_id user') [] [] s3 = (Inr (), s1)"
    using f by (auto simp: finalize_setup_def map_error_ok elim!: go_bind_okE split: list.splits sum.splits if_splits)
  let ?fi = "finalize_input vals version"
  have uid: "fi_user_id ?fi = fv_user_id vals" by (simp add: finalize_input_def Let_def)
  have "vouched env s2 \<and> only_credential (fi_user_id ?fi) cred s2"
    using yieldsD [OF list_one_credential I l] uid by simp
  moreover have "attested env (finalized_row n ?fi u) (finalized_credential ?fi cred)" if "u_id u = fi_user_id ?fi" for n u
    using check_attestation_ok [OF ca] h k a p that
    by (auto simp: attested_def finalized_row_def finalized_credential_def finalize_input_def Let_def)
  moreover have "bundle_vouched (ae_crypto env) (finalized_row n ?fi u)" if "u_id u = fi_user_id ?fi" for n u
    using verify_signup_pubkey_bundle_ok [OF v k b] that uid by simp
  ultimately have "vouched env s3" using yieldsD [OF finalize_signup_vouched _ fs] by blast
  then show "vouched env s1" using keeps_stepD [OF vouched_auth_audit(1) _ au] by blast
qed

text \<open>Adding a credential; what is stored of it carries the public key that was attested.\<close>

definition keeps_public_keys :: "('ek, 'mk) auth_env \<Rightarrow> bool" where
  "keeps_public_keys env \<longleftrightarrow> (\<forall>cred js. ae_marshal_credential env cred = Inr js
     \<longrightarrow> js \<noteq> [] \<and> ae_stored_public_key env js = Some (wc_public_key cred))"

lemma stored_hash:
  assumes "keeps_public_keys env" and "ae_marshal_credential env cred = Inr js"
  shows "credential_public_key_hash_from_stored env js = credential_public_key_hash (cr_sha256 (ae_crypto env)) (wc_public_key cred)
    \<or> wc_public_key cred = []"
  using assms
  by (auto simp: keeps_public_keys_def credential_public_key_hash_from_stored_def extract_stored_credential_cose_def)

lemma check_new_credential_ok:
  assumes "check_new_credential env c vals user cred = Inr ()"
  obtains ek mlb where
    "parse_anchor_pubkeys (ae_crypto env) (usr_anchor_es384_public_key user) (usr_anchor_mldsa87_public_key user) = Inr (ek, mlb)"
    "credential_public_key_hash (cr_sha256 (ae_crypto env)) (wc_public_key cred) = Inr (ap_credential_public_key_hash (av_attest_payload vals))"
    "verify_hybrid_attestation (ae_crypto env) (Some ek) mlb (av_attest_payload vals) (av_attest_sig_es vals) (av_attest_sig_ml vals) = Inr ()"
    "ap_user_id (av_attest_payload vals) = au_user_id c"
    "ap_credential_id (av_attest_payload vals) = raw_url_encode (wc_id cred)"
    "ap_wrapped_key_epoch (av_attest_payload vals) = usr_wrapped_key_epoch user" "wc_public_key cred \<noteq> []"
    "validate_created_at (ap_created_at (av_attest_payload vals)) (au_clock c 1) attestation_created_at_skew = Inr ()"
  using assms
  by (auto simp: check_new_credential_def credential_public_key_hash_def dest!: check_attestation_ok
      split: sum.splits if_splits)

lemma get_user_by_id_yields:
  "yields (vouched env) (get_user_by_id uid) (\<lambda>found s. vouched env s \<and>
     (\<forall>user. found = Some user \<longrightarrow> (\<exists>u\<in>set (db_users s). u_id u = uid \<and> user = user_of_row u)))"
proof (rule yieldsI)
  fix s found s1
  assume I: "vouched env s" and g: "get_user_by_id uid s = (Inr found, s1)"
  from get_user_by_id_ok [OF g] have st: "same_tables s s1"
    and f: "found = map_option user_of_row (first_row (rows_where (\<lambda>r. u_id r = uid) (db_users s)))" by auto
  have "vouched env s1" using on_tablesD [OF on_tables_vouched I st] .
  then show "vouched env s1 \<and> (\<forall>user. found = Some user \<longrightarrow> (\<exists>u\<in>set (db_users s1). u_id u = uid \<and> user = user_of_row u))"
    using f same_tables_eqs(1) [OF st] by (auto dest!: first_row_where)
qed

definition vouched_with :: "('ek, 'mk) auth_env \<Rightarrow> user_row \<Rightarrow> database \<Rightarrow> bool" where
  "vouched_with env u s \<longleftrightarrow> vouched env s \<and> u \<in> set (db_users s)"

lemma on_tables_vouched_with: "on_tables (vouched_with env u)"
  unfolding vouched_with_def by (intro on_tables_conj on_tables_vouched on_tables_users)

lemma add_credential_vouched:
  assumes u: "u_id u = ai_user_id inp"
    and a: "\<And>c. \<lbrakk>c_user_id c = ai_user_id inp; c_credential_id c = ai_credential_id inp; c_public_key c = ai_public_key inp;
       c_attestation_payload c = ai_attestation_payload inp; c_attestation_signature_es384 c = ai_attestation_signature_es384 inp;
       c_attestation_signature_mldsa87 c = ai_attestation_signature_mldsa87 inp\<rbrakk> \<Longrightarrow> attested env u c"
  shows "yields (vouched_with env u) (add_credential now nid inp) (\<lambda>_. vouched env)"
proof -
  have "yields (vouched_with env u) (add_credential_stmt nid n inp) (\<lambda>_. vouched env)" for n
  proof (rule yieldsI)
    fix s x s1
    assume I: "vouched_with env u s" and st: "add_credential_stmt nid n inp s = (Inr x, s1)"
    have one: "w = u" if "w \<in> set (db_users s)" "u_id w = ai_user_id inp" for w
      using I u that unfolding vouched_with_def vouched_def accounts_vouched_def
      by (metis (mono_tags, lifting) row_of_iff option.inject)
    define row where "row epoch = \<lparr>c_id = nid, c_user_id = ai_user_id inp, c_credential_id = ai_credential_id inp,
        c_display_name = ai_display_name inp, c_public_key = ai_public_key inp, c_sign_count = ai_sign_count inp,
        c_wrapped_primary_key = ai_wrapped_primary_key inp, c_wrapped_anchor_key = ai_wrapped_anchor_key inp,
        c_attestation_payload = ai_attestation_payload inp, c_attestation_signature_es384 = ai_attestation_signature_es384 inp,
        c_attestation_signature_mldsa87 = ai_attestation_signature_mldsa87 inp, c_wrapped_key_epoch = epoch,
        c_created_at = n, c_last_used_at = n\<rparr>" for epoch
    have "attested env u (row epoch)" for epoch by (rule a) (simp_all add: row_def)
    moreover have "c_user_id (row epoch) = ai_user_id inp" for epoch by (simp add: row_def)
    ultimately have new: "accounts_vouched env (db_users s) (db_credentials s @ [row epoch])" for epoch
      using I by (intro vouched_new_credential) (auto simp: vouched_with_def vouched_def dest!: one)
    have "s1 = s \<or> (\<exists>epoch. s1 = put_credentials (db_credentials s @ [row epoch]) s)"
      using st unfolding add_credential_stmt_def row_def [symmetric]
      by (cases "active_epoch (ai_user_id inp) s")
        (auto simp: insert_credential_def require_user_def sql_insert_def go_bind_def split: if_splits)
    then show "vouched env s1" using I new by (auto simp: vouched_with_def vouched_def)
  qed
  then show ?thesis
    unfolding add_credential_def
    by (auto intro!: yields_fail yields_bind [OF yields_db_stmt [OF on_tables_vouched_with]] yields_return)
qed

lemma vouched_register_credential:
  assumes m: "keeps_public_keys env"
    and a: "parse_hybrid_signatures (aq_attestation_signature_es384 (av_req vals)) (aq_attestation_signature_mldsa87 (av_req vals))
        = Inr (av_attest_sig_es vals, av_attest_sig_ml vals)"
    and p: "parse_attestation_payload (aq_attestation_payload (av_req vals)) = Some (av_attest_payload vals)"
    and u: "u_id u = au_user_id c"
  shows "yields (vouched_with env u) (register_credential env c vals name session (user_of_row u)) (\<lambda>_. vouched env)"
proof (rule yieldsI)
  fix s2 x s9
  assume I: "vouched_with env u s2" and f: "register_credential env c vals name session (user_of_row u) s2 = (Inr x, s9)"
  obtain wu s3 cred cred_json existing s4 s5 where s3: "load_ready_user env (user_of_row u) s2 = (Inr wu, s3)"
    and fin: "finish_webauthn_registration env wu (aq_credential (av_req vals)) session = Inr (cred, cred_json)"
    and s4: "get_credential_by_credential_id (raw_url_encode (wc_id cred)) (au_user_id c) s3 = (Inr existing, s4)"
    and chk: "check_new_credential env c vals (user_of_row u) cred = Inr ()"
    and s5: "add_credential (au_clock c 2) (au_new_id c) (add_input c (av_req vals) name cred cred_json) s4 = (Inr (), s5)"
    and s9: "auth_event env c (au_clock c 3) ''auth.credential_add_finish'' (raw_url_encode (wc_id cred)) [] s5 = (Inr x, s9)"
    using f by (auto simp: register_credential_def go_require_def elim!: go_bind_okE split: if_splits)
  have I4: "vouched_with env u s4"
    using keeps_stepD [OF reads_keep(5) [OF on_tables_vouched_with] keeps_stepD [OF load_keeps(2) [OF on_tables_vouched_with] I s3] s4] .
  have js: "ae_marshal_credential env cred = Inr cred_json"
    using fin by (auto simp: finish_webauthn_registration_def split: sum.splits option.splits)
  have att: "attested env u d"
    if "c_user_id d = au_user_id c" "c_credential_id d = raw_url_encode (wc_id cred)" "c_public_key d = cred_json"
      "c_attestation_payload d = aq_attestation_payload (av_req vals)"
      "c_attestation_signature_es384 d = aq_attestation_signature_es384 (av_req vals)"
      "c_attestation_signature_mldsa87 d = aq_attestation_signature_mldsa87 (av_req vals)" for d
    using that stored_hash [OF m js] a p u
    by (auto intro: check_new_credential_ok [OF chk] simp: attested_def user_of_row_def)
  have "vouched env s5"
    by (rule yieldsD [OF add_credential_vouched I4 s5]) (simp_all add: u add_input_def att)
  then show "vouched env s9" using keeps_stepD [OF vouched_auth_event _ s9] by blast
qed

lemma vouched_add_credential_finish:
  assumes m: "keeps_public_keys env"
    and a: "parse_hybrid_signatures (aq_attestation_signature_es384 (av_req vals)) (aq_attestation_signature_mldsa87 (av_req vals))
        = Inr (av_attest_sig_es vals, av_attest_sig_ml vals)"
    and p: "parse_attestation_payload (aq_attestation_payload (av_req vals)) = Some (av_attest_payload vals)"
  shows "yields (vouched env) (add_credential_finish env c vals) (\<lambda>_. vouched env)"
proof -
  have "yields (\<lambda>s. vouched env s \<and> (\<forall>user. found = Some user \<longrightarrow> (\<exists>u\<in>set (db_users s). u_id u = au_user_id c \<and> user = user_of_row u)))
      (case found of None \<Rightarrow> go_fail user_missing | Some user \<Rightarrow> register_credential env c vals name session user)
      (\<lambda>_. vouched env)" for found name session
    using yieldsD [OF vouched_register_credential [OF m a p]]
    by (cases found) (auto simp: yields_def vouched_with_def)
  then show ?thesis
    unfolding add_credential_finish_def
    by (intro yields_bind [OF yields_keeps [OF keeps_map_error [OF vouched_consume_challenge]]]
        yields_bind [OF yields_keeps [OF keeps_lift]])
      (auto intro!: yields_bind [OF get_user_by_id_yields])
qed

section \<open>The handlers\<close>

abbreviation sv_vouched :: "('ek, 'mk) auth_env \<Rightarrow> server \<Rightarrow> bool" where
  "sv_vouched env s \<equiv> vouched env (sv_db s)"

lemma keeps_on_db: "keeps I m \<Longrightarrow> keeps (\<lambda>s. I (sv_db s)) (on_db m)"
  by (auto simp: keeps_def on_db_def split: prod.splits)

lemma keeps_tx: "keeps (vouched env) m \<Longrightarrow> keeps (sv_vouched env) (on_db (db_transaction m))"
  by (intro keeps_on_db keeps_db_transaction on_tables_vouched)

lemma keeps_tx_yields: "yields (vouched env) m (\<lambda>_. vouched env) \<Longrightarrow> keeps (sv_vouched env) (on_db (db_transaction m))"
  by (intro keeps_on_db keeps_transaction_yields on_tables_vouched)

lemma keeps_queue [keeps_intros]:
  "keeps (\<lambda>s. I (sv_db s)) (enqueue_delete ev)" "keeps (\<lambda>s. I (sv_db s)) (dequeue_delete key)"
  "keeps (\<lambda>s. I (sv_db s)) (enqueue_challenge_delete ch)"
  by (auto simp: keeps_def enqueue_delete_def dequeue_delete_def enqueue_challenge_delete_def queue_call_def go_bind_def
      split: list.splits)

lemma keeps_audited:
  assumes "keeps (sv_vouched env) (on_db (db_transaction m))"
  shows "keeps (sv_vouched env) (audited_transaction e c now ev m)"
  unfolding audited_transaction_def
  by (intro keeps_bind keeps_try keeps_case_sum keeps_fail keeps_return keeps_on_db vouched_auth_audit assms)

lemma keeps_session_check [keeps_intros]: "keeps I (require_user_session c)"
  by (simp add: require_user_session_def keeps_require)

lemmas handler_steps = keeps_bind keeps_case_option keeps_case_prod keeps_if keeps_lift keeps_fail keeps_return
  keeps_map_error keeps_require keeps_session_check keeps_queue

text \<open>One call of a handler of the file with its context, or a due event of the delete queue.\<close>

datatype auth_request =
    Req_Register_Begin "string option"
  | Req_Register_Finish "(string \<times> string) option"
  | Req_Login_Begin
  | Req_Login_Finish "(string \<times> string) option"
  | Req_Finalize_Signup "finalize_signup_request option"
  | Req_Allowed_IPs "string list option"
  | Req_Request_Key
  | Req_Session
  | Req_Logout
  | Req_Display_Name "string option"
  | Req_Wrapped_Key "update_wrapped_key_request option"
  | Req_Credentials
  | Req_Add_Begin "string option"
  | Req_Add_Finish "add_credential_request option"
  | Req_Rename "(string \<times> string) option"
  | Req_Delete "string option"
  | Due_Delete "nat \<Rightarrow> go_time" delete_event

definition discard :: "'a sv_op \<Rightarrow> unit sv_op" where
  "discard m = go_bind m (\<lambda>_. go_return ())"

definition auth_request_op :: "('ek, 'mk) auth_env \<Rightarrow> auth_call_context \<times> auth_request \<Rightarrow> unit sv_op" where
  "auth_request_op env r = (case r of (c, req) \<Rightarrow> (case req of
      Req_Register_Begin b \<Rightarrow> discard (route_register_begin env c b)
    | Req_Register_Finish b \<Rightarrow> discard (route_register_finish env c b)
    | Req_Login_Begin \<Rightarrow> discard (route_login_begin env c)
    | Req_Login_Finish b \<Rightarrow> discard (route_login_finish env c b)
    | Req_Finalize_Signup b \<Rightarrow> discard (route_finalize_signup env c b)
    | Req_Allowed_IPs b \<Rightarrow> discard (route_allowed_ips env c b)
    | Req_Request_Key \<Rightarrow> discard (route_request_key_regenerate env c)
    | Req_Session \<Rightarrow> discard (route_session env c)
    | Req_Logout \<Rightarrow> route_logout env c
    | Req_Display_Name b \<Rightarrow> discard (route_update_display_name env c b)
    | Req_Wrapped_Key b \<Rightarrow> route_update_wrapped_key env c b
    | Req_Credentials \<Rightarrow> discard (route_list_credentials env c)
    | Req_Add_Begin b \<Rightarrow> discard (route_add_credential_begin env c b)
    | Req_Add_Finish b \<Rightarrow> route_add_credential_finish env c b
    | Req_Rename b \<Rightarrow> route_rename_credential env c b
    | Req_Delete b \<Rightarrow> route_delete_credential env c b
    | Due_Delete clock ev \<Rightarrow> execute_delete_event clock ev))"

definition run_auth_request :: "('ek, 'mk) auth_env \<Rightarrow> auth_call_context \<times> auth_request \<Rightarrow> server \<Rightarrow> server" where
  "run_auth_request env r s = snd (auth_request_op env r s)"

lemma keeps_discard: "keeps I m \<Longrightarrow> keeps I (discard m)"
  by (simp add: discard_def keeps_bind keeps_return)

lemma vouched_ceremony_routes:
  "keeps (sv_vouched env) (route_register_begin env c b1)" "keeps (sv_vouched env) (route_register_finish env c b2)"
  "keeps (sv_vouched env) (route_login_begin env c)"
  unfolding route_register_begin_def route_register_finish_def route_login_begin_def Let_def
  by (intro handler_steps keeps_tx keeps_audited keeps_tx_yields vouched_register_finish vouched_begin_challenge)+

lemma vouched_login_finish: "keeps (vouched env) (login_finish env c challenge_id credential)"
proof -
  have "keeps (vouched env) (discover_user env h)" for h
    unfolding discover_user_def by (intro handler_steps vouched_ops)
  then have "keeps (vouched env) (finish_discoverable_login env session body)" for session body
    unfolding finish_discoverable_login_def
    by (auto intro!: handler_steps split: login_ceremony.split)
  then show ?thesis
    unfolding login_finish_def Let_def by (intro handler_steps vouched_ops)
qed

lemma vouched_route_login_finish: "keeps (sv_vouched env) (route_login_finish env c b)"
  unfolding route_login_finish_def Let_def
  by (intro handler_steps keeps_audited keeps_tx vouched_login_finish)

lemma vouched_route_finalize_signup: "keeps (sv_vouched env) (route_finalize_signup env c b)"
proof (cases b)
  case None
  then show ?thesis unfolding route_finalize_signup_def by (auto intro!: handler_steps)
next
  case (Some req)
  then show ?thesis
    unfolding route_finalize_signup_def option.case Let_def
    by (auto intro!: handler_steps keeps_bind_lift keeps_tx_yields vouched_finalize_setup
        simp: or_bad_request_def parse_attestation_def split: sum.splits option.splits)
qed

lemma vouched_route_add_finish:
  assumes "keeps_public_keys env"
  shows "keeps (sv_vouched env) (route_add_credential_finish env c b)"
  using assms unfolding route_add_credential_finish_def
  by (auto intro!: handler_steps keeps_bind_lift keeps_tx_yields vouched_add_credential_finish
      simp: or_bad_request_def parse_attestation_def split: sum.splits option.splits)

lemma vouched_account_routes:
  "keeps (sv_vouched env) (route_allowed_ips env c b1)" "keeps (sv_vouched env) (route_request_key_regenerate env c)"
  "keeps (sv_vouched env) (route_session env c)" "keeps (sv_vouched env) (route_logout env c)"
  "keeps (sv_vouched env) (route_update_display_name env c b2)" "keeps (sv_vouched env) (route_update_wrapped_key env c b3)"
  "keeps (sv_vouched env) (route_list_credentials env c)" "keeps (sv_vouched env) (route_add_credential_begin env c b2)"
  "keeps (sv_vouched env) (route_rename_credential env c b4)" "keeps (sv_vouched env) (route_delete_credential env c b2)"
  unfolding route_allowed_ips_def route_request_key_regenerate_def route_session_def route_logout_def
    route_update_display_name_def route_update_wrapped_key_def update_wrapped_key_def route_list_credentials_def
    route_add_credential_begin_def add_credential_begin_def route_rename_credential_def route_delete_credential_def Let_def
  by (intro handler_steps keeps_tx keeps_on_db vouched_ops)+

lemma vouched_delete_nonready [vouched_ops]: "keeps (vouched env) (delete_nonready_user uid now)"
proof -
  have "keeps (vouched env) (delete_users P)" for P
    by (auto simp: keeps_def delete_users_def Let_def vouched_def distinct_delete_rows accounts_vouched_def)
  then show ?thesis
    unfolding delete_nonready_user_def Let_def by (intro keeps_bind keeps_return keeps_db_stmt on_tables_vouched)
qed

lemma vouched_due_delete: "keeps (sv_vouched env) (execute_delete_event clock ev)"
proof -
  have "keeps (vouched env) (delete_terminal_request st t)" "keeps (vouched env) (delete_expired_auth_challenge cid now)"
    "keeps (vouched env) (prune_before n)" for st t cid now n
    unfolding delete_terminal_request_def delete_expired_auth_challenge_def prune_before_def Let_def
    by (intro handler_steps keeps_db_stmt on_tables_vouched keeps_vouched_other;
        simp add: sql_delete_def delete_challenges_def Let_def)+
  then show ?thesis
    unfolding execute_delete_event_def enqueue_audit_prune_def
    by (intro handler_steps keeps_try keeps_on_db vouched_delete_nonready)
qed

lemma auth_request_keeps:
  assumes "keeps_public_keys env"
  shows "keeps (sv_vouched env) (auth_request_op env r)"
proof (cases r)
  case (Pair c req)
  show ?thesis
    unfolding Pair auth_request_op_def
    by (cases req) (simp_all add: keeps_discard vouched_ceremony_routes vouched_route_login_finish
        vouched_route_finalize_signup vouched_account_routes vouched_route_add_finish vouched_due_delete assms)
qed

interpretation auth_requests: call_system "run_auth_request env" "\<lambda>s. keeps_public_keys env \<longrightarrow> sv_vouched env s"
  for env :: "('ek, 'mk) auth_env"
  by unfold_locales (simp add: run_auth_request_def keepsD [OF auth_request_keeps])

text \<open>C16: Whatever requests the registration, login and account handlers get, in any order, with any failures
  of the database and the queues and with due clean-up events in between: in every ready account the
  stored hybrid anchor has signed the key bundle of the stored version over the stored keys, and has
  signed, for each credential of the account, an attestation that names this user, this credential id
  and the hash of this credential's stored public key.\<close>

theorem ready_accounts_vouched:
  assumes "keeps_public_keys env" and "vouched env (sv_db s)"
  shows "vouched env (sv_db (fold (run_auth_request env) rs s))"
  using auth_requests.runs_inv [of env s rs] assms by blast

section \<open>A ready account\<close>

definition sample_env_with :: "('ek, 'mk) crypto \<Rightarrow> ('ek, 'mk) auth_env" where
  "sample_env_with cr = \<lparr>ae_disable_signup = False, ae_session_timeout = minutes 20, ae_backend = Backend_SQLite,
     ae_crypto = cr, ae_json_valid = (\<lambda>_. True), ae_json_object = (\<lambda>_. ''{}''),
     ae_parse_json = (\<lambda>_. Some (J_Object [])), ae_render_json = (\<lambda>_. ''{}''), ae_parse_jwk = (\<lambda>_. None),
     ae_cidr_canonical = (\<lambda>_. None), ae_ip_canonical = Some,
     ae_marshal_register = (\<lambda>p. Inr (rp_user_id p)), ae_unmarshal_register = (\<lambda>_. None),
     ae_marshal_login = (\<lambda>p. Inr (lp_challenge p)),
     ae_unmarshal_login = (\<lambda>j. Some \<lparr>lp_challenge = j, lp_session = Some
        \<lparr>ws_challenge = j, ws_user_id = [], ws_expires = None, ws_rest = []\<rparr>\<rparr>),
     ae_marshal_add = (\<lambda>p. Inr (acp_user_id p)), ae_unmarshal_add = (\<lambda>_. None),
     ae_marshal_credential = (\<lambda>cred. Inr (CHR ''k'' # wc_public_key cred)),
     ae_unmarshal_credential = (\<lambda>j. Some \<lparr>wc_id = ''c'', wc_public_key = drop 1 j, wc_sign_count = 0, wc_rest = []\<rparr>),
     ae_stored_public_key = (\<lambda>j. if j = [] then None else Some (drop 1 j)),
     ae_default_parameters = [Alg_Classical (- 7)],
     ae_begin_registration = (\<lambda>_ _. Inl Err_Random), ae_begin_login = Inl Err_Random,
     ae_finish_registration = (\<lambda>_ _ _. None),
     ae_login_ceremony = (\<lambda>session body. Ceremony_Asks ''c'' ''h''
        (\<lambda>wu. case wu_credentials wu of [] \<Rightarrow> None | cred # _ \<Rightarrow> Some (cred\<lparr>wc_sign_count := 8\<rparr>)))\<rparr>"

definition sample_auth_env :: "(unit, unit) auth_env" where
  "sample_auth_env = sample_env_with toy_crypto"

lemmas sample_auth_env_fields = sample_auth_env_def sample_env_with_def

definition sample_auth_call :: "string \<Rightarrow> auth_call_context" where
  "sample_auth_call uid = \<lparr>au_user_id = uid, au_session_ttl = 60, au_clock = (\<lambda>n. seconds (100 + int n)), au_uuid = ''u'',
     au_new_id = ''new'', au_webauthn_id = Inr ''w'', au_random = Inr ''r'', au_audit_id = ''a1'',
     au_context = \<lparr>ac_session_user_id = uid, ac_request_user_id = None, ac_request_id = [], ac_client_ip = [],
       ac_user_agent = []\<rparr>, au_cookie = Inr (), au_over_limit = False\<rparr>"

definition sample_account :: user_row where
  "sample_account = sample_owner\<lparr>u_webauthn_user_id := ''aA'', u_pubkey_bundle_signature_es384 := toy_signature 96,
     u_pubkey_bundle_signature_mldsa87 := toy_signature 4627, u_pubkey_bundle_version := 2\<rparr>"

definition sample_attestation :: attestation_payload where
  "sample_attestation = \<lparr>ap_user_id = ''alice'', ap_credential_id = ''Yw'',
     ap_credential_public_key_hash = raw_url_encode ''pk'', ap_wrapped_key_epoch = 1, ap_created_at = 100\<rparr>"

definition sample_credential :: credential_row where
  "sample_credential = \<lparr>c_id = ''row'', c_user_id = ''alice'', c_credential_id = ''Yw'', c_display_name = [],
     c_public_key = ''kpk'', c_sign_count = 7, c_wrapped_primary_key = ''wpk'', c_wrapped_anchor_key = ''wak'',
     c_attestation_payload = attestation_body sample_attestation, c_attestation_signature_es384 = toy_signature 96,
     c_attestation_signature_mldsa87 = toy_signature 4627, c_wrapped_key_epoch = 1, c_created_at = 5, c_last_used_at = 5\<rparr>"

definition sample_account_db :: database where
  "sample_account_db = empty_database\<lparr>db_users := [sample_account], db_credentials := [sample_credential]\<rparr>"

lemma toy_signatures_parse:
  "parse_hybrid_signatures (toy_signature 96) (toy_signature 4627) = Inr (replicate 96 CHR ''s'', replicate 4627 CHR ''s'')"
  using toy_signature_decodes [of 96] toy_signature_decodes [of 4627]
  by (simp add: parse_hybrid_signatures_ok es384_signature_size_def p384_coordinate_size_def mldsa87_signature_size_def)

lemma toy_verifies:
  "verify_hybrid toy_crypto (Some ()) (replicate 2592 CHR ''k'') msg (replicate 96 CHR ''s'') (replicate 4627 CHR ''s'') = Inr ()"
  by (simp add: verify_hybrid_def Let_def verify_es384_ok_iff verify_mldsa87_ok_iff toy_crypto_def)

lemma sample_account_simps:
  "u_id sample_account = ''alice''" "u_ready sample_account"
  "u_anchor_es384_public_key sample_account = p384_canonical_body sample_anchor_jwk"
  "u_anchor_mldsa87_public_key sample_account = raw_url_encode (replicate 2592 CHR ''k'')"
  "u_pubkey_bundle_signature_es384 sample_account = toy_signature 96"
  "u_pubkey_bundle_signature_mldsa87 sample_account = toy_signature 4627" "u_pubkey_bundle_version sample_account = 2"
  by (simp_all add: sample_account_def sample_owner_def sample_key_db_def)

lemma sample_account_vouched: "vouched sample_auth_env sample_account_db"
proof -
  have cr: "ae_crypto sample_auth_env = toy_crypto" by (simp add: sample_auth_env_fields)
  have nl: "CHR 0x0A \<notin> set (raw_url_encode b)" for b
    using b64_char_no_break(1) by (force simp: raw_encode_def)
  note j = sample_anchor_body
  have "bundle_vouched toy_crypto sample_account"
    unfolding bundle_vouched_def sample_account_simps
    using sample_anchor_parses j toy_signatures_parse toy_verifies
    by (auto simp: verify_hybrid_bundle_v2_def stored_bundle_def)
  moreover have "parse_attestation_payload (attestation_body sample_attestation) = Some sample_attestation"
    using nl by (intro attestation.dec_enc) (simp add: sample_attestation_def attestation_ok_def fields_ok_def
        attestation_fields_def attestation_schema_def field_ok_def in_int64_def)
  moreover have "credential_public_key_hash_from_stored sample_auth_env ''kpk'' = Inr (raw_url_encode ''pk'')"
    by (simp add: credential_public_key_hash_from_stored_def extract_stored_credential_cose_def
        credential_public_key_hash_def sample_auth_env_fields toy_crypto_def)
  ultimately show ?thesis
    using sample_anchor_parses toy_signatures_parse toy_verifies
    by (auto simp: vouched_def accounts_vouched_def sample_account_db_def empty_database_def cr attested_def sample_account_simps
        sample_credential_def verify_hybrid_attestation_def sample_attestation_def)
qed

theorem ready_accounts_vouched_witness:
  "vouched sample_auth_env (sv_db (fold (run_auth_request sample_auth_env)
     [(sample_auth_call ''alice'', Req_Display_Name (Some ''Alice'')), (sample_auth_call ''alice'', Req_Delete (Some ''row'')),
      (sample_auth_call [], Req_Login_Begin)] (new_server sample_account_db)))"
proof (rule ready_accounts_vouched)
  show "keeps_public_keys sample_auth_env" by (auto simp: keeps_public_keys_def sample_auth_env_fields)
  show "vouched sample_auth_env (sv_db (new_server sample_account_db))"
    by (simp add: new_server_def sample_account_vouched)
qed

end
