(* ===== verification/Request_Routes.thy ===== *)
theory Request_Routes
  imports Server_State
begin

text \<open>
  The request-key side of the request flow (src/internal/server/routes-request.go):
  validation and creation of a request, the pubkey and signing-pubkey endpoints, and the
  long poll for the result.

  The long poll is cut where the Go routine can be interleaved with others: each database
  call, each section under \<open>s.lock\<close> and the \<open>select\<close> is one step, and \<open>poll\<close> is where the
  routine stands.  The webhook that \<open>RouteV2RequestCreate\<close> sends in the background is not
  modelled.
\<close>

record http_call =
  hc_request_user :: "user option"
  hc_session_user :: string
  hc_client_ip :: string
  hc_clock :: "nat \<Rightarrow> go_time"
  hc_uuid :: string
  hc_audit_id :: string
  hc_second_audit_id :: string
  hc_audit_context :: audit_context

definition missing_request_user :: go_error where
  "missing_request_user = Err_Msg ''missing request user in context''"

definition required_user :: "http_call \<Rightarrow> ('s, user) go" where
  "required_user c = (case hc_request_user c of None \<Rightarrow> go_fail missing_request_user | Some u \<Rightarrow> go_return u)"

section \<open>Validation\<close>

text \<open>A base64 member: decoded, and an error when that fails or gives a nil slice; kept re-encoded.\<close>

definition normalize_base64 :: "string \<Rightarrow> string option" where
  "normalize_base64 s = (case decode_base64_string s of Some (Some b) \<Rightarrow> Some (raw_url_encode b) | _ \<Rightarrow> None)"

definition validate_v2_create_body :: "string \<Rightarrow> request_create_body \<Rightarrow> request_create_body go_result" where
  "validate_v2_create_body operation body =
    (if operation \<notin> set [''encrypt'', ''decrypt'', ''sign''] then Inl (bad_request ''Invalid operation'')
     else if body_key_label body = [] then Inl (bad_request ''missing parameter keyLabel'')
     else case normalize_and_validate_key_label (body_key_label body) of
       None \<Rightarrow> Inl (bad_request ''invalid parameter keyLabel'')
     | Some label \<Rightarrow>
       if body_algorithm body = [] then Inl (bad_request ''missing parameter algorithm'')
       else if length (body_algorithm body) > 64 then Inl (bad_request ''parameter algorithm too long'')
       else case (if operation = ''sign'' then normalize_signing_algorithm (body_algorithm body)
                  else Some (body_algorithm body)) of
         None \<Rightarrow> Inl (bad_request ''unsupported signing algorithm'')
       | Some alg \<Rightarrow>
         if (operation = ''encrypt'' \<or> operation = ''decrypt'') \<and> \<not> is_supported_encryption_algorithm alg
           then Inl (bad_request ''unsupported encryption algorithm'')
         else if body_note body \<noteq> [] \<and> \<not> validate_note (body_note body)
           then Inl (bad_request ''parameter note contains invalid characters'')
         else if length (body_note body) > max_note_length then Inl (bad_request ''parameter note too long'')
         else if body_request_enc_alg body \<noteq> transport_alg then Inl (bad_request ''unsupported requestEncAlg'')
         else case validate_public_p256 (body_cli_ephemeral_public_key body) of
           Inl _ \<Rightarrow> Inl (bad_request ''invalid cliEphemeralPublicKey'')
         | Inr _ \<Rightarrow>
           (case normalize_base64 (body_mlkem_ciphertext body) of
              None \<Rightarrow> Inl (bad_request ''mlkemCiphertext is empty or invalid'')
            | Some mlkem \<Rightarrow>
              (case normalize_base64 (body_encrypted_payload_nonce body) of
                 None \<Rightarrow> Inl (bad_request ''encryptedPayloadNonce is empty or invalid'')
               | Some nonce \<Rightarrow>
                 (case normalize_base64 (body_encrypted_payload body) of
                    None \<Rightarrow> Inl (bad_request ''encryptedPayload is empty or invalid'')
                  | Some payload \<Rightarrow>
                    Inr (body\<lparr>body_key_label := label, body_algorithm := alg, body_mlkem_ciphertext := mlkem,
                              body_encrypted_payload_nonce := nonce, body_encrypted_payload := payload\<rparr>)))))"

section \<open>Creation\<close>

definition request_timeout :: "('ek, 'mk) server_env \<Rightarrow> request_create_body \<Rightarrow> go_time go_result" where
  "request_timeout env body =
    (let t = get_timeout (se_parse_duration env) body in
     if t = 0 then Inr (se_request_timeout env)
     else if t > hours 24 then Inl (bad_request ''timeout must not be more than 24 hours'')
     else Inr t)"

definition enc_envelope_of :: "request_create_body \<Rightarrow> request_enc_envelope" where
  "enc_envelope_of body =
    \<lparr>renv_cli_ephemeral_public_key = body_cli_ephemeral_public_key body, renv_mlkem_ciphertext = body_mlkem_ciphertext body,
     renv_nonce = body_encrypted_payload_nonce body, renv_ciphertext = body_encrypted_payload body\<rparr>"

definition create_input_of ::
  "string \<Rightarrow> http_call \<Rightarrow> user \<Rightarrow> request_create_body \<Rightarrow> go_time \<Rightarrow> go_time \<Rightarrow> string \<Rightarrow> create_request_input" where
  "create_input_of operation c user body now timeout encrypted =
    \<lparr>ci_state = hc_uuid c, ci_user_id = usr_id user, ci_operation = operation, ci_requestor_ip = hc_client_ip c,
     ci_key_label = body_key_label body, ci_algorithm = body_algorithm body, ci_note = body_note body,
     ci_created_at = now, ci_expires_at = now + timeout, ci_encrypted_request = encrypted\<rparr>"

definition create_request_tx ::
  "('ek, 'mk) server_env \<Rightarrow> http_call \<Rightarrow> create_request_input \<Rightarrow> unit db_op" where
  "create_request_tx env c inp =
    go_bind (create_request inp) (\<lambda>_.
    audit_event_tx (se_json_valid env) (hc_audit_id c) (hc_clock c 1) (hc_audit_context c)
      (no_fields\<lparr>fl_event_type := ''request.create'', fl_outcome := ''success'', fl_auth_method := ''request_key'',
         fl_actor_user_id := ci_user_id inp, fl_request_state := ci_state inp,
         fl_metadata := request_audit_metadata (se_json_object env) (ci_operation inp) (ci_algorithm inp)
           (ci_key_label inp) (ci_note inp)\<rparr>))"

definition pending_item_of :: "create_request_input \<Rightarrow> request_list_item" where
  "pending_item_of inp = list_item_of_row (row_of_input inp)"

record request_create_response =
  crr_state :: string
  crr_pending :: bool

text \<open>The response is written before the item is published; nothing after it can fail.\<close>

definition route_request_create ::
  "('ek, 'mk) server_env \<Rightarrow> string \<Rightarrow> http_call \<Rightarrow> request_create_body option \<Rightarrow> request_create_response sv_op" where
  "route_request_create env operation c parsed =
    go_bind (required_user c) (\<lambda>user.
    case parsed of None \<Rightarrow> go_fail (bad_request ''Invalid request body'') | Some body0 \<Rightarrow>
    go_bind (map_error (\<lambda>_. bad_request ''Invalid request'') (go_lift (validate_v2_create_body operation body0))) (\<lambda>body.
    go_bind (go_lift (request_timeout env body)) (\<lambda>timeout.
    let now = hc_clock c 0 in
    go_bind (go_lift (se_marshal_request env (enc_envelope_of body))) (\<lambda>encrypted.
    let inp = create_input_of operation c user body now timeout encrypted in
    go_bind (on_db (db_transaction (create_request_tx env c inp))) (\<lambda>_.
    go_bind (enqueue_expiry \<lparr>xe_state = hc_uuid c, xe_user_id = usr_id user, xe_ttl = now + int64 (timeout + seconds 5)\<rparr>) (\<lambda>_.
    go_bind (publish_list_item (pending_item_of inp)) (\<lambda>_.
    go_return \<lparr>crr_state = hc_uuid c, crr_pending = True\<rparr>)))))))"

section \<open>Public keys\<close>

definition pubkey_bundle_wrapped_key_epoch :: int where "pubkey_bundle_wrapped_key_epoch = 1"

record request_pubkey_response =
  rpk_user_id :: string
  rpk_ecdh_p256 :: string
  rpk_mlkem768 :: string
  rpk_anchor_es384 :: string
  rpk_anchor_mldsa87 :: string
  rpk_wrapped_key_epoch :: int
  rpk_bundle_version :: int
  rpk_bundle_sig_es384 :: string
  rpk_bundle_sig_mldsa87 :: string

definition route_request_pubkey :: "http_call \<Rightarrow> request_pubkey_response sv_op" where
  "route_request_pubkey c =
    go_bind (required_user c) (\<lambda>user.
    if usr_request_enc_ecdh_pubkey user = [] \<or> usr_request_enc_mlkem_pubkey user = []
    then go_fail (Err_Response 409 ''User has not configured request encryption key'')
    else go_return
      \<lparr>rpk_user_id = usr_id user, rpk_ecdh_p256 = usr_request_enc_ecdh_pubkey user,
       rpk_mlkem768 = usr_request_enc_mlkem_pubkey user, rpk_anchor_es384 = usr_anchor_es384_public_key user,
       rpk_anchor_mldsa87 = usr_anchor_mldsa87_public_key user, rpk_wrapped_key_epoch = pubkey_bundle_wrapped_key_epoch,
       rpk_bundle_version = usr_pubkey_bundle_version user,
       rpk_bundle_sig_es384 = usr_pubkey_bundle_signature_es384 user,
       rpk_bundle_sig_mldsa87 = usr_pubkey_bundle_signature_mldsa87 user\<rparr>)"

record signing_pubkey_response =
  spk_id :: string
  spk_algorithm :: string
  spk_key_label :: string
  spk_jwk :: string
  spk_payload :: string
  spk_sig_es384 :: string
  spk_sig_mldsa87 :: string

text \<open>The query parameters are empty strings when they are missing.\<close>

definition route_request_signing_pubkey :: "http_call \<Rightarrow> string \<Rightarrow> string \<Rightarrow> signing_pubkey_response sv_op" where
  "route_request_signing_pubkey c label_query algorithm_query =
    go_bind (required_user c) (\<lambda>user.
    if label_query = [] then go_fail (bad_request ''missing query parameter label'')
    else case normalize_and_validate_key_label label_query of
      None \<Rightarrow> go_fail (bad_request ''invalid label'')
    | Some label \<Rightarrow>
      (case (if algorithm_query = [] then Some ''ES256'' else normalize_signing_algorithm algorithm_query) of
         None \<Rightarrow> go_fail (bad_request ''unsupported algorithm'')
       | Some algorithm \<Rightarrow>
         go_bind (on_db (get_key_by_user_and_label (usr_id user) algorithm label)) (\<lambda>found. case found of
           None \<Rightarrow> go_fail (Err_Response 404 ''signing key not found'')
         | Some rec \<Rightarrow> go_return
             \<lparr>spk_id = sk_id rec, spk_algorithm = sk_algorithm rec, spk_key_label = sk_key_label rec, spk_jwk = sk_jwk rec,
              spk_payload = sk_publication_payload rec, spk_sig_es384 = sk_publication_signature_es384 rec,
              spk_sig_mldsa87 = sk_publication_signature_mldsa87 rec\<rparr>)))"

section \<open>The long poll\<close>

type_synonym result_reply = "request_result_response http_reply"

datatype poll =
    Poll_Start
  | Poll_Owned
  | Poll_Loop nat
  | Poll_Fetch nat bool
  | Poll_Wait nat string
  | Poll_Leave nat result_reply
  | Poll_Done result_reply
  | Poll_Crashed

definition state_not_found :: "nat \<Rightarrow> go_error" where
  "state_not_found code = Err_Response code ''State not found or expired''"

definition pending_response :: "string \<Rightarrow> request_result_response" where
  "pending_response st = \<lparr>res_state = st, res_pending = True, res_done = False, res_failed = False, res_response_envelope = None\<rparr>"

definition done_response :: "request_record \<Rightarrow> request_result_response" where
  "done_response rec = \<lparr>res_state = req_state rec, res_pending = False, res_done = True, res_failed = False,
     res_response_envelope = req_response_envelope rec\<rparr>"

definition failed_response :: "request_record \<Rightarrow> request_result_response" where
  "failed_response rec = \<lparr>res_state = req_state rec, res_pending = False, res_done = False, res_failed = True,
     res_response_envelope = None\<rparr>"

text \<open>Up to the subscription: the parameter, the user, the ownership read.\<close>

definition poll_open :: "('ek, 'mk) server_env \<Rightarrow> http_call \<Rightarrow> string \<Rightarrow> server \<Rightarrow> poll \<times> server" where
  "poll_open env c st s =
    (case go_bind (go_require (st \<noteq> []) (bad_request ''Missing parameter state'')) (\<lambda>_.
          go_bind (required_user c) (\<lambda>user.
          go_bind (on_db (get_request (se_unmarshal env) (hc_clock c 0) (hc_clock c 1) st)) (\<lambda>found. case found of
            None \<Rightarrow> go_fail (state_not_found 404)
          | Some rec \<Rightarrow> if req_user_id rec \<noteq> usr_id user then go_fail (state_not_found 404) else go_return ()))) s of
       (Inl e, s1) \<Rightarrow> (Poll_Done (abort_with_error_json e), s1)
     | (Inr _, s1) \<Rightarrow> (Poll_Owned, s1))"

definition poll_subscribe :: "string \<Rightarrow> server \<Rightarrow> poll \<times> server" where
  "poll_subscribe st s = (case subscribe_state st s of
      (Inl _, s1) \<Rightarrow> (Poll_Crashed, s1)
    | (Inr watch, s1) \<Rightarrow> (Poll_Loop watch, s1))"

definition poll_read :: "('ek, 'mk) server_env \<Rightarrow> http_call \<Rightarrow> string \<Rightarrow> nat \<Rightarrow> server \<Rightarrow> poll \<times> server" where
  "poll_read env c st watch s =
    (case on_db (get_request (se_unmarshal env) (hc_clock c 0) (hc_clock c 1) st) s of
       (Inl e, s1) \<Rightarrow> (Poll_Leave watch (abort_with_error_json e), s1)
     | (Inr None, s1) \<Rightarrow> (Poll_Leave watch (abort_with_error_json (state_not_found 400)), s1)
     | (Inr (Some rec), s1) \<Rightarrow>
         (case req_status rec of
            Status_Completed \<Rightarrow> (Poll_Fetch watch True, s1)
          | Status_Canceled \<Rightarrow> (Poll_Fetch watch False, s1)
          | Status_Expired \<Rightarrow> (Poll_Fetch watch False, s1)
          | Status_Pending \<Rightarrow> (Poll_Wait watch (req_state rec), s1)))"

definition poll_fetch :: "('ek, 'mk) server_env \<Rightarrow> http_call \<Rightarrow> string \<Rightarrow> nat \<Rightarrow> bool \<Rightarrow> server \<Rightarrow> poll \<times> server" where
  "poll_fetch env c st watch completed s =
    (case on_db (get_and_delete_terminal_request (se_unmarshal env) (hc_clock c 0) st) s of
       (Inl e, s1) \<Rightarrow> (Poll_Leave watch (abort_with_error_json e), s1)
     | (Inr None, s1) \<Rightarrow> (Poll_Loop watch, s1)
     | (Inr (Some rec), s1) \<Rightarrow>
         (Poll_Leave watch (if completed then Reply_Json 200 (done_response rec) else Reply_Json 409 (failed_response rec)), s1))"

text \<open>The \<open>select\<close> on the subscription: \<open>None\<close> while it blocks.\<close>

definition poll_wake :: "nat \<Rightarrow> string \<Rightarrow> server \<Rightarrow> (poll \<times> server) option" where
  "poll_wake watch rec_state s =
    (case receive (sv_chans s ! watch) of
       None \<Rightarrow> None
     | Some (Some _, ch) \<Rightarrow> Some (Poll_Loop watch, s\<lparr>sv_chans := (sv_chans s)[watch := ch]\<rparr>)
     | Some (None, _) \<Rightarrow> Some (Poll_Leave watch (Reply_Json 202 (pending_response rec_state)), s))"

definition poll_disconnected :: "nat \<Rightarrow> string \<Rightarrow> poll" where
  "poll_disconnected watch rec_state = Poll_Leave watch (Reply_Json 202 (pending_response rec_state))"

definition poll_close :: "string \<Rightarrow> nat \<Rightarrow> result_reply \<Rightarrow> server \<Rightarrow> poll \<times> server" where
  "poll_close st watch reply s = (case unsubscribe_state st watch s of
      (Inl _, s1) \<Rightarrow> (Poll_Crashed, s1)
    | (Inr _, s1) \<Rightarrow> (Poll_Done reply, s1))"

text \<open>The next step of a routine, if it has one without waiting.\<close>

fun poll_step :: "('ek, 'mk) server_env \<Rightarrow> http_call \<Rightarrow> string \<Rightarrow> poll \<Rightarrow> server \<Rightarrow> (poll \<times> server) option" where
  "poll_step env c st Poll_Start s = Some (poll_open env c st s)"
| "poll_step env c st Poll_Owned s = Some (poll_subscribe st s)"
| "poll_step env c st (Poll_Loop watch) s = Some (poll_read env c st watch s)"
| "poll_step env c st (Poll_Fetch watch completed) s = Some (poll_fetch env c st watch completed s)"
| "poll_step env c st (Poll_Wait watch rec_state) s = poll_wake watch rec_state s"
| "poll_step env c st (Poll_Leave watch reply) s = Some (poll_close st watch reply s)"
| "poll_step env c st (Poll_Done reply) s = None"
| "poll_step env c st Poll_Crashed s = None"

end
