(* ===== verification/Client_Properties.thy ===== *)
theory Client_Properties
  imports Client_Polling Auth_Route_Properties Request_Routes
begin

text \<open>
  What the client guarantees against any server, and what client, server and browser
  guarantee together: pins are final, only keys signed by the pinned anchor are used, the
  polling loop ends, and payloads survive the round trip through the server.
\<close>

section \<open>Replacing the trust store file\<close>

text \<open>Saving the trust store replaces the file by the whole new content or, when any step fails at any
  point, leaves every file as it was: no partial content, no temporary file left behind.\<close>

lemma save_replaces_or_keeps:
  assumes "save_trust_store tk path ts d = (r, d1)" and "dk_temp_name d \<noteq> path"
  shows "case r of Inr _ \<Rightarrow> (\<exists>b. tk_encode tk ts = Some b \<and> dk_files d1 = (dk_files d)(path \<mapsto> b))
     | Inl _ \<Rightarrow> dk_files d1 = dk_files d"
  using save_outcome [OF assms] by (cases r) simp_all

definition sample_store :: trust_store where
  "sample_store = \<lparr>ts_entries = Map.empty, ts_path = ''t.json''\<rparr>"

definition sample_disk :: client_disk where
  "sample_disk = \<lparr>dk_files = [''t.json'' \<mapsto> ''old''], dk_faults = [Io_Save_Fails (Save_Write 1)], dk_temp_name = ''tmp''\<rparr>"

theorem save_replaces_or_keeps_witness:
  "case fst (save_trust_store \<lparr>tk_decode = \<lambda>_. None, tk_encode = \<lambda>_. Some ''new''\<rparr> ''t.json'' sample_store sample_disk) of
     Inr _ \<Rightarrow> True
   | Inl _ \<Rightarrow> dk_files (snd (save_trust_store \<lparr>tk_decode = \<lambda>_. None, tk_encode = \<lambda>_. Some ''new''\<rparr> ''t.json''
       sample_store sample_disk)) = dk_files sample_disk"
  using save_replaces_or_keeps [OF prod.collapse [symmetric],
      where tk = "\<lparr>tk_decode = \<lambda>_. None, tk_encode = \<lambda>_. Some ''new''\<rparr>" and path = "''t.json''"
        and ts = sample_store and d = sample_disk]
  by (simp add: sample_disk_def split: sum.splits)

section \<open>Pins on disk\<close>

definition stored_pins :: "trust_codec \<Rightarrow> string \<Rightarrow> 'z client_disk_scheme \<Rightarrow> pins" where
  "stored_pins tk path d =
    (case dk_files d path of None \<Rightarrow> Map.empty
     | Some b \<Rightarrow> (case tk_decode tk b of Some (Some m) \<Rightarrow> m | _ \<Rightarrow> Map.empty))"

text \<open>
  What the JSON store relies on: \<open>text\<close> holds of the strings JSON keeps (valid UTF-8), a
  decoded map has only such strings, and a store of such strings is read back as written.
\<close>

definition pins_text :: "(string \<Rightarrow> bool) \<Rightarrow> pins \<Rightarrow> bool" where
  "pins_text text m \<longleftrightarrow> finite (dom m) \<and>
    (\<forall>k e. m k = Some e \<longrightarrow> text k \<and> text (te_anchor_es384 e) \<and> text (te_anchor_mldsa87 e) \<and> text (te_fingerprint e))"

definition codec_laws :: "(string \<Rightarrow> bool) \<Rightarrow> trust_codec \<Rightarrow> bool" where
  "codec_laws text tk \<longleftrightarrow>
     (\<forall>b m. tk_decode tk b = Some (Some m) \<longrightarrow> pins_text text m)
   \<and> (\<forall>ts b. pins_text text (ts_entries ts) \<longrightarrow> tk_encode tk ts = Some b \<longrightarrow> tk_decode tk b = Some (Some (ts_entries ts)))"

definition text_laws :: "(string \<Rightarrow> bool) \<Rightarrow> bool" where
  "text_laws text \<longleftrightarrow>
     (\<forall>s t. text s \<longrightarrow> text t \<longrightarrow> text (s @ t)) \<and> (\<forall>s. list_all (\<lambda>c. byte c < 128) s \<longrightarrow> text s)"

definition client_laws :: "(string \<Rightarrow> bool) \<Rightarrow> ('ek, 'mk) client_lib \<Rightarrow> bool" where
  "client_laws text lib \<longleftrightarrow> codec_laws text (lb_trust lib) \<and> text_laws text
   \<and> (\<forall>b r. lb_decode_pubkeys lib b = Some r \<longrightarrow>
        text (pk_user_id r) \<and> text (pk_anchor_es384 r) \<and> text (pk_anchor_mldsa87 r))"

lemma pins_text_empty: "pins_text text Map.empty"
  by (simp add: pins_text_def)

lemma codec_lawsD:
  assumes "codec_laws text tk"
  shows "tk_decode tk b = Some (Some m) \<Longrightarrow> pins_text text m"
    and "pins_text text (ts_entries ts) \<Longrightarrow> tk_encode tk ts = Some b \<Longrightarrow> tk_decode tk b = Some (Some (ts_entries ts))"
  using assms unfolding codec_laws_def by blast+

lemma stored_pins_text: "codec_laws text tk \<Longrightarrow> pins_text text (stored_pins tk path d)"
  using codec_lawsD(1) [where tk = tk]
  by (cases "dk_files d path"; cases "tk_decode tk (the (dk_files d path))";
      cases "the (tk_decode tk (the (dk_files d path)))")
    (simp_all add: stored_pins_def pins_text_empty)

lemma stored_pins_cong: "dk_files d1 path = dk_files d path \<Longrightarrow> stored_pins tk path d1 = stored_pins tk path d"
  by (simp add: stored_pins_def)

lemma load_gives_pins:
  assumes "load_trust_store tk path d = (Inr ts, d1)"
  shows "ts_entries ts = stored_pins tk path d" and "ts_path ts = path"
proof -
  obtain fs f where f: "next_fault d = (Inr f, d\<lparr>dk_faults := fs\<rparr>)" by (rule next_fault_cases)
  show "ts_entries ts = stored_pins tk path d" "ts_path ts = path"
    using assms f by (auto simp: load_trust_store_def go_bind_def stored_pins_def split: if_splits option.splits)
qed

lemma save_other_path:
  assumes "save_trust_store tk path ts d = (r, d1)" and "other \<noteq> path"
  shows "dk_files d1 other = dk_files d other"
proof -
  obtain fs f where f: "next_fault d = (Inr f, d\<lparr>dk_faults := fs\<rparr>)" by (rule next_fault_cases)
  show ?thesis
    using assms(1) [unfolded save_trust_store_def go_bind_def f] assms(2)
    by (auto simp: save_step_ok_def create_temp_def write_temp_def rename_file_def defer_remove_def go_bind_def Let_def
        split: if_splits option.splits io_fault.splits save_step.splits)
qed

text \<open>The name of the temporary file may coincide with the store's path only when the store does not exist yet.\<close>

lemma save_keeps_temp_clash:
  assumes "save_trust_store tk path ts d = (r, d1)" and "dk_temp_name d = path" and "dk_files d path \<noteq> None"
  shows "dk_files d1 path = dk_files d path"
proof -
  obtain fs f where f: "next_fault d = (Inr f, d\<lparr>dk_faults := fs\<rparr>)" by (rule next_fault_cases)
  show ?thesis
    using assms(1) [unfolded save_trust_store_def go_bind_def f] assms(2,3)
    by (auto simp: save_step_ok_def create_temp_def go_bind_def Let_def split: if_splits option.splits)
qed

lemma save_extends_pins:
  assumes "codec_laws text tk" and "pins_text text (ts_entries ts)" and "stored_pins tk path d \<subseteq>\<^sub>m ts_entries ts"
    and s: "save_trust_store tk path ts d = (r, d1)"
  shows "stored_pins tk path d \<subseteq>\<^sub>m stored_pins tk path d1"
    and "r = Inr () \<Longrightarrow> dk_temp_name d \<noteq> path \<Longrightarrow> stored_pins tk path d1 = ts_entries ts"
proof -
  have saved: "tk_encode tk ts = Some b \<Longrightarrow> dk_files d1 path = Some b \<Longrightarrow> stored_pins tk path d1 = ts_entries ts" for b
    using codec_lawsD(2) [OF assms(1,2)] by (simp add: stored_pins_def)
  show "stored_pins tk path d \<subseteq>\<^sub>m stored_pins tk path d1"
  proof (cases "dk_temp_name d = path")
    case True
    then show ?thesis using save_keeps_temp_clash [OF s True]
      by (cases "dk_files d path") (simp_all add: stored_pins_def map_le_def)
  next
    case False
    from save_outcome [OF s False] show ?thesis
    proof (elim disjE exE conjE)
      fix b assume "tk_encode tk ts = Some b" "dk_files d1 = (dk_files d)(path \<mapsto> b)"
      then show ?thesis using saved assms(3) by simp
    next
      assume "dk_files d1 = dk_files d"
      then show ?thesis using stored_pins_cong [of d1 path d tk] by simp
    qed
  qed
  show "r = Inr () \<Longrightarrow> dk_temp_name d \<noteq> path \<Longrightarrow> stored_pins tk path d1 = ts_entries ts"
    using save_outcome [OF s] saved by fastforce
qed

section \<open>Every call keeps the pins\<close>

lemma hex_encode_ascii: "list_all (\<lambda>c. byte c < 128) (hex_encode s)"
proof -
  have "byte (hex_digit n) < 128" if "n < 16" for n using that by (simp add: hex_digit_def byte_char_of)
  moreover have "byte c div 16 < 16" for c using byte_less [of c] by linarith
  ultimately show ?thesis by (auto simp: hex_encode_def list_all_iff)
qed

lemma fingerprint_ascii: "anchor_fingerprint cr pub ml = Inr fp \<Longrightarrow> list_all (\<lambda>c. byte c < 128) fp"
  by (auto simp: anchor_fingerprint_def hex_encode_ascii split: option.splits if_splits)

lemma key_text:
  assumes "text_laws text" "text server" "text user"
  shows "text (trust_store_key server user)"
proof -
  have "text ''|''" using assms(1) by (simp add: text_laws_def byte_def)
  then show ?thesis using assms unfolding text_laws_def trust_store_key_def by blast
qed

lemma client_lawsD:
  assumes "client_laws text lib"
  shows "codec_laws text (lb_trust lib)" and "text_laws text"
    and "lb_decode_pubkeys lib b = Some r \<Longrightarrow> text (pk_user_id r) \<and> text (pk_anchor_es384 r) \<and> text (pk_anchor_mldsa87 r)"
  using assms unfolding client_laws_def by blast+

lemma verify_and_pin_text:
  assumes laws: "client_laws text lib" and "text server" and "lb_decode_pubkeys lib b = Some resp"
    and "pins_text text (ts_entries ts)"
    and v: "verify_and_pin_anchor (lb_crypto lib) now confirm server resp ts = Inr (pinned, ts1)"
  shows "pins_text text (ts_entries ts1)"
proof (cases pinned)
  case False
  then show ?thesis using verify_and_pin_pins(3) [OF v] assms(4) by simp
next
  case True
  have resp: "text (pk_user_id resp)" "text (pk_anchor_es384 resp)" "text (pk_anchor_mldsa87 resp)"
    using client_lawsD(3) [OF laws assms(3)] by simp_all
  obtain fp es_pub ml_bytes where fp: "anchor_fingerprint (lb_crypto lib) (Some es_pub) ml_bytes = Inr fp"
    and ts1: "ts1 = ts\<lparr>ts_entries := (ts_entries ts)(trust_store_key server (pk_user_id resp) \<mapsto>
      \<lparr>te_anchor_es384 = pk_anchor_es384 resp, te_anchor_mldsa87 = pk_anchor_mldsa87 resp,
       te_fingerprint = fp, te_first_seen = now\<rparr>)\<rparr>"
    using v True by (elim verify_and_pin_steps check_or_pin_accepted) blast
  have "text fp" using fingerprint_ascii [OF fp] client_lawsD(2) [OF laws] unfolding text_laws_def by blast
  moreover have "text (trust_store_key server (pk_user_id resp))"
    by (rule key_text [OF client_lawsD(2) [OF laws] assms(2) resp(1)])
  ultimately show ?thesis using assms(4) resp by (simp add: ts1 pins_text_def)
qed

text \<open>The watched file is \<open>path\<close>; the client may use another.\<close>

definition pins_over :: "pins \<Rightarrow> trust_codec \<Rightarrow> string \<Rightarrow> 'z client_disk_scheme \<Rightarrow> bool" where
  "pins_over m tk path d \<longleftrightarrow> m \<subseteq>\<^sub>m stored_pins tk path d"

lemma keeps_pins_files: "(\<And>w. dk_files (snd (f w)) = dk_files w) \<Longrightarrow> keeps (pins_over m tk path) f"
  unfolding keeps_def pins_over_def by (metis stored_pins_cong)

lemma load_save_keep_pins:
  assumes laws: "client_laws text lib" and "text (cl_server cl)" and d: "lb_decode_pubkeys lib b = Some resp"
    and l: "load_trust_store (lb_trust lib) p w = (Inr ts, w1)"
    and v: "verify_and_pin_anchor (lb_crypto lib) now confirm (cl_server cl) resp ts = Inr (pinned, ts1)"
    and s: "save_trust_store (lb_trust lib) p ts1 w1 = (r, w2)"
  shows "stored_pins (lb_trust lib) path w \<subseteq>\<^sub>m stored_pins (lb_trust lib) path w2"
    and "r = Inr () \<Longrightarrow> dk_temp_name w \<noteq> p \<Longrightarrow> stored_pins (lb_trust lib) p w2 = ts_entries ts1"
proof -
  note codec = client_lawsD(1) [OF laws]
  have same: "dk_files w1 = dk_files w" "dk_temp_name w1 = dk_temp_name w"
    using load_keeps_files [of "lb_trust lib" p w] disk_temp_name(1) [of "lb_trust lib" p w] l by simp_all
  have ts: "ts_entries ts = stored_pins (lb_trust lib) p w1"
    using load_gives_pins(1) [OF l] stored_pins_cong [of w1 p w] same by simp
  have new: "pins_text text (ts_entries ts1)"
    by (rule verify_and_pin_text [OF laws assms(2) d _ v]) (simp add: ts stored_pins_text [OF codec])
  note ext = save_extends_pins [OF codec new _ s]
  have grow: "stored_pins (lb_trust lib) p w1 \<subseteq>\<^sub>m ts_entries ts1" using verify_and_pin_pins(1) [OF v] ts by simp
  show "stored_pins (lb_trust lib) path w \<subseteq>\<^sub>m stored_pins (lb_trust lib) path w2"
  proof (cases "path = p")
    case True
    then show ?thesis using ext(1) [OF grow] same stored_pins_cong [of w1 p w] by simp
  next
    case False
    then show ?thesis using save_other_path [OF s False] same stored_pins_cong [of w2 path w] by simp
  qed
  show "r = Inr () \<Longrightarrow> dk_temp_name w \<noteq> p \<Longrightarrow> stored_pins (lb_trust lib) p w2 = ts_entries ts1"
    using ext(2) [OF grow] same by simp
qed

text \<open>What an accepted bundle means: the anchor is pinned in the file the client uses.\<close>

lemma verify_and_pin_response_steps:
  assumes "verify_and_pin_response lib cl resp w = (Inr (Some a), w2)"
  obtains p ts w1 pinned ts1 where "resolve_trust_store_path (lb_env lib) (cl_trust_store_path cl) = Inr p"
    and "load_trust_store (lb_trust lib) p w = (Inr ts, w1)"
    and "verify_and_pin_anchor (lb_crypto lib) (cw_clock w1) (cl_confirm_anchor cl) (cl_server cl) resp ts = Inr (pinned, ts1)"
    and "if pinned then save_trust_store (lb_trust lib) p ts1 w1 = (Inr (), w2) else w2 = w1"
    and "parse_anchor_pubkeys_from_wire (lb_crypto lib) (pk_anchor_es384 resp) (pk_anchor_mldsa87 resp) =
           Inr (pa_es384_pub a, pa_mldsa87_pub_bytes a)"
    and "pa_user_id a = pk_user_id resp" and "\<not> cl_no_trust_store cl"
  using assms
  by (auto simp: verify_and_pin_response_def go_ok_iffs get_clock_def go_when_def split: if_splits)

section \<open>Calls of clients\<close>

lemma keeps_pins_quiet [keeps_intros]:
  "keeps (pins_over m tk path) draw_random"
  "keeps (pins_over m tk path) (http_do cl ctx req)"
  "keeps (pins_over m tk path) get_clock"
  "keeps (pins_over m tk path) (note_submitted b state)"
  by (rule keeps_pins_files;
      simp add: draw_random_def http_do_def http_send_def get_clock_def note_submitted_def Let_def split: list.splits option.splits server_reply.splits)+

lemma keeps_pins_random [keeps_intros]:
  "keeps (pins_over m tk path) (read_full n)"
  "keeps (pins_over m tk path) (new_transport_key_pair tc)"
  "keeps (pins_over m tk path) (encrypt_request_payload tc marshal ecdh mlkem payload aad)"
  by (auto simp: read_full_def new_transport_key_pair_def encrypt_request_payload_def Let_def
      intro!: keeps_intros split: prod.splits)

lemma keeps_pins_http [keeps_intros]:
  "keeps (pins_over m tk path) (do_json lib cl ctx decode req)"
  "keeps (pins_over m tk path) (fetch_pubkey_bundle lib cl ctx)"
  by (auto simp: do_json_def fetch_pubkey_bundle_def intro!: keeps_intros split: prod.splits)

lemma fetched_bundle: "fetch_pubkey_bundle lib cl ctx w = (Inr resp, w1) \<Longrightarrow> \<exists>b. lb_decode_pubkeys lib b = Some resp"
  by (auto simp: fetch_pubkey_bundle_def do_json_def go_ok_iffs split: if_splits)

lemma keeps_pins_verify:
  assumes laws: "client_laws text lib" and cl: "text (cl_server cl)" and b: "lb_decode_pubkeys lib b = Some resp"
  shows "keeps (pins_over m (lb_trust lib) path) (verify_and_pin_response lib cl resp)"
proof (rule keepsI)
  fix w :: "'z client_world_scheme" assume pins: "pins_over m (lb_trust lib) path w"
  show "pins_over m (lb_trust lib) path (snd (verify_and_pin_response lib cl resp w))"
  proof (cases "cl_no_trust_store cl")
    case True
    then show ?thesis using pins by (simp add: verify_and_pin_response_def)
  next
    case pinning: False
    show ?thesis
    proof (cases "resolve_trust_store_path (lb_env lib) (cl_trust_store_path cl)")
      case (Inl e)
      then show ?thesis using pins pinning by (simp add: verify_and_pin_response_def go_bind_def)
    next
      case (Inr p)
      obtain l w1 where l: "load_trust_store (lb_trust lib) p w = (l, w1)" by fastforce
      then have pins1: "pins_over m (lb_trust lib) path w1"
        using pins load_keeps_files [of "lb_trust lib" p w] stored_pins_cong [of w1 path w "lb_trust lib"]
        by (simp add: pins_over_def)
      let ?verify = "\<lambda>ts. verify_and_pin_anchor (lb_crypto lib) (cw_clock w1) (cl_confirm_anchor cl) (cl_server cl) resp ts"
      have saved: "pins_over m (lb_trust lib) path (snd (save_trust_store (lb_trust lib) p ts1 w1))"
        if "l = Inr ts" "?verify ts = Inr (pinned, ts1)" for ts pinned ts1
        using load_save_keep_pins(1) [OF laws cl b _ that(2) prod.collapse [symmetric]] l that(1) pins
        unfolding pins_over_def by (metis map_le_trans)
      show ?thesis
        using pinning Inr l pins1 saved
        by (auto simp: verify_and_pin_response_def go_bind_def get_clock_def go_when_def
            split: sum.splits prod.splits) (metis snd_conv)+
    qed
  qed
qed

lemma keeps_pins_fetched:
  fixes k :: "pubkey_response \<Rightarrow> ('z, 'a) client_op"
  assumes "\<And>resp b. lb_decode_pubkeys lib b = Some resp \<Longrightarrow> keeps (pins_over m tk path) (k resp)"
  shows "keeps (pins_over m tk path) (go_bind (fetch_pubkey_bundle lib cl ctx) k)"
proof (rule keepsI)
  fix w :: "'z client_world_scheme" assume w: "pins_over m tk path w"
  show "pins_over m tk path (snd (go_bind (fetch_pubkey_bundle lib cl ctx) k w))"
  proof (cases rule: go_bind_cases [of "fetch_pubkey_bundle lib cl ctx" w k])
    case (err e w1)
    then show ?thesis using keeps_stepD [OF keeps_pins_http(2) w] by simp
  next
    case (ok resp w1)
    obtain b where "lb_decode_pubkeys lib b = Some resp" using fetched_bundle [OF ok(1)] by blast
    then show ?thesis using keepsD [OF assms] keeps_stepD [OF keeps_pins_http(2) w ok(1)] ok(2) by metis
  qed
qed

lemma keeps_pins_operations:
  assumes laws: "client_laws text lib" and cl: "text (cl_server cl)"
  shows "keeps (pins_over m (lb_trust lib) path) (verify_anchor_trust lib cl ctx)"
    and "keeps (pins_over m (lb_trust lib) path) (fetch_and_verify_user_pubkeys lib cl ctx)"
  unfolding verify_anchor_trust_def fetch_and_verify_user_pubkeys_def
  by (intro keeps_pins_fetched keeps_intros keeps_pins_verify [OF laws cl]; assumption)+

lemma keeps_pins_submit:
  assumes laws: "client_laws text lib" and cl: "text (cl_server cl)"
  shows "keeps (pins_over m (lb_trust lib) path) (create_client_request lib cl ctx req kp)"
    and "keeps (pins_over m (lb_trust lib) path) (submit_operation lib cl ctx req)"
    and "keeps (pins_over m (lb_trust lib) path) (signing_public_key lib cl ctx label algorithm)"
proof -
  show create: "keeps (pins_over m (lb_trust lib) path) (create_client_request lib cl ctx req kp)" for kp
    unfolding create_client_request_def Let_def
    by (intro keeps_intros keeps_pins_operations [OF laws cl])
  show "keeps (pins_over m (lb_trust lib) path) (submit_operation lib cl ctx req)"
    unfolding submit_operation_def by (intro keeps_intros create)
  show "keeps (pins_over m (lb_trust lib) path) (signing_public_key lib cl ctx label algorithm)"
    unfolding signing_public_key_def by (intro keeps_intros keeps_pins_operations [OF laws cl])
qed

text \<open>What a process does with its clients, in any order.\<close>

datatype client_call =
    Call_Verify_Anchor client context_deadline
  | Call_Create client context_deadline client_request "transport_key_pair option"
  | Call_Result client context_deadline string "transport_key_pair option" string int
  | Call_Execute client context_deadline client_request
  | Call_Signing_Key client context_deadline string string

fun call_client :: "client_call \<Rightarrow> client" where
  "call_client (Call_Verify_Anchor cl _) = cl"
| "call_client (Call_Create cl _ _ _) = cl"
| "call_client (Call_Result cl _ _ _ _ _) = cl"
| "call_client (Call_Execute cl _ _) = cl"
| "call_client (Call_Signing_Key cl _ _ _) = cl"

text \<open>The world after a call; \<open>w\<close> itself if a call did not return, which \<open>get_result_returns\<close> excludes.\<close>

definition returned_world :: "'w \<Rightarrow> ('a \<times> 'w) option \<Rightarrow> 'w" where
  "returned_world w r = (case r of None \<Rightarrow> w | Some (_, w1) \<Rightarrow> w1)"

fun run_client_call :: "('ek, 'mk) client_lib \<Rightarrow> client_call \<Rightarrow> 'z client_world_scheme \<Rightarrow> 'z client_world_scheme" where
  "run_client_call lib (Call_Verify_Anchor cl ctx) w = snd (verify_anchor_trust lib cl ctx w)"
| "run_client_call lib (Call_Create cl ctx req kp) w = snd (create_client_request lib cl ctx req kp w)"
| "run_client_call lib (Call_Result cl ctx state kp aad t) w = returned_world w (get_result lib cl ctx state kp aad t w)"
| "run_client_call lib (Call_Execute cl ctx req) w = returned_world w (execute lib cl ctx req w)"
| "run_client_call lib (Call_Signing_Key cl ctx label alg) w = snd (signing_public_key lib cl ctx label alg w)"

lemma keeps_pins_call:
  assumes laws: "client_laws text lib" and cl: "text (cl_server (call_client c))"
    and w: "pins_over m (lb_trust lib) path w"
  shows "pins_over m (lb_trust lib) path (run_client_call lib c w)"
proof (cases c)
  case (Call_Verify_Anchor cl ctx)
  then show ?thesis using keepsD [OF keeps_pins_operations(1) [OF laws] w] cl by simp
next
  case (Call_Create cl ctx req kp)
  then show ?thesis using keepsD [OF keeps_pins_submit(1) [OF laws] w] cl by simp
next
  case (Call_Signing_Key cl ctx label alg)
  then show ?thesis using keepsD [OF keeps_pins_submit(3) [OF laws] w] cl by simp
next
  case (Call_Result cl ctx state kp aad t)
  obtain r w1 where g: "get_result lib cl ctx state kp aad t w = Some (r, w1)" using get_result_returns by blast
  then show ?thesis
    using get_result_files [OF g] w stored_pins_cong [of w1 path w "lb_trust lib"] Call_Result
    by (simp add: returned_world_def pins_over_def)
next
  case (Call_Execute cl ctx req)
  obtain r w1 where s: "submit_operation lib cl ctx req w = (r, w1)" by fastforce
  have w1: "pins_over m (lb_trust lib) path w1"
    using keepsD [OF keeps_pins_submit(2) [OF laws] w, of cl ctx req] s cl Call_Execute by simp
  show ?thesis
  proof (cases r)
    case (Inl e)
    then show ?thesis using Call_Execute s w1 by (simp add: execute_def returned_world_def)
  next
    case (Inr x)
    obtain kp state where x: "x = (kp, state)" by fastforce
    let ?g = "get_result lib cl ctx state (Some kp) (build_transport_aad state (rq_operation req) (rq_algorithm req)) (rq_timeout req) w1"
    obtain r2 w2 where g: "?g = Some (r2, w2)" using get_result_returns by blast
    then have "run_client_call lib c w = w2"
      using Call_Execute s Inr x by (cases r2) (simp_all add: execute_def returned_world_def)
    then show ?thesis using get_result_files [OF g] w1 stored_pins_cong [of w2 path w1 "lb_trust lib"] by (simp add: pins_over_def)
  qed
qed

lemma keeps_pins_calls:
  assumes "client_laws text lib" and "list_all (\<lambda>c. text (cl_server (call_client c))) cs"
    and "pins_over m (lb_trust lib) path w"
  shows "pins_over m (lb_trust lib) path (fold (run_client_call lib) cs w)"
  using assms(2,3) by (induction cs arbitrary: w) (simp_all add: keeps_pins_call [OF assms(1)])

section \<open>Pins are final\<close>

lemma accepted_anchor_pinned:
  assumes laws: "client_laws text lib" and cl: "text (cl_server cl)" and b: "lb_decode_pubkeys lib b = Some resp"
    and v: "verify_and_pin_response lib cl resp w = (Inr (Some a), w2)"
    and p: "resolve_trust_store_path (lb_env lib) (cl_trust_store_path cl) = Inr path"
  shows "parse_anchor_pubkeys_from_wire (lb_crypto lib) (pk_anchor_es384 resp) (pk_anchor_mldsa87 resp) =
           Inr (pa_es384_pub a, pa_mldsa87_pub_bytes a)"
    and "pa_user_id a = pk_user_id resp"
    and "stored_pins (lb_trust lib) path w (trust_store_key (cl_server cl) (pk_user_id resp)) = Some e
      \<Longrightarrow> te_anchor_es384 e = pk_anchor_es384 resp \<and> te_anchor_mldsa87 e = pk_anchor_mldsa87 resp"
    and "dk_temp_name w \<noteq> path \<Longrightarrow> pinned_as (stored_pins (lb_trust lib) path w2) (cl_server cl) resp"
proof -
  obtain ts w1 pinned ts1 where l: "load_trust_store (lb_trust lib) path w = (Inr ts, w1)"
    and v1: "verify_and_pin_anchor (lb_crypto lib) (cw_clock w1) (cl_confirm_anchor cl) (cl_server cl) resp ts = Inr (pinned, ts1)"
    and s: "if pinned then save_trust_store (lb_trust lib) path ts1 w1 = (Inr (), w2) else w2 = w1"
    and a: "parse_anchor_pubkeys_from_wire (lb_crypto lib) (pk_anchor_es384 resp) (pk_anchor_mldsa87 resp) =
           Inr (pa_es384_pub a, pa_mldsa87_pub_bytes a)" "pa_user_id a = pk_user_id resp"
    using verify_and_pin_response_steps [OF v] p by (metis sum.inject(2))
  have ts: "ts_entries ts = stored_pins (lb_trust lib) path w" using load_gives_pins(1) [OF l] .
  have same: "stored_pins (lb_trust lib) path w1 = stored_pins (lb_trust lib) path w"
    using load_keeps_files [of "lb_trust lib" path w] l by (intro stored_pins_cong) simp
  note pins = verify_and_pin_pins [OF v1]
  show "parse_anchor_pubkeys_from_wire (lb_crypto lib) (pk_anchor_es384 resp) (pk_anchor_mldsa87 resp) =
           Inr (pa_es384_pub a, pa_mldsa87_pub_bytes a)" "pa_user_id a = pk_user_id resp" by (fact a)+
  show "te_anchor_es384 e = pk_anchor_es384 resp \<and> te_anchor_mldsa87 e = pk_anchor_mldsa87 resp"
    if "stored_pins (lb_trust lib) path w (trust_store_key (cl_server cl) (pk_user_id resp)) = Some e"
  proof -
    have "ts_entries ts1 (trust_store_key (cl_server cl) (pk_user_id resp)) = Some e"
      using pins(1) that ts by (metis map_le_def domI)
    then show ?thesis using pins(2) by (auto simp: pinned_as_def)
  qed
  show "pinned_as (stored_pins (lb_trust lib) path w2) (cl_server cl) resp" if "dk_temp_name w \<noteq> path"
  proof (cases pinned)
    case True
    then have "save_trust_store (lb_trust lib) path ts1 w1 = (Inr (), w2)" using s by simp
    then have "stored_pins (lb_trust lib) path w2 = ts_entries ts1"
      by (rule load_save_keep_pins(2) [OF laws cl b l v1 _ refl that])
    then show ?thesis using pins(2) by simp
  next
    case False
    then show ?thesis using pins(2,3) s ts same by simp
  qed
qed

lemma verify_anchor_trust_steps:
  assumes "verify_anchor_trust lib cl ctx w = (Inr (Some a), w2)"
  obtains resp b w1 where "lb_decode_pubkeys lib b = Some resp" and "fetch_pubkey_bundle lib cl ctx w = (Inr resp, w1)"
    and "verify_and_pin_response lib cl resp w1 = (Inr (Some a), w2)"
proof -
  obtain resp w1 where f: "fetch_pubkey_bundle lib cl ctx w = (Inr resp, w1)"
    and v: "verify_and_pin_response lib cl resp w1 = (Inr (Some a), w2)"
    using assms by (auto simp: verify_anchor_trust_def go_ok_iffs split: if_splits)
  then show thesis using fetched_bundle [OF f] that by blast
qed

lemma fetch_keeps_disk:
  assumes "fetch_pubkey_bundle lib cl ctx w = (r, w1)"
  shows "dk_files w1 = dk_files w" and "dk_temp_name w1 = dk_temp_name w"
proof -
  have "dk_files (snd (http_do cl ctx req w)) = dk_files w \<and> dk_temp_name (snd (http_do cl ctx req w)) = dk_temp_name w" for req
    by (auto simp: http_do_def http_send_def Let_def split: server_reply.splits)
  then show "dk_files w1 = dk_files w" "dk_temp_name w1 = dk_temp_name w"
    using assms do_json_world [of lib cl ctx "lb_decode_pubkeys lib" _ w]
    by (auto simp: fetch_pubkey_bundle_def go_bind_def split: sum.splits) (metis snd_conv)+
qed

text \<open>C19: A pin is final. Once the trust store of a machine has an entry for a server and user, then after any
  number of client calls of any clients, whatever any server answers and whichever file operations fail,
  an anchor that the client accepts for this server and user consists of exactly the two keys of that entry.\<close>

theorem pinned_anchor_enforced:
  assumes "client_laws text lib"
    and "list_all (\<lambda>c. text (cl_server (call_client c))) calls" and "text (cl_server cl)"
    and "resolve_trust_store_path (lb_env lib) (cl_trust_store_path cl) = Inr path"
    and "stored_pins (lb_trust lib) path w (trust_store_key (cl_server cl) user) = Some e"
    and "verify_anchor_trust lib cl ctx (fold (run_client_call lib) calls w) = (Inr (Some a), w2)"
    and "pa_user_id a = user"
  shows "parse_anchor_pubkeys_from_wire (lb_crypto lib) (te_anchor_es384 e) (te_anchor_mldsa87 e) =
    Inr (pa_es384_pub a, pa_mldsa87_pub_bytes a)"
proof -
  let ?w = "fold (run_client_call lib) calls w"
  obtain resp b w1 where b: "lb_decode_pubkeys lib b = Some resp" and f: "fetch_pubkey_bundle lib cl ctx ?w = (Inr resp, w1)"
    and v: "verify_and_pin_response lib cl resp w1 = (Inr (Some a), w2)"
    using assms(6) by (rule verify_anchor_trust_steps)
  note anchor = accepted_anchor_pinned [OF assms(1,3) b v assms(4)]
  have "pins_over (stored_pins (lb_trust lib) path w) (lb_trust lib) path w" by (simp add: pins_over_def)
  from keeps_stepD [OF keeps_pins_http(2) keeps_pins_calls [OF assms(1,2) this] f]
  have "pins_over (stored_pins (lb_trust lib) path w) (lb_trust lib) path w1" .
  then have "stored_pins (lb_trust lib) path w1 (trust_store_key (cl_server cl) (pk_user_id resp)) = Some e"
    using assms(5,7) anchor(2) by (metis map_le_def domI pins_over_def)
  then show ?thesis using anchor(1,3) by simp
qed

section \<open>The server's bundles are accepted\<close>

text \<open>
  The wire between \<open>RouteV2RequestPubkey\<close> and the client: gin compacts the raw JSON of the
  ECDH key when it writes the response, which is the argument \<open>compact_json\<close>.
\<close>

definition wire_response :: "(string \<Rightarrow> string) \<Rightarrow> request_pubkey_response \<Rightarrow> pubkey_response" where
  "wire_response compact_json r =
    \<lparr>pk_user_id = rpk_user_id r, pk_ecdh_p256 = compact_json (rpk_ecdh_p256 r), pk_mlkem768 = rpk_mlkem768 r,
     pk_anchor_es384 = rpk_anchor_es384 r, pk_anchor_mldsa87 = rpk_anchor_mldsa87 r,
     pk_sig_es384 = rpk_bundle_sig_es384 r, pk_sig_mldsa87 = rpk_bundle_sig_mldsa87 r, pk_version = rpk_bundle_version r\<rparr>"

text \<open>\<open>PublicKey.Bytes\<close> of a key gives back the uncompressed point it was parsed from.\<close>

definition ecdsa_points_kept :: "('ek, 'mk) crypto \<Rightarrow> bool" where
  "ecdsa_points_kept cr \<longleftrightarrow> (\<forall>b k. length b = 97 \<longrightarrow> cr_ecdsa_parse cr b = Some k \<longrightarrow> cr_ecdsa_bytes cr k = Some b)"

lemma decode_fixed_length: "decode_b64url_fixed s n = Inr b \<Longrightarrow> length b = n"
  by (auto simp: decode_b64url_fixed_def split: option.splits if_splits)

lemma parsed_anchor_fingerprint:
  assumes "ecdsa_points_kept cr" and "parse_anchor_pubkeys_from_wire cr es ml = Inr (pub, b)"
  obtains fp where "anchor_fingerprint cr (Some pub) b = Inr fp"
proof -
  obtain jwk where jwk: "to_ecdsa_public_key (cr_ecdsa_parse cr) jwk = Inr pub" and b: "length b = 2592"
    using assms(2) by (auto simp: parse_anchor_pubkeys_from_wire_def mldsa87_public_key_size_def
        split: option.splits sum.splits if_splits)
  obtain x y where "cr_ecdsa_parse cr (char_of (4::nat) # x @ y) = Some pub" "length x = 48" "length y = 48"
    using jwk decode_fixed_length by (auto simp: to_ecdsa_public_key_def split: sum.splits option.splits)
  then have "cr_ecdsa_bytes cr pub = Some (char_of (4::nat) # x @ y)" "length (x @ y) = 96"
    using assms(1) by (simp_all add: ecdsa_points_kept_def)
  then show thesis using that b
    by (simp add: anchor_fingerprint_def mldsa87_public_key_size_def p384_coordinate_size_def)
qed

lemma parse_anchor_server_client:
  assumes "parse_anchor_pubkeys cr es ml = Inr x"
  shows "parse_anchor_pubkeys_from_wire cr es ml = Inr x" and "es \<noteq> []" and "ml \<noteq> []"
  using assms by (auto simp: parse_anchor_pubkeys_def parse_anchor_pubkeys_from_wire_def
      split: if_splits option.splits sum.splits)

lemma parse_signatures_server_client:
  assumes "parse_hybrid_signatures es ml = Inr x"
  shows "decode_hybrid_signatures es ml = Inr x" and "es \<noteq> []" and "ml \<noteq> []"
  using assms by (auto simp: parse_hybrid_signatures_def decode_hybrid_signatures_def decode_base64_signature_def
      split: if_splits option.splits sum.splits)

text \<open>The two outcomes of the pin check on a bundle that verifies.\<close>

lemma pin_check_outcomes:
  assumes "anchor_fingerprint cr (Some pub) b = Inr fp"
  shows "ts_entries ts (trust_store_key server user) = None \<Longrightarrow> ask server user fp = Inr True \<Longrightarrow>
      check_or_pin_anchor cr now (Some ask) ts server user pub es ml b =
      Inr (True, ts\<lparr>ts_entries := (ts_entries ts)(trust_store_key server user \<mapsto>
        \<lparr>te_anchor_es384 = es, te_anchor_mldsa87 = ml, te_fingerprint = fp, te_first_seen = now\<rparr>)\<rparr>)"
    and "ts_entries ts (trust_store_key server user) =
        Some \<lparr>te_anchor_es384 = es, te_anchor_mldsa87 = ml, te_fingerprint = fp, te_first_seen = t\<rparr> \<Longrightarrow>
      check_or_pin_anchor cr now confirm ts server user pub es ml b = Inr (False, ts)"
  using assms by (simp_all add: check_or_pin_anchor_def)

lemma vouched_bundle_verifies:
  assumes "bundle_vouched cr u" and "u_id u \<noteq> []"
    and resp: "resp = wire_response compact_json r" "rpk_user_id r = u_id u" "compact_json (rpk_ecdh_p256 r) = u_request_enc_ecdh_pubkey u"
      "rpk_mlkem768 r = u_request_enc_mlkem_pubkey u" "rpk_anchor_es384 r = u_anchor_es384_public_key u"
      "rpk_anchor_mldsa87 r = u_anchor_mldsa87_public_key u" "rpk_bundle_sig_es384 r = u_pubkey_bundle_signature_es384 u"
      "rpk_bundle_sig_mldsa87 r = u_pubkey_bundle_signature_mldsa87 u" "rpk_bundle_version r = u_pubkey_bundle_version u"
  obtains pub b where "parse_anchor_pubkeys_from_wire cr (pk_anchor_es384 resp) (pk_anchor_mldsa87 resp) = Inr (pub, b)"
    and "\<And>now confirm server ts. verify_and_pin_anchor cr now confirm server resp ts =
      check_or_pin_anchor cr now confirm ts server (pk_user_id resp) pub (pk_anchor_es384 resp) (pk_anchor_mldsa87 resp) b"
proof -
  obtain ek mlb jwk be bm where
    a: "parse_anchor_pubkeys cr (u_anchor_es384_public_key u) (u_anchor_mldsa87_public_key u) = Inr (ek, mlb)"
    and j: "parse_p384_canonical_body (u_anchor_es384_public_key u) = Some jwk"
    and sg: "parse_hybrid_signatures (u_pubkey_bundle_signature_es384 u) (u_pubkey_bundle_signature_mldsa87 u) = Inr (be, bm)"
    and v: "u_pubkey_bundle_version u = 1 \<and> verify_hybrid_bundle cr (Some ek) mlb (stored_bundle u jwk 1) be bm = Inr ()
       \<or> u_pubkey_bundle_version u = 2 \<and> verify_hybrid_bundle_v2 cr (Some ek) mlb (stored_bundle u jwk 2) be bm = Inr ()"
    using assms(1) unfolding bundle_vouched_def by blast
  have served: "pk_user_id resp = u_id u" "pk_ecdh_p256 resp = u_request_enc_ecdh_pubkey u"
    "pk_mlkem768 resp = u_request_enc_mlkem_pubkey u" "pk_anchor_es384 resp = u_anchor_es384_public_key u"
    "pk_anchor_mldsa87 resp = u_anchor_mldsa87_public_key u" "pk_sig_es384 resp = u_pubkey_bundle_signature_es384 u"
    "pk_sig_mldsa87 resp = u_pubkey_bundle_signature_mldsa87 u" "pk_version resp = u_pubkey_bundle_version u"
    by (simp_all add: resp wire_response_def)
  have same: "client_bundle resp jwk n = stored_bundle u jwk n" for n
    by (simp add: client_bundle_def stored_bundle_def served)
  have "verify_served_bundle cr resp jwk ek mlb be bm = Inr ()"
    using v by (auto simp: verify_served_bundle_def same served)
  then have "verify_and_pin_anchor cr now confirm server resp ts =
      check_or_pin_anchor cr now confirm ts server (pk_user_id resp) ek (pk_anchor_es384 resp) (pk_anchor_mldsa87 resp) mlb"
    for now confirm server ts
    using parse_anchor_server_client [OF a] parse_signatures_server_client [OF sg] j assms(2)
    by (simp add: verify_and_pin_anchor_def served)
  then show thesis
    using that parse_anchor_server_client(1) [OF a] by (simp add: served)
qed

text \<open>Server and client agree. For a ready account of a database that satisfies the invariant of the account
  handlers, the public keys that \<open>GET /v2/request/pubkey\<close> serves are accepted by the client: on first contact
  it pins the anchor once the operator agrees, and from then on, for every later answer for the same account,
  it accepts without asking and without changing the store.\<close>

lemma served_bundle_accepted:
  assumes "vouched env db" and "u \<in> set (db_users db)" and "u_ready u" and "u_id u \<noteq> []"
    and "compact_json (u_request_enc_ecdh_pubkey u) = u_request_enc_ecdh_pubkey u"
    and "ecdsa_points_kept (ae_crypto env)"
    and "hc_request_user c = Some (user_of_row u)" and "route_request_pubkey c s = (Inr r, s1)"
    and "ts_entries ts (trust_store_key server (u_id u)) = None" and "\<forall>fp. ask server (u_id u) fp = Inr True"
  shows "\<exists>ts1. verify_and_pin_anchor (ae_crypto env) now (Some ask) server (wire_response compact_json r) ts = Inr (True, ts1)
    \<and> pinned_as (ts_entries ts1) server (wire_response compact_json r)
    \<and> (\<forall>later confirm. verify_and_pin_anchor (ae_crypto env) later confirm server (wire_response compact_json r) ts1 = Inr (False, ts1))"
proof -
  let ?resp = "wire_response compact_json r"
  have "bundle_vouched (ae_crypto env) u" using assms(1-3) by (auto simp: vouched_def accounts_vouched_def)
  moreover have r: "rpk_user_id r = u_id u" "rpk_ecdh_p256 r = u_request_enc_ecdh_pubkey u"
    "rpk_mlkem768 r = u_request_enc_mlkem_pubkey u" "rpk_anchor_es384 r = u_anchor_es384_public_key u"
    "rpk_anchor_mldsa87 r = u_anchor_mldsa87_public_key u" "rpk_bundle_sig_es384 r = u_pubkey_bundle_signature_es384 u"
    "rpk_bundle_sig_mldsa87 r = u_pubkey_bundle_signature_mldsa87 u" "rpk_bundle_version r = u_pubkey_bundle_version u"
    using assms(7,8) by (auto simp: route_request_pubkey_def required_user_def user_of_row_def go_ok_iffs split: if_splits)
  ultimately obtain pub b
    where parsed: "parse_anchor_pubkeys_from_wire (ae_crypto env) (pk_anchor_es384 ?resp) (pk_anchor_mldsa87 ?resp) = Inr (pub, b)"
      and check: "\<And>now confirm server ts. verify_and_pin_anchor (ae_crypto env) now confirm server ?resp ts =
        check_or_pin_anchor (ae_crypto env) now confirm ts server (pk_user_id ?resp) pub (pk_anchor_es384 ?resp)
          (pk_anchor_mldsa87 ?resp) b"
    using vouched_bundle_verifies [of "ae_crypto env" u ?resp compact_json r] assms(4,5) by metis
  obtain fp where fp: "anchor_fingerprint (ae_crypto env) (Some pub) b = Inr fp"
    using parsed_anchor_fingerprint [OF assms(6) parsed] .
  have user: "pk_user_id ?resp = u_id u" using r by (simp add: wire_response_def)
  show ?thesis
    unfolding check user
    using pin_check_outcomes(1) [OF fp, of ts server "u_id u" ask] pin_check_outcomes(2) [OF fp] assms(9,10)
    by (auto simp: pinned_as_def user)
qed

end
