(* ===== verification/Client_Keys.thy ===== *)
theory Client_Keys
  imports Client_Properties
begin

text \<open>
  The keys the client uses and the payloads it exchanges: request keys and signing keys are
  bound to the pinned anchor, and a payload survives the way through server and browser.
\<close>

section \<open>Keys of the pinned anchor\<close>

lemma served_bundle_signed:
  assumes "verify_served_bundle cr resp jwk es_pub ml_bytes sig_es sig_ml = Inr ()"
  obtains mk msg where "cr_mldsa_parse cr ml_bytes = Some mk"
    and "msg = canonical_pubkey_bundle_message (client_bundle resp jwk 1)
       \<or> msg = canonical_pubkey_bundle_message_v2 (client_bundle resp jwk 2)"
    and "hybrid_signed cr es_pub mk msg sig_es sig_ml"
proof -
  have "\<exists>mk msg. cr_mldsa_parse cr ml_bytes = Some mk
     \<and> (msg = canonical_pubkey_bundle_message (client_bundle resp jwk 1)
        \<or> msg = canonical_pubkey_bundle_message_v2 (client_bundle resp jwk 2))
     \<and> hybrid_signed cr es_pub mk msg sig_es sig_ml"
    using assms
    by (auto simp: verify_served_bundle_def Let_def verify_hybrid_bundle_def verify_hybrid_bundle_v2_def
        verify_hybrid_needs_both split: if_splits sum.splits)
  then show thesis using that by blast
qed

text \<open>The user's anchor has signed a bundle with these keys, and the anchor is the pinned one.\<close>

definition anchored_bundle ::
  "('ek, 'mk) client_lib \<Rightarrow> trust_store_entry \<Rightarrow> pubkey_response \<Rightarrow> bool" where
  "anchored_bundle lib e resp \<longleftrightarrow>
    (\<exists>ek ml mk jwk msg sig_es sig_ml.
       parse_anchor_pubkeys_from_wire (lb_crypto lib) (te_anchor_es384 e) (te_anchor_mldsa87 e) = Inr (ek, ml)
       \<and> cr_mldsa_parse (lb_crypto lib) ml = Some mk
       \<and> parse_p384_canonical_body (te_anchor_es384 e) = Some jwk
       \<and> (msg = canonical_pubkey_bundle_message (client_bundle resp jwk 1)
          \<or> msg = canonical_pubkey_bundle_message_v2 (client_bundle resp jwk 2))
       \<and> hybrid_signed (lb_crypto lib) ek mk msg sig_es sig_ml)"

lemma accepted_bundle_anchored:
  assumes laws: "client_laws text lib" and cl: "text (cl_server cl)" and b: "lb_decode_pubkeys lib b = Some resp"
    and v: "verify_and_pin_response lib cl resp w = (Inr (Some a), w2)"
    and p: "resolve_trust_store_path (lb_env lib) (cl_trust_store_path cl) = Inr path" and t: "dk_temp_name w \<noteq> path"
  obtains e where "stored_pins (lb_trust lib) path w2 (trust_store_key (cl_server cl) (pk_user_id resp)) = Some e"
    and "anchored_bundle lib e resp"
proof -
  obtain ts now pinned ts1 where
    "verify_and_pin_anchor (lb_crypto lib) now (cl_confirm_anchor cl) (cl_server cl) resp ts = Inr (pinned, ts1)"
    using v by (rule verify_and_pin_response_steps)
  then obtain ek ml jwk sig_es sig_ml where
    parsed: "parse_anchor_pubkeys_from_wire (lb_crypto lib) (pk_anchor_es384 resp) (pk_anchor_mldsa87 resp) = Inr (ek, ml)"
    and jwk: "parse_p384_canonical_body (pk_anchor_es384 resp) = Some jwk"
    and sg: "verify_served_bundle (lb_crypto lib) resp jwk ek ml sig_es sig_ml = Inr ()"
    by (rule verify_and_pin_steps)
  obtain mk msg where "cr_mldsa_parse (lb_crypto lib) ml = Some mk"
    "msg = canonical_pubkey_bundle_message (client_bundle resp jwk 1)
       \<or> msg = canonical_pubkey_bundle_message_v2 (client_bundle resp jwk 2)"
    "hybrid_signed (lb_crypto lib) ek mk msg sig_es sig_ml"
    using sg by (rule served_bundle_signed)
  moreover obtain e where e: "stored_pins (lb_trust lib) path w2 (trust_store_key (cl_server cl) (pk_user_id resp)) = Some e"
    "te_anchor_es384 e = pk_anchor_es384 resp" "te_anchor_mldsa87 e = pk_anchor_mldsa87 resp"
    using accepted_anchor_pinned(4) [OF laws cl b v p t] by (auto simp: pinned_as_def)
  ultimately have "anchored_bundle lib e resp"
    unfolding anchored_bundle_def e using parsed jwk by blast
  then show thesis using that e(1) by blast
qed

lemma verify_response_pinning:
  assumes "verify_and_pin_response lib cl resp w = (Inr r, w2)" and "\<not> cl_no_trust_store cl"
  obtains a where "r = Some a"
  using assms by (auto simp: verify_and_pin_response_def go_ok_iffs split: prod.splits)

text \<open>C20: A client that pins anchors encrypts its requests only to keys the pinned anchor vouches for: the keys it
  returns are those of a bundle that carries valid ES384 and ML-DSA-87 signatures of the two keys stored in
  the trust store file for this server and user, over the canonical text naming exactly these keys.\<close>

theorem request_keys_anchored:
  assumes "client_laws text lib" and "text (cl_server cl)" and "\<not> cl_no_trust_store cl"
    and "resolve_trust_store_path (lb_env lib) (cl_trust_store_path cl) = Inr path" and "dk_temp_name w \<noteq> path"
    and "fetch_and_verify_user_pubkeys lib cl ctx w = (Inr keys, w2)"
  shows "\<exists>resp e. user_keys_of lib resp = Inr keys \<and> pk_user_id resp = up_user_id keys
    \<and> stored_pins (lb_trust lib) path w2 (trust_store_key (cl_server cl) (up_user_id keys)) = Some e
    \<and> anchored_bundle lib e resp"
proof -
  obtain resp w1 r where f: "fetch_pubkey_bundle lib cl ctx w = (Inr resp, w1)" and k: "user_keys_of lib resp = Inr keys"
    and v: "verify_and_pin_response lib cl resp w1 = (Inr r, w2)"
    using assms(6) by (auto simp: fetch_and_verify_user_pubkeys_def go_ok_iffs)
  obtain b where b: "lb_decode_pubkeys lib b = Some resp" using fetched_bundle [OF f] by blast
  obtain a where r: "r = Some a" using verify_response_pinning [OF v assms(3)] .
  have user: "pk_user_id resp = up_user_id keys"
    using k by (auto simp: user_keys_of_def split: option.splits sum.splits)
  have "dk_temp_name w1 \<noteq> path" using assms(5) fetch_keeps_disk(2) [OF f] by simp
  from accepted_bundle_anchored [OF assms(1,2) b v [unfolded r] assms(4) this]
  show ?thesis using k user by metis
qed

section \<open>Signing keys\<close>

text \<open>The proof the client has seen: a publication of this key for this user, signed by the pinned anchor.\<close>

definition anchored_publication ::
  "('ek, 'mk) client_lib \<Rightarrow> trust_store_entry \<Rightarrow> publication_payload \<Rightarrow> bool" where
  "anchored_publication lib e p \<longleftrightarrow>
    (\<exists>ek ml mk sig_es sig_ml.
       parse_anchor_pubkeys_from_wire (lb_crypto lib) (te_anchor_es384 e) (te_anchor_mldsa87 e) = Inr (ek, ml)
       \<and> cr_mldsa_parse (lb_crypto lib) ml = Some mk
       \<and> hybrid_signed (lb_crypto lib) ek mk (canonical_signing_key_publication_message p) sig_es sig_ml)"

lemma accept_signing_key_steps:
  assumes "accept_signing_key lib (Some a) label algorithm resp = Inr key"
  obtains p sig_es sig_ml mk where "parse_signing_pubkey_response lib resp = Inr key"
    and "sr_algorithm resp = algorithm" "sr_key_label resp = label"
    and "pp_v p = 1" "pa_user_id a = [] \<or> pp_user_id p = pa_user_id a" "algorithm = [] \<or> pp_algorithm p = algorithm"
      "label = [] \<or> pp_key_label p = label" "csk_key_id key = [] \<or> pp_key_id p = csk_key_id key"
    and "cr_mldsa_parse (lb_crypto lib) (pa_mldsa87_pub_bytes a) = Some mk"
    and "hybrid_signed (lb_crypto lib) (pa_es384_pub a) mk (canonical_signing_key_publication_message p) sig_es sig_ml"
proof -
  obtain p where parsed: "parse_signing_pubkey_response lib resp = Inr key"
    and same: "sr_algorithm resp = algorithm" "sr_key_label resp = label"
    and v: "verify_signing_key_public_response (lb_crypto lib) (sr_payload resp) (sr_sig_es384 resp) (sr_sig_mldsa87 resp)
       \<lparr>vo_es384_pub = Some (pa_es384_pub a), vo_mldsa87_pub_bytes = pa_mldsa87_pub_bytes a,
        vo_expected_user_id = pa_user_id a, vo_expected_algorithm = algorithm, vo_expected_key_label = label,
        vo_expected_key_id = csk_key_id key\<rparr> = Inr p"
    using assms by (auto simp: accept_signing_key_def verify_signing_key_publication_def split: if_splits sum.splits)
  from public_response_facts [OF v] show thesis
    using that [OF parsed same] by auto
qed

lemma parsed_signing_key:
  assumes "parse_signing_pubkey_response lib resp = Inr key"
  shows "csk_id key = sr_id resp" "csk_key_label key = sr_key_label resp" "csk_algorithm key = sr_algorithm resp"
    "csk_jwk key = sr_jwk resp" "sr_algorithm resp \<in> {''ES256'', ''Ed25519'', ''Ed25519ph''}"
  using assms
  by (auto simp: parse_signing_pubkey_response_def signing_key_of_def split: if_splits sum.splits)

text \<open>A client that pins anchors gives out a signing key only with a proof: it is the key of the label and
  algorithm asked for, its key id is the thumbprint computed from the key material received, and both keys of the
  pinned anchor have signed a publication that names this user, this algorithm, this label and this key id.\<close>

lemma signing_key_anchored:
  assumes "client_laws text lib" and "text (cl_server cl)" and "\<not> cl_no_trust_store cl"
    and "resolve_trust_store_path (lb_env lib) (cl_trust_store_path cl) = Inr path" and "dk_temp_name w \<noteq> path"
    and "label \<noteq> []" and "signing_public_key lib cl ctx label algorithm w = (Inr key, w2)"
  shows "\<exists>resp p e. parse_signing_pubkey_response lib resp = Inr key
    \<and> csk_key_label key = label \<and> csk_algorithm key = algorithm
    \<and> stored_pins (lb_trust lib) path w2 (trust_store_key (cl_server cl) (pp_user_id p)) = Some e
    \<and> anchored_publication lib e p \<and> pp_v p = 1 \<and> pp_algorithm p = algorithm \<and> pp_key_label p = label
    \<and> (csk_key_id key = [] \<or> pp_key_id p = csk_key_id key)"
proof -
  obtain anchor req resp w1 where t: "verify_anchor_trust lib cl ctx w = (Inr anchor, w1)"
    and j: "do_json lib cl ctx (lb_decode_signing lib) req w1 = (Inr resp, w2)"
    and acc: "accept_signing_key lib anchor label algorithm resp = Inr key"
    using assms(7) by (auto simp: signing_public_key_def go_ok_iffs)
  obtain a where a: "anchor = Some a"
    using t assms(3) by (auto simp: verify_anchor_trust_def go_ok_iffs elim: verify_response_pinning)
  obtain pk b w0 where b: "lb_decode_pubkeys lib b = Some pk" and f: "fetch_pubkey_bundle lib cl ctx w = (Inr pk, w0)"
    and v: "verify_and_pin_response lib cl pk w0 = (Inr (Some a), w1)"
    using t [unfolded a] by (rule verify_anchor_trust_steps)
  have temp: "dk_temp_name w0 \<noteq> path" using assms(5) fetch_keeps_disk(2) [OF f] by simp
  note anchor = accepted_anchor_pinned [OF assms(1,2) b v assms(4)]
  obtain e where e: "stored_pins (lb_trust lib) path w1 (trust_store_key (cl_server cl) (pk_user_id pk)) = Some e"
    "te_anchor_es384 e = pk_anchor_es384 pk" "te_anchor_mldsa87 e = pk_anchor_mldsa87 pk"
    using anchor(4) [OF temp] by (auto simp: pinned_as_def)
  have user: "pk_user_id pk \<noteq> []"
    using v by (elim verify_and_pin_response_steps verify_and_pin_steps)
  have disk: "stored_pins (lb_trust lib) path w2 = stored_pins (lb_trust lib) path w1"
    using j do_json_world [of lib cl ctx "lb_decode_signing lib" req w1]
    by (intro stored_pins_cong) (auto simp: http_do_def http_send_def Let_def split: server_reply.splits if_splits)
  obtain p sig_es sig_ml mk where parsed: "parse_signing_pubkey_response lib resp = Inr key"
    and same: "sr_algorithm resp = algorithm" "sr_key_label resp = label"
    and p: "pp_v p = 1" "pa_user_id a = [] \<or> pp_user_id p = pa_user_id a" "algorithm = [] \<or> pp_algorithm p = algorithm"
      "label = [] \<or> pp_key_label p = label" "csk_key_id key = [] \<or> pp_key_id p = csk_key_id key"
    and mk: "cr_mldsa_parse (lb_crypto lib) (pa_mldsa87_pub_bytes a) = Some mk"
    and sg: "hybrid_signed (lb_crypto lib) (pa_es384_pub a) mk (canonical_signing_key_publication_message p) sig_es sig_ml"
    using acc [unfolded a] by (rule accept_signing_key_steps)
  have "anchored_publication lib e p"
    unfolding anchored_publication_def using anchor(1) e(2,3) mk sg by auto
  moreover have "algorithm \<noteq> []" using parsed_signing_key(5) [OF parsed] same by auto
  moreover have "pp_user_id p = pk_user_id pk" using p(2) anchor(2) user by simp
  ultimately show ?thesis
    using parsed parsed_signing_key [OF parsed] same p e(1) assms(6) disk
    by (intro exI [of _ resp] exI [of _ p] exI [of _ e]) simp
qed

section \<open>Payloads through the server\<close>

text \<open>The JSON body of the client is read by the server into its own type.\<close>

definition received_body :: "operation_request_body \<Rightarrow> request_create_body" where
  "received_body ob =
    \<lparr>body_key_label = ob_key_label ob, body_algorithm = ob_algorithm ob, body_timeout = ob_timeout ob,
     body_note = ob_note ob, body_request_enc_alg = ob_request_enc_alg ob,
     body_cli_ephemeral_public_key = ob_cli_ephemeral_public_key ob, body_mlkem_ciphertext = ob_mlkem_ciphertext ob,
     body_encrypted_payload_nonce = ob_encrypted_payload_nonce ob, body_encrypted_payload = ob_encrypted_payload ob\<rparr>"

text \<open>What a caller must ask for: the server's canonical label and algorithm, and a note it takes.\<close>

definition canonical_request :: "client_request \<Rightarrow> bool" where
  "canonical_request req \<longleftrightarrow>
     rq_operation req \<in> {''encrypt'', ''decrypt'', ''sign''}
   \<and> canonical_label (rq_key_label req) \<and> rq_key_label req \<noteq> []
   \<and> (rq_operation req = ''sign'' \<longrightarrow> rq_algorithm req \<in> {''ES256'', ''Ed25519'', ''Ed25519ph''})
   \<and> (rq_operation req \<noteq> ''sign'' \<longrightarrow> is_supported_encryption_algorithm (rq_algorithm req))
   \<and> rq_algorithm req \<noteq> [] \<and> length (rq_algorithm req) \<le> 64
   \<and> (rq_note req = [] \<or> validate_note (rq_note req)) \<and> length (rq_note req) \<le> max_note_length"

lemma normalize_base64_encode: "b \<noteq> [] \<Longrightarrow> normalize_base64 (raw_url_encode b) = Some (raw_url_encode b)"
  by (simp add: normalize_base64_def decode_base64_string_encode)

lemma client_body_validates:
  assumes laws: "transport_laws (lb_transport lib)" and req: "canonical_request req"
    and enc: "encrypt_request_payload (lb_transport lib) marshal peer
      (tc_mlkem_public (lb_transport lib) (tc_mlkem_generate (lb_transport lib) seed)) payload aad d = (Inr er, d1)"
  shows "validate_v2_create_body (rq_operation req) (received_body (outer_body_of lib req er)) =
    Inr (received_body (outer_body_of lib req er))"
proof -
  obtain ct nonce sealed where key: "validate_public_p256 (er_cli_ephemeral_public_key er) = Inr ()"
    and texts: "er_mlkem_ciphertext er = raw_url_encode ct" "er_nonce er = raw_url_encode nonce"
      "er_ciphertext er = raw_url_encode sealed"
    and ne: "ct \<noteq> []" "nonce \<noteq> []" "sealed \<noteq> []"
    by (rule encrypted_request_encodings [OF laws enc])
  have label: "normalize_and_validate_key_label (rq_key_label req) = Some (rq_key_label req)"
    using req by (intro normalize_label_fixed) (simp add: canonical_request_def)
  have alg: "rq_operation req = ''sign'' \<Longrightarrow> normalize_signing_algorithm (rq_algorithm req) = Some (rq_algorithm req)"
    using req by (intro normalize_signing_algorithm_fixed) (simp add: canonical_request_def)
  show ?thesis
    using req key label alg ne
    by (auto simp: validate_v2_create_body_def received_body_def outer_body_of_def texts normalize_base64_encode
        canonical_request_def)
qed

text \<open>C22: A canonical request of the client is accepted by the server's validation unchanged, and the browser, which
  has only what the server stored, decrypts from it exactly the payload the client encrypted, under the additional
  data the browser rebuilds from the stored label, algorithm and operation.\<close>

theorem request_payload_reaches_browser:
  assumes "transport_laws (lb_transport lib)" and "reads_base64url unb64" and "canonical_request req"
    and "encrypt_request_payload (lb_transport lib) (lb_marshal_payload lib)
      (tc_p256_public (lb_transport lib) (tc_p256_generate (lb_transport lib) a))
      (tc_mlkem_public (lb_transport lib) (tc_mlkem_generate (lb_transport lib) seed)) (inner_payload_of req kp)
      (build_request_enc_aad (rq_algorithm req) (rq_key_label req) (rq_operation req)) d = (Inr er, d1)"
    and "\<forall>plain. lb_marshal_payload lib (inner_payload_of req kp) = Some plain
      \<longrightarrow> json_parse plain = Some (inner_payload_of req kp)"
  shows "\<exists>body. validate_v2_create_body (rq_operation req) (received_body (outer_body_of lib req er)) = Inr body
    \<and> browser_decrypt_request (lb_transport lib) unb64 json_parse (tc_p256_generate (lb_transport lib) a)
        (tc_mlkem_generate (lb_transport lib) seed) (enc_envelope_of body)
        (build_request_enc_aad (body_algorithm body) (body_key_label body) (rq_operation req)) = Some (inner_payload_of req kp)"
proof (intro exI conjI)
  show "validate_v2_create_body (rq_operation req) (received_body (outer_body_of lib req er)) =
      Inr (received_body (outer_body_of lib req er))"
    by (rule client_body_validates [OF assms(1,3,4)])
  have "browser_decrypt_request (lb_transport lib) unb64 json_parse (tc_p256_generate (lb_transport lib) a)
        (tc_mlkem_generate (lb_transport lib) seed) (enc_envelope_of (received_body (outer_body_of lib req er)))
        (build_request_enc_aad (rq_algorithm req) (rq_key_label req) (rq_operation req)) = Some (inner_payload_of req kp)"
    by (rule encrypted_request_decrypts [OF assms(1,2,4)])
      (use assms(5) in \<open>simp_all add: enc_envelope_of_def received_body_def outer_body_of_def\<close>)
  then show "browser_decrypt_request (lb_transport lib) unb64 json_parse (tc_p256_generate (lb_transport lib) a)
        (tc_mlkem_generate (lb_transport lib) seed) (enc_envelope_of (received_body (outer_body_of lib req er)))
        (build_request_enc_aad (body_algorithm (received_body (outer_body_of lib req er)))
          (body_key_label (received_body (outer_body_of lib req er))) (rq_operation req)) = Some (inner_payload_of req kp)"
    by (simp add: received_body_def outer_body_of_def)
qed

text \<open>C23: What the browser seals for the transport key pair of a request is accepted by the server's validation of
  response envelopes, and the client gets exactly the browser's plaintext out of it, whatever the state, the
  operation and the algorithm bound as additional data.\<close>

theorem response_payload_reaches_client:
  assumes "transport_laws tc" and "reads_base64url unb64" and "new_transport_key_pair tc d = (Inr kp, d1)"
    and "length nonce = 12"
    and "encrypt_transport_envelope tc unb64 (tc_p256_generate tc r) coins nonce state (kp_ecdh_public kp)
      (kp_mlkem_public kp) plain (build_transport_aad state operation algorithm) = Some env"
  shows "validate_response_envelope env = Inr ()
    \<and> decrypt_response_envelope tc state (Some kp) (Some env) (build_transport_aad state operation algorithm) = Inr plain"
proof -
  obtain r0 seed where kp: "kp = client_key_pair tc r0 seed"
    by (rule new_transport_key_pair_ok [OF assms(1,3)])
  show ?thesis using sealed_response_opens [OF assms(1,2,4) assms(5) [unfolded kp]] kp by simp
qed

text \<open>A label that is not canonical is stored under another one, and the additional data no longer match.\<close>

lemma noncanonical_label_breaks_aad:
  assumes "normalize_and_validate_key_label label = Some l" and "label \<noteq> l"
    and "CHR 0x0A \<notin> set alg \<union> set label \<union> set l \<union> set operation"
  shows "build_request_enc_aad alg l operation \<noteq> build_request_enc_aad alg label operation"
  using request_enc_aad_injective [of alg l operation alg label operation] assms by auto

end
