(* ===== verification/Go_Package.thy ===== *)
theory Go_Package
  imports Client_Keys
begin

text \<open>
  The public Go package (src/pkg/revaulter): encrypting, decrypting and signing with a key
  the user holds, fetching a published signing key and verifying a signature locally.  Each
  operation is split into what it checks before the call (the request of the client core) and what it
  checks of the browser's answer.  The verification primitives of crypto/ecdsa and
  crypto/ed25519, SHA-512 and the JSON of the answers are fields of \<open>go_lib\<close>.
\<close>

section \<open>Options and the client\<close>

record encrypt_response_payload =
  ep_state :: string
  ep_operation :: string
  ep_algorithm :: string
  ep_value :: string
  ep_nonce :: string
  ep_tag :: string
  ep_additional_data :: string

record decrypt_response_payload =
  dp_state :: string
  dp_operation :: string
  dp_algorithm :: string
  dp_value :: string

record sign_response_payload =
  np_state :: string
  np_operation :: string
  np_algorithm :: string
  np_key_label :: string
  np_signature :: string
  np_signing_key_id :: string

record ('ek, 'mk) go_lib = "('ek, 'mk) client_lib" +
  gl_sha512 :: "string \<Rightarrow> string"
  gl_ecdsa_p256_verify :: "string \<Rightarrow> string \<Rightarrow> nat \<Rightarrow> nat \<Rightarrow> bool"
  gl_ed25519_verify :: "string \<Rightarrow> string \<Rightarrow> string \<Rightarrow> bool"
  gl_ed25519ph_verify :: "string \<Rightarrow> string \<Rightarrow> string \<Rightarrow> bool"
  gl_decode_encrypt :: "string \<Rightarrow> encrypt_response_payload option"
  gl_decode_decrypt :: "string \<Rightarrow> decrypt_response_payload option"
  gl_decode_sign :: "string \<Rightarrow> sign_response_payload option"

definition core_lib :: "('ek, 'mk) go_lib \<Rightarrow> ('ek, 'mk) client_lib" where
  "core_lib lib = client_lib.truncate lib"

definition max_payload_size :: nat where "max_payload_size = 100 * 2 ^ 10"

definition signature_size :: nat where "signature_size = 64"

record go_options =
  go_server :: string
  go_request_key :: string
  go_has_http_client :: bool
  go_user_agent :: string
  go_trust_store_path :: string
  go_no_trust_store :: bool
  go_confirm_anchor :: confirm_anchor
  go_timeout :: int
  go_note :: string

record go_client =
  gc_core :: client
  gc_timeout :: int
  gc_note :: string

definition go_validate_note :: "string \<Rightarrow> unit go_result" where
  "go_validate_note note = (if length note > max_note_length then Inl (Err_Msg ''note is too long'') else Inr ())"

definition go_new :: "('ek, 'mk) go_lib \<Rightarrow> string \<Rightarrow> go_options \<Rightarrow> go_client go_result" where
  "go_new lib app_version opts =
    (case go_validate_note (go_note opts) of
       Inl e \<Rightarrow> Inl e
     | Inr _ \<Rightarrow>
         (case new_client (core_lib lib) app_version
             \<lparr>cf_server = go_server opts, cf_request_key = go_request_key opts, cf_has_http_client = go_has_http_client opts,
              cf_user_agent = (if go_user_agent opts = [] then ''RevaulterGo/'' @ app_version else go_user_agent opts),
              cf_trust_store_path = go_trust_store_path opts, cf_no_trust_store = go_no_trust_store opts,
              cf_confirm_anchor = go_confirm_anchor opts\<rparr> of
            Inl e \<Rightarrow> Inl e
          | Inr core \<Rightarrow> Inr \<lparr>gc_core = core, gc_timeout = go_timeout opts, gc_note = go_note opts\<rparr>))"

definition go_resolve :: "go_client \<Rightarrow> int \<Rightarrow> string \<Rightarrow> (int \<times> string) go_result" where
  "go_resolve c timeout note =
    (let t = (if timeout \<le> 0 then gc_timeout c else timeout); n = (if note = [] then gc_note c else note) in
     case go_validate_note n of Inl e \<Rightarrow> Inl e | Inr _ \<Rightarrow> Inr (t, n))"

definition go_normalize_key_label :: "string \<Rightarrow> string go_result" where
  "go_normalize_key_label label =
    (case normalize_and_validate_key_label label of None \<Rightarrow> Inl (Err_Msg ''invalid key label'') | Some c \<Rightarrow> Inr c)"

definition ensure_within_payload_limit :: "nat \<Rightarrow> unit go_result" where
  "ensure_within_payload_limit n =
    (if n > max_payload_size then Inl (Err_Msg ''exceeds the maximum allowed size'') else Inr ())"

definition validate_encryption_algorithm :: "string \<Rightarrow> unit go_result" where
  "validate_encryption_algorithm alg =
    (if alg = [] then Inl (Err_Msg ''algorithm is required'')
     else if \<not> is_supported_encryption_algorithm alg then Inl (Err_Msg ''unsupported encryption algorithm'') else Inr ())"

definition go_normalize_signing_algorithm :: "string \<Rightarrow> string go_result" where
  "go_normalize_signing_algorithm alg =
    (if alg = [] then Inl (Err_Msg ''algorithm is required'')
     else case normalize_signing_algorithm alg of
       None \<Rightarrow> Inl (Err_Msg ''unsupported signing algorithm'') | Some c \<Rightarrow> Inr c)"

text \<open>The bytes a signature covers.\<close>

definition resolve_signing_input :: "('ek, 'mk) go_lib \<Rightarrow> string \<Rightarrow> string \<Rightarrow> string \<Rightarrow> string go_result" where
  "resolve_signing_input lib alg message digest =
    (if message \<noteq> [] \<and> digest \<noteq> [] then Inl (Err_Msg ''message and digest are mutually exclusive'')
     else if message = [] \<and> digest = [] then Inl (Err_Msg ''one of message or digest is required'')
     else if digest \<noteq> [] then
       (if alg = ''ES256'' then if length digest \<noteq> 32 then Inl (Err_Msg ''invalid digest length'') else Inr digest
        else if alg = ''Ed25519ph'' then if length digest \<noteq> 64 then Inl (Err_Msg ''invalid digest length'') else Inr digest
        else if alg = ''Ed25519'' then Inl (Err_Msg ''digest is not supported for Ed25519'')
        else Inl (Err_Msg ''unsupported signing algorithm''))
     else if alg = ''ES256'' then Inr (cr_sha256 (lb_crypto lib) message)
     else if alg = ''Ed25519'' then Inr message
     else if alg = ''Ed25519ph'' then Inr (gl_sha512 lib message)
     else Inl (Err_Msg ''unsupported signing algorithm''))"

section \<open>Calls\<close>

definition go_execute ::
  "('ek, 'mk) go_lib \<Rightarrow> go_client \<Rightarrow> context_deadline \<Rightarrow> client_request \<Rightarrow> 'z client_world_scheme
     \<Rightarrow> (client_response go_result \<times> 'z client_world_scheme) option" where
  "go_execute lib c ctx req w =
    (case execute (core_lib lib) (gc_core c) ctx req w of
       None \<Rightarrow> None
     | Some (Inl e, w1) \<Rightarrow> Some (Inl e, w1)
     | Some (Inr res, w1) \<Rightarrow>
         if cp_payload res = [] then Some (Inl (Err_Msg ''received an empty response from the server''), w1)
         else Some (Inr res, w1))"

text \<open>An operation: the prepared request, the call, and the check of the answer.\<close>

definition go_operation ::
  "('ek, 'mk) go_lib \<Rightarrow> go_client \<Rightarrow> context_deadline \<Rightarrow> client_request go_result
     \<Rightarrow> (client_request \<Rightarrow> client_response \<Rightarrow> 'a go_result) \<Rightarrow> 'z client_world_scheme
     \<Rightarrow> ('a go_result \<times> 'z client_world_scheme) option" where
  "go_operation lib c ctx prepared accept w =
    (case prepared of
       Inl e \<Rightarrow> Some (Inl e, w)
     | Inr req \<Rightarrow> (case go_execute lib c ctx req w of
         None \<Rightarrow> None
       | Some (Inl e, w1) \<Rightarrow> Some (Inl e, w1)
       | Some (Inr res, w1) \<Rightarrow> Some (accept req res, w1)))"

definition decode_response_field :: "string \<Rightarrow> string go_result" where
  "decode_response_field s = (case raw_url_decode s of None \<Rightarrow> Inl (Err_Msg ''invalid field in response'') | Some b \<Rightarrow> Inr b)"

section \<open>Encrypting\<close>

record go_encrypt_request =
  eq_key_label :: string
  eq_algorithm :: string
  eq_plaintext :: string
  eq_additional_data :: string
  eq_timeout :: int
  eq_note :: string

record encrypt_result =
  er_key_label :: string
  er_algorithm :: string
  er_cipher_bytes :: string
  er_nonce_bytes :: string
  er_tag_bytes :: string
  er_additional_data :: string
  er_state :: string

definition encrypt_request_of :: "go_client \<Rightarrow> go_encrypt_request \<Rightarrow> client_request go_result" where
  "encrypt_request_of c req =
    (case go_normalize_key_label (eq_key_label req) of Inl e \<Rightarrow> Inl e | Inr label \<Rightarrow>
    (case validate_encryption_algorithm (eq_algorithm req) of Inl e \<Rightarrow> Inl e | Inr _ \<Rightarrow>
     if eq_plaintext req = [] then Inl (Err_Msg ''plaintext is required'') else
    (case ensure_within_payload_limit (length (eq_plaintext req)) of Inl e \<Rightarrow> Inl e | Inr _ \<Rightarrow>
    (case ensure_within_payload_limit (length (eq_additional_data req)) of Inl e \<Rightarrow> Inl e | Inr _ \<Rightarrow>
    (case go_resolve c (eq_timeout req) (eq_note req) of Inl e \<Rightarrow> Inl e | Inr (timeout, note) \<Rightarrow>
     Inr \<lparr>rq_operation = ''encrypt'', rq_key_label = label, rq_algorithm = eq_algorithm req, rq_timeout = timeout,
          rq_note = note, rq_value = raw_url_encode (eq_plaintext req), rq_nonce = [], rq_tag = [],
          rq_additional_data = raw_url_encode (eq_additional_data req), rq_on_submitted = False\<rparr>)))))"

text \<open>The additional data the browser echoes are compared only when it echoes any.\<close>

definition echoed_additional_data :: "string \<Rightarrow> string \<Rightarrow> string go_result" where
  "echoed_additional_data requested echoed =
    (if echoed = [] then Inr requested
     else case decode_response_field echoed of
       Inl e \<Rightarrow> Inl e
     | Inr aad \<Rightarrow> if aad \<noteq> requested then Inl (Err_Msg ''encrypt response additional data does not match the request'')
                  else Inr aad)"

definition encrypt_result_of ::
  "('ek, 'mk) go_lib \<Rightarrow> go_encrypt_request \<Rightarrow> client_request \<Rightarrow> client_response \<Rightarrow> encrypt_result go_result" where
  "encrypt_result_of lib req sent res =
    (case gl_decode_encrypt lib (cp_payload res) of None \<Rightarrow> Inl Err_Json | Some resp \<Rightarrow>
     if ep_state resp \<noteq> cp_state res then Inl (Err_Msg ''encrypt response state mismatch'')
     else if ep_operation resp \<noteq> ''encrypt'' then Inl (Err_Msg ''unexpected operation in encrypt response'')
     else if ep_algorithm resp \<noteq> eq_algorithm req then Inl (Err_Msg ''encrypt response algorithm does not match requested'')
     else if ep_value resp = [] \<or> ep_nonce resp = [] \<or> ep_tag resp = []
       then Inl (Err_Msg ''encrypt response missing value/nonce/tag'')
     else (case decode_response_field (ep_value resp) of Inl e \<Rightarrow> Inl e | Inr ciphertext \<Rightarrow>
          (case decode_response_field (ep_nonce resp) of Inl e \<Rightarrow> Inl e | Inr nonce \<Rightarrow>
          (case decode_response_field (ep_tag resp) of Inl e \<Rightarrow> Inl e | Inr tag \<Rightarrow>
          (case echoed_additional_data (eq_additional_data req) (ep_additional_data resp) of Inl e \<Rightarrow> Inl e | Inr aad \<Rightarrow>
           Inr \<lparr>er_key_label = rq_key_label sent, er_algorithm = ep_algorithm resp, er_cipher_bytes = ciphertext,
                er_nonce_bytes = nonce, er_tag_bytes = tag, er_additional_data = aad, er_state = cp_state res\<rparr>)))))"

definition go_encrypt where
  "go_encrypt lib c ctx req = go_operation lib c ctx (encrypt_request_of c req) (encrypt_result_of lib req)"

section \<open>Decrypting\<close>

record go_decrypt_request =
  dq_key_label :: string
  dq_algorithm :: string
  dq_ciphertext :: string
  dq_nonce :: string
  dq_tag :: string
  dq_additional_data :: string
  dq_timeout :: int
  dq_note :: string

record decrypt_result =
  dr_key_label :: string
  dr_algorithm :: string
  dr_plaintext :: string
  dr_state :: string

definition decrypt_request_of :: "go_client \<Rightarrow> go_decrypt_request \<Rightarrow> client_request go_result" where
  "decrypt_request_of c req =
    (case go_normalize_key_label (dq_key_label req) of Inl e \<Rightarrow> Inl e | Inr label \<Rightarrow>
    (case validate_encryption_algorithm (dq_algorithm req) of Inl e \<Rightarrow> Inl e | Inr _ \<Rightarrow>
     if dq_ciphertext req = [] then Inl (Err_Msg ''ciphertext is required'') else
    (case ensure_within_payload_limit (length (dq_ciphertext req)) of Inl e \<Rightarrow> Inl e | Inr _ \<Rightarrow>
    (case ensure_within_payload_limit (length (dq_additional_data req)) of Inl e \<Rightarrow> Inl e | Inr _ \<Rightarrow>
    (case go_resolve c (dq_timeout req) (dq_note req) of Inl e \<Rightarrow> Inl e | Inr (timeout, note) \<Rightarrow>
     Inr \<lparr>rq_operation = ''decrypt'', rq_key_label = label, rq_algorithm = dq_algorithm req, rq_timeout = timeout,
          rq_note = note, rq_value = raw_url_encode (dq_ciphertext req), rq_nonce = raw_url_encode (dq_nonce req),
          rq_tag = raw_url_encode (dq_tag req), rq_additional_data = raw_url_encode (dq_additional_data req),
          rq_on_submitted = False\<rparr>)))))"

definition decrypt_result_of ::
  "('ek, 'mk) go_lib \<Rightarrow> go_decrypt_request \<Rightarrow> client_request \<Rightarrow> client_response \<Rightarrow> decrypt_result go_result" where
  "decrypt_result_of lib req sent res =
    (case gl_decode_decrypt lib (cp_payload res) of None \<Rightarrow> Inl Err_Json | Some resp \<Rightarrow>
     if dp_state resp \<noteq> cp_state res then Inl (Err_Msg ''decrypt response state mismatch'')
     else if dp_operation resp \<noteq> ''decrypt'' then Inl (Err_Msg ''unexpected operation in decrypt response'')
     else if dp_algorithm resp \<noteq> dq_algorithm req then Inl (Err_Msg ''decrypt response algorithm does not match requested'')
     else if dp_value resp = [] then Inl (Err_Msg ''decrypt response missing value'')
     else (case decode_response_field (dp_value resp) of Inl e \<Rightarrow> Inl e | Inr plaintext \<Rightarrow>
           Inr \<lparr>dr_key_label = rq_key_label sent, dr_algorithm = dp_algorithm resp, dr_plaintext = plaintext,
                dr_state = cp_state res\<rparr>))"

definition go_decrypt where
  "go_decrypt lib c ctx req = go_operation lib c ctx (decrypt_request_of c req) (decrypt_result_of lib req)"

section \<open>Signing\<close>

record go_sign_request =
  sq_key_label :: string
  sq_algorithm :: string
  sq_message :: string
  sq_digest :: string
  sq_timeout :: int
  sq_note :: string

record sign_result =
  sn_key_label :: string
  sn_algorithm :: string
  sn_signature :: string
  sn_signing_key_id :: string
  sn_state :: string

definition sign_request_of :: "('ek, 'mk) go_lib \<Rightarrow> go_client \<Rightarrow> go_sign_request \<Rightarrow> client_request go_result" where
  "sign_request_of lib c req =
    (case go_normalize_key_label (sq_key_label req) of Inl e \<Rightarrow> Inl e | Inr label \<Rightarrow>
    (case go_normalize_signing_algorithm (sq_algorithm req) of Inl e \<Rightarrow> Inl e | Inr alg \<Rightarrow>
    (case resolve_signing_input lib alg (sq_message req) (sq_digest req) of Inl e \<Rightarrow> Inl e | Inr input \<Rightarrow>
    (case ensure_within_payload_limit (length input) of Inl e \<Rightarrow> Inl e | Inr _ \<Rightarrow>
    (case go_resolve c (sq_timeout req) (sq_note req) of Inl e \<Rightarrow> Inl e | Inr (timeout, note) \<Rightarrow>
     Inr \<lparr>rq_operation = ''sign'', rq_key_label = label, rq_algorithm = alg, rq_timeout = timeout, rq_note = note,
          rq_value = raw_url_encode input, rq_nonce = [], rq_tag = [], rq_additional_data = [],
          rq_on_submitted = False\<rparr>)))))"

definition sign_result_of ::
  "('ek, 'mk) go_lib \<Rightarrow> client_request \<Rightarrow> client_response \<Rightarrow> sign_result go_result" where
  "sign_result_of lib sent res =
    (case gl_decode_sign lib (cp_payload res) of None \<Rightarrow> Inl Err_Json | Some resp \<Rightarrow>
     if np_state resp \<noteq> cp_state res then Inl (Err_Msg ''sign response state mismatch'')
     else if np_operation resp \<noteq> ''sign'' then Inl (Err_Msg ''unexpected operation in sign response'')
     else if np_algorithm resp \<noteq> rq_algorithm sent then Inl (Err_Msg ''unexpected algorithm in sign response'')
     else if np_key_label resp \<noteq> rq_key_label sent then Inl (Err_Msg ''sign response keyLabel does not match requested'')
     else if np_signature resp = [] then Inl (Err_Msg ''sign response missing signature'')
     else (case decode_response_field (np_signature resp) of Inl e \<Rightarrow> Inl e | Inr sig \<Rightarrow>
           if length sig \<noteq> signature_size then Inl (Err_Msg ''unexpected signature length'')
           else Inr \<lparr>sn_key_label = rq_key_label sent, sn_algorithm = rq_algorithm sent, sn_signature = sig,
                     sn_signing_key_id = np_signing_key_id resp, sn_state = cp_state res\<rparr>))"

definition go_sign where
  "go_sign lib c ctx req = go_operation lib c ctx (sign_request_of lib c req) (sign_result_of lib)"

section \<open>Verifying\<close>

datatype go_public_key = Ecdsa_Key string | Ed25519_Key string

record go_signing_key =
  gk_id :: string
  gk_key_label :: string
  gk_algorithm :: string
  gk_key_id :: string
  gk_public_key :: "go_public_key option"
  gk_jwk :: string

record go_verify_request =
  vq_key_label :: string
  vq_algorithm :: string
  vq_message :: string
  vq_digest :: string
  vq_signature :: string

definition go_signing_key_of :: "client_signing_key \<Rightarrow> go_signing_key" where
  "go_signing_key_of k =
    \<lparr>gk_id = csk_id k, gk_key_label = csk_key_label k, gk_algorithm = csk_algorithm k, gk_key_id = csk_key_id k,
     gk_public_key = Some (if csk_algorithm k = ''ES256'' then Ecdsa_Key (csk_public_key k) else Ed25519_Key (csk_public_key k)),
     gk_jwk = csk_jwk k\<rparr>"

definition go_signing_public_key ::
  "('ek, 'mk) go_lib \<Rightarrow> go_client \<Rightarrow> context_deadline \<Rightarrow> string \<Rightarrow> string \<Rightarrow> ('z, go_signing_key) client_op" where
  "go_signing_public_key lib c ctx label alg =
    go_bind (go_lift (go_normalize_key_label label)) (\<lambda>label.
    go_bind (go_lift (go_normalize_signing_algorithm alg)) (\<lambda>alg.
    go_bind (signing_public_key (core_lib lib) (gc_core c) ctx label alg) (\<lambda>key.
    go_return (go_signing_key_of key))))"

definition is_ed_algorithm :: "string \<Rightarrow> bool" where
  "is_ed_algorithm alg \<longleftrightarrow> alg = ''Ed25519'' \<or> alg = ''Ed25519ph''"

definition compatible_signing_algorithms :: "string \<Rightarrow> string \<Rightarrow> bool" where
  "compatible_signing_algorithms a b \<longleftrightarrow> a = b \<or> b = [] \<or> is_ed_algorithm a \<and> is_ed_algorithm b"

definition requested_algorithm :: "go_signing_key \<Rightarrow> go_verify_request \<Rightarrow> string go_result" where
  "requested_algorithm k req =
    (if vq_algorithm req = [] then Inr (gk_algorithm k)
     else case go_normalize_signing_algorithm (vq_algorithm req) of
       Inl e \<Rightarrow> Inl e
     | Inr alg \<Rightarrow> if \<not> compatible_signing_algorithms alg (gk_algorithm k)
                  then Inl (Err_Msg ''key is for another algorithm'') else Inr alg)"

definition check_requested_label :: "go_signing_key \<Rightarrow> go_verify_request \<Rightarrow> unit go_result" where
  "check_requested_label k req =
    (if vq_key_label req = [] then Inr ()
     else case go_normalize_key_label (vq_key_label req) of
       Inl e \<Rightarrow> Inl e
     | Inr label \<Rightarrow> if gk_key_label k \<noteq> [] \<and> label \<noteq> gk_key_label k then Inl (Err_Msg ''key is for another label'') else Inr ())"

definition err_invalid_signature :: go_error where "err_invalid_signature = Err_Msg ''signature is not valid''"

definition check_signature ::
  "('ek, 'mk) go_lib \<Rightarrow> string \<Rightarrow> go_public_key \<Rightarrow> string \<Rightarrow> string \<Rightarrow> unit go_result" where
  "check_signature lib alg pub input sig =
    (if alg = ''ES256'' then
       (case pub of Ecdsa_Key k \<Rightarrow>
          if gl_ecdsa_p256_verify lib k input (big_int_of_bytes (take 32 sig)) (big_int_of_bytes (drop 32 sig))
          then Inr () else Inl err_invalid_signature
        | _ \<Rightarrow> Inl (Err_Msg ''public key is not an ECDSA key''))
     else if alg = ''Ed25519'' then
       (case pub of Ed25519_Key k \<Rightarrow> if gl_ed25519_verify lib k input sig then Inr () else Inl err_invalid_signature
        | _ \<Rightarrow> Inl (Err_Msg ''public key is not an Ed25519 key''))
     else if alg = ''Ed25519ph'' then
       (case pub of Ed25519_Key k \<Rightarrow> if gl_ed25519ph_verify lib k input sig then Inr () else Inl err_invalid_signature
        | _ \<Rightarrow> Inl (Err_Msg ''public key is not an Ed25519 key''))
     else Inl (Err_Msg ''unsupported signing algorithm''))"

definition signing_key_verify :: "('ek, 'mk) go_lib \<Rightarrow> go_signing_key \<Rightarrow> go_verify_request \<Rightarrow> unit go_result" where
  "signing_key_verify lib k req =
    (case gk_public_key k of None \<Rightarrow> Inl (Err_Msg ''missing public key'') | Some pub \<Rightarrow>
    (case requested_algorithm k req of Inl e \<Rightarrow> Inl e | Inr alg \<Rightarrow>
    (case check_requested_label k req of Inl e \<Rightarrow> Inl e | Inr _ \<Rightarrow>
     if length (vq_signature req) \<noteq> signature_size then Inl err_invalid_signature else
    (case resolve_signing_input lib alg (vq_message req) (vq_digest req) of Inl e \<Rightarrow> Inl e | Inr input \<Rightarrow>
     check_signature lib alg pub input (vq_signature req)))))"

definition go_verify :: "('ek, 'mk) go_lib \<Rightarrow> go_client \<Rightarrow> context_deadline \<Rightarrow> go_verify_request \<Rightarrow> ('z, unit) client_op" where
  "go_verify lib c ctx req =
    go_bind (go_signing_public_key lib c ctx (vq_key_label req) (vq_algorithm req)) (\<lambda>key.
    go_lift (signing_key_verify lib key req))"

end
