(* ===== verification/Encrypted_File.thy ===== *)
theory Encrypted_File
  imports Go_Package
begin

text \<open>
  The files of revaulter-edit (src/cmd/edit/cmd/file.go, open.go): a JWE in compact form
  whose key Revaulter has wrapped, its header, decryption and serialization, the atomic
  write, and opening a file with the key wrapper.

  The disk is a map from paths to nodes.  Every system call takes the head of
  \<open>ed_faults\<close>: \<open>None\<close> lets it pass, \<open>Some n\<close> makes it fail (a write after \<open>n\<close> bytes).
  Random bytes and the names of temporary files are streams.  JSON and AES-GCM are arguments
  (\<open>edit_lib\<close>); a key wrapper is a pair of calls on its own state, of which the Go client
  is one.
\<close>

section \<open>The disk\<close>

datatype fs_node = Regular (node_data: string) (node_mode: nat) (node_mtime: int) | Symlink string | Directory

record edit_disk =
  ed_nodes :: "string \<rightharpoonup> fs_node"
  ed_faults :: "nat option list"
  ed_time :: int
  ed_random :: "nat \<Rightarrow> char"
  ed_drawn :: nat
  ed_names :: "nat \<Rightarrow> string"
  ed_named :: nat

type_synonym 'a disk_call = "(edit_disk, 'a) go"

definition err_not_exist :: go_error where "err_not_exist = Err_Msg ''file does not exist''"
definition err_io :: go_error where "err_io = Err_Msg ''input/output error''"

text \<open>A system call, given the number of bytes after which it fails.\<close>

definition sys_call :: "(nat \<Rightarrow> edit_disk \<Rightarrow> edit_disk) \<Rightarrow> 'a disk_call \<Rightarrow> 'a disk_call" where
  "sys_call partial m d = (case ed_faults d of
      [] \<Rightarrow> m d
    | None # fs \<Rightarrow> m (d\<lparr>ed_faults := fs\<rparr>)
    | Some n # fs \<Rightarrow> (Inl err_io, partial n (d\<lparr>ed_faults := fs\<rparr>)))"

abbreviation plain_call :: "'a disk_call \<Rightarrow> 'a disk_call" where
  "plain_call \<equiv> sys_call (\<lambda>_ d. d)"

text \<open>Symbolic links are followed at most 40 times.\<close>

fun follow :: "nat \<Rightarrow> (string \<rightharpoonup> fs_node) \<Rightarrow> string \<Rightarrow> fs_node go_result" where
  "follow n nodes p = (case nodes p of
      None \<Rightarrow> Inl err_not_exist
    | Some (Symlink q) \<Rightarrow> (case n of 0 \<Rightarrow> Inl err_io | Suc m \<Rightarrow> follow m nodes q)
    | Some nd \<Rightarrow> Inr nd)"

definition dir_exists :: "(string \<rightharpoonup> fs_node) \<Rightarrow> string \<Rightarrow> bool" where
  "dir_exists nodes p = (case follow 40 nodes p of Inr Directory \<Rightarrow> True | _ \<Rightarrow> False)"

definition read_file :: "string \<Rightarrow> string disk_call" where
  "read_file p = plain_call (\<lambda>d. (case follow 40 (ed_nodes d) p of
      Inl e \<Rightarrow> Inl e
    | Inr (Regular b _ _) \<Rightarrow> Inr b
    | Inr _ \<Rightarrow> Inl err_io, d))"

definition lstat :: "string \<Rightarrow> fs_node disk_call" where
  "lstat p = plain_call (\<lambda>d. (case ed_nodes d p of None \<Rightarrow> Inl err_not_exist | Some nd \<Rightarrow> Inr nd, d))"

definition put_node :: "string \<Rightarrow> fs_node \<Rightarrow> edit_disk \<Rightarrow> edit_disk" where
  "put_node p nd d = d\<lparr>ed_nodes := (ed_nodes d)(p \<mapsto> nd)\<rparr>"

definition remove_file :: "string \<Rightarrow> unit disk_call" where
  "remove_file p = plain_call (\<lambda>d. (Inr (), d\<lparr>ed_nodes := (ed_nodes d)(p := None)\<rparr>))"

definition random_bytes :: "nat \<Rightarrow> string disk_call" where
  "random_bytes n = plain_call (\<lambda>d.
     (Inr (map (ed_random d) [ed_drawn d..<ed_drawn d + n]), d\<lparr>ed_drawn := ed_drawn d + n\<rparr>))"

text \<open>\<open>filepath.Base\<close> and \<open>filepath.Dir\<close>.\<close>

definition strip_slashes :: "string \<Rightarrow> string" where
  "strip_slashes p = rev (dropWhile (\<lambda>c. c = CHR ''/'') (rev p))"

definition file_base :: "string \<Rightarrow> string" where
  "file_base p =
    (if p = [] then ''.''
     else if strip_slashes p = [] then ''/''
     else last_element (strip_slashes p))"

definition file_dir :: "string \<Rightarrow> string" where
  "file_dir p = path_clean (take (length p - length (last_element p)) p)"

text \<open>\<open>os.CreateTemp\<close>: the directory exists and the name it settles on does not; a pattern with a
  separator is refused.\<close>

definition in_dir :: "string \<Rightarrow> string \<Rightarrow> string" where
  "in_dir dir name = (if has_suffix dir ''/'' then dir @ name else dir @ ''/'' @ name)"

definition create_temp_file :: "string \<Rightarrow> string \<Rightarrow> string disk_call" where
  "create_temp_file dir pre = plain_call (\<lambda>d.
    (let tmp = in_dir dir (pre @ ed_names d (ed_named d)) in
     if CHR ''/'' \<in> set pre \<or> \<not> dir_exists (ed_nodes d) dir \<or> ed_nodes d tmp \<noteq> None then (Inl err_io, d\<lparr>ed_named := Suc (ed_named d)\<rparr>)
     else (Inr tmp, (put_node tmp (Regular [] 384 (ed_time d)) d)\<lparr>ed_named := Suc (ed_named d)\<rparr>)))"

definition chmod_file :: "string \<Rightarrow> nat \<Rightarrow> unit disk_call" where
  "chmod_file p mode = plain_call (\<lambda>d. case ed_nodes d p of
      Some (Regular b _ t) \<Rightarrow> (Inr (), put_node p (Regular b mode t) d)
    | _ \<Rightarrow> (Inl err_io, d))"

text \<open>Writing to an open file from its start, replacing what it held.\<close>

definition set_data :: "string \<Rightarrow> string \<Rightarrow> edit_disk \<Rightarrow> edit_disk" where
  "set_data p b d = (case ed_nodes d p of
      Some (Regular _ mode _) \<Rightarrow> put_node p (Regular b mode (ed_time d)) d
    | _ \<Rightarrow> d)"

definition write_open_file :: "string \<Rightarrow> string \<Rightarrow> unit disk_call" where
  "write_open_file p b = sys_call (\<lambda>n. set_data p (take n b)) (\<lambda>d. (Inr (), set_data p b d))"

text \<open>\<open>os.Rename\<close> replaces a file or a link, but no directory.\<close>

definition rename_node :: "string \<Rightarrow> string \<Rightarrow> unit disk_call" where
  "rename_node old new = plain_call (\<lambda>d. case ed_nodes d old of
      None \<Rightarrow> (Inl err_io, d)
    | Some nd \<Rightarrow>
        if ed_nodes d new = Some Directory then (Inl err_io, d)
        else (Inr (), d\<lparr>ed_nodes := (ed_nodes d)(old := None, new \<mapsto> nd)\<rparr>))"

text \<open>A deferred call runs whatever the outcome, and its own error is dropped.\<close>

definition deferred :: "unit disk_call \<Rightarrow> 'a disk_call \<Rightarrow> 'a disk_call" where
  "deferred cleanup m d = (case m d of (r, d1) \<Rightarrow> (r, snd (cleanup d1)))"

definition is_symlink :: "fs_node go_result \<Rightarrow> bool" where
  "is_symlink r = (case r of Inr (Symlink _) \<Rightarrow> True | _ \<Rightarrow> False)"

definition write_file_atomic :: "string \<Rightarrow> string \<Rightarrow> unit disk_call" where
  "write_file_atomic path data =
    go_bind (go_try (lstat path)) (\<lambda>st.
      if is_symlink st then go_fail (Err_Msg ''refusing to write through symlink'')
      else go_bind (create_temp_file (file_dir path) (''.'' @ file_base path @ ''.'')) (\<lambda>tmp.
        deferred (remove_file tmp) (
          go_bind (chmod_file tmp 384) (\<lambda>_.
          go_bind (write_open_file tmp data) (\<lambda>_.
          go_bind (plain_call (go_return ())) (\<lambda>_.
          go_bind (plain_call (go_return ())) (\<lambda>_.
            rename_node tmp path)))))))"

section \<open>The file format\<close>

definition content_key_size :: nat where "content_key_size = 32"
definition jose_alg :: string where "jose_alg = ''dir''"
definition jose_enc :: string where "jose_enc = ''A256GCM''"
definition header_format_version :: int where "header_format_version = 1"
definition content_nonce_size :: nat where "content_nonce_size = 12"
definition content_tag_size :: nat where "content_tag_size = 16"

record revaulter_key_info =
  ri_v :: int
  ri_server :: string
  ri_key_label :: string
  ri_algorithm :: string
  ri_wrapped_key :: string
  ri_wrapped_key_nonce :: string
  ri_wrapped_key_tag :: string

record jwe_header =
  jh_alg :: string
  jh_enc :: string
  jh_revaulter :: revaulter_key_info

record wrapped_key =
  wk_key_label :: string
  wk_algorithm :: string
  wk_ciphertext :: string
  wk_nonce :: string
  wk_tag :: string

record encrypted_file =
  ef_path :: string
  ef_content_key :: string
  ef_key_info :: revaulter_key_info

record edit_lib =
  el_decode_header :: "string \<Rightarrow> jwe_header option"
  el_encode_header :: "jwe_header \<Rightarrow> string option"
  el_seal :: "string \<Rightarrow> string \<Rightarrow> string \<Rightarrow> string \<Rightarrow> string"
  el_open :: "string \<Rightarrow> string \<Rightarrow> string \<Rightarrow> string \<Rightarrow> string option"
  el_sha256 :: "string \<Rightarrow> string"

definition jwe_segments :: "string \<Rightarrow> string list go_result" where
  "jwe_segments data =
    (let segments = split_on CHR ''.'' (trim_space data) in
     if length segments \<noteq> 5 then Inl (Err_Msg ''not a JWE in compact serialization'') else Inr segments)"

definition check_header :: "jwe_header \<Rightarrow> jwe_header go_result" where
  "check_header h =
    (if jh_alg h \<noteq> jose_alg then Inl (Err_Msg ''unsupported JWE alg'')
     else if jh_enc h \<noteq> jose_enc then Inl (Err_Msg ''unsupported JWE enc'')
     else if ri_v (jh_revaulter h) \<noteq> header_format_version then Inl (Err_Msg ''unsupported Revaulter header version'')
     else if ri_key_label (jh_revaulter h) = [] \<or> ri_algorithm (jh_revaulter h) = [] \<or> ri_wrapped_key (jh_revaulter h) = []
     then Inl (Err_Msg ''protected header does not carry a wrapped key'')
     else Inr h)"

definition parse_header :: "edit_lib \<Rightarrow> string \<Rightarrow> jwe_header go_result" where
  "parse_header lib data = (case jwe_segments data of
      Inl e \<Rightarrow> Inl e
    | Inr segments \<Rightarrow> (case raw_url_decode (segments ! 0) of
         None \<Rightarrow> Inl (Err_Msg ''invalid protected header encoding'')
       | Some json \<Rightarrow> (case el_decode_header lib json of
            None \<Rightarrow> Inl (Err_Msg ''invalid protected header'')
          | Some h \<Rightarrow> check_header h)))"

definition decode_header_field :: "string \<Rightarrow> string go_result" where
  "decode_header_field v = (case raw_url_decode v of
      None \<Rightarrow> Inl (Err_Msg ''invalid field in protected header'') | Some b \<Rightarrow> Inr b)"

definition wrapped_key_of :: "jwe_header \<Rightarrow> wrapped_key go_result" where
  "wrapped_key_of h =
    (case decode_header_field (ri_wrapped_key (jh_revaulter h)) of Inl e \<Rightarrow> Inl e | Inr ct \<Rightarrow>
    (case decode_header_field (ri_wrapped_key_nonce (jh_revaulter h)) of Inl e \<Rightarrow> Inl e | Inr nonce \<Rightarrow>
    (case decode_header_field (ri_wrapped_key_tag (jh_revaulter h)) of Inl e \<Rightarrow> Inl e | Inr tag \<Rightarrow>
     Inr \<lparr>wk_key_label = ri_key_label (jh_revaulter h), wk_algorithm = ri_algorithm (jh_revaulter h),
          wk_ciphertext = ct, wk_nonce = nonce, wk_tag = tag\<rparr>)))"

definition new_encrypted_file :: "string \<Rightarrow> string \<Rightarrow> wrapped_key \<Rightarrow> string \<Rightarrow> encrypted_file" where
  "new_encrypted_file path server wrap key =
    \<lparr>ef_path = path, ef_content_key = key, ef_key_info =
       \<lparr>ri_v = header_format_version, ri_server = server, ri_key_label = wk_key_label wrap,
        ri_algorithm = wk_algorithm wrap, ri_wrapped_key = raw_url_encode (wk_ciphertext wrap),
        ri_wrapped_key_nonce = raw_url_encode (wk_nonce wrap), ri_wrapped_key_tag = raw_url_encode (wk_tag wrap)\<rparr>\<rparr>"

definition generate_content_key :: "string disk_call" where
  "generate_content_key = random_bytes content_key_size"

text \<open>\<open>aes.NewCipher\<close> takes keys of 16, 24 and 32 bytes.\<close>

definition content_cipher_ok :: "string \<Rightarrow> bool" where
  "content_cipher_ok key \<longleftrightarrow> length key \<in> {16, 24, 32}"

definition decode_segment :: "string \<Rightarrow> string go_result" where
  "decode_segment s = (case raw_url_decode s of None \<Rightarrow> Inl (Err_Msg ''invalid segment'') | Some b \<Rightarrow> Inr b)"

definition decrypt_file :: "edit_lib \<Rightarrow> encrypted_file \<Rightarrow> string \<Rightarrow> string go_result" where
  "decrypt_file lib f data =
    (case jwe_segments data of Inl e \<Rightarrow> Inl e | Inr segments \<Rightarrow>
     if segments ! 1 \<noteq> [] then Inl (Err_Msg ''unexpected encrypted key segment'') else
    (case decode_segment (segments ! 2) of Inl e \<Rightarrow> Inl e | Inr iv \<Rightarrow>
    (case decode_segment (segments ! 3) of Inl e \<Rightarrow> Inl e | Inr ciphertext \<Rightarrow>
    (case decode_segment (segments ! 4) of Inl e \<Rightarrow> Inl e | Inr tag \<Rightarrow>
     if \<not> content_cipher_ok (ef_content_key f) then Inl (Err_Msg ''invalid key size'')
     else if length iv \<noteq> content_nonce_size then Inl (Err_Msg ''invalid initialization vector: bad size'')
     else (case el_open lib (ef_content_key f) iv (ciphertext @ tag) (segments ! 0) of
             None \<Rightarrow> Inl (Err_Msg ''failed to decrypt the file'')
           | Some p \<Rightarrow> Inr p)))))"

definition jwe_text :: "string \<Rightarrow> string \<Rightarrow> string \<Rightarrow> string" where
  "jwe_text header iv combined =
    (let n = length combined - content_tag_size in
     header @ ''..'' @ raw_url_encode iv @ ''.'' @ raw_url_encode (take n combined) @ ''.'' @
     raw_url_encode (drop n combined) @ [CHR 0x0A])"

definition header_segment :: "edit_lib \<Rightarrow> revaulter_key_info \<Rightarrow> string option" where
  "header_segment lib info =
     map_option raw_url_encode (el_encode_header lib \<lparr>jh_alg = jose_alg, jh_enc = jose_enc, jh_revaulter = info\<rparr>)"

definition serialize_file :: "edit_lib \<Rightarrow> encrypted_file \<Rightarrow> string \<Rightarrow> string disk_call" where
  "serialize_file lib f plaintext =
    (case header_segment lib (ef_key_info f) of
       None \<Rightarrow> go_fail (Err_Msg ''failed to serialize the protected header'')
     | Some header \<Rightarrow>
         if \<not> content_cipher_ok (ef_content_key f) then go_fail (Err_Msg ''invalid key size'')
         else go_bind (random_bytes content_nonce_size) (\<lambda>iv.
           go_return (jwe_text header iv (el_seal lib (ef_content_key f) iv plaintext header))))"

definition save_file :: "edit_lib \<Rightarrow> encrypted_file \<Rightarrow> string \<Rightarrow> unit disk_call" where
  "save_file lib f plaintext =
    go_bind (serialize_file lib f plaintext) (write_file_atomic (ef_path f))"

section \<open>Opening a file\<close>

text \<open>The key wrapper: its calls may not return (\<open>None\<close>), like the client's.\<close>

record 'w key_wrapper =
  kw_wrap :: "string \<Rightarrow> string \<Rightarrow> string \<Rightarrow> string \<Rightarrow> 'w \<Rightarrow> (wrapped_key go_result \<times> 'w) option"
  kw_unwrap :: "wrapped_key \<Rightarrow> string \<Rightarrow> 'w \<Rightarrow> (string go_result \<times> 'w) option"

definition revaulter_wrap ::
  "('ek, 'mk) go_lib \<Rightarrow> go_client \<Rightarrow> context_deadline \<Rightarrow> string \<Rightarrow> string \<Rightarrow> string \<Rightarrow> string
     \<Rightarrow> 'z client_world_scheme \<Rightarrow> (wrapped_key go_result \<times> 'z client_world_scheme) option" where
  "revaulter_wrap lib c ctx label alg key note w =
    (case go_encrypt lib c ctx
        \<lparr>eq_key_label = label, eq_algorithm = alg, eq_plaintext = key, eq_additional_data = [],
         eq_timeout = 0, eq_note = note\<rparr> w of
       None \<Rightarrow> None
     | Some (Inl e, w1) \<Rightarrow> Some (Inl e, w1)
     | Some (Inr res, w1) \<Rightarrow> Some (Inr \<lparr>wk_key_label = er_key_label res, wk_algorithm = er_algorithm res,
          wk_ciphertext = er_cipher_bytes res, wk_nonce = er_nonce_bytes res, wk_tag = er_tag_bytes res\<rparr>, w1))"

definition revaulter_unwrap ::
  "('ek, 'mk) go_lib \<Rightarrow> go_client \<Rightarrow> context_deadline \<Rightarrow> wrapped_key \<Rightarrow> string
     \<Rightarrow> 'z client_world_scheme \<Rightarrow> (string go_result \<times> 'z client_world_scheme) option" where
  "revaulter_unwrap lib c ctx wk note w =
    (case go_decrypt lib c ctx
        \<lparr>dq_key_label = wk_key_label wk, dq_algorithm = wk_algorithm wk, dq_ciphertext = wk_ciphertext wk,
         dq_nonce = wk_nonce wk, dq_tag = wk_tag wk, dq_additional_data = [], dq_timeout = 0, dq_note = note\<rparr> w of
       None \<Rightarrow> None
     | Some (Inl e, w1) \<Rightarrow> Some (Inl e, w1)
     | Some (Inr res, w1) \<Rightarrow> Some (Inr (dr_plaintext res), w1))"

definition revaulter_key_wrapper ::
  "('ek, 'mk) go_lib \<Rightarrow> go_client \<Rightarrow> context_deadline \<Rightarrow> 'z client_world_scheme key_wrapper" where
  "revaulter_key_wrapper lib c ctx =
    \<lparr>kw_wrap = revaulter_wrap lib c ctx, kw_unwrap = revaulter_unwrap lib c ctx\<rparr>"

record open_options =
  oo_path :: string
  oo_server :: string
  oo_key_label :: string
  oo_algorithm :: string
  oo_note :: string
  oo_create :: bool

type_synonym 'w opened = "((encrypted_file \<times> string) go_result \<times> edit_disk \<times> 'w) option"

definition open_existing_file ::
  "edit_lib \<Rightarrow> 'w key_wrapper \<Rightarrow> open_options \<Rightarrow> string \<Rightarrow> edit_disk \<Rightarrow> 'w \<Rightarrow> 'w opened" where
  "open_existing_file lib kw opts data d w =
    (case parse_header lib data of Inl e \<Rightarrow> Some (Inl e, d, w) | Inr header \<Rightarrow>
    (case wrapped_key_of header of Inl e \<Rightarrow> Some (Inl e, d, w) | Inr wk \<Rightarrow>
    (case kw_unwrap kw wk (oo_note opts) w of
       None \<Rightarrow> None
     | Some (Inl e, w1) \<Rightarrow> Some (Inl e, d, w1)
     | Some (Inr key, w1) \<Rightarrow>
         if length key \<noteq> content_key_size then Some (Inl (Err_Msg ''the encryption key of the file has a wrong size''), d, w1)
         else let f = \<lparr>ef_path = oo_path opts, ef_content_key = key, ef_key_info = jh_revaulter header\<rparr> in
           (case decrypt_file lib f data of
              Inl e \<Rightarrow> Some (Inl e, d, w1)
            | Inr p \<Rightarrow> Some (Inr (f, p), d, w1)))))"

definition create_file ::
  "edit_lib \<Rightarrow> 'w key_wrapper \<Rightarrow> open_options \<Rightarrow> edit_disk \<Rightarrow> 'w \<Rightarrow> 'w opened" where
  "create_file lib kw opts d w =
    (if oo_key_label opts = [] then Some (Inl (Err_Msg ''--key-label is required to create a new file''), d, w)
     else case generate_content_key d of
       (Inl e, d1) \<Rightarrow> Some (Inl e, d1, w)
     | (Inr key, d1) \<Rightarrow> (case kw_wrap kw (oo_key_label opts) (oo_algorithm opts) key (oo_note opts) w of
          None \<Rightarrow> None
        | Some (Inl e, w1) \<Rightarrow> Some (Inl e, d1, w1)
        | Some (Inr wk, w1) \<Rightarrow> Some (Inr (new_encrypted_file (oo_path opts) (oo_server opts) wk key, []), d1, w1)))"

definition open_file ::
  "edit_lib \<Rightarrow> 'w key_wrapper \<Rightarrow> open_options \<Rightarrow> edit_disk \<Rightarrow> 'w \<Rightarrow> 'w opened" where
  "open_file lib kw opts d w = (case read_file (oo_path opts) d of
      (Inr data, d1) \<Rightarrow> open_existing_file lib kw opts data d1 w
    | (Inl e, d1) \<Rightarrow>
        if e = err_not_exist then
          (if \<not> oo_create opts then Some (Inl (Err_Msg ''file does not exist''), d1, w)
           else create_file lib kw opts d1 w)
        else Some (Inl e, d1, w))"

section \<open>Notes\<close>

definition sanitize_note :: "string \<Rightarrow> string" where
  "sanitize_note s = map (\<lambda>c. if is_upper c \<or> is_lower c \<or> is_digit c \<or> c \<in> set '' ./_-'' then c else CHR ''-'') s"

definition request_note :: "string \<Rightarrow> string \<Rightarrow> string" where
  "request_note user_note path =
    (if user_note \<noteq> [] then user_note
     else let pre = ''revaulter-edit ''; name = sanitize_note (file_base path) in
       if name = [] then trim_space pre
       else let budget = max_note_length - length pre in
         pre @ (if length name > budget then drop (length name - budget) name else name))"

end
