(* ===== verification/Edit_Session.thy ===== *)
theory Edit_Session
  imports Encrypted_File
begin

text \<open>
  The editor of revaulter-edit (src/cmd/edit/cmd/editor.go, edit.go, write.go, cat.go,
  flags.go, root.go, logoutput.go; src/internal/cliutil/terminal.go): the temporary file the
  editor works on, the polling that encrypts what it saves, wiping, and the commands.

  A session is a list of events in any order: the editor writes or removes the temporary
  file, the ticker fires, the user interrupts; it ends when the editor exits.  Command lines
  are split byte by byte, which is what Go's loop over the runes does for valid UTF-8.
\<close>

section \<open>Choosing the editor\<close>

fun first_nonblank :: "string list \<Rightarrow> string option" where
  "first_nonblank [] = None"
| "first_nonblank (c # cs) = (let t = trim_space c in if t \<noteq> [] then Some t else first_nonblank cs)"

definition resolve_editor :: "string \<Rightarrow> string \<Rightarrow> string \<Rightarrow> string go_result" where
  "resolve_editor flag visual editor = (case first_nonblank [flag, visual, editor] of
      None \<Rightarrow> Inl (Err_Msg ''no editor configured'') | Some c \<Rightarrow> Inr c)"

fun strip_extension :: "string list \<Rightarrow> string \<Rightarrow> string" where
  "strip_extension [] name = name"
| "strip_extension (ext # exts) name =
     (if has_suffix (go_to_lower name) ext then take (length name - length ext) name
      else strip_extension exts name)"

definition editor_file_name :: "string \<Rightarrow> string" where
  "editor_file_name path =
    (let name = trim_space (strip_extension [''.jwe'', ''.enc'', ''.encrypted''] (file_base path)) in
     if name = [] \<or> name = ''.'' \<or> name = ''/'' then ''revaulter-edit.txt'' else name)"

text \<open>\<open>splitCommand\<close>: the arguments so far, the current one, the open quote, whether there is a
  current argument.\<close>

fun split_command_loop :: "string \<Rightarrow> string list \<Rightarrow> string \<Rightarrow> char option \<Rightarrow> bool \<Rightarrow> string list" where
  "split_command_loop [] args cur quote has_arg = (if has_arg then args @ [cur] else args)"
| "split_command_loop (c # cs) args cur quote has_arg =
     (case quote of
        Some q \<Rightarrow> if c = q then split_command_loop cs args cur None has_arg
                   else split_command_loop cs args (cur @ [c]) quote has_arg
      | None \<Rightarrow>
          if c = CHR 0x27 \<or> c = CHR 0x22 then split_command_loop cs args cur (Some c) True
          else if c = CHR '' '' \<or> c = CHR 0x09 then
            (if has_arg then split_command_loop cs (args @ [cur]) [] None False
             else split_command_loop cs args cur None has_arg)
          else split_command_loop cs args (cur @ [c]) None True)"

definition split_command :: "string \<Rightarrow> string list" where
  "split_command cmd = split_command_loop cmd [] [] None False"

definition editor_args :: "string \<Rightarrow> string list" where
  "editor_args editor = (let args = split_command editor in if args = [] then [editor] else args)"

definition editors_needing_wait :: "string list" where "editors_needing_wait = [''code'', ''subl'']"
definition wait_flag_name :: string where "wait_flag_name = ''--wait''"
definition wait_flag_aliases :: "string list" where "wait_flag_aliases = [wait_flag_name, ''-w'']"

definition needs_wait_flag :: "string list \<Rightarrow> bool" where
  "needs_wait_flag args = (case args of
      [] \<Rightarrow> False
    | a # rest \<Rightarrow>
        (let lower = go_to_lower (file_base a);
             name = (if has_suffix lower ''.exe'' then take (length lower - 4) lower else lower) in
         name \<in> set editors_needing_wait \<and> \<not> (\<exists>x\<in>set rest. x \<in> set wait_flag_aliases)))"

definition editor_command :: "bool \<Rightarrow> string \<Rightarrow> string \<Rightarrow> string list" where
  "editor_command no_auto_wait editor temp_path =
    (let args = editor_args editor in
     (if \<not> no_auto_wait \<and> needs_wait_flag args then args @ [wait_flag_name] else args) @ [temp_path])"

section \<open>The temporary file\<close>

text \<open>\<open>os.MkdirTemp\<close> and \<open>newPrivateTempDir\<close>: below XDG_RUNTIME_DIR, or the default directory,
  which must exist.\<close>

definition mkdir_temp :: "string \<Rightarrow> string disk_call" where
  "mkdir_temp base = plain_call (\<lambda>d.
    (let dir = in_dir base (''revaulter-edit-'' @ ed_names d (ed_named d)) in
     if \<not> dir_exists (ed_nodes d) base \<or> ed_nodes d dir \<noteq> None then (Inl err_io, d\<lparr>ed_named := Suc (ed_named d)\<rparr>)
     else (Inr dir, (put_node dir Directory d)\<lparr>ed_named := Suc (ed_named d)\<rparr>)))"

definition new_private_temp_dir :: "string \<Rightarrow> string \<Rightarrow> string disk_call" where
  "new_private_temp_dir xdg default_dir =
    (if xdg \<noteq> [] then go_bind (go_try (mkdir_temp xdg)) (\<lambda>r. case r of
        Inr dir \<Rightarrow> go_return dir | Inl _ \<Rightarrow> mkdir_temp default_dir)
     else mkdir_temp default_dir)"

text \<open>\<open>os.WriteFile\<close> with mode 0600: it follows links and truncates what is there.  It is only
  called for a file in the private directory that has just been made, so the directory exists.\<close>

fun resolve_path :: "nat \<Rightarrow> (string \<rightharpoonup> fs_node) \<Rightarrow> string \<Rightarrow> string" where
  "resolve_path n nodes p = (case nodes p of
      Some (Symlink q) \<Rightarrow> (case n of 0 \<Rightarrow> p | Suc m \<Rightarrow> resolve_path m nodes q)
    | _ \<Rightarrow> p)"

definition create_with :: "string \<Rightarrow> string \<Rightarrow> edit_disk \<Rightarrow> edit_disk" where
  "create_with p b d = (case ed_nodes d p of
      None \<Rightarrow> put_node p (Regular b 384 (ed_time d)) d
    | Some (Regular _ mode _) \<Rightarrow> put_node p (Regular b mode (ed_time d)) d
    | _ \<Rightarrow> d)"

definition write_whole_file :: "string \<Rightarrow> string \<Rightarrow> unit disk_call" where
  "write_whole_file p b = sys_call (\<lambda>n d. create_with (resolve_path 40 (ed_nodes d) p) (take n b) d)
    (\<lambda>d. let q = resolve_path 40 (ed_nodes d) p in
      (case ed_nodes d q of Some Directory \<Rightarrow> Inl err_io | Some (Symlink _) \<Rightarrow> Inl err_io | _ \<Rightarrow> Inr (),
       create_with q b d))"

definition stat_mtime :: "string \<Rightarrow> int disk_call" where
  "stat_mtime p = plain_call (\<lambda>d. (case follow 40 (ed_nodes d) p of
      Inr (Regular _ _ t) \<Rightarrow> Inr t | Inr _ \<Rightarrow> Inr 0 | Inl e \<Rightarrow> Inl e, d))"

definition stat_size :: "string \<Rightarrow> nat disk_call" where
  "stat_size p = plain_call (\<lambda>d. (case follow 40 (ed_nodes d) p of
      Inr (Regular b _ _) \<Rightarrow> Inr (length b) | Inr _ \<Rightarrow> Inr 0 | Inl e \<Rightarrow> Inl e, d))"

text \<open>Writing over the start of an open file.\<close>

definition overwrite_at :: "string \<Rightarrow> nat \<Rightarrow> string \<Rightarrow> edit_disk \<Rightarrow> edit_disk" where
  "overwrite_at p off b d = (case ed_nodes d p of
      Some (Regular old mode _) \<Rightarrow>
        put_node p (Regular (take off old @ b @ drop (off + length b) old) mode (ed_time d)) d
    | _ \<Rightarrow> d)"

definition wipe_chunk :: nat where "wipe_chunk = 4096"

function wipe_loop :: "string \<Rightarrow> nat \<Rightarrow> nat \<Rightarrow> unit disk_call" where
  "wipe_loop p amount written =
    (if amount \<le> written then go_return ()
     else let zeros = replicate (min wipe_chunk (amount - written)) CHR 0x00 in
       go_bind (sys_call (\<lambda>n. overwrite_at p written (take n zeros)) (\<lambda>d. (Inr (), overwrite_at p written zeros d)))
         (\<lambda>_. wipe_loop p amount (written + length zeros)))"
  by pat_completeness auto

termination
  by (relation "measure (\<lambda>(p, amount, written). amount - written)") (auto simp: wipe_chunk_def)

declare wipe_loop.simps [simp del]

text \<open>Only the temporary file is opened this way, which no event makes a link.\<close>

definition open_for_writing :: "string \<Rightarrow> unit disk_call" where
  "open_for_writing p = plain_call (\<lambda>d. (case ed_nodes d p of
      Some (Regular _ _ _) \<Rightarrow> Inr () | _ \<Rightarrow> Inl err_io, d))"

definition wipe_file :: "string \<Rightarrow> unit disk_call" where
  "wipe_file p =
    (if p = [] then go_return ()
     else go_bind (stat_size p) (\<lambda>amount.
          go_bind (open_for_writing p) (\<lambda>_.
          go_bind (wipe_loop p amount 0) (\<lambda>_. plain_call (go_return ())))))"

definition remove_all :: "string \<Rightarrow> unit disk_call" where
  "remove_all dir = plain_call (\<lambda>d. (Inr (),
     d\<lparr>ed_nodes := (\<lambda>p. if p = dir \<or> has_prefix p (dir @ ''/'') then None else ed_nodes d p)\<rparr>))"

section \<open>A session\<close>

record edit_session =
  es_file :: encrypted_file
  es_temp_path :: string
  es_saved_hash :: string
  es_temp_mtime :: int
  es_saved :: bool
  es_save_count :: nat

definition temp_file_touched :: "edit_session \<Rightarrow> edit_disk \<Rightarrow> bool \<times> edit_disk" where
  "temp_file_touched s d = (case stat_mtime (es_temp_path s) d of
      (Inl _, d1) \<Rightarrow> (False, d1)
    | (Inr t, d1) \<Rightarrow> (t \<noteq> es_temp_mtime s, d1))"

definition unchanged :: "string \<Rightarrow> edit_session \<Rightarrow> edit_disk \<Rightarrow> bool \<times> edit_disk" where
  "unchanged hash s d =
    (if hash \<noteq> es_saved_hash s then (False, d)
     else if es_saved s then (True, d)
     else case temp_file_touched s d of (touched, d1) \<Rightarrow> (\<not> touched, d1))"

definition save_if_changed ::
  "edit_lib \<Rightarrow> edit_session \<Rightarrow> edit_disk \<Rightarrow> (unit go_result \<times> edit_session) \<times> edit_disk" where
  "save_if_changed lib s d = (case read_file (es_temp_path s) d of
      (Inl e, d1) \<Rightarrow> if e = err_not_exist then ((Inr (), s), d1) else ((Inl e, s), d1)
    | (Inr plaintext, d1) \<Rightarrow>
        let hash = el_sha256 lib plaintext in
        (case unchanged hash s d1 of
           (True, d2) \<Rightarrow> ((Inr (), s), d2)
         | (False, d2) \<Rightarrow> (case save_file lib (es_file s) plaintext d2 of
              (Inl e, d3) \<Rightarrow> ((Inl e, s), d3)
            | (Inr _, d3) \<Rightarrow>
                ((Inr (), s\<lparr>es_saved_hash := hash, es_saved := True, es_save_count := Suc (es_save_count s)\<rparr>), d3))))"

datatype editor_event = Editor_Writes string int | Editor_Removes | Poll_Tick | Interrupted

fun editor_step :: "edit_lib \<Rightarrow> editor_event \<Rightarrow> edit_session \<times> edit_disk \<Rightarrow> edit_session \<times> edit_disk" where
  "editor_step lib (Editor_Writes b t) (s, d) =
     (s, put_node (es_temp_path s) (Regular b 384 t) (d\<lparr>ed_time := t\<rparr>))"
| "editor_step lib Editor_Removes (s, d) = (s, d\<lparr>ed_nodes := (ed_nodes d)(es_temp_path s := None)\<rparr>)"
| "editor_step lib Poll_Tick (s, d) = (case save_if_changed lib s d of ((_, s1), d1) \<Rightarrow> (s1, d1))"
| "editor_step lib Interrupted (s, d) = (s, d)"

text \<open>After the editor has exited: the last save, then the editor's own error.\<close>

definition finish_session ::
  "edit_lib \<Rightarrow> bool \<Rightarrow> edit_session \<times> edit_disk \<Rightarrow> unit go_result \<times> edit_disk" where
  "finish_session lib editor_ok sd = (case sd of (s, d) \<Rightarrow> (case save_if_changed lib s d of
      ((Inl e, _), d1) \<Rightarrow> (Inl e, d1)
    | ((Inr _, _), d1) \<Rightarrow> (if \<not> editor_ok then Inl (Err_Msg ''the editor exited with an error'') else Inr (), d1)))"

text \<open>What the user's editor does: whether it starts, its events, whether it exits without error.\<close>

record editor_run =
  eu_starts :: bool
  eu_events :: "editor_event list"
  eu_exits_ok :: bool

definition edit_in_dir ::
  "edit_lib \<Rightarrow> editor_run \<Rightarrow> encrypted_file \<Rightarrow> string \<Rightarrow> string \<Rightarrow> unit disk_call" where
  "edit_in_dir lib ed f plaintext temp =
    go_bind (write_whole_file temp plaintext) (\<lambda>_.
    go_bind (stat_mtime temp) (\<lambda>t.
      if \<not> eu_starts ed then go_fail (Err_Msg ''failed to launch the editor'')
      else (\<lambda>d. finish_session lib (eu_exits_ok ed)
        (fold (editor_step lib) (eu_events ed)
          (\<lparr>es_file = f, es_temp_path = temp, es_saved_hash = el_sha256 lib plaintext,
            es_temp_mtime = t, es_saved = False, es_save_count = 0\<rparr>, d)))))"

definition run_session ::
  "edit_lib \<Rightarrow> string \<Rightarrow> string \<Rightarrow> editor_run \<Rightarrow> encrypted_file \<Rightarrow> string \<Rightarrow> unit disk_call" where
  "run_session lib xdg default_dir ed f plaintext =
    go_bind (new_private_temp_dir xdg default_dir) (\<lambda>dir.
      let temp = path_join [dir, editor_file_name (ef_path f)] in
      deferred (remove_all dir) (deferred (wipe_file temp)
        (edit_in_dir lib ed f plaintext temp)))"

section \<open>The commands\<close>

record common_flags =
  fl_server :: string
  fl_request_key :: string
  fl_key_label :: string
  fl_algorithm :: string
  fl_timeout :: int
  fl_note :: string
  fl_insecure :: bool
  fl_trust_store_path :: string
  fl_no_trust_store :: bool
  fl_yes_i_know :: bool

text \<open>The environment and the terminal: what the user answers to a prompt, if it can be read.\<close>

record edit_env =
  ev_server :: string
  ev_request_key :: string
  ev_key_label :: string
  ev_visual :: string
  ev_editor :: string
  ev_xdg_runtime_dir :: string
  ev_temp_dir :: string
  ev_interactive :: bool
  ev_answer :: "string option"

definition confirm_no_mitm_protection :: "bool \<Rightarrow> bool \<Rightarrow> bool \<Rightarrow> bool \<Rightarrow> string option \<Rightarrow> unit go_result" where
  "confirm_no_mitm_protection insecure no_trust_store yes interactive answer =
    (if \<not> insecure \<or> \<not> no_trust_store then Inr ()
     else if yes then Inr ()
     else if \<not> interactive then Inl (Err_Msg ''refusing to combine --insecure with --no-trust-store'')
     else case answer of
       None \<Rightarrow> Inl (Err_Msg ''read answer'')
     | Some line \<Rightarrow> if go_to_lower (trim_space line) \<noteq> ''yes''
         then Inl (Err_Msg ''refusing to continue without MITM protection'') else Inr ())"

definition anchor_prompt :: "string option \<Rightarrow> bool go_result" where
  "anchor_prompt answer = (case answer of
      None \<Rightarrow> Inl (Err_Msg ''read answer'')
    | Some line \<Rightarrow> (let l = go_to_lower (trim_space line) in Inr (l = ''y'' \<or> l = ''yes'')))"

definition terminal_anchor_confirmer :: "edit_env \<Rightarrow> confirm_anchor" where
  "terminal_anchor_confirmer env =
    (if \<not> ev_interactive env then None else Some (\<lambda>_ _ _. anchor_prompt (ev_answer env)))"

definition or_else :: "string \<Rightarrow> string \<Rightarrow> string" where
  "or_else s t = (if s = [] then t else s)"

definition trim_suffix :: "string \<Rightarrow> string \<Rightarrow> string" where
  "trim_suffix s t = (if has_suffix s t then take (length s - length t) s else s)"

definition validate_flags :: "edit_env \<Rightarrow> common_flags \<Rightarrow> common_flags go_result" where
  "validate_flags env f =
    (let f1 = f\<lparr>fl_server := trim_suffix (or_else (fl_server f) (ev_server env)) ''/'',
                fl_request_key := or_else (fl_request_key f) (ev_request_key env),
                fl_key_label := or_else (fl_key_label f) (ev_key_label env)\<rparr> in
     if fl_server f1 = [] then Inl (Err_Msg ''--server is required'')
     else if fl_request_key f1 = [] then Inl (Err_Msg ''--request-key is required'')
     else case confirm_no_mitm_protection (fl_insecure f1) (fl_no_trust_store f1) (fl_yes_i_know f1)
         (ev_interactive env) (ev_answer env) of
       Inl e \<Rightarrow> Inl e | Inr _ \<Rightarrow> Inr f1)"

definition flags_client ::
  "('ek, 'mk) go_lib \<Rightarrow> string \<Rightarrow> edit_env \<Rightarrow> common_flags \<Rightarrow> go_client go_result" where
  "flags_client lib app_version env f = go_new lib app_version
    \<lparr>go_server = fl_server f, go_request_key = fl_request_key f, go_has_http_client = False,
     go_user_agent = ''RevaulterEdit/'' @ app_version, go_trust_store_path = fl_trust_store_path f,
     go_no_trust_store = fl_no_trust_store f, go_confirm_anchor = terminal_anchor_confirmer env,
     go_timeout = fl_timeout f, go_note = []\<rparr>"

definition file_arg :: "string list \<Rightarrow> string go_result" where
  "file_arg args = (case args of
      [a] \<Rightarrow> if a = [] then Inl (Err_Msg ''the path of the file cannot be empty'') else Inr a
    | [] \<Rightarrow> Inl (Err_Msg ''the path of a file is required'')
    | _ \<Rightarrow> Inl (Err_Msg ''expected a single file path''))"

text \<open>The program's libraries and the values it is started with.\<close>

record ('ek, 'mk) edit_tool =
  et_lib :: edit_lib
  et_go :: "('ek, 'mk) go_lib"
  et_version :: string
  et_env :: edit_env
  et_flags :: common_flags

definition open_for_command ::
  "('ek, 'mk) edit_tool \<Rightarrow> context_deadline \<Rightarrow> string list \<Rightarrow> bool \<Rightarrow> edit_disk \<Rightarrow> 'z client_world_scheme
     \<Rightarrow> 'z client_world_scheme opened" where
  "open_for_command tool ctx args create d w =
    (case file_arg args of Inl e \<Rightarrow> Some (Inl e, d, w) | Inr path \<Rightarrow>
    (case validate_flags (et_env tool) (et_flags tool) of Inl e \<Rightarrow> Some (Inl e, d, w) | Inr f \<Rightarrow>
    (case flags_client (et_go tool) (et_version tool) (et_env tool) f of Inl e \<Rightarrow> Some (Inl e, d, w) | Inr c \<Rightarrow>
     open_file (et_lib tool) (revaulter_key_wrapper (et_go tool) c ctx)
       \<lparr>oo_path = path, oo_server = fl_server f, oo_key_label = fl_key_label f, oo_algorithm = fl_algorithm f,
        oo_note = request_note (fl_note f) path, oo_create = create\<rparr> d w)))"

text \<open>Each command gives its result, what it writes to the standard output, and both states.\<close>

definition run_cat ::
  "('ek, 'mk) edit_tool \<Rightarrow> context_deadline \<Rightarrow> string list \<Rightarrow> edit_disk \<Rightarrow> 'z client_world_scheme
     \<Rightarrow> (string go_result \<times> edit_disk \<times> 'z client_world_scheme) option" where
  "run_cat tool ctx args d w = (case open_for_command tool ctx args False d w of
      None \<Rightarrow> None
    | Some (Inl e, d1, w1) \<Rightarrow> Some (Inl e, d1, w1)
    | Some (Inr (f, p), d1, w1) \<Rightarrow> Some (Inr p, d1, w1))"

definition run_write ::
  "('ek, 'mk) edit_tool \<Rightarrow> context_deadline \<Rightarrow> string list \<Rightarrow> bool \<Rightarrow> string option \<Rightarrow> edit_disk \<Rightarrow> 'z client_world_scheme
     \<Rightarrow> (unit go_result \<times> edit_disk \<times> 'z client_world_scheme) option" where
  "run_write tool ctx args allow_empty stdin d w =
    (case file_arg args of Inl e \<Rightarrow> Some (Inl e, d, w) | Inr _ \<Rightarrow>
    (case stdin of None \<Rightarrow> Some (Inl (Err_Msg ''failed to read the contents from stdin''), d, w) | Some plaintext \<Rightarrow>
     if plaintext = [] \<and> \<not> allow_empty then Some (Inl (Err_Msg ''refusing to write empty contents''), d, w)
     else (case open_for_command tool ctx args True d w of
        None \<Rightarrow> None
      | Some (Inl e, d1, w1) \<Rightarrow> Some (Inl e, d1, w1)
      | Some (Inr (f, _), d1, w1) \<Rightarrow> (case save_file (et_lib tool) f plaintext d1 of (r, d2) \<Rightarrow> Some (r, d2, w1)))))"

definition run_edit ::
  "('ek, 'mk) edit_tool \<Rightarrow> context_deadline \<Rightarrow> string list \<Rightarrow> string \<Rightarrow> editor_run \<Rightarrow> edit_disk \<Rightarrow> 'z client_world_scheme
     \<Rightarrow> (unit go_result \<times> edit_disk \<times> 'z client_world_scheme) option" where
  "run_edit tool ctx args editor_flag ed d w =
    (case file_arg args of Inl e \<Rightarrow> Some (Inl e, d, w) | Inr _ \<Rightarrow>
    (case resolve_editor editor_flag (ev_visual (et_env tool)) (ev_editor (et_env tool)) of
       Inl e \<Rightarrow> Some (Inl e, d, w) | Inr _ \<Rightarrow>
    (case open_for_command tool ctx args True d w of
        None \<Rightarrow> None
      | Some (Inl e, d1, w1) \<Rightarrow> Some (Inl e, d1, w1)
      | Some (Inr (f, p), d1, w1) \<Rightarrow>
          (case run_session (et_lib tool) (ev_xdg_runtime_dir (et_env tool)) (ev_temp_dir (et_env tool)) ed f p d1 of
             (r, d2) \<Rightarrow> Some (r, d2, w1)))))"

section \<open>The paused log\<close>

record pausable_writer =
  pw_out :: string
  pw_buf :: string
  pw_paused :: bool

definition pw_write :: "string \<Rightarrow> pausable_writer \<Rightarrow> pausable_writer" where
  "pw_write p w = (if pw_paused w then w\<lparr>pw_buf := pw_buf w @ p\<rparr> else w\<lparr>pw_out := pw_out w @ p\<rparr>)"

definition pw_pause :: "pausable_writer \<Rightarrow> pausable_writer" where
  "pw_pause w = w\<lparr>pw_paused := True\<rparr>"

definition pw_resume :: "pausable_writer \<Rightarrow> pausable_writer" where
  "pw_resume w = w\<lparr>pw_paused := False, pw_out := pw_out w @ pw_buf w, pw_buf := []\<rparr>"

end
