(* ===== verification/Edit_Disk.thy ===== *)
theory Edit_Disk
  imports Edit_Session
begin

text \<open>
  How the calls of revaulter-edit change the disk: each stays within its own paths, the
  atomic write replaces its file or leaves it as it was, wiping leaves zeros.
\<close>

section \<open>What a call changes\<close>

text \<open>The disk is as \<open>n0\<close> outside the paths of \<open>A\<close>; when \<open>b\<close> holds, no call will fail.\<close>

definition elsewhere :: "bool \<Rightarrow> (nat \<Rightarrow> string) \<Rightarrow> (string \<rightharpoonup> fs_node) \<Rightarrow> string set \<Rightarrow> edit_disk \<Rightarrow> bool" where
  "elsewhere b names n0 A d \<longleftrightarrow>
     ed_names d = names \<and> (b \<longrightarrow> ed_faults d = []) \<and> (\<forall>q. q \<notin> A \<longrightarrow> ed_nodes d q = n0 q)"

lemma elsewhere_start: "elsewhere (ed_faults d = []) (ed_names d) (ed_nodes d) A d"
  by (simp add: elsewhere_def)

lemma elsewhere_mono: "elsewhere b names n0 A d \<Longrightarrow> A \<subseteq> B \<Longrightarrow> elsewhere b names n0 B d"
  by (auto simp: elsewhere_def)

lemma keeps_sys_call:
  assumes "keeps (elsewhere b names n0 A) m" and "\<And>n d. elsewhere b names n0 A d \<Longrightarrow> elsewhere b names n0 A (part n d)"
  shows "keeps (elsewhere b names n0 A) (sys_call part m)"
proof (rule keepsI)
  fix d assume I: "elsewhere b names n0 A d"
  have pop: "elsewhere b names n0 A (d\<lparr>ed_faults := fs\<rparr>)" if "ed_faults d = f # fs" for f fs
    using I that by (simp add: elsewhere_def)
  show "elsewhere b names n0 A (snd (sys_call part m d))"
    using keepsD [OF assms(1) I] keepsD [OF assms(1)] pop assms(2)
    by (auto simp: sys_call_def split: list.splits option.splits)
qed

lemma keeps_plain_call [keeps_intros]:
  "(\<And>d. elsewhere b names n0 A d \<Longrightarrow> elsewhere b names n0 A (snd (m d))) \<Longrightarrow> keeps (elsewhere b names n0 A) (plain_call m)"
  by (rule keeps_sys_call) (simp_all add: keeps_def)

lemma elsewhere_put: "elsewhere b names n0 A d \<Longrightarrow> p \<in> A \<Longrightarrow> elsewhere b names n0 A (put_node p nd d)"
  by (auto simp: elsewhere_def put_node_def)

lemma elsewhere_cases [simp]:
  "elsewhere b names n0 A (d\<lparr>ed_drawn := k\<rparr>) = elsewhere b names n0 A d"
  "elsewhere b names n0 A (d\<lparr>ed_named := k\<rparr>) = elsewhere b names n0 A d"
  "elsewhere b names n0 A (d\<lparr>ed_time := t\<rparr>) = elsewhere b names n0 A d"
  by (simp_all add: elsewhere_def)

lemma elsewhere_set_data: "elsewhere b names n0 A d \<Longrightarrow> p \<in> A \<Longrightarrow> elsewhere b names n0 A (set_data p x d)"
  by (auto simp: set_data_def elsewhere_put split: option.splits fs_node.splits)

lemma keeps_reading [keeps_intros]:
  "keeps (elsewhere b names n0 A) (read_file p)" "keeps (elsewhere b names n0 A) (lstat p)"
  "keeps (elsewhere b names n0 A) (stat_mtime p)" "keeps (elsewhere b names n0 A) (stat_size p)"
  "keeps (elsewhere b names n0 A) (open_for_writing p)" "keeps (elsewhere b names n0 A) (random_bytes k)"
  unfolding read_file_def lstat_def stat_mtime_def stat_size_def open_for_writing_def random_bytes_def
  by (intro keeps_plain_call; simp)+

lemma keeps_writing [keeps_intros]:
  assumes "p \<in> A"
  shows "keeps (elsewhere b names n0 A) (remove_file p)" "keeps (elsewhere b names n0 A) (chmod_file p m)"
    "keeps (elsewhere b names n0 A) (write_open_file p x)"
proof -
  show "keeps (elsewhere b names n0 A) (remove_file p)"
    unfolding remove_file_def by (rule keeps_plain_call) (use assms in \<open>auto simp: elsewhere_def\<close>)
  show "keeps (elsewhere b names n0 A) (chmod_file p m)"
    unfolding chmod_file_def
    by (rule keeps_plain_call) (use assms in \<open>auto simp: elsewhere_put split: option.splits fs_node.splits\<close>)
  show "keeps (elsewhere b names n0 A) (write_open_file p x)"
    unfolding write_open_file_def by (rule keeps_sys_call) (use assms in \<open>auto simp: keeps_def elsewhere_set_data\<close>)
qed

lemma keeps_rename [keeps_intros]:
  "p \<in> A \<Longrightarrow> q \<in> A \<Longrightarrow> keeps (elsewhere b names n0 A) (rename_node p q)"
  unfolding rename_node_def by (rule keeps_plain_call) (auto simp: elsewhere_def split: option.splits if_splits)

lemma keeps_deferred [keeps_intros]: "keeps I c \<Longrightarrow> keeps I m \<Longrightarrow> keeps I (deferred c m)"
  by (fastforce simp: keeps_def deferred_def split: prod.splits)

lemma keeps_wipe_loop [keeps_intros]: "p \<in> A \<Longrightarrow> keeps (elsewhere b names n0 A) (wipe_loop p n k)"
proof (induction p n k rule: wipe_loop.induct)
  case (1 p amount written)
  have "elsewhere b names n0 A (overwrite_at p off x d)" if "elsewhere b names n0 A d" for off x d
    using that 1(2) by (auto simp: overwrite_at_def elsewhere_put split: option.splits fs_node.splits)
  then have step: "keeps (elsewhere b names n0 A) (sys_call (\<lambda>n. overwrite_at p off (y n)) (\<lambda>d. (Inr (), overwrite_at p off x d)))"
    for off x y by (intro keeps_sys_call) (simp_all add: keeps_def)
  show ?case
  proof (cases "amount \<le> written")
    case True
    show ?thesis by (subst wipe_loop.simps) (simp only: True if_True keeps_return)
  next
    case False
    show ?thesis
      by (subst wipe_loop.simps) (simp only: False if_False Let_def, rule keeps_bind [OF step 1(1) [OF False refl 1(2)]])
  qed
qed

lemma keeps_wipe_file [keeps_intros]: "p \<in> A \<Longrightarrow> keeps (elsewhere b names n0 A) (wipe_file p)"
  unfolding wipe_file_def
  by (intro keeps_if keeps_return keeps_bind keeps_reading keeps_wipe_loop keeps_plain_call) simp_all

section \<open>The atomic write\<close>

definition temp_body :: "string \<Rightarrow> string \<Rightarrow> string \<Rightarrow> unit disk_call" where
  "temp_body path tmp data =
     go_bind (chmod_file tmp 384) (\<lambda>_.
     go_bind (write_open_file tmp data) (\<lambda>_.
     go_bind (plain_call (go_return ())) (\<lambda>_.
     go_bind (plain_call (go_return ())) (\<lambda>_. rename_node tmp path))))"

lemma sys_call_ok:
  assumes "sys_call part m d = (Inr x, d')"
  obtains fs where "m (d\<lparr>ed_faults := fs\<rparr>) = (Inr x, d')"
proof (cases "ed_faults d")
  case Nil
  then have same: "d\<lparr>ed_faults := []\<rparr> = d" by (cases d) simp
  from Nil assms have "m d = (Inr x, d')" by (simp add: sys_call_def)
  then show ?thesis by (rule that [of "[]", unfolded same])
next
  case (Cons f fs)
  with assms that show ?thesis by (cases f) (auto simp: sys_call_def)
qed

lemma temp_body_ok:
  assumes "temp_body path tmp data d = (Inr (), d')" and "tmp \<noteq> path"
  shows "\<exists>t. ed_nodes d' = (ed_nodes d)(tmp := None, path \<mapsto> Regular data 384 t)"
proof -
  from assms(1) obtain d1 d2 d3 d4 where c: "chmod_file tmp 384 d = (Inr (), d1)"
    and w: "write_open_file tmp data d1 = (Inr (), d2)" and s: "plain_call (go_return ()) d2 = (Inr (), d3)"
    and e: "plain_call (go_return ()) d3 = (Inr (), d4)" and r: "rename_node tmp path d4 = (Inr (), d')"
    unfolding temp_body_def by (auto elim!: go_bind_okE)
  from c obtain x m t where d1: "ed_nodes d1 = (ed_nodes d)(tmp \<mapsto> Regular x 384 t)"
    unfolding chmod_file_def by (auto elim!: sys_call_ok simp: put_node_def split: option.splits fs_node.splits)
  from w obtain fs where "d2 = set_data tmp data (d1\<lparr>ed_faults := fs\<rparr>)"
    unfolding write_open_file_def by (auto elim!: sys_call_ok)
  then have d2: "ed_nodes d2 = (ed_nodes d)(tmp \<mapsto> Regular data 384 (ed_time d1))"
    by (simp add: set_data_def put_node_def d1)
  from s e have d4: "ed_nodes d4 = ed_nodes d2" by (auto elim!: sys_call_ok)
  from r have "ed_nodes d' = (ed_nodes d)(tmp := None, path \<mapsto> Regular data 384 (ed_time d1))"
    unfolding rename_node_def using assms(2)
    by (auto elim!: sys_call_ok simp: d4 d2 split: option.splits if_splits)
  then show ?thesis by blast
qed

lemma keeps_temp_body:
  "tmp \<in> A \<Longrightarrow> path \<in> A \<Longrightarrow> keeps (elsewhere b names n0 A) (temp_body path tmp data)"
  unfolding temp_body_def by (intro keeps_bind keeps_writing keeps_rename keeps_plain_call) simp_all

lemma rename_node_error: "rename_node p q d = (Inl e, d') \<Longrightarrow> ed_nodes d' = ed_nodes d"
  by (auto simp: rename_node_def sys_call_def split: list.splits option.splits if_splits)

lemma temp_body_error:
  assumes "temp_body path tmp data d = (Inl e, d')" and q: "q \<noteq> tmp"
  shows "ed_nodes d' q = ed_nodes d q"
proof -
  let ?I = "\<lambda>d0. elsewhere False (ed_names d) (ed_nodes d) {tmp} d0"
  let ?pre = "go_bind (chmod_file tmp 384) (\<lambda>_. go_bind (write_open_file tmp data) (\<lambda>_.
     go_bind (plain_call (go_return ())) (\<lambda>_. plain_call (go_return ()))))"
  have body: "temp_body path tmp data d = go_bind ?pre (\<lambda>_. rename_node tmp path) d"
    by (simp add: temp_body_def go_bind_def split: prod.splits sum.splits)
  have k: "keeps ?I ?pre" by (intro keeps_bind keeps_writing keeps_plain_call) simp_all
  have start: "?I d" by (simp add: elsewhere_def)
  have "?I d'"
  proof (cases rule: go_bind_cases [of ?pre d "\<lambda>_. rename_node tmp path"])
    case (err e1 d1)
    with assms(1) keeps_stepD [OF k start err(1)] show ?thesis by (simp add: body)
  next
    case (ok x d1)
    with assms(1) have r: "rename_node tmp path d1 = (Inl e, d')" by (simp add: body)
    have n: "ed_names d' = ed_names d1"
      using r by (auto simp: rename_node_def sys_call_def split: list.splits option.splits if_splits)
    from keeps_stepD [OF k start ok(1)] rename_node_error [OF r] n show ?thesis by (simp add: elsewhere_def)
  qed
  with q show ?thesis by (simp add: elsewhere_def)
qed

section \<open>Names of temporary files\<close>

text \<open>The names \<open>os.CreateTemp\<close> and \<open>os.MkdirTemp\<close> make up have no separator.\<close>

definition names_ok :: "(nat \<Rightarrow> string) \<Rightarrow> bool" where
  "names_ok names \<longleftrightarrow> (\<forall>n. CHR ''/'' \<notin> set (names n))"

lemma split_on_last_part:
  assumes "c \<notin> set w" shows "\<exists>vs. split_on c (u @ c # w) = vs @ [w] \<and> vs \<noteq> []"
proof (induction u)
  case Nil
  then show ?case using assms by (simp add: split_on_no_sep)
next
  case (Cons a u)
  then obtain v vs where vs: "split_on c (u @ c # w) = (v # vs) @ [w]" by (auto simp: neq_Nil_conv)
  then show ?case
    by (cases "a = c") (auto intro!: exI [of _ "(a # v) # vs"] exI [of _ "[] # v # vs"])
qed

lemma last_element_in_dir:
  "CHR ''/'' \<notin> set w \<Longrightarrow> last_element (in_dir dir w) = w"
  using split_on_last_part [of "CHR ''/''" w dir] split_on_last_part [of "CHR ''/''" w "butlast dir"]
  by (auto simp: last_element_def in_dir_def has_suffix_iff)

lemma split_on_length: "w \<in> set (split_on c s) \<Longrightarrow> length w \<le> length s"
proof (induction s arbitrary: w)
  case (Cons a s)
  obtain v vs where "split_on c s = v # vs" by (cases "split_on c s") auto
  with Cons show ?case by (fastforce split: if_splits)
qed simp

lemma last_element_base: "length (last_element p) \<le> length (file_base p)"
proof (cases "p = [] \<or> strip_slashes p = []")
  case True
  then show ?thesis
  proof
    assume s: "strip_slashes p = []"
    then have "\<forall>c\<in>set p. c = CHR ''/''" by (simp add: strip_slashes_def dropWhile_eq_Nil_conv)
    then have p: "replicate (length p) CHR ''/'' = p" by (rule replicate_length_same)
    have "last_element (replicate n CHR ''/'') = []" for n
      by (induction n) (auto simp: last_element_def)
    from this [of "length p"] show ?thesis by (simp add: p)
  qed (simp add: last_element_def)
next
  case False
  show ?thesis
  proof (cases "List.last p = CHR ''/''")
    case True
    with False have "p = butlast p @ CHR ''/'' # []" by (metis append_butlast_last_id)
    then have "last_element p = []"
      using split_on_last_part [of "CHR ''/''" "[]" "butlast p"] by (auto simp: last_element_def)
    then show ?thesis by simp
  next
    case nosep: False
    with False have "strip_slashes p = p"
      unfolding strip_slashes_def by (cases p rule: rev_cases) auto
    with False show ?thesis by (simp add: file_base_def)
  qed
qed

lemma temp_name_differs:
  assumes "CHR ''/'' \<notin> set (file_base path)" and "CHR ''/'' \<notin> set x"
  shows "in_dir dir ((''.'' @ file_base path @ ''.'') @ x) \<noteq> path"
proof
  assume eq: "in_dir dir ((''.'' @ file_base path @ ''.'') @ x) = path"
  from assms have "CHR ''/'' \<notin> set ((''.'' @ file_base path @ ''.'') @ x)" by auto
  from last_element_in_dir [OF this, of dir, unfolded eq] last_element_base [of path]
  show False by simp
qed

section \<open>The outcomes of the atomic write\<close>

lemma create_temp_file_ok:
  assumes "create_temp_file dir pre d = (Inr tmp, d')"
  shows "tmp = in_dir dir (pre @ ed_names d (ed_named d))" "CHR ''/'' \<notin> set pre" "ed_nodes d tmp = None"
    "ed_nodes d' = (ed_nodes d)(tmp \<mapsto> Regular [] 384 (ed_time d))" "ed_names d' = ed_names d"
    "ed_faults d = [] \<Longrightarrow> ed_faults d' = []"
  using assms unfolding create_temp_file_def
  by (auto simp: sys_call_def Let_def put_node_def split: list.splits option.splits if_splits)

lemma create_temp_file_error:
  "create_temp_file dir pre d = (Inl e, d') \<Longrightarrow> ed_nodes d' = ed_nodes d"
  "create_temp_file dir pre d = (r, d') \<Longrightarrow> ed_names d' = ed_names d"
  "create_temp_file dir pre d = (r, d') \<Longrightarrow> ed_faults d = [] \<Longrightarrow> ed_faults d' = []"
  unfolding create_temp_file_def
  by (auto simp: sys_call_def Let_def put_node_def split: list.splits option.splits if_splits)

lemma reading_same:
  "read_file p d = (r, d') \<Longrightarrow> ed_nodes d' = ed_nodes d \<and> ed_names d' = ed_names d \<and> (ed_faults d = [] \<longrightarrow> ed_faults d' = [])"
  "lstat p d = (r1, d') \<Longrightarrow> ed_nodes d' = ed_nodes d \<and> ed_names d' = ed_names d \<and> (ed_faults d = [] \<longrightarrow> ed_faults d' = [])"
  "stat_mtime p d = (r2, d') \<Longrightarrow> ed_nodes d' = ed_nodes d \<and> ed_names d' = ed_names d \<and> (ed_faults d = [] \<longrightarrow> ed_faults d' = [])"
  by (auto simp: read_file_def lstat_def stat_mtime_def sys_call_def split: list.splits option.splits)

lemma remove_file_cases:
  assumes "remove_file p d = (r, d')"
  shows "ed_nodes d' = ed_nodes d \<and> ed_faults d \<noteq> [] \<or> ed_nodes d' = (ed_nodes d)(p := None)"
    "ed_names d' = ed_names d" "ed_faults d = [] \<Longrightarrow> ed_faults d' = []"
  using assms by (auto simp: remove_file_def sys_call_def split: list.splits option.splits)

lemma write_file_atomic_cases:
  assumes "write_file_atomic path data d = (r, d')" and names: "names_ok (ed_names d)"
  shows "ed_names d' = ed_names d \<and> (ed_faults d = [] \<longrightarrow> ed_faults d' = []) \<and>
    (\<forall>q. q \<noteq> path \<and> (ed_nodes d q \<noteq> None \<or> ed_faults d = []) \<longrightarrow> ed_nodes d' q = ed_nodes d q) \<and>
    (case r of Inr _ \<Rightarrow> \<exists>t. ed_nodes d' path = Some (Regular data 384 t) | Inl _ \<Rightarrow> ed_nodes d' path = ed_nodes d path)"
proof -
  let ?pre = "''.'' @ file_base path @ ''.''"
  obtain st d1 where l: "lstat path d = (st, d1)" by fastforce
  note d1 = reading_same(2) [OF l]
  show ?thesis
  proof (cases "is_symlink st")
    case True
    with assms(1) l have "r = Inl (Err_Msg ''refusing to write through symlink'') \<and> d' = d1"
      by (auto simp: write_file_atomic_def go_bind_def go_try_def)
    with d1 show ?thesis by simp
  next
    case False
    obtain c d2 where c: "create_temp_file (file_dir path) ?pre d1 = (c, d2)" by fastforce
    show ?thesis
    proof (cases c)
      case (Inl e)
      with assms(1) l False c have "r = Inl e \<and> d' = d2" by (simp add: write_file_atomic_def go_bind_def go_try_def)
      moreover note e = create_temp_file_error(1) [OF c [unfolded Inl]] create_temp_file_error(2,3) [OF c]
      ultimately show ?thesis using d1 by simp
    next
      case (Inr tmp)
      note cr = create_temp_file_ok [OF c [unfolded Inr]]
      have base: "CHR ''/'' \<notin> set (file_base path)" using cr(2) by simp
      have rnd: "CHR ''/'' \<notin> set (ed_names d1 (ed_named d1))" using names d1 by (simp add: names_ok_def)
      have ne: "tmp \<noteq> path"
        using temp_name_differs [OF base rnd, of "file_dir path"] unfolding cr(1) by simp
      obtain b d3 where b: "temp_body path tmp data d2 = (b, d3)" by fastforce
      have "write_file_atomic path data d = deferred (remove_file tmp) (temp_body path tmp data) d2"
        using l False c Inr by (simp add: write_file_atomic_def temp_body_def go_bind_def [of "go_try _"]
          go_bind_def [of "create_temp_file _ _"] go_try_def)
      with assms(1) b have r: "r = b" and "d' = snd (remove_file tmp d3)" by (simp_all add: deferred_def)
      then obtain u where u: "remove_file tmp d3 = (u, d')" by (metis prod.collapse)
      have k: "elsewhere (ed_faults d2 = []) (ed_names d2) (ed_nodes d2) {tmp, path} d3"
        by (rule keeps_stepD [OF keeps_temp_body elsewhere_start b]) simp_all
      have fresh: "ed_nodes d tmp = None" using cr(3) d1 by simp
      have n2: "ed_nodes d2 q = ed_nodes d q" if "q \<noteq> tmp" for q using cr(4) d1 that by simp
      note rm = remove_file_cases [OF u]
      have off: "ed_nodes d' q = ed_nodes d3 q" if "q \<noteq> tmp" for q using rm(1) that by auto
      have tmp: "ed_nodes d' tmp = None" if "ed_faults d = []"
        using rm(1) k d1 cr(6) that by (auto simp: elsewhere_def)
      have 1: "ed_names d' = ed_names d \<and> (ed_faults d = [] \<longrightarrow> ed_faults d' = [])"
        using rm(2,3) k cr(5,6) d1 by (auto simp: elsewhere_def)
      have 2: "ed_nodes d' q = ed_nodes d q" if "q \<noteq> path" "ed_nodes d q \<noteq> None \<or> ed_faults d = []" for q
      proof (cases "q = tmp")
        case True
        with that(2) fresh tmp show ?thesis by auto
      next
        case False
        with that(1) k n2 [OF False] off [OF False] show ?thesis by (simp add: elsewhere_def)
      qed
      have 3: "case r of Inr _ \<Rightarrow> \<exists>t. ed_nodes d' path = Some (Regular data 384 t) | Inl _ \<Rightarrow> ed_nodes d' path = ed_nodes d path"
      proof (cases b)
        case (Inl e)
        from temp_body_error [OF b [unfolded Inl], of path] ne off [of path] n2 [of path] Inl r
        show ?thesis by simp
      next
        case (Inr x)
        with b have "temp_body path tmp data d2 = (Inr (), d3)" by simp
        from temp_body_ok [OF this ne] off [of path] ne r Inr show ?thesis by auto
      qed
      from 1 2 3 show ?thesis by blast
    qed
  qed
qed

section \<open>Wiping\<close>

text \<open>What a wipe leaves of a file after \<open>k\<close> bytes.\<close>

definition wiped :: "string \<Rightarrow> nat \<Rightarrow> string" where
  "wiped x k = replicate (min k (length x)) CHR 0x00 @ drop k x"

lemma wiped_step: "k + n \<le> length x \<Longrightarrow> take k (wiped x k) @ replicate n CHR 0x00 @ drop (k + n) (wiped x k) = wiped x (k + n)"
  by (simp add: wiped_def add.commute replicate_add [symmetric] append_assoc [symmetric] del: append_assoc)

lemma wipe_loop_zeroes:
  assumes "wipe_loop p amount k d = (r, d')" and "ed_faults d = []" and "amount = length x"
    and "ed_nodes d p = Some (Regular (wiped x k) m t)" and "k \<le> amount"
  shows "r = Inr () \<and> (\<exists>t'. ed_nodes d' p = Some (Regular (wiped x amount) m t'))"
  using assms
proof (induction p amount k arbitrary: d t rule: wipe_loop.induct)
  case (1 p amount k)
  show ?case
  proof (cases "amount \<le> k")
    case True
    with 1(2,5,6) show ?thesis by (simp add: wipe_loop.simps [of p amount k])
  next
    case False
    let ?n = "min wipe_chunk (amount - k)" let ?d = "overwrite_at p k (replicate ?n CHR 0x00) d"
    have run: "wipe_loop p amount (k + ?n) ?d = (r, d')"
      using 1(2,3) False by (simp add: wipe_loop.simps [of p amount k] Let_def sys_call_def go_bind_def)
    have node: "ed_nodes ?d p = Some (Regular (wiped x (k + ?n)) m (ed_time d))"
      using 1(4,5) wiped_step [of k ?n x] False by (simp add: overwrite_at_def put_node_def)
    have f: "ed_faults ?d = []" using 1(3,5) by (simp add: overwrite_at_def put_node_def)
    show ?thesis
      by (rule 1(1) [OF False refl, unfolded length_replicate, OF run f 1(4) node]) (use False in simp)
  qed
qed

lemma wipe_file_zeroes:
  assumes "wipe_file p d = (r, d')" and "ed_faults d = []" and "ed_nodes d p = Some (Regular x m t)" and "p \<noteq> []"
  shows "r = Inr () \<and> (\<exists>t'. ed_nodes d' p = Some (Regular (replicate (length x) CHR 0x00) m t'))"
proof -
  obtain r1 d1 where w: "wipe_loop p (length x) 0 d = (r1, d1)" by fastforce
  have "r1 = Inr () \<and> (\<exists>t'. ed_nodes d1 p = Some (Regular (wiped x (length x)) m t'))"
    by (rule wipe_loop_zeroes [OF w assms(2) refl]) (simp_all add: assms(3) wiped_def)
  moreover have "keeps (elsewhere True (ed_names d) (ed_nodes d) {p}) (wipe_loop p (length x) 0)"
    by (rule keeps_wipe_loop) simp
  from keeps_stepD [OF this _ w] assms(2) have "ed_faults d1 = []" by (simp add: elsewhere_def)
  ultimately show ?thesis
    using assms w by (auto simp: wipe_file_def stat_size_def open_for_writing_def sys_call_def go_bind_def wiped_def)
qed

end
