(* ===== verification/Edit_Properties.thy ===== *)
theory Edit_Properties
  imports Edit_Disk
begin

text \<open>
  What revaulter-edit guarantees: a file it saved opens again with its contents, a session
  that ends without an error has saved what the editor wrote last, and the cleartext does
  not outlive the session.
\<close>

section \<open>The text of a file\<close>

text \<open>Printable bytes: no white space of any encoding starts or ends with one of them.\<close>

definition printable :: "char \<Rightarrow> bool" where
  "printable c \<longleftrightarrow> 33 \<le> byte c \<and> byte c \<le> 126"

lemma spaces_ends:
  "list_all (\<lambda>w. w \<noteq> [] \<and> \<not> printable (hd w) \<and> \<not> printable (List.last w)) go_spaces"
  by code_simp

lemma space_prefix_printable:
  assumes "printable c" shows "space_prefix (c # s) = 0"
proof -
  have "List.find (\<lambda>w. prefix w (c # s)) go_spaces = None"
    unfolding find_None_iff
  proof
    assume "\<exists>w. w \<in> set go_spaces \<and> prefix w (c # s)"
    then obtain w where w: "w \<in> set go_spaces" "prefix w (c # s)" by blast
    with spaces_ends have "w \<noteq> []" "\<not> printable (hd w)" by (auto simp: list_all_iff)
    with w(2) assms show False by (cases w) auto
  qed
  then show ?thesis by (simp add: space_prefix_def)
qed

lemma space_suffix_printable:
  assumes "printable c" shows "space_suffix (s @ [c]) = 0"
proof -
  have "List.find (\<lambda>w. suffix w (s @ [c])) go_spaces = None"
    unfolding find_None_iff
  proof
    assume "\<exists>w. w \<in> set go_spaces \<and> suffix w (s @ [c])"
    then obtain w where w: "w \<in> set go_spaces" "suffix w (s @ [c])" by blast
    with spaces_ends have "w \<noteq> []" "\<not> printable (List.last w)" by (auto simp: list_all_iff)
    with w(2) assms show False by (metis last_snoc suffix_snoc)
  qed
  then show ?thesis by (simp add: space_suffix_def)
qed

lemma trim_space_line:
  assumes "list_all printable s" and "s \<noteq> []"
  shows "trim_space (s @ [CHR 0x0A]) = s"
proof -
  obtain c cs where s: "s = c # cs" using assms(2) by (cases s) auto
  have "trim_left (s @ [CHR 0x0A]) = s @ [CHR 0x0A]"
    using assms(1) s by (simp add: trim_left.simps [of "c # cs @ [CHR 0x0A]"] space_prefix_printable)
  moreover have "trim_right (s @ [CHR 0x0A]) = trim_right s"
  proof -
    have "List.find (\<lambda>w. suffix w (s @ [CHR 0x0A])) go_spaces = Some [CHR 0x0A]"
    proof -
      have split: "go_spaces = [[CHR 0x09]] @ [CHR 0x0A] # drop 2 go_spaces" by code_simp
      show ?thesis by (subst split) simp
    qed
    then have "space_suffix (s @ [CHR 0x0A]) = 1" by (simp add: space_suffix_def)
    then show ?thesis by (simp add: trim_right.simps [of "s @ [CHR 0x0A]"])
  qed
  moreover obtain d ds where "s = ds @ [d]" using assms(2) by (cases s rule: rev_cases) auto
  then have "trim_right s = s"
    using assms(1) space_suffix_printable [of d ds] by (simp add: trim_right.simps [of "ds @ [d]"])
  ultimately show ?thesis by (simp add: trim_space_def)
qed

lemma trim_space_printable:
  assumes "list_all printable s" shows "trim_space s = s"
proof (cases s rule: rev_cases)
  case (snoc ds d)
  then obtain c cs where s: "s = c # cs" by (metis append_is_Nil_conv neq_Nil_conv not_Cons_self2)
  have "trim_left s = s" using assms s by (simp add: trim_left.simps [of "c # cs"] space_prefix_printable)
  moreover have "trim_right s = s"
    using assms snoc space_suffix_printable [of d ds] by (simp add: trim_right.simps [of "ds @ [d]"])
  ultimately show ?thesis by (simp add: trim_space_def)
qed (simp add: trim_space_def trim_left.simps trim_right.simps)

lemma b64_char_printable: "n < 64 \<Longrightarrow> printable (b64_char True n) \<and> b64_char True n \<noteq> CHR ''.''"
  unfolding b64_char_def printable_def
  by (auto simp: byte_literals byte_char_of char_eq_byte simp del: byte_eq_iff)

lemma encoded_printable: "list_all printable (raw_url_encode s)" "CHR ''.'' \<notin> set (raw_url_encode s)"
proof -
  have "c \<in> set (raw_url_encode s) \<Longrightarrow> printable c \<and> c \<noteq> CHR ''.''" for c
    by (auto simp: raw_encode_def b64_char_printable bytes_sextets_bound dest: bytes_sextets_bound b64_char_printable)
  then show "list_all printable (raw_url_encode s)" "CHR ''.'' \<notin> set (raw_url_encode s)"
    by (auto simp: list_all_iff)
qed

lemma printable_dot: "printable CHR ''.''" by code_simp

lemma split_segments:
  assumes "\<And>w. w \<in> {a, b, c, e} \<Longrightarrow> CHR ''.'' \<notin> set w"
  shows "split_on CHR ''.'' (a @ ''..'' @ b @ ''.'' @ c @ ''.'' @ e) = [a, [], b, c, e]"
  using assms split_on_append [of "CHR ''.''"] split_on_no_sep [of "CHR ''.''" e] by simp

lemma jwe_segments_text:
  assumes "j \<noteq> []"
  shows "jwe_segments (jwe_text (raw_url_encode j) iv comb) = Inr
    [raw_url_encode j, [], raw_url_encode iv, raw_url_encode (take (length comb - content_tag_size) comb),
     raw_url_encode (drop (length comb - content_tag_size) comb)]"
proof -
  let ?s = "raw_url_encode j @ ''..'' @ raw_url_encode iv @ ''.'' @ raw_url_encode (take (length comb - content_tag_size) comb) @
    ''.'' @ raw_url_encode (drop (length comb - content_tag_size) comb)"
  have t: "jwe_text (raw_url_encode j) iv comb = ?s @ [CHR 0x0A]" by (simp add: jwe_text_def Let_def)
  have "trim_space (?s @ [CHR 0x0A]) = ?s"
    by (rule trim_space_line) (simp_all add: encoded_printable printable_dot)
  moreover have "split_on CHR ''.'' ?s = [raw_url_encode j, [], raw_url_encode iv,
      raw_url_encode (take (length comb - content_tag_size) comb), raw_url_encode (drop (length comb - content_tag_size) comb)]"
    by (rule split_segments) (auto simp: encoded_printable(2))
  ultimately show ?thesis unfolding t jwe_segments_def by (simp only: Let_def) simp
qed

section \<open>A saved file opens again\<close>

text \<open>What the format relies on: JSON gives a header of valid text back, AES-GCM opens what it
  sealed and adds a tag of 16 bytes.\<close>

definition key_info_ok :: "(string \<Rightarrow> bool) \<Rightarrow> revaulter_key_info \<Rightarrow> bool" where
  "key_info_ok text i \<longleftrightarrow> ri_v i = header_format_version \<and> ri_key_label i \<noteq> [] \<and> ri_algorithm i \<noteq> [] \<and>
     ri_wrapped_key i \<noteq> [] \<and> list_all text [ri_server i, ri_key_label i, ri_algorithm i, ri_wrapped_key i,
       ri_wrapped_key_nonce i, ri_wrapped_key_tag i]"

definition edit_laws :: "(string \<Rightarrow> bool) \<Rightarrow> edit_lib \<Rightarrow> bool" where
  "edit_laws text lib \<longleftrightarrow>
     (\<forall>i. key_info_ok text i \<longrightarrow> (\<exists>j. j \<noteq> [] \<and>
        el_encode_header lib \<lparr>jh_alg = jose_alg, jh_enc = jose_enc, jh_revaulter = i\<rparr> = Some j \<and>
        el_decode_header lib j = Some \<lparr>jh_alg = jose_alg, jh_enc = jose_enc, jh_revaulter = i\<rparr>)) \<and>
     (\<forall>k iv p a. length (el_seal lib k iv p a) = length p + content_tag_size \<and>
        el_open lib k iv (el_seal lib k iv p a) a = Some p)"

definition saved_text :: "edit_lib \<Rightarrow> encrypted_file \<Rightarrow> string \<Rightarrow> string \<Rightarrow> bool" where
  "saved_text lib f p data \<longleftrightarrow> (\<exists>j iv. header_segment lib (ef_key_info f) = Some j \<and> length iv = content_nonce_size \<and>
     data = jwe_text j iv (el_seal lib (ef_content_key f) iv p j))"

lemma laws_header:
  assumes "edit_laws text lib" and "key_info_ok text i"
  obtains j where "j \<noteq> []" "header_segment lib i = Some (raw_url_encode j)"
    "el_decode_header lib j = Some \<lparr>jh_alg = jose_alg, jh_enc = jose_enc, jh_revaulter = i\<rparr>"
  using assms by (auto simp: edit_laws_def header_segment_def)

lemma saved_text_parses:
  assumes L: "edit_laws text lib" and I: "key_info_ok text (ef_key_info f)" and S: "saved_text lib f p data"
  shows "parse_header lib data = Inr \<lparr>jh_alg = jose_alg, jh_enc = jose_enc, jh_revaulter = ef_key_info f\<rparr>"
    and "content_cipher_ok (ef_content_key f) \<Longrightarrow> decrypt_file lib f data = Inr p"
proof -
  obtain j where j: "j \<noteq> []" "header_segment lib (ef_key_info f) = Some (raw_url_encode j)"
    "el_decode_header lib j = Some \<lparr>jh_alg = jose_alg, jh_enc = jose_enc, jh_revaulter = ef_key_info f\<rparr>"
    by (rule laws_header [OF L I])
  with S obtain iv where iv: "length iv = content_nonce_size"
    and data: "data = jwe_text (raw_url_encode j) iv (el_seal lib (ef_content_key f) iv p (raw_url_encode j))"
    by (auto simp: saved_text_def)
  note seg = jwe_segments_text [OF j(1), of iv "el_seal lib (ef_content_key f) iv p (raw_url_encode j)", folded data]
  show "parse_header lib data = Inr \<lparr>jh_alg = jose_alg, jh_enc = jose_enc, jh_revaulter = ef_key_info f\<rparr>"
    using I j(3) by (simp add: parse_header_def seg raw_decode_encode check_header_def key_info_ok_def)
  have "el_open lib (ef_content_key f) iv (el_seal lib (ef_content_key f) iv p (raw_url_encode j)) (raw_url_encode j) = Some p"
    using L by (simp add: edit_laws_def)
  then show "content_cipher_ok (ef_content_key f) \<Longrightarrow> decrypt_file lib f data = Inr p"
    by (simp add: decrypt_file_def seg decode_segment_def raw_decode_encode iv)
qed

lemma random_bytes_ok:
  assumes "random_bytes n d = (Inr b, d')"
  shows "length b = n" "ed_nodes d' = ed_nodes d" "ed_names d' = ed_names d" "ed_named d' = ed_named d"
  using assms by (auto simp: random_bytes_def sys_call_def split: list.splits option.splits)

lemma serialize_saved_text:
  assumes "serialize_file lib f p d = (Inr data, d')"
  shows "saved_text lib f p data" "content_cipher_ok (ef_content_key f)" "ed_nodes d' = ed_nodes d"
    "ed_names d' = ed_names d" "ed_named d' = ed_named d"
proof -
  from assms obtain header iv where h: "header_segment lib (ef_key_info f) = Some header"
    and ok: "content_cipher_ok (ef_content_key f)" and iv: "random_bytes content_nonce_size d = (Inr iv, d')"
    and data: "data = jwe_text header iv (el_seal lib (ef_content_key f) iv p header)"
    by (auto simp: serialize_file_def go_bind_def split: option.splits if_splits prod.splits sum.splits)
  from random_bytes_ok [OF iv] h ok data
  show "saved_text lib f p data" "content_cipher_ok (ef_content_key f)" "ed_nodes d' = ed_nodes d"
    "ed_names d' = ed_names d" "ed_named d' = ed_named d"
    by (auto simp: saved_text_def)
qed

lemma read_regular:
  assumes "ed_faults d = []" and "ed_nodes d p = Some (Regular b m t)"
  shows "read_file p d = (Inr b, d)"
  using assms by (simp add: read_file_def sys_call_def follow.simps [of 40])

lemma save_file_cases:
  assumes "save_file lib f p d = (r, d')" and "names_ok (ed_names d)"
  shows "ed_names d' = ed_names d \<and> (ed_faults d = [] \<longrightarrow> ed_faults d' = []) \<and>
    (\<forall>q. q \<noteq> ef_path f \<and> (ed_nodes d q \<noteq> None \<or> ed_faults d = []) \<longrightarrow> ed_nodes d' q = ed_nodes d q) \<and>
    (case r of
       Inr _ \<Rightarrow> content_cipher_ok (ef_content_key f) \<and>
         (\<exists>data t. ed_nodes d' (ef_path f) = Some (Regular data 384 t) \<and> saved_text lib f p data)
     | Inl _ \<Rightarrow> ed_nodes d' (ef_path f) = ed_nodes d (ef_path f))"
proof -
  obtain s d1 where s: "serialize_file lib f p d = (s, d1)" by fastforce
  have k: "keeps (elsewhere (ed_faults d = []) (ed_names d) (ed_nodes d) {}) (serialize_file lib f p)"
    unfolding serialize_file_def by (intro keeps_case_option keeps_fail keeps_if keeps_bind keeps_reading keeps_return)
  from keeps_stepD [OF k elsewhere_start s]
  have same: "ed_names d1 = ed_names d" "ed_faults d = [] \<longrightarrow> ed_faults d1 = []" "\<forall>q. ed_nodes d1 q = ed_nodes d q"
    by (simp_all add: elsewhere_def)
  show ?thesis
  proof (cases s)
    case (Inl e)
    with assms(1) s have "r = Inl e" "d' = d1" by (simp_all add: save_file_def go_bind_def)
    with same show ?thesis by simp
  next
    case (Inr data)
    with assms(1) s have w: "write_file_atomic (ef_path f) data d1 = (r, d')" by (simp add: save_file_def go_bind_def)
    have n: "names_ok (ed_names d1)" using assms(2) same by simp
    from write_file_atomic_cases [OF w n] same serialize_saved_text(1,2) [OF s [unfolded Inr]]
    show ?thesis by (auto split: sum.splits)
  qed
qed

lemma new_file_wrapped_key:
  "wrapped_key_of \<lparr>jh_alg = a, jh_enc = e, jh_revaulter = ef_key_info (new_encrypted_file path server wk key)\<rparr> = Inr wk"
  by (simp add: wrapped_key_of_def new_encrypted_file_def decode_header_field_def raw_decode_encode)

text \<open>C37: opening a file that was saved gives back what was written.  The save came through,
  whatever failed before; the key information in the header is valid and the key wrapper
  unwraps the file's key.\<close>

theorem saved_file_opens:
  assumes "edit_laws text lib" and "key_info_ok text (ef_key_info f)"
    and "length (ef_content_key f) = content_key_size" and "names_ok (ed_names d)"
    and "save_file lib f p d = (Inr (), d')" and "ed_faults d' = []"
    and "wrapped_key_of \<lparr>jh_alg = jose_alg, jh_enc = jose_enc, jh_revaulter = ef_key_info f\<rparr> = Inr wk"
    and "kw_unwrap kw wk (oo_note opts) w = Some (Inr (ef_content_key f), w')"
    and "oo_path opts = ef_path f"
  shows "open_file lib kw opts d' w = Some (Inr (f, p), d', w')"
proof -
  from save_file_cases [OF assms(5,4)] obtain data t
    where node: "ed_nodes d' (ef_path f) = Some (Regular data 384 t)" and saved: "saved_text lib f p data"
      and ok: "content_cipher_ok (ef_content_key f)"
    by auto
  from saved_text_parses [OF assms(1,2) saved] ok read_regular [OF assms(6) node] assms(3,7,8)
  show ?thesis by (cases f) (simp add: open_file_def open_existing_file_def assms(9) Let_def)
qed

end
