(* ===== verification/Edit_Safety.thy ===== *)
theory Edit_Safety
  imports Edit_Properties
begin

text \<open>
  Whole sessions of revaulter-edit: whatever the editor does and in whatever order the events
  come, a session that ends well has saved what the editor wrote last, and once it is over no
  cleartext is left on the disk.
\<close>

section \<open>The private directory\<close>

text \<open>A base directory for temporary files: a clean rooted path.\<close>

definition temp_base_ok :: "string \<Rightarrow> bool" where
  "temp_base_ok base \<longleftrightarrow> (\<exists>ps. ps \<noteq> [] \<and> list_all plain_part ps \<and> base = CHR ''/'' # join_with ''/'' ps)"

lemma join_with_snoc: "ps \<noteq> [] \<Longrightarrow> join_with s (ps @ [x]) = join_with s ps @ s @ x"
  by (induction s ps rule: join_with.induct) auto

lemma join_with_two: "ps \<noteq> [] \<Longrightarrow> join_with s ((ps @ [x]) @ [y]) = join_with s ps @ s @ x @ s @ y"
  using join_with_snoc [of "ps @ [x]" s y] join_with_snoc [of ps s x] by simp

lemma in_temp_base:
  assumes "temp_base_ok base"
  obtains ps where "ps \<noteq> []" "list_all plain_part ps" "base = CHR ''/'' # join_with ''/'' ps"
    "\<forall>x. in_dir base x = base @ ''/'' @ x"
proof -
  from assms obtain ps where ps: "ps \<noteq> []" "list_all plain_part ps" "base = CHR ''/'' # join_with ''/'' ps"
    by (auto simp: temp_base_ok_def)
  from join_plain_ends [OF ps(2,1)] have "List.last base \<noteq> CHR ''/''" by (simp add: ps(3))
  then have "\<not> has_suffix base ''/''" by (metis has_suffix_iff last_snoc)
  then have "\<forall>x. in_dir base x = base @ ''/'' @ x" by (simp add: in_dir_def)
  with ps show ?thesis by (rule that)
qed

lemma path_join_temp:
  assumes "temp_base_ok base" and "CHR ''/'' \<notin> set x" and "plain_part name"
  shows "path_join [in_dir base (''revaulter-edit-'' @ x), name] = in_dir base (''revaulter-edit-'' @ x) @ ''/'' @ name"
proof -
  obtain ps where ps: "ps \<noteq> []" "list_all plain_part ps" "base = CHR ''/'' # join_with ''/'' ps"
    "\<forall>x. in_dir base x = base @ ''/'' @ x" by (rule in_temp_base [OF assms(1)])
  let ?dir = "''revaulter-edit-'' @ x"
  have dir: "plain_part ?dir" using assms(2) by (auto simp: plain_part_def)
  let ?qs = "(ps @ [?dir]) @ [name]"
  have qs: "list_all plain_part ?qs" using ps(2) dir assms(3) by simp
  have d: "in_dir base ?dir = base @ ''/'' @ ?dir" using ps(4) by blast
  have j: "in_dir base ?dir @ ''/'' @ name = CHR ''/'' # join_with ''/'' ?qs"
    unfolding d join_with_two [OF ps(1)] by (simp add: ps(3))
  have split: "split_on CHR ''/'' (CHR ''/'' # join_with ''/'' ?qs) = [] # ?qs"
    using split_join_plain [OF qs] by simp
  have "name \<noteq> []" using assms(3) by (simp add: plain_part_def)
  then have "path_join [in_dir base ?dir, name] = path_clean (CHR ''/'' # join_with ''/'' ?qs)"
    unfolding j [symmetric] d by (simp add: path_join_def)
  also have "\<dots> = CHR ''/'' # join_with ''/'' ?qs"
    using clean_parts_id [OF qs, of True "[]"] split by (simp add: path_clean_def Let_def clean_step_def del: append_assoc)
  finally show ?thesis unfolding j .
qed

lemma split_last_set: "set (last_element p) \<subseteq> set p \<and> CHR ''/'' \<notin> set (last_element p)"
  unfolding last_element_def
  by (metis last_in_set split_on_ne split_on_parts split_on_subset)

lemma trim_left_set: "set (trim_left s) \<subseteq> set s"
proof (induction s rule: trim_left.induct)
  case (1 s)
  then show ?case by (subst trim_left.simps) (auto dest: in_set_dropD)
qed

lemma trim_right_set: "set (trim_right s) \<subseteq> set s"
proof (induction s rule: trim_right.induct)
  case (1 s)
  then show ?case by (subst trim_right.simps) (auto dest: in_set_takeD)
qed

lemma strip_extension_set: "set (strip_extension exts name) \<subseteq> set name"
  by (induction exts) (auto dest: in_set_takeD)

lemma editor_file_name_plain:
  assumes "editor_file_name p \<noteq> ''..''" shows "plain_part (editor_file_name p)"
proof -
  define n where "n = trim_space (strip_extension [''.jwe'', ''.enc'', ''.encrypted''] (file_base p))"
  have eq: "editor_file_name p = (if n = [] \<or> n = ''.'' \<or> n = ''/'' then ''revaulter-edit.txt'' else n)"
    unfolding editor_file_name_def n_def Let_def ..
  have sub: "set n \<subseteq> set (file_base p)"
    unfolding n_def trim_space_def using trim_left_set trim_right_set strip_extension_set by blast
  show ?thesis
  proof (cases "file_base p = ''/''")
    case True
    have "strip_extension [''.jwe'', ''.enc'', ''.encrypted''] ''/'' = ''/''"
      by (simp add: has_suffix_def lower_byte_def byte_kinds byte_def)
    moreover have "trim_space ''/'' = ''/''" by (rule trim_space_printable) (simp add: printable_def byte_def)
    ultimately have "(let name = trim_space (strip_extension [''.jwe'', ''.enc'', ''.encrypted''] ''/'') in
      if name = [] \<or> name = ''.'' \<or> name = ''/'' then ''revaulter-edit.txt'' else name) = ''revaulter-edit.txt''"
      by (simp add: Let_def)
    then have "editor_file_name p = ''revaulter-edit.txt''" unfolding editor_file_name_def True .
    then show ?thesis by (simp add: plain_part_def)
  next
    case False
    then have "CHR ''/'' \<notin> set (file_base p)" using split_last_set by (auto simp: file_base_def split: if_splits)
    with sub assms show ?thesis by (auto simp: eq plain_part_def split: if_splits)
  qed
qed

section \<open>What a session keeps\<close>

text \<open>The contents of the temporary file after a list of events.\<close>

definition editor_text :: "editor_event \<Rightarrow> string option \<Rightarrow> string option" where
  "editor_text e cur = (case e of Editor_Writes b _ \<Rightarrow> Some b | Editor_Removes \<Rightarrow> None | _ \<Rightarrow> cur)"

definition written_texts :: "string \<Rightarrow> editor_event list \<Rightarrow> string set" where
  "written_texts p evs = insert p {b. \<exists>t. Editor_Writes b t \<in> set evs}"

definition holds_saved :: "edit_lib \<Rightarrow> encrypted_file \<Rightarrow> string \<Rightarrow> (string \<rightharpoonup> fs_node) \<Rightarrow> bool" where
  "holds_saved lib f p nodes \<longleftrightarrow>
     (\<exists>data t. nodes (ef_path f) = Some (Regular data 384 t) \<and> saved_text lib f p data)"

text \<open>\<open>n0\<close> is what the encrypted file was, \<open>T\<close> the texts the editor handles, \<open>cur\<close> the temporary
  file's contents.\<close>

definition session_ok ::
  "edit_lib \<Rightarrow> encrypted_file \<Rightarrow> string \<Rightarrow> string \<Rightarrow> fs_node option \<Rightarrow> string set \<Rightarrow> string option
     \<Rightarrow> edit_session \<Rightarrow> edit_disk \<Rightarrow> bool" where
  "session_ok lib f temp p n0 T cur s d \<longleftrightarrow>
     es_file s = f \<and> es_temp_path s = temp \<and> names_ok (ed_names d) \<and>
     (case cur of None \<Rightarrow> ed_nodes d temp = None
        | Some b \<Rightarrow> b \<in> T \<and> (\<exists>m t. ed_nodes d temp = Some (Regular b m t))) \<and>
     (if es_saved s then \<exists>x\<in>T. es_saved_hash s = el_sha256 lib x \<and> holds_saved lib f x (ed_nodes d)
      else es_saved_hash s = el_sha256 lib p \<and> ed_nodes d (ef_path f) = n0)"

lemma holds_saved_same: "nodes' (ef_path f) = nodes (ef_path f) \<Longrightarrow> holds_saved lib f x nodes' = holds_saved lib f x nodes"
  by (simp add: holds_saved_def)

lemma session_ok_same:
  "session_ok lib f temp p n0 T cur s d \<Longrightarrow> ed_nodes d' temp = ed_nodes d temp \<Longrightarrow>
    ed_nodes d' (ef_path f) = ed_nodes d (ef_path f) \<Longrightarrow> ed_names d' = ed_names d \<Longrightarrow>
    session_ok lib f temp p n0 T cur s d'"
  by (cases cur) (simp_all add: session_ok_def holds_saved_same [of "ed_nodes d'" f "ed_nodes d"] split: if_splits)

lemma read_temp:
  assumes "read_file p d = (r, d')"
  shows "ed_nodes d p = None \<Longrightarrow> r = Inl err_not_exist \<or> r = Inl err_io"
    and "ed_nodes d p = Some (Regular b m t) \<Longrightarrow> r = Inr b \<or> r = Inl err_io"
  using assms by (auto simp: read_file_def sys_call_def follow.simps [of 40] split: list.splits option.splits)

lemma err_distinct [simp]: "err_io \<noteq> err_not_exist" "err_not_exist \<noteq> err_io"
  by (simp_all add: err_io_def err_not_exist_def)

lemma unchanged_same:
  assumes "unchanged h s d = (u, d')"
  shows "ed_nodes d' = ed_nodes d \<and> ed_names d' = ed_names d \<and> (ed_faults d = [] \<longrightarrow> ed_faults d' = [])"
    "u \<Longrightarrow> h = es_saved_hash s"
  using assms reading_same(3) [of "es_temp_path s" d]
  by (auto simp: unchanged_def temp_file_touched_def split: if_splits prod.splits sum.splits)

text \<open>One save: either nothing was there to save, or it failed, or the file holds the text.\<close>

lemma save_if_changed_ok:
  assumes S: "save_if_changed lib s d = ((r, s1), d1)" and I: "session_ok lib f temp p n0 T cur s d" and ne: "temp \<noteq> ef_path f"
  shows "session_ok lib f temp p n0 T cur s1 d1"
    and "r = Inr () \<Longrightarrow> cur = Some b \<Longrightarrow> es_saved_hash s1 = el_sha256 lib b"
proof -
  have fields: "es_file s = f" "es_temp_path s = temp" "names_ok (ed_names d)" using I by (simp_all add: session_ok_def)
  obtain rd da where rd: "read_file temp d = (rd, da)" by fastforce
  note da = reading_same(1) [OF rd]
  have Ia: "session_ok lib f temp p n0 T cur s da" by (rule session_ok_same [OF I]) (simp_all add: da)
  have "session_ok lib f temp p n0 T cur s1 d1 \<and> (r = Inr () \<longrightarrow> cur = Some b \<longrightarrow> es_saved_hash s1 = el_sha256 lib b)"
  proof (cases rd)
    case (Inl e)
    with S rd fields have "s1 = s" "d1 = da" "r = Inr () \<longrightarrow> e = err_not_exist"
      by (auto simp: save_if_changed_def split: if_splits)
    moreover have "cur = Some b \<longrightarrow> e = err_io" using I read_temp(2) [OF rd] Inl by (auto simp: session_ok_def)
    ultimately show ?thesis using Ia by auto
  next
    case (Inr x)
    have cur: "cur = Some x" "x \<in> T"
      using I Inr read_temp [OF rd] by (auto simp: session_ok_def split: option.splits)
    obtain u db where u: "unchanged (el_sha256 lib x) s da = (u, db)" by fastforce
    note db = unchanged_same [OF u]
    have Ib: "session_ok lib f temp p n0 T cur s db" by (rule session_ok_same [OF Ia]) (simp_all add: db(1))
    show ?thesis
    proof (cases u)
      case True
      with S rd Inr u fields have "s1 = s" "d1 = db" by (auto simp: save_if_changed_def Let_def)
      with Ib db(2) True cur show ?thesis by auto
    next
      case False
      obtain sv dc where sv: "save_file lib f x db = (sv, dc)" by fastforce
      have n: "names_ok (ed_names db)" using Ib by (simp add: session_ok_def)
      note out = save_file_cases [OF sv n]
      have tmp: "ed_nodes dc temp = ed_nodes db temp" using out Ib cur ne by (auto simp: session_ok_def)
      show ?thesis
      proof (cases sv)
        case (Inl e)
        with S rd Inr u False sv fields have "s1 = s" "d1 = dc" "r = Inl e" by (auto simp: save_if_changed_def Let_def)
        moreover have "session_ok lib f temp p n0 T cur s dc"
          by (rule session_ok_same [OF Ib tmp]) (use out Inl in simp_all)
        ultimately show ?thesis by simp
      next
        case ok: (Inr v)
        with S rd Inr u False sv fields
        have s1: "s1 = s\<lparr>es_saved_hash := el_sha256 lib x, es_saved := True, es_save_count := Suc (es_save_count s)\<rparr>"
          and d1: "d1 = dc"
          by (auto simp: save_if_changed_def Let_def)
        have "holds_saved lib f x (ed_nodes dc)" using out ok by (auto simp: holds_saved_def)
        with Ib out tmp cur s1 d1 show ?thesis by (auto simp: session_ok_def)
      qed
    qed
  qed
  then show "session_ok lib f temp p n0 T cur s1 d1"
    "r = Inr () \<Longrightarrow> cur = Some b \<Longrightarrow> es_saved_hash s1 = el_sha256 lib b" by auto
qed

lemma editor_step_ok:
  assumes "session_ok lib f temp p n0 T cur s d" and "temp \<noteq> ef_path f" and "\<And>b t. e = Editor_Writes b t \<Longrightarrow> b \<in> T"
    and "editor_step lib e (s, d) = (s1, d1)"
  shows "session_ok lib f temp p n0 T (editor_text e cur) s1 d1"
proof (cases e)
  case (Editor_Writes b t)
  with assms show ?thesis by (auto simp: session_ok_def editor_text_def put_node_def holds_saved_def)
next
  case Editor_Removes
  with assms show ?thesis by (auto simp: session_ok_def editor_text_def holds_saved_def)
next
  case Poll_Tick
  with assms(4) obtain r where "save_if_changed lib s d = ((r, s1), d1)" by (auto split: prod.splits)
  from save_if_changed_ok(1) [OF this assms(1,2)] Poll_Tick show ?thesis by (simp add: editor_text_def)
qed (use assms in \<open>simp add: editor_text_def\<close>)

lemma editor_events_ok:
  assumes "session_ok lib f temp p n0 T cur s d" and "temp \<noteq> ef_path f"
    and "\<And>b t. Editor_Writes b t \<in> set evs \<Longrightarrow> b \<in> T" and "fold (editor_step lib) evs (s, d) = (s1, d1)"
  shows "session_ok lib f temp p n0 T (fold editor_text evs cur) s1 d1"
  using assms
proof (induction evs arbitrary: cur s d)
  case (Cons e evs)
  obtain s2 d2 where e: "editor_step lib e (s, d) = (s2, d2)" by fastforce
  have "session_ok lib f temp p n0 T (editor_text e cur) s2 d2"
    by (rule editor_step_ok [OF Cons.prems(1,2) _ e]) (use Cons.prems(3) in auto)
  from Cons.IH [OF this Cons.prems(2)] Cons.prems(3,4) e show ?case by (metis fold_simps(2) list.set_intros(2))
qed simp

lemma write_fresh_file:
  assumes "write_whole_file p x d = (r, d')" and "ed_nodes d p = None"
  shows "r = Inr () \<Longrightarrow> ed_nodes d' = (ed_nodes d)(p \<mapsto> Regular x 384 (ed_time d))"
    "ed_names d' = ed_names d" "ed_faults d = [] \<Longrightarrow> ed_faults d' = []" "q \<noteq> p \<Longrightarrow> ed_nodes d' q = ed_nodes d q"
  using assms
  by (auto simp: write_whole_file_def sys_call_def Let_def create_with_def put_node_def resolve_path.simps [of 40]
    split: list.splits option.splits)

text \<open>The modification time of the temporary file, when no call fails: that of the editor's last
  write.  \<open>tempFileTouched\<close> compares it with the time at which the session wrote the file.\<close>

definition editor_mtime :: "editor_event \<Rightarrow> int \<Rightarrow> int" where
  "editor_mtime e t = (case e of Editor_Writes _ t' \<Rightarrow> t' | _ \<Rightarrow> t)"

definition times_ok :: "string \<Rightarrow> encrypted_file \<Rightarrow> int \<Rightarrow> int \<Rightarrow> edit_session \<Rightarrow> edit_disk \<Rightarrow> bool" where
  "times_ok temp f t0 t s d \<longleftrightarrow> es_file s = f \<and> es_temp_path s = temp \<and> es_temp_mtime s = t0 \<and>
     ed_faults d = [] \<and> names_ok (ed_names d) \<and> (case ed_nodes d temp of
       None \<Rightarrow> True | Some (Regular _ _ u) \<Rightarrow> u = t | _ \<Rightarrow> False)"

lemma untouched_mtime:
  assumes "unchanged h s d = (True, d')" and "\<not> es_saved s" and "ed_faults d = []"
    and "ed_nodes d (es_temp_path s) = Some (Regular b m t)"
  shows "t = es_temp_mtime s"
  using assms by (auto simp: unchanged_def temp_file_touched_def stat_mtime_def sys_call_def follow.simps [of 40]
      split: if_splits)

lemma save_if_changed_times:
  assumes S: "save_if_changed lib s d = ((r, s1), d1)" and I: "times_ok temp f t0 t s d" and ne: "temp \<noteq> ef_path f"
  shows "times_ok temp f t0 t s1 d1"
    and "r = Inr () \<Longrightarrow> \<not> es_saved s1 \<Longrightarrow> ed_nodes d temp \<noteq> None \<Longrightarrow> t = t0"
proof -
  have fields: "es_file s = f" "es_temp_path s = temp" "ed_faults d = []" using I by (simp_all add: times_ok_def)
  obtain rd da where rd: "read_file temp d = (rd, da)" by fastforce
  have da: "da = d" using rd fields by (auto simp: read_file_def sys_call_def)
  have "times_ok temp f t0 t s1 d1 \<and> (r = Inr () \<longrightarrow> \<not> es_saved s1 \<longrightarrow> ed_nodes d temp \<noteq> None \<longrightarrow> t = t0)"
  proof (cases rd)
    case (Inl e)
    with S rd fields da have e: "s1 = s" "d1 = d" "r = Inr () \<longrightarrow> e = err_not_exist"
      by (auto simp: save_if_changed_def split: if_splits)
    moreover have "ed_nodes d temp \<noteq> None \<longrightarrow> e = err_io"
      using I read_temp(2) [OF rd] Inl by (auto simp: times_ok_def split: option.splits fs_node.splits)
    ultimately show ?thesis using I by auto
  next
    case (Inr x)
    obtain u db where u: "unchanged (el_sha256 lib x) s d = (u, db)" by fastforce
    note db = unchanged_same(1) [OF u]
    show ?thesis
    proof (cases u)
      case True
      with S rd Inr u fields da have r: "s1 = s" "d1 = db" by (simp_all add: save_if_changed_def Let_def)
      have "times_ok temp f t0 t s db" using I db by (simp add: times_ok_def)
      moreover have "t = t0" if "\<not> es_saved s" "ed_nodes d temp \<noteq> None"
      proof -
        from I that(2) obtain b m where "ed_nodes d (es_temp_path s) = Some (Regular b m t)" "es_temp_mtime s = t0"
          by (cases "the (ed_nodes d temp)") (auto simp: times_ok_def)
        moreover have "unchanged (el_sha256 lib x) s d = (True, db)" using u True by simp
        ultimately show ?thesis using untouched_mtime that(1) fields(3) by blast
      qed
      ultimately show ?thesis using r by blast
    next
      case False
      obtain sv dc where sv: "save_file lib f x db = (sv, dc)" by fastforce
      have "names_ok (ed_names db)" using I db by (simp add: times_ok_def)
      from save_file_cases [OF sv this] db fields(3) ne
      have "ed_nodes dc temp = ed_nodes d temp" "ed_names dc = ed_names d" "ed_faults dc = []" by auto
      then have "times_ok temp f t0 t s' dc" if "es_file s' = f" "es_temp_path s' = temp" "es_temp_mtime s' = t0" for s'
        using I that by (simp add: times_ok_def)
      with S rd Inr u False sv fields da I show ?thesis
        by (auto simp: save_if_changed_def Let_def times_ok_def split: sum.splits)
    qed
  qed
  then show "times_ok temp f t0 t s1 d1" "r = Inr () \<Longrightarrow> \<not> es_saved s1 \<Longrightarrow> ed_nodes d temp \<noteq> None \<Longrightarrow> t = t0" by auto
qed

lemma editor_events_times:
  assumes "times_ok temp f t0 t s d" and "temp \<noteq> ef_path f" and "fold (editor_step lib) evs (s, d) = (s1, d1)"
  shows "times_ok temp f t0 (fold editor_mtime evs t) s1 d1"
  using assms
proof (induction evs arbitrary: t s d)
  case (Cons e evs)
  obtain s2 d2 where e: "editor_step lib e (s, d) = (s2, d2)" by fastforce
  have "times_ok temp f t0 (editor_mtime e t) s2 d2"
  proof (cases e)
    case Poll_Tick
    with e obtain r where "save_if_changed lib s d = ((r, s2), d2)" by (auto split: prod.splits)
    from save_if_changed_times(1) [OF this Cons.prems(1,2)] Poll_Tick show ?thesis by (simp add: editor_mtime_def)
  qed (use e Cons.prems(1) in \<open>auto simp: times_ok_def put_node_def editor_mtime_def\<close>)
  from Cons.IH [OF this Cons.prems(2)] Cons.prems(3) e show ?case by simp
qed simp

text \<open>The encrypted file at the end: with the temporary file there, its text is saved, or it is the
  text of the start, never written at another time; with the temporary file gone, any text may be
  the saved one.\<close>

definition saved_outcome ::
  "edit_lib \<Rightarrow> encrypted_file \<Rightarrow> string \<Rightarrow> editor_run \<Rightarrow> edit_disk \<Rightarrow> (string \<rightharpoonup> fs_node) \<Rightarrow> bool" where
  "saved_outcome lib f p ed d nodes' \<longleftrightarrow> (case fold editor_text (eu_events ed) (Some p) of
      Some q \<Rightarrow> holds_saved lib f q nodes' \<or>
        q = p \<and> nodes' (ef_path f) = ed_nodes d (ef_path f) \<and>
        (ed_faults d = [] \<longrightarrow> fold editor_mtime (eu_events ed) (ed_time d) = ed_time d)
    | None \<Rightarrow> (\<exists>q\<in>written_texts p (eu_events ed). holds_saved lib f q nodes') \<or>
        nodes' (ef_path f) = ed_nodes d (ef_path f))"

lemma edit_in_dir_saves:
  assumes run: "edit_in_dir lib ed f p temp d = (Inr (), d')" and fresh: "ed_nodes d temp = None"
    and ne: "temp \<noteq> ef_path f" and names: "names_ok (ed_names d)"
    and inj: "inj_on (el_sha256 lib) (written_texts p (eu_events ed))"
  shows "saved_outcome lib f p ed d (ed_nodes d')"
proof -
  let ?T = "written_texts p (eu_events ed)" and ?cur = "fold editor_text (eu_events ed) (Some p)"
  obtain d1 d2 t where w: "write_whole_file temp p d = (Inr (), d1)" and st: "stat_mtime temp d1 = (Inr t, d2)"
    and fin: "finish_session lib (eu_exits_ok ed) (fold (editor_step lib) (eu_events ed)
      (\<lparr>es_file = f, es_temp_path = temp, es_saved_hash = el_sha256 lib p,
        es_temp_mtime = t, es_saved = False, es_save_count = 0\<rparr>, d2)) = (Inr (), d')"
    using run by (auto simp: edit_in_dir_def split: if_splits elim!: go_bind_okE)
  let ?s = "\<lparr>es_file = f, es_temp_path = temp, es_saved_hash = el_sha256 lib p,
        es_temp_mtime = t, es_saved = False, es_save_count = 0\<rparr>"
  note d1 = write_fresh_file [OF w fresh] note d2 = reading_same(3) [OF st]
  have start: "session_ok lib f temp p (ed_nodes d (ef_path f)) ?T (Some p) ?s d2"
    using d1 d2 ne names by (simp add: session_ok_def written_texts_def)
  obtain s3 d3 where run3: "fold (editor_step lib) (eu_events ed) (?s, d2) = (s3, d3)" by fastforce
  have I3: "session_ok lib f temp p (ed_nodes d (ef_path f)) ?T ?cur s3 d3"
    using editor_events_ok [OF start ne _ run3] by (auto simp: written_texts_def)
  obtain s4 where sv: "save_if_changed lib s3 d3 = ((Inr (), s4), d')"
    using fin run3 by (auto simp: finish_session_def split: prod.splits sum.splits if_splits)
  from save_if_changed_ok(1) [OF sv I3 ne] have I4: "session_ok lib f temp p (ed_nodes d (ef_path f)) ?T ?cur s4 d'" .
  show ?thesis
  proof (cases ?cur)
    case None
    from I4 show ?thesis unfolding saved_outcome_def None by (auto simp: session_ok_def split: if_splits)
  next
    case (Some q)
    have hash: "es_saved_hash s4 = el_sha256 lib q" by (rule save_if_changed_ok(2) [OF sv I3 ne refl Some])
    have T: "q \<in> ?T" "p \<in> ?T" using I4 Some by (simp_all add: session_ok_def written_texts_def)
    have times: "fold editor_mtime (eu_events ed) (ed_time d) = ed_time d" if "\<not> es_saved s4" "ed_faults d = []"
    proof -
      have t: "t = ed_time d" using st d1 that(2) by (simp add: stat_mtime_def sys_call_def follow.simps [of 40])
      have "times_ok temp f t (ed_time d) ?s d2"
        using d1 d2 names that(2) by (simp add: times_ok_def)
      from editor_events_times [OF this ne run3]
      have T3: "times_ok temp f t (fold editor_mtime (eu_events ed) (ed_time d)) s3 d3" .
      have "ed_nodes d3 temp \<noteq> None" using I3 Some by (auto simp: session_ok_def)
      from save_if_changed_times(2) [OF sv T3 ne refl that(1) this] t show ?thesis by simp
    qed
    show ?thesis
    proof (cases "es_saved s4")
      case True
      with I4 hash inj T show ?thesis unfolding saved_outcome_def Some by (auto simp: session_ok_def dest: inj_onD)
    next
      case False
      with I4 have "es_saved_hash s4 = el_sha256 lib p" "ed_nodes d' (ef_path f) = ed_nodes d (ef_path f)"
        by (simp_all add: session_ok_def)
      with hash inj T times [OF False] show ?thesis unfolding saved_outcome_def Some by (auto dest: inj_onD)
    qed
  qed
qed

section \<open>What a session leaves alone\<close>

lemma save_if_changed_frame:
  assumes S: "save_if_changed lib s d = (rs, d1)" and I: "elsewhere True names n0 {es_temp_path s, ef_path (es_file s)} d"
    and N: "names_ok names"
  shows "elsewhere True names n0 {es_temp_path s, ef_path (es_file s)} d1 \<and>
    es_temp_path (snd rs) = es_temp_path s \<and> es_file (snd rs) = es_file s"
proof -
  let ?I = "elsewhere True names n0 {es_temp_path s, ef_path (es_file s)}"
  obtain rd da where rd: "read_file (es_temp_path s) d = (rd, da)" by fastforce
  have Ia: "?I da" using reading_same(1) [OF rd] I by (simp add: elsewhere_def)
  show ?thesis
  proof (cases rd)
    case (Inl e)
    with S rd Ia show ?thesis by (auto simp: save_if_changed_def split: if_splits)
  next
    case (Inr x)
    obtain u db where u: "unchanged (el_sha256 lib x) s da = (u, db)" by fastforce
    have Ib: "?I db" using unchanged_same(1) [OF u] Ia by (simp add: elsewhere_def)
    obtain sv dc where sv: "save_file lib (es_file s) x db = (sv, dc)" by fastforce
    have "names_ok (ed_names db)" using Ib N by (simp add: elsewhere_def)
    from save_file_cases [OF sv this] Ib have Ic: "?I dc" by (auto simp: elsewhere_def)
    from S rd Inr u sv Ib Ic show ?thesis
      by (cases u; cases sv) (auto simp: save_if_changed_def Let_def)
  qed
qed

lemma editor_events_frame:
  assumes "elsewhere True names n0 {es_temp_path s, ef_path (es_file s)} d" and "names_ok names"
    and "fold (editor_step lib) evs (s, d) = (s1, d1)"
  shows "elsewhere True names n0 {es_temp_path s, ef_path (es_file s)} d1 \<and>
    es_temp_path s1 = es_temp_path s \<and> es_file s1 = es_file s"
  using assms
proof (induction evs arbitrary: s d)
  case (Cons e evs)
  obtain s2 d2 where e: "editor_step lib e (s, d) = (s2, d2)" by fastforce
  have "elsewhere True names n0 {es_temp_path s, ef_path (es_file s)} d2 \<and>
    es_temp_path s2 = es_temp_path s \<and> es_file s2 = es_file s"
  proof (cases e)
    case Poll_Tick
    with e obtain r where "save_if_changed lib s d = ((r, s2), d2)" by (auto split: prod.splits)
    from save_if_changed_frame [OF this Cons.prems(1,2)] show ?thesis by simp
  qed (use e Cons.prems(1) in \<open>auto simp: elsewhere_def put_node_def\<close>)
  with Cons.IH [of s2 d2] Cons.prems(2,3) e show ?case by simp
qed simp

lemma edit_in_dir_frame:
  assumes run: "edit_in_dir lib ed f p temp d = (r, d')" and fresh: "ed_nodes d temp = None"
    and names: "names_ok (ed_names d)" and faults: "ed_faults d = []"
  shows "elsewhere True (ed_names d) (ed_nodes d) {temp, ef_path f} d'"
proof -
  let ?I = "elsewhere True (ed_names d) (ed_nodes d) {temp, ef_path f}"
  obtain w d1 where w: "write_whole_file temp p d = (w, d1)" by fastforce
  have I1: "?I d1" using write_fresh_file(2-4) [OF w fresh] faults by (auto simp: elsewhere_def)
  obtain st d2 where st: "stat_mtime temp d1 = (st, d2)" by fastforce
  have I2: "?I d2" using reading_same(3) [OF st] I1 by (simp add: elsewhere_def)
  show ?thesis
  proof (cases "w = Inr () \<and> (\<exists>t. st = Inr t) \<and> eu_starts ed")
    case False
    with run w st I1 I2 show ?thesis by (cases w; cases st) (auto simp: edit_in_dir_def go_bind_def)
  next
    case True
    then obtain t where t: "st = Inr t" by blast
    let ?s = "\<lparr>es_file = f, es_temp_path = temp, es_saved_hash = el_sha256 lib p,
        es_temp_mtime = t, es_saved = False, es_save_count = 0\<rparr>"
    obtain s3 d3 where run3: "fold (editor_step lib) (eu_events ed) (?s, d2) = (s3, d3)" by fastforce
    have I3: "?I d3 \<and> es_temp_path s3 = temp \<and> es_file s3 = f"
      using editor_events_frame [OF _ names run3] I2 by simp
    obtain rs d4 where sv: "save_if_changed lib s3 d3 = (rs, d4)" by fastforce
    have "?I d4" using save_if_changed_frame [OF sv _ names] I3 by simp
    moreover have "d' = d4"
      using run True t w st run3 sv by (auto simp: edit_in_dir_def go_bind_def finish_session_def split: sum.splits prod.splits)
    ultimately show ?thesis by simp
  qed
qed

section \<open>Whole sessions\<close>

text \<open>Nothing lies below a path that does not exist.\<close>

definition disk_tree :: "(string \<rightharpoonup> fs_node) \<Rightarrow> bool" where
  "disk_tree nodes \<longleftrightarrow> (\<forall>p x. p \<noteq> [] \<longrightarrow> nodes p = None \<longrightarrow> nodes (p @ ''/'' @ x) = None)"

definition below :: "string \<Rightarrow> string set" where
  "below dir = {q. q = dir \<or> has_prefix q (dir @ ''/'')}"

text \<open>Where a session may put its private directory.\<close>

definition session_dirs :: "string \<Rightarrow> string \<Rightarrow> (nat \<Rightarrow> string) \<Rightarrow> string set" where
  "session_dirs xdg default_dir names =
     {in_dir base (''revaulter-edit-'' @ names n) | base n. base = default_dir \<or> base = xdg \<and> xdg \<noteq> []}"

lemma session_dirsI:
  "\<exists>n. dir = in_dir default_dir (''revaulter-edit-'' @ names n) \<Longrightarrow> dir \<in> session_dirs xdg default_dir names"
  "\<exists>n. dir = in_dir xdg (''revaulter-edit-'' @ names n) \<Longrightarrow> xdg \<noteq> [] \<Longrightarrow> dir \<in> session_dirs xdg default_dir names"
  unfolding session_dirs_def by blast+

lemma mkdir_temp_cases:
  assumes "mkdir_temp base d = (r, d')"
  shows "ed_names d' = ed_names d" "ed_faults d = [] \<Longrightarrow> ed_faults d' = []"
    "r = Inl e \<Longrightarrow> ed_nodes d' = ed_nodes d"
    "r = Inr dir \<Longrightarrow> (\<exists>n. dir = in_dir base (''revaulter-edit-'' @ ed_names d n)) \<and>
       ed_nodes d dir = None \<and> ed_nodes d' = (ed_nodes d)(dir \<mapsto> Directory)"
    "ed_time d' = ed_time d"
  using assms
  by (auto simp: mkdir_temp_def sys_call_def Let_def put_node_def split: list.splits option.splits if_splits)

lemma private_dir_cases:
  assumes "new_private_temp_dir xdg default_dir d = (r, d')"
  shows "ed_names d' = ed_names d" "ed_faults d = [] \<Longrightarrow> ed_faults d' = []"
    "r = Inl e \<Longrightarrow> ed_nodes d' = ed_nodes d"
    "r = Inr dir \<Longrightarrow> dir \<in> session_dirs xdg default_dir (ed_names d) \<and>
       ed_nodes d dir = None \<and> ed_nodes d' = (ed_nodes d)(dir \<mapsto> Directory)"
proof -
  obtain r1 d1 where 1: "mkdir_temp xdg d = (r1, d1)" by fastforce
  note m1 = mkdir_temp_cases [OF 1]
  have "ed_names d' = ed_names d \<and> (ed_faults d = [] \<longrightarrow> ed_faults d' = []) \<and>
    (\<forall>e. r = Inl e \<longrightarrow> ed_nodes d' = ed_nodes d) \<and>
    (\<forall>dir. r = Inr dir \<longrightarrow> dir \<in> session_dirs xdg default_dir (ed_names d) \<and> ed_nodes d dir = None \<and>
         ed_nodes d' = (ed_nodes d)(dir \<mapsto> Directory))"
  proof (cases "xdg = []")
    case True
    with assms have 2: "mkdir_temp default_dir d = (r, d')" by (simp add: new_private_temp_dir_def)
    from mkdir_temp_cases [OF 2] show ?thesis by (blast intro: session_dirsI(1))
  next
    case False
    show ?thesis
    proof (cases r1)
      case (Inr dir)
      with assms 1 False have r: "r = Inr dir" "d' = d1" by (simp_all add: new_private_temp_dir_def go_bind_def go_try_def)
      from m1(1,2) m1(4) [OF Inr] session_dirsI(2) [OF conjunct1 [OF m1(4) [OF Inr]] False]
      show ?thesis by (simp add: r)
    next
      case (Inl e1)
      with assms 1 False have 2: "mkdir_temp default_dir d1 = (r, d')"
        by (simp add: new_private_temp_dir_def go_bind_def go_try_def)
      from mkdir_temp_cases [OF 2] show ?thesis
        unfolding m1(1) m1(3) [OF Inl] using m1(2) by (blast intro: session_dirsI(1))
    qed
  qed
  then show "ed_names d' = ed_names d" "ed_faults d = [] \<Longrightarrow> ed_faults d' = []"
    "r = Inl e \<Longrightarrow> ed_nodes d' = ed_nodes d"
    "r = Inr dir \<Longrightarrow> dir \<in> session_dirs xdg default_dir (ed_names d) \<and>
       ed_nodes d dir = None \<and> ed_nodes d' = (ed_nodes d)(dir \<mapsto> Directory)"
    by auto
qed

lemma private_dir_time: "new_private_temp_dir xdg default_dir d = (r, d') \<Longrightarrow> ed_time d' = ed_time d"
  by (auto simp: new_private_temp_dir_def go_bind_def go_try_def mkdir_temp_cases(5)
      dest!: mkdir_temp_cases(5) split: if_splits prod.splits sum.splits)

text \<open>What the sessions of this program run on: clean base directories, temporary names
  without separators, a tree of files, an ordinary name for the editor's file.\<close>

definition session_ground :: "string \<Rightarrow> string \<Rightarrow> encrypted_file \<Rightarrow> edit_disk \<Rightarrow> bool" where
  "session_ground xdg default_dir f d \<longleftrightarrow>
     (xdg = [] \<or> temp_base_ok xdg) \<and> temp_base_ok default_dir \<and> names_ok (ed_names d) \<and>
     disk_tree (ed_nodes d) \<and> editor_file_name (ef_path f) \<noteq> ''..''"

lemma keeps_remove_all: "below dir \<subseteq> A \<Longrightarrow> keeps (elsewhere b names n0 A) (remove_all dir)"
  unfolding remove_all_def by (rule keeps_plain_call) (auto simp: elsewhere_def below_def)

lemma run_session_cases:
  assumes run: "run_session lib xdg default_dir ed f p d = (r, d')" and ground: "session_ground xdg default_dir f d"
  obtains (no_dir) e where "r = Inl e" "ed_nodes d' = ed_nodes d" "fst (new_private_temp_dir xdg default_dir d) = Inl e"
  | (ran) dir d1 d2 where "dir \<in> session_dirs xdg default_dir (ed_names d)" "ed_nodes d1 = (ed_nodes d)(dir \<mapsto> Directory)"
      "ed_names d1 = ed_names d" "ed_faults d = [] \<longrightarrow> ed_faults d1 = []" "\<forall>q\<in>below dir. ed_nodes d q = None"
      "dir @ ''/'' @ editor_file_name (ef_path f) \<in> below dir"
      "ed_nodes d1 (dir @ ''/'' @ editor_file_name (ef_path f)) = None"
      "edit_in_dir lib ed f p (dir @ ''/'' @ editor_file_name (ef_path f)) d1 = (r, d2)"
      "\<forall>q. q \<notin> below dir \<longrightarrow> ed_nodes d' q = ed_nodes d2 q"
      "ed_faults d2 = [] \<longrightarrow> (\<forall>q\<in>below dir. ed_nodes d' q = None)" "ed_time d1 = ed_time d"
proof -
  obtain pd d1 where pd: "new_private_temp_dir xdg default_dir d = (pd, d1)" by fastforce
  note priv = private_dir_cases [OF pd]
  show ?thesis
  proof (cases pd)
    case (Inl e)
    with run pd have "r = Inl e" "d' = d1" by (simp_all add: run_session_def go_bind_def)
    with no_dir priv(3) Inl pd show ?thesis by simp
  next
    case (Inr dir)
    note dirs = priv(4) [OF Inr]
    let ?name = "editor_file_name (ef_path f)" let ?temp = "dir @ ''/'' @ ?name"
    have plain: "plain_part ?name" using ground by (simp add: session_ground_def editor_file_name_plain)
    obtain base n where base: "dir = in_dir base (''revaulter-edit-'' @ ed_names d n)" "temp_base_ok base"
      using dirs ground by (auto simp: session_dirs_def session_ground_def)
    have "CHR ''/'' \<notin> set (ed_names d n)" using ground by (simp add: session_ground_def names_ok_def)
    from path_join_temp [OF base(2) this plain] have join: "path_join [dir, ?name] = ?temp" unfolding base(1) .
    have "dir \<noteq> []" by (simp add: base(1) in_dir_def)
    then have none: "\<forall>q\<in>below dir. ed_nodes d q = None"
      using dirs ground by (auto simp: session_ground_def disk_tree_def below_def has_prefix_iff)
    have temp: "?temp \<in> below dir" "?temp \<noteq> dir" by (simp_all add: below_def has_prefix_iff)
    obtain r2 d2 where e: "edit_in_dir lib ed f p ?temp d1 = (r2, d2)" by fastforce
    obtain w3 d3 where w3: "wipe_file ?temp d2 = (w3, d3)" by fastforce
    obtain w4 d4 where w4: "remove_all dir d3 = (w4, d4)" by fastforce
    from run pd Inr e w3 w4 have rd: "r2 = r" "d4 = d'"
      by (auto simp: run_session_def go_bind_def Let_def join deferred_def)
    have k3: "elsewhere (ed_faults d2 = []) (ed_names d2) (ed_nodes d2) (below dir) d3"
      by (rule keeps_stepD [OF keeps_wipe_file elsewhere_start w3]) (rule temp)
    have k4: "elsewhere (ed_faults d2 = []) (ed_names d2) (ed_nodes d2) (below dir) d'"
      by (rule keeps_stepD [OF keeps_remove_all k3]) (use w4 rd in simp_all)
    have gone: "ed_faults d2 = [] \<longrightarrow> (\<forall>q\<in>below dir. ed_nodes d' q = None)"
      using k3 w4 rd by (auto simp: elsewhere_def remove_all_def sys_call_def below_def)
    show ?thesis
      by (rule ran [OF _ _ priv(1) _ none temp(1) _ e [unfolded rd] _ gone private_dir_time [OF pd]])
         (use dirs priv(2) none temp k4 in \<open>auto simp: elsewhere_def\<close>)
  qed
qed

text \<open>C38: a session that ends without an error has saved what the editor wrote last.  When the
  temporary file is there at the end, the encrypted file holds exactly its text; or the
  encrypted file is what it was and the text is the one the session began with, and then, if no
  call failed, the temporary file still has the time at which the session wrote it: a text that
  the editor has written again at another time, the empty text of a new file included, is saved.
  When the editor has removed the temporary file last, nothing is left to save and no error is
  reported: the encrypted file holds some text the editor has had, or is what it was.\<close>

theorem session_saves_last:
  assumes "session_ground xdg default_dir f d"
    and "run_session lib xdg default_dir ed f p d = (Inr (), d')"
    and "\<And>dir. dir \<in> session_dirs xdg default_dir (ed_names d) \<Longrightarrow> ef_path f \<notin> below dir"
    and "inj_on (el_sha256 lib) (written_texts p (eu_events ed))"
  shows "case fold editor_text (eu_events ed) (Some p) of
      Some q \<Rightarrow> (\<exists>data t. ed_nodes d' (ef_path f) = Some (Regular data 384 t) \<and> saved_text lib f q data) \<or>
        q = p \<and> ed_nodes d' (ef_path f) = ed_nodes d (ef_path f) \<and>
        (ed_faults d = [] \<longrightarrow> fold editor_mtime (eu_events ed) (ed_time d) = ed_time d)
    | None \<Rightarrow> (\<exists>q\<in>written_texts p (eu_events ed). \<exists>data t.
          ed_nodes d' (ef_path f) = Some (Regular data 384 t) \<and> saved_text lib f q data) \<or>
        ed_nodes d' (ef_path f) = ed_nodes d (ef_path f)"
  using assms(2,1)
proof (cases rule: run_session_cases)
  case (ran dir d1 d2)
  have out: "ef_path f \<notin> below dir" by (rule assms(3) [OF ran(1)])
  have "names_ok (ed_names d1)" using assms(1) ran(3) by (simp add: session_ground_def)
  then have "saved_outcome lib f p ed d1 (ed_nodes d2)"
    using edit_in_dir_saves [OF ran(8,7) _ _ assms(4)] out ran(6) by metis
  moreover have "ed_nodes d' (ef_path f) = ed_nodes d2 (ef_path f)" using ran(9) out by simp
  moreover have "ed_nodes d1 (ef_path f) = ed_nodes d (ef_path f)" using ran(2) out by (auto simp: below_def)
  ultimately show ?thesis
    using ran(4,11) by (auto simp: saved_outcome_def holds_saved_def split: option.splits)
qed simp

text \<open>C39: when no system call fails, a session leaves nothing on the disk but the encrypted
  file, whatever the editor does and whether or not it ends in an error: every other path is
  what it was, so the cleartext is gone.\<close>

theorem session_leaves_no_cleartext:
  assumes "session_ground xdg default_dir f d" and "ed_faults d = []"
    and "run_session lib xdg default_dir ed f p d = (r, d')" and "q \<noteq> ef_path f"
  shows "ed_nodes d' q = ed_nodes d q"
  using assms(3,1)
proof (cases rule: run_session_cases)
  case (ran dir d1 d2)
  have n: "names_ok (ed_names d1)" using assms(1) ran(3) by (simp add: session_ground_def)
  have f1: "ed_faults d1 = []" using ran(4) assms(2) by simp
  note I = edit_in_dir_frame [OF ran(8,7) n f1]
  show ?thesis
  proof (cases "q \<in> below dir")
    case True
    with ran(5,10) I show ?thesis by (simp add: elsewhere_def)
  next
    case False
    have "q \<noteq> dir @ ''/'' @ editor_file_name (ef_path f)" "q \<noteq> dir" using False ran(6) by (auto simp: below_def)
    with False ran(2,9) I assms(4) show ?thesis by (simp add: elsewhere_def)
  qed
qed simp

section \<open>Notes, names and the log\<close>

lemma sanitized_note: "list_all note_char (sanitize_note s)"
  unfolding sanitize_note_def note_char_def by (auto simp: list_all_iff)

text \<open>the note revaulter-edit makes up for a request, whatever the name of the file, has
  only characters the server accepts and is not too long.\<close>

lemma request_note_accepted:
  "list_all note_char (request_note [] path) \<and> length (request_note [] path) \<le> max_note_length"
proof -
  have pre: "list_all note_char ''revaulter-edit ''"
    by (simp add: note_char_def byte_kinds byte_def)
  have "set (trim_space ''revaulter-edit '') \<subseteq> set ''revaulter-edit ''"
    unfolding trim_space_def using trim_left_set trim_right_set by blast
  then have trimmed: "list_all note_char (trim_space ''revaulter-edit '')" using pre unfolding list_all_iff by blast
  have len: "length (trim_space ''revaulter-edit '') \<le> 15" using trim_space_length [of "''revaulter-edit ''"] by simp
  define n where "n = sanitize_note (file_base path)"
  have n: "list_all note_char n" unfolding n_def by (rule sanitized_note)
  then have d: "list_all note_char (drop k n)" for k by (auto simp: list_all_iff dest: in_set_dropD)
  show ?thesis
    unfolding request_note_def Let_def n_def [symmetric] using pre trimmed len n d by (simp add: max_note_length_def)
qed

text \<open>A file whose name is two dots and an extension: its temporary file would be the directory
  above the private one.\<close>

lemma strip_dotdot: "strip_extension [''.jwe'', ''.enc'', ''.encrypted''] ''...enc'' = ''..''"
  by (simp add: has_suffix_def lower_byte_def byte_kinds byte_def)

lemma base_dotdot: "file_base ''/u/...enc'' = ''...enc''"
  by (simp add: file_base_def strip_slashes_def last_element_def)

lemma dotdot_file_name: "editor_file_name ''/u/...enc'' = ''..''"
proof -
  have "trim_space ''..'' = ''..''" by (rule trim_space_printable) (simp add: printable_def byte_def)
  then show ?thesis unfolding editor_file_name_def base_dotdot strip_dotdot by simp
qed

text \<open>While the log is paused nothing is written out; nothing is lost or reordered.\<close>

definition pw_ok :: "pausable_writer \<Rightarrow> bool" where
  "pw_ok w \<longleftrightarrow> pw_paused w \<or> pw_buf w = []"

lemma pw_keeps_order:
  assumes "pw_ok w"
  shows "pw_ok (pw_write x w)" "pw_ok (pw_pause w)" "pw_ok (pw_resume w)"
    "pw_out (pw_write x w) @ pw_buf (pw_write x w) = pw_out w @ pw_buf w @ x"
    "pw_out (pw_pause w) @ pw_buf (pw_pause w) = pw_out w @ pw_buf w"
    "pw_out (pw_resume w) = pw_out w @ pw_buf w"
    "pw_paused w \<Longrightarrow> pw_out (pw_write x w) = pw_out w"
  using assms by (auto simp: pw_ok_def pw_write_def pw_pause_def pw_resume_def)

section \<open>Sessions come through\<close>

text \<open>The names the atomic write of a file may pick.\<close>

definition write_temp_names :: "string \<Rightarrow> (nat \<Rightarrow> string) \<Rightarrow> string set" where
  "write_temp_names path names =
     {in_dir (file_dir path) ((''.'' @ file_base path @ ''.'') @ names n) | n. True}"

text \<open>A place for a file: no link and no directory is there, and its directory exists.\<close>

fun file_or_none :: "fs_node option \<Rightarrow> bool" where
  "file_or_none None = True"
| "file_or_none (Some (Regular _ _ _)) = True"
| "file_or_none _ = False"

definition file_place :: "(string \<rightharpoonup> fs_node) \<Rightarrow> string \<Rightarrow> bool" where
  "file_place nodes path \<longleftrightarrow> file_or_none (nodes path) \<and> dir_exists nodes (file_dir path)"

lemma follow_same:
  "follow n nodes p = Inr Directory \<Longrightarrow> (\<And>q. nodes' q \<noteq> nodes q \<Longrightarrow> file_or_none (nodes q)) \<Longrightarrow>
    follow n nodes' p = Inr Directory"
proof (induction n arbitrary: p)
  case 0
  then show ?case
    by (cases "nodes p"; cases "nodes' p = nodes p"; cases "the (nodes p)")
      (fastforce simp: follow.simps [of 0 nodes p] follow.simps [of 0 nodes' p])+
next
  case (Suc n)
  have same: "nodes' p = nodes p"
    using Suc.prems(1) Suc.prems(2) [of p]
    by (cases "nodes p" rule: file_or_none.cases) (auto simp: follow.simps [of "Suc n" nodes p])
  show ?case
  proof (cases "\<exists>q. nodes p = Some (Symlink q)")
    case True
    then obtain q where q: "nodes p = Some (Symlink q)" by blast
    with Suc.prems(1) have "follow n nodes q = Inr Directory" by (simp add: follow.simps [of "Suc n" nodes p])
    from Suc.IH [OF this Suc.prems(2)] q same show ?thesis by (simp add: follow.simps [of "Suc n" nodes' p])
  next
    case False
    with Suc.prems(1) same show ?thesis
      by (cases "nodes p" rule: file_or_none.cases)
        (auto simp: follow.simps [of "Suc n" nodes p] follow.simps [of "Suc n" nodes' p])
  qed
qed

lemma dir_exists_iff: "dir_exists nodes p \<longleftrightarrow> follow 40 nodes p = Inr Directory"
  by (simp add: dir_exists_def split: sum.split fs_node.split)

lemma dir_exists_same:
  "dir_exists nodes p \<Longrightarrow> (\<And>q. nodes' q \<noteq> nodes q \<Longrightarrow> file_or_none (nodes q)) \<Longrightarrow> dir_exists nodes' p"
  unfolding dir_exists_iff by (rule follow_same)

lemma write_file_atomic_succeeds:
  assumes "ed_faults d = []" and "file_place (ed_nodes d) path" and "CHR ''/'' \<notin> set (file_base path)"
    and "\<And>q. q \<in> write_temp_names path (ed_names d) \<Longrightarrow> ed_nodes d q = None"
  shows "fst (write_file_atomic path data d) = Inr ()"
proof -
  let ?tmp = "in_dir (file_dir path) ((''.'' @ file_base path @ ''.'') @ ed_names d (ed_named d))"
  have "?tmp \<in> write_temp_names path (ed_names d)" unfolding write_temp_names_def by blast
  from assms(4) [OF this] have fresh: "ed_nodes d ?tmp = None" .
  have lst: "\<exists>st. lstat path d = (st, d) \<and> \<not> is_symlink st"
    using assms(1,2) by (auto simp: lstat_def sys_call_def is_symlink_def file_place_def split: option.splits fs_node.splits)
  have create: "create_temp_file (file_dir path) (''.'' @ file_base path @ ''.'') d =
      (Inr ?tmp, (put_node ?tmp (Regular [] 384 (ed_time d)) d)\<lparr>ed_named := Suc (ed_named d)\<rparr>)"
    using assms(1-3) fresh by (simp add: create_temp_file_def sys_call_def Let_def file_place_def)
  have body: "fst (temp_body path ?tmp data ((put_node ?tmp (Regular [] 384 (ed_time d)) d)\<lparr>ed_named := Suc (ed_named d)\<rparr>)) = Inr ()"
    using assms(1,2) by (auto simp: temp_body_def go_bind_def chmod_file_def write_open_file_def rename_node_def
      set_data_def put_node_def sys_call_def file_place_def)
  show ?thesis
    using lst create body
    by (auto simp: write_file_atomic_def go_bind_def [of "go_try _"] go_bind_def [of "create_temp_file _ _"] go_try_def
      deferred_def temp_body_def split: prod.splits)
qed

definition can_save :: "edit_lib \<Rightarrow> encrypted_file \<Rightarrow> bool" where
  "can_save lib f \<longleftrightarrow> header_segment lib (ef_key_info f) \<noteq> None \<and> content_cipher_ok (ef_content_key f) \<and>
     CHR ''/'' \<notin> set (file_base (ef_path f))"

lemma save_file_succeeds:
  assumes "ed_faults d = []" and "file_place (ed_nodes d) (ef_path f)" and "can_save lib f"
    and "\<And>q. q \<in> write_temp_names (ef_path f) (ed_names d) \<Longrightarrow> ed_nodes d q = None"
  shows "fst (save_file lib f p d) = Inr ()"
proof -
  obtain s d1 where s: "serialize_file lib f p d = (s, d1)" by fastforce
  have "ed_faults d1 = [] \<and> (\<exists>data. s = Inr data) \<and> ed_nodes d1 = ed_nodes d \<and> ed_names d1 = ed_names d"
    using s assms(1,3) by (auto simp: serialize_file_def can_save_def go_bind_def random_bytes_def sys_call_def split: option.splits)
  with s write_file_atomic_succeeds [of d1 "ef_path f"] assms show ?thesis
    by (auto simp: save_file_def go_bind_def can_save_def)
qed

text \<open>A session without faults: the disk is the one it began with but for two paths, which
  hold files or nothing.\<close>

definition ready ::
  "(nat \<Rightarrow> string) \<Rightarrow> (string \<rightharpoonup> fs_node) \<Rightarrow> encrypted_file \<Rightarrow> string \<Rightarrow> edit_session \<Rightarrow> edit_disk \<Rightarrow> bool" where
  "ready names n0 f temp s d \<longleftrightarrow> es_file s = f \<and> es_temp_path s = temp \<and>
     elsewhere True names n0 {temp, ef_path f} d \<and>
     file_or_none (ed_nodes d temp) \<and> file_or_none (ed_nodes d (ef_path f))"

lemma ready_place:
  assumes "ready names n0 f temp s d" and "file_place n0 (ef_path f)" and "n0 temp = None"
  shows "file_place (ed_nodes d) (ef_path f)"
proof -
  have "dir_exists (ed_nodes d) (file_dir (ef_path f))"
  proof (rule dir_exists_same [of n0])
    show "dir_exists n0 (file_dir (ef_path f))" using assms(2) by (simp add: file_place_def)
    fix q assume "ed_nodes d q \<noteq> n0 q"
    then have "q = temp \<or> q = ef_path f" using assms(1) by (auto simp: ready_def elsewhere_def)
    then show "file_or_none (n0 q)" using assms(2,3) by (auto simp: file_place_def)
  qed
  then show ?thesis using assms(1) by (simp add: file_place_def ready_def)
qed

lemma save_if_changed_succeeds:
  assumes S: "save_if_changed lib s d = ((r, s1), d1)" and R: "ready names n0 f temp s d" and C: "can_save lib f"
    and N: "names_ok names" and ne: "temp \<noteq> ef_path f" and place: "file_place n0 (ef_path f)" "n0 temp = None"
    and fresh: "\<And>q. q \<in> write_temp_names (ef_path f) names \<Longrightarrow> q \<noteq> temp \<and> n0 q = None"
  shows "r = Inr () \<and> ready names n0 f temp s1 d1"
proof -
  have fields: "es_file s = f" "es_temp_path s = temp" "ed_faults d = []" "ed_names d = names"
    using R by (simp_all add: ready_def elsewhere_def)
  have frame: "elsewhere True names n0 {temp, ef_path f} d1 \<and> es_temp_path s1 = temp \<and> es_file s1 = f"
    using save_if_changed_frame [OF S _ N, of n0] R by (simp add: ready_def)
  obtain rd da where rd: "read_file temp d = (rd, da)" by fastforce
  have da: "da = d" using rd fields by (auto simp: read_file_def sys_call_def)
  show ?thesis
  proof (cases rd)
    case (Inl e)
    have "e = err_not_exist"
      using rd R Inl by (cases "ed_nodes d temp" rule: file_or_none.cases)
        (auto simp: ready_def elsewhere_def read_file_def sys_call_def follow.simps [of 40])
    with S rd Inl fields R da show ?thesis by (auto simp: save_if_changed_def)
  next
    case (Inr x)
    obtain u db where u: "unchanged (el_sha256 lib x) s d = (u, db)" by fastforce
    note db = unchanged_same(1) [OF u]
    show ?thesis
    proof (cases u)
      case True
      with S rd Inr u fields da have r: "r = Inr ()" "s1 = s" "d1 = db" by (simp_all add: save_if_changed_def Let_def)
      have "ready names n0 f temp s db" using R db by (simp add: ready_def elsewhere_def)
      with r show ?thesis by simp
    next
      case False
      obtain sv dc where sv: "save_file lib f x db = (sv, dc)" by fastforce
      have off: "q \<noteq> ef_path f" if "q \<in> write_temp_names (ef_path f) names" for q
        using that temp_name_differs [of "ef_path f"] C N by (auto simp: write_temp_names_def can_save_def names_ok_def)
      have none: "ed_nodes db q = None" if "q \<in> write_temp_names (ef_path f) (ed_names db)" for q
        using that fresh off R db fields by (auto simp: ready_def elsewhere_def)
      have f0: "ed_faults db = []" "file_place (ed_nodes db) (ef_path f)" "names_ok (ed_names db)"
        using db fields ready_place [OF R place] N by auto
      have "sv = Inr ()" using save_file_succeeds [OF f0(1,2) C none, of x] sv by simp
      with save_file_cases [OF sv f0(3)] f0(1) ne
      have out: "ed_nodes dc temp = ed_nodes db temp" "file_or_none (ed_nodes dc (ef_path f))" by auto
      from S rd Inr u False sv fields da \<open>sv = Inr ()\<close> have r: "r = Inr ()" "d1 = dc"
        by (auto simp: save_if_changed_def Let_def)
      have "file_or_none (ed_nodes db temp)"
        using R db by (simp add: ready_def)
      with frame r out show ?thesis unfolding ready_def by simp
    qed
  qed
qed

lemma editor_events_ready:
  assumes "ready names n0 f temp s d" and "can_save lib f" and "names_ok names" and "temp \<noteq> ef_path f"
    and "file_place n0 (ef_path f)" and "n0 temp = None"
    and "\<And>q. q \<in> write_temp_names (ef_path f) names \<Longrightarrow> q \<noteq> temp \<and> n0 q = None"
    and "fold (editor_step lib) evs (s, d) = (s1, d1)"
  shows "ready names n0 f temp s1 d1"
  using assms
proof (induction evs arbitrary: s d)
  case (Cons e evs)
  obtain s2 d2 where e: "editor_step lib e (s, d) = (s2, d2)" by fastforce
  have "ready names n0 f temp s2 d2"
  proof (cases e)
    case Poll_Tick
    with e obtain r where "save_if_changed lib s d = ((r, s2), d2)" by (auto split: prod.splits)
    from save_if_changed_succeeds [OF this Cons.prems(1-7)] show ?thesis by simp
  qed (use e Cons.prems(1,4) in \<open>auto simp: ready_def elsewhere_def put_node_def\<close>)
  from Cons.IH [OF this Cons.prems(2-7)] Cons.prems(8) e show ?case by simp
qed simp

lemma edit_in_dir_succeeds:
  assumes fresh: "ed_nodes d temp = None" and faults: "ed_faults d = []" and C: "can_save lib f"
    and N: "names_ok (ed_names d)" and ne: "temp \<noteq> ef_path f" and place: "file_place (ed_nodes d) (ef_path f)"
    and names: "\<And>q. q \<in> write_temp_names (ef_path f) (ed_names d) \<Longrightarrow> q \<noteq> temp \<and> ed_nodes d q = None"
    and ed: "eu_starts ed" "eu_exits_ok ed"
  shows "fst (edit_in_dir lib ed f p temp d) = Inr ()"
proof -
  let ?d = "put_node temp (Regular p 384 (ed_time d)) d"
  have w: "write_whole_file temp p d = (Inr (), ?d)"
    using fresh faults by (simp add: write_whole_file_def sys_call_def Let_def create_with_def resolve_path.simps [of 40])
  have st: "stat_mtime temp ?d = (Inr (ed_time d), ?d)"
    using faults by (simp add: stat_mtime_def sys_call_def put_node_def follow.simps [of 40])
  let ?s = "\<lparr>es_file = f, es_temp_path = temp, es_saved_hash = el_sha256 lib p,
        es_temp_mtime = ed_time d, es_saved = False, es_save_count = 0\<rparr>"
  have R: "ready (ed_names d) (ed_nodes d) f temp ?s ?d"
    using faults place ne by (auto simp: ready_def elsewhere_def put_node_def file_place_def)
  obtain s1 d1 where run: "fold (editor_step lib) (eu_events ed) (?s, ?d) = (s1, d1)" by fastforce
  obtain r s2 d2 where sv: "save_if_changed lib s1 d1 = ((r, s2), d2)" by (metis prod.collapse)
  have "r = Inr ()"
    using save_if_changed_succeeds [OF sv editor_events_ready [OF R C N ne place fresh names run] C N ne place fresh names] by simp
  with w st run sv ed show ?thesis by (simp add: edit_in_dir_def go_bind_def finish_session_def)
qed

lemma session_succeeds:
  assumes "session_ground xdg default_dir f d" and "ed_faults d = []" and "can_save lib f"
    and "file_place (ed_nodes d) (ef_path f)" and "dir_exists (ed_nodes d) default_dir"
    and "\<And>dir. dir \<in> session_dirs xdg default_dir (ed_names d) \<Longrightarrow>
      ed_nodes d dir = None \<and> below dir \<inter> insert (ef_path f) (write_temp_names (ef_path f) (ed_names d)) = {}"
    and "\<And>q. q \<in> write_temp_names (ef_path f) (ed_names d) \<Longrightarrow> ed_nodes d q = None"
    and "eu_starts ed" and "eu_exits_ok ed"
  shows "fst (run_session lib xdg default_dir ed f p d) = Inr ()"
proof -
  obtain r d' where run: "run_session lib xdg default_dir ed f p d = (r, d')" by fastforce
  obtain pd d1 where pd: "new_private_temp_dir xdg default_dir d = (pd, d1)" by fastforce
  have mk: "\<exists>dir d3. mkdir_temp default_dir d2 = (Inr dir, d3)"
    if "ed_nodes d2 = ed_nodes d" "ed_names d2 = ed_names d" "ed_faults d2 = []" for d2
  proof -
    have "in_dir default_dir (''revaulter-edit-'' @ ed_names d (ed_named d2)) \<in> session_dirs xdg default_dir (ed_names d)"
      unfolding session_dirs_def by blast
    from conjunct1 [OF assms(6) [OF this]] that assms(5) show ?thesis by (simp add: mkdir_temp_def sys_call_def Let_def)
  qed
  have "\<exists>dir. pd = Inr dir"
  proof (cases "xdg = []")
    case True
    with pd mk [of d] assms(2) show ?thesis by (auto simp: new_private_temp_dir_def)
  next
    case False
    obtain r2 d2 where 2: "mkdir_temp xdg d = (r2, d2)" by fastforce
    note m = mkdir_temp_cases [OF 2]
    show ?thesis
    proof (cases r2)
      case (Inl e)
      with mk [OF m(3) [OF Inl] m(1) m(2) [OF assms(2)]] pd 2 False show ?thesis
        by (auto simp: new_private_temp_dir_def go_bind_def go_try_def)
    qed (use pd 2 False in \<open>auto simp: new_private_temp_dir_def go_bind_def go_try_def\<close>)
  qed
  from run assms(1) show ?thesis
  proof (cases rule: run_session_cases)
    case (no_dir e)
    with pd \<open>\<exists>dir. pd = Inr dir\<close> show ?thesis by simp
  next
    case (ran dir d1 d2)
    let ?temp = "dir @ ''/'' @ editor_file_name (ef_path f)"
    note apart = assms(6) [OF ran(1)]
    have "dir \<in> below dir" by (simp add: below_def)
    then have off: "q \<noteq> ?temp \<and> q \<noteq> dir" if "q \<in> insert (ef_path f) (write_temp_names (ef_path f) (ed_names d))" for q
      using apart ran(6) that by blast
    have "fst (edit_in_dir lib ed f p ?temp d1) = Inr ()"
    proof (rule edit_in_dir_succeeds [OF ran(7) _ assms(3) _ _ _ _ assms(8,9)])
      show "ed_faults d1 = []" "names_ok (ed_names d1)" using ran(3,4) assms(1,2) by (simp_all add: session_ground_def)
      show "?temp \<noteq> ef_path f" using off [of "ef_path f"] by auto
      have "dir_exists (ed_nodes d1) (file_dir (ef_path f))"
        by (rule dir_exists_same [of "ed_nodes d"]) (use assms(4) ran(2) apart in \<open>auto simp: file_place_def split: if_splits\<close>)
      then show "file_place (ed_nodes d1) (ef_path f)"
        using assms(4) off [of "ef_path f"] ran(2) by (simp add: file_place_def)
      show "q \<noteq> ?temp \<and> ed_nodes d1 q = None" if "q \<in> write_temp_names (ef_path f) (ed_names d1)" for q
        using that off [of q] assms(7) ran(2,3) by auto
    qed
    with ran(8) run show ?thesis by simp
  qed
qed


end
