(* ===== verification/Edit_Samples.thy ===== *)
theory Edit_Samples
  imports Edit_Safety
begin

text \<open>
  Concrete runs of revaulter-edit: a header of lines in place of JSON, a cipher that adds a
  tag of 16 bytes, a disk with two directories.
\<close>

definition line_text :: "string \<Rightarrow> bool" where
  "line_text s \<longleftrightarrow> CHR 0x0A \<notin> set s"

definition sample_encode_header :: "jwe_header \<Rightarrow> string option" where
  "sample_encode_header h = (let i = jh_revaulter h in
     Some (join_with [CHR 0x0A] [jh_alg h, jh_enc h, ri_server i, ri_key_label i, ri_algorithm i,
       ri_wrapped_key i, ri_wrapped_key_nonce i, ri_wrapped_key_tag i]))"

definition sample_decode_header :: "string \<Rightarrow> jwe_header option" where
  "sample_decode_header s = (case split_on CHR 0x0A s of
     [a, e, sv, l, al, k, n, t] \<Rightarrow> Some \<lparr>jh_alg = a, jh_enc = e, jh_revaulter =
       \<lparr>ri_v = header_format_version, ri_server = sv, ri_key_label = l, ri_algorithm = al,
        ri_wrapped_key = k, ri_wrapped_key_nonce = n, ri_wrapped_key_tag = t\<rparr>\<rparr>
   | _ \<Rightarrow> None)"

definition sample_edit :: edit_lib where
  "sample_edit = \<lparr>el_decode_header = sample_decode_header, el_encode_header = sample_encode_header,
     el_seal = (\<lambda>k iv p a. p @ replicate content_tag_size CHR ''t''),
     el_open = (\<lambda>k iv c a. Some (take (length c - content_tag_size) c)), el_sha256 = (\<lambda>x. x)\<rparr>"

lemma sample_edit_laws: "edit_laws line_text sample_edit"
proof -
  have "\<exists>j. j \<noteq> [] \<and> sample_encode_header \<lparr>jh_alg = jose_alg, jh_enc = jose_enc, jh_revaulter = i\<rparr> = Some j \<and>
      sample_decode_header j = Some \<lparr>jh_alg = jose_alg, jh_enc = jose_enc, jh_revaulter = i\<rparr>"
    if "key_info_ok line_text i" for i
  proof -
    let ?ws = "[jose_alg, jose_enc, ri_server i, ri_key_label i, ri_algorithm i, ri_wrapped_key i,
      ri_wrapped_key_nonce i, ri_wrapped_key_tag i]"
    have "split_on CHR 0x0A (join_with [CHR 0x0A] ?ws) = ?ws"
      by (rule split_join)
         (use that in \<open>auto simp: key_info_ok_def line_text_def jose_alg_def jose_enc_def\<close>)
    with that show ?thesis
      by (auto simp: sample_encode_header_def sample_decode_header_def key_info_ok_def jose_alg_def Let_def)
  qed
  then show ?thesis by (simp add: edit_laws_def sample_edit_def)
qed

definition sample_wrapped :: wrapped_key where
  "sample_wrapped = \<lparr>wk_key_label = ''k'', wk_algorithm = ''A'', wk_ciphertext = ''c'', wk_nonce = ''n'', wk_tag = ''t''\<rparr>"

definition sample_key :: string where "sample_key = replicate 32 CHR ''k''"

definition sample_file :: encrypted_file where
  "sample_file = new_encrypted_file ''/h/f'' ''s'' sample_wrapped sample_key"

definition sample_disk :: edit_disk where
  "sample_disk = \<lparr>ed_nodes = [''/t'' \<mapsto> Directory, ''/h'' \<mapsto> Directory], ed_faults = [], ed_time = 0, ed_random = (\<lambda>n. CHR ''r''),
     ed_drawn = 0, ed_names = (\<lambda>n. ''7''), ed_named = 0\<rparr>"

definition sample_wrapper :: "unit key_wrapper" where
  "sample_wrapper = \<lparr>kw_wrap = (\<lambda>l a k n w. Some (Inr sample_wrapped, w)), kw_unwrap = (\<lambda>wk n w. Some (Inr sample_key, w))\<rparr>"

definition sample_open :: open_options where
  "sample_open = \<lparr>oo_path = ''/h/f'', oo_server = ''s'', oo_key_label = [], oo_algorithm = [], oo_note = [], oo_create = False\<rparr>"

lemma sample_info_ok: "key_info_ok line_text (ef_key_info sample_file)"
  unfolding key_info_ok_def line_text_def by code_simp

lemma sample_save:
  "fst (save_file sample_edit sample_file ''hi'' sample_disk) = Inr ()"
  "ed_faults (snd (save_file sample_edit sample_file ''hi'' sample_disk)) = []"
  by code_simp+

theorem saved_file_opens_witness:
  "let d = snd (save_file sample_edit sample_file ''hi'' sample_disk) in
   open_file sample_edit sample_wrapper sample_open d () = Some (Inr (sample_file, ''hi''), d, ())"
proof -
  have s: "save_file sample_edit sample_file ''hi'' sample_disk = (Inr (), snd (save_file sample_edit sample_file ''hi'' sample_disk))"
    using sample_save(1) by (metis prod.collapse)
  have "open_file sample_edit sample_wrapper sample_open (snd (save_file sample_edit sample_file ''hi'' sample_disk)) () =
    Some (Inr (sample_file, ''hi''), snd (save_file sample_edit sample_file ''hi'' sample_disk), ())"
    by (rule saved_file_opens [OF sample_edit_laws sample_info_ok _ _ s sample_save(2), where wk = sample_wrapped])
       (simp_all add: sample_file_def new_file_wrapped_key, simp_all add: new_encrypted_file_def sample_key_def
          content_key_size_def names_ok_def sample_disk_def sample_wrapper_def sample_open_def)
  then show ?thesis by (simp add: Let_def)
qed

section \<open>A session\<close>

definition sample_editor :: editor_run where
  "sample_editor = \<lparr>eu_starts = True, eu_events = [Editor_Writes ''b'' 5, Poll_Tick, Editor_Removes, Poll_Tick,
     Editor_Writes ''c'' 6, Interrupted], eu_exits_ok = True\<rparr>"

lemma sample_editor_name: "editor_file_name ''/h/f'' = ''f''"
proof -
  have "file_base ''/h/f'' = ''f''" by (simp add: file_base_def strip_slashes_def last_element_def)
  moreover have "strip_extension [''.jwe'', ''.enc'', ''.encrypted''] ''f'' = ''f''"
    by (simp add: has_suffix_def lower_byte_def byte_kinds byte_def)
  moreover have "trim_space ''f'' = ''f''" by (rule trim_space_printable) (simp add: printable_def byte_def)
  ultimately show ?thesis by (simp add: editor_file_name_def)
qed

lemma sample_file_path: "ef_path sample_file = ''/h/f''"
  by (simp add: sample_file_def new_encrypted_file_def)

lemma sample_ground: "session_ground [] ''/t'' sample_file sample_disk"
proof -
  have "temp_base_ok ''/t''" unfolding temp_base_ok_def
    by (rule exI [of _ "[''t'']"]) (simp add: plain_part_def)
  moreover have "disk_tree (ed_nodes sample_disk)"
    by (auto simp: disk_tree_def sample_disk_def append_eq_Cons_conv split: if_splits)
  ultimately show ?thesis
    by (simp add: session_ground_def sample_file_path sample_editor_name names_ok_def) (simp add: sample_disk_def)
qed

lemma sample_dirs: "session_dirs [] ''/t'' (ed_names sample_disk) = {''/t/revaulter-edit-7''}"
  by (auto simp: session_dirs_def sample_disk_def in_dir_def has_suffix_def)

lemma sample_write_names: "write_temp_names ''/h/f'' (ed_names sample_disk) = {''/h/.f.7''}"
proof -
  have "file_dir ''/h/f'' = ''/h''" "file_base ''/h/f'' = ''f''"
    by (simp_all add: file_dir_def file_base_def strip_slashes_def last_element_def path_clean_def clean_parts_def clean_step_def)
  then show ?thesis by (simp add: write_temp_names_def sample_disk_def in_dir_def has_suffix_def)
qed

lemma sample_place: "file_place (ed_nodes sample_disk) (ef_path sample_file)" "dir_exists (ed_nodes sample_disk) ''/t''"
proof -
  have "file_dir ''/h/f'' = ''/h''"
    by (simp add: file_dir_def last_element_def path_clean_def clean_parts_def clean_step_def)
  then show "file_place (ed_nodes sample_disk) (ef_path sample_file)" "dir_exists (ed_nodes sample_disk) ''/t''"
    by (simp_all add: file_place_def sample_file_path dir_exists_iff follow.simps [of 40] sample_disk_def)
qed

lemma sample_write_free: "q \<in> write_temp_names (ef_path sample_file) (ed_names sample_disk) \<Longrightarrow> ed_nodes sample_disk q = None"
  unfolding sample_file_path sample_write_names by (simp add: sample_disk_def)

lemma sample_quiet: "ed_faults sample_disk = []" "eu_starts sample_editor" "eu_exits_ok sample_editor"
  by (simp_all add: sample_disk_def sample_editor_def)

lemma sample_apart: "below ''/t/revaulter-edit-7'' \<inter> {''/h/f'', ''/h/.f.7''} = {}"
  by (auto simp: below_def has_prefix_def)

lemma sample_can_save: "can_save sample_edit sample_file"
proof -
  have "file_base ''/h/f'' = ''f''" by (simp add: file_base_def strip_slashes_def last_element_def)
  then show ?thesis
    by (simp add: can_save_def sample_file_path header_segment_def sample_edit_def sample_encode_header_def Let_def
      content_cipher_ok_def sample_file_def new_encrypted_file_def sample_key_def)
qed


lemma sample_edit_run:
  "run_session sample_edit [] ''/t'' sample_editor sample_file ''a'' sample_disk =
    (Inr (), snd (run_session sample_edit [] ''/t'' sample_editor sample_file ''a'' sample_disk))"
proof -
  have "fst (run_session sample_edit [] ''/t'' sample_editor sample_file ''a'' sample_disk) = Inr ()"
  proof (rule session_succeeds [OF sample_ground])
    show "ed_nodes sample_disk dir = None \<and>
        below dir \<inter> insert (ef_path sample_file) (write_temp_names (ef_path sample_file) (ed_names sample_disk)) = {}"
      if "dir \<in> session_dirs [] ''/t'' (ed_names sample_disk)" for dir
      using that sample_apart unfolding sample_dirs sample_file_path sample_write_names by (simp add: sample_disk_def)
  qed (simp_all add: sample_can_save sample_place sample_write_free sample_quiet)
  then show ?thesis by (metis prod.collapse)
qed

theorem session_saves_last_witness:
  "\<exists>d' data t. run_session sample_edit [] ''/t'' sample_editor sample_file ''a'' sample_disk = (Inr (), d') \<and>
     ed_nodes d' ''/h/f'' = Some (Regular data 384 t) \<and> saved_text sample_edit sample_file ''c'' data"
proof -
  let ?d = "snd (run_session sample_edit [] ''/t'' sample_editor sample_file ''a'' sample_disk)"
  have last: "fold editor_text (eu_events sample_editor) (Some ''a'') = Some ''c''"
    by (simp add: sample_editor_def editor_text_def)
  have apart: "ef_path sample_file \<notin> below dir" if "dir \<in> session_dirs [] ''/t'' (ed_names sample_disk)" for dir
    using that sample_apart unfolding sample_dirs sample_file_path by auto
  have inj: "inj_on (el_sha256 sample_edit) (written_texts ''a'' (eu_events sample_editor))"
    by (simp add: sample_edit_def inj_on_def)
  from session_saves_last [OF sample_ground sample_edit_run apart inj] last
  have "\<exists>data t. ed_nodes ?d ''/h/f'' = Some (Regular data 384 t) \<and> saved_text sample_edit sample_file ''c'' data"
    by (simp add: sample_file_path)
  then show ?thesis using sample_edit_run by blast
qed

theorem session_leaves_no_cleartext_witness:
  "\<exists>d'. run_session sample_edit [] ''/t'' sample_editor sample_file ''a'' sample_disk = (Inr (), d') \<and>
     (\<forall>q. q \<noteq> ''/h/f'' \<longrightarrow> ed_nodes d' q = ed_nodes sample_disk q)"
proof -
  from session_leaves_no_cleartext [OF sample_ground sample_quiet(1) sample_edit_run] sample_edit_run
  show ?thesis by (auto simp: sample_file_path)
qed

end
