(* ===== verification/Static_Files.thy ===== *)
theory Static_Files
  imports Server_Common Go_Paths
begin

text \<open>
  Serving the web client (src/internal/server/static.go): the normalization of the request
  path, the lookup in the embedded files, redirects, the cache and security headers.

  The embedded file system is the argument \<open>fs\<close>: for a name, \<open>None\<close> when \<open>Open\<close> fails,
  else what \<open>Stat\<close> says.  \<open>http.ServeContent\<close> is the standard library's; a served file is
  the reply \<open>Static_File\<close> with its name.
\<close>

section \<open>Paths and replies\<close>

datatype stat_error = Stat_Not_Exist | Stat_Permission | Stat_Other go_error
datatype fs_entry = Fs_Dir | Fs_File bool

type_synonym file_system = "string \<Rightarrow> (stat_error + fs_entry) option"

datatype static_reply =
    Static_File string bool
  | Static_Redirect string
  | Static_Error go_error

definition static_base_dir :: string where "static_base_dir = ''dist''"

text \<open>The normalized request path, without its leading slash.\<close>

definition slash_byte :: "char \<Rightarrow> char" where
  "slash_byte c = (if c = CHR 0x5C then CHR ''/'' else c)"

definition static_path :: "string \<Rightarrow> string" where
  "static_path p = drop 1 (path_clean (CHR ''/'' # map slash_byte p))"

definition safe_redirect_location :: "string \<Rightarrow> static_reply" where
  "safe_redirect_location q = Static_Redirect (CHR ''/'' # q @ ''/'')"

definition page_not_found :: static_reply where
  "page_not_found = Static_Error (Err_Response 404 ''Page not found'')"

definition is_page :: "string \<Rightarrow> bool" where
  "is_page q = (go_to_lower (path_ext q) \<in> {''.html'', ''.htm''})"

section \<open>What the normalization gives\<close>

definition static_parts :: "string \<Rightarrow> string list" where
  "static_parts p = clean_parts True [] (split_on CHR ''/'' (map slash_byte p))"

definition static_part :: "string \<Rightarrow> bool" where
  "static_part w \<longleftrightarrow> plain_part w \<and> CHR 0x5C \<notin> set w"

lemma static_path_parts: "static_path p = join_with ''/'' (static_parts p)"
  by (simp add: static_path_def static_parts_def path_clean_def clean_step_def)

lemma static_parts_plain: "list_all static_part (static_parts p)"
proof -
  have plain: "list_all plain_part (static_parts p)"
    unfolding static_parts_def using split_on_parts by (intro clean_parts_plain) auto
  have "w \<in> set (static_parts p) \<Longrightarrow> set w \<subseteq> slash_byte ` set p" for w
    using clean_parts_set [of True "[]" "split_on CHR ''/'' (map slash_byte p)"] split_on_subset
    unfolding static_parts_def by fastforce
  moreover have "CHR 0x5C \<notin> slash_byte ` set p" by (auto simp: slash_byte_def)
  ultimately show ?thesis using plain by (auto simp: list_all_iff static_part_def)
qed

lemma static_plain: "list_all static_part ps \<Longrightarrow> list_all plain_part ps"
  by (auto simp: list_all_iff static_part_def)

text \<open>A non-empty normalized path never ends with a slash.\<close>

lemma static_path_no_trailing_slash: "has_suffix (static_path p) ''/'' \<Longrightarrow> static_path p = []"
proof (rule ccontr)
  assume s: "has_suffix (static_path p) ''/''" and "static_path p \<noteq> []"
  then have "static_parts p \<noteq> []" by (auto simp: static_path_parts)
  from join_plain_ends [OF static_plain [OF static_parts_plain] this]
  show False using s by (auto simp: static_path_parts has_suffix_iff)
qed

lemma static_path_index: "static_path ''index.html'' = ''index.html''"
  by (simp add: static_path_parts static_parts_def slash_byte_def clean_step_def)

lemma join_index: "path_join [[], ''index.html''] = ''index.html''"
  by (simp add: path_join_def path_clean_def clean_step_def)

section \<open>Serving\<close>

function serve_static_files :: "file_system \<Rightarrow> string \<Rightarrow> static_reply" where
  "serve_static_files fs p =
    (let q = static_path p in
     case fs (static_base_dir @ ''/'' @ q) of
       None \<Rightarrow>
         if q \<noteq> ''index.html'' \<and> \<not> has_suffix q ''/index.html''
         then if q \<noteq> [] \<and> \<not> has_suffix q ''/'' then safe_redirect_location q
              else serve_static_files fs (path_join [q, ''index.html''])
         else page_not_found
     | Some (Inl Stat_Not_Exist) \<Rightarrow> page_not_found
     | Some (Inl Stat_Permission) \<Rightarrow> Static_Error (Err_Response 403 ''Forbidden'')
     | Some (Inl (Stat_Other e)) \<Rightarrow> Static_Error e
     | Some (Inr Fs_Dir) \<Rightarrow>
         if q \<noteq> [] \<and> \<not> has_suffix q ''/'' then safe_redirect_location q
         else serve_static_files fs (path_join [q, ''index.html''])
     | Some (Inr (Fs_File seekable)) \<Rightarrow>
         if \<not> seekable then Static_Error (Err_Msg ''file does not implement io.ReadSeekCloser'')
         else Static_File (static_base_dir @ ''/'' @ q) (is_page q))"
  by pat_completeness auto

termination
proof (relation "measure (\<lambda>(fs, p). if static_path p = [] then 1 else 0)")
qed (use static_path_no_trailing_slash in \<open>auto simp: join_index static_path_index\<close>)

declare serve_static_files.simps [simp del]

section \<open>The handler chain\<close>

text \<open>The conditional request: \<open>time.Parse\<close> of the header, and the time of the build.\<close>

definition is_not_modified :: "(string \<Rightarrow> go_time option) \<Rightarrow> go_time \<Rightarrow> string \<Rightarrow> bool" where
  "is_not_modified parse_rfc1123 build_time ims \<longleftrightarrow>
    ims \<noteq> [] \<and> (case parse_rfc1123 ims of None \<Rightarrow> False | Some d \<Rightarrow> d > build_time)"

record client_files =
  cf_fs :: file_system
  cf_disable_cache :: bool
  cf_build_time :: go_time
  cf_parse_date :: "string \<Rightarrow> go_time option"
  cf_format_date :: "go_time \<Rightarrow> string"

definition cache_max_age :: int where "cache_max_age = 30 * 86400"

definition client_cache_headers :: "client_files \<Rightarrow> string \<Rightarrow> (string \<times> string) list option" where
  "client_cache_headers cf ims =
    (if cf_disable_cache cf then Some [(''Cache-Control'', ''no-cache'')]
     else if is_not_modified (cf_parse_date cf) (cf_build_time cf) ims then None
     else Some ((''Cache-Control'', ''public, max-age='' @ format_int cache_max_age)
       # (let lm = cf_format_date cf (cf_build_time cf) in if lm \<noteq> [] then [(''Last-Modified'', lm)] else [])))"

definition page_security_headers :: "(string \<times> string) list" where
  "page_security_headers =
    [(''Content-Security-Policy'',
      ''default-src 'none'; script-src 'self' 'wasm-unsafe-eval'; style-src 'self'; img-src 'self'; font-src 'self'; '' @
      ''connect-src 'self'; manifest-src 'self'; worker-src 'self'; frame-ancestors 'none'; base-uri 'none'; form-action 'none'' @ [CHR 0x27]),
     (''X-Frame-Options'', ''DENY''), (''Permissions-Policy'', ''interest-cohort=()''), (''X-Robots-Tag'', ''noindex, nofollow'')]"

datatype client_answer = Not_Modified | Client_Answer "(string \<times> string) list" static_reply

definition serve_client :: "client_files \<Rightarrow> string \<Rightarrow> string \<Rightarrow> string \<Rightarrow> client_answer" where
  "serve_client cf method path ims =
    (case client_cache_headers cf ims of
       None \<Rightarrow> Not_Modified
     | Some hs \<Rightarrow>
         if method \<noteq> ''GET'' then Client_Answer hs (Static_Error (Err_Response 404 ''Not found''))
         else (case serve_static_files (cf_fs cf) path of
                 Static_File f page \<Rightarrow> Client_Answer (hs @ (if page then page_security_headers else [])) (Static_File f page)
               | r \<Rightarrow> Client_Answer hs r))"

section \<open>Properties\<close>

lemma join_head_part:
  assumes "list_all static_part ps" and "ps \<noteq> []"
  shows "hd (join_with ''/'' ps) \<notin> {CHR ''/'', CHR 0x5C}" "join_with ''/'' ps \<noteq> []"
proof -
  obtain w ws where ps: "ps = w # ws" using assms(2) by (cases ps) auto
  then have w: "static_part w" using assms(1) by simp
  have "hd (join_with ''/'' ps) = hd w" using ps w by (cases ws) (auto simp: static_part_def plain_part_def)
  moreover have "hd w \<in> set w" using w by (simp add: static_part_def plain_part_def)
  ultimately show "hd (join_with ''/'' ps) \<notin> {CHR ''/'', CHR 0x5C}"
    using w unfolding static_part_def plain_part_def by (metis empty_iff insert_iff)
  show "join_with ''/'' ps \<noteq> []" using join_plain_ends [OF static_plain [OF assms(1)] assms(2)] by simp
qed

definition confined :: "file_system \<Rightarrow> static_reply \<Rightarrow> bool" where
  "confined fs r \<longleftrightarrow>
    (case r of
       Static_File f page \<Rightarrow> fs f = Some (Inr (Fs_File True))
         \<and> (\<exists>ps. list_all static_part ps \<and> f = ''dist/'' @ join_with ''/'' ps)
     | Static_Redirect l \<Rightarrow> (\<exists>ps. list_all static_part ps \<and> l = CHR ''/'' # join_with ''/'' ps @ ''/'')
         \<and> length l \<ge> 3 \<and> l ! 1 \<notin> {CHR ''/'', CHR 0x5C}
     | Static_Error e \<Rightarrow> True)"

lemma confined_replies:
  "confined fs (Static_Error e)" "confined fs page_not_found"
  "static_path p \<noteq> [] \<Longrightarrow> confined fs (safe_redirect_location (static_path p))"
  "fs (static_base_dir @ ''/'' @ static_path p) = Some (Inr (Fs_File True))
    \<Longrightarrow> confined fs (Static_File (static_base_dir @ ''/'' @ static_path p) page)"
proof -
  let ?ps = "static_parts p"
  have parts: "static_path p = join_with ''/'' ?ps" "list_all static_part ?ps"
    by (rule static_path_parts, rule static_parts_plain)
  show "confined fs (Static_Error e)" "confined fs page_not_found" by (simp_all add: confined_def page_not_found_def)
  show "fs (static_base_dir @ ''/'' @ static_path p) = Some (Inr (Fs_File True))
    \<Longrightarrow> confined fs (Static_File (static_base_dir @ ''/'' @ static_path p) page)"
    using parts by (auto simp: confined_def static_base_dir_def)
  assume ne: "static_path p \<noteq> []"
  then have "?ps \<noteq> []" using parts(1) by auto
  from join_head_part [OF parts(2) this] ne have "(CHR ''/'' # static_path p @ ''/'') ! 1 \<notin> {CHR ''/'', CHR 0x5C}"
    by (cases "static_path p") (auto simp: parts(1) [symmetric])
  moreover have "length (CHR ''/'' # static_path p @ ''/'') \<ge> 3" using ne by (cases "static_path p") auto
  ultimately show "confined fs (safe_redirect_location (static_path p))"
    using parts unfolding confined_def safe_redirect_location_def static_reply.case by blast
qed

lemma served_confined: "confined fs (serve_static_files fs p)"
proof (induction fs p rule: serve_static_files.induct)
  case (1 fs p)
  note step = serve_static_files.simps [of fs p, unfolded Let_def]
  note leaves = confined_replies(1) [of fs] confined_replies(2) [of fs] confined_replies(3) [of p fs] confined_replies(4) [of fs p]
  show ?case
  proof (cases "fs (static_base_dir @ ''/'' @ static_path p)")
    case None
    show ?thesis using leaves(2,3) "1.IH"(1) [OF refl None] unfolding step None option.case by auto
  next
    case (Some z)
    show ?thesis
      using leaves "1.IH"(2) [OF refl Some] unfolding step Some option.case
      by (cases z) (auto simp: Some split: stat_error.split fs_entry.split)
  qed
qed

text \<open>
  What a browser makes of a redirect: net/http writes line breaks in a header as spaces, the
  browser's URL parser drops tabs and line breaks and takes two slashes or backslashes at the
  start for the beginning of a host name.
\<close>

definition written_header :: "string \<Rightarrow> string" where
  "written_header v = map (\<lambda>c. if c = CHR 0x0A \<or> c = CHR 0x0D then CHR '' '' else c) v"

definition url_without_breaks :: "string \<Rightarrow> string" where
  "url_without_breaks v = List.filter (\<lambda>c. c \<noteq> CHR 0x09 \<and> c \<noteq> CHR 0x0A \<and> c \<noteq> CHR 0x0D) v"

definition names_other_host :: "string \<Rightarrow> bool" where
  "names_other_host l = (case url_without_breaks (written_header l) of
      a # b # _ \<Rightarrow> a \<in> {CHR ''/'', CHR 0x5C} \<and> b \<in> {CHR ''/'', CHR 0x5C}
    | _ \<Rightarrow> False)"

lemma redirect_location:
  "serve_static_files fs p = Static_Redirect l \<Longrightarrow> set l \<subseteq> insert (CHR ''/'') (set p \<union> set ''index.html'')"
proof (induction fs p rule: serve_static_files.induct)
  case (1 fs p)
  have "set (static_path p) \<subseteq> insert (CHR ''/'') (set p)"
  proof -
    have parts: "w \<in> set (static_parts p) \<Longrightarrow> set w \<subseteq> slash_byte ` set p" for w
      using clean_parts_set [of True "[]" "split_on CHR ''/'' (map slash_byte p)"] split_on_subset
      unfolding static_parts_def by fastforce
    have join: "set (join_with ''/'' ws) \<subseteq> insert (CHR ''/'') (\<Union> (set ` set ws))" for ws
      by (induction "''/''" ws rule: join_with.induct) auto
    have "slash_byte c \<in> insert (CHR ''/'') (set p)" if "c \<in> set p" for c using that by (simp add: slash_byte_def)
    with parts join [of "static_parts p"] show ?thesis unfolding static_path_parts by blast
  qed
  then have leaf: "safe_redirect_location (static_path p) = Static_Redirect l \<Longrightarrow> set l \<subseteq> insert (CHR ''/'') (set p)"
    by (auto simp: safe_redirect_location_def)
  have index: "set (path_join [static_path p, ''index.html'']) \<subseteq> set ''index.html''"
    if "static_path p = [] \<or> has_suffix (static_path p) ''/''"
    using that static_path_no_trailing_slash [of p] by (auto simp: join_index)
  show ?case
    using "1.prems" [unfolded serve_static_files.simps [of fs p]] leaf index "1.IH"
    by (fastforce simp: Let_def page_not_found_def split: option.splits sum.splits stat_error.splits fs_entry.splits if_splits)
qed

lemma no_tab_no_host:
  assumes "confined fs (Static_Redirect l)" and "CHR 0x09 \<notin> set l"
  shows "\<not> names_other_host l"
proof -
  obtain a b rest where l: "l = a # b # rest" "b \<notin> {CHR ''/'', CHR 0x5C}"
    using assms(1) by (cases l; cases "tl l") (auto simp: confined_def)
  have "url_without_breaks (written_header l) = written_header l"
    using assms(2) unfolding url_without_breaks_def filter_id_conv by (auto simp: written_header_def)
  then show ?thesis using l by (auto simp: names_other_host_def written_header_def)
qed

text \<open>C28: Whatever path a client asks for, a file that is served lies below the embedded directory, its name has no
  empty, dot or dot-dot element and no backslash, and it is a file of the embedded tree; a redirect is to a
  path of one slash, then a byte that is no slash and no backslash; and a browser does not take it for the
  address of another host, unless the path has a tab: a browser drops it, and then the redirect does
  leave the server (\<open>tab_redirect_leaves\<close>).\<close>

theorem static_files_confined:
  "confined fs (serve_static_files fs p)
   \<and> (\<forall>l. serve_static_files fs p = Static_Redirect l \<longrightarrow> names_other_host l \<longrightarrow> CHR 0x09 \<in> set p)"
proof (intro conjI allI impI served_confined)
  fix l assume r: "serve_static_files fs p = Static_Redirect l" and h: "names_other_host l"
  have "CHR 0x09 \<in> set l"
    using no_tab_no_host [of fs l] served_confined [of fs p] r h by auto
  then show "CHR 0x09 \<in> set p" using redirect_location [OF r] by auto
qed

lemma tab_redirect_leaves:
  "serve_static_files (\<lambda>_. None) (''/'' @ [CHR 0x09] @ ''/evil.com'') = Static_Redirect (''/'' @ [CHR 0x09] @ ''/evil.com/'')"
  "names_other_host (''/'' @ [CHR 0x09] @ ''/evil.com/'')"
proof -
  have "static_path (''/'' @ [CHR 0x09] @ ''/evil.com'') = [CHR 0x09] @ ''/evil.com''"
    by (simp add: static_path_parts static_parts_def slash_byte_def clean_step_def)
  then show "serve_static_files (\<lambda>_. None) (''/'' @ [CHR 0x09] @ ''/evil.com'') = Static_Redirect (''/'' @ [CHR 0x09] @ ''/evil.com/'')"
    by (subst serve_static_files.simps) (simp add: Let_def has_suffix_def safe_redirect_location_def)
  show "names_other_host (''/'' @ [CHR 0x09] @ ''/evil.com/'')"
    by (simp add: names_other_host_def url_without_breaks_def written_header_def)
qed

theorem static_files_confined_witness:
  "serve_static_files (\<lambda>_. None) ''/docs'' = Static_Redirect ''/docs/'' \<and> \<not> names_other_host ''/docs/''"
proof -
  have "static_path ''/docs'' = ''docs''"
    by (simp add: static_path_parts static_parts_def slash_byte_def clean_step_def)
  then have r: "serve_static_files (\<lambda>_. None) ''/docs'' = Static_Redirect ''/docs/''"
    by (subst serve_static_files.simps) (simp add: Let_def has_suffix_def safe_redirect_location_def)
  with static_files_confined [of "\<lambda>_. None" "''/docs''"] show ?thesis by auto
qed

text \<open>
  The redirect adds the slash that the normalization of the next request removes: every
  redirect leads to itself, so a directory other than the root is never served, nor is a
  missing page answered with \<open>404\<close>.
\<close>

lemma split_on_snoc: "split_on c (w @ [c]) = split_on c w @ [[]]"
proof (induction w)
  case (Cons x w)
  obtain v vs where "split_on c w = v # vs" by (cases "split_on c w") auto
  then show ?case using Cons by simp
qed simp

lemma join_no_backslash: "list_all static_part ps \<Longrightarrow> CHR 0x5C \<notin> set (join_with ''/'' ps)"
  by (induction "''/''" ps rule: join_with.induct) (auto simp: static_part_def)

lemma static_parts_redirect:
  assumes "list_all static_part ps"
  shows "static_parts (CHR ''/'' # join_with ''/'' ps @ ''/'') = ps"
proof (cases "ps = []")
  case False
  have "map slash_byte (join_with ''/'' ps) = join_with ''/'' ps"
    using join_no_backslash [OF assms] by (intro map_idI) (auto simp: slash_byte_def)
  moreover have "split_on CHR ''/'' (join_with ''/'' ps @ ''/'') = ps @ [[]]"
    using split_join_plain [OF static_plain [OF assms] False] by (simp add: split_on_snoc)
  ultimately show ?thesis
    using clean_parts_id [OF static_plain [OF assms], of True "[]"]
    by (simp add: static_parts_def clean_parts_append slash_byte_def [of "CHR ''/''"] clean_step_def)
qed (simp add: static_parts_def slash_byte_def clean_step_def)

lemma static_path_redirect: "static_path (CHR ''/'' # static_path p @ ''/'') = static_path p"
  using static_parts_redirect [OF static_parts_plain, of p] by (simp add: static_path_parts)

lemma static_redirect_repeats:
  "serve_static_files fs p = Static_Redirect l \<Longrightarrow> serve_static_files fs l = Static_Redirect l"
proof (induction fs p rule: serve_static_files.induct)
  case (1 fs p)
  have same: "serve_static_files fs (CHR ''/'' # static_path p @ ''/'') = serve_static_files fs p"
    by (subst (1 2) serve_static_files.simps) (simp only: static_path_redirect)
  show ?case
    using "1.prems" [unfolded serve_static_files.simps [of fs p]] "1.prems" "1.IH"
    by (auto simp: Let_def safe_redirect_location_def page_not_found_def same
        split: option.splits sum.splits stat_error.splits fs_entry.splits if_splits)
qed

text \<open>
  A browser that has the file sends back the \<open>Last-Modified\<close> it got.  That time is not after
  the build, so the file is sent again: the answer \<open>304\<close> is given only to later dates.
\<close>

lemma echoed_last_modified_sent_again:
  assumes "cf_parse_date cf (cf_format_date cf (cf_build_time cf)) = Some d" and "d \<le> cf_build_time cf"
  shows "serve_client cf method path (cf_format_date cf (cf_build_time cf)) \<noteq> Not_Modified"
  using assms
  by (auto simp: serve_client_def client_cache_headers_def is_not_modified_def split: static_reply.splits option.splits)

end
