(* ===== verification/Routing.thy ===== *)
theory Routing
  imports Static_Files
begin

text \<open>
  The routing table of the server and its middleware chains (\<open>initAppServer\<close> in
  src/internal/server/server.go, middlewares.go, middleware-ratelimit.go).  A route carries the
  middlewares of its groups in order; a middleware lets the request pass, with what it puts
  in the context, or ends it.  Matching a path is the router library's, the argument
  \<open>lookup\<close>; so is the counting of the rate limiters.
\<close>

section \<open>Middlewares\<close>

datatype rate_limiter = Limit_Request | Limit_Auth | Limit_Public_Key

datatype middleware =
    Mw_Recovery | Mw_Max_Body nat | Mw_Location
  | Mw_Tracing | Mw_Request_Id | Mw_No_Cache | Mw_Metrics | Mw_Logger
  | Mw_Csrf | Mw_Session bool | Mw_Rate_Limit rate_limiter | Mw_Request_Key

text \<open>\<open>gin.Context\<close> as far as the middlewares read and write it.\<close>

record web_request =
  wr_method :: string
  wr_path :: string
  wr_host :: string
  wr_authorization :: string
  wr_cookies :: "string \<Rightarrow> string option"
  wr_client_ip :: string
  wr_remote_ip :: string
  wr_secure :: bool
  wr_sec_fetch_site :: string
  wr_origin :: string
  wr_request_id :: string

record web_context =
  wx_request_id :: string
  wx_session :: "(string \<times> int) option"
  wx_request_user :: "user option"

record ('ip, 'net) web_env =
  we_net :: "('ip, 'net) net_lib"
  we_parse_token :: "string \<Rightarrow> auth_session_token option"
  we_now :: go_time
  we_url_host :: "string \<Rightarrow> string option"
  we_over_limit :: "rate_limiter \<Rightarrow> string \<Rightarrow> bool"
  we_trusted_request_id_header :: bool
  we_uuid :: string

text \<open>\<open>validateTrustedRequestID\<close>: a rune outside ASCII is none of the allowed ones.\<close>

definition request_id_char :: "char \<Rightarrow> bool" where
  "request_id_char c \<longleftrightarrow> is_lower c \<or> is_upper c \<or> is_digit c \<or> c \<in> set ''._:-''"

definition validate_trusted_request_id :: "string \<Rightarrow> bool" where
  "validate_trusted_request_id v \<longleftrightarrow> v \<noteq> [] \<and> length v \<le> 128 \<and> list_all request_id_char v"

definition get_request_id :: "('ip, 'net) web_env \<Rightarrow> web_request \<Rightarrow> string" where
  "get_request_id env req =
    (let v = trim_space (wr_request_id req) in
     if we_trusted_request_id_header env \<and> validate_trusted_request_id v then v else we_uuid env)"

text \<open>
  \<open>http.CrossOriginProtection\<close> of Go's standard library, with no exemptions configured:
  safe methods pass; then the fetch metadata decide, or the origin when there are none.
\<close>

definition cross_origin_ok :: "('ip, 'net) web_env \<Rightarrow> web_request \<Rightarrow> bool" where
  "cross_origin_ok env req \<longleftrightarrow>
     wr_method req \<in> {''GET'', ''HEAD'', ''OPTIONS''}
   \<or> wr_sec_fetch_site req \<in> {''same-origin'', ''none''}
   \<or> wr_sec_fetch_site req = []
     \<and> (wr_origin req = [] \<or> we_url_host env (wr_origin req) = Some (wr_host req))"

definition bearer_authenticated :: "web_request \<Rightarrow> bool" where
  "bearer_authenticated req \<longleftrightarrow>
     length (wr_authorization req) > 7 \<and> go_to_lower (take 7 (wr_authorization req)) = ''bearer ''"

definition middleware_csrf :: "('ip, 'net) web_env \<Rightarrow> web_request \<Rightarrow> unit go_result" where
  "middleware_csrf env req =
    (if bearer_authenticated req \<or> cross_origin_ok env req then Inr ()
     else Inl (Err_Response 403 ''cross-origin request detected''))"

definition middleware_rate_limit :: "('ip, 'net) web_env \<Rightarrow> rate_limiter \<Rightarrow> web_request \<Rightarrow> unit go_result" where
  "middleware_rate_limit env l req =
    (let ip = (if wr_client_ip req = [] then wr_remote_ip req else wr_client_ip req) in
     if we_over_limit env l ip then Inl (Err_Response 429 ''Too Many Requests'') else Inr ())"

fun run_middleware :: "('ip, 'net) web_env \<Rightarrow> web_request \<Rightarrow> middleware \<Rightarrow> web_context \<Rightarrow> web_context db_op" where
  "run_middleware env req Mw_Request_Id cx = go_return (cx\<lparr>wx_request_id := get_request_id env req\<rparr>)"
| "run_middleware env req Mw_Csrf cx = go_bind (go_lift (middleware_csrf env req)) (\<lambda>_. go_return cx)"
| "run_middleware env req (Mw_Session ready) cx =
    go_bind (go_lift (middleware_session (we_parse_token env) (we_now env) (wr_secure req) (wr_authorization req)
      (wr_cookies req) ready)) (\<lambda>v. go_return (cx\<lparr>wx_session := Some v\<rparr>))"
| "run_middleware env req (Mw_Rate_Limit l) cx = go_bind (go_lift (middleware_rate_limit env l req)) (\<lambda>_. go_return cx)"
| "run_middleware env req Mw_Request_Key cx =
    go_bind (middleware_request_key (we_net env) (wr_authorization req) (wr_client_ip req))
      (\<lambda>u. go_return (cx\<lparr>wx_request_user := Some u\<rparr>))"
| "run_middleware env req _ cx = go_return cx"

fun run_chain :: "('ip, 'net) web_env \<Rightarrow> web_request \<Rightarrow> middleware list \<Rightarrow> web_context \<Rightarrow> web_context db_op" where
  "run_chain env req [] cx = go_return cx"
| "run_chain env req (m # ms) cx = go_bind (run_middleware env req m cx) (run_chain env req ms)"

section \<open>Routes\<close>

datatype handler =
    H_Healthz | H_Info | H_Info_Integrity
  | H_Request_Create string | H_Request_Pubkey | H_Request_Signing_Pubkey | H_Request_Result
  | H_Signing_Key_Public
  | H_Api_List | H_Api_Request_Get | H_Api_Confirm | H_Api_Signing_Key_List | H_Api_Signing_Key_Create
  | H_Api_Signing_Key_Get | H_Api_Signing_Key_Update | H_Api_Signing_Key_Delete | H_Api_Audit_Events
  | H_Register_Begin | H_Register_Finish | H_Login_Begin | H_Login_Finish
  | H_Session | H_Finalize_Signup | H_Allowed_IPs | H_Regenerate_Request_Key | H_Update_Display_Name
  | H_Update_Wrapped_Key | H_List_Credentials | H_Add_Credential_Begin | H_Add_Credential_Finish
  | H_Rename_Credential | H_Delete_Credential | H_Logout
  | H_Static

record route =
  rt_method :: string
  rt_path :: string
  rt_chain :: "middleware list"
  rt_handler :: handler

record route_config =
  rc_tracing :: bool
  rc_metrics :: bool
  rc_log_health_checks :: bool
  rc_disable_client_serving :: bool

text \<open>\<open>Group\<close> and \<open>Use\<close>: a prefix and the middlewares so far, before those of the route itself.\<close>

definition route_in :: "string \<Rightarrow> middleware list \<Rightarrow> string \<times> string \<times> middleware list \<times> handler \<Rightarrow> route" where
  "route_in base chain = (\<lambda>(m, p, ms, h). \<lparr>rt_method = m, rt_path = base @ p, rt_chain = chain @ ms, rt_handler = h\<rparr>)"

definition app_middlewares :: "middleware list" where
  "app_middlewares = [Mw_Recovery, Mw_Max_Body (2 ^ 20), Mw_Location]"

definition standard_middlewares :: "route_config \<Rightarrow> middleware list" where
  "standard_middlewares rc =
    (if rc_tracing rc then [Mw_Tracing] else []) @ [Mw_Request_Id, Mw_No_Cache]
    @ (if rc_metrics rc then [Mw_Metrics] else []) @ [Mw_Logger]"

definition healthz_routes :: "route_config \<Rightarrow> route list" where
  "healthz_routes rc =
    map (route_in ''/healthz'' (app_middlewares @ [Mw_No_Cache] @ (if rc_metrics rc then [Mw_Metrics] else [])
          @ (if rc_log_health_checks rc then [Mw_Logger] else [])))
      [(''GET'', '''', [], H_Healthz)]"

definition info_routes :: "route_config \<Rightarrow> route list" where
  "info_routes rc =
    map (route_in ''/info'' (app_middlewares @ standard_middlewares rc))
      [(''GET'', '''', [], H_Info), (''GET'', ''/integrity'', [], H_Info_Integrity)]"

definition v2_chain :: "route_config \<Rightarrow> middleware list" where
  "v2_chain rc = app_middlewares @ standard_middlewares rc"

definition request_routes :: "route_config \<Rightarrow> route list" where
  "request_routes rc =
    map (route_in ''/v2/request'' (v2_chain rc @ [Mw_Rate_Limit Limit_Request, Mw_Request_Key]))
      [(''POST'', ''/encrypt'', [], H_Request_Create ''encrypt''),
       (''POST'', ''/decrypt'', [], H_Request_Create ''decrypt''),
       (''POST'', ''/sign'', [], H_Request_Create ''sign''),
       (''GET'', ''/pubkey'', [], H_Request_Pubkey),
       (''GET'', ''/signing-pubkey'', [], H_Request_Signing_Pubkey),
       (''GET'', ''/result/:state'', [], H_Request_Result)]"

definition signing_key_routes :: "route_config \<Rightarrow> route list" where
  "signing_key_routes rc =
    map (route_in ''/v2/signing-keys'' (v2_chain rc @ [Mw_Rate_Limit Limit_Public_Key]))
      [(''GET'', ''/:filename'', [], H_Signing_Key_Public)]"

definition api_routes :: "route_config \<Rightarrow> route list" where
  "api_routes rc =
    map (route_in ''/v2/api'' (v2_chain rc @ [Mw_Csrf, Mw_Session True]))
      [(''GET'', ''/list'', [], H_Api_List),
       (''GET'', ''/request/:state'', [], H_Api_Request_Get),
       (''POST'', ''/confirm'', [], H_Api_Confirm),
       (''GET'', ''/signing-keys'', [], H_Api_Signing_Key_List),
       (''POST'', ''/signing-keys'', [], H_Api_Signing_Key_Create),
       (''GET'', ''/signing-keys/:id'', [], H_Api_Signing_Key_Get),
       (''POST'', ''/signing-keys/:id'', [], H_Api_Signing_Key_Update),
       (''DELETE'', ''/signing-keys/:id'', [], H_Api_Signing_Key_Delete),
       (''GET'', ''/audit-events'', [], H_Api_Audit_Events)]"

definition auth_routes :: "route_config \<Rightarrow> route list" where
  "auth_routes rc =
    map (route_in ''/v2/auth'' (v2_chain rc @ [Mw_Csrf, Mw_Rate_Limit Limit_Auth]))
      [(''POST'', ''/register/begin'', [], H_Register_Begin),
       (''POST'', ''/register/finish'', [], H_Register_Finish),
       (''POST'', ''/login/begin'', [], H_Login_Begin),
       (''POST'', ''/login/finish'', [], H_Login_Finish),
       (''GET'', ''/session'', [Mw_Session True], H_Session),
       (''POST'', ''/finalize-signup'', [Mw_Session False], H_Finalize_Signup),
       (''POST'', ''/allowed-ips'', [Mw_Session True], H_Allowed_IPs),
       (''POST'', ''/regenerate-request-key'', [Mw_Session True], H_Regenerate_Request_Key),
       (''POST'', ''/update-display-name'', [Mw_Session True], H_Update_Display_Name),
       (''POST'', ''/update-wrapped-key'', [Mw_Session True], H_Update_Wrapped_Key),
       (''GET'', ''/credentials'', [Mw_Session True], H_List_Credentials),
       (''POST'', ''/credentials/add/begin'', [Mw_Session True], H_Add_Credential_Begin),
       (''POST'', ''/credentials/add/finish'', [Mw_Session True], H_Add_Credential_Finish),
       (''POST'', ''/credentials/rename'', [Mw_Session True], H_Rename_Credential),
       (''POST'', ''/credentials/delete'', [Mw_Session True], H_Delete_Credential),
       (''POST'', ''/logout'', [Mw_Session False], H_Logout)]"

definition app_routes :: "route_config \<Rightarrow> route list" where
  "app_routes rc = healthz_routes rc @ info_routes rc @ request_routes rc @ signing_key_routes rc
     @ api_routes rc @ auth_routes rc"

type_synonym router = "route list \<Rightarrow> string \<Rightarrow> string \<Rightarrow> route option"

definition no_context :: web_context where
  "no_context = \<lparr>wx_request_id = [], wx_session = None, wx_request_user = None\<rparr>"

text \<open>The handler a request reaches, with the context it finds there.\<close>

definition dispatch ::
  "('ip, 'net) web_env \<Rightarrow> router \<Rightarrow> route_config \<Rightarrow> web_request \<Rightarrow> (handler \<times> web_context) db_op" where
  "dispatch env lookup rc req =
    (case lookup (app_routes rc) (wr_method req) (wr_path req) of
       Some r \<Rightarrow> go_bind (run_chain env req (rt_chain r) no_context) (\<lambda>cx. go_return (rt_handler r, cx))
     | None \<Rightarrow>
         if rc_disable_client_serving rc then go_fail (Err_Response 404 ''404 page not found'')
         else go_bind (run_chain env req app_middlewares no_context) (\<lambda>cx. go_return (H_Static, cx)))"

section \<open>What a handler can rely on\<close>

definition request_key_handler :: "handler \<Rightarrow> bool" where
  "request_key_handler h \<longleftrightarrow> h \<in> {H_Request_Create ''encrypt'', H_Request_Create ''decrypt'', H_Request_Create ''sign'',
     H_Request_Pubkey, H_Request_Signing_Pubkey, H_Request_Result}"

definition api_handler :: "handler \<Rightarrow> bool" where
  "api_handler h \<longleftrightarrow> h \<in> {H_Api_List, H_Api_Request_Get, H_Api_Confirm, H_Api_Signing_Key_List,
     H_Api_Signing_Key_Create, H_Api_Signing_Key_Get, H_Api_Signing_Key_Update, H_Api_Signing_Key_Delete, H_Api_Audit_Events}"

definition ready_account_handler :: "handler \<Rightarrow> bool" where
  "ready_account_handler h \<longleftrightarrow> h \<in> {H_Session, H_Allowed_IPs, H_Regenerate_Request_Key, H_Update_Display_Name,
     H_Update_Wrapped_Key, H_List_Credentials, H_Add_Credential_Begin, H_Add_Credential_Finish, H_Rename_Credential,
     H_Delete_Credential}"

definition session_handler :: "handler \<Rightarrow> bool" where
  "session_handler h \<longleftrightarrow> api_handler h \<or> ready_account_handler h \<or> h \<in> {H_Finalize_Signup, H_Logout}"

definition ceremony_handler :: "handler \<Rightarrow> bool" where
  "ceremony_handler h \<longleftrightarrow> h \<in> {H_Register_Begin, H_Register_Finish, H_Login_Begin, H_Login_Finish}"

definition public_handler :: "handler \<Rightarrow> bool" where
  "public_handler h \<longleftrightarrow> h \<in> {H_Healthz, H_Info, H_Info_Integrity, H_Signing_Key_Public, H_Static}"

lemmas handler_kinds = request_key_handler_def api_handler_def ready_account_handler_def session_handler_def
  ceremony_handler_def public_handler_def

text \<open>The rate limiter of a handler's group: the browser's API has none.\<close>

definition group_limiter :: "handler \<Rightarrow> rate_limiter option" where
  "group_limiter h =
    (if request_key_handler h then Some Limit_Request
     else if h = H_Signing_Key_Public then Some Limit_Public_Key
     else if ceremony_handler h \<or> ready_account_handler h \<or> h = H_Finalize_Signup \<or> h = H_Logout then Some Limit_Auth
     else None)"

text \<open>The address a client is counted by.\<close>

definition counted_ip :: "web_request \<Rightarrow> string" where
  "counted_ip req = (if wr_client_ip req = [] then wr_remote_ip req else wr_client_ip req)"

text \<open>The user a request key stands for.\<close>

definition key_user :: "('ip, 'net) net_lib \<Rightarrow> web_request \<Rightarrow> 'z database_scheme \<Rightarrow> user \<Rightarrow> bool" where
  "key_user nl req s user \<longleftrightarrow>
    (\<exists>u pre. u \<in> set (db_users s) \<and> user = user_of_row u \<and> wr_authorization req = pre @ u_request_key u
       \<and> u_request_key u \<noteq> [] \<and> go_to_lower pre = ''bearer '' \<and> u_status u = ''active'' \<and> u_ready u
       \<and> (parse_allowed_ips_csv (u_allowed_ips u) = []
          \<or> (\<exists>ip. nl_parse_ip nl (wr_client_ip req) = Some ip
                \<and> (\<exists>e\<in>set (parse_allowed_ips_csv (u_allowed_ips u)). entry_admits nl ip e))))"

text \<open>A session token that the request carries: its bearer token, else its cookie.\<close>

definition presents_token :: "web_request \<Rightarrow> string \<Rightarrow> bool" where
  "presents_token req t \<longleftrightarrow> t \<noteq> [] \<and>
    (get_bearer_token (wr_authorization req) = t
     \<or> get_bearer_token (wr_authorization req) = [] \<and> wr_cookies req (fst (session_cookie_for (wr_secure req))) = Some t)"

definition session_check :: "('ip, 'net) web_env \<Rightarrow> web_request \<Rightarrow> bool \<Rightarrow> (string \<times> int) go_result" where
  "session_check env req ready =
     middleware_session (we_parse_token env) (we_now env) (wr_secure req) (wr_authorization req) (wr_cookies req) ready"

lemma session_check_ok:
  assumes "session_check env req ready = Inr v"
  shows "\<exists>t sess. presents_token req t \<and> we_parse_token env t = Some sess \<and> fst v = tok_user_id sess
    \<and> (ready \<longrightarrow> tok_ready sess)"
proof -
  let ?b = "get_bearer_token (wr_authorization req)" and ?c = "wr_cookies req (fst (session_cookie_for (wr_secure req)))"
  obtain t where t: "(if ?b \<noteq> [] then Some ?b else case ?c of None \<Rightarrow> None | Some t \<Rightarrow> if t = [] then None else Some t) = Some t"
    and k: "(case we_parse_token env t of
            None \<Rightarrow> Inl (Err_Response 401 ''User session is invalid or expired'')
          | Some sess \<Rightarrow>
              if ready \<and> \<not> tok_ready sess
              then Inl (Err_Response 403 ''User account setup is not complete'')
              else Inr (tok_user_id sess, max (tok_expires_at sess - we_now env) 0 div nanos_per_second)) = Inr v"
    using assms unfolding session_check_def middleware_session_def Let_def checks_passed by blast
  have "presents_token req t"
    using t unfolding presents_token_def by (cases "?b = []"; cases ?c) (auto split: if_splits)
  moreover obtain sess where "we_parse_token env t = Some sess" "fst v = tok_user_id sess" "ready \<longrightarrow> tok_ready sess"
    using k unfolding checks_passed by fastforce
  ultimately show ?thesis by blast
qed

lemma session_check_value:
  "session_check env req b = Inr v \<Longrightarrow> session_check env req b' = Inr v' \<Longrightarrow> v = v'"
  by (auto simp: session_check_def middleware_session_def Let_def split: if_splits option.splits)

lemma key_user_tables:
  fixes s s' :: database
  assumes "same_tables s s'"
  shows "key_user nl req s u \<longleftrightarrow> key_user nl req s' u"
proof -
  have "db_users s = db_users s'" using assms by (cases s; cases s') (simp add: same_tables_def)
  then show ?thesis by (simp add: key_user_def)
qed

lemma request_key_user:
  "middleware_request_key nl (wr_authorization req) (wr_client_ip req) s = (Inr u, s')
    \<Longrightarrow> same_tables s s' \<and> key_user nl req s u"
  unfolding key_user_def by (rule request_key_admits)

lemma run_middleware_facts:
  assumes "run_middleware env req m cx s = (Inr cx', s')"
  shows "same_tables s s'"
    and "m = Mw_Csrf \<Longrightarrow> middleware_csrf env req = Inr ()"
    and "m = Mw_Session b \<Longrightarrow> \<exists>v. session_check env req b = Inr v \<and> wx_session cx' = Some v"
    and "(\<And>b. m \<noteq> Mw_Session b) \<Longrightarrow> wx_session cx' = wx_session cx"
    and "m = Mw_Request_Key \<Longrightarrow> \<exists>u. wx_request_user cx' = Some u \<and> key_user (we_net env) req s u"
    and "m \<noteq> Mw_Request_Key \<Longrightarrow> wx_request_user cx' = wx_request_user cx"
proof -
  have key: "m = Mw_Request_Key \<Longrightarrow> same_tables s s'
      \<and> (\<exists>u. cx' = cx\<lparr>wx_request_user := Some u\<rparr> \<and> key_user (we_net env) req s u)"
    using assms request_key_user by (force simp: go_ok_iffs)
  have csrf: "m = Mw_Csrf \<Longrightarrow> middleware_csrf env req = Inr () \<and> cx' = cx \<and> s' = s"
    using assms by (auto simp: go_ok_iffs)
  have session: "m = Mw_Session b \<Longrightarrow> s' = s \<and> (\<exists>v. session_check env req b = Inr v \<and> cx' = cx\<lparr>wx_session := Some v\<rparr>)" for b
    using assms by (auto simp: go_ok_iffs session_check_def)
  have rest: "s' = s \<and> wx_session cx' = wx_session cx \<and> wx_request_user cx' = wx_request_user cx"
    if "m \<noteq> Mw_Request_Key" "m \<noteq> Mw_Csrf" "\<And>b. m \<noteq> Mw_Session b"
    using assms that by (cases m) (auto simp: go_ok_iffs)
  show "same_tables s s'" using key csrf session rest by (metis same_tables_refl)
  show "m = Mw_Csrf \<Longrightarrow> middleware_csrf env req = Inr ()" using csrf by blast
  show "m = Mw_Session b \<Longrightarrow> \<exists>v. session_check env req b = Inr v \<and> wx_session cx' = Some v"
    using session by fastforce
  show "(\<And>b. m \<noteq> Mw_Session b) \<Longrightarrow> wx_session cx' = wx_session cx"
    using key csrf rest by (cases "m = Mw_Request_Key"; cases "m = Mw_Csrf") auto
  show "m = Mw_Request_Key \<Longrightarrow> \<exists>u. wx_request_user cx' = Some u \<and> key_user (we_net env) req s u"
    using key by fastforce
  show "m \<noteq> Mw_Request_Key \<Longrightarrow> wx_request_user cx' = wx_request_user cx"
    using csrf session rest by (cases "m = Mw_Csrf"; cases m) fastforce+
qed

lemma run_chain_tables: "run_chain env req ms cx s = (Inr cx', s') \<Longrightarrow> same_tables s s'"
proof (induction ms arbitrary: cx s)
  case (Cons m ms)
  then obtain cx1 s1 where "run_middleware env req m cx s = (Inr cx1, s1)" "run_chain env req ms cx1 s1 = (Inr cx', s')"
    by (auto simp: go_ok_iffs)
  then show ?case using run_middleware_facts(1) Cons.IH by (fastforce simp: same_tables_def)
qed simp

lemma run_chain_csrf:
  "run_chain env req ms cx s = (Inr cx', s') \<Longrightarrow> Mw_Csrf \<in> set ms \<Longrightarrow> middleware_csrf env req = Inr ()"
proof (induction ms arbitrary: cx s)
  case (Cons m ms)
  then obtain cx1 s1 where "run_middleware env req m cx s = (Inr cx1, s1)" "run_chain env req ms cx1 s1 = (Inr cx', s')"
    by (auto simp: go_ok_iffs)
  then show ?case using run_middleware_facts(2) Cons by (cases "m = Mw_Csrf") auto
qed simp

lemma run_chain_limit:
  "run_chain env req ms cx s = (Inr cx', s') \<Longrightarrow> Mw_Rate_Limit l \<in> set ms \<Longrightarrow> \<not> we_over_limit env l (counted_ip req)"
proof (induction ms arbitrary: cx s)
  case (Cons m ms)
  then obtain cx1 s1 where "run_middleware env req m cx s = (Inr cx1, s1)" "run_chain env req ms cx1 s1 = (Inr cx', s')"
    by (auto simp: go_ok_iffs)
  then show ?case using Cons
    by (cases "m = Mw_Rate_Limit l") (auto simp: go_ok_iffs middleware_rate_limit_def counted_ip_def Let_def split: if_splits)
qed simp

lemma run_chain_cons:
  assumes "run_chain env req (m # ms) cx s = (Inr cx', s')"
  obtains cx1 s1 where "run_middleware env req m cx s = (Inr cx1, s1)" "run_chain env req ms cx1 s1 = (Inr cx', s')"
  using assms by (auto simp: go_ok_iffs)

text \<open>A session or a request-key user, once in the context, is there in the end.\<close>

lemma run_chain_session:
  assumes "run_chain env req ms cx s = (Inr cx', s')"
    and "Mw_Session b \<in> set ms \<or> session_check env req b = Inr v \<and> wx_session cx = Some v"
  shows "\<exists>v. session_check env req b = Inr v \<and> wx_session cx' = Some v"
  using assms
proof (induction ms arbitrary: cx s v)
  case (Cons m ms)
  obtain cx1 s1 where m: "run_middleware env req m cx s = (Inr cx1, s1)" and ms: "run_chain env req ms cx1 s1 = (Inr cx', s')"
    using Cons.prems(1) by (rule run_chain_cons)
  show ?case
  proof (cases "\<exists>b'. m = Mw_Session b'")
    case True
    then obtain b' where b': "m = Mw_Session b'" ..
    obtain v' where v': "session_check env req b' = Inr v'" "wx_session cx1 = Some v'"
      using run_middleware_facts(3) [OF m b'] by blast
    have "Mw_Session b \<in> set ms \<or> session_check env req b = Inr v'"
    proof (cases "Mw_Session b \<in> set (m # ms)")
      case True
      then show ?thesis using b' v'(1) by auto
    next
      case False
      then have "session_check env req b = Inr v" using Cons.prems(2) by blast
      then show ?thesis using session_check_value [OF v'(1)] by blast
    qed
    then show ?thesis using Cons.IH [OF ms, of v'] v'(2) by blast
  next
    case False
    then have "wx_session cx1 = wx_session cx" using run_middleware_facts(4) [OF m] by blast
    moreover have "Mw_Session b \<in> set ms \<or> session_check env req b = Inr v \<and> wx_session cx = Some v"
      using Cons.prems(2) False by auto
    ultimately show ?thesis using Cons.IH [OF ms, of v] by simp
  qed
qed auto

lemma run_chain_user:
  assumes "run_chain env req ms cx s = (Inr cx', s')"
    and "Mw_Request_Key \<in> set ms \<or> (\<exists>u. wx_request_user cx = Some u \<and> key_user (we_net env) req s u)"
  shows "\<exists>u. wx_request_user cx' = Some u \<and> key_user (we_net env) req s u"
  using assms
proof (induction ms arbitrary: cx s)
  case (Cons m ms)
  obtain cx1 s1 where m: "run_middleware env req m cx s = (Inr cx1, s1)" and ms: "run_chain env req ms cx1 s1 = (Inr cx', s')"
    using Cons.prems(1) by (rule run_chain_cons)
  have same: "key_user (we_net env) req s u \<longleftrightarrow> key_user (we_net env) req s1 u" for u
    by (rule key_user_tables [OF run_middleware_facts(1) [OF m]])
  have "Mw_Request_Key \<in> set ms \<or> (\<exists>u. wx_request_user cx1 = Some u \<and> key_user (we_net env) req s1 u)"
    using Cons.prems(2) run_middleware_facts(5,6) [OF m] same by (cases "m = Mw_Request_Key") auto
  from Cons.IH [OF ms this] show ?case by (simp add: same)
qed auto

section \<open>The guards of the table\<close>

definition guarded_route :: "route \<Rightarrow> bool" where
  "guarded_route r \<longleftrightarrow>
    (request_key_handler (rt_handler r) \<longrightarrow> Mw_Request_Key \<in> set (rt_chain r))
  \<and> (session_handler (rt_handler r) \<longrightarrow> (\<exists>b. Mw_Session b \<in> set (rt_chain r)))
  \<and> (api_handler (rt_handler r) \<or> ready_account_handler (rt_handler r) \<longrightarrow> Mw_Session True \<in> set (rt_chain r))
  \<and> (session_handler (rt_handler r) \<or> ceremony_handler (rt_handler r) \<longrightarrow> Mw_Csrf \<in> set (rt_chain r))
  \<and> (case group_limiter (rt_handler r) of Some l \<Rightarrow> Mw_Rate_Limit l \<in> set (rt_chain r) | None \<Rightarrow> True)
  \<and> (request_key_handler (rt_handler r) \<or> session_handler (rt_handler r) \<or> ceremony_handler (rt_handler r)
     \<or> public_handler (rt_handler r))"

lemma guarded_groups:
  "list_all guarded_route (healthz_routes rc)" "list_all guarded_route (info_routes rc)"
  "list_all guarded_route (request_routes rc)" "list_all guarded_route (signing_key_routes rc)"
  "list_all guarded_route (api_routes rc)" "list_all guarded_route (auth_routes rc)"
  by (simp_all add: healthz_routes_def info_routes_def request_routes_def signing_key_routes_def api_routes_def
      auth_routes_def route_in_def guarded_route_def group_limiter_def handler_kinds) auto

lemma app_routes_guarded: "list_all guarded_route (app_routes rc)"
  by (simp add: app_routes_def guarded_groups)

text \<open>What a request that reached a handler has shown.\<close>

definition admitted :: "('ip, 'net) web_env \<Rightarrow> web_request \<Rightarrow> database \<Rightarrow> handler \<Rightarrow> web_context \<Rightarrow> bool" where
  "admitted env req s h cx \<longleftrightarrow>
    (request_key_handler h \<longrightarrow> (\<exists>u. wx_request_user cx = Some u \<and> key_user (we_net env) req s u))
  \<and> (session_handler h \<longrightarrow> (\<exists>t sess ttl. presents_token req t \<and> we_parse_token env t = Some sess
        \<and> wx_session cx = Some (tok_user_id sess, ttl)
        \<and> (api_handler h \<or> ready_account_handler h \<longrightarrow> tok_ready sess)))
  \<and> (session_handler h \<or> ceremony_handler h \<longrightarrow> bearer_authenticated req \<or> cross_origin_ok env req)
  \<and> (\<forall>l. group_limiter h = Some l \<longrightarrow> \<not> we_over_limit env l (counted_ip req))
  \<and> (request_key_handler h \<or> session_handler h \<or> ceremony_handler h \<or> public_handler h)"

lemma guarded_route_admits:
  assumes g: "guarded_route r" and c: "run_chain env req (rt_chain r) cx s = (Inr cx', s')"
  shows "admitted env req s (rt_handler r) cx'"
proof -
  let ?h = "rt_handler r"
  have key: "request_key_handler ?h \<Longrightarrow> \<exists>u. wx_request_user cx' = Some u \<and> key_user (we_net env) req s u"
    using g run_chain_user [OF c] by (simp add: guarded_route_def)
  have csrf: "session_handler ?h \<or> ceremony_handler ?h \<Longrightarrow> bearer_authenticated req \<or> cross_origin_ok env req"
    using g run_chain_csrf [OF c] by (auto simp: guarded_route_def middleware_csrf_def split: if_splits)
  have session: "\<exists>t sess ttl. presents_token req t \<and> we_parse_token env t = Some sess
        \<and> wx_session cx' = Some (tok_user_id sess, ttl) \<and> (b \<longrightarrow> tok_ready sess)"
    if "Mw_Session b \<in> set (rt_chain r)" for b
    using run_chain_session [OF c] session_check_ok that by (metis prod.collapse)
  have "session_handler ?h \<Longrightarrow> \<exists>b. Mw_Session b \<in> set (rt_chain r) \<and> (api_handler ?h \<or> ready_account_handler ?h \<longrightarrow> b)"
    using g unfolding guarded_route_def by blast
  then have "session_handler ?h \<Longrightarrow> \<exists>t sess ttl. presents_token req t \<and> we_parse_token env t = Some sess
        \<and> wx_session cx' = Some (tok_user_id sess, ttl) \<and> (api_handler ?h \<or> ready_account_handler ?h \<longrightarrow> tok_ready sess)"
    using session by meson
  moreover have "\<not> we_over_limit env l (counted_ip req)" if "group_limiter ?h = Some l" for l
    using g that run_chain_limit [OF c] by (simp add: guarded_route_def)
  ultimately show ?thesis
    using key csrf g unfolding admitted_def guarded_route_def by blast
qed

text \<open>C27: A request reaches a handler only past its guards.  A request-key handler runs as a user of the database
  whose request key the authorization header carries, active, ready and with the client's address allowed; a
  handler of the browser only with a session token that the request presents, of a finished account except for
  the end of the sign-up and the logout; no request of another origin reaches a session or ceremony handler
  without a bearer token; the address of the client is not over the limit of the handler's group, for the request-key
  handlers, the account and ceremony handlers and the public signing keys; and besides these there are only the
  public handlers.  Routing changes no table.\<close>

theorem handlers_guarded:
  assumes "\<And>rs m p r. lookup rs m p = Some r \<Longrightarrow> r \<in> set rs"
    and "dispatch env lookup rc req s = (Inr (h, cx), s')"
  shows "admitted env req s h cx \<and> same_tables s s'"
proof (cases "lookup (app_routes rc) (wr_method req) (wr_path req)")
  case None
  then have "h = H_Static" and "run_chain env req app_middlewares no_context s = (Inr cx, s')"
    using assms(2) by (auto simp: dispatch_def go_ok_iffs split: if_splits)
  then show ?thesis by (simp add: admitted_def group_limiter_def handler_kinds run_chain_tables)
next
  case (Some r)
  then have h: "h = rt_handler r" and c: "run_chain env req (rt_chain r) no_context s = (Inr cx, s')"
    using assms(2) by (auto simp: dispatch_def go_ok_iffs)
  have "guarded_route r" using app_routes_guarded assms(1) [OF Some] by (auto simp: list_all_iff)
  from guarded_route_admits [OF this c] run_chain_tables [OF c] show ?thesis by (simp add: h)
qed

section \<open>An instance\<close>

definition sample_router :: router where
  "sample_router rs m p = List.find (\<lambda>r. rt_method r = m \<and> rt_path r = p) rs"

definition sample_route_config :: route_config where
  "sample_route_config = \<lparr>rc_tracing = False, rc_metrics = False, rc_log_health_checks = False,
     rc_disable_client_serving = False\<rparr>"

definition sample_web_env :: "(string, string) web_env" where
  "sample_web_env = \<lparr>we_net = sample_net, we_parse_token = (\<lambda>_. None), we_now = 0, we_url_host = (\<lambda>_. None),
     we_over_limit = (\<lambda>_ _. False), we_trusted_request_id_header = False, we_uuid = ''id''\<rparr>"

definition sample_pubkey_request :: web_request where
  "sample_pubkey_request = \<lparr>wr_method = ''GET'', wr_path = ''/v2/request/pubkey'', wr_host = ''r'',
     wr_authorization = ''BeArEr rvk_1'', wr_cookies = (\<lambda>_. None), wr_client_ip = ''::1'', wr_remote_ip = ''::1'',
     wr_secure = True, wr_sec_fetch_site = [], wr_origin = [], wr_request_id = []\<rparr>"

lemma sample_router_member: "sample_router rs m p = Some r \<Longrightarrow> r \<in> set rs"
  by (auto simp: sample_router_def find_Some_iff)

lemma sample_routed:
  "sample_router (app_routes sample_route_config) ''GET'' ''/v2/request/pubkey'' =
    Some \<lparr>rt_method = ''GET'', rt_path = ''/v2/request/pubkey'',
      rt_chain = app_middlewares @ [Mw_Request_Id, Mw_No_Cache, Mw_Logger, Mw_Rate_Limit Limit_Request, Mw_Request_Key],
      rt_handler = H_Request_Pubkey\<rparr>"
  by (simp add: sample_router_def app_routes_def healthz_routes_def info_routes_def request_routes_def route_in_def
      v2_chain_def standard_middlewares_def sample_route_config_def)

theorem handlers_guarded_witness:
  "\<exists>u pre. u \<in> set (db_users sample_key_db) \<and> ''BeArEr rvk_1'' = pre @ u_request_key u \<and> u_ready u"
proof -
  let ?u = "user_of_row (hd (db_users sample_key_db))"
  have "dispatch sample_web_env sample_router sample_route_config sample_pubkey_request sample_key_db =
      (Inr (H_Request_Pubkey, \<lparr>wx_request_id = ''id'', wx_session = None, wx_request_user = Some ?u\<rparr>), sample_key_db)"
    using request_key_sample
    by (simp add: dispatch_def sample_pubkey_request_def sample_routed go_bind_def app_middlewares_def no_context_def
        sample_web_env_def get_request_id_def middleware_rate_limit_def Let_def)
  from handlers_guarded [OF sample_router_member this]
  have "admitted sample_web_env sample_pubkey_request sample_key_db H_Request_Pubkey
      \<lparr>wx_request_id = ''id'', wx_session = None, wx_request_user = Some ?u\<rparr>" by simp
  then have "key_user sample_net sample_pubkey_request sample_key_db ?u"
    by (simp add: admitted_def handler_kinds sample_web_env_def)
  then show ?thesis
    unfolding key_user_def sample_pubkey_request_def web_request.simps by blast
qed

end
