(* ===== verification/Integrity_Manifest.thy ===== *)
theory Integrity_Manifest
  imports Go_Paths Hybrid_Signature "HOL-Library.Multiset"
begin

text \<open>
  The integrity manifest of the web client (src/internal/integrity/manifest.go): a text with the
  build's version, commit and date and one line per file, its strict parser, and the builder
  that walks the files.  The manifest is another instance of \<open>text_codec\<close>.

  \<open>fs.WalkDir\<close> is given as the list of entries it visits, each with the error it reports or
  the contents a read of the file gives.
\<close>

section \<open>The text\<close>

record file_entry =
  fe_path :: string
  fe_size :: int
  fe_sha256 :: string

record manifest =
  mf_version :: string
  mf_commit :: string
  mf_build_date :: string
  mf_files :: "file_entry list"

abbreviation newline :: char where "newline \<equiv> CHR 0x0A"

definition file_line :: "file_entry \<Rightarrow> string" where
  "file_line f = fe_path f @ ''|'' @ format_int (fe_size f) @ ''|'' @ fe_sha256 f"

definition header_line :: "manifest \<Rightarrow> string" where
  "header_line m = (if mf_version m \<noteq> [] then mf_version m @ ''|'' else []) @ mf_commit m"

definition marshal_manifest :: "manifest \<Rightarrow> string" where
  "marshal_manifest m =
     header_line m @ [newline] @ mf_build_date m @ [newline] @ concat (map (\<lambda>f. file_line f @ [newline]) (mf_files m))"

section \<open>The parser\<close>

text \<open>\<open>SplitN\<close> with a separator of one byte.\<close>

fun split_n :: "char \<Rightarrow> nat \<Rightarrow> string \<Rightarrow> string list" where
  "split_n c 0 s = []"
| "split_n c (Suc 0) s = [s]"
| "split_n c (Suc (Suc n)) s = (case cut_on c s of None \<Rightarrow> [s] | Some (a, b) \<Rightarrow> a # split_n c (Suc n) b)"

definition count_byte :: "char \<Rightarrow> string \<Rightarrow> nat" where
  "count_byte c s = length (filter (\<lambda>x. x = c) s)"

definition lower_hex_char :: "char \<Rightarrow> bool" where
  "lower_hex_char c \<longleftrightarrow> is_digit c \<or> byte_in CHR ''a'' CHR ''f'' c"

definition validate_sha256_hex :: "string \<Rightarrow> unit go_result" where
  "validate_sha256_hex s =
    (if length s \<noteq> 64 then Inl (Err_Msg ''expected 64 hex chars'')
     else if \<not> list_all lower_hex_char s then Inl (Err_Msg ''non-lowercase-hex char'') else Inr ())"

definition parse_header_line :: "string \<Rightarrow> (string \<times> string) go_result" where
  "parse_header_line h =
    (let pipes = count_byte CHR ''|'' h in
     if pipes = 0 then if h = [] then Inl (Err_Msg ''manifest header line is empty'') else Inr ([], h)
     else if pipes = 1 then
       (let parts = split_n CHR ''|'' 2 h in
        if parts ! 0 = [] \<or> parts ! 1 = [] then Inl (Err_Msg ''manifest header has empty version or commit'')
        else Inr (parts ! 0, parts ! 1))
     else Inl (Err_Msg ''manifest header line has too many pipes''))"

definition parse_file_line :: "string \<Rightarrow> file_entry go_result" where
  "parse_file_line line =
    (if line = [] then Inl (Err_Msg ''manifest has empty line'')
     else let parts = split_n CHR ''|'' 3 line in
       if length parts \<noteq> 3 then Inl (Err_Msg ''manifest file entry: expected 3 fields'')
       else case parse_int (parts ! 1) of
         None \<Rightarrow> Inl (Err_Msg ''invalid size'')
       | Some sz \<Rightarrow>
           if sz < 0 then Inl (Err_Msg ''negative size'')
           else case validate_sha256_hex (parts ! 2) of
             Inl e \<Rightarrow> Inl e
           | Inr _ \<Rightarrow> Inr \<lparr>fe_path = parts ! 0, fe_size = sz, fe_sha256 = parts ! 2\<rparr>)"

fun parse_file_lines :: "string list \<Rightarrow> file_entry list go_result" where
  "parse_file_lines [] = Inr []"
| "parse_file_lines (l # ls) =
    (case parse_file_line l of
       Inl e \<Rightarrow> Inl e
     | Inr f \<Rightarrow> (case parse_file_lines ls of Inl e \<Rightarrow> Inl e | Inr fs \<Rightarrow> Inr (f # fs)))"

definition parse_manifest :: "string \<Rightarrow> manifest go_result" where
  "parse_manifest b =
    (if b = [] then Inl (Err_Msg ''empty manifest'')
     else if CHR 0x0D \<in> set b then Inl (Err_Msg ''manifest contains CR'')
     else if List.last b \<noteq> newline then Inl (Err_Msg ''manifest does not end with LF'')
     else let lines = split_on newline (butlast b) in
       if length lines < 2 then Inl (Err_Msg ''manifest has fewer than 2 header lines'')
       else case parse_header_line (lines ! 0) of
         Inl e \<Rightarrow> Inl e
       | Inr (version, commit) \<Rightarrow>
           if lines ! 1 = [] then Inl (Err_Msg ''manifest build-date line is empty'')
           else (case parse_file_lines (drop 2 lines) of
                   Inl e \<Rightarrow> Inl e
                 | Inr fs \<Rightarrow> Inr \<lparr>mf_version = version, mf_commit = commit, mf_build_date = lines ! 1, mf_files = fs\<rparr>))"

section \<open>The builder\<close>

record walk_entry =
  wk_path :: string
  wk_error :: "go_error option"
  wk_is_dir :: bool
  wk_contents :: "string go_result"

definition rel_path :: "string \<Rightarrow> string \<Rightarrow> string go_result" where
  "rel_path root p =
    (let root = path_clean root; p = path_clean p in
     if root = ''.'' then Inr p
     else if \<not> has_prefix p (root @ ''/'') then Inl (Err_Msg ''path is not under root'')
     else Inr (drop (length (root @ ''/'')) p))"

definition manifest_path_ok :: "string \<Rightarrow> bool" where
  "manifest_path_ok p \<longleftrightarrow> set p \<inter> {CHR ''|'', newline, CHR 0x0D} = {}"

definition entry_of_file :: "('ek, 'mk) crypto \<Rightarrow> string \<Rightarrow> string \<Rightarrow> file_entry" where
  "entry_of_file cr rel contents =
     \<lparr>fe_path = rel, fe_size = int (length contents), fe_sha256 = hex_encode (cr_sha256 cr contents)\<rparr>"

fun collect_files :: "('ek, 'mk) crypto \<Rightarrow> string \<Rightarrow> walk_entry list \<Rightarrow> file_entry list go_result" where
  "collect_files cr root [] = Inr []"
| "collect_files cr root (w # ws) =
    (case wk_error w of
       Some e \<Rightarrow> Inl e
     | None \<Rightarrow>
        if wk_is_dir w then collect_files cr root ws
        else case rel_path root (wk_path w) of
          Inl e \<Rightarrow> Inl e
        | Inr rel \<Rightarrow>
            if \<not> manifest_path_ok rel then Inl (Err_Msg ''file path contains disallowed character'')
            else case wk_contents w of
              Inl e \<Rightarrow> Inl e
            | Inr contents \<Rightarrow>
                (case collect_files cr root ws of
                   Inl e \<Rightarrow> Inl e
                 | Inr fs \<Rightarrow> Inr (entry_of_file cr rel contents # fs)))"

definition path_order :: "file_entry \<Rightarrow> file_entry \<Rightarrow> bool" where
  "path_order a b = string_le (fe_path a) (fe_path b)"

definition build_from_fs ::
  "('ek, 'mk) crypto \<Rightarrow> walk_entry list \<Rightarrow> string \<Rightarrow> string \<Rightarrow> string \<Rightarrow> string \<Rightarrow> manifest go_result" where
  "build_from_fs cr walk root version commit build_date =
    (if commit = [] then Inl (Err_Msg ''commit must not be empty'')
     else if build_date = [] then Inl (Err_Msg ''build-date must not be empty'')
     else case collect_files cr root walk of
       Inl e \<Rightarrow> Inl e
     | Inr files \<Rightarrow> Inr \<lparr>mf_version = version, mf_commit = commit, mf_build_date = build_date,
                         mf_files = foldr (insert_by path_order) files []\<rparr>)"

section \<open>Well-formed manifests\<close>

definition file_entry_ok :: "file_entry \<Rightarrow> bool" where
  "file_entry_ok f \<longleftrightarrow> manifest_path_ok (fe_path f) \<and> 0 \<le> fe_size f \<and> in_int64 (fe_size f)
     \<and> length (fe_sha256 f) = 64 \<and> list_all lower_hex_char (fe_sha256 f)"

definition manifest_ok :: "manifest \<Rightarrow> bool" where
  "manifest_ok m \<longleftrightarrow> manifest_path_ok (mf_version m) \<and> manifest_path_ok (mf_commit m) \<and> mf_commit m \<noteq> []
     \<and> set (mf_build_date m) \<inter> {newline, CHR 0x0D} = {} \<and> mf_build_date m \<noteq> []
     \<and> list_all file_entry_ok (mf_files m)"

lemma split_n_3: "CHR ''|'' \<notin> set a \<Longrightarrow> CHR ''|'' \<notin> set b \<Longrightarrow> split_n CHR ''|'' 3 (a @ CHR ''|'' # b @ CHR ''|'' # c) = [a, b, c]"
  by (simp add: numeral_3_eq_3 cut_on_append)

lemma lower_hex_char_plain: "lower_hex_char c \<Longrightarrow> c \<notin> {CHR ''|'', newline, CHR 0x0D}"
  by (auto simp: lower_hex_char_def is_digit_def byte_in_def byte_def)

lemma format_int_plain: "set (format_int n) \<inter> {CHR ''|'', newline, CHR 0x0D} = {}"
proof -
  have "set (decimal k) \<inter> {CHR ''|'', newline, CHR 0x0D} = {}" for k
    using decimal_digits [of k] by (auto simp: list_all_iff is_digit_def byte_in_def byte_def)
  then show ?thesis by (simp add: format_int_def)
qed

lemma file_line_plain: "file_entry_ok f \<Longrightarrow> set (file_line f) \<inter> {newline, CHR 0x0D} = {} \<and> file_line f \<noteq> []"
  using format_int_plain [of "fe_size f"] lower_hex_char_plain
  by (fastforce simp: file_line_def file_entry_ok_def manifest_path_ok_def list_all_iff)

lemma parse_file_line_ok: "file_entry_ok f \<Longrightarrow> parse_file_line (file_line f) = Inr f"
proof -
  assume f: "file_entry_ok f"
  have "split_n CHR ''|'' 3 (file_line f) = [fe_path f, format_int (fe_size f), fe_sha256 f]"
    using f format_int_plain [of "fe_size f"]
    by (simp add: file_line_def split_n_3 file_entry_ok_def manifest_path_ok_def)
  then show ?thesis
    using f file_line_plain [OF f] by (simp add: parse_file_line_def file_entry_ok_def validate_sha256_hex_def)
qed

lemma parse_file_lines_ok: "list_all file_entry_ok fs \<Longrightarrow> parse_file_lines (map file_line fs) = Inr fs"
  by (induction fs) (simp_all add: parse_file_line_ok)

lemma count_byte_0: "count_byte c s = 0 \<longleftrightarrow> c \<notin> set s"
  by (auto simp: count_byte_def filter_empty_conv)

lemma parse_header_ok: "manifest_ok m \<Longrightarrow> parse_header_line (header_line m) = Inr (mf_version m, mf_commit m)"
  using count_byte_0 [of "CHR ''|''" "mf_version m"] count_byte_0 [of "CHR ''|''" "mf_commit m"]
  by (auto simp: manifest_ok_def manifest_path_ok_def parse_header_line_def header_line_def count_byte_def
      numeral_2_eq_2 cut_on_append)

text \<open>A manifest as its lines.\<close>

lemma concat_lines: "concat (map (\<lambda>w. w @ [c]) ws) = (if ws = [] then [] else join_with [c] ws @ [c])"
  by (induction "[c]" ws rule: join_with.induct) simp_all

lemma marshal_lines: "marshal_manifest m = join_with [newline] (header_line m # mf_build_date m # map file_line (mf_files m)) @ [newline]"
  using concat_lines [of newline "header_line m # mf_build_date m # map file_line (mf_files m)"]
  by (simp add: marshal_manifest_def o_def)

lemma join_with_set: "set (join_with [c] ws) \<subseteq> insert c (\<Union> (set ` set ws))"
  by (induction "[c]" ws rule: join_with.induct) auto

lemma marshal_parses: "manifest_ok m \<Longrightarrow> parse_manifest (marshal_manifest m) = Inr m"
proof -
  assume m: "manifest_ok m"
  let ?ls = "header_line m # mf_build_date m # map file_line (mf_files m)"
  have plain: "set w \<inter> {newline, CHR 0x0D} = {}" if "w \<in> set ?ls" for w
    using that m file_line_plain
    by (auto simp: manifest_ok_def manifest_path_ok_def header_line_def list_all_iff)
  then have split: "split_on newline (join_with [newline] ?ls) = ?ls"
    by (intro split_join) auto
  have "CHR 0x0D \<notin> set (join_with [newline] ?ls)"
    using join_with_set [of newline ?ls] plain by auto
  then show ?thesis
    using m parse_header_ok [OF m] parse_file_lines_ok [of "mf_files m"]
    unfolding parse_manifest_def marshal_lines Let_def butlast_snoc split
    by (simp add: manifest_ok_def)
qed

text \<open>Everything the parser accepts is well formed.\<close>

lemma split_n_3_parts:
  assumes "length (split_n c 3 s) = 3"
  obtains a b r where "s = a @ c # b @ c # r" "c \<notin> set a" "c \<notin> set b" "split_n c 3 s = [a, b, r]"
  using assms by (auto simp: numeral_3_eq_3 cut_on_append split: option.splits dest!: cut_on_SomeD)

lemma parse_int_range: "parse_int s = Some n \<Longrightarrow> in_int64 n"
  by (auto simp: parse_int_def Let_def split: list.splits if_splits option.splits)

lemma parse_file_line_sound:
  assumes "parse_file_line l = Inr f" and "newline \<notin> set l" and "CHR 0x0D \<notin> set l"
  shows "file_entry_ok f"
proof -
  have len: "length (split_n CHR ''|'' 3 l) = 3"
    using assms(1) by (auto simp: parse_file_line_def Let_def split: if_splits)
  obtain a b r where l: "l = a @ CHR ''|'' # b @ CHR ''|'' # r" "CHR ''|'' \<notin> set a"
    and parts: "split_n CHR ''|'' 3 l = [a, b, r]"
    using split_n_3_parts [OF len] by metis
  then show ?thesis
    using assms by (auto simp: parse_file_line_def parts Let_def file_entry_ok_def manifest_path_ok_def validate_sha256_hex_def
        split: if_splits option.splits dest: parse_int_range)
qed

lemma parse_file_lines_sound:
  "parse_file_lines ls = Inr fs \<Longrightarrow> (\<And>l. l \<in> set ls \<Longrightarrow> newline \<notin> set l \<and> CHR 0x0D \<notin> set l) \<Longrightarrow> list_all file_entry_ok fs"
  by (induction ls arbitrary: fs) (auto split: sum.splits simp: parse_file_line_sound)

lemma count_byte_1_cut:
  assumes "count_byte c s = Suc 0"
  obtains a b where "s = a @ c # b" "c \<notin> set a" "c \<notin> set b" "split_n c 2 s = [a, b]"
proof -
  have "c \<in> set s" using assms count_byte_0 [of c s] by auto
  then obtain a b where c: "cut_on c s = Some (a, b)" using cut_on_None_iff by fastforce
  then have s: "s = a @ c # b" "c \<notin> set a" using cut_on_SomeD by blast+
  then have "c \<notin> set b" using assms by (simp add: count_byte_def filter_empty_conv) blast
  then show thesis using that s c by (simp add: numeral_2_eq_2)
qed

lemma parse_header_sound:
  assumes "parse_header_line h = Inr (v, k)" and "newline \<notin> set h" and "CHR 0x0D \<notin> set h"
  shows "manifest_path_ok v \<and> manifest_path_ok k \<and> k \<noteq> []"
proof (cases "count_byte CHR ''|'' h = 0")
  case True
  then show ?thesis using assms count_byte_0 [of "CHR ''|''" h]
    by (auto simp: parse_header_line_def manifest_path_ok_def split: if_splits)
next
  case False
  then have "count_byte CHR ''|'' h = Suc 0"
    using assms(1) by (auto simp: parse_header_line_def Let_def split: if_splits)
  then obtain a b where h: "h = a @ CHR ''|'' # b" "CHR ''|'' \<notin> set a" "CHR ''|'' \<notin> set b"
    and "split_n CHR ''|'' 2 h = [a, b]" by (rule count_byte_1_cut)
  then show ?thesis
    using assms False by (auto simp: parse_header_line_def Let_def manifest_path_ok_def split: if_splits)
qed

lemma parse_manifest_sound:
  assumes "parse_manifest b = Inr m"
  shows "manifest_ok m"
proof -
  let ?lines = "split_on newline (butlast b)"
  have "CHR 0x0D \<notin> set b"
    using assms by (auto simp: parse_manifest_def split: if_splits)
  then have plain: "newline \<notin> set l \<and> CHR 0x0D \<notin> set l" if "l \<in> set ?lines" for l
    using that split_on_parts [of l newline "butlast b"] split_on_subset [of l newline "butlast b"]
    by (meson in_set_butlastD subsetD)
  have two: "2 \<le> length ?lines"
    using assms by (auto simp: parse_manifest_def Let_def split: if_splits)
  then have "?lines ! 0 \<in> set ?lines" "?lines ! 1 \<in> set ?lines" by (auto intro!: nth_mem)
  moreover obtain v k fs where "parse_header_line (?lines ! 0) = Inr (v, k)"
    and "parse_file_lines (drop 2 ?lines) = Inr fs" and "?lines ! 1 \<noteq> []"
    and "m = \<lparr>mf_version = v, mf_commit = k, mf_build_date = ?lines ! 1, mf_files = fs\<rparr>"
    using assms unfolding parse_manifest_def Let_def by (auto split: if_splits sum.splits)
  moreover have "list_all file_entry_ok fs"
    using parse_file_lines_sound calculation(4) plain in_set_dropD by metis
  ultimately show ?thesis
    using parse_header_sound plain by (simp add: manifest_ok_def)
qed

definition read_manifest :: "string \<Rightarrow> manifest option" where
  "read_manifest b = (case parse_manifest b of Inl _ \<Rightarrow> None | Inr m \<Rightarrow> Some m)"

interpretation manifest_text: text_codec marshal_manifest read_manifest manifest_ok
  by unfold_locales (simp add: read_manifest_def marshal_parses)

text \<open>C26: The manifest's text and its strict parser form a round trip on exactly the well-formed
  manifests: no separator or line break inside a field, a commit and a build date, sizes that
  are non-negative 64-bit numbers and hashes of 64 lower-case hex digits.  Whatever the parser
  accepts is such a manifest.\<close>

theorem manifest_roundtrip:
  "(parse_manifest (marshal_manifest m) = Inr m) = manifest_ok m
   \<and> (case parse_manifest b of Inl e \<Rightarrow> True | Inr m' \<Rightarrow> manifest_ok m' \<and> parse_manifest (marshal_manifest m') = Inr m')"
  using marshal_parses parse_manifest_sound by (auto split: sum.splits)

text \<open>The parser is not canonical: a size with a plus sign or leading zeros is accepted, and the
  manifest it gives has another text than the one that was read.\<close>

lemma noncanonical_size_accepted:
  "parse_file_line (''a|+007|'' @ replicate 64 CHR ''0'') = parse_file_line (''a|7|'' @ replicate 64 CHR ''0'')"
  by code_simp

section \<open>What the builder gives\<close>

text \<open>The entry of a visited file.\<close>

definition walked_entry :: "('ek, 'mk) crypto \<Rightarrow> string \<Rightarrow> walk_entry \<Rightarrow> file_entry option" where
  "walked_entry cr root w =
     (case (rel_path root (wk_path w), wk_contents w) of
        (Inr rel, Inr contents) \<Rightarrow> Some (entry_of_file cr rel contents)
      | _ \<Rightarrow> None)"

definition walked_files :: "walk_entry list \<Rightarrow> walk_entry list" where
  "walked_files ws = filter (\<lambda>w. \<not> wk_is_dir w) ws"

lemma collect_files_entries:
  "collect_files cr root ws = Inr fs \<Longrightarrow>
     map Some fs = map (walked_entry cr root) (walked_files ws) \<and> list_all (\<lambda>w. wk_error w = None) ws
     \<and> list_all (\<lambda>f. manifest_path_ok (fe_path f)) fs"
  by (induction ws arbitrary: fs)
    (auto simp: walked_files_def walked_entry_def entry_of_file_def split: option.splits if_splits sum.splits)

lemma mset_insert_by [simp]: "mset (insert_by le x xs) = add_mset x (mset xs)"
  by (induction xs) auto

lemma mset_sort_by [simp]: "mset (foldr (insert_by le) xs []) = mset xs"
  by (induction xs) auto

lemma hex_digit_lower: "n < 16 \<Longrightarrow> lower_hex_char (hex_digit n)"
  by (auto simp: hex_digit_def lower_hex_char_def is_digit_def byte_in_def byte_char_of) (simp_all add: byte_def)

lemma hex_encode_form: "length (hex_encode b) = 2 * length b \<and> list_all lower_hex_char (hex_encode b)"
proof (induction b)
  case (Cons c b)
  have "byte c < 256" by (rule byte_less)
  then show ?case using Cons by (simp add: hex_encode_def hex_digit_lower less_mult_imp_div_less)
qed (simp add: hex_encode_def)

lemma built_entries:
  assumes "build_from_fs cr walk root version commit build_date = Inr m"
  shows "mset (map Some (mf_files m)) = mset (map (walked_entry cr root) (walked_files walk))"
    and "sorted_wrt path_order (mf_files m)" and "list_all (\<lambda>f. manifest_path_ok (fe_path f)) (mf_files m)"
    and "list_all (\<lambda>w. wk_error w = None) walk"
    and "mf_version m = version" "mf_commit m = commit" "mf_build_date m = build_date" "commit \<noteq> []" "build_date \<noteq> []"
proof -
  obtain files where f: "collect_files cr root walk = Inr files" and ne: "commit \<noteq> []" "build_date \<noteq> []"
    and m: "m = \<lparr>mf_version = version, mf_commit = commit, mf_build_date = build_date, mf_files = foldr (insert_by path_order) files []\<rparr>"
    using assms by (auto simp: build_from_fs_def split: if_splits sum.splits)
  note c = collect_files_entries [OF f]
  show "mset (map Some (mf_files m)) = mset (map (walked_entry cr root) (walked_files walk))"
    using c by (metis m manifest.select_convs(4) mset_map mset_sort_by)
  show "sorted_wrt path_order (mf_files m)"
    unfolding m manifest.select_convs
    by (rule sorted_sort_by; unfold path_order_def) (use string_le_linear string_le_trans in blast)+
  show "list_all (\<lambda>f. manifest_path_ok (fe_path f)) (mf_files m)" "list_all (\<lambda>w. wk_error w = None) walk"
    using c by (simp_all add: m list_all_iff)
  show "mf_version m = version" "mf_commit m = commit" "mf_build_date m = build_date" "commit \<noteq> []" "build_date \<noteq> []"
    using ne by (simp_all add: m)
qed

lemma built_file_walked:
  assumes "build_from_fs cr walk root version commit build_date = Inr m" and "f \<in> set (mf_files m)"
  shows "\<exists>w rel b. w \<in> set (walked_files walk) \<and> rel_path root (wk_path w) = Inr rel \<and> wk_contents w = Inr b
     \<and> f = entry_of_file cr rel b"
proof -
  have "Some f \<in># mset (map Some (mf_files m))" using assms(2) by simp
  then have "Some f \<in> set (map (walked_entry cr root) (walked_files walk))"
    unfolding built_entries(1) [OF assms(1)] by simp
  then show ?thesis by (force simp: walked_entry_def split: sum.splits)
qed

lemma built_manifest_facts:
  assumes built: "build_from_fs cr walk root version commit build_date = Inr m"
    and plain: "manifest_path_ok version" "manifest_path_ok commit" "set build_date \<inter> {newline, CHR 0x0D} = {}"
    and sizes: "\<And>b. length (cr_sha256 cr b) = 32" "\<And>e b. e \<in> set walk \<Longrightarrow> wk_contents e = Inr b \<Longrightarrow> in_int64 (int (length b))"
  shows "manifest_ok m" and "mf_version m = version" and "mf_commit m = commit"
proof -
  note b = built_entries [OF built]
  show "mf_version m = version" "mf_commit m = commit" using b by simp_all
  have "file_entry_ok f" if f: "f \<in> set (mf_files m)" for f
  proof -
    obtain w rel c where w: "w \<in> set (walked_files walk)" "wk_contents w = Inr c" "f = entry_of_file cr rel c"
      using built_file_walked [OF built f] by blast
    then have "in_int64 (int (length c))" using sizes(2) by (auto simp: walked_files_def)
    moreover have "manifest_path_ok (fe_path f)" using b(3) f by (simp add: list_all_iff)
    ultimately show ?thesis
      using w(3) sizes(1) hex_encode_form [of "cr_sha256 cr c"] by (simp add: file_entry_ok_def entry_of_file_def)
  qed
  then show "manifest_ok m" using b plain by (simp add: manifest_ok_def list_all_iff)
qed

text \<open>The manifest of a build has one entry for every file of the walked tree, with its path below the root, its
  size and its hash, and no other; the entries are in byte order of their paths, and its text parses back to it.\<close>

lemma built_manifest:
  assumes "build_from_fs cr walk root version commit build_date = Inr m"
    and "manifest_path_ok version" "manifest_path_ok commit" "set build_date \<inter> {newline, CHR 0x0D} = {}"
    and "\<And>b. length (cr_sha256 cr b) = 32" "\<And>e b. e \<in> set walk \<Longrightarrow> wk_contents e = Inr b \<Longrightarrow> in_int64 (int (length b))"
  shows "mset (map Some (mf_files m)) = mset (map (walked_entry cr root) (walked_files walk))
     \<and> sorted_wrt path_order (mf_files m)
     \<and> parse_manifest (marshal_manifest m) = Inr m"
  using built_entries(1,2) [OF assms(1)] marshal_parses [OF built_manifest_facts(1) [OF assms]] by simp

text \<open>A build of one page.\<close>

definition digest_crypto :: "(unit, unit) crypto" where
  "digest_crypto = toy_crypto\<lparr>cr_sha256 := \<lambda>m. replicate 32 CHR ''h''\<rparr>"

definition sample_walk :: "walk_entry list" where
  "sample_walk =
     [\<lparr>wk_path = ''dist'', wk_error = None, wk_is_dir = True, wk_contents = Inl Err_Json\<rparr>,
      \<lparr>wk_path = ''dist/b.js'', wk_error = None, wk_is_dir = False, wk_contents = Inr ''let b''\<rparr>,
      \<lparr>wk_path = ''dist/a/i.html'', wk_error = None, wk_is_dir = False, wk_contents = Inr ''hello''\<rparr>]"

definition sample_manifest :: manifest where
  "sample_manifest = \<lparr>mf_version = ''v1'', mf_commit = ''abc'', mf_build_date = ''today'',
     mf_files = [entry_of_file digest_crypto ''a/i.html'' ''hello'', entry_of_file digest_crypto ''b.js'' ''let b'']\<rparr>"

lemma sample_rel_paths: "rel_path ''dist'' ''dist/b.js'' = Inr ''b.js''" "rel_path ''dist'' ''dist/a/i.html'' = Inr ''a/i.html''"
  by code_simp+

lemma sample_built: "build_from_fs digest_crypto sample_walk ''dist'' ''v1'' ''abc'' ''today'' = Inr sample_manifest"
  by (simp add: build_from_fs_def sample_walk_def sample_rel_paths manifest_path_ok_def path_order_def entry_of_file_def
      sample_manifest_def byte_def)

lemma sample_walk_sizes:
  "length (cr_sha256 digest_crypto b) = 32"
  "e \<in> set sample_walk \<Longrightarrow> wk_contents e = Inr c \<Longrightarrow> in_int64 (int (length c))"
  by (auto simp: digest_crypto_def sample_walk_def in_int64_def)

lemma built_manifest_instance:
  "parse_manifest (marshal_manifest sample_manifest) = Inr sample_manifest \<and> length (mf_files sample_manifest) = 2"
  using built_manifest [OF sample_built _ _ _ sample_walk_sizes]
  by (simp add: manifest_path_ok_def) (simp add: sample_manifest_def)

end
