(* ===== verification/Integrity_Check.thy ===== *)
theory Integrity_Check
  imports Integrity_Manifest Client_Operations
begin

text \<open>
  The check of a server's web client (src/internal/integrity/verify.go and
  src/internal/integrity/verifier): the manifest and its signature are fetched, the
  signature is verified against the embedded trust root and the release workflow's identity
  (inline, or from an entry of the Rekor log), and every listed file is fetched and hashed.

  The server and the log are not trusted: what they answer is the function \<open>cw_remote\<close> of
  the requests sent so far.  sigstore-go is the argument \<open>sigstore\<close>, JSON, PEM and X.509
  are fields of \<open>integrity_lib\<close>.  Log lines are not modelled.
\<close>

section \<open>The library\<close>

record inclusion_proof =
  pf_log_index :: int
  pf_root_hash :: string
  pf_tree_size :: int
  pf_hashes :: "string list"
  pf_checkpoint :: string

record bundle_proto =
  bp_media_type :: string
  bp_certificate :: string
  bp_log_index :: int
  bp_log_id :: string
  bp_kind :: string
  bp_kind_version :: string
  bp_integrated_time :: int
  bp_signed_entry_timestamp :: string
  bp_proof :: inclusion_proof
  bp_canonicalized_body :: string
  bp_digest_algorithm :: string
  bp_digest :: string
  bp_signature :: string

record rekor_log_entry =
  re_body :: string
  re_integrated_time :: int
  re_log_id :: string
  re_log_index :: int
  re_signed_entry_timestamp :: string
  re_proof :: inclusion_proof

record rekor_body =
  rb_kind :: string
  rb_api_version :: string
  rb_spec :: string

record info_response =
  if_product :: string
  if_api_version :: int
  if_version :: string
  if_commit :: string
  if_build_date :: string
  if_has_integrity :: bool

text \<open>
  A verifier is its method \<open>Verify\<close>: a bundle, the digest's algorithm and value and an
  identity policy give the subject and issuer of the certificate.
\<close>

type_synonym ('b, 'p) bundle_verifier = "'b \<Rightarrow> string \<Rightarrow> string \<Rightarrow> 'p \<Rightarrow> (string \<times> string) option go_result"

record ('r, 'b, 'p) sigstore =
  sg_trusted_root :: "'r go_result"
  sg_unmarshal_bundle :: "string \<Rightarrow> 'b go_result"
  sg_new_bundle :: "bundle_proto \<Rightarrow> 'b go_result"
  sg_new_verifier :: "'r \<Rightarrow> nat \<Rightarrow> nat \<Rightarrow> ('b, 'p) bundle_verifier go_result"
  sg_certificate_identity :: "string \<Rightarrow> string \<Rightarrow> string \<Rightarrow> string \<Rightarrow> 'p go_result"

record integrity_lib =
  il_sha256 :: "string \<Rightarrow> string"
  il_valid_url :: "string \<Rightarrow> bool"
  il_marshal_hash :: "string \<Rightarrow> string"
  il_decode_error :: "string \<Rightarrow> string"
  il_decode_info :: "string \<Rightarrow> info_response option"
  il_decode_integrity :: "string \<Rightarrow> (string \<times> string) option"
  il_decode_uuids :: "string \<Rightarrow> string list option"
  il_decode_entries :: "string \<Rightarrow> (string \<times> rekor_log_entry) list option"
  il_decode_body :: "string \<Rightarrow> rekor_body option"
  il_decode_spec :: "string \<Rightarrow> (string \<times> string) option"
  il_pem_decode :: "string \<Rightarrow> (string \<times> string) option"
  il_x509_ok :: "string \<Rightarrow> bool"

section \<open>The identity policy\<close>

definition expected_issuer :: string where
  "expected_issuer = ''https://token.actions.githubusercontent.com''"

text \<open>The variables that the build sets.\<close>

record build_info =
  bi_repo_url :: string
  bi_signing_ref_pattern :: string

record policy =
  po_repo_url :: string
  po_signing_ref_pattern :: string

text \<open>\<open>regexp.QuoteMeta\<close>\<close>

definition is_meta :: "char \<Rightarrow> bool" where
  "is_meta c \<longleftrightarrow> c \<in> set (CHR 0x5C # ''.+*?()|[]{}^$'')"

definition quote_meta :: "string \<Rightarrow> string" where
  "quote_meta s = concat (map (\<lambda>c. if is_meta c then [CHR 0x5C, c] else [c]) s)"

definition san_regex :: "build_info \<Rightarrow> policy \<Rightarrow> string" where
  "san_regex bi p =
    (let repo_url = (if po_repo_url p = [] then bi_repo_url bi else po_repo_url p);
         ref_pattern = (if po_signing_ref_pattern p = [] then bi_signing_ref_pattern bi else po_signing_ref_pattern p)
     in ''^'' @ quote_meta repo_url @ ''/'' @ [CHR 0x5C] @ ''.github/workflows/release'' @ [CHR 0x5C]
        @ ''.yaml@refs/('' @ ref_pattern @ '')$'')"

section \<open>Verifying a bundle\<close>

definition verify_entity ::
  "integrity_lib \<Rightarrow> ('r, 'b, 'p) sigstore \<Rightarrow> 'r \<Rightarrow> 'b \<Rightarrow> string \<Rightarrow> string \<Rightarrow> (string \<times> string) option go_result" where
  "verify_entity lib sg root b manifest_bytes san =
    (case sg_new_verifier sg root 1 1 of
       Inl e \<Rightarrow> Inl e
     | Inr verify \<Rightarrow> (case sg_certificate_identity sg expected_issuer [] [] san of
         Inl e \<Rightarrow> Inl e
       | Inr cert_id \<Rightarrow> verify b ''sha256'' (il_sha256 lib manifest_bytes) cert_id))"

definition verify_bundle_with_policy ::
  "integrity_lib \<Rightarrow> ('r, 'b, 'p) sigstore \<Rightarrow> build_info \<Rightarrow> string \<Rightarrow> string \<Rightarrow> policy \<Rightarrow> (string \<times> string) option go_result" where
  "verify_bundle_with_policy lib sg bi manifest_bytes bundle_bytes p =
    (if manifest_bytes = [] then Inl (Err_Msg ''manifest is empty'')
     else if bundle_bytes = [] then Inl (Err_Msg ''bundle is empty'')
     else case sg_trusted_root sg of
       Inl e \<Rightarrow> Inl e
     | Inr root \<Rightarrow> (case sg_unmarshal_bundle sg bundle_bytes of
         Inl e \<Rightarrow> Inl e
       | Inr b \<Rightarrow> verify_entity lib sg root b manifest_bytes (san_regex bi p)))"

section \<open>The Rekor log\<close>

definition default_rekor_base_url :: string where
  "default_rekor_base_url = ''https://rekor.sigstore.dev''"

definition plain_request :: "string \<Rightarrow> string \<Rightarrow> string \<Rightarrow> http_request" where
  "plain_request method url body =
     \<lparr>hr_method = method, hr_url = url, hr_authorization = [], hr_content_type = [], hr_user_agent = [], hr_body = body\<rparr>"

definition with_timeout :: "context_deadline \<Rightarrow> go_time \<Rightarrow> context_deadline" where
  "with_timeout ctx t = Some (case ctx of None \<Rightarrow> t | Some d \<Rightarrow> min d t)"

definition rekor_json ::
  "integrity_lib \<Rightarrow> context_deadline \<Rightarrow> string \<Rightarrow> string \<Rightarrow> string option \<Rightarrow> (string \<Rightarrow> 'a option) \<Rightarrow> ('z, 'a) client_op" where
  "rekor_json lib ctx method url req_body decode =
    go_bind get_clock (\<lambda>now.
    let req_ctx = with_timeout ctx (now + seconds 30) in
    if \<not> il_valid_url lib url then go_fail (Err_Msg ''invalid URL'')
    else go_bind (http_send req_ctx
           ((plain_request method url (case req_body of None \<Rightarrow> [] | Some b \<Rightarrow> b))
             \<lparr>hr_content_type := (if req_body = None then [] else ''application/json'')\<rparr>)) (\<lambda>(status, body).
    if status \<ge> 400 then go_fail (Err_Msg ''rekor status'')
    else case decode body of None \<Rightarrow> go_fail Err_Json | Some v \<Rightarrow> go_return v))"

definition rekor_search_by_hash :: "integrity_lib \<Rightarrow> context_deadline \<Rightarrow> string \<Rightarrow> string \<Rightarrow> ('z, string list) client_op" where
  "rekor_search_by_hash lib ctx base_url hex_sha =
     rekor_json lib ctx ''POST'' (base_url @ ''/api/v1/index/retrieve'')
       (Some (il_marshal_hash lib (''sha256:'' @ hex_sha))) (il_decode_uuids lib)"

text \<open>\<open>hex.DecodeString\<close>\<close>

definition hex_value :: "char \<Rightarrow> nat option" where
  "hex_value c =
    (if is_digit c then Some (byte c - 48)
     else if byte_in CHR ''a'' CHR ''f'' c then Some (byte c - 87)
     else if byte_in CHR ''A'' CHR ''F'' c then Some (byte c - 55) else None)"

fun hex_decode :: "string \<Rightarrow> string option" where
  "hex_decode [] = Some []"
| "hex_decode [_] = None"
| "hex_decode (a # b # s) =
    (case (hex_value a, hex_value b) of
       (Some x, Some y) \<Rightarrow> map_option (\<lambda>r. char_of (16 * x + y) # r) (hex_decode s)
     | _ \<Rightarrow> None)"

text \<open>\<open>base64.StdEncoding.DecodeString\<close>\<close>

definition std_decode :: "string \<Rightarrow> string option" where
  "std_decode s =
    (let t = filter (\<lambda>c. c \<noteq> CHR 0x0A \<and> c \<noteq> CHR 0x0D) s;
         pad = length (takeWhile (\<lambda>c. c = CHR ''='') (rev t))
     in if length t mod 4 \<noteq> 0 \<or> pad > 2 then None else raw_decode False (take (length t - pad) t))"

definition or_error :: "string \<Rightarrow> 'a option \<Rightarrow> 'a go_result" where
  "or_error what z = (case z of None \<Rightarrow> Inl (Err_Msg what) | Some x \<Rightarrow> Inr x)"

definition parse_rekor_body :: "integrity_lib \<Rightarrow> string \<Rightarrow> rekor_body go_result" where
  "parse_rekor_body lib body_json =
    (case il_decode_body lib body_json of
       None \<Rightarrow> Inl (Err_Msg ''error decoding JSON body'')
     | Some wrap \<Rightarrow>
         if rb_kind wrap = [] then Inl (Err_Msg ''rekor body is missing kind'')
         else if rb_api_version wrap = [] then Inl (Err_Msg ''rekor body is missing apiVersion'') else Inr wrap)"

definition parse_hashed_rekord :: "integrity_lib \<Rightarrow> string \<Rightarrow> (string \<times> string) go_result" where
  "parse_hashed_rekord lib body_json =
    (case parse_rekor_body lib body_json of
       Inl e \<Rightarrow> Inl e
     | Inr wrap \<Rightarrow>
         if rb_kind wrap \<noteq> ''hashedrekord'' then Inl (Err_Msg ''unsupported rekor entry kind'')
         else case il_decode_spec lib (rb_spec wrap) of
           None \<Rightarrow> Inl (Err_Msg ''unmarshal spec'')
         | Some (signature_content, key_content) \<Rightarrow>
             (case std_decode signature_content of
                None \<Rightarrow> Inl (Err_Msg ''decode signature'')
              | Some sig \<Rightarrow> (case std_decode key_content of
                  None \<Rightarrow> Inl (Err_Msg ''decode publicKey.content'')
                | Some pem_bytes \<Rightarrow> (case il_pem_decode lib pem_bytes of
                    None \<Rightarrow> Inl (Err_Msg ''publicKey.content is not a PEM CERTIFICATE'')
                  | Some (block_type, der) \<Rightarrow>
                      if block_type \<noteq> ''CERTIFICATE'' then Inl (Err_Msg ''publicKey.content is not a PEM CERTIFICATE'')
                      else if \<not> il_x509_ok lib der then Inl (Err_Msg ''parse leaf cert'') else Inr (sig, der)))))"

fun decode_hashes :: "string list \<Rightarrow> string list option" where
  "decode_hashes [] = Some []"
| "decode_hashes (h # hs) =
    (case hex_decode h of None \<Rightarrow> None | Some b \<Rightarrow> map_option ((#) b) (decode_hashes hs))"

definition proof_to_proto :: "inclusion_proof \<Rightarrow> inclusion_proof go_result" where
  "proof_to_proto p =
    (case hex_decode (pf_root_hash p) of
       None \<Rightarrow> Inl (Err_Msg ''decode rootHash'')
     | Some root_hash \<Rightarrow> (case decode_hashes (pf_hashes p) of
         None \<Rightarrow> Inl (Err_Msg ''decode hashes'')
       | Some hashes \<Rightarrow> Inr (p\<lparr>pf_root_hash := root_hash, pf_hashes := hashes\<rparr>)))"

definition assemble_bundle_proto ::
  "string \<Rightarrow> string \<Rightarrow> string \<Rightarrow> string \<Rightarrow> int \<Rightarrow> int \<Rightarrow> string \<Rightarrow> inclusion_proof \<Rightarrow> string \<Rightarrow> bundle_proto go_result" where
  "assemble_bundle_proto artifact_digest sig cert_der log_id log_index integrated_time set_bytes prf body =
    (if length artifact_digest \<noteq> 32 then Inl (Err_Msg ''unexpected digest length'')
     else Inr \<lparr>bp_media_type = ''application/vnd.dev.sigstore.bundle.v0.3+json'', bp_certificate = cert_der,
               bp_log_index = log_index, bp_log_id = log_id, bp_kind = ''hashedrekord'', bp_kind_version = ''0.0.1'',
               bp_integrated_time = integrated_time, bp_signed_entry_timestamp = set_bytes, bp_proof = prf,
               bp_canonicalized_body = body, bp_digest_algorithm = ''SHA2_256'', bp_digest = artifact_digest,
               bp_signature = sig\<rparr>)"

text \<open>The entry under its own key, else the first that the iteration of the map meets.\<close>

definition entry_of_response :: "string \<Rightarrow> (string \<times> rekor_log_entry) list \<Rightarrow> rekor_log_entry go_result" where
  "entry_of_response uuid resp_map =
    (case map_of resp_map uuid of
       Some entry \<Rightarrow> Inr entry
     | None \<Rightarrow> (case resp_map of [] \<Rightarrow> Inl (Err_Msg ''empty rekor entry response'') | (_, v) # _ \<Rightarrow> Inr v))"

definition bundle_of_entry ::
  "integrity_lib \<Rightarrow> ('r, 'b, 'p) sigstore \<Rightarrow> string \<Rightarrow> rekor_log_entry \<Rightarrow> 'b go_result" where
  "bundle_of_entry lib sg artifact_digest entry =
    (case std_decode (re_body entry) of
       None \<Rightarrow> Inl (Err_Msg ''decode entry body'')
     | Some body \<Rightarrow> (case parse_hashed_rekord lib body of
         Inl e \<Rightarrow> Inl e
       | Inr (sig, cert_der) \<Rightarrow> (case std_decode (re_signed_entry_timestamp entry) of
           None \<Rightarrow> Inl (Err_Msg ''decode SET'')
         | Some set_bytes \<Rightarrow> (case hex_decode (re_log_id entry) of
             None \<Rightarrow> Inl (Err_Msg ''decode logID'')
           | Some log_id \<Rightarrow> (case proof_to_proto (re_proof entry) of
               Inl e \<Rightarrow> Inl e
             | Inr prf \<Rightarrow>
                 (case assemble_bundle_proto artifact_digest sig cert_der log_id (re_log_index entry)
                         (re_integrated_time entry) set_bytes prf body of
                    Inl e \<Rightarrow> Inl e
                  | Inr pb \<Rightarrow> sg_new_bundle sg pb))))))"

definition rekor_entry_as_bundle ::
  "integrity_lib \<Rightarrow> ('r, 'b, 'p) sigstore \<Rightarrow> context_deadline \<Rightarrow> string \<Rightarrow> string \<Rightarrow> string \<Rightarrow> ('z, 'b) client_op" where
  "rekor_entry_as_bundle lib sg ctx base_url uuid artifact_digest =
    go_bind (rekor_json lib ctx ''GET'' (base_url @ ''/api/v1/log/entries/'' @ uuid) None (il_decode_entries lib)) (\<lambda>resp_map.
    go_bind (go_lift (entry_of_response uuid resp_map)) (\<lambda>entry.
    go_lift (bundle_of_entry lib sg artifact_digest entry)))"

text \<open>The loop over the entries: the first that verifies wins, else the error of the last one.\<close>

fun try_entries ::
  "integrity_lib \<Rightarrow> ('r, 'b, 'p) sigstore \<Rightarrow> context_deadline \<Rightarrow> string \<Rightarrow> string \<Rightarrow> 'r \<Rightarrow> string \<Rightarrow> go_error option
     \<Rightarrow> string list \<Rightarrow> ('z, (string \<times> string) option) client_op" where
  "try_entries lib sg ctx base_url manifest_bytes root san last_err [] w =
     (Inl (case last_err of None \<Rightarrow> Err_Msg ''no rekor entries matched identity policy'' | Some e \<Rightarrow> e), w)"
| "try_entries lib sg ctx base_url manifest_bytes root san last_err (uuid # uuids) w =
    (case rekor_entry_as_bundle lib sg ctx base_url uuid (il_sha256 lib manifest_bytes) w of
       (Inl e, w1) \<Rightarrow> try_entries lib sg ctx base_url manifest_bytes root san (Some e) uuids w1
     | (Inr b, w1) \<Rightarrow> (case verify_entity lib sg root b manifest_bytes san of
         Inl e \<Rightarrow> try_entries lib sg ctx base_url manifest_bytes root san (Some e) uuids w1
       | Inr result \<Rightarrow> (Inr result, w1)))"

definition verify_via_rekor_with_policy ::
  "integrity_lib \<Rightarrow> ('r, 'b, 'p) sigstore \<Rightarrow> build_info \<Rightarrow> context_deadline \<Rightarrow> string \<Rightarrow> string \<Rightarrow> policy
     \<Rightarrow> ('z, (string \<times> string) option) client_op" where
  "verify_via_rekor_with_policy lib sg bi ctx manifest_bytes rekor_base_url p =
    (if manifest_bytes = [] then go_fail (Err_Msg ''manifest is empty'')
     else let base_url = (if rekor_base_url = [] then default_rekor_base_url else rekor_base_url) in
       go_bind (go_lift (sg_trusted_root sg)) (\<lambda>root.
       go_bind (rekor_search_by_hash lib ctx base_url (hex_encode (il_sha256 lib manifest_bytes))) (\<lambda>uuids.
       if uuids = [] then go_fail (Err_Msg ''no rekor entries found for manifest digest'')
       else try_entries lib sg ctx base_url manifest_bytes root (san_regex bi p) None uuids)))"

section \<open>The check\<close>

record check_options =
  co_server :: string
  co_no_rekor_fallback :: bool
  co_repo_url :: string
  co_signing_ref_pattern :: string

datatype mismatch_reason = Mismatch_Size | Mismatch_Sha256

record mismatch =
  mm_path :: string
  mm_reason :: mismatch_reason
  mm_expected :: string
  mm_actual :: string

record check_result =
  cr_info :: info_response
  cr_manifest :: manifest
  cr_identity :: "string \<times> string"
  cr_used_rekor :: bool
  cr_file_count :: nat
  cr_mismatches :: "mismatch list"

definition verifier_request :: "integrity_lib \<Rightarrow> string \<Rightarrow> http_request go_result" where
  "verifier_request lib url =
    (if \<not> il_valid_url lib url then Inl (Err_Msg ''invalid URL'') else Inr (plain_request ''GET'' url []))"

definition do_json_request ::
  "integrity_lib \<Rightarrow> context_deadline \<Rightarrow> (string \<Rightarrow> 'a option) \<Rightarrow> http_request \<Rightarrow> ('z, 'a) client_op" where
  "do_json_request lib ctx decode req =
    go_bind (http_send ctx req) (\<lambda>(status, body).
    if status \<ge> 400 then
      (if il_decode_error lib body \<noteq> [] then go_fail (Err_Response status (il_decode_error lib body))
       else go_fail (Err_Response status ''response status code''))
    else case decode body of None \<Rightarrow> go_fail Err_Json | Some v \<Rightarrow> go_return v)"

definition fetch_info :: "integrity_lib \<Rightarrow> context_deadline \<Rightarrow> string \<Rightarrow> ('z, info_response) client_op" where
  "fetch_info lib ctx server =
    go_bind (go_lift (verifier_request lib (server @ ''/info''))) (\<lambda>req.
    go_bind (do_json_request lib ctx (il_decode_info lib) req) (\<lambda>res.
    if if_api_version res \<noteq> 2 then go_fail (Err_Msg ''unexpected apiVersion'') else go_return res))"

definition fetch_integrity :: "integrity_lib \<Rightarrow> context_deadline \<Rightarrow> string \<Rightarrow> ('z, string \<times> string) client_op" where
  "fetch_integrity lib ctx server =
    go_bind (go_lift (verifier_request lib (server @ ''/info/integrity''))) (\<lambda>req.
    go_bind (do_json_request lib ctx (il_decode_integrity lib) req) (\<lambda>res.
    if fst res = [] then go_fail (Err_Msg ''server returned an empty manifest'') else go_return res))"

definition hash_remote_file :: "integrity_lib \<Rightarrow> context_deadline \<Rightarrow> string \<Rightarrow> ('z, string \<times> int) client_op" where
  "hash_remote_file lib ctx full_url =
    go_bind (go_lift (verifier_request lib full_url)) (\<lambda>req.
    go_bind (http_send ctx req) (\<lambda>(status, body).
    if status \<noteq> 200 then go_fail (Err_Msg ''unexpected status'')
    else go_return (hex_encode (il_sha256 lib body), int (length body))))"

definition file_mismatch :: "file_entry \<Rightarrow> string \<Rightarrow> int \<Rightarrow> mismatch list" where
  "file_mismatch f got_sha got_size =
    (if got_size \<noteq> fe_size f
     then [\<lparr>mm_path = fe_path f, mm_reason = Mismatch_Size, mm_expected = format_int (fe_size f), mm_actual = format_int got_size\<rparr>]
     else if got_sha \<noteq> fe_sha256 f
     then [\<lparr>mm_path = fe_path f, mm_reason = Mismatch_Sha256, mm_expected = fe_sha256 f, mm_actual = got_sha\<rparr>]
     else [])"

fun verify_manifest_files ::
  "integrity_lib \<Rightarrow> context_deadline \<Rightarrow> string \<Rightarrow> mismatch list \<Rightarrow> file_entry list \<Rightarrow> ('z, mismatch list) client_op" where
  "verify_manifest_files lib ctx server acc [] w = (Inr acc, w)"
| "verify_manifest_files lib ctx server acc (f # fs) w =
    (if context_done ctx (cw_clock w) then (Inl context_error, w)
     else case hash_remote_file lib ctx (server @ ''/'' @ fe_path f) w of
       (Inl e, w1) \<Rightarrow> (Inl e, w1)
     | (Inr (got_sha, got_size), w1) \<Rightarrow>
         verify_manifest_files lib ctx server (acc @ file_mismatch f got_sha got_size) fs w1)"

text \<open>The signature: inline, and from the log unless that is disabled.\<close>

definition verify_manifest_signature ::
  "integrity_lib \<Rightarrow> ('r, 'b, 'p) sigstore \<Rightarrow> build_info \<Rightarrow> context_deadline \<Rightarrow> check_options \<Rightarrow> string \<Rightarrow> string
     \<Rightarrow> ('z, (string \<times> string) option \<times> bool) client_op" where
  "verify_manifest_signature lib sg bi ctx opts manifest_bytes bundle_bytes =
    (let p = \<lparr>po_repo_url = co_repo_url opts, po_signing_ref_pattern = co_signing_ref_pattern opts\<rparr> in
     case verify_bundle_with_policy lib sg bi manifest_bytes bundle_bytes p of
       Inr vr \<Rightarrow> go_return (vr, False)
     | Inl e \<Rightarrow>
         if co_no_rekor_fallback opts then go_fail e
         else go_bind (verify_via_rekor_with_policy lib sg bi ctx manifest_bytes [] p) (\<lambda>vr. go_return (vr, True)))"

definition check_downgrade :: "manifest \<Rightarrow> info_response \<Rightarrow> unit go_result" where
  "check_downgrade m info =
    (if mf_version m \<noteq> if_version info then Inl (Err_Msg ''manifest version does not match /info version (possible downgrade)'')
     else if mf_commit m \<noteq> if_commit info then Inl (Err_Msg ''manifest commit does not match /info commit (possible downgrade)'')
     else Inr ())"

definition integrity_check ::
  "integrity_lib \<Rightarrow> ('r, 'b, 'p) sigstore \<Rightarrow> build_info \<Rightarrow> context_deadline \<Rightarrow> check_options \<Rightarrow> ('z, check_result) client_op" where
  "integrity_check lib sg bi ctx opts =
    (let server = trim_slash (co_server opts) in
     if server = [] then go_fail (Err_Msg ''server is required'')
     else go_bind (fetch_info lib ctx server) (\<lambda>info.
       if \<not> if_has_integrity info then go_fail (Err_Msg ''server reports hasIntegrity=false'')
       else go_bind (fetch_integrity lib ctx server) (\<lambda>(manifest_bytes, bundle_bytes).
       go_bind (verify_manifest_signature lib sg bi ctx opts manifest_bytes bundle_bytes) (\<lambda>(vr, used_rekor).
       go_bind (go_lift (parse_manifest manifest_bytes)) (\<lambda>m.
       go_bind (go_lift (check_downgrade m info)) (\<lambda>_.
       go_bind (verify_manifest_files lib ctx server [] (mf_files m)) (\<lambda>mismatches.
       go_return \<lparr>cr_info = info, cr_manifest = m,
                  cr_identity = (case vr of None \<Rightarrow> ([], []) | Some i \<Rightarrow> i),
                  cr_used_rekor = used_rekor, cr_file_count = length (mf_files m), cr_mismatches = mismatches\<rparr>))))))) "

text \<open>The command \<open>check\<close> fails on any mismatch.\<close>

definition run_check ::
  "integrity_lib \<Rightarrow> ('r, 'b, 'p) sigstore \<Rightarrow> build_info \<Rightarrow> context_deadline \<Rightarrow> check_options \<Rightarrow> int \<Rightarrow> ('z, check_result) client_op" where
  "run_check lib sg bi parent opts timeout =
    (if co_server opts = [] then go_fail (Err_Msg ''--server is required'')
     else go_bind get_clock (\<lambda>now.
       let t = (if timeout \<le> 0 then seconds 60 else timeout) in
       go_bind (go_lift (if il_valid_url lib (co_server opts) then Inr () else Inl (Err_Msg ''invalid server URL''))) (\<lambda>_.
       go_bind (integrity_check lib sg bi (with_timeout parent (now + t)) opts) (\<lambda>r.
       if cr_mismatches r \<noteq> [] then go_fail (Err_Msg ''file(s) failed integrity check'') else go_return r))))"

section \<open>What the check asks and hears\<close>

text \<open>The conversation goes on from \<open>w0\<close>: the other side's behaviour is fixed, requests are only added.\<close>

definition conversation :: "'z client_world_scheme \<Rightarrow> 'z client_world_scheme \<Rightarrow> bool" where
  "conversation w0 w \<longleftrightarrow> cw_remote w = cw_remote w0 \<and> prefix (cw_sent w0) (cw_sent w)"

lemma conversation_refl: "conversation w w"
  by (simp add: conversation_def)

lemma conversation_trans: "conversation a b \<Longrightarrow> conversation b c \<Longrightarrow> conversation a c"
  by (auto simp: conversation_def)

lemma http_send_conversation: "conversation w (snd (http_send ctx r w))"
  by (auto simp: http_send_def conversation_def Let_def split: server_reply.splits)

lemma keeps_conversation_send [keeps_intros]:
  "keeps (conversation w0) (http_send ctx r)" "keeps (conversation w0) get_clock"
  using http_send_conversation conversation_trans
  by (auto simp: keeps_def get_clock_def) blast

lemma keeps_conversation [keeps_intros]:
  "keeps (conversation w0) (rekor_json lib ctx method url b decode)"
  "keeps (conversation w0) (rekor_search_by_hash lib ctx base hex_sha)"
  "keeps (conversation w0) (rekor_entry_as_bundle lib sg ctx base uuid digest)"
  "keeps (conversation w0) (do_json_request lib ctx decode req)"
  "keeps (conversation w0) (fetch_info lib ctx server)"
  "keeps (conversation w0) (fetch_integrity lib ctx server)"
  "keeps (conversation w0) (hash_remote_file lib ctx url)"
  by (auto simp: rekor_json_def rekor_search_by_hash_def rekor_entry_as_bundle_def do_json_request_def fetch_info_def
      fetch_integrity_def hash_remote_file_def Let_def intro!: keeps_intros split: prod.splits)

lemma keeps_conversation_entries [keeps_intros]:
  "keeps (conversation w0) (try_entries lib sg ctx base bytes root san last_err uuids)"
proof (induction uuids arbitrary: last_err)
  case Nil
  then show ?case by (simp add: keeps_def)
next
  case (Cons uuid uuids)
  show ?case
  proof (rule keepsI)
    fix w assume w: "conversation w0 w"
    obtain r w1 where r: "rekor_entry_as_bundle lib sg ctx base uuid (il_sha256 lib bytes) w = (r, w1)" by fastforce
    then have "conversation w0 w1" using keeps_stepD [OF keeps_conversation(3) w] by blast
    then show "conversation w0 (snd (try_entries lib sg ctx base bytes root san last_err (uuid # uuids) w))"
      using r keepsD [OF Cons.IH] by (auto split: sum.splits)
  qed
qed

lemma keeps_conversation_signature [keeps_intros]:
  "keeps (conversation w0) (verify_via_rekor_with_policy lib sg bi ctx bytes base p)"
  "keeps (conversation w0) (verify_manifest_signature lib sg bi ctx opts bytes bundle)"
  by (auto simp: verify_via_rekor_with_policy_def verify_manifest_signature_def Let_def
      intro!: keeps_intros split: sum.splits)

text \<open>The request was sent, and answered with \<open>200\<close> and this body.\<close>

definition answered :: "'z client_world_scheme \<Rightarrow> 'z client_world_scheme \<Rightarrow> http_request \<Rightarrow> string \<Rightarrow> bool" where
  "answered w w1 req body \<longleftrightarrow>
    (\<exists>pre n. prefix (cw_sent w) pre \<and> prefix (pre @ [req]) (cw_sent w1) \<and> cw_remote w pre req = Reply_Http n 200 body)"

lemma answered_later:
  assumes "conversation a b" and "answered b c req body" and "conversation c d"
  shows "answered a d req body"
  using assms unfolding answered_def conversation_def by (metis prefix_order.trans)

lemma hash_remote_file_answered:
  assumes "hash_remote_file lib ctx url w = (Inr (sha, n), w1)"
  obtains body where "answered w w1 (plain_request ''GET'' url []) body"
    and "sha = hex_encode (il_sha256 lib body)" and "n = int (length body)"
proof -
  obtain body where b: "http_send ctx (plain_request ''GET'' url []) w = (Inr (200, body), w1)"
    and "sha = hex_encode (il_sha256 lib body)" "n = int (length body)"
    using assms by (auto simp: hash_remote_file_def verifier_request_def go_ok_iffs split: if_splits)
  moreover have "answered w w1 (plain_request ''GET'' url []) body"
    using b by (auto simp: http_send_def answered_def Let_def split: if_splits server_reply.splits)
  ultimately show thesis using that by blast
qed

definition file_request :: "string \<Rightarrow> file_entry \<Rightarrow> http_request" where
  "file_request server f = plain_request ''GET'' (server @ ''/'' @ fe_path f) []"

definition body_mismatch :: "integrity_lib \<Rightarrow> file_entry \<Rightarrow> string \<Rightarrow> mismatch list" where
  "body_mismatch lib f body = file_mismatch f (hex_encode (il_sha256 lib body)) (int (length body))"

lemma verify_manifest_files_answers:
  assumes "verify_manifest_files lib ctx server acc fs w = (Inr ms, w1)"
  shows "conversation w w1 \<and> (\<exists>bodies. list_all2 (\<lambda>f body. answered w w1 (file_request server f) body) fs bodies
           \<and> ms = acc @ concat (map2 (body_mismatch lib) fs bodies))"
  using assms
proof (induction fs arbitrary: acc w)
  case Nil
  then show ?case by (simp add: conversation_refl)
next
  case (Cons f fs)
  obtain sha n w2 where h: "hash_remote_file lib ctx (server @ ''/'' @ fe_path f) w = (Inr (sha, n), w2)"
    and rest: "verify_manifest_files lib ctx server (acc @ file_mismatch f sha n) fs w2 = (Inr ms, w1)"
    using Cons.prems by (auto split: if_splits prod.splits sum.splits)
  obtain body where body: "answered w w2 (file_request server f) body" "sha = hex_encode (il_sha256 lib body)" "n = int (length body)"
    using hash_remote_file_answered [OF h] unfolding file_request_def by metis
  have w2: "conversation w w2" using keeps_stepD [OF keeps_conversation(7) conversation_refl h] .
  from Cons.IH [OF rest] obtain bodies where IH: "conversation w2 w1"
    "list_all2 (\<lambda>f body. answered w2 w1 (file_request server f) body) fs bodies"
    "ms = (acc @ file_mismatch f sha n) @ concat (map2 (body_mismatch lib) fs bodies)" by blast
  have "list_all2 (\<lambda>f body. answered w w1 (file_request server f) body) fs bodies"
    using IH(2) by (rule list_all2_mono) (rule answered_later [OF w2 _ conversation_refl])
  moreover have "answered w w1 (file_request server f) body"
    using answered_later [OF conversation_refl body(1) IH(1)] .
  ultimately have "list_all2 (\<lambda>f body. answered w w1 (file_request server f) body) (f # fs) (body # bodies)
      \<and> ms = acc @ concat (map2 (body_mismatch lib) (f # fs) (body # bodies))"
    using IH(3) body(2,3) by (simp add: body_mismatch_def)
  then show ?case using conversation_trans [OF w2 IH(1)] by blast
qed

section \<open>A check that comes through\<close>

definition policy_of :: "check_options \<Rightarrow> policy" where
  "policy_of opts = \<lparr>po_repo_url = co_repo_url opts, po_signing_ref_pattern = co_signing_ref_pattern opts\<rparr>"

text \<open>sigstore's verifier, over the embedded root and with the release workflow's identity, accepted a bundle for this text.\<close>

definition manifest_signed ::
  "integrity_lib \<Rightarrow> ('r, 'b, 'p) sigstore \<Rightarrow> build_info \<Rightarrow> check_options \<Rightarrow> string \<Rightarrow> (string \<times> string) option \<Rightarrow> bool" where
  "manifest_signed lib sg bi opts bytes vr \<longleftrightarrow>
    (\<exists>root verify pol b. sg_trusted_root sg = Inr root \<and> sg_new_verifier sg root 1 1 = Inr verify
       \<and> sg_certificate_identity sg expected_issuer [] [] (san_regex bi (policy_of opts)) = Inr pol
       \<and> verify b ''sha256'' (il_sha256 lib bytes) pol = Inr vr)"

lemma verify_entity_signed:
  "sg_trusted_root sg = Inr root \<Longrightarrow> verify_entity lib sg root b bytes (san_regex bi (policy_of opts)) = Inr vr
     \<Longrightarrow> manifest_signed lib sg bi opts bytes vr"
  by (auto simp: verify_entity_def manifest_signed_def split: sum.splits)

lemma try_entries_verified:
  "try_entries lib sg ctx base bytes root san last_err uuids w = (Inr vr, w1)
     \<Longrightarrow> \<exists>b. verify_entity lib sg root b bytes san = Inr vr"
  by (induction uuids arbitrary: last_err w) (auto split: prod.splits sum.splits)

lemma verify_manifest_signature_signed:
  assumes "verify_manifest_signature lib sg bi ctx opts bytes bundle w = (Inr (vr, used), w1)"
  shows "manifest_signed lib sg bi opts bytes vr \<and> (co_no_rekor_fallback opts \<longrightarrow> \<not> used)"
proof (cases "verify_bundle_with_policy lib sg bi bytes bundle (policy_of opts)")
  case (Inr v)
  then show ?thesis
    using assms verify_entity_signed
    by (auto simp: verify_manifest_signature_def policy_of_def [symmetric] verify_bundle_with_policy_def split: if_splits sum.splits)
next
  case (Inl e)
  then have used: "\<not> co_no_rekor_fallback opts"
    and v: "verify_via_rekor_with_policy lib sg bi ctx bytes [] (policy_of opts) w = (Inr vr, w1)"
    using assms by (auto simp: verify_manifest_signature_def policy_of_def [symmetric] Let_def go_ok_iffs split: if_splits)
  from v obtain root base wa uuids where root: "sg_trusted_root sg = Inr root"
    and t: "try_entries lib sg ctx base bytes root (san_regex bi (policy_of opts)) None uuids wa = (Inr vr, w1)"
    by (auto simp: verify_via_rekor_with_policy_def Let_def go_ok_iffs split: if_splits)
  show ?thesis using try_entries_verified [OF t] verify_entity_signed [OF root] used by blast
qed

lemma integrity_check_steps:
  assumes "integrity_check lib sg bi ctx opts w = (Inr r, w1)"
  obtains bytes vr bodies where "manifest_signed lib sg bi opts bytes vr"
    and "cr_identity r = (case vr of None \<Rightarrow> ([], []) | Some i \<Rightarrow> i)"
    and "co_no_rekor_fallback opts \<longrightarrow> \<not> cr_used_rekor r"
    and "parse_manifest bytes = Inr (cr_manifest r)"
    and "mf_version (cr_manifest r) = if_version (cr_info r)" and "mf_commit (cr_manifest r) = if_commit (cr_info r)"
    and "list_all2 (\<lambda>f body. answered w w1 (file_request (trim_slash (co_server opts)) f) body) (mf_files (cr_manifest r)) bodies"
    and "cr_mismatches r = concat (map2 (body_mismatch lib) (mf_files (cr_manifest r)) bodies)"
proof -
  let ?server = "trim_slash (co_server opts)"
  obtain info wa bytes bun wb vr used wc m ms where
    a: "fetch_info lib ctx ?server w = (Inr info, wa)" and b: "fetch_integrity lib ctx ?server wa = (Inr (bytes, bun), wb)"
    and c: "verify_manifest_signature lib sg bi ctx opts bytes bun wb = (Inr (vr, used), wc)"
    and m: "parse_manifest bytes = Inr m" "check_downgrade m info = Inr ()"
    and f: "verify_manifest_files lib ctx ?server [] (mf_files m) wc = (Inr ms, w1)"
    and r: "r = \<lparr>cr_info = info, cr_manifest = m, cr_identity = (case vr of None \<Rightarrow> ([], []) | Some i \<Rightarrow> i),
                 cr_used_rekor = used, cr_file_count = length (mf_files m), cr_mismatches = ms\<rparr>"
    using assms unfolding integrity_check_def Let_def by (auto simp: go_ok_iffs split: if_splits)
  have wc: "conversation w wc"
    using keeps_stepD [OF keeps_conversation(5) conversation_refl a] keeps_stepD [OF keeps_conversation(6) _ b]
      keeps_stepD [OF keeps_conversation_signature(2) _ c] by blast
  obtain bodies where bodies: "list_all2 (\<lambda>f body. answered wc w1 (file_request ?server f) body) (mf_files m) bodies"
    "ms = concat (map2 (body_mismatch lib) (mf_files m) bodies)"
    using verify_manifest_files_answers [OF f] by auto
  from bodies(1) have "list_all2 (\<lambda>f body. answered w w1 (file_request ?server f) body) (mf_files m) bodies"
    by (rule list_all2_mono) (rule answered_later [OF wc _ conversation_refl])
  then show thesis
    using that [of bytes vr bodies] verify_manifest_signature_signed [OF c] m bodies(2) r
    by (auto simp: check_downgrade_def split: if_splits)
qed

lemma no_mismatch: "body_mismatch lib f body = [] \<longleftrightarrow> int (length body) = fe_size f \<and> hex_encode (il_sha256 lib body) = fe_sha256 f"
  by (simp add: body_mismatch_def file_mismatch_def)

lemma no_mismatches:
  "list_all2 P fs bodies \<Longrightarrow> concat (map2 (body_mismatch lib) fs bodies) = []
     \<Longrightarrow> list_all2 (\<lambda>f body. P f body \<and> int (length body) = fe_size f \<and> hex_encode (il_sha256 lib body) = fe_sha256 f) fs bodies"
  by (induction rule: list_all2_induct) (simp_all add: no_mismatch)

text \<open>C24: A check that comes through has verified what it claims, whatever the server and the Rekor log answer: sigstore's
  verifier accepted a signature over the SHA-256 of the manifest's bytes by the release workflow's identity, from the
  inline bundle alone when the fallback is disabled; those bytes parse to the manifest of the result, its version and commit
  are those the server reports, and every listed file was requested during the check and answered with
  exactly the listed size and hash.\<close>

theorem run_check_sound:
  assumes "run_check lib sg bi parent opts timeout w = (Inr r, w1)"
  shows "\<exists>bytes vr bodies. manifest_signed lib sg bi opts bytes vr
     \<and> cr_identity r = (case vr of None \<Rightarrow> ([], []) | Some i \<Rightarrow> i)
     \<and> (co_no_rekor_fallback opts \<longrightarrow> \<not> cr_used_rekor r)
     \<and> parse_manifest bytes = Inr (cr_manifest r)
     \<and> mf_version (cr_manifest r) = if_version (cr_info r) \<and> mf_commit (cr_manifest r) = if_commit (cr_info r)
     \<and> list_all2 (\<lambda>f body. answered w w1 (file_request (trim_slash (co_server opts)) f) body
                   \<and> int (length body) = fe_size f \<and> hex_encode (il_sha256 lib body) = fe_sha256 f)
         (mf_files (cr_manifest r)) bodies"
proof -
  define ctx where "ctx = with_timeout parent (cw_clock w + (if timeout \<le> 0 then seconds 60 else timeout))"
  have "co_server opts \<noteq> []" "il_valid_url lib (co_server opts)"
    using assms by (auto simp: run_check_def go_bind_def get_clock_def split: if_splits)
  then have "go_bind (integrity_check lib sg bi ctx opts) (\<lambda>r.
       if cr_mismatches r \<noteq> [] then go_fail (Err_Msg ''file(s) failed integrity check'') else go_return r) w = (Inr r, w1)"
    using assms by (simp add: run_check_def go_bind_Inr [of get_clock, OF get_clock_def] go_bind_Inr [of "go_lift (Inr ())"] ctx_def)
  then obtain r' w' where "integrity_check lib sg bi ctx opts w = (Inr r', w')" and
    "(if cr_mismatches r' \<noteq> [] then go_fail (Err_Msg ''file(s) failed integrity check'') else go_return r') w' = (Inr r, w1)"
    by (rule go_bind_okE)
  then have c: "integrity_check lib sg bi ctx opts w = (Inr r, w1)" and none: "cr_mismatches r = []"
    by (auto split: if_splits)
  from c show ?thesis
  proof (cases rule: integrity_check_steps)
    case (1 bytes vr bodies)
    have "concat (map2 (body_mismatch lib) (mf_files (cr_manifest r)) bodies) = []" using 1(8) none by simp
    from no_mismatches [OF 1(7) this] show ?thesis
      by (intro exI conjI) (rule 1(1), rule 1(2), rule 1(3), rule 1(4), rule 1(5), rule 1(6))
  qed
qed

section \<open>An unmodified release\<close>

definition serves :: "'z client_world_scheme \<Rightarrow> string \<Rightarrow> string \<Rightarrow> bool" where
  "serves w url body \<longleftrightarrow> (\<forall>pre. \<exists>n. cw_remote w pre (plain_request ''GET'' url []) = Reply_Http n 200 body)"

lemma serves_send: "serves w url body \<Longrightarrow> \<exists>w1. http_send None (plain_request ''GET'' url []) w = (Inr (200, body), w1) \<and> cw_remote w1 = cw_remote w"
proof -
  assume "serves w url body"
  then obtain n where "cw_remote w (cw_sent w) (plain_request ''GET'' url []) = Reply_Http n 200 body" by (auto simp: serves_def)
  then show ?thesis by (simp add: http_send_def context_done_def Let_def)
qed

lemma serves_remote: "cw_remote w1 = cw_remote w \<Longrightarrow> serves w1 url body = serves w url body"
  by (simp add: serves_def)

lemma fetch_served:
  assumes "serves w url body" and "il_valid_url lib url" and "decode body = Some v"
  shows "\<exists>w1. do_json_request lib None decode (plain_request ''GET'' url []) w = (Inr v, w1) \<and> cw_remote w1 = cw_remote w"
  using serves_send [OF assms(1)] assms(3) by (auto simp: do_json_request_def go_bind_def)

lemma hash_served:
  assumes "serves w url body" and "il_valid_url lib url"
  shows "\<exists>w1. hash_remote_file lib None url w = (Inr (hex_encode (il_sha256 lib body), int (length body)), w1) \<and> cw_remote w1 = cw_remote w"
  using serves_send [OF assms(1)] assms(2) by (auto simp: hash_remote_file_def verifier_request_def go_bind_def)

text \<open>The file is served as the manifest lists it.\<close>

definition served_as_listed :: "integrity_lib \<Rightarrow> 'z client_world_scheme \<Rightarrow> string \<Rightarrow> file_entry \<Rightarrow> bool" where
  "served_as_listed lib w server f \<longleftrightarrow> il_valid_url lib (server @ ''/'' @ fe_path f)
     \<and> (\<exists>body. serves w (server @ ''/'' @ fe_path f) body \<and> body_mismatch lib f body = [])"

lemma all_served_files:
  "list_all (served_as_listed lib w server) fs \<Longrightarrow> \<exists>w1. verify_manifest_files lib None server acc fs w = (Inr acc, w1)"
proof (induction fs arbitrary: w)
  case (Cons f fs)
  obtain body where b: "serves w (server @ ''/'' @ fe_path f) body" "body_mismatch lib f body = []"
    and v: "il_valid_url lib (server @ ''/'' @ fe_path f)" using Cons.prems by (auto simp: served_as_listed_def)
  obtain w1 where w1: "hash_remote_file lib None (server @ ''/'' @ fe_path f) w
      = (Inr (hex_encode (il_sha256 lib body), int (length body)), w1)" "cw_remote w1 = cw_remote w"
    using hash_served [OF b(1) v] by blast
  have "served_as_listed lib w1 server g = served_as_listed lib w server g" for g
    by (simp add: served_as_listed_def serves_remote [OF w1(2)])
  then have "list_all (served_as_listed lib w1 server) fs" using Cons.prems by (simp add: list_all_iff)
  from Cons.IH [OF this] show ?case using w1(1) b(2) by (simp add: context_done_def body_mismatch_def)
qed simp

definition release_served ::
  "integrity_lib \<Rightarrow> 'z client_world_scheme \<Rightarrow> string \<Rightarrow> info_response \<Rightarrow> string \<Rightarrow> string \<Rightarrow> bool" where
  "release_served lib w server info bytes sig_bundle \<longleftrightarrow>
     il_valid_url lib (server @ ''/info'') \<and> il_valid_url lib (server @ ''/info/integrity'')
     \<and> if_api_version info = 2 \<and> if_has_integrity info \<and> bytes \<noteq> []
     \<and> (\<exists>b. serves w (server @ ''/info'') b \<and> il_decode_info lib b = Some info)
     \<and> (\<exists>b. serves w (server @ ''/info/integrity'') b \<and> il_decode_integrity lib b = Some (bytes, sig_bundle))"

lemma release_fetched:
  assumes "release_served lib w server info bytes sig_bundle"
  shows "\<exists>w1. fetch_info lib None server w = (Inr info, w1) \<and> cw_remote w1 = cw_remote w"
    and "\<exists>w1. fetch_integrity lib None server w = (Inr (bytes, sig_bundle), w1) \<and> cw_remote w1 = cw_remote w"
proof -
  from assms obtain a b where
    a: "serves w (server @ ''/info'') a" "il_decode_info lib a = Some info" and
    b: "serves w (server @ ''/info/integrity'') b" "il_decode_integrity lib b = Some (bytes, sig_bundle)"
    and v: "il_valid_url lib (server @ ''/info'')" "il_valid_url lib (server @ ''/info/integrity'')"
    by (auto simp: release_served_def)
  show "\<exists>w1. fetch_info lib None server w = (Inr info, w1) \<and> cw_remote w1 = cw_remote w"
    using fetch_served [where decode = "il_decode_info lib", OF a(1) v(1) a(2)] v assms
    by (auto simp: fetch_info_def verifier_request_def go_bind_def release_served_def)
  show "\<exists>w1. fetch_integrity lib None server w = (Inr (bytes, sig_bundle), w1) \<and> cw_remote w1 = cw_remote w"
    using fetch_served [where decode = "il_decode_integrity lib", OF b(1) v(2) b(2)] v assms
    by (auto simp: fetch_integrity_def verifier_request_def go_bind_def release_served_def)
qed

lemma honest_server_passes:
  assumes server: "trim_slash (co_server opts) = server" "server \<noteq> []"
    and release: "release_served lib w server info (marshal_manifest m) sig_bundle"
    and m: "manifest_ok m" "mf_version m = if_version info" "mf_commit m = if_commit info"
    and sig: "verify_bundle_with_policy lib sg bi (marshal_manifest m) sig_bundle (policy_of opts) = Inr vr"
    and files: "list_all (served_as_listed lib w server) (mf_files m)"
  shows "\<exists>r w1. integrity_check lib sg bi None opts w = (Inr r, w1)
     \<and> cr_manifest r = m \<and> \<not> cr_used_rekor r \<and> cr_mismatches r = []"
proof -
  obtain w1 where w1: "fetch_info lib None server w = (Inr info, w1)" "cw_remote w1 = cw_remote w"
    using release_fetched(1) [OF release] by blast
  have "release_served lib w1 server info (marshal_manifest m) sig_bundle"
    using release by (simp add: release_served_def serves_remote [OF w1(2)])
  from release_fetched(2) [OF this] obtain w2 where
    w2: "fetch_integrity lib None server w1 = (Inr (marshal_manifest m, sig_bundle), w2)" "cw_remote w2 = cw_remote w1" by blast
  have "list_all (served_as_listed lib w2 server) (mf_files m)"
    using files serves_remote [of w2 w] w1(2) w2(2) by (simp add: list_all_iff served_as_listed_def)
  from all_served_files [OF this] obtain w3 where
    w3: "verify_manifest_files lib None server [] (mf_files m) w2 = (Inr [], w3)" by blast
  have "verify_manifest_signature lib sg bi None opts (marshal_manifest m) sig_bundle w2 = (Inr (vr, False), w2)"
    using sig by (simp add: verify_manifest_signature_def policy_of_def [symmetric])
  then show ?thesis
    using server release w1(1) w2(1) w3 marshal_parses [OF m(1)] m(2,3)
    by (simp add: integrity_check_def go_bind_def check_downgrade_def release_served_def)
qed

text \<open>C25: An unmodified release passes the check: the manifest the build wrote for the walked files of the web client,
  signed and served by the server together with those very files, is fetched, verified and parsed, and every file matches.\<close>

theorem release_passes_check:
  assumes built: "build_from_fs cr walk root version commit build_date = Inr m"
    and plain: "manifest_path_ok version" "manifest_path_ok commit" "set build_date \<inter> {newline, CHR 0x0D} = {}"
    and sizes: "\<And>b. length (cr_sha256 cr b) = 32" "\<And>e b. e \<in> set walk \<Longrightarrow> wk_contents e = Inr b \<Longrightarrow> in_int64 (int (length b))"
    and sha: "il_sha256 lib = cr_sha256 cr"
    and server: "trim_slash (co_server opts) = server" "server \<noteq> []"
    and release: "release_served lib w server info (marshal_manifest m) sig_bundle"
      "if_version info = version" "if_commit info = commit"
    and sig: "verify_bundle_with_policy lib sg bi (marshal_manifest m) sig_bundle (policy_of opts) = Inr vr"
    and files: "\<And>e rel b. e \<in> set (walked_files walk) \<Longrightarrow> rel_path root (wk_path e) = Inr rel \<Longrightarrow> wk_contents e = Inr b
      \<Longrightarrow> il_valid_url lib (server @ ''/'' @ rel) \<and> serves w (server @ ''/'' @ rel) b"
  shows "\<exists>r w1. integrity_check lib sg bi None opts w = (Inr r, w1)
     \<and> cr_manifest r = m \<and> \<not> cr_used_rekor r \<and> cr_mismatches r = []"
proof (rule honest_server_passes [OF server release(1) _ _ _ sig])
  note b = built_manifest_facts [OF built plain sizes]
  show "manifest_ok m" "mf_version m = if_version info" "mf_commit m = if_commit info"
    using b release(2,3) by simp_all
  have "served_as_listed lib w server f" if f: "f \<in> set (mf_files m)" for f
  proof -
    obtain e rel bs where e: "e \<in> set (walked_files walk)" "rel_path root (wk_path e) = Inr rel" "wk_contents e = Inr bs"
      "f = entry_of_file cr rel bs" using built_file_walked [OF built f] by blast
    then show ?thesis
      using files [OF e(1-3)] sha by (auto simp: served_as_listed_def entry_of_file_def no_mismatch)
  qed
  then show "list_all (served_as_listed lib w server) (mf_files m)" by (simp add: list_all_iff)
qed

text \<open>A server of that build.\<close>

definition sample_info :: info_response where
  "sample_info = \<lparr>if_product = ''revaulter'', if_api_version = 2, if_version = ''v1'', if_commit = ''abc'',
     if_build_date = ''today'', if_has_integrity = True\<rparr>"

definition release_lib :: integrity_lib where
  "release_lib = \<lparr>il_sha256 = cr_sha256 digest_crypto, il_valid_url = (\<lambda>_. True), il_marshal_hash = (\<lambda>h. h), il_decode_error = (\<lambda>_. []),
     il_decode_info = (\<lambda>_. Some sample_info), il_decode_integrity = (\<lambda>b. Some (b, ''bundle'')),
     il_decode_uuids = (\<lambda>_. None), il_decode_entries = (\<lambda>_. None), il_decode_body = (\<lambda>_. None), il_decode_spec = (\<lambda>_. None),
     il_pem_decode = (\<lambda>_. None), il_x509_ok = (\<lambda>_. False)\<rparr>"

definition release_sigstore :: "(unit, string, string) sigstore" where
  "release_sigstore = \<lparr>sg_trusted_root = Inr (), sg_unmarshal_bundle = Inr, sg_new_bundle = (\<lambda>_. Inl Err_Json),
     sg_new_verifier = (\<lambda>_ _ _. Inr (\<lambda>b alg digest p. if b = ''bundle'' then Inr (Some (p, ''ci'')) else Inl Err_Json)),
     sg_certificate_identity = (\<lambda>_ _ _ san. Inr san)\<rparr>"

definition release_build :: build_info where
  "release_build = \<lparr>bi_repo_url = ''https://g/r'', bi_signing_ref_pattern = ''tags/v.+''\<rparr>"

definition release_options :: check_options where
  "release_options = \<lparr>co_server = ''https://r/'', co_no_rekor_fallback = False, co_repo_url = [], co_signing_ref_pattern = []\<rparr>"

definition release_world :: client_world where
  "release_world = \<lparr>dk_files = Map.empty, dk_faults = [], dk_temp_name = [], rd_draws = [], cw_clock = 0, cw_sent = [], cw_submitted = [],
     cw_remote = (\<lambda>_ r. Reply_Http 5 200
       (if hr_url r = ''https://r/info/integrity'' then marshal_manifest sample_manifest
        else if hr_url r = ''https://r/a/i.html'' then ''hello'' else ''let b''))\<rparr>"

lemma release_world_served:
  "release_served release_lib release_world ''https://r'' sample_info (marshal_manifest sample_manifest) ''bundle''"
  "serves release_world ''https://r/b.js'' ''let b''" "serves release_world ''https://r/a/i.html'' ''hello''"
  by (simp_all add: release_served_def serves_def plain_request_def release_world_def release_lib_def sample_info_def marshal_manifest_def)

lemma release_signed:
  "verify_bundle_with_policy release_lib release_sigstore release_build (marshal_manifest sample_manifest) ''bundle'' (policy_of release_options)
     = Inr (Some (san_regex release_build (policy_of release_options), ''ci''))"
  by (simp add: verify_bundle_with_policy_def verify_entity_def release_sigstore_def marshal_manifest_def)

theorem release_passes_check_witness:
  "\<exists>r w1. integrity_check release_lib release_sigstore release_build None release_options release_world = (Inr r, w1)
     \<and> cr_manifest r = sample_manifest \<and> \<not> cr_used_rekor r \<and> cr_mismatches r = []"
proof (rule release_passes_check [OF sample_built _ _ _ sample_walk_sizes _ _ _ release_world_served(1) _ _ release_signed])
  show "trim_slash (co_server release_options) = ''https://r''" by (simp add: trim_slash_def release_options_def)
  show "il_valid_url release_lib (''https://r'' @ ''/'' @ rel) \<and> serves release_world (''https://r'' @ ''/'' @ rel) b"
    if "e \<in> set (walked_files sample_walk)" "rel_path ''dist'' (wk_path e) = Inr rel" "wk_contents e = Inr b" for e rel b
    using that release_world_served
    by (auto simp: walked_files_def sample_walk_def sample_rel_paths release_lib_def)
qed (simp_all add: manifest_path_ok_def release_lib_def sample_info_def)

lemma release_checked:
  "is_ok (fst (run_check release_lib release_sigstore release_build None release_options 0 release_world))"
  by code_simp

theorem run_check_sound_witness:
  "\<exists>r bytes vr. fst (run_check release_lib release_sigstore release_build None release_options 0 release_world) = Inr r
     \<and> manifest_signed release_lib release_sigstore release_build release_options bytes vr
     \<and> parse_manifest bytes = Inr (cr_manifest r)"
proof -
  obtain r w1 where "run_check release_lib release_sigstore release_build None release_options 0 release_world = (Inr r, w1)"
    using release_checked unfolding is_ok_iff by (metis prod.collapse)
  from run_check_sound [OF this] this show ?thesis by auto
qed

end
