(* ===== verification/Client_Samples.thy ===== *)
theory Client_Samples
  imports Client_Keys
begin

text \<open>
  Concrete instances of the client's theorems: primitives that satisfy the laws, a machine
  with one pinned anchor, and a server that serves the account of \<open>sample_account_db\<close>.
\<close>

section \<open>Primitives\<close>

text \<open>A P-384 key is its own encoding here; every signature verifies.\<close>

definition point_crypto :: "(string, unit) crypto" where
  "point_crypto = \<lparr>cr_sha384 = (\<lambda>m. m), cr_sha256 = (\<lambda>m. take 32 m), cr_ecdsa_verify = (\<lambda>_ _ _ _. True),
     cr_ecdsa_parse = Some, cr_ecdsa_bytes = Some, cr_mldsa_parse = (\<lambda>_. Some ()), cr_mldsa_verify = (\<lambda>_ _ _. True)\<rparr>"

lemma point_crypto_keeps: "ecdsa_points_kept point_crypto"
  by (simp add: ecdsa_points_kept_def point_crypto_def)

definition sample_point :: "string \<Rightarrow> string" where
  "sample_point k = char_of (4::nat) # replicate 64 CHR ''p''"

text \<open>Sealing keeps the plaintext readable but carries the additional data, which opening compares.\<close>

definition sample_transport :: transport_crypto where
  "sample_transport = \<lparr>tc_p256_generate = (\<lambda>r. r), tc_p256_public = sample_point, tc_new_p256 = Some,
     tc_ecdh = (\<lambda>_ _. Some ''z''), tc_mlkem_generate = (\<lambda>r. r), tc_mlkem_public = (\<lambda>_. ''e''), tc_new_mlkem768 = Some,
     tc_encapsulate = (\<lambda>_ _. (''s'', ''c'')), tc_decapsulate = (\<lambda>_ _. Some ''s''),
     tc_hkdf = (\<lambda>_ _ n. Some (replicate n CHR ''k'')), tc_seal = (\<lambda>_ _ p a. CHR ''t'' # a @ p),
     tc_open = (\<lambda>_ _ c a. if take (length a) (drop 1 c) = a then Some (drop (Suc (length a)) c) else None)\<rparr>"

lemma sample_transport_laws: "transport_laws sample_transport"
  by (simp add: transport_laws_def sample_transport_def sample_point_def)

lemma raw_url_decode_reads: "reads_base64url raw_url_decode"
  by (simp add: reads_base64url_def raw_decode_encode)

section \<open>A machine with a pinned anchor\<close>

definition sample_served :: pubkey_response where
  "sample_served = \<lparr>pk_user_id = ''alice'', pk_ecdh_p256 = u_request_enc_ecdh_pubkey sample_account,
     pk_mlkem768 = u_request_enc_mlkem_pubkey sample_account, pk_anchor_es384 = p384_canonical_body sample_anchor_jwk,
     pk_anchor_mldsa87 = raw_url_encode (replicate 2592 CHR ''k''), pk_sig_es384 = toy_signature 96,
     pk_sig_mldsa87 = toy_signature 4627, pk_version = 2\<rparr>"

definition sample_anchor_key :: string where
  "sample_anchor_key = char_of (4::nat) # replicate 48 CHR ''x'' @ replicate 48 CHR ''y''"

definition sample_fingerprint :: string where
  "sample_fingerprint = hex_encode (take 32 sample_anchor_key)"

definition sample_pin :: trust_store_entry where
  "sample_pin = \<lparr>te_anchor_es384 = p384_canonical_body sample_anchor_jwk,
     te_anchor_mldsa87 = raw_url_encode (replicate 2592 CHR ''k''), te_fingerprint = sample_fingerprint, te_first_seen = 7\<rparr>"

definition sample_codec :: trust_codec where
  "sample_codec = \<lparr>tk_decode = (\<lambda>b. if b = ''store'' then Some (Some [''https://r|alice'' \<mapsto> sample_pin]) else None),
     tk_encode = (\<lambda>_. None)\<rparr>"

definition sample_key_id :: string where
  "sample_key_id = raw_url_encode (take 32 (p256_thumbprint_text (sample_p256_jwk CHR ''A'')))"

definition sample_signing_publication :: publication_payload where
  "sample_signing_publication = sample_publication\<lparr>pp_key_id := sample_key_id\<rparr>"

definition sample_signing_response :: signing_key_response where
  "sample_signing_response = \<lparr>sr_id = ''row'', sr_algorithm = ''ES256'', sr_key_label = ''disk'', sr_jwk = ''{}'',
     sr_payload = publication_body sample_signing_publication, sr_sig_es384 = toy_signature 96, sr_sig_mldsa87 = toy_signature 4627\<rparr>"

text \<open>The browser's answer \<open>''pt''\<close> to a signature, sealed for the key pair that the draws \<open>''r1''\<close> and \<open>''r2''\<close> give.\<close>

definition sample_envelope :: response_envelope where
  "sample_envelope = the (encrypt_transport_envelope sample_transport raw_url_decode (tc_p256_generate sample_transport ''b'') ''c''
     (replicate 12 CHR ''n'') ''st'' (kp_ecdh_public (client_key_pair sample_transport ''r1'' ''r2''))
     (kp_mlkem_public (client_key_pair sample_transport ''r1'' ''r2'')) ''pt'' (build_transport_aad ''st'' ''sign'' ''ES256''))"

definition sample_results :: "string \<Rightarrow> request_result_response option" where
  "sample_results b =
    (if b = ''created'' then Some \<lparr>res_state = ''st'', res_pending = True, res_done = False, res_failed = False, res_response_envelope = None\<rparr>
     else if b = ''result'' then Some \<lparr>res_state = ''st'', res_pending = False, res_done = True, res_failed = False,
       res_response_envelope = Some sample_envelope\<rparr>
     else None)"

definition sample_lib :: "(string, unit) client_lib" where
  "sample_lib = \<lparr>lb_crypto = point_crypto, lb_transport = sample_transport, lb_keys = toy_codec, lb_trust = sample_codec,
     lb_env = \<lparr>os_trust_store_path = ''t.json'', os_user_config_dir = None\<rparr>, lb_valid_url = (\<lambda>_. True),
     lb_query = (\<lambda>l a. l @ a), lb_duration = (\<lambda>_. ''1m''), lb_decode_error = (\<lambda>_. []),
     lb_decode_pubkeys = (\<lambda>b. if b = ''bundle'' then Some sample_served else None),
     lb_decode_p256 = (\<lambda>_. Some (point_jwk (sample_point []))), lb_decode_result = sample_results,
     lb_decode_signing = (\<lambda>_. Some sample_signing_response), lb_marshal_payload = (\<lambda>_. Some ''{}''), lb_marshal_body = (\<lambda>_. Some ''{}'')\<rparr>"

lemma sample_lib_fields:
  "lb_crypto sample_lib = point_crypto" "lb_transport sample_lib = sample_transport" "lb_trust sample_lib = sample_codec"
  "lb_decode_pubkeys sample_lib ''bundle'' = Some sample_served" "lb_keys sample_lib = toy_codec"
  "lb_decode_signing sample_lib b = Some sample_signing_response"
  "lb_decode_p256 sample_lib b = Some (point_jwk (sample_point []))" "lb_marshal_payload sample_lib q = Some ''{}''"
  by (simp_all add: sample_lib_def)

definition sample_client :: client where
  "sample_client = \<lparr>cl_server = ''https://r'', cl_request_key = ''key'', cl_user_agent = ''Revaulter/1'',
     cl_trust_store_path = [], cl_no_trust_store = False, cl_confirm_anchor = None\<rparr>"

text \<open>The machine; the server takes five nanoseconds for an answer.\<close>

definition sample_reply :: "http_request \<Rightarrow> string" where
  "sample_reply r =
    (if hr_method r = ''POST'' then ''created'' else if hr_url r = ''https://r/v2/request/result/st'' then ''result'' else ''bundle'')"

definition sample_remote :: "http_request list \<Rightarrow> http_request \<Rightarrow> server_reply" where
  "sample_remote sent r = Reply_Http 5 200 (sample_reply r)"

definition sample_world :: client_world where
  "sample_world = \<lparr>dk_files = [''t.json'' \<mapsto> ''store''], dk_faults = [], dk_temp_name = ''trust-1.json'', rd_draws = [],
     cw_clock = 0, cw_sent = [], cw_submitted = [], cw_remote = sample_remote\<rparr>"

lemma sample_client_laws: "client_laws (\<lambda>_. True) sample_lib"
  by (auto simp: client_laws_def codec_laws_def text_laws_def pins_text_def sample_lib_def sample_codec_def split: if_splits)

lemma sample_anchor_wire:
  "parse_anchor_pubkeys_from_wire point_crypto (p384_canonical_body sample_anchor_jwk) (raw_url_encode (replicate 2592 CHR ''k''))
     = Inr (sample_anchor_key, replicate 2592 CHR ''k'')"
  by (rule parse_anchor_server_client(1) [OF sample_anchor_parses_with]) (simp add: point_crypto_def sample_anchor_key_def)

lemma sample_anchor_fingerprint:
  "anchor_fingerprint point_crypto (Some sample_anchor_key) (replicate 2592 CHR ''k'') = Inr sample_fingerprint"
  by (simp add: anchor_fingerprint_def point_crypto_def mldsa87_public_key_size_def p384_coordinate_size_def
      sample_anchor_key_def sample_fingerprint_def)

lemma point_crypto_verifies:
  "verify_hybrid point_crypto (Some ek) (replicate 2592 CHR ''k'') msg (replicate 96 CHR ''s'') (replicate 4627 CHR ''s'') = Inr ()"
  by (simp add: verify_hybrid_def Let_def verify_es384_ok_iff verify_mldsa87_ok_iff point_crypto_def)

lemma sample_served_verifies:
  "verify_and_pin_anchor point_crypto now confirm server sample_served ts =
     check_or_pin_anchor point_crypto now confirm ts server ''alice'' sample_anchor_key
       (p384_canonical_body sample_anchor_jwk) (raw_url_encode (replicate 2592 CHR ''k'')) (replicate 2592 CHR ''k'')"
proof -
  have "decode_hybrid_signatures (toy_signature 96) (toy_signature 4627) = Inr (replicate 96 CHR ''s'', replicate 4627 CHR ''s'')"
    by (rule parse_signatures_server_client(1) [OF toy_signatures_parse])
  moreover have "p384_canonical_body sample_anchor_jwk \<noteq> []" by (simp add: p384_canonical_body_def)
  ultimately show ?thesis
    by (simp add: verify_and_pin_anchor_def sample_served_def sample_anchor_wire sample_anchor_body
        toy_signature_def raw_encode_empty_iff)
      (simp add: verify_served_bundle_def client_bundle_def verify_hybrid_bundle_v2_def point_crypto_verifies)
qed

definition sample_pinned :: "string pinned_anchor" where
  "sample_pinned = \<lparr>pa_user_id = ''alice'', pa_es384_pub = sample_anchor_key, pa_mldsa87_pub_bytes = replicate 2592 CHR ''k''\<rparr>"

lemma sample_pin_found: "trust_store_key ''https://r'' ''alice'' = ''https://r|alice''"
  by (simp add: trust_store_key_def)

text \<open>The sample server answered one more request.\<close>

definition sample_asked :: "http_request \<Rightarrow> client_world \<Rightarrow> client_world" where
  "sample_asked req w = w\<lparr>cw_clock := cw_clock w + 5, cw_sent := cw_sent w @ [req\<lparr>hr_user_agent := ''Revaulter/1''\<rparr>]\<rparr>"

definition sample_ready :: "client_world \<Rightarrow> bool" where
  "sample_ready w \<longleftrightarrow> dk_files w ''t.json'' = Some ''store'' \<and> dk_faults w = []
     \<and> cw_remote w = sample_remote"

lemma sample_ready_world: "sample_ready sample_world" "sample_ready w \<Longrightarrow> sample_ready (sample_asked req w)"
  by (simp_all add: sample_ready_def sample_world_def sample_asked_def)

lemma sample_reply_agent [simp]: "sample_reply (r\<lparr>hr_user_agent := u\<rparr>) = sample_reply r"
  by (simp add: sample_reply_def)

lemma sample_do_json:
  assumes "sample_ready w" and "decode (sample_reply req) = Some v" and "\<not> context_done ctx (cw_clock w + 5)"
  shows "do_json sample_lib sample_client ctx decode req w = (Inr v, sample_asked req w)"
proof -
  have "\<not> context_done ctx (cw_clock w)" using assms(3) by (auto simp: context_done_def split: option.splits)
  then show ?thesis
    using assms
    by (simp add: do_json_def go_bind_def http_do_def http_send_def round_trip_def sample_ready_def sample_asked_def
        sample_remote_def sample_client_def Let_def)
qed

lemma never_done [simp]: "\<not> context_done None t"
  by (simp add: context_done_def)

definition sample_request :: "string \<Rightarrow> http_request" where
  "sample_request path_end = \<lparr>hr_method = ''GET'', hr_url = ''https://r/v2/request/'' @ path_end, hr_authorization = ''Bearer key'',
     hr_content_type = [], hr_user_agent = [], hr_body = []\<rparr>"

lemma sample_new_request: "new_request sample_lib sample_client ''GET'' path_end [] = Inr (sample_request path_end)"
  by (simp add: new_request_def sample_lib_def sample_client_def sample_request_def)

lemma sample_reply_bundle: "path_end \<noteq> ''result/st'' \<Longrightarrow> sample_reply (sample_request path_end) = ''bundle''"
  by (simp add: sample_reply_def sample_request_def)

lemma sample_fetch:
  "sample_ready w \<Longrightarrow> fetch_pubkey_bundle sample_lib sample_client None w = (Inr sample_served, sample_asked (sample_request ''pubkey'') w)"
  unfolding fetch_pubkey_bundle_def sample_new_request
  by (simp add: go_bind_def sample_do_json sample_reply_bundle sample_lib_fields)

lemma sample_pins: "sample_ready w \<Longrightarrow> stored_pins (lb_trust sample_lib) ''t.json'' w = [''https://r|alice'' \<mapsto> sample_pin]"
  by (simp add: stored_pins_def sample_ready_def sample_lib_def sample_codec_def)

lemma sample_path: "resolve_trust_store_path (lb_env sample_lib) (cl_trust_store_path sample_client) = Inr ''t.json''"
  by (simp add: resolve_trust_store_path_def default_trust_store_path_def sample_lib_def sample_client_def)

lemma sample_client_fields:
  "cl_confirm_anchor sample_client = None" "cl_server sample_client = ''https://r''" "\<not> cl_no_trust_store sample_client"
  by (simp_all add: sample_client_def)

lemma sample_accepts:
  assumes "sample_ready w"
  shows "verify_and_pin_response sample_lib sample_client sample_served w = (Inr (Some sample_pinned), w)"
proof -
  have load: "load_trust_store (lb_trust sample_lib) ''t.json'' w =
      (Inr \<lparr>ts_entries = [''https://r|alice'' \<mapsto> sample_pin], ts_path = ''t.json''\<rparr>, w)"
    using assms by (simp add: load_trust_store_def go_bind_def next_fault_def sample_ready_def sample_lib_def sample_codec_def)
  have check: "verify_and_pin_anchor (lb_crypto sample_lib) now None ''https://r'' sample_served
      \<lparr>ts_entries = [''https://r|alice'' \<mapsto> sample_pin], ts_path = ''t.json''\<rparr> =
      Inr (False, \<lparr>ts_entries = [''https://r|alice'' \<mapsto> sample_pin], ts_path = ''t.json''\<rparr>)" for now
    unfolding sample_lib_def client_lib.simps sample_served_verifies
    by (rule pin_check_outcomes(2) [OF sample_anchor_fingerprint, where t = 7])
      (simp add: sample_pin_found sample_pin_def)
  have keys: "parse_anchor_pubkeys_from_wire (lb_crypto sample_lib) (pk_anchor_es384 sample_served) (pk_anchor_mldsa87 sample_served) =
      Inr (sample_anchor_key, replicate 2592 CHR ''k'')"
    using sample_anchor_wire by (simp add: sample_lib_def sample_served_def)
  have user: "pk_user_id sample_served = ''alice''" by (simp add: sample_served_def)
  show ?thesis
    unfolding verify_and_pin_response_def sample_path sample_client_fields
    by (simp add: go_bind_def load check get_clock_def go_when_def keys user sample_pinned_def sample_client_fields)
qed

lemma sample_trusts:
  assumes "sample_ready w"
  shows "verify_anchor_trust sample_lib sample_client None w = (Inr (Some sample_pinned), sample_asked (sample_request ''pubkey'') w)"
  using assms sample_fetch [OF assms] sample_accepts [OF sample_ready_world(2) [OF assms]]
  by (simp add: verify_anchor_trust_def go_bind_def sample_client_def)

theorem pinned_anchor_enforced_witness:
  "parse_anchor_pubkeys_from_wire point_crypto (te_anchor_es384 sample_pin) (te_anchor_mldsa87 sample_pin) =
     Inr (sample_anchor_key, replicate 2592 CHR ''k'')"
proof -
  let ?calls = "[Call_Verify_Anchor sample_client None]"
  have w: "fold (run_client_call sample_lib) ?calls sample_world = sample_asked (sample_request ''pubkey'') sample_world"
    by (simp add: sample_trusts [OF sample_ready_world(1)])
  have "verify_anchor_trust sample_lib sample_client None (fold (run_client_call sample_lib) ?calls sample_world) =
      (Inr (Some sample_pinned), sample_asked (sample_request ''pubkey'') (sample_asked (sample_request ''pubkey'') sample_world))"
    unfolding w by (rule sample_trusts [OF sample_ready_world(2) [OF sample_ready_world(1)]])
  from pinned_anchor_enforced [OF sample_client_laws _ _ _ _ this, of "''t.json''" "''alice''" sample_pin]
  show ?thesis
    using sample_pins [OF sample_ready_world(1)] sample_path sample_pin_found
    by (simp add: sample_lib_fields sample_client_fields sample_pinned_def)
qed

lemma sample_fetch_keys:
  assumes "sample_ready w"
  shows "user_keys_of sample_lib sample_served = Inr \<lparr>up_user_id = ''alice'', up_ecdh = sample_point [], up_mlkem = []\<rparr>"
    and "fetch_and_verify_user_pubkeys sample_lib sample_client None w =
      (Inr \<lparr>up_user_id = ''alice'', up_ecdh = sample_point [], up_mlkem = []\<rparr>, sample_asked (sample_request ''pubkey'') w)"
proof -
  have point: "to_ecdh_public_key (tc_new_p256 sample_transport) (point_jwk (sample_point [])) = Inr (sample_point [])"
    by (rule point_jwk_read(1)) (simp_all add: sample_transport_def sample_point_def)
  have "raw_url_decode (pk_mlkem768 sample_served) = Some []" "pk_user_id sample_served = ''alice''"
    by (simp_all add: sample_served_def sample_account_def sample_owner_def sample_key_db_def raw_decode_def)
  moreover have "tc_new_mlkem768 sample_transport [] = Some []" by (simp add: sample_transport_def)
  ultimately show keys: "user_keys_of sample_lib sample_served = Inr \<lparr>up_user_id = ''alice'', up_ecdh = sample_point [], up_mlkem = []\<rparr>"
    using point by (simp add: user_keys_of_def sample_lib_fields)
  show "fetch_and_verify_user_pubkeys sample_lib sample_client None w =
      (Inr \<lparr>up_user_id = ''alice'', up_ecdh = sample_point [], up_mlkem = []\<rparr>, sample_asked (sample_request ''pubkey'') w)"
    using sample_fetch [OF assms] sample_accepts [OF sample_ready_world(2) [OF assms]] keys
    by (simp add: fetch_and_verify_user_pubkeys_def go_bind_def)
qed

theorem request_keys_anchored_witness:
  "\<exists>resp e. user_keys_of sample_lib resp =
      Inr \<lparr>up_user_id = ''alice'', up_ecdh = sample_point [], up_mlkem = []\<rparr> \<and> pk_user_id resp = ''alice''
    \<and> stored_pins sample_codec ''t.json'' (sample_asked (sample_request ''pubkey'') sample_world) ''https://r|alice'' = Some e
    \<and> anchored_bundle sample_lib e resp"
proof -
  note fetched = sample_fetch_keys(2) [OF sample_ready_world(1)]
  from request_keys_anchored [OF sample_client_laws _ _ sample_path _ fetched] show ?thesis
    by (simp add: sample_client_fields sample_lib_fields sample_pin_found) (simp add: sample_world_def)
qed

section \<open>A published signing key\<close>

definition sample_client_key :: client_signing_key where
  "sample_client_key = signing_key_of sample_signing_response sample_key_id (char_of (4::nat) # replicate 64 (char_of (0::nat)))"

lemma sample_signing_parses: "parse_signing_pubkey_response sample_lib sample_signing_response = Inr sample_client_key"
proof -
  have valid: "validate_signing_key_p256 (sample_p256_jwk CHR ''A'') = Inr ()" by code_simp
  have point: "signing_to_ecdh_public_key toy_codec (sample_p256_jwk CHR ''A'') = Inr (char_of (4::nat) # replicate 64 (char_of (0::nat)))"
    by code_simp
  have "kc_unmarshal_p256 toy_codec t = Some (sample_p256_jwk CHR ''A'')" for t by (simp add: toy_codec_def)
  then show ?thesis
    using valid point
    by (simp add: parse_signing_pubkey_response_def sample_lib_fields sample_client_key_def parse_p256_signing_jwk_def
        p256_thumbprint_def sample_key_id_def point_crypto_def) (simp add: sample_signing_response_def)
qed

lemma sample_publication_verifies:
  "verify_signing_key_public_response point_crypto (publication_body sample_signing_publication) (toy_signature 96)
     (toy_signature 4627) \<lparr>vo_es384_pub = Some sample_anchor_key, vo_mldsa87_pub_bytes = replicate 2592 CHR ''k'',
       vo_expected_user_id = ''alice'', vo_expected_algorithm = ''ES256'', vo_expected_key_label = ''disk'',
       vo_expected_key_id = sample_key_id\<rparr> = Inr sample_signing_publication"
proof -
  have nl: "CHR 0x0A \<notin> set sample_key_id"
    using b64_char_no_break(1) by (force simp: sample_key_id_def raw_encode_def)
  then have "publication_ok sample_signing_publication"
    by (simp add: publication_ok_def fields_ok_def publication_schema_def publication_fields_def
        sample_signing_publication_def sample_publication_def field_ok_def in_int64_def)
  then have parsed: "parse_signing_key_publication_payload (publication_body sample_signing_publication) = Some sample_signing_publication"
    by (rule publication.dec_enc)
  have ne: "publication_body sample_signing_publication \<noteq> []"
    by (simp add: publication_body_def canonical_body_from_tagged_fields_def publication_schema_def
        publication_fields_def field_line_def)
  have sigs: "decode_base64_signature (toy_signature 96) es384_signature_size = Inr (replicate 96 CHR ''s'')"
    "decode_base64_signature (toy_signature 4627) mldsa87_signature_size = Inr (replicate 4627 CHR ''s'')"
    using toy_signature_decodes [of 96] toy_signature_decodes [of 4627]
    by (simp_all add: es384_signature_size_def p384_coordinate_size_def mldsa87_signature_size_def)
  show ?thesis
    using ne parsed sigs point_crypto_verifies
    by (simp add: verify_signing_key_public_response_def verify_hybrid_signing_key_publication_def
        mldsa87_public_key_size_def toy_signature_def raw_encode_empty_iff)
      (simp add: sample_signing_publication_def sample_publication_def signing_key_publication_version_def)
qed

lemma sample_signing_call:
  "\<exists>req. signing_public_key sample_lib sample_client None ''disk'' ''ES256'' sample_world =
      (Inr sample_client_key, sample_asked req (sample_asked (sample_request ''pubkey'') sample_world))"
proof -
  let ?w = "sample_asked (sample_request ''pubkey'') sample_world"
  have "verify_signing_key_publication sample_lib (Some sample_pinned) sample_signing_response sample_key_id ''disk'' ''ES256'' = Inr ()"
    using sample_publication_verifies
    by (simp add: verify_signing_key_publication_def sample_pinned_def sample_lib_fields sample_signing_response_def
        toy_signature_def raw_encode_empty_iff)
      (simp add: publication_body_def canonical_body_from_tagged_fields_def publication_schema_def
        publication_fields_def field_line_def)
  then have accept: "accept_signing_key sample_lib (Some sample_pinned) ''disk'' ''ES256'' sample_signing_response = Inr sample_client_key"
    using sample_signing_parses
    by (simp add: accept_signing_key_def) (simp add: sample_client_key_def signing_key_of_def sample_signing_response_def)
  obtain req where req: "new_request sample_lib sample_client ''GET''
      (''signing-pubkey?'' @ lb_query sample_lib ''disk'' ''ES256'') [] = Inr req"
    using sample_new_request by blast
  show ?thesis
    unfolding signing_public_key_def req
    using sample_trusts [OF sample_ready_world(1)] accept
      sample_do_json [OF sample_ready_world(2) [OF sample_ready_world(1)], of "lb_decode_signing sample_lib" _ _ None]
    by (simp add: go_bind_def sample_lib_fields) blast
qed

lemma signing_key_anchored_instance:
  "\<exists>resp p e. parse_signing_pubkey_response sample_lib resp = Inr sample_client_key
    \<and> csk_key_label sample_client_key = ''disk'' \<and> csk_algorithm sample_client_key = ''ES256''
    \<and> anchored_publication sample_lib e p \<and> pp_v p = 1 \<and> pp_algorithm p = ''ES256'' \<and> pp_key_label p = ''disk''
    \<and> (csk_key_id sample_client_key = [] \<or> pp_key_id p = csk_key_id sample_client_key)"
proof -
  have "dk_temp_name sample_world \<noteq> ''t.json''" by (simp add: sample_world_def)
  then show ?thesis
    using sample_signing_call signing_key_anchored [OF sample_client_laws _ _ sample_path, of sample_world "''disk''" None "''ES256''"]
    by (simp add: sample_client_fields) blast
qed

section \<open>The account as the server serves it\<close>

definition configured_account :: user_row where
  "configured_account = sample_account\<lparr>u_request_enc_ecdh_pubkey := ''{}'', u_request_enc_mlkem_pubkey := ''AA''\<rparr>"

definition configured_call :: http_call where
  "configured_call = \<lparr>hc_request_user = Some (user_of_row configured_account), hc_session_user = [], hc_client_ip = [],
     hc_clock = (\<lambda>_. 0), hc_uuid = [], hc_audit_id = [], hc_second_audit_id = [],
     hc_audit_context = \<lparr>ac_session_user_id = [], ac_request_user_id = None, ac_request_id = [], ac_client_ip = [],
       ac_user_agent = []\<rparr>\<rparr>"

definition configured_response :: request_pubkey_response where
  "configured_response = \<lparr>rpk_user_id = ''alice'', rpk_ecdh_p256 = ''{}'', rpk_mlkem768 = ''AA'',
     rpk_anchor_es384 = p384_canonical_body sample_anchor_jwk, rpk_anchor_mldsa87 = raw_url_encode (replicate 2592 CHR ''k''),
     rpk_wrapped_key_epoch = 1, rpk_bundle_version = 2, rpk_bundle_sig_es384 = toy_signature 96,
     rpk_bundle_sig_mldsa87 = toy_signature 4627\<rparr>"

lemma configured_account_vouched:
  "vouched (sample_env_with point_crypto) (empty_database\<lparr>db_users := [configured_account]\<rparr>)"
proof -
  have "parse_anchor_pubkeys point_crypto (p384_canonical_body sample_anchor_jwk) (raw_url_encode (replicate 2592 CHR ''k'')) =
      Inr (sample_anchor_key, replicate 2592 CHR ''k'')"
    by (rule sample_anchor_parses_with) (simp add: point_crypto_def sample_anchor_key_def)
  then have "bundle_vouched point_crypto configured_account"
    unfolding bundle_vouched_def configured_account_def
    using sample_anchor_body toy_signatures_parse point_crypto_verifies
    by (simp add: sample_account_simps verify_hybrid_bundle_v2_def stored_bundle_def)
  then show ?thesis
    by (simp add: vouched_def accounts_vouched_def empty_database_def sample_env_with_def)
qed

lemma configured_route: "route_request_pubkey configured_call s = (Inr configured_response, s)"
proof -
  have "usr_id (user_of_row configured_account) = ''alice''"
    by (simp add: user_of_row_def configured_account_def sample_account_simps)
  then show ?thesis
    by (simp add: route_request_pubkey_def required_user_def go_bind_def configured_call_def user_of_row_def
        configured_account_def configured_response_def sample_account_simps pubkey_bundle_wrapped_key_epoch_def)
qed

theorem served_bundle_accepted_witness:
  "\<exists>ts1. verify_and_pin_anchor point_crypto 3 (Some (\<lambda>_ _ _. Inr True)) ''https://r''
      (wire_response (\<lambda>j. j) configured_response) \<lparr>ts_entries = Map.empty, ts_path = []\<rparr> = Inr (True, ts1)
    \<and> pinned_as (ts_entries ts1) ''https://r'' (wire_response (\<lambda>j. j) configured_response)"
proof -
  have keeps: "ecdsa_points_kept (ae_crypto (sample_env_with point_crypto))"
    using point_crypto_keeps by (simp add: sample_env_with_def)
  from served_bundle_accepted [OF configured_account_vouched _ _ _ _ keeps _ configured_route,
      where u = configured_account and compact_json = "\<lambda>j. j" and ts = "\<lparr>ts_entries = Map.empty, ts_path = []\<rparr>"
        and server = "''https://r''" and ask = "\<lambda>_ _ _. Inr True" and now = 3]
  show ?thesis
    by (auto simp: configured_call_def empty_database_def sample_env_with_def)
      (auto simp: configured_account_def sample_account_simps)
qed

section \<open>Round trips\<close>

definition sample_operation :: client_request where
  "sample_operation = \<lparr>rq_operation = ''sign'', rq_key_label = ''disk'', rq_algorithm = ''ES256'', rq_timeout = 0, rq_note = [],
     rq_value = ''AAAA'', rq_nonce = [], rq_tag = [], rq_additional_data = [], rq_on_submitted = False\<rparr>"

definition sample_random :: client_random where
  "sample_random = \<lparr>dk_files = Map.empty, dk_faults = [], dk_temp_name = ''tmp'',
     rd_draws = [Some ''r1'', Some ''r2'', Some (replicate 12 CHR ''n'')]\<rparr>"

lemma sample_canonical: "canonical_request sample_operation"
  by (simp add: canonical_request_def sample_operation_def canonical_label_def max_note_length_def
      max_key_label_length_def canonical_label_char_def byte_kinds) (simp add: byte_def)

lemma sample_point_jwk: "p256_jwk_from_ecdh (Some (sample_point k)) = Inr (point_jwk (sample_point k))"
  by (rule point_jwk_made(1)) (simp_all add: sample_point_def)

lemma sample_key_pair: "\<exists>d. new_transport_key_pair sample_transport sample_random = (Inr (client_key_pair sample_transport ''r1'' ''r2''), d)"
  using sample_point_jwk
  by (simp add: new_transport_key_pair_def go_bind_def draw_random_def sample_random_def client_key_pair_def
      sample_transport_def Let_def)

abbreviation sample_inner :: request_payload_inner where
  "sample_inner \<equiv> inner_payload_of sample_operation (client_key_pair sample_transport ''r1'' ''r2'')"

lemma sample_encrypts:
  "\<exists>er d. encrypt_request_payload sample_transport (lb_marshal_payload sample_lib)
     (tc_p256_public sample_transport (tc_p256_generate sample_transport ''a''))
     (tc_mlkem_public sample_transport (tc_mlkem_generate sample_transport ''m'')) sample_inner
     (build_request_enc_aad (rq_algorithm sample_operation) (rq_key_label sample_operation) (rq_operation sample_operation))
     sample_random = (Inr er, d)"
  using sample_point_jwk
  by (simp add: encrypt_request_payload_def go_bind_def draw_random_def sample_random_def read_full_def gcm_nonce_size_def
      sample_transport_def new_aes_cipher_def sample_lib_fields Let_def)

theorem request_payload_reaches_browser_witness:
  "\<exists>er body. validate_v2_create_body ''sign'' (received_body (outer_body_of sample_lib sample_operation er)) = Inr body
    \<and> browser_decrypt_request sample_transport raw_url_decode (\<lambda>_. Some sample_inner) ''a'' ''m'' (enc_envelope_of body)
        (build_request_enc_aad (body_algorithm body) (body_key_label body) ''sign'') = Some sample_inner"
proof -
  obtain er d where "encrypt_request_payload (lb_transport sample_lib) (lb_marshal_payload sample_lib)
     (tc_p256_public (lb_transport sample_lib) (tc_p256_generate (lb_transport sample_lib) ''a''))
     (tc_mlkem_public (lb_transport sample_lib) (tc_mlkem_generate (lb_transport sample_lib) ''m'')) sample_inner
     (build_request_enc_aad (rq_algorithm sample_operation) (rq_key_label sample_operation) (rq_operation sample_operation))
     sample_random = (Inr er, d)"
    using sample_encrypts by (auto simp: sample_lib_fields)
  from request_payload_reaches_browser [OF _ raw_url_decode_reads sample_canonical this, of "\<lambda>_. Some sample_inner"]
  have "\<exists>body. validate_v2_create_body (rq_operation sample_operation)
      (received_body (outer_body_of sample_lib sample_operation er)) = Inr body
    \<and> browser_decrypt_request sample_transport raw_url_decode (\<lambda>_. Some sample_inner)
        (tc_p256_generate sample_transport ''a'') (tc_mlkem_generate sample_transport ''m'') (enc_envelope_of body)
        (build_request_enc_aad (body_algorithm body) (body_key_label body) (rq_operation sample_operation)) = Some sample_inner"
    using sample_transport_laws by (simp add: sample_lib_fields)
  moreover have "rq_operation sample_operation = ''sign''" by (simp add: sample_operation_def)
  moreover have "tc_p256_generate sample_transport ''a'' = ''a''" "tc_mlkem_generate sample_transport ''m'' = ''m''"
    by (simp_all add: sample_transport_def)
  ultimately show ?thesis by metis
qed

lemma sample_seals:
  "\<exists>env. encrypt_transport_envelope sample_transport raw_url_decode (tc_p256_generate sample_transport ''b'') ''c''
     (replicate 12 CHR ''n'') ''st'' (kp_ecdh_public (client_key_pair sample_transport ''r1'' ''r2''))
     (kp_mlkem_public (client_key_pair sample_transport ''r1'' ''r2'')) ''pt'' aad = Some env"
  by (simp add: encrypt_transport_envelope_def ec_p256_scalar_to_public_jwk_def derive_ecdh_shared_secret_def
      ec_p256_jwk_to_public_bytes_def client_key_pair_def point_jwk_def sample_transport_def sample_point_def
      derive_hybrid_aes_key_def raw_decode_encode)

theorem response_payload_reaches_client_witness:
  "\<exists>env. validate_response_envelope env = Inr ()
    \<and> decrypt_response_envelope sample_transport ''st'' (Some (client_key_pair sample_transport ''r1'' ''r2'')) (Some env)
        (build_transport_aad ''st'' ''sign'' ''ES256'') = Inr ''pt''"
proof -
  obtain d where kp: "new_transport_key_pair sample_transport sample_random =
      (Inr (client_key_pair sample_transport ''r1'' ''r2''), d)"
    using sample_key_pair by blast
  obtain env where env: "encrypt_transport_envelope sample_transport raw_url_decode (tc_p256_generate sample_transport ''b'') ''c''
     (replicate 12 CHR ''n'') ''st'' (kp_ecdh_public (client_key_pair sample_transport ''r1'' ''r2''))
     (kp_mlkem_public (client_key_pair sample_transport ''r1'' ''r2'')) ''pt''
     (build_transport_aad ''st'' ''sign'' ''ES256'') = Some env"
    using sample_seals by blast
  have "length (replicate 12 CHR ''n'') = 12" by simp
  from response_payload_reaches_client [OF sample_transport_laws raw_url_decode_reads kp this env]
  show ?thesis by blast
qed

end
