(* ===== verification/Go_Package_Properties.thy ===== *)
theory Go_Package_Properties
  imports Go_Package Client_Samples
begin

text \<open>
  What the Go package promises: a result belongs to the request it answers, a prepared
  request is one the server takes, and a signature is only accepted under a key that the
  pinned anchor has vouched for.
\<close>

section \<open>Results\<close>

text \<open>
  The answer belongs to this call: the call drew a key pair from the random source, sent the
  request with its public halves, got the state of the answer as the state of that very request,
  and the payload is what decrypts with the pair's private halves, bound to that state and the
  request's operation and algorithm.
\<close>

definition answers_request ::
  "('ek, 'mk) go_lib \<Rightarrow> go_client \<Rightarrow> context_deadline \<Rightarrow> 'z client_world_scheme \<Rightarrow> client_request \<Rightarrow> client_response \<Rightarrow> bool" where
  "answers_request lib c ctx w q res \<longleftrightarrow> cp_payload res \<noteq> [] \<and>
    (\<exists>kp w1 w2. new_transport_key_pair (lb_transport lib) w = (Inr kp, w1)
       \<and> create_client_request (core_lib lib) (gc_core c) ctx q (Some kp) w1 = (Inr (cp_state res), w2)
       \<and> decrypted_result (core_lib lib) (cp_state res) kp
           (build_transport_aad (cp_state res) (rq_operation q) (rq_algorithm q)) (cp_payload res))"

lemma execute_decrypts:
  assumes "execute lib cl ctx q w = Some (Inr res, w1)"
  shows "\<exists>kp w2 w3. new_transport_key_pair (lb_transport lib) w = (Inr kp, w2)
    \<and> create_client_request lib cl ctx q (Some kp) w2 = (Inr (cp_state res), w3)
    \<and> decrypted_result lib (cp_state res) kp (build_transport_aad (cp_state res) (rq_operation q) (rq_algorithm q)) (cp_payload res)"
proof -
  obtain kp state w2 where s: "submit_operation lib cl ctx q w = (Inr (kp, state), w2)"
    using assms by (auto simp: execute_def split: prod.splits sum.splits)
  then obtain payload w3 where
    g: "get_result lib cl ctx state (Some kp) (build_transport_aad state (rq_operation q) (rq_algorithm q)) (rq_timeout q) w2 = Some (Inr payload, w3)"
    and res: "res = \<lparr>cp_state = state, cp_payload = payload\<rparr>"
    using assms by (auto simp: execute_def split: option.splits prod.splits sum.splits)
  obtain w4 w5 where "new_transport_key_pair (lb_transport lib) w = (Inr kp, w4)"
    "create_client_request lib cl ctx q (Some kp) w4 = (Inr state, w5)"
    using s by (auto simp: submit_operation_def go_ok_iffs)
  then show ?thesis using get_result_payload [OF g] res by auto
qed

lemma go_operation_steps:
  assumes "go_operation lib c ctx prepared accept w = Some (Inr r, w1)"
  obtains q res where "prepared = Inr q" and "answers_request lib c ctx w q res" and "accept q res = Inr r"
proof -
  have core: "lb_transport (core_lib lib) = lb_transport lib" by (simp add: core_lib_def client_lib.truncate_def)
  obtain q where q: "prepared = Inr q" using assms by (auto simp: go_operation_def split: sum.splits)
  then obtain res where e: "go_execute lib c ctx q w = Some (Inr res, w1)" and a: "accept q res = Inr r"
    using assms by (auto simp: go_operation_def split: option.splits prod.splits sum.splits)
  then have "execute (core_lib lib) (gc_core c) ctx q w = Some (Inr res, w1)" "cp_payload res \<noteq> []"
    by (auto simp: go_execute_def split: option.splits prod.splits sum.splits if_splits)
  then have "answers_request lib c ctx w q res"
    using execute_decrypts [of "core_lib lib" "gc_core c" ctx q w res w1] by (simp add: answers_request_def core)
  with q a show thesis using that by blast
qed

lemma decode_field_iff: "decode_response_field s = Inr b \<longleftrightarrow> raw_url_decode s = Some b"
  by (simp add: decode_response_field_def split: option.splits)

lemma go_parts_ok:
  "go_normalize_key_label l = Inr c \<longleftrightarrow> normalize_and_validate_key_label l = Some c"
  "validate_encryption_algorithm a = Inr u \<longleftrightarrow> a \<noteq> [] \<and> is_supported_encryption_algorithm a"
  "go_normalize_signing_algorithm a = Inr c \<longleftrightarrow> a \<noteq> [] \<and> normalize_signing_algorithm a = Some c"
  "ensure_within_payload_limit n = Inr u \<longleftrightarrow> n \<le> max_payload_size"
  by (auto simp: go_normalize_key_label_def validate_encryption_algorithm_def go_normalize_signing_algorithm_def
      ensure_within_payload_limit_def split: option.splits)

lemma go_resolve_ok: "go_resolve c t n = Inr (t', n') \<Longrightarrow> length n' \<le> max_note_length"
  by (auto simp: go_resolve_def go_validate_note_def Let_def split: if_splits)

lemma echoed_additional_data_ok: "echoed_additional_data requested e = Inr aad \<Longrightarrow> aad = requested"
  by (auto simp: echoed_additional_data_def split: if_splits sum.splits)

lemma encrypt_request_steps:
  assumes "encrypt_request_of c req = Inr q"
  obtains label t n where "normalize_and_validate_key_label (eq_key_label req) = Some label"
    and "is_supported_encryption_algorithm (eq_algorithm req)" "eq_algorithm req \<noteq> []" "eq_plaintext req \<noteq> []"
    and "length (eq_plaintext req) \<le> max_payload_size" "length (eq_additional_data req) \<le> max_payload_size"
    and "length n \<le> max_note_length"
    and "q = \<lparr>rq_operation = ''encrypt'', rq_key_label = label, rq_algorithm = eq_algorithm req, rq_timeout = t,
          rq_note = n, rq_value = raw_url_encode (eq_plaintext req), rq_nonce = [], rq_tag = [],
          rq_additional_data = raw_url_encode (eq_additional_data req), rq_on_submitted = False\<rparr>"
  using assms unfolding encrypt_request_of_def
  by (auto simp: checks_passed go_parts_ok split: prod.splits dest!: go_resolve_ok)

lemma decrypt_request_steps:
  assumes "decrypt_request_of c req = Inr q"
  obtains label t n where "normalize_and_validate_key_label (dq_key_label req) = Some label"
    and "is_supported_encryption_algorithm (dq_algorithm req)" "dq_algorithm req \<noteq> []" "dq_ciphertext req \<noteq> []"
    and "length (dq_ciphertext req) \<le> max_payload_size" "length (dq_additional_data req) \<le> max_payload_size"
    and "length n \<le> max_note_length"
    and "q = \<lparr>rq_operation = ''decrypt'', rq_key_label = label, rq_algorithm = dq_algorithm req, rq_timeout = t,
          rq_note = n, rq_value = raw_url_encode (dq_ciphertext req), rq_nonce = raw_url_encode (dq_nonce req),
          rq_tag = raw_url_encode (dq_tag req), rq_additional_data = raw_url_encode (dq_additional_data req),
          rq_on_submitted = False\<rparr>"
  using assms unfolding decrypt_request_of_def
  by (auto simp: checks_passed go_parts_ok split: prod.splits dest!: go_resolve_ok)

lemma sign_request_steps:
  assumes "sign_request_of lib c req = Inr q"
  obtains label alg inp t n where "normalize_and_validate_key_label (sq_key_label req) = Some label"
    and "normalize_signing_algorithm (sq_algorithm req) = Some alg"
    and "resolve_signing_input lib alg (sq_message req) (sq_digest req) = Inr inp" "length inp \<le> max_payload_size"
    and "length n \<le> max_note_length"
    and "q = \<lparr>rq_operation = ''sign'', rq_key_label = label, rq_algorithm = alg, rq_timeout = t, rq_note = n,
          rq_value = raw_url_encode inp, rq_nonce = [], rq_tag = [], rq_additional_data = [], rq_on_submitted = False\<rparr>"
  using assms unfolding sign_request_of_def
  by (auto simp: checks_passed go_parts_ok split: prod.splits dest!: go_resolve_ok)

text \<open>C29: What the package returns belongs to the request of the call: the answer was decrypted with the key pair that this
  call drew and sent the public halves of, from an envelope for the state under which the server took this request, bound
  to that state and the request's operation and algorithm; the browser's text in it names
  the same state, operation and algorithm (and label, for a signature), the result's bytes are that text's fields, the
  additional data of an encryption are the caller's, and a signature has 64 bytes.\<close>

theorem go_results_bound:
  "(go_encrypt lib c ctx eq w = Some (Inr er, w1) \<longrightarrow>
     (\<exists>q res p. encrypt_request_of c eq = Inr q \<and> answers_request lib c ctx w q res \<and> gl_decode_encrypt lib (cp_payload res) = Some p
        \<and> ep_state p = cp_state res \<and> ep_operation p = rq_operation q \<and> ep_algorithm p = rq_algorithm q
        \<and> er_state er = cp_state res \<and> er_key_label er = rq_key_label q \<and> er_algorithm er = eq_algorithm eq
        \<and> raw_url_decode (ep_value p) = Some (er_cipher_bytes er) \<and> raw_url_decode (ep_nonce p) = Some (er_nonce_bytes er)
        \<and> raw_url_decode (ep_tag p) = Some (er_tag_bytes er) \<and> er_additional_data er = eq_additional_data eq))
   \<and> (go_decrypt lib c ctx dq w = Some (Inr dr, w1) \<longrightarrow>
     (\<exists>q res p. decrypt_request_of c dq = Inr q \<and> answers_request lib c ctx w q res \<and> gl_decode_decrypt lib (cp_payload res) = Some p
        \<and> dp_state p = cp_state res \<and> dp_operation p = rq_operation q \<and> dp_algorithm p = rq_algorithm q
        \<and> dr_state dr = cp_state res \<and> dr_key_label dr = rq_key_label q \<and> dr_algorithm dr = dq_algorithm dq
        \<and> raw_url_decode (dp_value p) = Some (dr_plaintext dr)))
   \<and> (go_sign lib c ctx sq w = Some (Inr sn, w1) \<longrightarrow>
     (\<exists>q res p. sign_request_of lib c sq = Inr q \<and> answers_request lib c ctx w q res \<and> gl_decode_sign lib (cp_payload res) = Some p
        \<and> np_state p = cp_state res \<and> np_operation p = rq_operation q \<and> np_algorithm p = rq_algorithm q \<and> np_key_label p = rq_key_label q
        \<and> sn_state sn = cp_state res \<and> sn_key_label sn = rq_key_label q \<and> sn_algorithm sn = rq_algorithm q
        \<and> raw_url_decode (np_signature p) = Some (sn_signature sn) \<and> length (sn_signature sn) = 64))"
proof (intro conjI impI)
  assume "go_encrypt lib c ctx eq w = Some (Inr er, w1)"
  then obtain q res where q: "encrypt_request_of c eq = Inr q" and a: "answers_request lib c ctx w q res"
    and r: "encrypt_result_of lib eq q res = Inr er"
    unfolding go_encrypt_def by (rule go_operation_steps)
  obtain p where p: "gl_decode_encrypt lib (cp_payload res) = Some p"
    using r by (auto simp: encrypt_result_of_def split: option.splits)
  from q obtain label t n where "rq_operation q = ''encrypt''" "rq_algorithm q = eq_algorithm eq"
    by (elim encrypt_request_steps) simp
  then show "\<exists>q res p. encrypt_request_of c eq = Inr q \<and> answers_request lib c ctx w q res \<and> gl_decode_encrypt lib (cp_payload res) = Some p
        \<and> ep_state p = cp_state res \<and> ep_operation p = rq_operation q \<and> ep_algorithm p = rq_algorithm q
        \<and> er_state er = cp_state res \<and> er_key_label er = rq_key_label q \<and> er_algorithm er = eq_algorithm eq
        \<and> raw_url_decode (ep_value p) = Some (er_cipher_bytes er) \<and> raw_url_decode (ep_nonce p) = Some (er_nonce_bytes er)
        \<and> raw_url_decode (ep_tag p) = Some (er_tag_bytes er) \<and> er_additional_data er = eq_additional_data eq"
    using q a p r
    by (intro exI conjI) (auto simp: encrypt_result_of_def checks_passed decode_field_iff dest!: echoed_additional_data_ok)
next
  assume "go_decrypt lib c ctx dq w = Some (Inr dr, w1)"
  then obtain q res where q: "decrypt_request_of c dq = Inr q" and a: "answers_request lib c ctx w q res"
    and r: "decrypt_result_of lib dq q res = Inr dr"
    unfolding go_decrypt_def by (rule go_operation_steps)
  obtain p where p: "gl_decode_decrypt lib (cp_payload res) = Some p"
    using r by (auto simp: decrypt_result_of_def split: option.splits)
  from q obtain label t n where "rq_operation q = ''decrypt''" "rq_algorithm q = dq_algorithm dq"
    by (elim decrypt_request_steps) simp
  then show "\<exists>q res p. decrypt_request_of c dq = Inr q \<and> answers_request lib c ctx w q res \<and> gl_decode_decrypt lib (cp_payload res) = Some p
        \<and> dp_state p = cp_state res \<and> dp_operation p = rq_operation q \<and> dp_algorithm p = rq_algorithm q
        \<and> dr_state dr = cp_state res \<and> dr_key_label dr = rq_key_label q \<and> dr_algorithm dr = dq_algorithm dq
        \<and> raw_url_decode (dp_value p) = Some (dr_plaintext dr)"
    using q a p r by (intro exI conjI) (auto simp: decrypt_result_of_def checks_passed decode_field_iff)
next
  assume "go_sign lib c ctx sq w = Some (Inr sn, w1)"
  then obtain q res where q: "sign_request_of lib c sq = Inr q" and a: "answers_request lib c ctx w q res"
    and r: "sign_result_of lib q res = Inr sn"
    unfolding go_sign_def by (rule go_operation_steps)
  obtain p where p: "gl_decode_sign lib (cp_payload res) = Some p"
    using r by (auto simp: sign_result_of_def split: option.splits)
  from q have "rq_operation q = ''sign''" by (elim sign_request_steps) simp
  then show "\<exists>q res p. sign_request_of lib c sq = Inr q \<and> answers_request lib c ctx w q res \<and> gl_decode_sign lib (cp_payload res) = Some p
        \<and> np_state p = cp_state res \<and> np_operation p = rq_operation q \<and> np_algorithm p = rq_algorithm q \<and> np_key_label p = rq_key_label q
        \<and> sn_state sn = cp_state res \<and> sn_key_label sn = rq_key_label q \<and> sn_algorithm sn = rq_algorithm q
        \<and> raw_url_decode (np_signature p) = Some (sn_signature sn) \<and> length (sn_signature sn) = 64"
    using q a p r by (intro exI conjI) (auto simp: sign_result_of_def checks_passed decode_field_iff signature_size_def)
qed

text \<open>A browser that echoes no additional data is not noticed.\<close>

lemma missing_echo_accepted: "echoed_additional_data requested [] = Inr requested"
  by (simp add: echoed_additional_data_def)

section \<open>Prepared requests\<close>

lemma go_to_lower_shrinks: "length a \<le> 3 * length (go_to_lower a)"
  by (induction a rule: go_to_lower.induct) auto

lemma supported_algorithm_short:
  "is_supported_encryption_algorithm a \<Longrightarrow> a \<noteq> [] \<and> length a \<le> 64"
  "normalize_signing_algorithm a = Some c \<Longrightarrow> c \<in> {''ES256'', ''Ed25519'', ''Ed25519ph''} \<and> length c \<le> 64 \<and> c \<noteq> []"
proof -
  assume "is_supported_encryption_algorithm a"
  then have "length (go_to_lower a) \<le> 18 \<and> go_to_lower a \<noteq> []" by (auto simp: is_supported_encryption_algorithm_def)
  then show "a \<noteq> [] \<and> length a \<le> 64" using go_to_lower_shrinks [of a] by auto
next
  assume "normalize_signing_algorithm a = Some c"
  then show "c \<in> {''ES256'', ''Ed25519'', ''Ed25519ph''} \<and> length c \<le> 64 \<and> c \<noteq> []"
    using normalize_signing_algorithm_cases by fastforce
qed

lemma prepared_canonical:
  assumes "encrypt_request_of c eq = Inr q \<or> decrypt_request_of c dq = Inr q \<or> sign_request_of lib c sq = Inr q"
    and "validate_note (rq_note q)"
  shows "canonical_request q"
proof -
  have label: "canonical_label l \<and> l \<noteq> []" if "normalize_and_validate_key_label k = Some l" for k l
    using normalize_label_canonical [OF that] by (simp add: canonical_label_def)
  show ?thesis
    using assms label supported_algorithm_short
    by (elim disjE encrypt_request_steps decrypt_request_steps sign_request_steps) (auto simp: canonical_request_def)
qed

text \<open>A request the package prepares is one the server takes: whatever the caller asked for, once the checks of the
  package are passed and the note has only permitted characters, the server's validation accepts the body that is sent
  and leaves it unchanged, so the browser rebuilds the very additional data the package encrypted under.\<close>

lemma go_requests_accepted:
  assumes "encrypt_request_of c eq = Inr q \<or> decrypt_request_of c dq = Inr q \<or> sign_request_of lib c sq = Inr q"
    and "validate_note (rq_note q)" and "transport_laws (lb_transport lib)"
    and "encrypt_request_payload (lb_transport lib) (lb_marshal_payload lib) peer
      (tc_mlkem_public (lb_transport lib) (tc_mlkem_generate (lb_transport lib) seed)) (inner_payload_of q kp)
      (build_request_enc_aad (rq_algorithm q) (rq_key_label q) (rq_operation q)) d = (Inr enc, d1)"
  shows "\<exists>body. validate_v2_create_body (rq_operation q) (received_body (outer_body_of (core_lib lib) q enc)) = Inr body
    \<and> build_request_enc_aad (body_algorithm body) (body_key_label body) (rq_operation q) =
        build_request_enc_aad (rq_algorithm q) (rq_key_label q) (rq_operation q)"
proof -
  have core: "lb_transport (core_lib lib) = lb_transport lib" by (simp add: core_lib_def client_lib.truncate_def)
  have "validate_v2_create_body (rq_operation q) (received_body (outer_body_of (core_lib lib) q enc)) =
      Inr (received_body (outer_body_of (core_lib lib) q enc))"
    using assms(3,4) prepared_canonical [OF assms(1,2)] by (intro client_body_validates) (simp_all add: core)
  then show ?thesis by (simp add: received_body_def outer_body_of_def)
qed

section \<open>Signatures\<close>

text \<open>Signing or verifying a message is the same as signing or verifying its digest.\<close>

lemma digest_stands_for_message:
  assumes "message \<noteq> []" and "length (cr_sha256 (lb_crypto lib) message) = 32" and "length (gl_sha512 lib message) = 64"
  shows "resolve_signing_input lib ''ES256'' message [] = resolve_signing_input lib ''ES256'' [] (cr_sha256 (lb_crypto lib) message)"
    and "resolve_signing_input lib ''Ed25519ph'' message [] = resolve_signing_input lib ''Ed25519ph'' [] (gl_sha512 lib message)"
  using assms by (auto simp: resolve_signing_input_def)

text \<open>The signature verifies under the key, by the algorithm's own primitive, over the bytes it covers.\<close>

definition signature_valid :: "('ek, 'mk) go_lib \<Rightarrow> string \<Rightarrow> string \<Rightarrow> string \<Rightarrow> string \<Rightarrow> bool" where
  "signature_valid lib alg public_key inp sig \<longleftrightarrow> length sig = 64 \<and>
    (alg = ''ES256'' \<and> gl_ecdsa_p256_verify lib public_key inp (big_int_of_bytes (take 32 sig)) (big_int_of_bytes (drop 32 sig))
     \<or> alg = ''Ed25519'' \<and> gl_ed25519_verify lib public_key inp sig
     \<or> alg = ''Ed25519ph'' \<and> gl_ed25519ph_verify lib public_key inp sig)"

lemma check_signature_ok:
  "check_signature lib alg pub inp sig = Inr u \<Longrightarrow> length sig = 64 \<Longrightarrow>
     \<exists>k. (pub = Ecdsa_Key k \<and> alg = ''ES256'' \<or> pub = Ed25519_Key k \<and> is_ed_algorithm alg) \<and> signature_valid lib alg k inp sig"
  by (auto simp: check_signature_def signature_valid_def is_ed_algorithm_def split: if_splits go_public_key.splits)

text \<open>The public key that a key text stands for, and its thumbprint (RFC 7638), by algorithm.\<close>

definition key_with_thumbprint :: "('ek, 'mk) go_lib \<Rightarrow> string \<Rightarrow> string \<Rightarrow> string \<Rightarrow> string \<Rightarrow> bool" where
  "key_with_thumbprint lib alg jwk_text pub kid \<longleftrightarrow>
    alg = ''ES256'' \<and> (\<exists>j. parse_p256_signing_jwk (lb_keys lib) jwk_text = Inr j
        \<and> signing_to_ecdh_public_key (lb_keys lib) j = Inr pub
        \<and> kid = raw_url_encode (cr_sha256 (lb_crypto lib) (p256_thumbprint_text j)))
  \<or> alg \<in> {''Ed25519'', ''Ed25519ph''} \<and> (\<exists>j. parse_ed25519_signing_jwk (lb_keys lib) jwk_text = Inr j
        \<and> ed25519_to_public_key j = Inr pub
        \<and> kid = raw_url_encode (cr_sha256 (lb_crypto lib) (ed25519_thumbprint_text j)))"

lemma parsed_key_thumbprint:
  assumes "parse_signing_pubkey_response (core_lib lib) resp = Inr key"
  shows "key_with_thumbprint lib (csk_algorithm key) (sr_jwk resp) (csk_public_key key) (csk_key_id key)"
  using assms
  by (auto simp: parse_signing_pubkey_response_def key_with_thumbprint_def signing_key_of_def core_lib_def
      client_lib.truncate_def p256_thumbprint_def ed25519_thumbprint_def split: if_splits sum.splits)

text \<open>C30: A signature that the package accepts is one by a key of the user: the key it was checked with carries a proof
  signed by both keys of the anchor pinned for this server and user, which names the canonical form of the label and the
  algorithm the caller asked for and the RFC 7638 thumbprint of exactly this key (SHA-256 gives no empty hash); and the signature, of 64 bytes, verifies under that key over the
  bytes the algorithm signs for the caller's message or digest.\<close>

theorem go_verify_sound:
  assumes "client_laws txt (core_lib lib)" and "txt (cl_server (gc_core c))" and "\<not> cl_no_trust_store (gc_core c)"
    and "resolve_trust_store_path (lb_env lib) (cl_trust_store_path (gc_core c)) = Inr path" and "dk_temp_name w \<noteq> path"
    and "\<And>x. x \<noteq> [] \<Longrightarrow> cr_sha256 (lb_crypto lib) x \<noteq> []" and "go_verify lib c ctx req w = (Inr u, w2)"
  shows "\<exists>label alg jwk_text pub p e inp. normalize_and_validate_key_label (vq_key_label req) = Some label
    \<and> normalize_signing_algorithm (vq_algorithm req) = Some alg
    \<and> stored_pins (lb_trust lib) path w2 (trust_store_key (cl_server (gc_core c)) (pp_user_id p)) = Some e
    \<and> anchored_publication (core_lib lib) e p \<and> pp_algorithm p = alg \<and> pp_key_label p = label
    \<and> key_with_thumbprint lib alg jwk_text pub (pp_key_id p)
    \<and> resolve_signing_input lib alg (vq_message req) (vq_digest req) = Inr inp
    \<and> signature_valid lib alg pub inp (vq_signature req)"
proof -
  have core: "lb_env (core_lib lib) = lb_env lib" "lb_trust (core_lib lib) = lb_trust lib"
    by (simp_all add: core_lib_def client_lib.truncate_def)
  obtain label alg key where label: "normalize_and_validate_key_label (vq_key_label req) = Some label"
    and alg: "normalize_signing_algorithm (vq_algorithm req) = Some alg"
    and key: "signing_public_key (core_lib lib) (gc_core c) ctx label alg w = (Inr key, w2)"
    and v: "signing_key_verify lib (go_signing_key_of key) req = Inr u"
    using assms(7) by (auto simp: go_verify_def go_signing_public_key_def go_ok_iffs go_parts_ok)
  have "label \<noteq> []" using normalize_label_canonical [OF label] by (simp add: canonical_label_def)
  from signing_key_anchored [OF assms(1-3) _ assms(5) this key] obtain resp p e where
    parsed: "parse_signing_pubkey_response (core_lib lib) resp = Inr key" and same: "csk_algorithm key = alg"
    and pin: "stored_pins (lb_trust lib) path w2 (trust_store_key (cl_server (gc_core c)) (pp_user_id p)) = Some e"
    and pub: "anchored_publication (core_lib lib) e p" "pp_algorithm p = alg" "pp_key_label p = label"
      "csk_key_id key = [] \<or> pp_key_id p = csk_key_id key"
    using assms(4) unfolding core by blast
  note named = parsed_key_thumbprint [OF parsed, unfolded same]
  have text_ne: "p256_thumbprint_text j \<noteq> []" "ed25519_thumbprint_text k \<noteq> []" for j k
    by (simp_all add: p256_thumbprint_text_def ed25519_thumbprint_text_def)
  have "csk_key_id key \<noteq> []"
    using named assms(6) [OF text_ne(1)] assms(6) [OF text_ne(2)]
    unfolding key_with_thumbprint_def by (metis raw_encode_empty_iff)
  with pub(4) named have named_key: "key_with_thumbprint lib alg (sr_jwk resp) (csk_public_key key) (pp_key_id p)" by simp
  have asked: "vq_algorithm req \<noteq> []" using alg by (auto simp: normalize_signing_algorithm_def)
  obtain inp where inp: "resolve_signing_input lib alg (vq_message req) (vq_digest req) = Inr inp"
    and len: "length (vq_signature req) = 64"
    and chk: "check_signature lib alg (if alg = ''ES256'' then Ecdsa_Key (csk_public_key key) else Ed25519_Key (csk_public_key key))
          inp (vq_signature req) = Inr u"
    using v asked alg same
    by (auto simp: signing_key_verify_def go_signing_key_of_def requested_algorithm_def go_parts_ok checks_passed signature_size_def)
  have "signature_valid lib alg (csk_public_key key) inp (vq_signature req)"
    using check_signature_ok [OF chk len] by (auto split: if_splits)
  then show ?thesis using label alg named_key pin pub(1-3) inp by blast
qed

section \<open>A concrete client\<close>

definition sample_sign_payload :: sign_response_payload where
  "sample_sign_payload = \<lparr>np_state = ''st'', np_operation = ''sign'', np_algorithm = ''ES256'', np_key_label = ''disk'',
     np_signature = raw_url_encode (replicate 64 CHR ''g''), np_signing_key_id = ''kid''\<rparr>"

definition sample_go_lib :: "(string, unit) go_lib" where
  "sample_go_lib = client_lib.extend sample_lib
     (go_lib.fields (\<lambda>m. replicate 64 CHR ''h'') (\<lambda>_ _ _ _. True) (\<lambda>_ _ _. False) (\<lambda>_ _ _. False) (\<lambda>_. None) (\<lambda>_. None)
       (\<lambda>b. if b = ''pt'' then Some sample_sign_payload else None))"

lemma sample_go_fields:
  "core_lib sample_go_lib = sample_lib" "lb_transport sample_go_lib = sample_transport" "lb_trust sample_go_lib = sample_codec"
  "lb_env sample_go_lib = lb_env sample_lib" "lb_marshal_payload sample_go_lib = lb_marshal_payload sample_lib"
  "lb_crypto sample_go_lib = point_crypto" "gl_decode_sign sample_go_lib ''pt'' = Some sample_sign_payload"
  "gl_ecdsa_p256_verify sample_go_lib k m r s"
  by (simp_all add: core_lib_def sample_go_lib_def client_lib.truncate_def client_lib.extend_def go_lib.fields_def sample_lib_def)

definition sample_go_client :: go_client where
  "sample_go_client = \<lparr>gc_core = sample_client, gc_timeout = 0, gc_note = []\<rparr>"

definition sample_go_sign :: go_sign_request where
  "sample_go_sign = \<lparr>sq_key_label = ''Disk'', sq_algorithm = ''es256'', sq_message = replicate 3 (char_of (0::nat)), sq_digest = [],
     sq_timeout = 0, sq_note = []\<rparr>"

lemma sample_names:
  "normalize_and_validate_key_label ''Disk'' = Some ''disk''" "normalize_signing_algorithm ''es256'' = Some ''ES256''"
  "raw_url_encode (replicate 3 (char_of (0::nat))) = ''AAAA''"
  by code_simp+

lemma sample_sign_prepared: "sign_request_of sample_go_lib sample_go_client sample_go_sign = Inr sample_operation"
  using sample_names
  by (simp add: sign_request_of_def sample_go_sign_def go_normalize_key_label_def go_normalize_signing_algorithm_def
      resolve_signing_input_def sample_go_fields point_crypto_def ensure_within_payload_limit_def max_payload_size_def
      go_resolve_def sample_go_client_def go_validate_note_def sample_operation_def)

lemma go_requests_accepted_instance:
  "\<exists>er body. validate_v2_create_body ''sign'' (received_body (outer_body_of sample_lib sample_operation er)) = Inr body"
proof -
  obtain er d where "encrypt_request_payload (lb_transport sample_go_lib) (lb_marshal_payload sample_go_lib)
     (tc_p256_public sample_transport (tc_p256_generate sample_transport ''a''))
     (tc_mlkem_public (lb_transport sample_go_lib) (tc_mlkem_generate (lb_transport sample_go_lib) ''m'')) sample_inner
     (build_request_enc_aad (rq_algorithm sample_operation) (rq_key_label sample_operation) (rq_operation sample_operation))
     sample_random = (Inr er, d)"
    using sample_encrypts by (auto simp: sample_go_fields)
  from go_requests_accepted [OF disjI2 [OF disjI2 [OF sample_sign_prepared]] _ _ this] show ?thesis
    using sample_transport_laws by (auto simp: sample_go_fields sample_operation_def validate_note_def)
qed

definition sample_verify_request :: go_verify_request where
  "sample_verify_request = \<lparr>vq_key_label = ''Disk'', vq_algorithm = ''es256'', vq_message = ''m'', vq_digest = [],
     vq_signature = replicate 64 CHR ''g''\<rparr>"

lemma sample_go_verifies: "\<exists>w. go_verify sample_go_lib sample_go_client None sample_verify_request sample_world = (Inr (), w)"
proof -
  obtain w where w: "signing_public_key sample_lib sample_client None ''disk'' ''ES256'' sample_world = (Inr sample_client_key, w)"
    using sample_signing_call by blast
  have "csk_algorithm sample_client_key = ''ES256''" "csk_key_label sample_client_key = ''disk''"
    by (simp_all add: sample_client_key_def signing_key_of_def sample_signing_response_def)
  then have "signing_key_verify sample_go_lib (go_signing_key_of sample_client_key) sample_verify_request = Inr ()"
    using sample_names
    by (simp add: signing_key_verify_def go_signing_key_of_def requested_algorithm_def check_requested_label_def
        sample_verify_request_def go_normalize_key_label_def go_normalize_signing_algorithm_def compatible_signing_algorithms_def
        signature_size_def resolve_signing_input_def check_signature_def sample_go_fields)
  then show ?thesis
    using w sample_names
    by (simp add: go_verify_def go_signing_public_key_def go_bind_def sample_verify_request_def go_normalize_key_label_def
        go_normalize_signing_algorithm_def sample_go_fields sample_go_client_def)
qed

theorem go_verify_sound_witness:
  "\<exists>jwk_text pub p e inp. anchored_publication sample_lib e p \<and> pp_algorithm p = ''ES256'' \<and> pp_key_label p = ''disk''
    \<and> key_with_thumbprint sample_go_lib ''ES256'' jwk_text pub (pp_key_id p)
    \<and> resolve_signing_input sample_go_lib ''ES256'' ''m'' [] = Inr inp
    \<and> signature_valid sample_go_lib ''ES256'' pub inp (replicate 64 CHR ''g'')"
proof -
  obtain w where w: "go_verify sample_go_lib sample_go_client None sample_verify_request sample_world = (Inr (), w)"
    using sample_go_verifies by blast
  have "client_laws (\<lambda>_. True) (core_lib sample_go_lib)"
    "\<not> cl_no_trust_store (gc_core sample_go_client)"
    "resolve_trust_store_path (lb_env sample_go_lib) (cl_trust_store_path (gc_core sample_go_client)) = Inr ''t.json''"
    "dk_temp_name sample_world \<noteq> ''t.json''" "\<And>x. x \<noteq> [] \<Longrightarrow> cr_sha256 (lb_crypto sample_go_lib) x \<noteq> []"
    using sample_client_laws sample_path
    by (simp_all add: sample_go_fields sample_go_client_def sample_client_fields) (simp_all add: sample_world_def point_crypto_def)
  from go_verify_sound [OF this(1) _ this(2-5) w] sample_names show ?thesis
    by (auto simp: sample_verify_request_def sample_go_fields)
qed

section \<open>A signature from the browser\<close>

definition sample_sign_world :: client_world where
  "sample_sign_world = sample_world\<lparr>rd_draws := [Some ''r1'', Some ''r2'', Some ''r3'', Some ''r4'', Some (replicate 12 CHR ''n'')]\<rparr>"

abbreviation sample_pair :: transport_key_pair where
  "sample_pair \<equiv> client_key_pair sample_transport ''r1'' ''r2''"

lemma sample_pair_drawn:
  "rd_draws w = Some ''r1'' # Some ''r2'' # rest \<Longrightarrow> new_transport_key_pair sample_transport w = (Inr sample_pair, w\<lparr>rd_draws := rest\<rparr>)"
  using sample_point_jwk
  by (simp add: new_transport_key_pair_def go_bind_def draw_random_def client_key_pair_def sample_transport_def Let_def)

lemma sample_payload_encrypted:
  assumes "rd_draws w = [Some ''r3'', Some ''r4'', Some (replicate 12 CHR ''n'')]"
  shows "\<exists>er. encrypt_request_payload sample_transport (lb_marshal_payload sample_lib) (sample_point []) [] payload aad w
      = (Inr er, w\<lparr>rd_draws := []\<rparr>)"
  using assms sample_point_jwk
  by (simp add: encrypt_request_payload_def go_bind_def draw_random_def read_full_def gcm_nonce_size_def
      sample_transport_def new_aes_cipher_def sample_lib_fields Let_def)

lemma sample_submitted:
  "\<exists>w. submit_operation sample_lib sample_client None sample_operation sample_sign_world = (Inr (sample_pair, ''st''), w)
     \<and> sample_ready w \<and> cw_clock w = 10"
proof -
  let ?w1 = "sample_sign_world\<lparr>rd_draws := [Some ''r3'', Some ''r4'', Some (replicate 12 CHR ''n'')]\<rparr>"
  have ready: "sample_ready ?w1" by (simp add: sample_ready_def sample_sign_world_def sample_world_def)
  let ?w2 = "sample_asked (sample_request ''pubkey'') ?w1"
  obtain er where er: "encrypt_request_payload sample_transport (lb_marshal_payload sample_lib) (sample_point []) []
      (inner_payload_of sample_operation sample_pair)
      (build_request_enc_aad (rq_algorithm sample_operation) (rq_key_label sample_operation) (rq_operation sample_operation)) ?w2
      = (Inr er, ?w2\<lparr>rd_draws := []\<rparr>)"
    using sample_payload_encrypted [of ?w2] by (auto simp: sample_asked_def)
  let ?w3 = "?w2\<lparr>rd_draws := []\<rparr>"
  have ready3: "sample_ready ?w3" using ready by (simp add: sample_ready_def sample_asked_def)
  define post where "post = \<lparr>hr_method = ''POST'', hr_url = ''https://r/v2/request/sign'', hr_authorization = ''Bearer key'',
     hr_content_type = ''application/json'', hr_user_agent = [], hr_body = ''{}''\<rparr>"
  have created: "lb_decode_result sample_lib (sample_reply post) =
      Some \<lparr>res_state = ''st'', res_pending = True, res_done = False, res_failed = False, res_response_envelope = None\<rparr>"
    by (simp add: post_def sample_reply_def sample_lib_def sample_results_def)
  have "create_client_request sample_lib sample_client None sample_operation (Some sample_pair) ?w1 = (Inr ''st'', sample_asked post ?w3)"
    using sample_fetch_keys(2) [OF ready] er sample_do_json [OF ready3, of "lb_decode_result sample_lib" post, OF created never_done]
    by (simp add: create_client_request_def go_bind_def sample_lib_fields Let_def new_request_def
        sample_lib_def sample_client_def sample_operation_def post_def)
  moreover have "new_transport_key_pair sample_transport sample_sign_world = (Inr sample_pair, ?w1)"
    by (rule sample_pair_drawn) (simp add: sample_sign_world_def)
  moreover have "sample_ready (sample_asked post ?w3) \<and> cw_clock (sample_asked post ?w3) = 10"
    using ready3 by (simp add: sample_ready_def sample_asked_def sample_sign_world_def sample_world_def)
  ultimately show ?thesis
    by (simp add: submit_operation_def go_bind_def sample_lib_fields note_submitted_def) (simp add: sample_operation_def)
qed

lemma sample_answer_opens:
  "decrypt_response_envelope sample_transport ''st'' (Some sample_pair) (Some sample_envelope) (build_transport_aad ''st'' ''sign'' ''ES256'') = Inr ''pt''"
proof -
  obtain env where env: "encrypt_transport_envelope sample_transport raw_url_decode (tc_p256_generate sample_transport ''b'') ''c''
     (replicate 12 CHR ''n'') ''st'' (kp_ecdh_public sample_pair) (kp_mlkem_public sample_pair) ''pt''
     (build_transport_aad ''st'' ''sign'' ''ES256'') = Some env"
    using sample_seals by blast
  have "length (replicate 12 CHR ''n'') = 12" by simp
  from sealed_response_opens(2) [OF sample_transport_laws raw_url_decode_reads this env] env show ?thesis
    by (simp add: sample_envelope_def)
qed

lemma sample_executes:
  "\<exists>w. execute sample_lib sample_client None sample_operation sample_sign_world = Some (Inr \<lparr>cp_state = ''st'', cp_payload = ''pt''\<rparr>, w)"
proof -
  obtain w where s: "submit_operation sample_lib sample_client None sample_operation sample_sign_world = (Inr (sample_pair, ''st''), w)"
    and ready: "sample_ready w" and clock: "cw_clock w = 10"
    using sample_submitted by blast
  let ?ctx = "Some (result_deadline None (cw_clock w) 0)"
  have late: "\<not> context_done ?ctx (cw_clock w)" "\<not> context_done ?ctx (cw_clock w + 5)"
    by (simp_all add: context_done_def result_deadline_def local_timeout_def default_result_timeout_def seconds_def nanos_per_second_def clock)
  have answer: "lb_decode_result sample_lib (sample_reply (sample_request ''result/st'')) =
      Some \<lparr>res_state = ''st'', res_pending = False, res_done = True, res_failed = False, res_response_envelope = Some sample_envelope\<rparr>"
    by (simp add: sample_reply_def sample_request_def sample_lib_def sample_results_def)
  have "poll_once sample_lib sample_client ?ctx ''st'' sample_pair (build_transport_aad ''st'' ''sign'' ''ES256'') w =
      (Some (Inr ''pt''), sample_asked (sample_request ''result/st'') w)"
    using late(1) sample_do_json [OF ready, of "lb_decode_result sample_lib" "sample_request ''result/st''", OF answer late(2)]
      sample_answer_opens
    by (simp add: poll_once_def result_path_def sample_new_request sample_lib_fields)
  from poll_loop_unfold(1) [OF this refl] show ?thesis
    using s by (simp add: execute_def get_result_def) (simp add: sample_operation_def)
qed

lemma sample_signs:
  "\<exists>r w. go_sign sample_go_lib sample_go_client None sample_go_sign sample_sign_world = Some (Inr r, w)
     \<and> sn_signature r = replicate 64 CHR ''g''"
  using sample_executes sample_sign_prepared
  by (auto simp: go_sign_def go_operation_def go_execute_def sample_go_fields sample_go_client_def sign_result_of_def
      sample_sign_payload_def decode_response_field_def raw_decode_encode signature_size_def raw_encode_empty_iff
      sample_operation_def)

theorem go_results_bound_witness:
  "\<exists>(r :: sign_result) q res p. sign_request_of sample_go_lib sample_go_client sample_go_sign = Inr q \<and> answers_request sample_go_lib sample_go_client None sample_sign_world q res
     \<and> gl_decode_sign sample_go_lib (cp_payload res) = Some p \<and> np_algorithm p = rq_algorithm q
     \<and> sn_signature r = replicate 64 CHR ''g'' \<and> raw_url_decode (np_signature p) = Some (sn_signature r)"
proof -
  obtain r w where r: "go_sign sample_go_lib sample_go_client None sample_go_sign sample_sign_world = Some (Inr r, w)"
    and sig: "sn_signature r = replicate 64 CHR ''g''"
    using sample_signs by blast
  note bound = go_results_bound [of sample_go_lib sample_go_client None _ sample_sign_world _ w _ _ sample_go_sign r]
  from bound [THEN conjunct2, THEN conjunct2, rule_format, OF r] sig show ?thesis by blast
qed

end
