(* ===== verification/Auth_Properties.thy ===== *)
theory Auth_Properties
  imports Auth_Invariants
begin

text \<open>
  The properties of the auth store: challenges are single use, the anchor of a
  ready user is fixed, a ready user keeps a credential, no credential is ahead of
  its user's epoch, the two databases delete credentials alike, and the garbage
  collection events as the server schedules them.
\<close>

section \<open>Sample data\<close>

definition sample_user :: user_row where
  "sample_user = \<lparr>u_id = ''alice'', u_display_name = [], u_status = ''active'',
     u_webauthn_user_id = ''w'', u_request_key = ''rvk_1'', u_request_enc_ecdh_pubkey = ''e'',
     u_request_enc_mlkem_pubkey = ''m'', u_anchor_es384_public_key = ''a'',
     u_anchor_mldsa87_public_key = ''b'', u_pubkey_bundle_signature_es384 = ''s'',
     u_pubkey_bundle_signature_mldsa87 = ''t'', u_pubkey_bundle_version = 2, u_wrapped_key_epoch = 1,
     u_allowed_ips = [], u_ready = True, u_created_at = 10, u_updated_at = 10\<rparr>"

definition sample_credential :: "string \<Rightarrow> credential_row" where
  "sample_credential cid = \<lparr>c_id = cid, c_user_id = ''alice'', c_credential_id = cid, c_display_name = [],
     c_public_key = ''p'', c_sign_count = 0, c_wrapped_primary_key = ''wp'', c_wrapped_anchor_key = ''wa'',
     c_attestation_payload = ''ap'', c_attestation_signature_es384 = ''s1'',
     c_attestation_signature_mldsa87 = ''s2'', c_wrapped_key_epoch = 1, c_created_at = 10, c_last_used_at = 10\<rparr>"

definition sample_challenge :: challenge_row where
  "sample_challenge = \<lparr>ch_id = ''c1'', ch_kind = ''login'', ch_user_id = [], ch_challenge = ''x'',
     ch_expires_at = 400, ch_used_at = None\<rparr>"

definition sample_auth_db :: database where
  "sample_auth_db = empty_database\<lparr>db_users := [sample_user],
     db_credentials := [sample_credential ''k1'', sample_credential ''k2''],
     db_challenges := [sample_challenge]\<rparr>"

lemma sample_auth_tables [simp]:
  "db_users sample_auth_db = [sample_user]"
  "db_credentials sample_auth_db = [sample_credential ''k1'', sample_credential ''k2'']"
  "db_challenges sample_auth_db = [sample_challenge]"
  "conn_faults sample_auth_db = []"
  by (simp_all add: sample_auth_db_def empty_database_def)

lemma sample_user_fields [simp]:
  "u_id sample_user = ''alice''" "u_ready sample_user" "u_wrapped_key_epoch sample_user = 1"
  by (simp_all add: sample_user_def)

lemma sample_credential_fields [simp]:
  "c_id (sample_credential cid) = cid" "c_user_id (sample_credential cid) = ''alice''"
  "c_wrapped_key_epoch (sample_credential cid) = 1"
  by (simp_all add: sample_credential_def)

definition user_row_of :: "string \<Rightarrow> database \<Rightarrow> user_row option" where
  "user_row_of uid s = row_of u_id uid (db_users s)"

section \<open>The anchor of a ready user\<close>

lemma ready_in_row:
  "ready_in uid A t \<Longrightarrow> \<exists>u. row_of u_id uid t = Some u \<and> u_ready u \<and> anchor_fields u = A"
  using row_of_in_set by (fastforce simp: ready_in_def)

text \<open>C5: Once a user's signup is finalized the user stays, stays ready, and its two anchor public
  keys, its request encryption keys and the signatures over them never change again, whatever calls
  on the auth store follow, in whatever order and with whatever failures.\<close>

theorem anchor_immutable_once_ready:
  assumes "distinct (map u_id (db_users s))" and "user_row_of uid s = Some u" and "u_ready u"
  shows "\<exists>v. user_row_of uid (run_auth_calls cidr ip cs s) = Some v \<and> u_ready v
     \<and> anchor_fields v = anchor_fields u"
proof -
  have "ready_in uid (anchor_fields u) (db_users s)"
    using assms row_of_SomeD by (fastforce simp: ready_in_def user_row_of_def)
  then have "ready_in uid (anchor_fields u) (db_users (run_auth_calls cidr ip cs s))"
    by (intro anchors.run_auth_calls_keep) (auto simp: begins_outside_def list_all_iff split: auth_call.splits)
  then show ?thesis unfolding user_row_of_def by (rule ready_in_row)
qed

theorem anchor_immutable_once_ready_witness:
  "\<exists>v. user_row_of ''alice'' (run_auth_calls Some Some
        [Auth_Finalize 0 \<lparr>fi_user_id = ''alice'', fi_wrapped_primary_key = [], fi_wrapped_anchor_key = [],
           fi_request_enc_ecdh_pubkey = ''evil'', fi_request_enc_mlkem_pubkey = ''evil'',
           fi_anchor_es384_public_key = ''evil'', fi_anchor_mldsa87_public_key = ''evil'',
           fi_pubkey_bundle_signature_es384 = [], fi_pubkey_bundle_signature_mldsa87 = [],
           fi_pubkey_bundle_version = 2, fi_attestation_payload = [], fi_attestation_signature_es384 = [],
           fi_attestation_signature_mldsa87 = []\<rparr>,
         Auth_Delete_Nonready ''alice'' (hours 1000)] sample_auth_db) = Some v
     \<and> u_ready v \<and> anchor_fields v = anchor_fields sample_user"
  by (rule anchor_immutable_once_ready) (simp_all add: user_row_of_def)

section \<open>Challenges\<close>

lemma consume_ok_row:
  assumes "consume_challenge now unm cid kind uid s = (Inr x, s1)"
  obtains c where "c \<in> set (db_challenges s)" "consumable cid kind uid (unix_seconds now) c"
    "db_challenges s1 = update_rows (consumable cid kind uid (unix_seconds now))
       (\<lambda>c. c\<lparr>ch_used_at := Some (unix_seconds now)\<rparr>) (db_challenges s)"
proof -
  obtain rs s2 where st: "db_stmt (consume_stmt cid kind uid (unix_seconds now)) s = (Inr rs, s2)"
    and k: "s2 = s1" "rs \<noteq> []"
    using assms unfolding consume_challenge_def
    by (elim go_bind_okE) (auto split: option.splits list.splits simp: first_row_def)
  then obtain fs where e: "consume_stmt cid kind uid (unix_seconds now) (s\<lparr>conn_faults := fs\<rparr>) = (Inr rs, s1)"
    using db_stmt_effect [OF st] by auto
  then have "rows_where (consumable cid kind uid (unix_seconds now)) (db_challenges s) \<noteq> []"
    using k by (auto simp: consume_stmt_def sql_update_def)
  then obtain c where "c \<in> set (db_challenges s)" "consumable cid kind uid (unix_seconds now) c"
    by (auto simp: delete_rows_empty_iff)
  then show ?thesis using that e by (auto simp: consume_stmt_def sql_update_def)
qed

text \<open>C6: A challenge is consumed at most once.  After a \<open>ConsumeChallenge\<close> that succeeded, no later
  one with the same id succeeds, for any kind, user and time, whatever other calls come in between
  (unless a new challenge is given the same random id).\<close>

theorem challenge_single_use:
  assumes "consume_challenge now unm cid kind uid s = (Inr x, s1)"
    and "distinct (map ch_id (db_challenges s))"
    and "list_all (begins_outside {cid}) cs"
  shows "fst (consume_challenge now2 unm2 cid kind2 uid2 (run_auth_calls cidr ip cs s1)) \<noteq> Inr y"
proof
  obtain c where c: "c \<in> set (db_challenges s)" "consumable cid kind uid (unix_seconds now) c"
    and d: "db_challenges s1 = update_rows (consumable cid kind uid (unix_seconds now))
       (\<lambda>c. c\<lparr>ch_used_at := Some (unix_seconds now)\<rparr>) (db_challenges s)"
    using assms(1) by (rule consume_ok_row)
  have "q = c" if "q \<in> set (db_challenges s)" "ch_id q = cid" for q
    using that c row_of_in_set [OF assms(2)] by (metis consumable_def option.inject)
  then have "spent_in cid (db_challenges s1)"
    using c(2) by (auto simp: d spent_in_def list_all_iff set_update_rows)
  then have sp: "spent_in cid (db_challenges (run_auth_calls cidr ip cs s1))"
    using assms(3) by (intro spent.run_auth_calls_keep)
  assume "fst (consume_challenge now2 unm2 cid kind2 uid2 (run_auth_calls cidr ip cs s1)) = Inr y"
  then obtain s3 where "consume_challenge now2 unm2 cid kind2 uid2 (run_auth_calls cidr ip cs s1) = (Inr y, s3)"
    by (metis prod.collapse)
  then obtain q where "q \<in> set (db_challenges (run_auth_calls cidr ip cs s1))"
    "consumable cid kind2 uid2 (unix_seconds now2) q" by (rule consume_ok_row)
  then show False using sp by (auto simp: spent_in_def list_all_iff consumable_def)
qed

theorem challenge_single_use_witness:
  "fst (consume_challenge (seconds 310) (None :: (string \<Rightarrow> unit option) option) ''c1'' ''login'' []
     (run_auth_calls Some Some [Auth_Cleanup (seconds 305)]
       (snd (consume_challenge (seconds 300) (None :: (string \<Rightarrow> unit option) option) ''c1'' ''login'' []
          sample_auth_db)))) \<noteq> Inr None"
proof (rule challenge_single_use)
  show "consume_challenge (seconds 300) (None :: (string \<Rightarrow> unit option) option) ''c1'' ''login'' [] sample_auth_db
      = (Inr None, snd (consume_challenge (seconds 300) (None :: (string \<Rightarrow> unit option) option) ''c1'' ''login'' []
          sample_auth_db))"
    by (simp add: consume_challenge_def go_bind_def db_stmt_def consume_stmt_def sql_update_def
        rows_where_def consumable_def sample_challenge_def unix_seconds_def seconds_def nanos_per_second_def)
qed (simp_all add: begins_outside_def)

section \<open>Credentials\<close>

text \<open>C7: A ready user that has a credential always has one: no sequence of calls, on either
  database, removes the last credential, so the account cannot lose its last way to sign in.\<close>

theorem last_credential_kept:
  assumes "has_credential uid s"
  shows "credentials_of uid (run_auth_calls cidr ip cs s) \<noteq> []"
proof -
  have "has_credential uid (run_auth_calls cidr ip cs s)"
    using assms
    by (intro last_credential.run_auth_calls_keep)
      (auto simp: begins_outside_def list_all_iff split: auth_call.splits)
  then show ?thesis by (simp add: has_credential_def)
qed

theorem last_credential_kept_witness:
  "credentials_of ''alice'' (run_auth_calls Some Some
     [Auth_Delete_Credential Backend_SQLite ''k1'' ''alice'',
      Auth_Delete_Credential Backend_Postgres ''k2'' ''alice''] sample_auth_db) \<noteq> []"
  by (rule last_credential_kept) (simp add: has_credential_def credentials_of_def rows_where_def)

text \<open>The wrapped-key epoch of every credential lies between 1 and its owner's epoch, in every
  state the auth store reaches: a credential is current or stale, never ahead, and every
  credential has an owner.\<close>

lemma credential_epoch_bounded:
  assumes "epochs_ok s" and "c \<in> set (db_credentials (run_auth_calls cidr ip cs s))"
  shows "\<exists>u. user_row_of (c_user_id c) (run_auth_calls cidr ip cs s) = Some u
     \<and> 1 \<le> c_wrapped_key_epoch c \<and> c_wrapped_key_epoch c \<le> u_wrapped_key_epoch u"
proof -
  have "epochs_ok (run_auth_calls cidr ip cs s)"
    using assms(1)
    by (intro epochs.run_auth_calls_keep)
      (auto simp: begins_outside_def list_all_iff split: auth_call.splits)
  then show ?thesis
    using assms(2) row_of_in_set [of u_id] by (fastforce simp: epochs_ok_def epoch_bounded_def user_row_of_def)
qed

theorem credential_epoch_bounded_witness:
  "\<exists>u. user_row_of (c_user_id (sample_credential ''k1'')) (run_auth_calls Some Some [] sample_auth_db) = Some u
     \<and> 1 \<le> c_wrapped_key_epoch (sample_credential ''k1'')
     \<and> c_wrapped_key_epoch (sample_credential ''k1'') \<le> u_wrapped_key_epoch u"
  by (rule credential_epoch_bounded) (simp_all add: epochs_ok_def epoch_bounded_def run_auth_calls_def)

text \<open>The Postgres and the SQLite variant of \<open>DeleteCredential\<close> return the same result and leave
  the same database, on every branch, when no statement fails.\<close>

lemma delete_credential_backends_agree:
  assumes "conn_faults s = []" and "distinct (map c_id (db_credentials s))"
  shows "delete_credential Backend_SQLite rid uid s = delete_credential Backend_Postgres rid uid s"
proof -
  let ?own = "credentials_of uid s"
  let ?both = "\<lambda>c. c_id c = rid \<and> c_user_id c = uid"
  have w: "credentials_with_id rid ?own = rows_where ?both (db_credentials s)"
    by (simp add: credentials_with_id_def credentials_of_def rows_where_rows_where conj_commute)
  have d: "rows_where ?both (db_credentials s) = (case row_of c_id rid (db_credentials s) of
      None \<Rightarrow> [] | Some r \<Rightarrow> if ?both r then [r] else [])"
    by (rule rows_where_key [OF assms(2)]) simp
  show ?thesis
  proof (cases "length ?own > 1 \<and> rows_where ?both (db_credentials s) \<noteq> []")
    case True
    then obtain r where r: "rows_where ?both (db_credentials s) = [r]"
      using d by (auto split: option.splits if_splits)
    have "length ?own > 1" using True by simp
    then have f: "(\<lambda>c. c_id c = rid \<and> c_user_id c = uid \<and> length ?own > 1) = ?both"
      "(\<lambda>c. c_id c = rid \<and> c_user_id c = uid \<and> length ?own > 1 \<and> credentials_with_id rid ?own \<noteq> []) = ?both"
      using r w by (auto simp: fun_eq_iff)
    show ?thesis
      by (simp only: delete_credential_def backend_kind.case delete_credential_sqlite_def
          delete_credential_postgres_def go_bind_def db_stmt_no_fault [OF assms(1)] delete_sqlite_stmt_def
          delete_postgres_stmt_def sql_delete_def Let_def f r) simp
  next
    case False
    then have f: "rows_where (\<lambda>c. c_id c = rid \<and> c_user_id c = uid \<and> length ?own > 1) (db_credentials s) = []"
      "rows_where (\<lambda>c. c_id c = rid \<and> c_user_id c = uid \<and> length ?own > 1 \<and> credentials_with_id rid ?own \<noteq> [])
         (db_credentials s) = []"
      by (auto simp: delete_rows_empty_iff)
    then have g: "delete_rows (\<lambda>c. c_id c = rid \<and> c_user_id c = uid \<and> length ?own > 1) (db_credentials s)
        = db_credentials s"
      "delete_rows (\<lambda>c. c_id c = rid \<and> c_user_id c = uid \<and> length ?own > 1
         \<and> credentials_with_id rid ?own \<noteq> []) (db_credentials s) = db_credentials s"
      by (auto simp: delete_rows_empty_iff intro!: delete_rows_none)
    have sq: "delete_sqlite_stmt rid uid s = (Inr [], s)"
      by (simp only: delete_sqlite_stmt_def sql_delete_def Let_def f g) simp
    have pg: "delete_postgres_stmt rid uid s = (Inr (length ?own, length (credentials_with_id rid ?own), 0), s)"
      by (simp only: delete_postgres_stmt_def Let_def f g) simp
    have "length ?own \<le> 1 \<or> credentials_with_id rid ?own = []" using False w by auto
    then show ?thesis
      by (auto simp: delete_credential_def delete_credential_sqlite_def delete_credential_postgres_def
          go_bind_def db_stmt_no_fault [OF assms(1)] sq pg sql_select_def credentials_of_def [symmetric])
  qed
qed

theorem delete_credential_backends_agree_witness:
  "delete_credential Backend_SQLite ''k1'' ''alice'' sample_auth_db
   = delete_credential Backend_Postgres ''k1'' ''alice'' sample_auth_db
   \<and> fst (delete_credential Backend_SQLite ''k1'' ''alice'' sample_auth_db) = Inr ()"
proof
  show "delete_credential Backend_SQLite ''k1'' ''alice'' sample_auth_db
      = delete_credential Backend_Postgres ''k1'' ''alice'' sample_auth_db"
    by (rule delete_credential_backends_agree) simp_all
  show "fst (delete_credential Backend_SQLite ''k1'' ''alice'' sample_auth_db) = Inr ()"
    by (simp add: delete_credential_def delete_credential_sqlite_def go_bind_def db_stmt_def
        delete_sqlite_stmt_def sql_delete_def credentials_of_def rows_where_def Let_def)
qed

section \<open>The collection events fire too early\<close>

text \<open>
  A sign-up schedules the deletion of its unfinished account a day and a minute later
  (src/internal/server/routes-auth.go), a challenge its own deletion ten minutes after its expiry.
  Both events find the row still inside the margin of the statement they run.
\<close>

lemma nonready_event_too_early:
  assumes "u \<in> set (db_users s)" and "u_created_at u = unix_seconds t" and "d < minutes 9"
  shows "u \<in> set (db_users (snd (delete_nonready_user (u_id u) (t + hours 24 + minutes 1 + d) s)))"
proof -
  have "t + hours 24 + minutes 1 + d - hours 24 - minutes 10 \<le> t" using assms(3) by (simp add: seconds_def)
  then have "unix_seconds (t + hours 24 + minutes 1 + d - hours 24 - minutes 10) \<le> u_created_at u"
    using unix_mono assms(2) by metis
  then show ?thesis
    using assms(1)
    by (auto simp: delete_nonready_user_def go_bind_def db_stmt_def delete_users_def delete_rows_def Let_def split: list.splits)
qed

lemma challenge_event_too_early:
  assumes "c \<in> set (db_challenges s)" and "ch_used_at c = None" and "ch_expires_at c = unix_seconds t"
    and "unix_seconds (t + minutes 10 + d) = unix_seconds (t + minutes 10)"
  shows "c \<in> set (db_challenges (snd (delete_expired_auth_challenge (ch_id c) (t + minutes 10 + d) s)))"
proof -
  have "unix_seconds (t + minutes 10 + d - minutes 10) = ch_expires_at c"
    using assms(3,4) unix_diff_seconds [of "t + minutes 10 + d" "60 * 10"] unix_diff_seconds [of "t + minutes 10" "60 * 10"] by simp
  then show ?thesis
    using assms(1,2)
    by (auto simp: delete_expired_auth_challenge_def go_bind_def db_stmt_def delete_challenges_def delete_rows_def Let_def
        split: list.splits)
qed

end
