(* ===== verification/Long_Poll.thy ===== *)
theory Long_Poll
  imports Request_Routes
begin

text \<open>
  Long polls running together with everything else.  A system is a server and any number of
  polling routines; a step of the system is a step of one routine, a client that goes away
  while its routine waits, a notification by some handler, or any change at all of the
  database, the queues and the broker.  So the reachable systems include every interleaving
  of the handlers of the server, which touch the subscriptions only through
  \<open>notifySubscriber\<close>.
\<close>

record poll_system =
  ps_server :: server
  ps_polls :: "nat \<Rightarrow> http_call \<times> string \<times> poll"

definition poll_at :: "poll_system \<Rightarrow> nat \<Rightarrow> poll" where
  "poll_at sys i = snd (snd (ps_polls sys i))"

definition state_at :: "poll_system \<Rightarrow> nat \<Rightarrow> string" where
  "state_at sys i = fst (snd (ps_polls sys i))"

definition set_poll :: "nat \<Rightarrow> poll \<Rightarrow> server \<Rightarrow> poll_system \<Rightarrow> poll_system" where
  "set_poll i p sv sys = sys\<lparr>ps_server := sv,
     ps_polls := (ps_polls sys)(i := (fst (ps_polls sys i), state_at sys i, p))\<rparr>"

definition same_subs :: "server \<Rightarrow> server \<Rightarrow> bool" where
  "same_subs s s' \<longleftrightarrow> sv_subs s' = sv_subs s \<and> sv_chans s' = sv_chans s"

inductive system_step :: "('ek, 'mk) server_env \<Rightarrow> poll_system \<Rightarrow> poll_system \<Rightarrow> bool" for env where
  advance: "poll_step env c (state_at sys i) (poll_at sys i) (ps_server sys) = Some (p, sv)
     \<Longrightarrow> system_step env sys (set_poll i p sv sys)"
| disconnect: "poll_at sys i = Poll_Wait watch rec_state
     \<Longrightarrow> system_step env sys (set_poll i (poll_disconnected watch rec_state) (ps_server sys) sys)"
| notify: "system_step env sys (sys\<lparr>ps_server := snd (notify_subscriber st (ps_server sys))\<rparr>)"
| other: "same_subs (ps_server sys) sv \<Longrightarrow> system_step env sys (sys\<lparr>ps_server := sv\<rparr>)"

inductive_cases system_stepE: "system_step env sys sys'"

text \<open>A server that starts, with requests for results about to arrive.\<close>

definition initial_system :: "poll_system \<Rightarrow> bool" where
  "initial_system sys \<longleftrightarrow> sv_subs (ps_server sys) = (\<lambda>_. None) \<and> sv_chans (ps_server sys) = []
     \<and> (\<forall>i. poll_at sys i = Poll_Start)"

inductive reachable :: "('ek, 'mk) server_env \<Rightarrow> poll_system \<Rightarrow> bool" for env where
  start: "initial_system sys \<Longrightarrow> reachable env sys"
| more: "reachable env sys \<Longrightarrow> system_step env sys sys' \<Longrightarrow> reachable env sys'"

section \<open>The invariant\<close>

text \<open>The subscription a routine holds.\<close>

fun watch_of :: "poll \<Rightarrow> nat option" where
  "watch_of (Poll_Loop w) = Some w"
| "watch_of (Poll_Fetch w _) = Some w"
| "watch_of (Poll_Wait w _) = Some w"
| "watch_of (Poll_Leave w _) = Some w"
| "watch_of _ = None"

definition polls_ok :: "poll_system \<Rightarrow> bool" where
  "polls_ok sys \<longleftrightarrow> subs_ok (ps_server sys)
     \<and> (\<forall>i w. watch_of (poll_at sys i) = Some w \<longrightarrow> w < length (sv_chans (ps_server sys))
          \<and> (chan_closed (sv_chans (ps_server sys) ! w) \<or> sv_subs (ps_server sys) (state_at sys i) = Some w))
     \<and> (\<forall>i j w. watch_of (poll_at sys i) = Some w \<longrightarrow> watch_of (poll_at sys j) = Some w \<longrightarrow> i = j)
     \<and> (\<forall>i. poll_at sys i \<noteq> Poll_Crashed)"

lemma poll_at_set [simp]:
  "poll_at (set_poll i p sv sys) j = (if j = i then p else poll_at sys j)"
  "state_at (set_poll i p sv sys) j = state_at sys j"
  "ps_server (set_poll i p sv sys) = sv"
  by (simp_all add: poll_at_def state_at_def set_poll_def)

lemma poll_at_server [simp]:
  "poll_at (sys\<lparr>ps_server := sv\<rparr>) i = poll_at sys i" "state_at (sys\<lparr>ps_server := sv\<rparr>) i = state_at sys i"
  by (simp_all add: poll_at_def state_at_def)

text \<open>Steps that leave the subscriptions alone and keep, or give up, the watch of one routine.\<close>

lemma polls_ok_same:
  assumes "polls_ok sys" and "same_subs (ps_server sys) sv"
    and "watch_of p = watch_of (poll_at sys i) \<or> watch_of p = None" and "p \<noteq> Poll_Crashed"
  shows "polls_ok (set_poll i p sv sys)"
proof -
  have "subs_ok sv" using assms(1,2) by (simp add: polls_ok_def same_subs_def subs_ok_def)
  then show ?thesis using assms unfolding polls_ok_def same_subs_def by (simp, metis option.discI)
qed

lemma on_db_same_subs: "on_db m s = (r, s1) \<Longrightarrow> same_subs s s1"
  by (auto simp: on_db_def same_subs_def split: prod.splits)

lemma same_subs_refl: "same_subs s s"
  by (simp add: same_subs_def)

lemma keeps_same_subs [keeps_intros]: "keeps (same_subs s0) (on_db m)"
  by (auto simp: keeps_def on_db_def same_subs_def split: prod.splits)

lemma keeps_required_user [keeps_intros]: "keeps I (required_user c)"
  unfolding required_user_def by (intro keeps_intros)

lemma poll_open_same:
  assumes "poll_open env c st s = (p, s1)"
  shows "same_subs s s1 \<and> watch_of p = None \<and> p \<noteq> Poll_Crashed"
proof -
  let ?m = "go_bind (go_require (st \<noteq> []) (bad_request ''Missing parameter state'')) (\<lambda>_.
          go_bind (required_user c) (\<lambda>user.
          go_bind (on_db (get_request (se_unmarshal env) (hc_clock c 0) (hc_clock c 1) st)) (\<lambda>found. case found of
            None \<Rightarrow> go_fail (state_not_found 404)
          | Some rec \<Rightarrow> if req_user_id rec \<noteq> usr_id user then go_fail (state_not_found 404) else go_return ())))"
  have "keeps (same_subs s) ?m" by (intro keeps_intros)
  then have "same_subs s (snd (?m s))" using same_subs_refl by (rule keepsD)
  then show ?thesis using assms by (auto simp: poll_open_def split: prod.splits sum.splits)
qed

lemma poll_read_same:
  "poll_read env c st w s = (p, s1) \<Longrightarrow> same_subs s s1 \<and> watch_of p = Some w \<and> p \<noteq> Poll_Crashed"
  by (auto simp: poll_read_def dest: on_db_same_subs split: prod.splits sum.splits option.splits request_status.splits)

lemma poll_fetch_same:
  "poll_fetch env c st w b s = (p, s1) \<Longrightarrow> same_subs s s1 \<and> watch_of p = Some w \<and> p \<noteq> Poll_Crashed"
  by (auto simp: poll_fetch_def dest: on_db_same_subs split: prod.splits sum.splits option.splits)

text \<open>The steps that change the subscriptions.\<close>

lemma polls_okD:
  assumes "polls_ok sys" and "watch_of (poll_at sys i) = Some w"
  shows "w < length (sv_chans (ps_server sys))"
    and "chan_closed (sv_chans (ps_server sys) ! w) \<or> sv_subs (ps_server sys) (state_at sys i) = Some w"
    and "watch_of (poll_at sys j) = Some w \<Longrightarrow> j = i"
  using assms unfolding polls_ok_def by blast+

lemma polls_ok_subs: "polls_ok sys \<Longrightarrow> subs_ok (ps_server sys)"
  by (simp add: polls_ok_def)

lemma polls_okI:
  assumes "subs_ok (ps_server sys)"
    and "\<And>i w. watch_of (poll_at sys i) = Some w \<Longrightarrow> w < length (sv_chans (ps_server sys))
          \<and> (chan_closed (sv_chans (ps_server sys) ! w) \<or> sv_subs (ps_server sys) (state_at sys i) = Some w)"
    and "\<And>i j w. watch_of (poll_at sys i) = Some w \<Longrightarrow> watch_of (poll_at sys j) = Some w \<Longrightarrow> i = j"
    and "\<And>i. poll_at sys i \<noteq> Poll_Crashed"
  shows "polls_ok sys"
  using assms unfolding polls_ok_def by blast

lemma closed_update:
  "chan_closed (cs ! w) \<Longrightarrow> chan_closed (f (cs ! ch)) \<Longrightarrow> chan_closed (cs[ch := f (cs ! ch)] ! w)"
  by (cases "ch < length cs") (auto simp: nth_list_update list_update_beyond not_less)

lemma polls_ok_subscribe:
  assumes ok: "polls_ok sys" and p: "poll_subscribe (state_at sys i) (ps_server sys) = (p, sv)"
    and i: "poll_at sys i = Poll_Owned"
  shows "polls_ok (set_poll i p sv sys)"
proof -
  let ?s = "ps_server sys" and ?st = "state_at sys i"
  let ?n = "length (sv_chans ?s)"
  let ?cs = "case sv_subs ?s ?st of None \<Rightarrow> sv_chans ?s | Some ch \<Rightarrow> (sv_chans ?s)[ch := closed_chan (sv_chans ?s ! ch)]"
  have sv: "p = Poll_Loop ?n" "sv = ?s\<lparr>sv_chans := ?cs @ [make_chan 1], sv_subs := (sv_subs ?s)(?st \<mapsto> ?n)\<rparr>"
    using p by (auto simp: poll_subscribe_def subscribe_state_eq [OF polls_ok_subs [OF ok]])
  have "subs_ok sv"
    using subs_ok_subscribe [OF polls_ok_subs [OF ok], of ?st] p
    by (auto simp: poll_subscribe_def subscribe_state_eq [OF polls_ok_subs [OF ok]])
  moreover have len: "length ?cs = ?n" by (simp split: option.splits)
  moreover have keep: "chan_closed (?cs ! w) \<or> (sv_subs sv st = Some w \<and> st \<noteq> ?st)"
    if "w < ?n" "chan_closed (sv_chans ?s ! w) \<or> sv_subs ?s st = Some w" for w st
    using that subs_okD(1) [OF polls_ok_subs [OF ok], of ?st] closed_update [of "sv_chans ?s" w closed_chan]
    by (auto simp: sv(2) closed_chan_def split: option.splits)
  ultimately show ?thesis
  proof (intro polls_okI, goal_cases)
    case (2 j w)
    show ?case
    proof (cases "j = i")
      case False
      with 2 have w: "watch_of (poll_at sys j) = Some w" by simp
      from polls_okD(1,2) [OF ok w] keep [of w "state_at sys j"] len show ?thesis
        using False sv(2) by (auto simp: nth_append)
    qed (use 2 sv len in \<open>auto simp: nth_append\<close>)
  next
    case (3 j k w)
    then show ?case
      using polls_okD(1) [OF ok, of j w] polls_okD(1) [OF ok, of k w] polls_okD(3) [OF ok, of j w k] sv(1)
      by (cases "j = i"; cases "k = i") auto
  next
    case (4 j)
    then show ?case using ok sv(1) by (simp add: polls_ok_def)
  qed (simp)
qed

lemma polls_ok_wake:
  assumes ok: "polls_ok sys" and i: "poll_at sys i = Poll_Wait w rs"
    and p: "poll_wake w rs (ps_server sys) = Some (p, sv)"
  shows "polls_ok (set_poll i p sv sys)"
proof -
  let ?s = "ps_server sys"
  have w: "watch_of (poll_at sys i) = Some w" by (simp add: i)
  show ?thesis
  proof (cases "chan_buf (sv_chans ?s ! w)")
    case Nil
    then have "sv = ?s \<and> p = Poll_Leave w (Reply_Json 202 (pending_response rs))"
      using p by (simp add: poll_wake_def receive_def split: if_splits)
    then show ?thesis using i by (intro polls_ok_same [OF ok]) (simp_all add: same_subs_refl)
  next
    case (Cons m ms)
    note buf = this
    have pl: "p = Poll_Loop w" and sv: "sv = ?s\<lparr>sv_chans := (sv_chans ?s)[w := (sv_chans ?s ! w)\<lparr>chan_buf := ms\<rparr>]\<rparr>"
      using p Cons by (simp_all add: poll_wake_def receive_def)
    have free: "sv_subs ?s st \<noteq> Some w" for st
      using subs_okD(3) [OF polls_ok_subs [OF ok]] buf by fastforce
    have so: "subs_ok sv"
      unfolding subs_ok_def
    proof (intro conjI allI impI)
      fix st ch assume a: "sv_subs sv st = Some ch"
      then have "sv_subs ?s st = Some ch" "ch \<noteq> w" using sv free by auto
      with subs_okD [OF polls_ok_subs [OF ok] this(1)] show "ch < length (sv_chans sv)" "\<not> chan_closed (sv_chans sv ! ch)"
        "chan_buf (sv_chans sv ! ch) = []" "chan_cap (sv_chans sv ! ch) = 1" by (simp_all add: sv)
    next
      fix st1 st2 ch assume "sv_subs sv st1 = Some ch" "sv_subs sv st2 = Some ch"
      then show "st1 = st2" using subs_okD(5) [OF polls_ok_subs [OF ok]] sv by simp
    qed
    have closed: "chan_closed (sv_chans sv ! v) = chan_closed (sv_chans ?s ! v)" "length (sv_chans sv) = length (sv_chans ?s)" for v
      using sv polls_okD(1) [OF ok w] by (cases "v = w"; simp)+
    have sub: "sv_subs sv = sv_subs ?s" by (simp add: sv)
    show ?thesis
    proof (rule polls_okI, goal_cases)
      case (2 j v)
      then have "watch_of (poll_at sys j) = Some v" using w pl by (auto split: if_splits)
      from polls_okD(1,2) [OF ok this] show ?case by (simp add: closed sub)
    next
      case (3 j k v)
      then have "watch_of (poll_at sys j) = Some v" "watch_of (poll_at sys k) = Some v" using w pl by (auto split: if_splits)
      then show ?case using polls_okD(3) [OF ok] by blast
    next
      case (4 j)
      then show ?case using ok pl by (simp add: polls_ok_def)
    qed (simp add: so)
  qed
qed

text \<open>Closing or notifying the registered channel of a state, and forgetting it.\<close>

lemma polls_ok_release:
  assumes ok: "polls_ok sys" and st: "sv_subs (ps_server sys) st = Some ch"
    and f: "chan_closed (f (sv_chans (ps_server sys) ! ch))"
  shows "polls_ok (sys\<lparr>ps_server := (ps_server sys)\<lparr>sv_chans := (sv_chans (ps_server sys))[ch := f (sv_chans (ps_server sys) ! ch)],
     sv_subs := (sv_subs (ps_server sys))(st := None)\<rparr>\<rparr>)" (is "polls_ok (sys\<lparr>ps_server := ?sv\<rparr>)")
proof (rule polls_okI, goal_cases)
  case 1
  show ?case
    using polls_ok_subs [OF ok] st unfolding subs_ok_def
    by (auto simp: nth_list_update split: if_splits)
next
  case (2 i w)
  then have "watch_of (poll_at sys i) = Some w" by simp
  from polls_okD(1,2) [OF ok this] show ?case
    using f st closed_update [of "sv_chans (ps_server sys)" w f ch] subs_okD(1) [OF polls_ok_subs [OF ok] st]
    by auto
next
  case (3 i j w)
  then show ?case using polls_okD(3) [OF ok] by simp
next
  case (4 i)
  then show ?case using ok by (simp add: polls_ok_def)
qed

lemma polls_ok_notify:
  assumes "polls_ok sys"
  shows "polls_ok (sys\<lparr>ps_server := snd (notify_subscriber st (ps_server sys))\<rparr>)"
proof (cases "sv_subs (ps_server sys) st")
  case None
  then show ?thesis using assms by (simp add: notify_subscriber_eq [OF polls_ok_subs [OF assms]])
next
  case (Some ch)
  then show ?thesis
    using polls_ok_release [OF assms Some, of notified_chan]
    by (simp add: notify_subscriber_eq [OF polls_ok_subs [OF assms]] notified_chan_def)
qed

lemma polls_ok_close:
  assumes ok: "polls_ok sys" and i: "poll_at sys i = Poll_Leave w reply"
    and p: "poll_close (state_at sys i) w reply (ps_server sys) = (p, sv)"
  shows "polls_ok (set_poll i p sv sys)"
proof -
  let ?s = "ps_server sys"
  have p': "p = Poll_Done reply" and sv: "sv = snd (unsubscribe_state (state_at sys i) w ?s)"
    using p by (auto simp: poll_close_def unsubscribe_state_eq [OF polls_ok_subs [OF ok]])
  have "polls_ok (sys\<lparr>ps_server := sv\<rparr>)"
    using polls_ok_release [OF ok, of "state_at sys i" w closed_chan] ok
    by (auto simp: sv unsubscribe_state_eq [OF polls_ok_subs [OF ok]] closed_chan_def)
  from polls_ok_same [OF this, of sv p i] p' show ?thesis
    by (simp add: same_subs_refl set_poll_def state_at_def poll_at_def)
qed

lemma polls_ok_step:
  assumes "system_step env sys sys'" and "polls_ok sys"
  shows "polls_ok sys'"
  using assms
proof cases
  case (advance c i p sv)
  note step = advance(2)
  show ?thesis
  proof (cases "poll_at sys i")
    case Poll_Start
    then have "poll_open env c (state_at sys i)  (ps_server sys) = (p, sv)" using step by simp
    from poll_open_same [OF this] show ?thesis
      unfolding advance(1) using Poll_Start by (intro polls_ok_same [OF assms(2)]) simp_all
  next
    case Poll_Owned
    then have "poll_subscribe (state_at sys i) (ps_server sys) = (p, sv)" using step by simp
    then show ?thesis unfolding advance(1) using Poll_Owned by (rule polls_ok_subscribe [OF assms(2)])
  next
    case (Poll_Loop w)
    then have "poll_read env c (state_at sys i) w (ps_server sys) = (p, sv)" using step by simp
    from poll_read_same [OF this] show ?thesis
      unfolding advance(1) using Poll_Loop by (intro polls_ok_same [OF assms(2)]) simp_all
  next
    case (Poll_Fetch w b)
    then have "poll_fetch env c (state_at sys i) w b (ps_server sys) = (p, sv)" using step by simp
    from poll_fetch_same [OF this] show ?thesis
      unfolding advance(1) using Poll_Fetch by (intro polls_ok_same [OF assms(2)]) simp_all
  next
    case (Poll_Wait w rs)
    then have "poll_wake w rs (ps_server sys) = Some (p, sv)" using step by simp
    then show ?thesis unfolding advance(1) by (rule polls_ok_wake [OF assms(2) Poll_Wait])
  next
    case (Poll_Leave w reply)
    then have "poll_close (state_at sys i) w reply (ps_server sys) = (p, sv)" using step by simp
    then show ?thesis unfolding advance(1) by (rule polls_ok_close [OF assms(2) Poll_Leave])
  qed (use step in auto)
next
  case (disconnect i w rs)
  then show ?thesis
    by (auto intro!: polls_ok_same [OF assms(2)] simp: same_subs_refl poll_disconnected_def)
next
  case (notify st)
  then show ?thesis using polls_ok_notify [OF assms(2)] by simp
next
  case (other sv)
  then show ?thesis using assms(2) by (simp add: polls_ok_def same_subs_def subs_ok_def)
qed

lemma reachable_polls_ok: "reachable env sys \<Longrightarrow> polls_ok sys"
proof (induction rule: reachable.induct)
  case (start sys)
  then show ?case by (simp add: initial_system_def polls_ok_def subs_ok_def)
next
  case (more sys sys')
  then show ?case by (blast intro: polls_ok_step)
qed

section \<open>What follows\<close>


text \<open>In every reachable system no routine has panicked on a channel, and at most one poll per request state
  still listens: of two polls for one state, one has had its channel closed.\<close>

lemma one_listener_per_state:
  assumes "reachable env sys"
  shows "poll_at sys i \<noteq> Poll_Crashed
    \<and> (i \<noteq> j \<and> state_at sys i = state_at sys j \<and> watch_of (poll_at sys i) = Some v \<and> watch_of (poll_at sys j) = Some w
        \<longrightarrow> chan_closed (sv_chans (ps_server sys) ! v) \<or> chan_closed (sv_chans (ps_server sys) ! w))"
proof -
  have ok: "polls_ok sys" using assms by (rule reachable_polls_ok)
  then have "poll_at sys i \<noteq> Poll_Crashed" by (simp add: polls_ok_def)
  then show ?thesis
    using polls_okD(2) [OF ok, of i v] polls_okD(2) [OF ok, of j w] polls_okD(3) [OF ok, of i v j] by auto
qed

text \<open>What a poll answers with is the row's own outcome: 200 carries the envelope stored in the row, which was
  terminal and is gone afterwards, so that the next read finds nothing.\<close>

lemma poll_answers_with_row:
  assumes "requests_keyed (sv_db s)" and "poll_fetch env c st w True s = (Poll_Leave w (Reply_Json 200 r), s1)"
  shows "\<exists>row. request_row_of st (sv_db s) = Some row
    \<and> (rr_status row \<noteq> Status_Pending \<or> rr_expires_at row < unix_seconds (hc_clock c 0))
    \<and> res_state r = st \<and> res_done r
    \<and> res_response_envelope r = (if rr_encrypted_result row = [] then None else se_unmarshal env (rr_encrypted_result row))
    \<and> request_row_of st (sv_db s1) = None"
proof -
  obtain rec d where g: "get_and_delete_terminal_request (se_unmarshal env) (hc_clock c 0) st (sv_db s) = (Inr (Some rec), d)"
    and s1: "s1 = s\<lparr>sv_db := d\<rparr>" and r: "r = done_response rec"
    using assms(2)
    by (auto simp: poll_fetch_def on_db_def abort_with_error_json_def
        split: prod.splits sum.splits option.splits go_error.splits)
  from get_and_delete_some [OF assms(1) g] obtain row where row: "request_row_of st (sv_db s) = Some row"
    "request_row_of st d = None" "rr_status row \<noteq> Status_Pending \<or> rr_expires_at row < unix_seconds (hc_clock c 0)"
    "scan_request_record (se_unmarshal env) (returned_terminal (unix_seconds (hc_clock c 0)) row) = Inr rec" by metis
  have "rr_state row = st" using row(1) by (rule request_row_state)
  with row r s1 show ?thesis
    by (auto simp: scan_request_record_def returned_terminal_def done_response_def Let_def
        split: if_splits option.splits)
qed

text \<open>
  A request that a read has already marked expired is silent: its expiry event finds no pending
  row and stops before the notification, the audit row and the scheduled deletion, so that a
  poll that waits stays blocked.
\<close>

lemma lazily_expired_is_silent:
  assumes "requests_keyed (sv_db s)" and "request_row_of (xe_state ev) (sv_db s) = Some row"
    and "rr_status row \<noteq> Status_Pending"
  shows "same_subs s (snd (execute_request_expiry_event env clock aid ev s))
    \<and> sv_queue_calls (snd (execute_request_expiry_event env clock aid ev s)) = sv_queue_calls s
    \<and> db_audit_events (sv_db (snd (execute_request_expiry_event env clock aid ev s))) = db_audit_events (sv_db s)"
proof -
  let ?n = "unix_seconds (clock 0)"
  let ?P = "\<lambda>r. rr_state r = xe_state ev \<and> expirable ?n r"
  have row: "row_of rr_state (xe_state ev) (db_requests (sv_db s)) = Some row"
    using assms(2) by (simp add: request_row_of_def)
  have none: "sql_update db_requests put_requests ?P (set_expired ?n) d = (Inr [], d)"
    if "db_requests d = db_requests (sv_db s)" for d
  proof -
    have "requests_keyed d" using assms(1) that by (simp add: requests.keyed_def)
    from requests.update_by_key [OF this, of ?P "xe_state ev" "set_expired ?n"] row assms(3) that show ?thesis
      by (simp add: expirable_def)
  qed
  obtain r d where m: "mark_expired (se_unmarshal env) (clock 0) (xe_state ev) (sv_db s) = (r, d)" by fastforce
  have d: "same_tables (sv_db s) d \<and> (r = Inr None \<or> r = Inl Err_Db)"
    using m none
    by (cases rule: db_stmt_cases [of "sql_update db_requests put_requests ?P (set_expired ?n)" "sv_db s"])
      (auto simp: mark_expired_def Let_def go_bind_def scan_first_def)
  then have "execute_request_expiry_event env clock aid ev s = (Inr (), s\<lparr>sv_db := d\<rparr>)"
    using m by (auto simp: execute_request_expiry_event_def go_bind_def go_try_def on_db_def)
  with d same_tables_eqs(7) [of "sv_db s" d] show ?thesis by (simp add: same_subs_def)
qed

section \<open>Examples\<close>

definition sample_server_env :: "(unit, unit) server_env" where
  "sample_server_env = \<lparr>se_marshal = sample_marshal, se_unmarshal = sample_unmarshal, se_marshal_request = (\<lambda>_. Inr ''{}''),
     se_crypto = toy_crypto, se_codec = toy_codec, se_json_valid = (\<lambda>_. True), se_json_object = (\<lambda>_. ''{}''),
     se_parse_duration = (\<lambda>_. None), se_request_timeout = minutes 5\<rparr>"

definition waiting_server :: server where
  "waiting_server = (new_server sample_db)\<lparr>sv_subs := [''s1'' \<mapsto> 0], sv_chans := [make_chan 1]\<rparr>"

definition sample_http_call :: http_call where
  "sample_http_call = \<lparr>hc_request_user = Some (user_of_row (hd (db_users sample_key_db))), hc_session_user = ''alice'',
     hc_client_ip = ''::1'', hc_clock = (\<lambda>_. from_unix 200), hc_uuid = ''s2'', hc_audit_id = ''a1'', hc_second_audit_id = ''a2'',
     hc_audit_context = \<lparr>ac_session_user_id = ''alice'', ac_request_user_id = None, ac_request_id = [], ac_client_ip = [],
       ac_user_agent = []\<rparr>\<rparr>"

definition opened_system :: "poll \<Rightarrow> server \<Rightarrow> poll_system" where
  "opened_system p sv = \<lparr>ps_server = sv, ps_polls = (\<lambda>i. (sample_http_call, ''s1'', if i = 0 then p else Poll_Start))\<rparr>"

lemma opened_steps:
  "poll_open sample_server_env sample_http_call ''s1'' (new_server sample_db) = (Poll_Owned, new_server sample_db)"
  "poll_subscribe ''s1'' (new_server sample_db) = (Poll_Loop 0, waiting_server)"
  "poll_read sample_server_env sample_http_call ''s1'' 0 waiting_server = (Poll_Wait 0 ''s1'', waiting_server)"
proof -
  have g: "get_request sample_unmarshal (from_unix 200) (from_unix 200) ''s1'' sample_db
      = (Inr (Some \<lparr>req_state = ''s1'', req_status = Status_Pending, req_operation = ''sign'', req_user_id = ''alice'',
           req_key_label = ''disk'', req_algorithm = ''ES256'', req_requestor_ip = ''10.0.0.1'', req_note = [],
           req_created_at = from_unix 100, req_expires_at = from_unix 400, req_updated_at = from_unix 100,
           req_encrypted_request = ''{}'', req_response_envelope = None\<rparr>), sample_db)"
    by (simp add: get_request_def get_request_raw_def go_bind_def db_stmt_no_fault sql_select_def rows_where_def
        sample_db_def empty_database_def sample_row_def scan_first_def scan_request_record_def)
  have u: "usr_id (user_of_row (hd (db_users sample_key_db))) = ''alice''"
    by (simp add: user_of_row_def sample_key_db_def)
  show "poll_open sample_server_env sample_http_call ''s1'' (new_server sample_db) = (Poll_Owned, new_server sample_db)"
    using g u by (simp add: poll_open_def go_require_def go_bind_def required_user_def sample_http_call_def on_db_def
        sample_server_env_def new_server_def)
  show "poll_subscribe ''s1'' (new_server sample_db) = (Poll_Loop 0, waiting_server)"
    by (simp add: poll_subscribe_def subscribe_state_def new_subscription_def new_server_def waiting_server_def)
  show "poll_read sample_server_env sample_http_call ''s1'' 0 waiting_server = (Poll_Wait 0 ''s1'', waiting_server)"
    using g by (simp add: poll_read_def on_db_def sample_http_call_def sample_server_env_def waiting_server_def new_server_def)
qed

lemma opened_system_set: "set_poll 0 p sv (opened_system q sv1) = opened_system p sv"
  by (auto simp: set_poll_def opened_system_def state_at_def)

lemma opened_at [simp]:
  "poll_at (opened_system p sv) 0 = p" "state_at (opened_system p sv) i = ''s1''" "ps_server (opened_system p sv) = sv"
  by (simp_all add: poll_at_def state_at_def opened_system_def)

lemma waiting_reachable: "reachable sample_server_env (opened_system (Poll_Wait 0 ''s1'') waiting_server)"
proof -
  have step: "reachable sample_server_env (opened_system p sv)"
    if "reachable sample_server_env (opened_system q s)" "poll_step sample_server_env sample_http_call ''s1'' q s = Some (p, sv)"
    for p q s sv
    using that reachable.more [OF that(1) system_step.advance [of _ sample_http_call "opened_system q s" 0 p sv]]
    by (simp add: opened_system_set)
  have a: "reachable sample_server_env (opened_system Poll_Start (new_server sample_db))"
    by (rule reachable.start) (simp add: initial_system_def new_server_def poll_at_def opened_system_def)
  have b: "reachable sample_server_env (opened_system Poll_Owned (new_server sample_db))"
    by (rule step [OF a]) (simp add: opened_steps(1))
  have "reachable sample_server_env (opened_system (Poll_Loop 0) waiting_server)"
    by (rule step [OF b]) (simp add: opened_steps(2))
  then show ?thesis by (rule step) (simp add: opened_steps(3))
qed


theorem one_listener_per_state_witness:
  "poll_at (opened_system (Poll_Wait 0 ''s1'') waiting_server) 0 \<noteq> Poll_Crashed"
  using one_listener_per_state [OF waiting_reachable, of 0 1 0 0] by blast

definition completed_server :: server where
  "completed_server = new_server (empty_database\<lparr>db_requests := [set_completed 210 ''eQQ'' sample_row]\<rparr>)"

lemma completed_fetch:
  "\<exists>r s1. poll_fetch sample_server_env sample_http_call ''s1'' 0 True completed_server
      = (Poll_Leave 0 (Reply_Json 200 r), s1)"
  by (simp add: poll_fetch_def on_db_def completed_server_def new_server_def get_and_delete_terminal_request_def Let_def
      go_bind_def db_stmt_no_fault empty_database_def sql_delete_def rows_where_def set_completed_def sample_row_def
      scan_first_def returned_terminal_def expirable_def scan_request_record_def sample_server_env_def sample_unmarshal_def)

theorem poll_answers_with_row_witness:
  "\<exists>r s1. poll_fetch sample_server_env sample_http_call ''s1'' 0 True completed_server
      = (Poll_Leave 0 (Reply_Json 200 r), s1) \<and> res_response_envelope r = sample_unmarshal ''eQQ''
      \<and> request_row_of ''s1'' (sv_db s1) = None"
proof -
  have k: "requests_keyed (sv_db completed_server)"
    by (simp add: requests.keyed_def completed_server_def new_server_def)
  have row: "request_row_of ''s1'' (sv_db completed_server) = Some (set_completed 210 ''eQQ'' sample_row)"
    by (simp add: request_row_of_def completed_server_def new_server_def set_completed_def sample_row_def)
  obtain r s1 where f: "poll_fetch sample_server_env sample_http_call ''s1'' 0 True completed_server
      = (Poll_Leave 0 (Reply_Json 200 r), s1)" using completed_fetch by blast
  from poll_answers_with_row [OF k f] row
  have "res_response_envelope r = sample_unmarshal ''eQQ'' \<and> request_row_of ''s1'' (sv_db s1) = None"
    by (auto simp: set_completed_def sample_server_env_def)
  with f show ?thesis by blast
qed

end
