(* ===== verification/Api_Routes.thy ===== *)
theory Api_Routes
  imports Long_Poll
begin

text \<open>
  The browser side of the request flow (src/internal/server/routes-api.go): the list of
  pending requests and its stream, the detail of one request, and the confirmation or
  cancellation of a request, with the automatic store of a signing key; and the audit
  listing (routes-audit.go).

  A JSON body is given parsed, \<open>None\<close> when parsing fails.  The public key in a
  confirmation is the pair of its raw JWK and its PEM.
\<close>

definition unauthenticated :: go_error where
  "unauthenticated = Err_Response 401 ''Unauthenticated''"

definition require_session :: "http_call \<Rightarrow> go_error \<Rightarrow> ('s, unit) go" where
  "require_session c e = go_require (hc_session_user c \<noteq> []) e"

section \<open>Reading requests\<close>

definition nd_json_content_type :: string where
  "nd_json_content_type = ''application/x-ndjson''"

definition wants_stream :: "string \<Rightarrow> bool" where
  "wants_stream accept \<longleftrightarrow> go_to_lower accept = nd_json_content_type"

definition route_api_list :: "http_call \<Rightarrow> request_list_item list sv_op" where
  "route_api_list c =
    go_bind (require_session c unauthenticated) (\<lambda>_. on_db (list_pending (hc_clock c 0) (hc_session_user c)))"

record request_detail_response =
  rd_state :: string
  rd_status :: request_status
  rd_operation :: string
  rd_user_id :: string
  rd_key_label :: string
  rd_algorithm :: string
  rd_requestor :: string
  rd_date :: int
  rd_expiry :: int
  rd_note :: string
  rd_encrypted_request :: "string option"

definition request_detail_of :: "request_record \<Rightarrow> request_detail_response" where
  "request_detail_of rec =
    \<lparr>rd_state = req_state rec, rd_status = req_status rec, rd_operation = req_operation rec, rd_user_id = req_user_id rec,
     rd_key_label = req_key_label rec, rd_algorithm = req_algorithm rec, rd_requestor = req_requestor_ip rec,
     rd_date = unix_seconds (req_created_at rec), rd_expiry = unix_seconds (req_expires_at rec), rd_note = req_note rec,
     rd_encrypted_request = (if req_encrypted_request rec = [] then None else Some (req_encrypted_request rec))\<rparr>"

definition route_api_request_get :: "('ek, 'mk) server_env \<Rightarrow> http_call \<Rightarrow> string \<Rightarrow> request_detail_response sv_op" where
  "route_api_request_get env c st =
    go_bind (require_session c unauthenticated) (\<lambda>_.
    go_bind (on_db (get_request (se_unmarshal env) (hc_clock c 0) (hc_clock c 1) st)) (\<lambda>found. case found of
      None \<Rightarrow> go_fail (state_not_found 400)
    | Some rec \<Rightarrow> if hc_session_user c \<noteq> req_user_id rec then go_fail (state_not_found 400)
        else go_return (request_detail_of rec)))"

section \<open>Confirmation and cancellation\<close>

record confirm_request =
  cf_state :: string
  cf_confirm :: bool
  cf_cancel :: bool
  cf_response_envelope :: "response_envelope option"
  cf_public_key :: "(string \<times> string) option"

datatype confirm_response = Canceled | Confirmed

definition conflict_if_not_modifiable :: "string \<Rightarrow> go_error \<Rightarrow> go_error" where
  "conflict_if_not_modifiable message e = (if e = Err_Request_Not_Modifiable then Err_Response 409 message else e)"

definition confirm_audit ::
  "('ek, 'mk) server_env \<Rightarrow> http_call \<Rightarrow> string \<Rightarrow> string \<Rightarrow> request_record \<Rightarrow> unit db_op" where
  "confirm_audit env c event st rec =
    audit_event_tx (se_json_valid env) (hc_audit_id c) (hc_clock c 1) (hc_audit_context c)
      (no_fields\<lparr>fl_event_type := event, fl_outcome := ''success'', fl_auth_method := ''session'',
         fl_actor_user_id := hc_session_user c, fl_target_user_id := req_user_id rec, fl_request_state := st,
         fl_metadata := request_audit_metadata (se_json_object env) (req_operation rec) (req_algorithm rec)
           (req_key_label rec) (req_note rec)\<rparr>)"

definition cancel_in_transaction :: "('ek, 'mk) server_env \<Rightarrow> http_call \<Rightarrow> string \<Rightarrow> request_record db_op" where
  "cancel_in_transaction env c st =
    go_bind (cancel_request (se_unmarshal env) (hc_clock c 0) st (hc_session_user c)) (\<lambda>rec.
    go_bind (confirm_audit env c ''request.cancel'' st rec) (\<lambda>_. go_return rec))"

definition confirm_in_transaction ::
  "('ek, 'mk) server_env \<Rightarrow> http_call \<Rightarrow> string \<Rightarrow> response_envelope \<Rightarrow> request_record db_op" where
  "confirm_in_transaction env c st envelope =
    go_bind (complete_request (se_marshal env) (se_unmarshal env) (hc_clock c 0) st (hc_session_user c) envelope) (\<lambda>rec.
    go_bind (confirm_audit env c ''request.confirm'' st rec) (\<lambda>_. go_return rec))"

text \<open>The automatic store of the key of a signature: its failures are logged only.\<close>

definition auto_store_signing_key ::
  "('ek, 'mk) server_env \<Rightarrow> http_call \<Rightarrow> request_record \<Rightarrow> string \<times> string \<Rightarrow> unit db_op" where
  "auto_store_signing_key env c rec pub =
    (case validate_signing_jwk_and_pem (se_codec env) (cr_sha256 (se_crypto env)) (req_algorithm rec) (fst pub) (snd pub) of
       Inl _ \<Rightarrow> go_return ()
     | Inr (kid, canonical) \<Rightarrow>
        go_bind (go_try (auto_store_unpublished (hc_clock c 2)
          \<lparr>ki_id = kid, ki_user_id = req_user_id rec, ki_algorithm = req_algorithm rec, ki_key_label = req_key_label rec,
           ki_jwk = canonical, ki_pem = snd pub, ki_published = False, ki_publication_payload = [],
           ki_publication_signature_es384 = [], ki_publication_signature_mldsa87 = []\<rparr>)) (\<lambda>stored. case stored of
          Inl _ \<Rightarrow> go_return ()
        | Inr inserted \<Rightarrow>
            audit_event (se_json_valid env) (hc_second_audit_id c) (hc_clock c 3) (hc_audit_context c)
              (no_fields\<lparr>fl_event_type := ''signing_key.auto_store'', fl_outcome := ''success'', fl_auth_method := ''session'',
                 fl_actor_user_id := req_user_id rec, fl_signing_key_id := sk_id inserted,
                 fl_request_state := req_state rec,
                 fl_metadata := se_json_object env [(''algorithm'', Js_String (req_algorithm rec)),
                   (''keyLabel'', Js_String (req_key_label rec))]\<rparr>)))"

text \<open>What follows a committed transition: the expiry timer, the waiting poll, the list streams.\<close>

definition settle_request :: "string \<Rightarrow> string \<Rightarrow> unit sv_op" where
  "settle_request st uid =
    go_bind (dequeue_expiry st) (\<lambda>_.
    go_bind (notify_subscriber st) (\<lambda>_.
    publish_list_item (removed_item st uid)))"

definition route_api_confirm ::
  "('ek, 'mk) server_env \<Rightarrow> http_call \<Rightarrow> confirm_request option \<Rightarrow> confirm_response sv_op" where
  "route_api_confirm env c body =
    go_bind (require_session c no_session_response_error) (\<lambda>_.
    case body of None \<Rightarrow> go_fail (bad_request ''Invalid request body'') | Some req \<Rightarrow>
    go_bind (go_require (cf_state req \<noteq> []) (bad_request ''Missing state in request body'')) (\<lambda>_.
    go_bind (go_require (cf_confirm req \<noteq> cf_cancel req) (bad_request ''One and only one must be set'')) (\<lambda>_.
    if cf_cancel req then
      go_bind (map_error (conflict_if_not_modifiable ''Request cannot be canceled'')
        (on_db (db_transaction (cancel_in_transaction env c (cf_state req))))) (\<lambda>rec.
      go_bind (settle_request (cf_state req) (req_user_id rec)) (\<lambda>_. go_return Canceled))
    else case cf_response_envelope req of
      None \<Rightarrow> go_fail (bad_request ''Missing responseEnvelope'')
    | Some envelope \<Rightarrow>
      go_bind (map_error (\<lambda>_. bad_request ''Invalid responseEnvelope'') (go_lift (validate_response_envelope envelope))) (\<lambda>_.
      go_bind (map_error (conflict_if_not_modifiable ''Request cannot be confirmed'')
        (on_db (db_transaction (confirm_in_transaction env c (cf_state req) envelope)))) (\<lambda>rec.
      go_bind (case cf_public_key req of
          Some pub \<Rightarrow> go_when (req_operation rec = ''sign'') (on_db (auto_store_signing_key env c rec pub))
        | None \<Rightarrow> go_return ()) (\<lambda>_.
      go_bind (settle_request (cf_state req) (req_user_id rec)) (\<lambda>_. go_return Confirmed)))))))"

section \<open>The list stream\<close>

text \<open>
  The stream of one browser: its user, the states it has shown and not removed (\<open>seen\<close>) and
  the lines written so far.  Flushing only moves bytes and is left out.
\<close>

datatype stream_line = Line_Item request_list_item | Line_Empty

record list_stream =
  ls_user :: string
  ls_events :: nat
  ls_seen :: "string set"
  ls_written :: "stream_line list"

definition on_pubsub :: "(request_list_item broker, 'a) go \<Rightarrow> 'a sv_op" where
  "on_pubsub m s = (case m (sv_pubsub s) of (r, b) \<Rightarrow> (r, s\<lparr>sv_pubsub := b\<rparr>))"

definition opened_stream :: "string \<Rightarrow> nat \<Rightarrow> request_list_item list \<Rightarrow> list_stream" where
  "opened_stream uid events items =
    \<lparr>ls_user = uid, ls_events = events, ls_seen = li_state ` set items,
     ls_written = (if items \<noteq> [] then map Line_Item items else [Line_Empty])\<rparr>"

text \<open>Up to the loop: the subscription is taken before the list is read, and given back when that fails.\<close>

definition stream_open :: "http_call \<Rightarrow> int \<Rightarrow> list_stream sv_op" where
  "stream_open c session_ttl =
    go_bind (require_session c unauthenticated) (\<lambda>_.
    go_bind (go_require (session_ttl > 0) (Err_Response 401 ''Session expired'')) (\<lambda>_.
    go_bind (on_pubsub broker_subscribe) (\<lambda>events.
    go_bind (go_try (on_db (list_pending (hc_clock c 0) (hc_session_user c)))) (\<lambda>listed. case listed of
      Inl e \<Rightarrow> go_bind (on_pubsub (broker_unsubscribe events)) (\<lambda>_. go_fail e)
    | Inr items \<Rightarrow> go_return (opened_stream (hc_session_user c) events items)))))"

definition stream_message :: "request_list_item \<Rightarrow> list_stream \<Rightarrow> list_stream" where
  "stream_message msg l =
    (if li_user_id msg = [] \<or> li_user_id msg \<noteq> ls_user l then l
     else if li_state msg \<in> ls_seen l \<and> li_status msg \<noteq> ''removed'' then l
     else l\<lparr>ls_seen := (if li_status msg = ''removed'' then insert (li_state msg) (ls_seen l) - {li_state msg}
               else insert (li_state msg) (ls_seen l)),
            ls_written := ls_written l @ [Line_Item msg]\<rparr>)"

text \<open>A turn of the loop that reads the subscription: \<open>None\<close> while it blocks; the flag says whether the loop goes on.\<close>

definition stream_receive :: "list_stream \<Rightarrow> server \<Rightarrow> (bool \<times> list_stream \<times> server) option" where
  "stream_receive l s = (case broker_receive (ls_events l) (sv_pubsub s) of
      None \<Rightarrow> None
    | Some (None, b) \<Rightarrow> Some (False, l, s)
    | Some (Some msg, b) \<Rightarrow> Some (True, stream_message msg l, s\<lparr>sv_pubsub := b\<rparr>))"

definition stream_close :: "list_stream \<Rightarrow> unit sv_op" where
  "stream_close l = on_pubsub (broker_unsubscribe (ls_events l))"

section \<open>The audit listing\<close>

definition invalid_cursor_error :: "go_error \<Rightarrow> go_error" where
  "invalid_cursor_error e = (if e = Err_Audit_Invalid_Cursor then bad_request ''invalid cursor'' else e)"

text \<open>The response repeats the columns of the rows.\<close>

definition route_api_audit_events ::
  "(string \<Rightarrow> nat list option) \<Rightarrow> http_call \<Rightarrow> string \<Rightarrow> string \<Rightarrow> (audit_row list \<times> string) sv_op" where
  "route_api_audit_events uuid_parse c event_type cursor =
    go_bind (require_session c unauthenticated) (\<lambda>_.
    go_bind (go_require (event_type = [] \<or> valid_event_type event_type) (bad_request ''invalid eventType'')) (\<lambda>_.
    map_error invalid_cursor_error (on_db (audit_list uuid_parse
      \<lparr>af_user_id = hc_session_user c, af_system = False, af_event_type = event_type, af_since_unix = 0, af_until_unix = 0\<rparr>
      50 cursor))))"

end
