(* ===== verification/Creation_Properties.thy ===== *)
theory Creation_Properties
  imports Long_Poll
begin

text \<open>
  What the creation of a request guarantees of the row it stores (routes-request.go and the
  validators of internal/protocolv2/types.go): canonical label and algorithm, bounded note,
  bounded life time.
\<close>

section \<open>A successful creation\<close>

lemma create_ok:
  assumes "route_request_create env operation c parsed s = (Inr r, s1)" and "hc_request_user c = Some user"
  obtains body0 body timeout enc d s2 where "parsed = Some body0" "validate_v2_create_body operation body0 = Inr body"
    "request_timeout env body = Inr timeout" "se_marshal_request env (enc_envelope_of body) = Inr enc"
    "db_transaction (create_request_tx env c (create_input_of operation c user body (hc_clock c 0) timeout enc)) (sv_db s) = (Inr (), d)"
    "sv_db s2 = d" "sv_pubsub s2 = sv_pubsub s"
    "publish_list_item (pending_item_of (create_input_of operation c user body (hc_clock c 0) timeout enc)) s2 = (Inr (), s1)"
    "crr_state r = hc_uuid c"
proof -
  obtain body0 where body0: "parsed = Some body0"
    using assms by (auto simp: route_request_create_def required_user_def go_bind_def split: option.splits)
  obtain body timeout enc s2 s3 where p: "validate_v2_create_body operation body0 = Inr body"
    "request_timeout env body = Inr timeout" "se_marshal_request env (enc_envelope_of body) = Inr enc"
    and t: "on_db (db_transaction (create_request_tx env c (create_input_of operation c user body (hc_clock c 0) timeout enc))) s = (Inr (), s2)"
    and q: "enqueue_expiry \<lparr>xe_state = hc_uuid c, xe_user_id = usr_id user, xe_ttl = hc_clock c 0 + int64 (timeout + seconds 5)\<rparr> s2 = (Inr (), s3)"
    and pub: "publish_list_item (pending_item_of (create_input_of operation c user body (hc_clock c 0) timeout enc)) s3 = (Inr (), s1)"
    and r: "crr_state r = hc_uuid c"
    using assms body0
    by (auto simp: route_request_create_def required_user_def map_error_ok Let_def elim!: go_bind_okE)
  have "sv_db s3 = sv_db s2 \<and> sv_pubsub s3 = sv_pubsub s2"
    using q by (auto simp: enqueue_expiry_def queue_call_def go_bind_def split: list.splits)
  moreover obtain d where "db_transaction (create_request_tx env c (create_input_of operation c user body (hc_clock c 0) timeout enc)) (sv_db s) = (Inr (), d)"
    "s2 = s\<lparr>sv_db := d\<rparr>" using t by (auto simp: on_db_def split: prod.splits)
  ultimately show ?thesis using that [OF body0 p _ _ _ pub r] by simp
qed

text \<open>Audit rows leave the requests alone.\<close>

lemma keeps_requests_stmt:
  assumes "\<And>s :: database. db_requests (snd (m s)) = db_requests s"
  shows "keeps (\<lambda>s :: database. P (db_requests s)) (db_stmt m)"
  by (intro keeps_intros) (simp add: keeps_def assms)

lemma keeps_requests_audit [keeps_intros]:
  "keeps (\<lambda>s :: database. P (db_requests s)) (audit_insert jv aid now d)"
  unfolding audit_insert_def
  by (intro keeps_bind keeps_lift keeps_return keeps_requests_stmt) (simp add: sql_insert_def)

lemma requests_unchanged:
  assumes "\<And>P. keeps (\<lambda>s :: database. P (db_requests s)) m"
  shows "db_requests (snd (m s)) = db_requests s"
  using keepsD [OF assms, of "\<lambda>t. t = db_requests s"] by simp

lemma audit_tx_requests: "audit_event_tx jv aid now ac fl s = (r, s1) \<Longrightarrow> db_requests s1 = db_requests s"
  using requests_unchanged [of "audit_event_tx jv aid now ac fl" s]
  by (simp add: audit_event_tx_def keeps_bind keeps_return keeps_requests_audit)

text \<open>A validated body.\<close>

lemma validate_create_body_ok:
  assumes "validate_v2_create_body operation body0 = Inr body"
  shows "operation \<in> {''encrypt'', ''decrypt'', ''sign''} \<and> canonical_label (body_key_label body)
    \<and> (if operation = ''sign'' then body_algorithm body \<in> {''ES256'', ''Ed25519'', ''Ed25519ph''}
       else is_supported_encryption_algorithm (body_algorithm body))
    \<and> length (body_note body) \<le> max_note_length \<and> list_all note_char (body_note body)
    \<and> body_timeout body = body_timeout body0"
proof -
  obtain label alg mlkem nonce payload where op: "operation \<in> set [''encrypt'', ''decrypt'', ''sign'']"
    and l: "normalize_and_validate_key_label (body_key_label body0) = Some label"
    and a: "(if operation = ''sign'' then normalize_signing_algorithm (body_algorithm body0) else Some (body_algorithm body0)) = Some alg"
    and e: "\<not> ((operation = ''encrypt'' \<or> operation = ''decrypt'') \<and> \<not> is_supported_encryption_algorithm alg)"
    and n: "\<not> (body_note body0 \<noteq> [] \<and> \<not> validate_note (body_note body0))" "\<not> length (body_note body0) > max_note_length"
    and body: "body = body0\<lparr>body_key_label := label, body_algorithm := alg, body_mlkem_ciphertext := mlkem,
                              body_encrypted_payload_nonce := nonce, body_encrypted_payload := payload\<rparr>"
    using assms unfolding validate_v2_create_body_def checks_passed not_not by blast
  have "canonical_label label" using l by (rule normalize_label_canonical)
  moreover have "list_all note_char (body_note body0)" using n(1) by (auto simp: validate_note_def)
  ultimately show ?thesis
    using op a e n(2) normalize_signing_algorithm_cases [of "body_algorithm body0" alg] by (auto simp: body split: if_splits)
qed

lemma request_timeout_bound:
  "request_timeout env body = Inr t \<Longrightarrow> t \<le> max (hours 24) (se_request_timeout env)"
  by (auto simp: request_timeout_def Let_def split: if_splits)

lemma expiry_bound:
  assumes "t \<le> seconds n"
  shows "unix_seconds (now + t) \<le> unix_seconds now + n"
proof -
  have "(now + t) div nanos_per_second \<le> (now + n * nanos_per_second) div nanos_per_second"
    using assms by (intro zdiv_mono1) (simp_all add: seconds_def nanos_per_second_def)
  then show ?thesis by (simp add: unix_seconds_def nanos_per_second_def)
qed

text \<open>C15: Whatever a client sends, the only row a successful creation adds is a fresh pending request of the
  authenticated user with a canonical key label, a supported algorithm for its operation, a note of at most
  80 harmless characters, and an expiry at most 24 hours (or the configured default, when that is longer,
  \<open>limit\<close> seconds here) after its creation; the life time is not bounded below.\<close>

theorem created_request_bounds:
  assumes "route_request_create env operation c parsed s = (Inr r, s1)" and "hc_request_user c = Some user"
    and "se_request_timeout env \<le> seconds limit" and "86400 \<le> limit"
  shows "\<exists>row. db_requests (sv_db s1) = db_requests (sv_db s) @ [row] \<and> rr_state row = crr_state r
    \<and> rr_state row \<notin> rr_state ` set (db_requests (sv_db s))
    \<and> rr_user_id row = usr_id user \<and> rr_status row = Status_Pending \<and> rr_operation row = operation
    \<and> operation \<in> {''encrypt'', ''decrypt'', ''sign''} \<and> canonical_label (rr_key_label row)
    \<and> (if operation = ''sign'' then rr_algorithm row \<in> {''ES256'', ''Ed25519'', ''Ed25519ph''}
       else is_supported_encryption_algorithm (rr_algorithm row))
    \<and> length (rr_note row) \<le> 80 \<and> list_all note_char (rr_note row)
    \<and> rr_expires_at row \<le> rr_created_at row + limit"
proof -
  obtain body0 body timeout enc d s2 where b: "validate_v2_create_body operation body0 = Inr body"
    and t: "request_timeout env body = Inr timeout"
    and tx: "db_transaction (create_request_tx env c (create_input_of operation c user body (hc_clock c 0) timeout enc)) (sv_db s) = (Inr (), d)"
    and s2: "sv_db s2 = d" and r: "crr_state r = hc_uuid c"
    and p: "publish_list_item (pending_item_of (create_input_of operation c user body (hc_clock c 0) timeout enc)) s2 = (Inr (), s1)"
    by (rule create_ok [OF assms(1,2)])
  let ?inp = "create_input_of operation c user body (hc_clock c 0) timeout enc"
  have s1: "sv_db s1 = d" using p s2 by (auto simp: publish_list_item_def split: prod.splits)
  obtain fs s3 where m: "create_request_tx env c ?inp ((sv_db s)\<lparr>conn_faults := fs, conn_in_tx := True\<rparr>) = (Inr (), s3)"
    and same: "same_tables s3 d" using tx by (rule db_transaction_ok)
  obtain s4 where cr: "create_request ?inp ((sv_db s)\<lparr>conn_faults := fs, conn_in_tx := True\<rparr>) = (Inr (), s4)"
    and au: "db_requests s3 = db_requests s4"
    using m by (auto simp: create_request_tx_def elim!: go_bind_okE dest!: audit_tx_requests)
  have rows: "db_requests d = db_requests (sv_db s) @ [row_of_input ?inp]" "hc_uuid c \<notin> rr_state ` set (db_requests (sv_db s))"
    using create_request_requests [OF cr] au same_tables_eqs(5) [OF same] by (auto simp: create_input_of_def)
  have "timeout \<le> seconds limit"
    using request_timeout_bound [OF t] assms(3,4) by (simp add: seconds_def nanos_per_second_def)
  then have "unix_seconds (hc_clock c 0 + timeout) \<le> unix_seconds (hc_clock c 0) + limit" by (rule expiry_bound)
  with validate_create_body_ok [OF b] rows r s1 show ?thesis
    by (auto simp: row_of_input_def create_input_of_def max_note_length_def)
qed

section \<open>The life time is not bounded below\<close>

text \<open>
  \<open>GetTimeout\<close> multiplies the number of seconds by a billion in 64 bits, so that a request for
  9223372037 seconds gets a negative life time instead of a refusal.
\<close>

lemma timeout_overflow:
  assumes "body_timeout body = format_int 9223372037"
  shows "\<exists>t. request_timeout env body = Inr t \<and> t < 0"
proof -
  have "parse_int (format_int 9223372037) = Some 9223372037" by (rule parse_format_int) (simp add: in_int64_def)
  moreover have "int64 (9223372037 * nanos_per_second) < 0" by (simp add: int64_def nanos_per_second_def)
  moreover have "format_int 9223372037 \<noteq> []" using decimal_hd by (simp add: format_int_def)
  ultimately show ?thesis
    using assms by (simp add: request_timeout_def get_timeout_def Let_def seconds_def nanos_per_second_def)
qed

section \<open>Example\<close>

definition sample_body :: request_create_body where
  "sample_body = \<lparr>body_key_label = ''Disk'', body_algorithm = ''es256'', body_timeout = [], body_note = ''boot'',
     body_request_enc_alg = transport_alg, body_cli_ephemeral_public_key = sample_jwk, body_mlkem_ciphertext = ''QQ'',
     body_encrypted_payload_nonce = ''QQ'', body_encrypted_payload = ''QQ''\<rparr>"

definition streaming_server :: server where
  "streaming_server = (new_server sample_key_db)\<lparr>sv_pubsub := \<lparr>br_subscribers = [0], br_stopped = False, br_chans = [make_chan 8]\<rparr>\<rparr>"

lemma sample_created:
  "fst (route_request_create sample_server_env ''sign'' sample_http_call (Some sample_body) streaming_server)
     = Inr \<lparr>crr_state = ''s2'', crr_pending = True\<rparr>"
  by code_simp

theorem created_request_bounds_witness:
  "\<exists>s1 row. route_request_create sample_server_env ''sign'' sample_http_call (Some sample_body) streaming_server
      = (Inr \<lparr>crr_state = ''s2'', crr_pending = True\<rparr>, s1)
    \<and> db_requests (sv_db s1) = [row] \<and> rr_state row = ''s2'' \<and> rr_expires_at row \<le> rr_created_at row + 86400"
proof -
  obtain s1 where h: "route_request_create sample_server_env ''sign'' sample_http_call (Some sample_body) streaming_server
      = (Inr \<lparr>crr_state = ''s2'', crr_pending = True\<rparr>, s1)" using sample_created by (metis prod.collapse)
  have "hc_request_user sample_http_call = Some (user_of_row (hd (db_users sample_key_db)))" by (simp add: sample_http_call_def)
  moreover have "se_request_timeout sample_server_env \<le> seconds 86400"
    by (simp add: sample_server_env_def seconds_def nanos_per_second_def)
  moreover have "db_requests (sv_db streaming_server) = []"
    by (simp add: streaming_server_def new_server_def sample_key_db_def empty_database_def)
  ultimately show ?thesis
    using created_request_bounds [OF h, of _ 86400] h by auto
qed

end
