(* ===== verification/Api_Properties.thy ===== *)
theory Api_Properties
  imports Api_Routes Creation_Properties
begin

text \<open>
  What confirmations, cancellations and list streams guarantee: the row a confirmation leaves
  reaches the poll that waits for it, a refused call changes nothing, a stream shows a user
  the pending requests of that user and no others.
\<close>

section \<open>The statement behind a transition\<close>

definition modify_returning ::
  "(string \<Rightarrow> response_envelope option) \<Rightarrow> (request_row \<Rightarrow> bool) \<Rightarrow> (request_row \<Rightarrow> request_row) \<Rightarrow> request_record db_op" where
  "modify_returning jd P f =
    go_bind (db_stmt (sql_update db_requests put_requests P f))
      (\<lambda>rs. go_bind (go_lift (scan_first (scan_request_record jd) rs)) (\<lambda>rec. go_lift (not_modifiable_if_none rec)))"

lemma modify_returning_ok:
  assumes k: "requests_keyed s" and m: "modify_returning jd P f s = (Inr rec, s1)"
    and P: "\<And>r. P r \<Longrightarrow> rr_state r = st" and f: "\<And>r. rr_state (f r) = rr_state r"
  obtains row where "request_row_of st s = Some row" "P row" "scan_request_record jd (f row) = Inr rec"
    "request_row_of st s1 = Some (f row)" "db_requests s1 = update_rows P f (db_requests s)"
proof -
  from m obtain rs s2 where u: "db_stmt (sql_update db_requests put_requests P f) s = (Inr rs, s2)"
    and z: "scan_first (scan_request_record jd) rs = Inr (Some rec)" "s1 = s2"
    by (auto simp: modify_returning_def not_modifiable_if_none_def elim!: go_bind_okE split: option.splits)
  then obtain fs where u': "sql_update db_requests put_requests P f (s\<lparr>conn_faults := fs\<rparr>) = (Inr rs, s2)"
    using db_stmt_effect [OF u] by auto
  have k': "requests_keyed (s\<lparr>conn_faults := fs\<rparr>)" using k by (simp add: requests.keyed_def)
  obtain r rest where rs: "rs = r # rest" "scan_request_record jd r = Inr rec"
    using scan_first_Some [OF z(1)] by auto
  obtain row where row: "row_of rr_state st (db_requests s) = Some row" and "P row" and "r = f row"
    and "s2 = put_requests (update_rows P f (db_requests s)) (s\<lparr>conn_faults := fs\<rparr>)"
    using u' rs(1) requests.update_by_key [OF k', of P st f] P by (auto split: option.splits if_splits)
  then show ?thesis
    using that rs(2) z(2) f by (simp add: request_row_of_def row_of_update)
qed

lemma complete_request_modify:
  "complete_request je jd now st uid e = go_bind (go_lift (je e))
     (\<lambda>js. modify_returning jd (completable st uid (unix_seconds now)) (set_completed (unix_seconds now) js))"
  by (simp add: complete_request_def modify_returning_def Let_def)

lemma cancel_request_modify:
  "cancel_request jd now st uid
     = modify_returning jd (cancelable st uid) (set_canceled (unix_seconds now))"
  by (simp add: cancel_request_def modify_returning_def Let_def)

lemma complete_request_ok:
  assumes "requests_keyed s" and "complete_request je jd now st uid e s = (Inr rec, s1)"
  obtains row js where "je e = Inr js" "request_row_of st s = Some row" "completable st uid (unix_seconds now) row"
    "scan_request_record jd (set_completed (unix_seconds now) js row) = Inr rec"
    "request_row_of st s1 = Some (set_completed (unix_seconds now) js row)"
proof -
  obtain js where js: "je e = Inr js"
    "modify_returning jd (completable st uid (unix_seconds now)) (set_completed (unix_seconds now) js) s = (Inr rec, s1)"
    using assms(2) by (auto simp: complete_request_modify elim!: go_bind_okE)
  show ?thesis
    by (rule modify_returning_ok [OF assms(1) js(2), of st]) (use js(1) that in \<open>auto simp: completable_def\<close>)
qed

lemma cancel_request_ok:
  assumes "requests_keyed s" and "cancel_request jd now st uid s = (Inr rec, s1)"
  obtains row where "request_row_of st s = Some row" "cancelable st uid row"
    "scan_request_record jd (set_canceled (unix_seconds now) row) = Inr rec"
    "request_row_of st s1 = Some (set_canceled (unix_seconds now) row)"
  by (rule modify_returning_ok [OF assms(1) assms(2) [unfolded cancel_request_modify], of st])
    (use that in \<open>auto simp: cancelable_def\<close>)

lemma keeps_requests_confirm_audit [keeps_intros]:
  "keeps (\<lambda>s :: database. P (db_requests s)) (confirm_audit env c event st rec)"
  unfolding confirm_audit_def audit_event_tx_def by (intro keeps_intros)

lemma insert_key_row_requests: "db_requests (snd (insert_key_row r s)) = db_requests s"
proof (cases rule: go_bind_cases [of "require_user (sk_user_id r)" s])
  fix e s1
  assume "require_user (sk_user_id r) s = (Inl e, s1)"
  then show ?thesis
    using require_user_state [of "sk_user_id r" s] by (simp add: insert_key_row_def go_bind_def)
next
  fix x s1
  assume "require_user (sk_user_id r) s = (Inr x, s1)"
  then show ?thesis
    using require_user_state [of "sk_user_id r" s] by (simp add: insert_key_row_def go_bind_def sql_insert_def)
qed

lemma keeps_requests_auto_store_unpublished:
  "keeps (\<lambda>s :: database. P (db_requests s)) (auto_store_unpublished now i)"
  unfolding auto_store_unpublished_def
  by (intro keeps_if keeps_fail keeps_bind keeps_lift keeps_requests_stmt)
    (simp add: auto_store_stmt_def sql_update_def insert_key_row_requests)

lemma keeps_requests_auto_store [keeps_intros]:
  "keeps (\<lambda>s :: database. P (db_requests s)) (auto_store_signing_key env c rec pub)"
proof -
  define I where "I = (\<lambda>s :: database. P (db_requests s))"
  have store: "keeps I (auto_store_unpublished now i)" for now i
    unfolding I_def by (rule keeps_requests_auto_store_unpublished)
  have audit: "keeps I (audit_insert jv aid now d)" for jv aid now d
    unfolding I_def by (rule keeps_requests_audit)
  have "keeps I (auto_store_signing_key env c rec pub)"
    unfolding auto_store_signing_key_def audit_event_def
    by (intro keeps_case_sum keeps_case_prod keeps_bind keeps_try keeps_return store audit)
  then show ?thesis by (simp add: I_def)
qed

lemma same_tables_requests: "same_tables s (s1 :: database) \<Longrightarrow> db_requests s1 = db_requests s"
  by (rule same_tables_eqs(5))

text \<open>The two transactions: what the row was, and what it is now.\<close>

lemma audited_transaction_ok:
  assumes "db_transaction (go_bind m (\<lambda>rec. go_bind (confirm_audit env c event st rec) (\<lambda>_. go_return rec))) s = (Inr rec, s1)"
  obtains fs s2 where "m (s\<lparr>conn_faults := fs, conn_in_tx := True\<rparr>) = (Inr rec, s2)" "db_requests s1 = db_requests s2"
proof -
  obtain fs s3 where t: "go_bind m (\<lambda>rec. go_bind (confirm_audit env c event st rec) (\<lambda>_. go_return rec))
      (s\<lparr>conn_faults := fs, conn_in_tx := True\<rparr>) = (Inr rec, s3)" and same: "same_tables s3 s1"
    using assms by (rule db_transaction_ok)
  obtain r s2 where m: "m (s\<lparr>conn_faults := fs, conn_in_tx := True\<rparr>) = (Inr r, s2)"
    and b: "go_bind (confirm_audit env c event st r) (\<lambda>_. go_return r) s2 = (Inr rec, s3)"
    using t by (rule go_bind_okE)
  obtain u where a: "confirm_audit env c event st r s2 = (Inr u, s3)" "r = rec"
    using b by (auto elim!: go_bind_okE)
  have "db_requests s3 = db_requests s2"
    using requests_unchanged [OF keeps_requests_confirm_audit, of env c event st r s2] a by simp
  then show ?thesis using that m a(2) same_tables_requests [OF same] by simp
qed

lemma requests_keyed_conn [simp]: "requests_keyed (s\<lparr>conn_faults := fs, conn_in_tx := b\<rparr>) = requests_keyed s"
  by (simp add: requests.keyed_def)

lemma request_row_of_conn [simp]: "request_row_of st (s\<lparr>conn_faults := fs, conn_in_tx := b\<rparr>) = request_row_of st s"
  by (simp add: request_row_of_def)

lemma confirm_transaction_ok:
  assumes k: "requests_keyed s" and t: "db_transaction (confirm_in_transaction env c st e) s = (Inr rec, s1)"
  obtains row js where "se_marshal env e = Inr js" "request_row_of st s = Some row"
    "completable st (hc_session_user c) (unix_seconds (hc_clock c 0)) row"
    "scan_request_record (se_unmarshal env) (set_completed (unix_seconds (hc_clock c 0)) js row) = Inr rec"
    "request_row_of st s1 = Some (set_completed (unix_seconds (hc_clock c 0)) js row)" "requests_keyed s1"
proof -
  obtain fs s2 where m: "complete_request (se_marshal env) (se_unmarshal env) (hc_clock c 0) st (hc_session_user c) e
      (s\<lparr>conn_faults := fs, conn_in_tx := True\<rparr>) = (Inr rec, s2)" and eq: "db_requests s1 = db_requests s2"
    using t unfolding confirm_in_transaction_def by (rule audited_transaction_ok)
  have k1: "requests_keyed (s\<lparr>conn_faults := fs, conn_in_tx := True\<rparr>)" using k by simp
  have k2: "requests_keyed s2"
    using run_call_keyed [OF k1, of "se_marshal env" "se_unmarshal env" "Call_Complete (hc_clock c 0) st (hc_session_user c) e"] m
    by (simp add: run_call_def)
  show ?thesis
    by (rule complete_request_ok [OF k1 m])
      (use that k2 eq in \<open>auto simp: request_row_of_def requests.keyed_def\<close>)
qed

lemma cancel_transaction_ok:
  assumes k: "requests_keyed s" and t: "db_transaction (cancel_in_transaction env c st) s = (Inr rec, s1)"
  obtains row where "request_row_of st s = Some row" "cancelable st (hc_session_user c) row"
    "request_row_of st s1 = Some (set_canceled (unix_seconds (hc_clock c 0)) row)"
proof -
  obtain fs s2 where m: "cancel_request (se_unmarshal env) (hc_clock c 0) st (hc_session_user c)
      (s\<lparr>conn_faults := fs, conn_in_tx := True\<rparr>) = (Inr rec, s2)" and eq: "db_requests s1 = db_requests s2"
    using t unfolding cancel_in_transaction_def by (rule audited_transaction_ok)
  have k1: "requests_keyed (s\<lparr>conn_faults := fs, conn_in_tx := True\<rparr>)" using k by simp
  show ?thesis
    by (rule cancel_request_ok [OF k1 m]) (use that eq in \<open>auto simp: request_row_of_def\<close>)
qed

section \<open>The handler\<close>

lemma settle_request_ok:
  assumes "subs_ok s" and "settle_request st uid s = (Inr u, s1)"
  shows "sv_db s1 = sv_db s \<and> sv_subs s1 = (sv_subs s)(st := None)
    \<and> (\<forall>w. sv_subs s st = Some w \<longrightarrow> sv_chans s1 = (sv_chans s)[w := notified_chan (sv_chans s ! w)])"
proof -
  obtain x s2 s3 where d: "dequeue_expiry st s = (Inr x, s2)" and n: "notify_subscriber st s2 = (Inr (), s3)"
    and p: "publish_list_item (removed_item st uid) s3 = (Inr u, s1)"
    using assms(2) by (auto simp: settle_request_def elim!: go_bind_okE)
  have s2: "sv_db s2 = sv_db s" "sv_subs s2 = sv_subs s" "sv_chans s2 = sv_chans s"
    using d by (auto simp: dequeue_expiry_def queue_call_def go_bind_def split: list.splits if_splits)
  then have "subs_ok s2" using assms(1) by (simp add: subs_ok_def)
  from notify_subscriber_eq [OF this, of st] n s2
  have "sv_db s3 = sv_db s" "sv_subs s3 = (sv_subs s)(st := None)"
    "\<forall>w. sv_subs s st = Some w \<longrightarrow> sv_chans s3 = (sv_chans s)[w := notified_chan (sv_chans s ! w)]"
    by (auto split: option.splits)
  with p show ?thesis by (auto simp: publish_list_item_def split: prod.splits)
qed

lemma on_db_okE:
  assumes "on_db m s = (r, s1)"
  obtains d where "m (sv_db s) = (r, d)" "s1 = s\<lparr>sv_db := d\<rparr>"
  using assms by (auto simp: on_db_def split: prod.splits)

lemma auto_store_requests: "auto_store_signing_key env c rec pub s = (r, s1) \<Longrightarrow> db_requests s1 = db_requests s"
  using requests_unchanged [OF keeps_requests_auto_store, of env c rec pub s] by simp

text \<open>What a successful confirmation did.\<close>

lemma confirm_ok:
  assumes h: "route_api_confirm env c (Some req) s = (Inr Confirmed, s1)"
  obtains e rec d s2 u where "cf_response_envelope req = Some e"
    and "db_transaction (confirm_in_transaction env c (cf_state req) e) (sv_db s) = (Inr rec, d)"
    and "db_requests (sv_db s2) = db_requests d" "same_subs s s2"
    and "settle_request (cf_state req) (req_user_id rec) s2 = (Inr u, s1)"
proof -
  have nc: "\<not> cf_cancel req" using h by (auto simp: route_api_confirm_def elim!: go_bind_okE)
  obtain e where e: "cf_response_envelope req = Some e"
    using h nc by (auto simp: route_api_confirm_def elim!: go_bind_okE split: option.splits)
  obtain rec s3 s4 x u where t: "on_db (db_transaction (confirm_in_transaction env c (cf_state req) e)) s = (Inr rec, s3)"
    and a: "(case cf_public_key req of
          Some pub \<Rightarrow> go_when (req_operation rec = ''sign'') (on_db (auto_store_signing_key env c rec pub))
        | None \<Rightarrow> go_return ()) s3 = (Inr x, s4)"
    and st: "settle_request (cf_state req) (req_user_id rec) s4 = (Inr u, s1)"
    using h nc e
    by (auto simp: route_api_confirm_def require_session_def go_require_def map_error_ok elim!: go_bind_okE split: if_splits)
  obtain d where d: "db_transaction (confirm_in_transaction env c (cf_state req) e) (sv_db s) = (Inr rec, d)"
    "s3 = s\<lparr>sv_db := d\<rparr>" using t by (rule on_db_okE)
  have "same_subs s3 s4 \<and> db_requests (sv_db s4) = db_requests (sv_db s3)"
    using a
    by (auto dest: auto_store_requests simp: go_when_def on_db_def same_subs_refl same_subs_def split: option.splits prod.splits if_splits)
  then show ?thesis using that [OF e d(1) _ _ st] d(2) by (simp add: same_subs_def)
qed

section \<open>Refused and failed calls\<close>

text \<open>A publication on a sound broker succeeds.\<close>

lemma publish_list_item_ok:
  assumes "broker_ok (sv_pubsub s)"
  shows "\<exists>b. publish_list_item item s = (Inr (), s\<lparr>sv_pubsub := b\<rparr>)"
proof -
  from send_all_ok [OF broker_ok_open [OF assms], of item] obtain ds where
    "send_all item (br_subscribers (sv_pubsub s)) (br_chans (sv_pubsub s)) = Inr ds" by blast
  then show ?thesis
    by (cases "br_stopped (sv_pubsub s)") (auto simp: publish_list_item_def broker_publish_def intro: exI [of _ "sv_pubsub s"])
qed

lemma settle_request_fails:
  assumes "subs_ok s" and "broker_ok (sv_pubsub s)" and "settle_request st uid s = (Inl e, s1)"
  shows "\<exists>qs. sv_queue s = Queue_Error # qs"
proof (cases "dequeue_expiry st s")
  case (Pair r s2)
  show ?thesis
  proof (cases r)
    case (Inl e2)
    with Pair show ?thesis
      by (auto simp: dequeue_expiry_def queue_call_def go_bind_def queue_error_def split: list.splits if_splits queue_outcome.splits)
  next
    case (Inr x)
    note ok = Pair [unfolded Inr]
    then have s2: "sv_subs s2 = sv_subs s" "sv_chans s2 = sv_chans s" "sv_pubsub s2 = sv_pubsub s"
      by (auto simp: dequeue_expiry_def queue_call_def go_bind_def split: list.splits if_splits)
    then have "subs_ok s2" using assms(1) by (simp add: subs_ok_def)
    from notify_subscriber_eq [OF this, of st] obtain s3 where n: "notify_subscriber st s2 = (Inr (), s3)" "sv_pubsub s3 = sv_pubsub s"
      using s2 by (auto split: option.splits)
    from publish_list_item_ok [of s3 "removed_item st uid"] n assms(2) obtain b where
      "publish_list_item (removed_item st uid) s3 = (Inr (), s3\<lparr>sv_pubsub := b\<rparr>)" by auto
    with ok n(1) assms(3) have False by (simp add: settle_request_def go_bind_def)
    then show ?thesis ..
  qed
qed

lemma auto_store_returns: "fst (auto_store_signing_key env c rec pub s) = Inr ()"
  by (auto simp: auto_store_signing_key_def audit_event_def go_bind_def go_try_apply split: sum.splits prod.splits)

lemma auto_store_step:
  "\<exists>d. (case z of Some pub \<Rightarrow> go_when b (on_db (auto_store_signing_key env c rec pub)) | None \<Rightarrow> go_return ()) s
     = (Inr (), s\<lparr>sv_db := d\<rparr>)"
proof (cases "z \<noteq> None \<and> b")
  case True
  then obtain pub where z: "z = Some pub" b by auto
  have "auto_store_signing_key env c rec pub (sv_db s) = (Inr (), snd (auto_store_signing_key env c rec pub (sv_db s)))"
    using auto_store_returns by (metis prod.collapse)
  then have "on_db (auto_store_signing_key env c rec pub) s = (Inr (), s\<lparr>sv_db := snd (auto_store_signing_key env c rec pub (sv_db s))\<rparr>)"
    by (simp add: on_db_def split_beta auto_store_returns)
  with z show ?thesis by (auto simp: go_when_def)
next
  case False
  then have "(case z of Some pub \<Rightarrow> go_when b (on_db (auto_store_signing_key env c rec pub)) | None \<Rightarrow> go_return ()) s = (Inr (), s)"
    by (auto simp: go_when_def split: option.splits)
  then show ?thesis by (intro exI [of _ "sv_db s"]) simp
qed

text \<open>An outcome that is no error, or leaves everything but the connection as it was.\<close>

definition clean :: "server \<Rightarrow> 'a go_result \<times> server \<Rightarrow> bool" where
  "clean s z \<longleftrightarrow> (\<forall>e. fst z = Inl e \<longrightarrow> same_tables (sv_db s) (sv_db (snd z)) \<and> snd z = s\<lparr>sv_db := sv_db (snd z)\<rparr>)"

lemma clean_simps [simp]: "clean s (Inr x, s1)" "clean s (Inl e, s)"
  by (simp_all add: clean_def)

lemma clean_require: "(b \<Longrightarrow> clean s (k () s)) \<Longrightarrow> clean s (go_bind (go_require b e) k s)"
  by (simp add: go_require_def go_bind_def)

lemma clean_lift: "(\<And>x. clean s (k x s)) \<Longrightarrow> clean s (go_bind (map_error f (go_lift r)) k s)"
  by (simp add: map_error_def go_bind_def split: sum.splits)

lemma clean_transaction:
  assumes "\<And>x d. is_ok (fst (k x (s\<lparr>sv_db := d\<rparr>)))"
  shows "clean s (go_bind (map_error f (on_db (db_transaction m))) k s)"
  using assms
  by (auto simp: clean_def go_bind_def map_error_def on_db_def is_ok_def dest!: db_transaction_error split: prod.splits sum.splits)
    (metis fst_conv sum.simps(5))+

lemma is_ok_settle:
  assumes "subs_ok s" and "broker_ok (sv_pubsub s)" and "\<forall>qs. sv_queue s \<noteq> Queue_Error # qs"
  shows "is_ok (fst (go_bind (settle_request st uid) (\<lambda>_. go_return x) (s\<lparr>sv_db := d\<rparr>)))"
proof (cases "settle_request st uid (s\<lparr>sv_db := d\<rparr>)")
  case (Pair r s1)
  then show ?thesis
    using settle_request_fails [of "s\<lparr>sv_db := d\<rparr>" st uid _ s1] assms by (cases r) (auto simp: go_bind_def subs_ok_def)
qed

text \<open>C13: A confirmation or cancellation that answers with an error has changed no table, no subscription and no
  stream, whatever the body says and whatever statement failed; the one exception is an error of the
  expiry queue after the commit.\<close>

theorem confirm_all_or_nothing:
  assumes "subs_ok s" and "broker_ok (sv_pubsub s)" and "\<forall>qs. sv_queue s \<noteq> Queue_Error # qs"
    and "route_api_confirm env c body s = (Inl e, s1)"
  shows "same_tables (sv_db s) (sv_db s1) \<and> s1 = s\<lparr>sv_db := sv_db s1\<rparr>"
proof -
  note settled = is_ok_settle [OF assms(1-3)]
  have stored: "is_ok (fst (go_bind (case z of Some pub \<Rightarrow> go_when b (on_db (auto_store_signing_key env c rec pub))
      | None \<Rightarrow> go_return ()) (\<lambda>_. go_bind (settle_request st uid) (\<lambda>_. go_return x)) (s\<lparr>sv_db := d\<rparr>)))"
    for z b rec st uid d and x :: confirm_response
    using auto_store_step [where z = z and b = b and env = env and c = c and rec = rec and s = "s\<lparr>sv_db := d\<rparr>"] by (auto simp: go_bind_Inr settled)
  have "clean s (route_api_confirm env c body s)"
    unfolding route_api_confirm_def require_session_def
    by (cases body)
      (auto intro!: clean_require clean_lift clean_transaction settled stored split: option.splits)
  then show ?thesis using assms(4) by (simp add: clean_def)
qed

section \<open>From the confirmation to the waiting client\<close>

lemma get_request_terminal:
  assumes "requests_keyed d" and "conn_faults d = []" and "request_row_of st d = Some row"
    and "rr_status row \<noteq> Status_Pending" and "scan_request_record jd row = Inr rec"
  shows "get_request jd now1 now2 st d = (Inr (Some rec), d)"
proof -
  have "sql_select db_requests (\<lambda>r. rr_state r = st) d = (Inr [row], d)"
    using requests.select_by_key [OF assms(1), of "\<lambda>r. rr_state r = st" st] assms(3)
    by (simp add: request_row_of_def request_row_state [OF assms(3)])
  moreover have "req_status rec = rr_status row"
    using assms(5) by (auto simp: scan_request_record_def Let_def split: if_splits option.splits)
  ultimately show ?thesis
    using assms(2,4,5) by (simp add: get_request_def get_request_raw_def go_bind_def db_stmt_no_fault scan_first_def)
qed

lemma get_and_delete_terminal:
  assumes "requests_keyed d" and "conn_faults d = []" and "request_row_of st d = Some row"
    and "rr_status row \<noteq> Status_Pending" and "scan_request_record jd row = Inr rec"
  shows "\<exists>d1. get_and_delete_terminal_request jd now st d = (Inr (Some rec), d1) \<and> request_row_of st d1 = None"
proof -
  let ?P = "\<lambda>r. rr_state r = st \<and> (rr_status r \<noteq> Status_Pending \<or> rr_expires_at r < unix_seconds now)"
  have "sql_delete db_requests put_requests ?P d = (Inr [row], put_requests (delete_rows ?P (db_requests d)) d)"
    using requests.delete_by_key [OF assms(1), of ?P st] assms(3,4)
    by (simp add: request_row_of_def request_row_state [OF assms(3)])
  moreover have "returned_terminal (unix_seconds now) row = row"
    using assms(4) by (simp add: returned_terminal_def expirable_def)
  moreover have "request_row_of st (put_requests (delete_rows ?P (db_requests d)) d) = None"
    using request_row_delete [OF assms(1), of "put_requests (delete_rows ?P (db_requests d)) d" ?P st] assms(3,4)
    by (simp add: request_row_state [OF assms(3)])
  ultimately show ?thesis
    using assms(2,5)
    by (simp add: get_and_delete_terminal_request_def Let_def go_bind_def db_stmt_no_fault scan_first_def)
qed

text \<open>C12: A confirmation reaches the client that waits for it: when a poll of a reachable system waits with the
  current subscription for a state, and the owner's confirmation of that state succeeds, then the very next
  steps of the poll (at any later time, if the database does not fail) are to wake, to read the completed
  row, and to answer 200 with exactly the confirmed envelope; the row is gone afterwards.\<close>

theorem confirmed_poll_answers:
  assumes reach: "reachable env sys" and wait: "poll_at sys i = Poll_Wait w rs"
    and sub: "sv_subs (ps_server sys) (state_at sys i) = Some w"
    and k: "requests_keyed (sv_db (ps_server sys))"
    and h: "route_api_confirm env c (Some req) (ps_server sys) = (Inr Confirmed, sv1)"
    and st: "cf_state req = state_at sys i" and e: "cf_response_envelope req = Some e"
    and codec: "\<And>js. se_marshal env e = Inr js \<Longrightarrow> js \<noteq> [] \<and> se_unmarshal env js = Some e"
    and nf: "conn_faults (sv_db sv1) = []"
  shows "\<exists>sv2 sv4 resp. poll_step env pc (state_at sys i) (Poll_Wait w rs) sv1 = Some (Poll_Loop w, sv2)
    \<and> poll_step env pc (state_at sys i) (Poll_Loop w) sv2 = Some (Poll_Fetch w True, sv2)
    \<and> poll_step env pc (state_at sys i) (Poll_Fetch w True) sv2 = Some (Poll_Leave w (Reply_Json 200 resp), sv4)
    \<and> res_state resp = state_at sys i \<and> res_response_envelope resp = Some e
    \<and> request_row_of (state_at sys i) (sv_db sv4) = None"
proof -
  let ?st = "state_at sys i"
  let ?n = "unix_seconds (hc_clock c 0)"
  have subs: "subs_ok (ps_server sys)" using reach by (intro polls_ok_subs reachable_polls_ok)
  obtain rec d s2 u where t: "db_transaction (confirm_in_transaction env c ?st e) (sv_db (ps_server sys)) = (Inr rec, d)"
    and s2: "db_requests (sv_db s2) = db_requests d" "same_subs (ps_server sys) s2"
    and settle: "settle_request ?st (req_user_id rec) s2 = (Inr u, sv1)"
    using confirm_ok [OF h] st e by (metis option.inject)
  obtain row js where js: "se_marshal env e = Inr js"
    and scan: "scan_request_record (se_unmarshal env) (set_completed ?n js row) = Inr rec"
    and d: "request_row_of ?st d = Some (set_completed ?n js row)" "requests_keyed d"
    by (rule confirm_transaction_ok [OF k t])
  have "subs_ok s2" using subs s2(2) by (simp add: subs_ok_def same_subs_def)
  from settle_request_ok [OF this settle] s2(2) sub
  have sv1: "sv_db sv1 = sv_db s2" "sv_chans sv1 = (sv_chans (ps_server sys))[w := notified_chan (sv_chans (ps_server sys) ! w)]"
    by (auto simp: same_subs_def)
  define sv2 where "sv2 = sv1\<lparr>sv_chans := (sv_chans sv1)[w := (sv_chans sv1 ! w)\<lparr>chan_buf := []\<rparr>]\<rparr>"
  have wake: "poll_wake w rs sv1 = Some (Poll_Loop w, sv2)"
    using subs_okD(1) [OF subs sub] by (simp add: poll_wake_def receive_def sv1(2) notified_chan_def sv2_def)
  have row: "request_row_of ?st (sv_db sv2) = Some (set_completed ?n js row)" "requests_keyed (sv_db sv2)"
    "conn_faults (sv_db sv2) = []"
    using d s2(1) sv1(1) nf by (simp_all add: sv2_def request_row_of_def requests.keyed_def)
  have completed: "rr_status (set_completed ?n js row) = Status_Completed" by (simp add: set_completed_def)
  then have np: "rr_status (set_completed ?n js row) \<noteq> Status_Pending" by simp
  have rec: "req_status rec = Status_Completed" "req_response_envelope rec = Some e" "req_state rec = ?st"
    using scan scan_completed [where jd = "se_unmarshal env" and js = js and env = e and r = row and n = ?n]
      codec [OF js] request_row_state [OF d(1)] by auto
  have read: "poll_read env pc ?st w sv2 = (Poll_Fetch w True, sv2)"
    using get_request_terminal [OF row(2,3,1) np scan] rec(1) by (simp add: poll_read_def on_db_def)
  obtain d1 where "get_and_delete_terminal_request (se_unmarshal env) (hc_clock pc 0) ?st (sv_db sv2) = (Inr (Some rec), d1)"
    and gone: "request_row_of ?st d1 = None" using get_and_delete_terminal [OF row(2,3,1) np scan] by blast
  then have "poll_fetch env pc ?st w True sv2 = (Poll_Leave w (Reply_Json 200 (done_response rec)), sv2\<lparr>sv_db := d1\<rparr>)"
    by (simp add: poll_fetch_def on_db_def)
  with wake read gone rec show ?thesis by (auto simp: done_response_def)
qed

definition sample_confirm :: confirm_request where
  "sample_confirm = \<lparr>cf_state = ''s1'', cf_confirm = True, cf_cancel = False,
     cf_response_envelope = Some sample_envelope, cf_public_key = None\<rparr>"

lemma sample_envelope_valid: "validate_response_envelope sample_envelope = Inr ()"
  by code_simp

lemma sample_confirmed:
  "fst (route_api_confirm sample_server_env sample_http_call (Some sample_confirm) waiting_server) = Inr Confirmed"
  "conn_faults (sv_db (snd (route_api_confirm sample_server_env sample_http_call (Some sample_confirm) waiting_server))) = []"
  by code_simp+

theorem confirmed_poll_answers_witness:
  "\<exists>sv1 sv2 sv4 resp. route_api_confirm sample_server_env sample_http_call (Some sample_confirm) waiting_server = (Inr Confirmed, sv1)
    \<and> poll_step sample_server_env sample_http_call ''s1'' (Poll_Wait 0 ''s1'') sv1 = Some (Poll_Loop 0, sv2)
    \<and> poll_step sample_server_env sample_http_call ''s1'' (Poll_Fetch 0 True) sv2 = Some (Poll_Leave 0 (Reply_Json 200 resp), sv4)
    \<and> res_response_envelope resp = Some sample_envelope"
proof -
  obtain sv1 where h: "route_api_confirm sample_server_env sample_http_call (Some sample_confirm) waiting_server = (Inr Confirmed, sv1)"
    "conn_faults (sv_db sv1) = []" using sample_confirmed by (metis prod.collapse)
  have sys: "sv_subs (ps_server (opened_system (Poll_Wait 0 ''s1'') waiting_server)) (state_at (opened_system (Poll_Wait 0 ''s1'') waiting_server) 0) = Some 0"
    "requests_keyed (sv_db (ps_server (opened_system (Poll_Wait 0 ''s1'') waiting_server)))"
    "cf_state sample_confirm = state_at (opened_system (Poll_Wait 0 ''s1'') waiting_server) 0"
    "cf_response_envelope sample_confirm = Some sample_envelope"
    by (simp_all add: waiting_server_def new_server_def sample_confirm_def)
  have h': "route_api_confirm sample_server_env sample_http_call (Some sample_confirm)
      (ps_server (opened_system (Poll_Wait 0 ''s1'') waiting_server)) = (Inr Confirmed, sv1)" using h(1) by simp
  have codec: "js \<noteq> [] \<and> se_unmarshal sample_server_env js = Some sample_envelope"
    if "se_marshal sample_server_env sample_envelope = Inr js" for js
    using that by (auto simp: sample_server_env_def sample_marshal_def sample_unmarshal_def sample_envelope_def)
  from confirmed_poll_answers [OF waiting_reachable opened_at(1) sys(1,2) h' sys(3,4) codec h(2), of sample_http_call]
  show ?thesis using h(1) by auto
qed

definition bobs_call :: http_call where
  "bobs_call = sample_http_call\<lparr>hc_session_user := ''bob''\<rparr>"

lemma bob_refused:
  "fst (route_api_confirm sample_server_env bobs_call (Some sample_confirm) waiting_server)
     = Inl (Err_Response 409 ''Request cannot be confirmed'')"
  by code_simp

theorem confirm_all_or_nothing_witness:
  "\<exists>s1. route_api_confirm sample_server_env bobs_call (Some sample_confirm) waiting_server
      = (Inl (Err_Response 409 ''Request cannot be confirmed''), s1) \<and> db_requests (sv_db s1) = [sample_row]"
proof -
  obtain s1 where h: "route_api_confirm sample_server_env bobs_call (Some sample_confirm) waiting_server
      = (Inl (Err_Response 409 ''Request cannot be confirmed''), s1)" using bob_refused by (metis prod.collapse)
  have "subs_ok waiting_server" using polls_ok_subs [OF reachable_polls_ok [OF waiting_reachable]] by simp
  moreover have "broker_ok (sv_pubsub waiting_server)" "\<forall>qs. sv_queue waiting_server \<noteq> Queue_Error # qs"
    by (simp_all add: waiting_server_def new_server_def new_broker_ok)
  ultimately have "same_tables (sv_db waiting_server) (sv_db s1)" using confirm_all_or_nothing [OF _ _ _ h] by blast
  then have "db_requests (sv_db s1) = db_requests (sv_db waiting_server)" by (rule same_tables_requests)
  with h show ?thesis by (simp add: waiting_server_def new_server_def sample_db_def)
qed

end
