(* ===== verification/Stream_Properties.thy ===== *)
theory Stream_Properties
  imports Api_Routes Creation_Properties
begin

text \<open>
  What a browser sees of the list stream (routes-api.go): the lines written so far, read from the
  first to the last, add and remove requests from its display.
\<close>

section \<open>The display\<close>

fun show_line :: "stream_line \<Rightarrow> string set \<Rightarrow> string set" where
  "show_line Line_Empty shown = shown"
| "show_line (Line_Item item) shown =
     (if li_status item = ''removed'' then shown - {li_state item} else insert (li_state item) shown)"

definition displayed :: "stream_line list \<Rightarrow> string set" where
  "displayed lines = fold show_line lines {}"

text \<open>A line that is no repetition of what is on display.\<close>

fun fresh_line :: "string set \<Rightarrow> stream_line \<Rightarrow> bool" where
  "fresh_line shown Line_Empty = True"
| "fresh_line shown (Line_Item item) = (li_status item = ''removed'' \<or> li_state item \<notin> shown)"

fun fresh_lines :: "string set \<Rightarrow> stream_line list \<Rightarrow> bool" where
  "fresh_lines shown [] = True"
| "fresh_lines shown (l # ls) = (fresh_line shown l \<and> fresh_lines (show_line l shown) ls)"

definition own_line :: "string \<Rightarrow> stream_line \<Rightarrow> bool" where
  "own_line uid l \<longleftrightarrow> (case l of Line_Item item \<Rightarrow> li_user_id item = uid | Line_Empty \<Rightarrow> True)"

lemma fresh_lines_append:
  "fresh_lines shown (ls @ [l]) \<longleftrightarrow> fresh_lines shown ls \<and> fresh_line (fold show_line ls shown) l"
  by (induction ls arbitrary: shown) auto

lemma displayed_append [simp]: "displayed (ls @ [l]) = show_line l (displayed ls)"
  by (simp add: displayed_def)

definition stream_ok :: "list_stream \<Rightarrow> bool" where
  "stream_ok l \<longleftrightarrow> ls_user l \<noteq> [] \<and> displayed (ls_written l) = ls_seen l \<and> fresh_lines {} (ls_written l)
     \<and> list_all (own_line (ls_user l)) (ls_written l)"

lemma stream_message_ok: "stream_ok l \<Longrightarrow> stream_ok (stream_message msg l)"
  by (auto simp: stream_ok_def stream_message_def fresh_lines_append displayed_def own_line_def)

lemma stream_message_user [simp]: "ls_user (stream_message msg l) = ls_user l"
  by (simp add: stream_message_def)

lemma stream_messages_ok: "stream_ok l \<Longrightarrow> stream_ok (fold stream_message msgs l) \<and> ls_user (fold stream_message msgs l) = ls_user l"
proof (induction msgs arbitrary: l)
  case (Cons m msgs)
  from Cons.IH [OF stream_message_ok [OF Cons.prems]] show ?case by simp
qed simp

section \<open>The first lines\<close>

lemma pending_lines:
  assumes "distinct (map li_state items)" and "\<And>i. i \<in> set items \<Longrightarrow> li_status i \<noteq> ''removed'' \<and> li_state i \<notin> shown"
  shows "fresh_lines shown (map Line_Item items) \<and> fold show_line (map Line_Item items) shown = shown \<union> li_state ` set items"
  using assms
proof (induction items arbitrary: shown)
  case (Cons i items)
  have "fresh_lines (insert (li_state i) shown) (map Line_Item items)
      \<and> fold show_line (map Line_Item items) (insert (li_state i) shown) = insert (li_state i) shown \<union> li_state ` set items"
  proof (rule Cons.IH)
    fix j assume j: "j \<in> set items"
    then have "li_state j \<noteq> li_state i" using Cons.prems(1) by (metis distinct.simps(2) image_eqI list.set_map list.simps(9))
    with Cons.prems(2) [of j] j show "li_status j \<noteq> ''removed'' \<and> li_state j \<notin> insert (li_state i) shown" by simp
  qed (use Cons.prems in simp)
  with Cons.prems show ?case by auto
qed simp

lemma list_pending_ok:
  assumes "requests_keyed s" and "list_pending now uid s = (Inr items, s1)" and "uid \<noteq> []"
  shows "distinct (map li_state items) \<and> (\<forall>i\<in>set items. li_user_id i = uid \<and> li_status i = ''pending'')"
proof -
  obtain s2 where k: "requests_keyed s2"
    and l: "go_bind (db_stmt (sql_select db_requests (\<lambda>r. rr_status r = Status_Pending \<and> (uid \<noteq> [] \<longrightarrow> rr_user_id r = uid))))
       (\<lambda>rs. go_return (map list_item_of_row (sort_key rr_created_at rs))) s2 = (Inr items, s1)"
  proof -
    have "requests_keyed (snd (expire_pending now s))"
      using run_call_keyed [OF assms(1), of _ _ "Call_Expire_Pending now"] by (simp add: run_call_def)
    then show ?thesis using assms(2) that by (auto simp: list_pending_def go_bind_def go_try_apply)
  qed
  obtain rs fs where rs: "rs = rows_where (\<lambda>r. rr_status r = Status_Pending \<and> (uid \<noteq> [] \<longrightarrow> rr_user_id r = uid)) (db_requests s2)"
    and items: "items = map list_item_of_row (sort_key rr_created_at rs)"
    using l by (cases rule: db_stmt_cases [of "sql_select db_requests (\<lambda>r. rr_status r = Status_Pending \<and> (uid \<noteq> [] \<longrightarrow> rr_user_id r = uid))" s2])
      (auto simp: go_bind_def sql_select_def)
  have "distinct (map rr_state rs)"
    using k unfolding rs requests.keyed_def rows_where_def by (rule distinct_map_filter)
  then have "distinct (map rr_state (sort_key rr_created_at rs))"
    by (simp add: distinct_map)
  then show ?thesis
    using rs assms(3) by (auto simp: items list_item_of_row_def comp_def status_name_def)
qed

lemma opened_stream_ok:
  assumes "uid \<noteq> []" and "distinct (map li_state items)" and "\<forall>i\<in>set items. li_user_id i = uid \<and> li_status i = ''pending''"
  shows "stream_ok (opened_stream uid ch items)"
  using assms pending_lines [OF assms(2), of "{}"]
  by (auto simp: stream_ok_def opened_stream_def displayed_def own_line_def list_all_iff)

lemma stream_open_ok:
  assumes "stream_open c ttl s = (Inr l, s1)"
  obtains ch items s2 where "hc_session_user c \<noteq> []" "ttl > 0" "sv_db s2 = sv_db s"
    "on_db (list_pending (hc_clock c 0) (hc_session_user c)) s2 = (Inr items, s1)"
    "l = opened_stream (hc_session_user c) ch items"
proof -
  have g: "hc_session_user c \<noteq> []" "ttl > 0"
    using assms by (auto simp: stream_open_def require_session_def go_require_def elim!: go_bind_okE split: if_splits)
  obtain ch s2 r s3 where s2: "on_pubsub broker_subscribe s = (Inr ch, s2)"
    and r: "go_try (on_db (list_pending (hc_clock c 0) (hc_session_user c))) s2 = (Inr r, s3)"
    and k: "(case r of Inl e \<Rightarrow> go_bind (on_pubsub (broker_unsubscribe ch)) (\<lambda>_. go_fail e)
      | Inr items \<Rightarrow> go_return (opened_stream (hc_session_user c) ch items)) s3 = (Inr l, s1)"
    using assms g by (auto simp: stream_open_def require_session_def go_require_def elim!: go_bind_okE)
  obtain items where "r = Inr items" using k by (cases r) (auto elim!: go_bind_okE)
  moreover have "sv_db s2 = sv_db s" using s2 by (auto simp: on_pubsub_def split: prod.splits)
  ultimately show ?thesis
    using that [OF g] r k by (cases "on_db (list_pending (hc_clock c 0) (hc_session_user c)) s2") (auto simp: go_try_def)
qed

text \<open>C14: A list stream is private and consistent: whatever messages of whatever users the broker delivers after
  the stream was opened, every request it has written belongs to the signed-in user, no request is written
  again while it is on display, and what is on display is exactly what the handler remembers as seen.\<close>

theorem stream_private_and_consistent:
  assumes "requests_keyed (sv_db s)" and "stream_open c ttl s = (Inr l, s1)"
  shows "(\<forall>item. Line_Item item \<in> set (ls_written (fold stream_message msgs l)) \<longrightarrow> li_user_id item = hc_session_user c)
    \<and> hc_session_user c \<noteq> [] \<and> ttl > 0
    \<and> fresh_lines {} (ls_written (fold stream_message msgs l))
    \<and> displayed (ls_written (fold stream_message msgs l)) = ls_seen (fold stream_message msgs l)"
proof -
  obtain ch items s2 where g: "hc_session_user c \<noteq> []" "ttl > 0" and s2: "sv_db s2 = sv_db s"
    and l: "on_db (list_pending (hc_clock c 0) (hc_session_user c)) s2 = (Inr items, s1)"
    "l = opened_stream (hc_session_user c) ch items"
    by (rule stream_open_ok [OF assms(2)])
  have "distinct (map li_state items) \<and> (\<forall>i\<in>set items. li_user_id i = hc_session_user c \<and> li_status i = ''pending'')"
    using l(1) s2 list_pending_ok [OF assms(1) _ g(1)] by (auto simp: on_db_def split: prod.splits)
  then have "stream_ok l" using g(1) l(2) by (simp add: opened_stream_ok)
  then have "stream_ok (fold stream_message msgs l)" "ls_user (fold stream_message msgs l) = hc_session_user c"
    using stream_messages_ok [of l msgs] l(2) by (auto simp: opened_stream_def)
  then show ?thesis using g by (auto simp: stream_ok_def list_all_iff own_line_def)
qed

section \<open>From the creation to the browser\<close>

lemma publish_reaches:
  assumes "broker_ok (sv_pubsub s)" and "ch \<in> set (br_subscribers (sv_pubsub s))"
    and "chan_buf (br_chans (sv_pubsub s) ! ch) = []" and "publish_list_item item s = (x, s1)"
  shows "chan_buf (br_chans (sv_pubsub s1) ! ch) = [item]"
proof -
  let ?b = "sv_pubsub s"
  from send_all_ok [OF broker_ok_open [OF assms(1)], of item] obtain ds where
    ds: "send_all item (br_subscribers ?b) (br_chans ?b) = Inr ds"
      "\<forall>i<length (br_chans ?b). ds ! i = (if i \<in> set (br_subscribers ?b) then buffered item (br_chans ?b ! i) else br_chans ?b ! i)"
    by blast
  have ch: "ch < length (br_chans ?b)" "chan_cap (br_chans ?b ! ch) = 8" "\<not> br_stopped ?b"
    using assms(1,2) by (auto simp: broker_ok_def)
  then show ?thesis
    using ds assms(2,3,4) by (auto simp: publish_list_item_def broker_publish_def buffered_def)
qed

text \<open>A created request shows up in the browser of its user: when the creation succeeds and the user has a
  stream that has caught up, the next thing the stream does is to write the new request.\<close>

lemma created_request_streams:
  assumes "route_request_create env operation c body s = (Inr r, s1)" and "broker_ok (sv_pubsub s)"
    and "ls_events l \<in> set (br_subscribers (sv_pubsub s))" and "chan_buf (br_chans (sv_pubsub s) ! ls_events l) = []"
    and "hc_request_user c = Some user" and "ls_user l = usr_id user" and "usr_id user \<noteq> []" and "crr_state r \<notin> ls_seen l"
  shows "\<exists>item l1 s2. stream_receive l s1 = Some (True, l1, s2) \<and> ls_written l1 = ls_written l @ [Line_Item item]
    \<and> li_state item = crr_state r \<and> li_status item = ''pending'' \<and> li_user_id item = usr_id user \<and> li_operation item = operation"
proof -
  obtain body timeout enc s2 where
    s2: "sv_pubsub s2 = sv_pubsub s"
      "publish_list_item (pending_item_of (create_input_of operation c user body (hc_clock c 0) timeout enc)) s2 = (Inr (), s1)"
      "crr_state r = hc_uuid c"
    by (rule create_ok [OF assms(1,5)])
  let ?item = "pending_item_of (create_input_of operation c user body (hc_clock c 0) timeout enc)"
  have "chan_buf (br_chans (sv_pubsub s1) ! ls_events l) = [?item]"
    using s2(1) assms(2-4) by (intro publish_reaches [OF _ _ _ s2(2)]) simp_all
  moreover have item: "li_state ?item = hc_uuid c" "li_status ?item = ''pending''" "li_user_id ?item = usr_id user"
    "li_operation ?item = operation"
    by (simp_all add: pending_item_of_def list_item_of_row_def row_of_input_def create_input_of_def status_name_def)
  moreover have "ls_written (stream_message ?item l) = ls_written l @ [Line_Item ?item]"
    using item s2(3) assms(6-8) by (simp add: stream_message_def)
  ultimately show ?thesis
    using s2(3) by (simp add: stream_receive_def broker_receive_def receive_def)
qed

section \<open>Examples\<close>

lemma sample_stream_opens:
  "fst (stream_open sample_http_call 60 (new_server sample_db)) \<noteq> Inl e"
proof -
  have "is_ok (fst (stream_open sample_http_call 60 (new_server sample_db)))" by code_simp
  then show ?thesis by auto
qed

theorem stream_private_and_consistent_witness:
  "\<exists>l s1. stream_open sample_http_call 60 (new_server sample_db) = (Inr l, s1)
    \<and> (\<forall>item. Line_Item item \<in> set (ls_written (fold stream_message [removed_item ''s1'' ''bob''] l)) \<longrightarrow> li_user_id item = ''alice'')"
proof -
  obtain r s1 where o: "stream_open sample_http_call 60 (new_server sample_db) = (r, s1)" by fastforce
  with sample_stream_opens obtain l where h: "stream_open sample_http_call 60 (new_server sample_db) = (Inr l, s1)"
    by (cases r) auto
  have "requests_keyed (sv_db (new_server sample_db))" by (simp add: new_server_def)
  from stream_private_and_consistent [OF this h, of "[removed_item ''s1'' ''bob'']"] h show ?thesis
    by (simp add: sample_http_call_def)
qed

theorem created_request_streams_witness:
  "\<exists>s1 item l1 s2. route_request_create sample_server_env ''sign'' sample_http_call (Some sample_body) streaming_server
      = (Inr \<lparr>crr_state = ''s2'', crr_pending = True\<rparr>, s1)
    \<and> stream_receive (opened_stream ''alice'' 0 []) s1 = Some (True, l1, s2)
    \<and> ls_written l1 = [Line_Empty, Line_Item item] \<and> li_state item = ''s2''"
proof -
  obtain s1 where h: "route_request_create sample_server_env ''sign'' sample_http_call (Some sample_body) streaming_server
      = (Inr \<lparr>crr_state = ''s2'', crr_pending = True\<rparr>, s1)" using sample_created by (metis prod.collapse)
  let ?l = "opened_stream ''alice'' 0 []"
  have "broker_ok (sv_pubsub streaming_server)" "ls_events ?l \<in> set (br_subscribers (sv_pubsub streaming_server))"
    "chan_buf (br_chans (sv_pubsub streaming_server) ! ls_events ?l) = []"
    by (simp_all add: streaming_server_def broker_ok_def make_chan_def opened_stream_def)
  moreover have "hc_request_user sample_http_call = Some (user_of_row (hd (db_users sample_key_db)))"
    "ls_user ?l = usr_id (user_of_row (hd (db_users sample_key_db)))" "usr_id (user_of_row (hd (db_users sample_key_db))) \<noteq> []"
    by (simp_all add: sample_http_call_def opened_stream_def user_of_row_def sample_key_db_def)
  ultimately show ?thesis
    using created_request_streams [OF h, of ?l] h by (simp add: opened_stream_def) blast
qed

end
