(* ===== verification/Webhook.thy ===== *)
theory Webhook
  imports Go_Strings
begin

text \<open>
  The texts of the webhook notifications (src/internal/server/webhook.go) and the escaping of
  user-controlled fields.  Sending them is the webhook library's.
\<close>

record webhook_request =
  wh_base_url :: string
  wh_operation_name :: string
  wh_assigned_user :: string
  wh_key_label :: string
  wh_requestor :: string
  wh_note :: string

section \<open>Escaping\<close>

text \<open>\<open>strings.NewReplacer\<close> on one-byte patterns replaces byte by byte.\<close>

definition escape_slack_byte :: "char \<Rightarrow> string" where
  "escape_slack_byte c =
    (if c = CHR ''&'' then ''&amp;'' else if c = CHR ''<'' then ''&lt;'' else if c = CHR ''>'' then ''&gt;''
     else if c \<in> set ''*_~`'' then [CHR 0x5C, c] else [c])"

definition escape_slack_text :: "string \<Rightarrow> string" where
  "escape_slack_text v = (if v = [] then [] else concat (map escape_slack_byte v))"

section \<open>Messages\<close>

definition line_break :: string where "line_break = [CHR 0x0A]"

definition get_plain_message :: "webhook_request \<Rightarrow> string" where
  "get_plain_message wr =
    ''Received a request to '' @ wh_operation_name wr @ '' using key label **'' @ wh_key_label wr @ ''** for user **''
    @ wh_assigned_user wr @ ''**.'' @ line_break @ line_break @ ''Open Revaulter: '' @ wh_base_url wr @ line_break @ line_break
    @ ''(Client IP: '' @ wh_requestor wr @ '')''
    @ (if wh_note wr \<noteq> [] then line_break @ line_break @ ''Note: '' @ wh_note wr else [])"

definition get_slack_message :: "webhook_request \<Rightarrow> string" where
  "get_slack_message wr =
    ''Received a request to '' @ escape_slack_text (wh_operation_name wr) @ '' using key label **''
    @ escape_slack_text (wh_key_label wr) @ ''** for user **'' @ escape_slack_text (wh_assigned_user wr) @ ''**.'' @ line_break
    @ (if wh_note wr \<noteq> [] then ''Note: *'' @ escape_slack_text (wh_note wr) @ ''*'' @ line_break else [])
    @ ''[Open Revaulter]('' @ wh_base_url wr @ '')'' @ line_break
    @ ''`(Client IP: '' @ escape_slack_text (wh_requestor wr) @ '')`''"

section \<open>What a reader makes of it\<close>

text \<open>A reader of the markup: HTML entities are decoded, and a backslash makes the markup character after it plain.\<close>

fun unescape_slack :: "string \<Rightarrow> string" where
  "unescape_slack [] = []"
| "unescape_slack (c # cs) =
    (if c = CHR ''&'' then
       (if take 4 cs = ''amp;'' then CHR ''&'' # unescape_slack (drop 4 cs)
        else if take 3 cs = ''lt;'' then CHR ''<'' # unescape_slack (drop 3 cs)
        else if take 3 cs = ''gt;'' then CHR ''>'' # unescape_slack (drop 3 cs)
        else c # unescape_slack cs)
     else if c = CHR 0x5C \<and> cs \<noteq> [] \<and> hd cs \<in> set ''*_~`'' then hd cs # unescape_slack (tl cs)
     else c # unescape_slack cs)"

text \<open>
  The characters of a text that still act as markup, for a reader to whom a backslash makes
  any markup character after it plain, another backslash included.
\<close>

fun live_markup :: "string \<Rightarrow> string" where
  "live_markup [] = []"
| "live_markup (c # cs) =
    (if c = CHR 0x5C \<and> cs \<noteq> [] \<and> hd cs \<in> insert (CHR 0x5C) (set ''*_~`'') then live_markup (tl cs)
     else if c \<in> set ''<>*_~`'' then c # live_markup cs else live_markup cs)"

lemma escape_slack_Cons: "escape_slack_text (c # v) = escape_slack_byte c @ escape_slack_text v"
  by (simp add: escape_slack_text_def)

lemma escape_slack_Nil [simp]: "escape_slack_text [] = []"
  by (simp add: escape_slack_text_def)

text \<open>An escaped text never begins with a markup character.\<close>

lemma escape_slack_hd: "escape_slack_text v \<noteq> [] \<Longrightarrow> hd (escape_slack_text v) \<notin> set ''*_~`''"
  by (cases v) (auto simp: escape_slack_Cons escape_slack_byte_def)

text \<open>Escaping loses nothing: reading the entities and backslashes of an escaped text gives the original
  back, so that two different notes or labels never look the same in a notification.\<close>

lemma escape_slack_roundtrip:
  "unescape_slack (escape_slack_text v) = v"
proof (induction v)
  case (Cons c v)
  then show ?case
    using escape_slack_hd [of v] by (auto simp: escape_slack_Cons escape_slack_byte_def)
qed simp

text \<open>No markup survives: in a field without backslashes, whatever else it holds, no character that could open
  a tag, an emphasis, a strike-through or a code span is left live in the notification.\<close>

lemma escaped_text_is_inert:
  assumes "CHR 0x5C \<notin> set v"
  shows "live_markup (escape_slack_text v) = []"
  using assms
  by (induction v) (auto simp: escape_slack_Cons escape_slack_byte_def)

theorem escaped_text_is_inert_witness:
  "live_markup (escape_slack_text ''my*key_`demo~<tag>'') = []"
  by (rule escaped_text_is_inert) simp

text \<open>A backslash is not escaped itself: put in front of a markup character it takes the escaping away.\<close>

lemma backslash_revives_markup:
  "live_markup (escape_slack_text [CHR 0x5C, CHR ''*'', CHR ''x'', CHR 0x5C, CHR ''*'']) = ''**''"
  by code_simp

end
