(* ===== verification/Login_Properties.thy ===== *)
theory Login_Properties
  imports Auth_Route_Properties
begin

text \<open>
  What one call guarantees: a session is given only after a verified assertion on a fresh
  challenge of this server, for the active user who owns the credential; a changed password
  moves the epochs of the account and of the credential together.
\<close>

section \<open>Consuming a challenge\<close>

lemma consume_challenge_ok:
  assumes "consume_challenge now (Some unm) cid kind uid s = (Inr (Some p), s1)"
  obtains fs ch pl where "ch \<in> set (db_challenges s)" "consumable cid kind uid (unix_seconds now) ch"
    "payload_of cid (db_challenge_payloads s) = Some pl" "unm pl = Some p"
    "s1 = put_challenges (update_rows (consumable cid kind uid (unix_seconds now))
        (\<lambda>c. c\<lparr>ch_used_at := Some (unix_seconds now)\<rparr>) (db_challenges s)) (s\<lparr>conn_faults := fs\<rparr>)"
proof -
  let ?P = "consumable cid kind uid (unix_seconds now)"
  obtain rs pl where d: "db_stmt (consume_stmt cid kind uid (unix_seconds now)) s = (Inr rs, s1)"
    and rs: "first_row rs = Some (Some pl)" "unm pl = Some p"
    using assms by (auto simp: consume_challenge_def elim!: go_bind_okE split: option.splits)
  from d obtain fs where st: "consume_stmt cid kind uid (unix_seconds now) (s\<lparr>conn_faults := fs\<rparr>) = (Inr rs, s1)"
    by (rule db_stmt_okE)
  obtain ch rest where ch: "rows_where ?P (db_challenges s) = ch # rest"
    using st rs by (cases "rows_where ?P (db_challenges s)") (auto simp: consume_stmt_def sql_update_def)
  then have mem: "ch \<in> set (db_challenges s)" "?P ch" using first_row_where [of ?P "db_challenges s" ch] by auto
  then have id: "ch_id ch = cid" by (simp add: consumable_def)
  with st rs ch have "payload_of cid (db_challenge_payloads s) = Some pl"
    and "s1 = put_challenges (update_rows ?P (\<lambda>c. c\<lparr>ch_used_at := Some (unix_seconds now)\<rparr>) (db_challenges s)) (s\<lparr>conn_faults := fs\<rparr>)"
    by (auto simp: consume_stmt_def sql_update_def)
  with mem rs(2) that show ?thesis by blast
qed

text \<open>No row can be consumed again, at this time or later.\<close>

definition spent_challenge :: "string \<Rightarrow> string \<Rightarrow> int \<Rightarrow> challenge_row list \<Rightarrow> bool" where
  "spent_challenge cid kind now t \<longleftrightarrow> (\<forall>ch\<in>set t. \<forall>later\<ge>now. \<not> consumable cid kind [] later ch)"

lemma consumed_is_spent:
  "spent_challenge cid kind now (update_rows (consumable cid kind [] now) (\<lambda>c. c\<lparr>ch_used_at := Some now\<rparr>) t)"
proof -
  have "\<not> consumable cid kind [] later (if consumable cid kind [] now c then c\<lparr>ch_used_at := Some now\<rparr> else c)"
    if "now \<le> later" for c later
    using that by (cases "consumable cid kind [] now c") (auto simp: consumable_def)
  then show ?thesis unfolding spent_challenge_def set_update_rows by blast
qed

section \<open>Finding the user\<close>

lemma get_user_by_webauthn_user_id_ok:
  assumes "get_user_by_webauthn_user_id w s = (Inr (Some user), s1)"
  obtains u where "same_tables s s1" "u \<in> set (db_users s)" "u_webauthn_user_id u = w" "user = user_of_row u"
proof -
  have "get_user_by_webauthn_user_id w = go_bind (db_stmt (sql_select db_users (\<lambda>r. u_webauthn_user_id r = w)))
       (\<lambda>rs. go_return (map_option user_of_row (first_row rs)))"
    by (simp add: get_user_by_webauthn_user_id_def get_user_def user_column_def)
  with assms obtain fs where "s1 = s\<lparr>conn_faults := fs\<rparr>"
    and "Some user = map_option user_of_row (first_row (rows_where (\<lambda>r. u_webauthn_user_id r = w) (db_users s)))"
    by (auto simp: sql_select_def elim!: go_bind_okE db_stmt_okE)
  then show ?thesis using that by (auto dest!: first_row_where sym [of "Some user"])
qed

definition login_credentials :: "('ek, 'mk) auth_env \<Rightarrow> string \<Rightarrow> database \<Rightarrow> wa_credential list" where
  "login_credentials env uid s =
     usable_credentials env (sort_key c_created_at (rows_where (\<lambda>c. c_user_id c = uid) (db_credentials s)))"

lemma load_webauthn_user_ok:
  assumes "load_webauthn_user env user s = (Inr (Some wu), s1)"
  shows "usr_status user = ''active'' \<and> same_tables s s1 \<and> wu_credentials wu = login_credentials env (usr_id user) s"
  using assms
  by (auto simp: load_webauthn_user_def login_credentials_def list_credentials_def sql_select_def Let_def
      elim!: go_bind_okE db_stmt_okE split: if_splits)

lemma discover_user_ok:
  assumes "discover_user env h s = (Inr (user, wu), s1)"
  obtains u where "same_tables s s1" "u \<in> set (db_users s)" "u_webauthn_user_id u = raw_url_encode h"
    "user = user_of_row u" "u_status u = ''active''" "wu_credentials wu = login_credentials env (u_id u) s"
proof -
  obtain s2 where g: "get_user_by_webauthn_user_id (raw_url_encode h) s = (Inr (Some user), s2)"
    and l: "load_webauthn_user env user s2 = (Inr (Some wu), s1)"
    using assms by (auto simp: discover_user_def elim!: go_bind_okE split: option.splits if_splits)
  from g obtain u where u: "same_tables s s2" "u \<in> set (db_users s)" "u_webauthn_user_id u = raw_url_encode h" "user = user_of_row u"
    by (rule get_user_by_webauthn_user_id_ok)
  have "db_credentials s2 = db_credentials s" using u(1) by (rule same_tables_eqs(2))
  then show ?thesis
    using that u load_webauthn_user_ok [OF l]
    by (auto simp: user_of_row_def login_credentials_def same_tables_def)
qed

lemma finish_discoverable_login_ok:
  assumes "finish_discoverable_login env session body s = (Inr (user, wu, cred), s1)"
  obtains raw_id h verify where "ae_login_ceremony env session body = Ceremony_Asks raw_id h verify"
    "discover_user env h s = (Inr (user, wu), s1)" "verify wu = Some cred"
  using assms
  by (auto simp: finish_discoverable_login_def map_error_ok elim!: go_bind_okE
      split: login_ceremony.splits option.splits)

lemma sign_count_ok:
  assumes "validate_authenticator_sign_count wu cred = Inr ()"
  obtains stored where "stored \<in> set (wu_credentials wu)" "raw_url_encode (wc_id stored) = raw_url_encode (wc_id cred)"
    "wc_sign_count cred = 0 \<or> wc_sign_count stored = 0 \<or> wc_sign_count stored < wc_sign_count cred"
proof -
  obtain stored where f: "List.find (\<lambda>stored. raw_url_encode (wc_id stored) = raw_url_encode (wc_id cred)) (wu_credentials wu) = Some stored"
    and n: "wc_sign_count cred = 0 \<or> wc_sign_count stored = 0 \<or> wc_sign_count stored < wc_sign_count cred"
    using assms by (auto simp: validate_authenticator_sign_count_def word_gt_0 not_le split: option.splits if_splits)
  from f have "stored \<in> set (wu_credentials wu)" "raw_url_encode (wc_id stored) = raw_url_encode (wc_id cred)"
    by (auto simp: find_Some_iff)
  with n that show ?thesis by blast
qed

section \<open>A login\<close>

lemma login_finish_ok:
  assumes "login_finish env c cid credential s = (Inr (user, sess, rec), s1)"
  obtains p session body wu cred s2 s3 where
    "consume_challenge (au_clock c 0) (Some (ae_unmarshal_login env)) cid ''login'' [] s = (Inr (Some p), s2)"
    "lp_session p = Some session" "normalized_credential env credential = Inr body"
    "finish_discoverable_login env session body s2 = (Inr (user, wu, cred), s3)"
    "validate_authenticator_sign_count wu cred = Inr ()"
    "sess = new_auth_session_token (au_clock c 2) user (ae_session_timeout env)"
  using assms
  by (auto simp: login_finish_def map_error_ok new_json_http_request_def Let_def bind_eq_Some_conv
      elim!: go_bind_okE split: option.splits if_splits)

text \<open>After the challenge is consumed, the transaction leaves the challenges alone.\<close>

lemma keeps_challenges_login:
  "keeps (\<lambda>s :: database. P (db_challenges s)) (auth_login now inp)"
proof -
  have "keeps (\<lambda>s :: database. P (db_challenges s)) (login_stmt n inp)" for n
    by (simp add: keeps_def login_stmt_def sql_update_def)
  then show ?thesis
    unfolding auth_login_def
    by (intro keeps_bind keeps_if keeps_fail keeps_return keeps_db_stmt on_tables_challenges)
qed

lemma keeps_challenges_audit:
  "keeps (\<lambda>s :: database. P (db_challenges s)) (auth_audit env c now ev uid cid md)"
  "keeps (\<lambda>s :: database. P (db_challenges s)) (failure_audit env c now ev)"
  unfolding auth_audit_def failure_audit_def audit_event_tx_def audit_event_def audit_insert_def
  by (intro keeps_bind keeps_try keeps_lift keeps_return keeps_db_stmt on_tables_challenges;
      simp add: keeps_def sql_insert_def)+

lemma login_finish_spends:
  assumes "login_finish env c cid credential s = (Inr x, s1)"
  shows "spent_challenge cid ''login'' (unix_seconds (au_clock c 0)) (db_challenges s1)"
proof -
  let ?I = "\<lambda>s :: database. spent_challenge cid ''login'' (unix_seconds (au_clock c 0)) (db_challenges s)"
  have T: "on_tables ?I" by (rule on_tables_challenges)
  have find: "keeps ?I (finish_discoverable_login env session body)" for session body
    unfolding finish_discoverable_login_def discover_user_def
    by (auto intro!: handler_steps reads_keep [OF T] load_keeps [OF T] split: login_ceremony.split)
  have consume: "yields (\<lambda>_. True) (map_error f (consume_challenge (au_clock c 0) (Some (ae_unmarshal_login env)) cid ''login'' []))
      (\<lambda>r s. r \<noteq> None \<longrightarrow> ?I s)" for f
    by (auto simp: yields_def map_error_ok consumed_is_spent elim!: consume_challenge_ok)
  have rest: "yields (\<lambda>s. r \<noteq> None \<longrightarrow> ?I s) (case Option.bind r lp_session of None \<Rightarrow> go_fail e | Some z \<Rightarrow> k z) (\<lambda>_. ?I)"
    if "\<And>z. keeps ?I (k z)" for r e and k :: "wa_session \<Rightarrow> 'c db_op"
    using yields_keeps [OF that] by (auto simp: yields_def split: option.splits)
  have "yields (\<lambda>_. True) (login_finish env c cid credential) (\<lambda>_. ?I)"
    unfolding login_finish_def Let_def
    by (rule yields_bind [OF consume], rule rest)
      (intro handler_steps find reads_keep [OF T] keeps_challenges_login keeps_challenges_audit)
  with assms show ?thesis by (auto dest: yieldsD)
qed

text \<open>An assertion that the library verified against the stored credentials of one active user.\<close>

definition assertion_verified :: "('ek, 'mk) auth_env \<Rightarrow> wa_session \<Rightarrow> string \<Rightarrow> database \<Rightarrow> user_row \<Rightarrow> bool" where
  "assertion_verified env session body d u \<longleftrightarrow> u \<in> set (db_users d) \<and> u_status u = ''active'' \<and>
    (\<exists>raw_id h verify wu cred stored. ae_login_ceremony env session body = Ceremony_Asks raw_id h verify
       \<and> u_webauthn_user_id u = raw_url_encode h \<and> wu_credentials wu = login_credentials env (u_id u) d
       \<and> verify wu = Some cred \<and> stored \<in> set (wu_credentials wu)
       \<and> raw_url_encode (wc_id stored) = raw_url_encode (wc_id cred)
       \<and> (wc_sign_count cred = 0 \<or> wc_sign_count stored = 0 \<or> wc_sign_count stored < wc_sign_count cred))"

lemma login_finish_verified:
  assumes "login_finish env c cid credential s = (Inr (user, sess, rec), s1)"
  shows "\<exists>ch pl p session body u. ch \<in> set (db_challenges s) \<and> consumable cid ''login'' [] (unix_seconds (au_clock c 0)) ch
     \<and> payload_of cid (db_challenge_payloads s) = Some pl \<and> ae_unmarshal_login env pl = Some p \<and> lp_session p = Some session
     \<and> normalized_credential env credential = Inr body \<and> assertion_verified env session body s u
     \<and> user = user_of_row u \<and> sess = new_auth_session_token (au_clock c 2) user (ae_session_timeout env)"
proof -
  from assms obtain p session body wu cred s2 s3 where
    c: "consume_challenge (au_clock c 0) (Some (ae_unmarshal_login env)) cid ''login'' [] s = (Inr (Some p), s2)"
    and p: "lp_session p = Some session" "normalized_credential env credential = Inr body"
    and f: "finish_discoverable_login env session body s2 = (Inr (user, wu, cred), s3)"
    and v: "validate_authenticator_sign_count wu cred = Inr ()"
    and t: "sess = new_auth_session_token (au_clock c 2) user (ae_session_timeout env)"
    by (rule login_finish_ok)
  from c obtain fs ch pl where ch: "ch \<in> set (db_challenges s)" "consumable cid ''login'' [] (unix_seconds (au_clock c 0)) ch"
    "payload_of cid (db_challenge_payloads s) = Some pl" "ae_unmarshal_login env pl = Some p"
    and s2: "db_users s2 = db_users s" "db_credentials s2 = db_credentials s"
    by (rule consume_challenge_ok) simp
  from f obtain raw_id h verify where l: "ae_login_ceremony env session body = Ceremony_Asks raw_id h verify"
    "discover_user env h s2 = (Inr (user, wu), s3)" "verify wu = Some cred" by (rule finish_discoverable_login_ok)
  from l(2) obtain u where u: "u \<in> set (db_users s2)" "u_webauthn_user_id u = raw_url_encode h"
    "user = user_of_row u" "u_status u = ''active''" "wu_credentials wu = login_credentials env (u_id u) s2"
    by (rule discover_user_ok)
  from v obtain stored where "stored \<in> set (wu_credentials wu)" "raw_url_encode (wc_id stored) = raw_url_encode (wc_id cred)"
    "wc_sign_count cred = 0 \<or> wc_sign_count stored = 0 \<or> wc_sign_count stored < wc_sign_count cred" by (rule sign_count_ok)
  moreover have "login_credentials env (u_id u) s2 = login_credentials env (u_id u) s" using s2 by (simp add: login_credentials_def)
  ultimately have "assertion_verified env session body s u"
    unfolding assertion_verified_def using u s2(1) l(1,3) by metis
  with ch p t u(3) show ?thesis by blast
qed

lemma audited_login_ok:
  assumes "audited_transaction env c now ev m s = (Inr x, s1)"
  obtains fs d where "m ((sv_db s)\<lparr>conn_faults := fs, conn_in_tx := True\<rparr>) = (Inr x, d)" "same_tables d (sv_db s1)"
proof -
  have "db_transaction m (sv_db s) = (Inr x, sv_db s1)"
    using assms by (auto simp: audited_transaction_def go_try_apply on_db_def elim!: go_bind_okE split: sum.splits prod.splits)
  then show ?thesis using that by (rule db_transaction_ok)
qed

text \<open>C17: A login gives a session only when the request names a login challenge of this server that was unused
  and not expired, the WebAuthn library called back for the user of the handle, who is active, and
  verified the assertion, after the normalization of the extension results, against the session stored
  with that challenge and the credentials stored for that user, and the sign count of the matching
  credential grew, or one of the two counts is zero; the session is that user's, and the challenge can
  never be used for a login again.\<close>

theorem login_sound:
  assumes "route_login_finish env c body s = (Inr resp, s1)"
  shows "\<exists>cid credential ch pl p session normalized u. body = Some (cid, credential)
     \<and> ch \<in> set (db_challenges (sv_db s)) \<and> ch_id ch = cid \<and> ch_kind ch = ''login'' \<and> ch_used_at ch = None
     \<and> unix_seconds (au_clock c 0) \<le> ch_expires_at ch
     \<and> payload_of cid (db_challenge_payloads (sv_db s)) = Some pl \<and> ae_unmarshal_login env pl = Some p
     \<and> lp_session p = Some session \<and> normalized_credential env credential = Inr normalized
     \<and> assertion_verified env session normalized (sv_db s) u \<and> si_user_id (lr_session resp) = u_id u
     \<and> spent_challenge cid ''login'' (unix_seconds (au_clock c 0)) (db_challenges (sv_db s1))"
proof -
  obtain cid credential where b: "body = Some (cid, credential)"
    using assms by (auto simp: route_login_finish_def split: option.splits)
  obtain user sess rec s2 s3 where
    t: "audited_transaction env c (au_clock c 4) ''auth.login_finish'' (login_finish env c cid credential) s = (Inr (user, sess, rec), s2)"
    and q: "dequeue_delete (''challenge-delete:'' @ cid) s2 = (Inr (), s3)"
    and w: "wrapped_key_part c user rec (session_info_from_user (ae_crypto env) user (seconds_until (au_clock c 4) (tok_expires_at sess))) = Inr resp"
    and s1: "s3 = s1"
    using assms unfolding b by (auto simp: route_login_finish_def go_require_def Let_def elim!: go_bind_okE split: if_splits)
  from t obtain fs d where l: "login_finish env c cid credential ((sv_db s)\<lparr>conn_faults := fs, conn_in_tx := True\<rparr>) = (Inr (user, sess, rec), d)"
    and d: "same_tables d (sv_db s2)" by (rule audited_login_ok)
  have "db_challenges (sv_db s1) = db_challenges d"
    using keeps_stepD [OF keeps_queue(2) [where I = "\<lambda>x. x = sv_db s2"] refl q] same_tables_eqs(3) [OF d] s1 by simp
  then have spent: "spent_challenge cid ''login'' (unix_seconds (au_clock c 0)) (db_challenges (sv_db s1))"
    using login_finish_spends [OF l] by simp
  have uid: "si_user_id (lr_session resp) = usr_id user"
    using w by (auto simp: wrapped_key_part_def session_info_from_user_def Let_def split: option.splits if_splits)
  from login_finish_verified [OF l] obtain ch pl p session normalized u where
    e: "ch \<in> set (db_challenges (sv_db s))" "consumable cid ''login'' [] (unix_seconds (au_clock c 0)) ch"
      "payload_of cid (db_challenge_payloads (sv_db s)) = Some pl" "ae_unmarshal_login env pl = Some p" "lp_session p = Some session"
      "normalized_credential env credential = Inr normalized" "user = user_of_row u"
    and a: "assertion_verified env session normalized ((sv_db s)\<lparr>conn_faults := fs, conn_in_tx := True\<rparr>) u" by auto
  have "assertion_verified env session normalized (sv_db s) u"
    using a by (simp add: assertion_verified_def login_credentials_def)
  then show ?thesis using b e spent uid by (auto simp: consumable_def user_of_row_def)
qed

section \<open>Changing the password\<close>

lemma has_pending_ok:
  assumes "has_pending_challenge now uid kind s = (Inr b, s1)"
  shows "same_tables s s1 \<and> (b \<longleftrightarrow> (\<exists>ch\<in>set (db_challenges s). ch_user_id ch = uid \<and> ch_kind ch = kind
     \<and> ch_used_at ch = None \<and> unix_seconds now \<le> ch_expires_at ch))"
  using assms
  by (auto simp: has_pending_challenge_def sql_select_def rows_where_def filter_empty_conv elim!: go_bind_okE db_stmt_okE)

definition advance_row :: "int \<Rightarrow> user_row \<Rightarrow> user_row" where
  "advance_row n u = u\<lparr>u_wrapped_key_epoch := u_wrapped_key_epoch u + 1, u_updated_at := n\<rparr>"

lemma advance_epoch_ok:
  assumes "advance_wrapped_key_epoch now uid s = (Inr e, s1)"
  shows "db_users s1 = update_rows (mutable_user uid) (advance_row (unix_seconds now)) (db_users s)
    \<and> db_credentials s1 = db_credentials s \<and> (\<exists>u\<in>set (db_users s). mutable_user uid u)"
  using assms
  by (auto simp: advance_wrapped_key_epoch_def sql_update_def advance_row_def [abs_def] rows_where_def
      elim!: go_bind_okE db_stmt_okE split: option.splits)
    (metis (mono_tags, lifting) filter_False first_row_simps(1) list.simps(8) option.distinct(1))

lemma active_epoch_row:
  "active_epoch uid s = Some e \<Longrightarrow> \<exists>u\<in>set (db_users s). u_id u = uid \<and> u_status u = ''active'' \<and> u_wrapped_key_epoch u = e"
  by (auto simp: active_epoch_def find_Some_iff intro: nth_mem)

lemma keeps_accounts_event:
  "keeps (\<lambda>s :: database. P (db_users s) (db_credentials s)) (auth_event env c now ev cid md)"
proof -
  have "on_tables (\<lambda>s :: database. P (db_users s) (db_credentials s))" by (rule on_tables_dbI) simp
  then show ?thesis
    unfolding auth_event_def auth_audit_def audit_event_tx_def audit_insert_def
    by (intro keeps_bind keeps_lift keeps_return keeps_db_stmt) (auto simp: keeps_def sql_insert_def)
qed

definition rewrapped :: "string \<Rightarrow> string \<Rightarrow> int \<Rightarrow> credential_row \<Rightarrow> credential_row" where
  "rewrapped wpk wak epoch c = c\<lparr>c_wrapped_primary_key := wpk, c_wrapped_anchor_key := wak, c_wrapped_key_epoch := epoch\<rparr>"

lemma rewrap_ok:
  assumes "update_credential_wrapped_key cid uid wpk wak s = (Inr (), s1)"
  obtains epoch where "active_epoch uid s = Some epoch" "db_users s1 = db_users s"
    "db_credentials s1 = update_rows (\<lambda>c. c_credential_id c = cid \<and> c_user_id c = uid) (rewrapped wpk wak epoch) (db_credentials s)"
    "\<exists>c\<in>set (db_credentials s). c_credential_id c = cid \<and> c_user_id c = uid"
proof -
  obtain rs fs where st: "rewrap_stmt cid uid wpk wak (s\<lparr>conn_faults := fs\<rparr>) = (Inr rs, s1)" and rs: "rs \<noteq> []"
    using assms by (auto simp: update_credential_wrapped_key_def elim!: go_bind_okE db_stmt_okE split: if_splits)
  have a: "active_epoch uid (s\<lparr>conn_faults := fs\<rparr>) = active_epoch uid s" by (simp add: active_epoch_def)
  obtain epoch where e: "active_epoch uid s = Some epoch"
    using st rs a by (auto simp: rewrap_stmt_def split: option.splits)
  let ?P = "\<lambda>c. c_credential_id c = cid \<and> c_user_id c = uid"
  have "s1 = put_credentials (update_rows ?P (rewrapped wpk wak epoch) (db_credentials s)) (s\<lparr>conn_faults := fs\<rparr>)"
    "rows_where ?P (db_credentials s) \<noteq> []"
    using st rs a e by (auto simp: rewrap_stmt_def sql_update_def rewrapped_def [abs_def])
  moreover from this(2) have "\<exists>c\<in>set (db_credentials s). ?P c" by (auto simp: rows_where_def filter_empty_conv)
  ultimately show ?thesis using that [OF e] by simp
qed

text \<open>The state of an account and a credential before and after the call.\<close>

definition password_changed ::
  "string \<Rightarrow> update_wrapped_key_request \<Rightarrow> database \<Rightarrow> database \<Rightarrow> user_row \<Rightarrow> user_row \<Rightarrow> bool" where
  "password_changed uid req s s1 u v \<longleftrightarrow>
     u \<in> set (db_users s) \<and> u_id u = uid \<and> u_status u = ''active'' \<and> v \<in> set (db_users s1) \<and> u_id v = uid
     \<and> u_wrapped_key_epoch v = u_wrapped_key_epoch u + (if wq_advance_epoch req then 1 else 0)
     \<and> db_credentials s1 = update_rows (\<lambda>c. c_credential_id c = wq_credential_id req \<and> c_user_id c = uid)
         (rewrapped (wq_wrapped_primary_key req) (wq_wrapped_anchor_key req) (u_wrapped_key_epoch v)) (db_credentials s)
     \<and> (\<exists>c\<in>set (db_credentials s). c_credential_id c = wq_credential_id req \<and> c_user_id c = uid)"

lemma update_wrapped_key_ok:
  assumes d: "distinct (map u_id (db_users s))" and f: "update_wrapped_key env c req s = (Inr (), s1)"
  shows "(\<forall>ch\<in>set (db_challenges s). ch_user_id ch = au_user_id c \<and> ch_kind ch = ''add-credential'' \<and> ch_used_at ch = None
       \<longrightarrow> ch_expires_at ch < unix_seconds (au_clock c 0))
     \<and> (\<exists>u v. password_changed (au_user_id c) req s s1 u v)"
proof -
  let ?uid = "au_user_id c"
  obtain s2 s3 s4 where p: "has_pending_challenge (au_clock c 0) ?uid ''add-credential'' s = (Inr False, s2)"
    and a: "(if wq_advance_epoch req then \<exists>e. advance_wrapped_key_epoch (au_clock c 1) ?uid s2 = (Inr e, s3) else s3 = s2)"
    and r: "update_credential_wrapped_key (wq_credential_id req) ?uid (wq_wrapped_primary_key req) (wq_wrapped_anchor_key req) s3
        = (Inr (), s4)"
    and l: "auth_event env c (au_clock c 2) ''auth.wrapped_key_update'' (wq_credential_id req)
        (ae_json_object env [(''advanceEpoch'', Js_Bool (wq_advance_epoch req))]) s4 = (Inr (), s1)"
    using f by (auto simp: update_wrapped_key_def map_error_ok elim!: go_bind_okE split: if_splits)
  have s2: "db_users s2 = db_users s" "db_credentials s2 = db_credentials s"
    using has_pending_ok [OF p] same_tables_eqs by blast+
  let ?w = "\<lambda>u. if wq_advance_epoch req \<and> mutable_user ?uid u then advance_row (unix_seconds (au_clock c 1)) u else u"
  have s3: "db_users s3 = map ?w (db_users s)" "db_credentials s3 = db_credentials s"
    using a s2 advance_epoch_ok [of "au_clock c 1" ?uid s2 _ s3]
    by (cases "wq_advance_epoch req"; auto simp: update_rows_def)+
  from r obtain epoch where e: "active_epoch ?uid s3 = Some epoch" "db_users s4 = db_users s3"
    "db_credentials s4 = update_rows (\<lambda>c. c_credential_id c = wq_credential_id req \<and> c_user_id c = ?uid)
       (rewrapped (wq_wrapped_primary_key req) (wq_wrapped_anchor_key req) epoch) (db_credentials s3)"
    "\<exists>c\<in>set (db_credentials s3). c_credential_id c = wq_credential_id req \<and> c_user_id c = ?uid" by (rule rewrap_ok)
  have s1: "db_users s1 = db_users s4" "db_credentials s1 = db_credentials s4"
    using keeps_stepD [OF keeps_accounts_event [where P = "\<lambda>us cs. us = db_users s4 \<and> cs = db_credentials s4"] _ l] by simp_all
  obtain v where v: "v \<in> set (db_users s3)" "u_id v = ?uid" "u_status v = ''active''" "u_wrapped_key_epoch v = epoch"
    using active_epoch_row [OF e(1)] by blast
  then obtain u where u: "u \<in> set (db_users s)" "v = ?w u" using s3(1) by auto
  have uid: "u_id u = ?uid" "u_status u = ''active''" using u(2) v by (auto simp: advance_row_def split: if_splits)
  have "mutable_user ?uid u" if adv: "wq_advance_epoch req"
  proof -
    obtain w where w: "w \<in> set (db_users s)" "mutable_user ?uid w"
      using a adv s2(1) advance_epoch_ok [of "au_clock c 1" ?uid s2 _ s3] by auto
    then have "row_of u_id ?uid (db_users s) = Some w" "row_of u_id ?uid (db_users s) = Some u"
      using u(1) uid(1) row_of_iff [OF d] by (simp_all add: mutable_user_def)
    with w show ?thesis by simp
  qed
  then have "u_wrapped_key_epoch v = u_wrapped_key_epoch u + (if wq_advance_epoch req then 1 else 0)"
    using u(2) by (auto simp: advance_row_def)
  then have "password_changed ?uid req s s1 u v"
    using u(1) uid v s1 e s3(2) unfolding password_changed_def by simp
  moreover have "ch_expires_at ch < unix_seconds (au_clock c 0)"
    if "ch \<in> set (db_challenges s)" "ch_user_id ch = ?uid" "ch_kind ch = ''add-credential''" "ch_used_at ch = None" for ch
    using has_pending_ok [OF p] that by force
  ultimately show ?thesis by blast
qed

lemma wrapped_key_update_ok:
  assumes "distinct (map u_id (db_users (sv_db s)))"
    and "route_update_wrapped_key env c (Some req) s = (Inr (), s1)"
  shows "\<forall>ch\<in>set (db_challenges (sv_db s)). ch_user_id ch = au_user_id c \<and> ch_kind ch = ''add-credential'' \<and> ch_used_at ch = None
       \<longrightarrow> ch_expires_at ch < unix_seconds (au_clock c 0)"
    and "\<exists>u v. password_changed (au_user_id c) req (sv_db s) (sv_db s1) u v"
    and "wq_wrapped_anchor_key req = [] \<or> validate_wrapped_anchor_envelope (wq_wrapped_anchor_key req) = Inr ()"
proof -
  have run: "db_transaction (update_wrapped_key env c req) (sv_db s) = (Inr (), sv_db s1)"
    and env_ok: "wq_wrapped_anchor_key req = [] \<or> validate_wrapped_anchor_envelope (wq_wrapped_anchor_key req) = Inr ()"
    using assms(2) by (auto simp: route_update_wrapped_key_def require_user_session_def go_require_def on_db_def or_bad_request_def
        elim!: go_bind_okE split: if_splits prod.splits sum.splits)
  from env_ok show "wq_wrapped_anchor_key req = [] \<or> validate_wrapped_anchor_envelope (wq_wrapped_anchor_key req) = Inr ()" .
  from run obtain fs d where t: "update_wrapped_key env c req ((sv_db s)\<lparr>conn_faults := fs, conn_in_tx := True\<rparr>) = (Inr (), d)"
    and d: "same_tables d (sv_db s1)" by (rule db_transaction_ok)
  from update_wrapped_key_ok [OF _ t] assms(1) obtain u v where
    open_none: "\<forall>ch\<in>set (db_challenges (sv_db s)). ch_user_id ch = au_user_id c \<and> ch_kind ch = ''add-credential'' \<and> ch_used_at ch = None
       \<longrightarrow> ch_expires_at ch < unix_seconds (au_clock c 0)"
    and pc: "password_changed (au_user_id c) req ((sv_db s)\<lparr>conn_faults := fs, conn_in_tx := True\<rparr>) d u v" by auto
  from open_none show "\<forall>ch\<in>set (db_challenges (sv_db s)). ch_user_id ch = au_user_id c \<and> ch_kind ch = ''add-credential'' \<and> ch_used_at ch = None
       \<longrightarrow> ch_expires_at ch < unix_seconds (au_clock c 0)" .
  have "password_changed (au_user_id c) req (sv_db s) (sv_db s1) u v"
    using pc same_tables_eqs [OF d] by (simp add: password_changed_def)
  then show "\<exists>u v. password_changed (au_user_id c) req (sv_db s) (sv_db s1) u v" by blast
qed

text \<open>
  The handler's comment says that an empty anchor key leaves the stored one alone.  It does not: the
  statement writes the empty text over it, so the credential has no wrapped anchor key any more.
\<close>

lemma empty_anchor_key_erases:
  assumes "distinct (map u_id (db_users (sv_db s)))"
    and "route_update_wrapped_key env c (Some req) s = (Inr (), s1)" and "wq_wrapped_anchor_key req = []"
  shows "\<forall>cr\<in>set (db_credentials (sv_db s1)). c_credential_id cr = wq_credential_id req \<and> c_user_id cr = au_user_id c
    \<longrightarrow> c_wrapped_anchor_key cr = []"
  using wrapped_key_update_ok(2) [OF assms(1,2)] assms(3)
  by (auto simp: password_changed_def update_rows_def rewrapped_def)

text \<open>C18: A password change (new wrapped keys, primary and anchor, for a credential) goes through only while no
  add-credential challenge of the user is open and with a well-formed anchor envelope; it stores the new keys on the
  named credential of the calling, active user with the epoch of the account, which is one more than before when the
  request advances it; no other credential changes, so with an advance every other one that was current or stale is
  now stale.  A request without an anchor key is another case (\<open>empty_anchor_key_erases\<close>).\<close>

theorem password_change_settles:
  assumes "distinct (map u_id (db_users (sv_db s)))"
    and "wq_wrapped_anchor_key req \<noteq> []" and "route_update_wrapped_key env c (Some req) s = (Inr (), s1)"
  shows "(\<forall>ch\<in>set (db_challenges (sv_db s)). ch_user_id ch = au_user_id c \<and> ch_kind ch = ''add-credential'' \<and> ch_used_at ch = None
       \<longrightarrow> ch_expires_at ch < unix_seconds (au_clock c 0))
     \<and> validate_wrapped_anchor_envelope (wq_wrapped_anchor_key req) = Inr ()
     \<and> (\<exists>u v. password_changed (au_user_id c) req (sv_db s) (sv_db s1) u v
       \<and> (wq_advance_epoch req \<longrightarrow> (\<forall>cr\<in>set (db_credentials (sv_db s1)). c_user_id cr = au_user_id c
            \<and> c_credential_id cr \<noteq> wq_credential_id req \<and> 0 < c_wrapped_key_epoch cr
            \<and> c_wrapped_key_epoch cr \<le> u_wrapped_key_epoch u \<longrightarrow> wrapped_key_stale (user_of_row v) cr)))"
proof -
  note ok = wrapped_key_update_ok [OF assms(1,3)]
  from ok(2) obtain u v where pc: "password_changed (au_user_id c) req (sv_db s) (sv_db s1) u v" by blast
  then have "wrapped_key_stale (user_of_row v) cr"
    if "wq_advance_epoch req" "c_credential_id cr \<noteq> wq_credential_id req" "0 < c_wrapped_key_epoch cr"
      "c_wrapped_key_epoch cr \<le> u_wrapped_key_epoch u" for cr
    using that by (simp add: wrapped_key_stale_def user_of_row_def password_changed_def)
  with ok(1,3) pc assms(2) show ?thesis by blast
qed

section \<open>A login and a password change\<close>

definition sample_login_user :: user_row where
  "sample_login_user = (hd (db_users sample_key_db))\<lparr>u_webauthn_user_id := ''aA''\<rparr>"

definition sample_login_credential :: credential_row where
  "sample_login_credential = \<lparr>c_id = ''row'', c_user_id = ''alice'', c_credential_id = ''Yw'', c_display_name = [],
     c_public_key = ''kpk'', c_sign_count = 7, c_wrapped_primary_key = ''wpk'', c_wrapped_anchor_key = ''wak'',
     c_attestation_payload = [], c_attestation_signature_es384 = [], c_attestation_signature_mldsa87 = [],
     c_wrapped_key_epoch = 1, c_created_at = 5, c_last_used_at = 5\<rparr>"

definition sample_login_server :: server where
  "sample_login_server = new_server (empty_database\<lparr>db_users := [sample_login_user],
     db_credentials := [sample_login_credential],
     db_challenges := [\<lparr>ch_id = ''c1'', ch_kind = ''login'', ch_user_id = [], ch_challenge = ''x'', ch_expires_at = 400,
       ch_used_at = None\<rparr>],
     db_challenge_payloads := [\<lparr>cp_challenge_id = ''c1'', cp_session_data = ''x''\<rparr>]\<rparr>)"

lemma sample_login_succeeds:
  "is_ok (fst (route_login_finish sample_auth_env (sample_auth_call []) (Some (''c1'', ''{}'')) sample_login_server))"
  by code_simp

theorem login_sound_witness:
  "\<exists>u normalized session. assertion_verified sample_auth_env session normalized (sv_db sample_login_server) u
     \<and> (\<exists>resp s1. route_login_finish sample_auth_env (sample_auth_call []) (Some (''c1'', ''{}'')) sample_login_server = (Inr resp, s1)
          \<and> si_user_id (lr_session resp) = u_id u)"
proof -
  obtain resp s1 where
    "route_login_finish sample_auth_env (sample_auth_call []) (Some (''c1'', ''{}'')) sample_login_server = (Inr resp, s1)"
    using sample_login_succeeds unfolding is_ok_iff by (metis prod.collapse)
  with login_sound [OF this] show ?thesis by blast
qed

text \<open>The envelope of the lines \<open>ciphertext=AA\<close>, \<open>nonce=AAAAAAAAAAAAAAAA\<close> and \<open>v=1\<close>.\<close>

definition sample_anchor_envelope :: string where
  "sample_anchor_envelope = ''Y2lwaGVydGV4dD1BQQpub25jZT1BQUFBQUFBQUFBQUFBQUFBCnY9MQ''"

lemma sample_envelope_accepted: "validate_wrapped_anchor_envelope sample_anchor_envelope = Inr ()" "sample_anchor_envelope \<noteq> []"
proof -
  have "raw_url_decode ''AAAAAAAAAAAAAAAA'' = Some (replicate 12 CHR 0x00)" "raw_url_decode ''AA'' = Some [CHR 0x00]"
    by code_simp+
  moreover have enc: "sample_anchor_envelope = raw_url_encode (''ciphertext='' @ ''AA'' @ CHR 0x0A # ''nonce='' @ ''AAAAAAAAAAAAAAAA'' @ CHR 0x0A # ''v=1'')"
    by code_simp
  have "raw_url_decode sample_anchor_envelope =
      Some (''ciphertext='' @ ''AA'' @ CHR 0x0A # ''nonce='' @ ''AAAAAAAAAAAAAAAA'' @ CHR 0x0A # ''v=1'')"
    unfolding enc by (rule raw_decode_encode)
  ultimately show "validate_wrapped_anchor_envelope sample_anchor_envelope = Inr ()"
    unfolding wrapped_anchor_exact
    by - (rule exI [of _ "''AA''"], rule exI [of _ "''AAAAAAAAAAAAAAAA''"], rule exI [of _ "replicate 12 CHR 0x00"], simp)
  show "sample_anchor_envelope \<noteq> []" by (simp add: sample_anchor_envelope_def)
qed

definition sample_password_change :: update_wrapped_key_request where
  "sample_password_change = \<lparr>wq_credential_id = ''Yw'', wq_wrapped_primary_key = ''new'', wq_wrapped_anchor_key = sample_anchor_envelope,
     wq_advance_epoch = True\<rparr>"

lemma sample_rewrap_succeeds:
  "is_ok (fst (db_transaction (update_wrapped_key sample_auth_env (sample_auth_call ''alice'') sample_password_change)
     (sv_db sample_login_server)))"
  by code_simp

lemma sample_password_succeeds:
  "is_ok (fst (route_update_wrapped_key sample_auth_env (sample_auth_call ''alice'') (Some sample_password_change) sample_login_server))"
proof -
  have fields: "wq_credential_id sample_password_change = ''Yw''" "wq_wrapped_anchor_key sample_password_change = sample_anchor_envelope"
    "au_user_id (sample_auth_call ''alice'') = ''alice''"
    by (simp_all add: sample_password_change_def sample_auth_call_def)
  show ?thesis
    using sample_rewrap_succeeds sample_envelope_accepted
    by (auto simp: route_update_wrapped_key_def require_user_session_def go_require_def go_bind_def fields or_bad_request_def
        on_db_def is_ok_def split: prod.splits sum.splits)
qed

theorem password_change_settles_witness:
  "\<exists>(s1 :: server) u v. password_changed ''alice'' sample_password_change (sv_db sample_login_server) (sv_db s1) u v"
proof -
  obtain x s1 where r: "route_update_wrapped_key sample_auth_env (sample_auth_call ''alice'') (Some sample_password_change) sample_login_server = (Inr x, s1)"
    using sample_password_succeeds unfolding is_ok_iff by (metis prod.collapse)
  have d: "distinct (map u_id (db_users (sv_db sample_login_server)))"
    by (simp add: sample_login_server_def new_server_def sample_login_user_def)
  have ne: "wq_wrapped_anchor_key sample_password_change \<noteq> []"
    using sample_envelope_accepted(2) by (simp add: sample_password_change_def)
  from r have "route_update_wrapped_key sample_auth_env (sample_auth_call ''alice'') (Some sample_password_change) sample_login_server = (Inr (), s1)"
    by simp
  from password_change_settles [OF d ne this]
  have "\<exists>u v. password_changed (au_user_id (sample_auth_call ''alice'')) sample_password_change
     (sv_db sample_login_server) (sv_db s1) u v" by blast
  then show ?thesis unfolding sample_auth_call_def by (simp only: auth_call_context.simps) blast
qed

text \<open>The sign count check lets an authenticator that already counted report zero.\<close>

lemma zero_sign_count_accepted:
  assumes "stored \<in> set (wu_credentials wu)" and "wc_id stored = wc_id cred" and "wc_sign_count cred = 0"
  shows "validate_authenticator_sign_count wu cred = Inr ()"
  using assms
  by (auto simp: validate_authenticator_sign_count_def find_None_iff split: option.split)

end
