(* ===== verification/Spec2Isabelle.thy ===== *)
theory Spec2Isabelle
  imports Backup_Samples Edit_Samples Routing Integrity_Check Go_Package_Properties Auth_Properties Signing_Key_Properties Api_Properties Stream_Properties Webhook Login_Properties
begin

text \<open>
  Revaulter: cryptographic operations that a user approves in the browser.

  The parts of the program.  A client (a command line tool or the Go package) asks the server
  for an operation (encrypt, decrypt, sign) with a request key.  The server stores the
  request, which is encrypted for the user, notifies the user's browser, and lets the client
  wait in a long poll.  The browser, in which the user has logged in with a passkey, holds
  the primary key; it decrypts the request, computes the answer, encrypts it for the client
  and confirms the request.  The server hands the answer out once and forgets it.  The server
  is not trusted with keys: a hybrid anchor (ES384 and ML-DSA-87) signs the user's request
  encryption keys, every credential and every published signing key, and clients pin the
  anchor on first contact.

  Where the parts are.  Strings are byte lists, times nanoseconds, 64-bit integers are
  \<open>int\<close> with \<open>in_int64\<close> or an explicit wrap-around where overflow can happen.  A Go
  function with an error result is a function of type \<open>go\<close> (Rv_Prelude): state in, result
  or error and state out.

  Rv_Prelude, Go_Strings, Go_Base64: the shared vocabulary, and what the program uses of
  strings, strconv and encoding/base64.

  Sql_Table, Database (src/internal/db): tables, statements, transactions with roll-back,
  scripted statement failures.  The tables are the record \<open>database\<close>.

  Request_Store, Request_Lifecycle (src/internal/db/requests.go): every statement on
  \<open>v2_requests\<close>, the life cycle as a transition relation, single delivery.

  Auth_Store, Auth_Invariants, Auth_Properties (src/internal/db/auth.go): users,
  credentials, challenges; both deletion statements.  Audit_Store (audit.go of both
  packages): the audit log and its paging.  Signing_Key_Store (signing_keys.go).

  Protocol_Types, Canonical, Hybrid_Signature, Signing_Jwk (src/internal/protocolv2): wire
  types, canonical bodies, hybrid signatures, public signing keys.

  Broker (src/internal/utils/broker), Server_State, Server_Common (src/internal/server):
  channels, subscriptions, delayed work, error responses, the middlewares.

  Request_Routes, Long_Poll, Creation_Properties (routes-request.go); Api_Routes,
  Api_Properties, Stream_Properties (routes-api.go, routes-audit.go); Signing_Key_Routes,
  Signing_Key_Properties (routes-signing-keys.go); Webauthn_Data, Auth_Routes,
  Auth_Account_Routes, Auth_Route_Properties, Login_Properties (webauthn.go,
  routes-auth.go); Webhook (webhook.go): one definition per handler, in the order of the
  code, and what the handlers guarantee together.

  Client_Trust, Client_Transport, Client_Operations (src/internal/clientcore): the trust
  store, the two encrypted envelopes with the browser's halves, and the client with its
  polling loop.  Client_Polling, Client_Properties, Client_Keys, Client_Samples: termination,
  pinning, anchored keys, round trips through server and browser, and concrete instances.

  Go_Paths, Static_Files (src/internal/server/static.go): the parts of path and net/url that
  the file server uses, and the file server over an arbitrary tree of files.  Routing
  (server.go, middlewares.go, middleware-ratelimit.go): the table of routes with the
  middleware chain of every handler, and what each chain lets through.

  Integrity_Manifest, Integrity_Check (src/internal/integrity): the text codec of the release
  manifest, and the comparison of a running server with a signed release.  The signature
  bundle, JSON, PEM and X.509 are arguments; the server and the transparency log are arbitrary.

  Go_Package, Go_Package_Properties (src/pkg/revaulter): the public package over the client
  core, its options, results and bounds.

  Backup_Reader, Backup_Format, Db_Backup, Backup_Schema (src/internal/db/backup, migrate.go and
  the SQL of src/internal/db/migrations): the checksum reader of a restore, portable values,
  Backup and Restore over tables read and written by column name, the schema of both
  engines and the stored form of an application state.  Backup_Transfer, Backup_Properties,
  Backup_Safety, Backup_Samples: the round trip, also across engines, what any file can do
  (the statements a restore executes are kept in a trace, \<open>bk_sent\<close>), what a backup cannot
  carry over, and concrete instances.  The CBOR library, the effect of a migration script and
  the order in which a SELECT delivers its rows are arguments; the constraint checks of an
  INSERT (\<open>exec_insert\<close>, \<open>store_value\<close>) are a model of the engines.

  Encrypted_File, Edit_Session (src/cmd/edit/cmd, src/internal/cliutil): the files of
  revaulter-edit, the disk they are on, the editing session as a list of events, and the
  commands over the Go package.  Edit_Disk, Edit_Properties, Edit_Safety, Edit_Samples: what
  each call changes, the round trip of a file, what a session saves, what it leaves behind
  and when it comes through, and concrete instances.  The disk is a map from paths to files,
  links and directories; its calls can fail at any point, new files need an existing
  directory, and a rename replaces no directory.

  Interfaces.  Every table is an instance of the locale \<open>sql_table\<close>, interpreted on each
  column set in Database; the canonical bodies of each payload are interpretations of an
  encoding locale in Canonical; the release manifest interprets a codec locale
  in Integrity_Manifest; the client's theorems name their laws explicitly
  (\<open>client_laws\<close>, \<open>transport_laws\<close>).

  What is an argument.  The primitives (hashes, ECDSA, ML-DSA, ECDH, ML-KEM, HKDF, AES-GCM,
  random bytes), JSON, PEM and PKIX codecs, time.ParseDuration, net.ParseIP and
  net.ParseCIDR, the WebAuthn library, the webhook library, the delayed-work queue (its
  calls are recorded with scripted outcomes), session sealing, rate limiters, and all clock
  readings and fresh identifiers.  Hypotheses about them state what their documentation
  says: an encoding decodes to what was encoded, an AEAD opens what it sealed, keys survive
  their encodings (\<open>ecdsa_points_kept\<close>, \<open>keeps_public_keys\<close>, \<open>reads_base64url\<close>).  The
  server a client talks to is an arbitrary function of the request and of all earlier
  requests: nothing is assumed of it.

  Error values.  Sentinel errors that the code inspects are constructors of \<open>go_error\<close>; an
  error that is only reported is \<open>Err_Msg\<close> with a shortened text.

  Termination and bounds.  Every loop of the model is a total function, except the polling
  loop of the client, which is a \<open>partial_function (option)\<close>; \<open>get_result_ends\<close> proves
  that it returns.  Long polls are cut into atomic steps; \<open>system_step\<close> interleaves any
  number of them with arbitrary other work.

  What is not modelled, and why: listed with each component of the manifest.  In short:
  process start, TLS, logging, metrics and telemetry (I/O and wiring); the flags of
  revaulter-cli and its SSH agent; the TypeScript of the browser beyond the transport
  functions; test support and generators.
\<close>

end
